(* ===== verification/Go_Base.thy ===== *)
theory Go_Base
  imports
    Main
    "HOL-Library.List_Lexorder"
    "HOL-Library.Char_ord"
    "HOL-Library.Multiset"
    "HOL-Library.Sublist"
    "HOL-Library.AList"
begin

text \<open>
  The prelude of the development: the fragment of Go and of its standard library that the
  modelled packages use, and the lemma collections the component theories share.

  \<^item> A Go \<open>string\<close> or \<open>[]byte\<close> is a HOL \<open>string\<close> (a list of bytes); \<open><\<close> on strings is the
    bytewise lexicographic order of Go, from \<open>List_Lexorder\<close> and \<open>Char_ord\<close>.
  \<^item> \<open>time.Duration\<close> is a 64-bit signed count of nanoseconds: an \<open>int\<close> whose arithmetic is
    wrapped explicitly with \<open>i64\<close>.
  \<^item> \<open>time.Time\<close> is an \<open>int\<close> of nanoseconds since Go's zero time, so that \<open>time.Time{}\<close> is \<open>0\<close>.
  \<^item> A Go map that is only indexed is a function with the zero value outside its keys; a Go map
    that is iterated is an association list with distinct keys, whose list order stands for
    the unspecified iteration order.
  \<^item> \<open>sort.Slice\<close> is specified by the locale \<open>slice_sort\<close>, because the order of elements that
    the comparison leaves unordered is not documented; Go's own insertion sort (the algorithm
    of \<open>sort.Slice\<close> on at most twelve elements) interprets it.
\<close>

named_theorems go_defs \<open>definitions of the Go fragment that unfold to HOL primitives\<close>

section \<open>Numbers, durations and instants\<close>

type_synonym duration = int
type_synonym gotime = int
type_synonym bytes = string

definition in_i64 :: "int \<Rightarrow> bool" where
  "in_i64 x \<longleftrightarrow> - (2 ^ 63) \<le> x \<and> x < 2 ^ 63"

definition i64 :: "int \<Rightarrow> int" where
  "i64 x = (x + 2 ^ 63) mod 2 ^ 64 - 2 ^ 63"

lemma i64_id [simp]: "in_i64 x \<Longrightarrow> i64 x = x"
  by (simp add: in_i64_def i64_def)

lemma in_i64_i64 [simp]: "in_i64 (i64 x)"
  using pos_mod_bound [of "2 ^ 64" "x + 2 ^ 63"] pos_mod_sign [of "2 ^ 64" "x + 2 ^ 63"]
  by (simp add: in_i64_def i64_def)

lemma in_i64_between:
  assumes "in_i64 a" and "in_i64 b" and "a \<le> x" and "x \<le> b"
  shows "in_i64 x"
  using assms by (simp add: in_i64_def)

lemma in_i64_diff_nonneg: "\<lbrakk> in_i64 a; in_i64 b; 0 \<le> a; 0 \<le> b \<rbrakk> \<Longrightarrow> in_i64 (a - b)"
  by (simp add: in_i64_def)

lemma in_i64_0 [simp]: "in_i64 0"
  by (simp add: in_i64_def)

text \<open>Integer division truncates towards zero.\<close>

definition go_div :: "int \<Rightarrow> int \<Rightarrow> int" where
  "go_div a b = sgn a * sgn b * (\<bar>a\<bar> div \<bar>b\<bar>)"

lemma go_div_nonneg [simp]: "0 \<le> a \<Longrightarrow> 0 < b \<Longrightarrow> go_div a b = a div b"
  by (cases "a = 0") (simp_all add: go_div_def)

text \<open>\<open>Duration.Abs\<close>: the least value has no positive counterpart and gives the greatest.\<close>

definition duration_Abs :: "duration \<Rightarrow> duration" where
  "duration_Abs d = (if 0 \<le> d then d else if d = - (2 ^ 63) then 2 ^ 63 - 1 else - d)"

lemma duration_Abs_nonneg: "in_i64 d \<Longrightarrow> 0 \<le> duration_Abs d \<and> in_i64 (duration_Abs d)"
  by (auto simp: duration_Abs_def in_i64_def)

lemma duration_Abs_eq: "in_i64 d \<Longrightarrow> d \<noteq> - (2 ^ 63) \<Longrightarrow> duration_Abs d = \<bar>d\<bar>"
  by (auto simp: duration_Abs_def)

definition time_IsZero :: "gotime \<Rightarrow> bool" where
  [go_defs]: "time_IsZero t \<longleftrightarrow> t = 0"

text \<open>\<open>t.Sub(u)\<close> saturates at the bounds of a duration.\<close>

definition time_Sub :: "gotime \<Rightarrow> gotime \<Rightarrow> duration" where
  "time_Sub t u = max (- (2 ^ 63)) (min (2 ^ 63 - 1) (t - u))"

lemma time_Sub_ge: "c \<le> time_Sub t u \<Longrightarrow> - (2 ^ 63) < c \<Longrightarrow> c \<le> t - u"
  by (auto simp: time_Sub_def)

lemma time_Sub_less: "time_Sub t u < c \<Longrightarrow> c < 2 ^ 63 \<Longrightarrow> t - u < c"
  by (auto simp: time_Sub_def split: if_splits)

definition Nanosecond :: duration where [go_defs]: "Nanosecond = 1"
definition Millisecond :: duration where [go_defs]: "Millisecond = 1000000"
definition Second :: duration where [go_defs]: "Second = 1000000000"
definition Minute :: duration where [go_defs]: "Minute = 60000000000"
definition Hour :: duration where [go_defs]: "Hour = 3600000000000"

section \<open>Strings\<close>

fun strings_Contains :: "string \<Rightarrow> string \<Rightarrow> bool" where
  "strings_Contains s sub \<longleftrightarrow> prefix sub s \<or> (case s of [] \<Rightarrow> False | _ # t \<Rightarrow> strings_Contains t sub)"

declare strings_Contains.simps [simp del]

lemma strings_Contains_iff: "strings_Contains s sub \<longleftrightarrow> (\<exists>u v. s = u @ sub @ v)"
proof (induction s)
  case Nil
  show ?case by (subst strings_Contains.simps) (auto simp: prefix_def)
next
  case (Cons c s)
  have "(\<exists>u v. c # s = u @ sub @ v) \<longleftrightarrow> prefix sub (c # s) \<or> (\<exists>u v. s = u @ sub @ v)"
    by (auto simp: prefix_def Cons_eq_append_conv)
  with Cons show ?case by (subst strings_Contains.simps) simp
qed

definition strings_ContainsAny :: "string \<Rightarrow> string \<Rightarrow> bool" where
  "strings_ContainsAny s cs \<longleftrightarrow> (\<exists>c \<in> set s. c \<in> set cs)"

text \<open>The UTF-8 encodings of the code points for which \<open>unicode.IsSpace\<close> holds.\<close>

definition space_runes :: "string list" where
  "space_runes =
     [[CHR 0x09], [CHR 0x0A], [CHR 0x0B], [CHR 0x0C], [CHR 0x0D], [CHR 0x20],
      [CHR 0xC2, CHR 0x85], [CHR 0xC2, CHR 0xA0], [CHR 0xE1, CHR 0x9A, CHR 0x80],
      [CHR 0xE2, CHR 0x80, CHR 0x80], [CHR 0xE2, CHR 0x80, CHR 0x81],
      [CHR 0xE2, CHR 0x80, CHR 0x82], [CHR 0xE2, CHR 0x80, CHR 0x83],
      [CHR 0xE2, CHR 0x80, CHR 0x84], [CHR 0xE2, CHR 0x80, CHR 0x85],
      [CHR 0xE2, CHR 0x80, CHR 0x86], [CHR 0xE2, CHR 0x80, CHR 0x87],
      [CHR 0xE2, CHR 0x80, CHR 0x88], [CHR 0xE2, CHR 0x80, CHR 0x89],
      [CHR 0xE2, CHR 0x80, CHR 0x8A], [CHR 0xE2, CHR 0x80, CHR 0xA8],
      [CHR 0xE2, CHR 0x80, CHR 0xA9], [CHR 0xE2, CHR 0x80, CHR 0xAF],
      [CHR 0xE2, CHR 0x81, CHR 0x9F], [CHR 0xE3, CHR 0x80, CHR 0x80]]"

function trim_prefixes :: "string list \<Rightarrow> string \<Rightarrow> string" where
  "trim_prefixes ws s =
     (case find (\<lambda>w. w \<noteq> [] \<and> prefix w s) ws of
        None \<Rightarrow> s
      | Some w \<Rightarrow> trim_prefixes ws (drop (length w) s))"
  by pat_completeness auto
termination
  by (relation "measure (\<lambda>(ws, s). length s)")
    (auto simp: find_Some_iff prefix_def)

declare trim_prefixes.simps [simp del]

lemma trim_prefixes_none:
  assumes "\<And>w. w \<in> set ws \<Longrightarrow> w = [] \<or> \<not> prefix w s"
  shows "trim_prefixes ws s = s"
proof -
  from assms have "find (\<lambda>w. w \<noteq> [] \<and> prefix w s) ws = None" by (auto simp: find_None_iff)
  then show ?thesis by (subst trim_prefixes.simps) simp
qed

lemma trim_prefixes_no_prefix:
  "w \<in> set ws \<Longrightarrow> w \<noteq> [] \<Longrightarrow> \<not> prefix w (trim_prefixes ws s)"
proof (induction ws s rule: trim_prefixes.induct)
  case (1 ws s)
  show ?case
  proof (cases "find (\<lambda>w. w \<noteq> [] \<and> prefix w s) ws")
    case None
    then have "trim_prefixes ws s = s" by (subst trim_prefixes.simps) simp
    with None "1.prems" show ?thesis by (auto simp: find_None_iff)
  next
    case (Some v)
    with 1 show ?thesis by (subst trim_prefixes.simps) simp
  qed
qed

lemma trim_prefixes_idem: "trim_prefixes ws (trim_prefixes ws s) = trim_prefixes ws s"
  by (rule trim_prefixes_none) (use trim_prefixes_no_prefix in blast)

definition strings_TrimSpace :: "string \<Rightarrow> string" where
  "strings_TrimSpace s =
     rev (trim_prefixes (map rev space_runes) (rev (trim_prefixes space_runes s)))"

lemma trim_prefixes_suffix: "suffix (trim_prefixes ws s) s"
proof (induction ws s rule: trim_prefixes.induct)
  case (1 ws s)
  show ?case
    by (subst trim_prefixes.simps)
      (auto split: option.splits intro: suffix_order.trans [OF "1.IH" suffix_drop])
qed

lemma strings_TrimSpace_length: "length (strings_TrimSpace s) \<le> length s"
proof -
  have "length (trim_prefixes ws t) \<le> length t" for ws t
    using trim_prefixes_suffix suffix_length_le by blast
  from this [of "map rev space_runes"] this [of space_runes s] show ?thesis
    by (fastforce simp: strings_TrimSpace_def intro: order_trans)
qed

text \<open>
  The fields of \<open>net/url.URL\<close> the sources read. The parser itself is not defined here: the
  operations that call \<open>url.Parse\<close> take it as an argument of type \<open>url_parser\<close> (\<open>None\<close> is the
  error result), so that what is proved of them holds for every version of the parser.
\<close>

record URL =
  u_Scheme :: string
  u_Opaque :: string
  u_User :: bool \<comment> \<open>\<open>User != nil\<close>\<close>
  u_Host :: string
  u_Hostname :: string
  u_Port :: string
  u_Path :: string
  u_Fragment :: string

type_synonym url_parser = "string \<Rightarrow> URL option"

section \<open>Lists and maps\<close>

text \<open>\<open>xs[len(xs)-limit:]\<close> when there are more than \<open>limit\<close> elements.\<close>

definition last_n :: "nat \<Rightarrow> 'a list \<Rightarrow> 'a list" where
  "last_n n xs = drop (length xs - n) xs"

lemma length_last_n [simp]: "length (last_n n xs) = min n (length xs)"
  by (auto simp: last_n_def)

lemma set_last_n: "set (last_n n xs) \<subseteq> set xs"
  by (simp add: last_n_def set_drop_subset)

lemma last_last_n: "n \<noteq> 0 \<Longrightarrow> xs \<noteq> [] \<Longrightarrow> last (last_n n xs) = last xs"
  by (simp add: last_n_def last_drop)

lemma last_n_eq_Nil [simp]: "last_n n xs = [] \<longleftrightarrow> n = 0 \<or> xs = []"
  by (cases xs) (auto simp: last_n_def)

lemma last_n_all: "length xs \<le> n \<Longrightarrow> last_n n xs = xs"
  by (simp add: last_n_def)

lemma sort_key_Nil_iff [simp]: "sort_key f xs = [] \<longleftrightarrow> xs = []"
  by (metis length_0_conv length_sort)

text \<open>A map from keys to slices, filled by \<open>m[k] = append(m[k], x)\<close> in a loop.\<close>

definition append_at :: "('a \<Rightarrow> 'k) \<Rightarrow> 'a \<Rightarrow> ('k \<Rightarrow> 'a list) \<Rightarrow> ('k \<Rightarrow> 'a list)" where
  "append_at key x m = m(key x := m (key x) @ [x])"

lemma fold_append_at: "fold (append_at key) xs m k = m k @ filter (\<lambda>x. key x = k) xs"
  by (induction xs arbitrary: m) (auto simp: append_at_def)

lemma set_AList_update: "set (AList.update k v xs) \<subseteq> insert (k, v) (set xs)"
  by (induction xs) auto

section \<open>The contract of sort.Slice\<close>

text \<open>
  \<open>lt\<close> is a strict weak order on \<open>A\<close>: what the documentation of \<open>sort.Slice\<close> asks of its
  argument.
\<close>

definition strict_weak_on :: "'a set \<Rightarrow> ('a \<Rightarrow> 'a \<Rightarrow> bool) \<Rightarrow> bool" where
  "strict_weak_on A lt \<longleftrightarrow>
     (\<forall>x \<in> A. \<not> lt x x) \<and>
     (\<forall>x \<in> A. \<forall>y \<in> A. \<forall>z \<in> A. lt x y \<longrightarrow> lt y z \<longrightarrow> lt x z) \<and>
     (\<forall>x \<in> A. \<forall>y \<in> A. \<forall>z \<in> A. lt x z \<longrightarrow> lt x y \<or> lt y z)"

lemma strict_weak_on_mono: "strict_weak_on A lt \<Longrightarrow> B \<subseteq> A \<Longrightarrow> strict_weak_on B lt"
  unfolding strict_weak_on_def by blast

locale slice_sort =
  fixes sort_Slice :: "('a \<Rightarrow> 'a \<Rightarrow> bool) \<Rightarrow> 'a list \<Rightarrow> 'a list"
  assumes sort_Slice_mset: "mset (sort_Slice lt xs) = mset xs"
    and sort_Slice_sorted:
      "strict_weak_on (set xs) lt \<Longrightarrow> sorted_wrt (\<lambda>x y. \<not> lt y x) (sort_Slice lt xs)"
begin

lemma sort_Slice_set: "set (sort_Slice lt xs) = set xs"
  by (metis sort_Slice_mset set_mset_mset)

lemma sort_Slice_length: "length (sort_Slice lt xs) = length xs"
  by (metis sort_Slice_mset size_mset)

lemma sort_Slice_Nil_iff: "sort_Slice lt xs = [] \<longleftrightarrow> xs = []"
  by (metis length_0_conv sort_Slice_length)

lemma sort_Slice_hd_in: "xs \<noteq> [] \<Longrightarrow> hd (sort_Slice lt xs) \<in> set xs"
  by (metis list.set_sel(1) sort_Slice_Nil_iff sort_Slice_set)

lemma sort_Slice_hd_least:
  assumes "strict_weak_on (set xs) lt" and "x \<in> set xs"
  shows "\<not> lt x (hd (sort_Slice lt xs))"
proof (cases "sort_Slice lt xs")
  case Nil
  with assms(2) show ?thesis by (simp add: sort_Slice_Nil_iff)
next
  case (Cons h t)
  from sort_Slice_sorted [OF assms(1)] Cons have "\<forall>y \<in> set t. \<not> lt y h" by simp
  moreover from Cons assms(2) have "x = h \<or> x \<in> set t"
    using sort_Slice_set [of lt xs] by auto
  moreover have "\<not> lt h h"
    using assms(1) sort_Slice_set [of lt xs] Cons unfolding strict_weak_on_def by auto
  ultimately show ?thesis using Cons by auto
qed

text \<open>On distinct keys the documented contract leaves one result.\<close>

lemma sort_Slice_key:
  fixes key :: "'a \<Rightarrow> 'k::linorder"
  assumes "distinct (map key xs)"
  shows "sort_Slice (\<lambda>a b. key a < key b) xs = sort_key key xs"
proof (rule properties_for_sort_key [symmetric])
  let ?s = "sort_Slice (\<lambda>a b. key a < key b) xs"
  show "mset ?s = mset xs" by (rule sort_Slice_mset)
  have "strict_weak_on (set xs) (\<lambda>a b. key a < key b)"
    by (auto simp: strict_weak_on_def)
  from sort_Slice_sorted [OF this] show "sorted (map key ?s)"
    by (simp add: sorted_map sorted_wrt_map not_less)
  have dist: "distinct (map key ?s)"
  proof -
    have "mset (map key ?s) = mset (map key xs)" by (simp add: sort_Slice_mset)
    then show ?thesis using assms mset_eq_imp_distinct_iff by blast
  qed
  show "filter (\<lambda>x. key k = key x) ?s = filter (\<lambda>x. key k = key x) xs" if "k \<in> set ?s" for k
  proof -
    have "filter (\<lambda>x. key k = key x) ys = [k]" if "distinct (map key ys)" "k \<in> set ys" for ys
      using that by (induction ys) (auto simp: filter_empty_conv, metis image_eqI)
    moreover have "k \<in> set xs" using that sort_Slice_set by simp
    ultimately show ?thesis using that dist assms by simp
  qed
qed

end

text \<open>
  Go's \<open>insertionSort_func\<close>: element \<open>i\<close> moves left past every element it is less than. The
  sorted prefix is kept reversed, so that the element is compared with its left neighbour first.
\<close>

fun insert_left :: "('a \<Rightarrow> 'a \<Rightarrow> bool) \<Rightarrow> 'a \<Rightarrow> 'a list \<Rightarrow> 'a list" where
  "insert_left lt x [] = [x]"
| "insert_left lt x (y # ys) = (if lt x y then y # insert_left lt x ys else x # y # ys)"

definition insertionSort :: "('a \<Rightarrow> 'a \<Rightarrow> bool) \<Rightarrow> 'a list \<Rightarrow> 'a list" where
  "insertionSort lt xs = rev (fold (insert_left lt) xs [])"

lemma mset_insert_left: "mset (insert_left lt x ys) = add_mset x (mset ys)"
  by (induction ys) auto

lemma mset_fold_insert_left: "mset (fold (insert_left lt) xs acc) = mset xs + mset acc"
  by (induction xs arbitrary: acc) (auto simp: mset_insert_left)

lemma set_insert_left: "set (insert_left lt x ys) = insert x (set ys)"
  by (metis mset_insert_left set_mset_add_mset_insert set_mset_mset)

lemma sorted_insert_left:
  assumes "strict_weak_on (insert x (set ys)) lt" and "sorted_wrt (\<lambda>a b. \<not> lt a b) ys"
  shows "sorted_wrt (\<lambda>a b. \<not> lt a b) (insert_left lt x ys)"
  using assms
proof (induction ys)
  case (Cons y ys)
  have sw: "strict_weak_on (insert x (set ys)) lt"
    using Cons.prems(1) by (rule strict_weak_on_mono) auto
  show ?case
  proof (cases "lt x y")
    case True
    have "\<not> lt y x"
      using True Cons.prems(1) unfolding strict_weak_on_def by (meson insertI1 list.set_intros(1) insertI2)
    with True Cons.IH [OF sw] Cons.prems(2) show ?thesis by (auto simp: set_insert_left)
  next
    case False
    have "\<not> lt x z" if "z \<in> set ys" for z
    proof
      assume "lt x z"
      with that Cons.prems(1) have "lt x y \<or> lt y z"
        unfolding strict_weak_on_def by (meson insertI1 list.set_intros insertI2)
      with False Cons.prems(2) that show False by auto
    qed
    with False Cons.prems(2) show ?thesis by auto
  qed
qed simp

lemma sorted_fold_insert_left:
  assumes "strict_weak_on (set xs \<union> set acc) lt" and "sorted_wrt (\<lambda>a b. \<not> lt a b) acc"
  shows "sorted_wrt (\<lambda>a b. \<not> lt a b) (fold (insert_left lt) xs acc)"
  using assms
proof (induction xs arbitrary: acc)
  case (Cons x xs)
  have "strict_weak_on (insert x (set acc)) lt"
    using Cons.prems(1) by (rule strict_weak_on_mono) auto
  with Cons.prems(2) have "sorted_wrt (\<lambda>a b. \<not> lt a b) (insert_left lt x acc)"
    by (rule sorted_insert_left [rotated])
  moreover have "strict_weak_on (set xs \<union> set (insert_left lt x acc)) lt"
    using Cons.prems(1) by (rule strict_weak_on_mono) (auto simp: set_insert_left)
  ultimately show ?case using Cons.IH by simp
qed simp

interpretation go_insertion: slice_sort insertionSort
proof
  fix lt :: "'a \<Rightarrow> 'a \<Rightarrow> bool" and xs
  show "mset (insertionSort lt xs) = mset xs"
    by (simp add: insertionSort_def mset_fold_insert_left)
  assume "strict_weak_on (set xs) lt"
  then show "sorted_wrt (\<lambda>x y. \<not> lt y x) (insertionSort lt xs)"
    using sorted_fold_insert_left [of xs "[]" lt]
    by (simp add: insertionSort_def sorted_wrt_rev)
qed

section \<open>Labelled transition systems\<close>

text \<open>
  The event loops are transition systems: an initial-state predicate and a labelled step. An
  inductive invariant holds in every reachable state.
\<close>

inductive reachable :: "('s \<Rightarrow> bool) \<Rightarrow> ('s \<Rightarrow> 'e \<Rightarrow> 's \<Rightarrow> bool) \<Rightarrow> 's \<Rightarrow> bool"
  for init :: "'s \<Rightarrow> bool" and step :: "'s \<Rightarrow> 'e \<Rightarrow> 's \<Rightarrow> bool" where
  reach_init: "init s \<Longrightarrow> reachable init step s"
| reach_step: "reachable init step s \<Longrightarrow> step s e t \<Longrightarrow> reachable init step t"

locale inductive_invariant =
  fixes init :: "'s \<Rightarrow> bool" and step :: "'s \<Rightarrow> 'e \<Rightarrow> 's \<Rightarrow> bool" and inv :: "'s \<Rightarrow> bool"
  assumes inv_init: "init s \<Longrightarrow> inv s"
    and inv_step: "inv s \<Longrightarrow> step s e t \<Longrightarrow> inv t"
begin

lemma inv_reachable: "reachable init step s \<Longrightarrow> inv s"
  by (induction rule: reachable.induct) (auto intro: inv_init inv_step)

end

end
