(* ===== verification/Monitor_Types.thy ===== *)
theory Monitor_Types
  imports Go_Base
begin

text \<open>
  The data of the node monitor (\<open>src/monitor/model.go\<close>): latency samples, stream samples, group
  states, decisions, alerts and batches, with the methods of \<open>StreamSample\<close>. The throughput of a
  pull is computed in IEEE double precision by the source; \<open>fl64\<close> is correct rounding to 53 bits.
\<close>

datatype Outcome = OutcomeError | OutcomeSuccess | OutcomeTimeout

record Sample =
  s_Group :: string
  s_Proxy :: string
  s_URL :: string
  s_FinishedAt :: gotime
  s_Latency :: duration
  s_Outcome :: Outcome

datatype StreamOutcome =
  StreamSuccess | StreamReset | StreamStall | StreamTruncated | StreamTLS | StreamTimeout | StreamError

record StreamSample =
  ss_Proxy :: string
  ss_URL :: string
  ss_FinishedAt :: gotime
  ss_Bytes :: int
  ss_FirstByte :: duration
  ss_Duration :: duration
  ss_Outcome :: StreamOutcome

definition Completed :: "StreamSample \<Rightarrow> bool" where
  "Completed s \<longleftrightarrow> ss_Outcome s = StreamSuccess"

subsection \<open>Double-precision arithmetic on non-negative values\<close>

text \<open>
  A non-negative double is a fraction of non-negative integers. \<open>fl64 n d\<close> rounds \<open>n / d\<close> to the
  nearest value with a 53-bit significand, ties to even. The values that occur (byte counts and
  seconds of a 64-bit duration) are far from the bounds of the exponent, so neither overflow nor
  subnormal numbers arise.
\<close>

function bit_len :: "int \<Rightarrow> int" where
  "bit_len n = (if n \<le> 0 then 0 else 1 + bit_len (n div 2))"
  by pat_completeness auto
termination
  by (relation "measure nat") auto

declare bit_len.simps [simp del]

definition round_half_even :: "int \<Rightarrow> int \<Rightarrow> int" where
  "round_half_even n d =
     (let q = n div d; r = n mod d in
      if 2 * r < d then q else if d < 2 * r then q + 1 else if even q then q else q + 1)"

definition fl64 :: "int \<Rightarrow> int \<Rightarrow> int \<times> int" where
  "fl64 n d =
     (if n = 0 then (0, 1)
      else
        let e0 = bit_len n - bit_len d - 53;
            up = (\<lambda>e. if e \<le> 0 then n * 2 ^ nat (- e) else n);
            dn = (\<lambda>e. if e \<le> 0 then d else d * 2 ^ nat e);
            e = (if up e0 < 2 ^ 53 * dn e0 then e0 else e0 + 1);
            q = round_half_even (up e) (dn e)
        in if 0 \<le> e then (q * 2 ^ nat e, 1) else (q, 2 ^ nat (- e)))"

definition seconds64 :: "duration \<Rightarrow> int \<times> int" where
  "seconds64 d =
     (let (sn, sd) = fl64 (go_div d 1000000000) 1;
          (fn, fd) = fl64 (d - 1000000000 * go_div d 1000000000) 1;
          (qn, qd) = fl64 fn (fd * 1000000000)
      in fl64 (sn * qd + qn * sd) (sd * qd))"

text \<open>
  Converting a double outside the range of \<open>int64\<close> is implementation-specific; the result on
  amd64 is the least integer. The sign of the byte count is carried separately.
\<close>

definition int64_of_float :: "int \<Rightarrow> int \<times> int \<Rightarrow> int" where
  "int64_of_float sign x =
     (let t = sign * (fst x div snd x) in if in_i64 t then t else - (2 ^ 63))"

definition Throughput :: "StreamSample \<Rightarrow> int" where
  "Throughput s =
     (if ss_Duration s \<le> 0 then 0
      else
        let b = fl64 \<bar>ss_Bytes s\<bar> 1;
            d = seconds64 (ss_Duration s)
        in int64_of_float (sgn (ss_Bytes s)) (fl64 (fst b * snd d) (snd b * fst d)))"

record StreamStability =
  st_Proxy :: string
  st_Samples :: int
  st_Completed :: int
  st_MedianThroughput :: int

record Decision =
  d_Switch :: bool
  d_LowerLatency :: bool
  d_Group :: string
  d_Old :: string
  d_New :: string
  d_Reason :: string
  d_Evidence :: "Sample list"
  d_Streams :: "StreamSample list"

record GroupState =
  g_Group :: string
  g_Selected :: string
  g_Proxies :: "string list"
  g_ProbeEnabled :: bool
  g_AutomationEnabled :: bool
  g_ManualOverride :: bool
  g_SwitchInFlight :: bool
  g_LastSwitchAt :: gotime

record AlertState =
  a_HighLatency :: bool

datatype AlertTransition = AlertNoChange | AlertHighLatency | AlertRecovered

record AlertEvent =
  e_Transition :: AlertTransition
  e_Group :: string
  e_Threshold :: duration
  e_Evidence :: "Sample list"

record Stability =
  b_Samples :: int
  b_Failures :: int
  b_Median :: duration
  b_Jitter :: duration

record ProxyStability =
  ps_Group :: string
  ps_Proxy :: string
  ps_Stability :: Stability

record Batch =
  bt_FinishedAt :: gotime
  bt_Samples :: "Sample list"
  bt_Streams :: "StreamSample list"
  bt_Decisions :: "Decision list"
  bt_Alerts :: "AlertEvent list"
  bt_Stability :: "ProxyStability list"
  bt_StreamStability :: "StreamStability list"

lemma Throughput_in_i64: "in_i64 (Throughput s)"
  by (auto simp: Throughput_def int64_of_float_def Let_def in_i64_def)

end
