(* ===== verification/Monitor_Policy.thy ===== *)
theory Monitor_Policy
  imports Monitor_Types
begin

text \<open>
  The switching policy of the monitor (\<open>src/monitor/policy.go\<close>): the policy record and its
  validation, the guard, the latency decision \<open>Decide\<close>, probe-window statistics and the latency
  alert. The definitions come first, in the order of the source; then the lemmas on windows
  (locale \<open>timed_window\<close>, shared with the stream windows), on medians (no overflow), on the ranking
  \<open>steadier\<close> (a linear order), and the properties of \<open>Decide\<close> and of the alert.
\<close>

section \<open>Policies\<close>

definition SwitchFailover :: string where "SwitchFailover = ''failover''"
definition SwitchLowestLatency :: string where "SwitchLowestLatency = ''lowest_latency''"
definition SwitchSteadyStream :: string where "SwitchSteadyStream = ''steady_stream''"

definition SwitchPolicies :: "string list" where
  "SwitchPolicies = [SwitchLowestLatency, SwitchFailover, SwitchSteadyStream]"

lemmas switch_policy_defs = SwitchFailover_def SwitchLowestLatency_def SwitchSteadyStream_def

definition MinStreamInterval :: duration where "MinStreamInterval = 4 * Minute"
definition StreamCandidates :: nat where "StreamCandidates = 3"
definition StreamPullCap :: nat where "StreamPullCap = 8"
definition DefaultStreamURL :: string where
  "DefaultStreamURL = ''https://speed.cloudflare.com/__down?bytes=262144''"

definition MonitorWindowMin :: int where "MonitorWindowMin = 2"
definition MonitorWindowMax :: int where "MonitorWindowMax = 20"

record Policy =
  p_TestURL :: string
  p_SwitchPolicy :: string
  p_Interval :: duration
  p_Timeout :: duration
  p_Concurrency :: int
  p_Threshold :: duration
  p_LatencyAlertThreshold :: duration
  p_WindowSize :: int
  p_MinCandidateSamples :: int
  p_ConsecutiveBadSamples :: int
  p_MaxFailures :: int
  p_MinImprovement :: duration
  p_Cooldown :: duration
  p_Jitter :: duration
  p_StreamURL :: string
  p_StreamInterval :: duration

definition DefaultPolicy :: Policy where
  "DefaultPolicy =
     \<lparr> p_TestURL = ''http://cp.cloudflare.com/generate_204'',
       p_SwitchPolicy = SwitchLowestLatency,
       p_Interval = 1 * Minute,
       p_Timeout = 5 * Second,
       p_Concurrency = 3,
       p_Threshold = 800 * Millisecond,
       p_LatencyAlertThreshold = 250 * Millisecond,
       p_WindowSize = 5,
       p_MinCandidateSamples = 3,
       p_ConsecutiveBadSamples = 3,
       p_MaxFailures = 2,
       p_MinImprovement = 100 * Millisecond,
       p_Cooldown = 5 * Minute,
       p_Jitter = 10 * Second,
       p_StreamURL = DefaultStreamURL,
       p_StreamInterval = 5 * Minute \<rparr>"

definition url_reject_chars :: string where
  "url_reject_chars = [CHR 0x00, CHR 0x0D, CHR 0x0A, CHR ''#'']"

definition ValidPolicyName :: "string \<Rightarrow> bool" where
  "ValidPolicyName name \<longleftrightarrow> name \<in> set SwitchPolicies"

definition ValidStreamURL :: "url_parser \<Rightarrow> string \<Rightarrow> string option" where
  "ValidStreamURL url_Parse raw =
     (case url_Parse raw of
        None \<Rightarrow> Some ''stream URL must use HTTPS without credentials or fragment''
      | Some parsed \<Rightarrow>
          if length raw > 2048 \<or> strings_ContainsAny raw url_reject_chars \<or> u_Scheme parsed \<noteq> ''https''
             \<or> u_Host parsed = '''' \<or> u_User parsed \<or> u_Opaque parsed \<noteq> ''''
          then Some ''stream URL must use HTTPS without credentials or fragment''
          else None)"

text \<open>A result of \<open>None\<close> is the nil error; \<open>Some\<close> carries the text of the error.\<close>

definition Policy_Validate :: "url_parser \<Rightarrow> Policy \<Rightarrow> string option" where
  "Policy_Validate url_Parse p =
     (if (case url_Parse (p_TestURL p) of
            None \<Rightarrow> True
          | Some parsed \<Rightarrow>
              strings_ContainsAny (p_TestURL p) url_reject_chars
              \<or> (u_Scheme parsed \<noteq> ''http'' \<and> u_Scheme parsed \<noteq> ''https'')
              \<or> u_Host parsed = '''' \<or> u_User parsed \<or> u_Fragment parsed \<noteq> '''' \<or> u_Opaque parsed \<noteq> '''')
      then Some ''monitor policy: test URL must use HTTP or HTTPS without credentials or fragment''
      else if \<not> ValidPolicyName (p_SwitchPolicy p)
      then Some ''monitor policy: switch policy must be one of lowest_latency, failover, steady_stream''
      else if p_SwitchPolicy p = SwitchSteadyStream \<and> ValidStreamURL url_Parse (p_StreamURL p) \<noteq> None
      then Some (''monitor policy: '' @ the (ValidStreamURL url_Parse (p_StreamURL p)))
      else if p_SwitchPolicy p = SwitchSteadyStream
              \<and> (p_StreamInterval p < MinStreamInterval \<or> p_StreamInterval p > 24 * Hour)
      then Some ''monitor policy: stream interval must be between 4m and 24h''
      else if p_Interval p \<le> 0
      then Some ''monitor policy: interval must be positive''
      else if p_Timeout p \<le> 0 \<or> p_Timeout p > p_Interval p
      then Some ''monitor policy: timeout must be positive and no greater than interval''
      else if p_Concurrency p < 1 \<or> p_Concurrency p > 64
      then Some ''monitor policy: concurrency must be between 1 and 64''
      else if p_Threshold p \<le> 0 \<or> p_LatencyAlertThreshold p \<le> 0
      then Some ''monitor policy: latency thresholds must be positive''
      else if p_WindowSize p < MonitorWindowMin \<or> p_ConsecutiveBadSamples p < 1
              \<or> p_ConsecutiveBadSamples p > p_WindowSize p
      then Some ''monitor policy: unhealthy sample count must fit within a window of at least 2''
      else if p_MinCandidateSamples p < MonitorWindowMin \<or> p_MinCandidateSamples p > p_WindowSize p
      then Some ''monitor policy: candidate sample count must be between 2 and the window size''
      else if p_MaxFailures p < 1 \<or> p_MaxFailures p > p_WindowSize p
      then Some ''monitor policy: max failures must be between 1 and the window size''
      else if p_MinImprovement p \<le> 0
      then Some ''monitor policy: minimum improvement must be positive''
      else if p_Cooldown p < 0 \<or> p_Jitter p < 0 \<or> p_Jitter p \<ge> p_Interval p
      then Some ''monitor policy: cooldown must be nonnegative and jitter must be nonnegative and less than interval''
      else None)"

section \<open>Windows and their statistics\<close>

definition sampleFailed :: "Sample \<Rightarrow> bool" where
  "sampleFailed sample \<longleftrightarrow> s_Outcome sample \<noteq> OutcomeSuccess \<or> s_Latency sample \<le> 0"

definition unhealthy :: "Sample \<Rightarrow> duration \<Rightarrow> bool" where
  "unhealthy sample threshold \<longleftrightarrow> sampleFailed sample \<or> s_Latency sample > threshold"

definition recent :: "Sample list \<Rightarrow> int \<Rightarrow> Sample list" where
  "recent samples limit =
     (let ordered = sort_key s_FinishedAt samples in
      if limit > 0 \<and> int (length ordered) > limit
      then drop (length ordered - nat limit) ordered
      else ordered)"

definition median :: "duration list \<Rightarrow> duration" where
  "median values =
     (let v = sort values; middle = length v div 2 in
      if length v mod 2 = 1 then v ! middle
      else i64 (v ! (middle - 1) + go_div (i64 (v ! middle - v ! (middle - 1))) 2))"

definition MeasureStability :: "Sample list \<Rightarrow> int \<Rightarrow> Stability" where
  "MeasureStability samples windowSize =
     (let window = recent samples windowSize;
          failures = int (length (filter sampleFailed window));
          latencies = map s_Latency (filter (\<lambda>s. \<not> sampleFailed s) window);
          stats = \<lparr> b_Samples = int (length window), b_Failures = failures, b_Median = 0, b_Jitter = 0 \<rparr>
      in if latencies = [] then stats
         else
           let m = median latencies;
               deviations = map (\<lambda>latency. duration_Abs (i64 (latency - m))) (sort latencies)
           in stats\<lparr> b_Median := m, b_Jitter := median deviations \<rparr>)"

section \<open>Decisions\<close>

definition ReasonManualOverride :: string where "ReasonManualOverride = ''manual override active''"
definition ReasonAutomationDisabled :: string where "ReasonAutomationDisabled = ''automation disabled''"
definition ReasonSwitchInFlight :: string where "ReasonSwitchInFlight = ''switch already in flight''"
definition ReasonCooldown :: string where "ReasonCooldown = ''switch cooldown active''"
definition ReasonAllCandidatesFailed :: string where "ReasonAllCandidatesFailed = ''all candidates failed''"
definition ReasonInsufficientSamples :: string where "ReasonInsufficientSamples = ''insufficient samples''"
definition ReasonSelectedHealthy :: string where "ReasonSelectedHealthy = ''selected proxy is healthy''"
definition ReasonNoBetterCandidate :: string where "ReasonNoBetterCandidate = ''no materially better candidate''"
definition ReasonSwitchCandidate :: string where "ReasonSwitchCandidate = ''materially better candidate''"
definition ReasonSteadierStream :: string where "ReasonSteadierStream = ''steadier HTTPS downloads''"
definition ReasonSelectedStreamsHealthy :: string where
  "ReasonSelectedStreamsHealthy = ''selected node completes its downloads''"

lemmas reason_defs =
  ReasonManualOverride_def ReasonAutomationDisabled_def ReasonSwitchInFlight_def ReasonCooldown_def
  ReasonAllCandidatesFailed_def ReasonInsufficientSamples_def ReasonSelectedHealthy_def
  ReasonNoBetterCandidate_def ReasonSwitchCandidate_def ReasonSteadierStream_def
  ReasonSelectedStreamsHealthy_def

definition guard :: "Policy \<Rightarrow> GroupState \<Rightarrow> gotime \<Rightarrow> string" where
  "guard policy state now =
     (if g_ManualOverride state then ReasonManualOverride
      else if \<not> g_AutomationEnabled state then ReasonAutomationDisabled
      else if g_SwitchInFlight state then ReasonSwitchInFlight
      else if g_LastSwitchAt state > now
              \<or> \<not> time_IsZero (g_LastSwitchAt state)
                 \<and> time_Sub now (g_LastSwitchAt state) < p_Cooldown policy
      then ReasonCooldown
      else '''')"

definition steadier :: "Stability \<Rightarrow> string \<Rightarrow> Stability \<Rightarrow> string \<Rightarrow> bool" where
  "steadier a aName b bName =
     (if b_Failures a \<noteq> b_Failures b then b_Failures a < b_Failures b
      else if b_Median a \<noteq> b_Median b then b_Median a < b_Median b
      else if b_Jitter a \<noteq> b_Jitter b then b_Jitter a < b_Jitter b
      else aName < bName)"

definition allCandidatesFailed :: "string list \<Rightarrow> (string \<Rightarrow> Sample list) \<Rightarrow> int \<Rightarrow> bool" where
  "allCandidatesFailed proxies byProxy windowSize =
     (if proxies = [] then False
      else list_all (\<lambda>proxy.
             let samples = recent (byProxy proxy) windowSize in
             \<not> (samples = [] \<or> \<not> sampleFailed (last samples))) proxies)"

text \<open>The samples of the group that were measured against the configured URL.\<close>

definition groupSamples :: "Policy \<Rightarrow> GroupState \<Rightarrow> Sample list \<Rightarrow> Sample list" where
  "groupSamples policy state samples =
     filter (\<lambda>sample. \<not> (s_Group sample \<noteq> g_Group state \<or> s_Proxy sample = ''''
               \<or> (p_TestURL policy \<noteq> '''' \<and> s_URL sample \<noteq> p_TestURL policy))) samples"

definition samplesByProxy :: "Policy \<Rightarrow> GroupState \<Rightarrow> Sample list \<Rightarrow> string \<Rightarrow> Sample list" where
  "samplesByProxy policy state samples =
     fold (append_at s_Proxy) (groupSamples policy state samples) (\<lambda>_. [])"

text \<open>
  The loop over the window from its newest sample, here the reversed window: it counts unhealthy
  samples and stops at the first healthy one or when \<open>limit\<close> is reached.
\<close>

fun countBad :: "duration \<Rightarrow> int \<Rightarrow> Sample list \<Rightarrow> int \<Rightarrow> int" where
  "countBad threshold limit [] bad = bad"
| "countBad threshold limit (s # ss) bad =
     (if bad < limit \<and> unhealthy s threshold then countBad threshold limit ss (bad + 1) else bad)"

text \<open>
  What the inspection of the selected node gives: a reason to keep it, or the window to compare
  candidates with and whether the node counts as unstable.
\<close>

datatype selection = Keep string | Compare "Sample list" bool

definition inspectSelected :: "Policy \<Rightarrow> Sample list \<Rightarrow> selection" where
  "inspectSelected policy window =
     (let selected = MeasureStability window 0 in
      if p_SwitchPolicy policy = SwitchLowestLatency then
        (if int (length window) < p_MinCandidateSamples policy then Keep ReasonInsufficientSamples
         else Compare window False)
      else if int (length window) < p_ConsecutiveBadSamples policy
              \<and> b_Failures selected < p_MaxFailures policy
      then Keep ReasonInsufficientSamples
      else
        let bad = countBad (p_Threshold policy) (p_ConsecutiveBadSamples policy) (rev window) 0 in
        if bad \<ge> p_ConsecutiveBadSamples policy
        then Compare (drop (length window - nat bad) window) False
        else if b_Failures selected \<ge> p_MaxFailures policy then Compare window True
        else Keep ReasonSelectedHealthy)"

text \<open>
  The checks one candidate passes before it is ranked: its newest probe answered, it has enough
  successful probes, and it beats the selected node in the sense the situation asks for.
\<close>

definition candidateAdmitted ::
  "Policy \<Rightarrow> Stability \<Rightarrow> Stability \<Rightarrow> bool \<Rightarrow> bool \<Rightarrow> Sample list \<Rightarrow> bool" where
  "candidateAdmitted policy selected baseline selectedOffline unstable candidate =
     (if candidate = [] \<or> sampleFailed (last candidate) then False
      else
        let stats = MeasureStability candidate 0 in
        if b_Samples stats - b_Failures stats < p_MinCandidateSamples policy then False
        else if selectedOffline then True
        else if unstable then
          \<not> (b_Failures stats \<ge> b_Failures selected \<or> b_Median stats > p_Threshold policy)
        else
          \<not> (b_Failures stats \<ge> p_MaxFailures policy
             \<or> i64 (b_Median baseline - b_Median stats) < p_MinImprovement policy))"

fun pickBest ::
  "(string \<Rightarrow> bool) \<Rightarrow> (string \<Rightarrow> Stability) \<Rightarrow> string list \<Rightarrow> string \<times> Stability \<Rightarrow> string \<times> Stability" where
  "pickBest admitted stats [] acc = acc"
| "pickBest admitted stats (proxy # proxies) acc =
     pickBest admitted stats proxies
       (if \<not> admitted proxy then acc
        else if fst acc = '''' \<or> steadier (stats proxy) proxy (snd acc) (fst acc)
        then (proxy, stats proxy) else acc)"

text \<open>One turn of the candidate loop: the window of a proxy, its statistics, and whether it is ranked.\<close>

definition candidateWindow :: "Policy \<Rightarrow> GroupState \<Rightarrow> Sample list \<Rightarrow> string \<Rightarrow> Sample list" where
  "candidateWindow policy state samples proxy =
     recent (samplesByProxy policy state samples proxy) (p_WindowSize policy)"

definition candidateStats :: "Policy \<Rightarrow> GroupState \<Rightarrow> Sample list \<Rightarrow> string \<Rightarrow> Stability" where
  "candidateStats policy state samples proxy = MeasureStability (candidateWindow policy state samples proxy) 0"

definition considerCandidate ::
  "Policy \<Rightarrow> GroupState \<Rightarrow> Sample list \<Rightarrow> Stability \<Rightarrow> Stability \<Rightarrow> bool \<Rightarrow> bool \<Rightarrow> string \<Rightarrow> bool" where
  "considerCandidate policy state samples selected baseline selectedOffline unstable proxy \<longleftrightarrow>
     proxy \<noteq> g_Selected state
     \<and> candidateAdmitted policy selected baseline selectedOffline unstable
         (candidateWindow policy state samples proxy)"

definition zeroStability :: Stability where
  "zeroStability = \<lparr> b_Samples = 0, b_Failures = 0, b_Median = 0, b_Jitter = 0 \<rparr>"

definition Decide :: "Policy \<Rightarrow> GroupState \<Rightarrow> Sample list \<Rightarrow> gotime \<Rightarrow> Decision" where
  "Decide policy state samples now =
     (let byProxy = samplesByProxy policy state samples;
          decision = \<lparr> d_Switch = False, d_LowerLatency = False, d_Group = g_Group state,
                       d_Old = g_Selected state, d_New = '''', d_Reason = ReasonInsufficientSamples,
                       d_Evidence = groupSamples policy state samples, d_Streams = [] \<rparr>
      in if guard policy state now \<noteq> '''' then decision\<lparr> d_Reason := guard policy state now \<rparr>
         else if g_Selected state = '''' \<or> g_Proxies state = [] then decision
         else if allCandidatesFailed (g_Proxies state) byProxy (p_WindowSize policy)
         then decision\<lparr> d_Reason := ReasonAllCandidatesFailed \<rparr>
         else
           let window = recent (byProxy (g_Selected state)) (p_WindowSize policy);
               selected = MeasureStability window 0
           in case inspectSelected policy window of
                Keep reason \<Rightarrow> decision\<lparr> d_Reason := reason \<rparr>
              | Compare comparable unstable \<Rightarrow>
                  let baseline = MeasureStability comparable 0;
                      selectedOffline = (b_Failures baseline = b_Samples baseline);
                      best = pickBest
                        (considerCandidate policy state samples selected baseline selectedOffline unstable)
                        (candidateStats policy state samples) (g_Proxies state) ('''', zeroStability)
                  in if fst best = '''' then decision\<lparr> d_Reason := ReasonNoBetterCandidate \<rparr>
                     else decision\<lparr>
                       d_LowerLatency := \<not> selectedOffline \<and> \<not> unstable
                         \<and> b_Samples baseline - b_Failures baseline \<ge> p_MinCandidateSamples policy
                         \<and> \<not> sampleFailed (last comparable),
                       d_Switch := True, d_New := fst best, d_Reason := ReasonSwitchCandidate \<rparr>)"

section \<open>The latency alert\<close>

text \<open>The loop over the proxies: (latest, allHigh, anyRecovered, complete).\<close>

fun scanLatest ::
  "duration \<Rightarrow> (string \<Rightarrow> Sample list) \<Rightarrow> string list
   \<Rightarrow> Sample list \<times> bool \<times> bool \<times> bool \<Rightarrow> Sample list \<times> bool \<times> bool \<times> bool" where
  "scanLatest threshold byProxy [] acc = acc"
| "scanLatest threshold byProxy (proxy # proxies) (latest, allHigh, anyRecovered, complete) =
     (let proxySamples = recent (byProxy proxy) 1 in
      if proxySamples = [] \<or> sampleFailed (hd proxySamples)
      then scanLatest threshold byProxy proxies (latest, allHigh, anyRecovered, False)
      else
        let sample = hd proxySamples in
        if s_Latency sample \<le> threshold
        then scanLatest threshold byProxy proxies (latest @ [sample], False, True, complete)
        else scanLatest threshold byProxy proxies (latest @ [sample], allHigh, anyRecovered, complete))"

definition UpdateLatencyAlert ::
  "Policy \<Rightarrow> GroupState \<Rightarrow> Sample list \<Rightarrow> AlertState \<Rightarrow> AlertState \<times> AlertEvent" where
  "UpdateLatencyAlert policy state samples previous =
     (let event = \<lparr> e_Transition = AlertNoChange, e_Group = g_Group state,
                    e_Threshold = p_LatencyAlertThreshold policy, e_Evidence = [] \<rparr>
      in if g_Proxies state = [] then (previous, event)
         else
           let (latest, allHigh, anyRecovered, complete) =
                 scanLatest (p_LatencyAlertThreshold policy) (samplesByProxy policy state samples)
                   (g_Proxies state) ([], True, False, True);
               event = event\<lparr> e_Evidence := latest \<rparr>
           in if a_HighLatency previous \<and> anyRecovered
              then (\<lparr> a_HighLatency = False \<rparr>, event\<lparr> e_Transition := AlertRecovered \<rparr>)
              else if complete \<and> allHigh \<and> \<not> a_HighLatency previous
              then (\<lparr> a_HighLatency = True \<rparr>, event\<lparr> e_Transition := AlertHighLatency \<rparr>)
              else (previous, event))"

section \<open>A concrete group\<close>

text \<open>Two nodes with three probes each; the witnesses of the theorems evaluate the model on it.\<close>

definition exSample :: "string \<Rightarrow> int \<Rightarrow> duration \<Rightarrow> Outcome \<Rightarrow> Sample" where
  "exSample proxy at latency outcome =
     \<lparr> s_Group = ''g'', s_Proxy = proxy, s_URL = ''u'', s_FinishedAt = at,
       s_Latency = latency * Millisecond, s_Outcome = outcome \<rparr>"

definition exPolicy :: Policy where
  "exPolicy = DefaultPolicy\<lparr> p_TestURL := ''u'' \<rparr>"

definition exFailover :: Policy where
  "exFailover = DefaultPolicy\<lparr> p_TestURL := ''u'', p_SwitchPolicy := SwitchFailover \<rparr>"

definition exGroup :: GroupState where
  "exGroup = \<lparr> g_Group = ''g'', g_Selected = ''a'', g_Proxies = [''a'', ''b'', ''c''], g_ProbeEnabled = True,
      g_AutomationEnabled = True, g_ManualOverride = False, g_SwitchInFlight = False, g_LastSwitchAt = 0 \<rparr>"

definition exSamples :: "Sample list" where
  "exSamples =
     [exSample ''a'' 1 300 OutcomeSuccess, exSample ''b'' 1 100 OutcomeSuccess, exSample ''c'' 1 120 OutcomeSuccess,
      exSample ''a'' 2 320 OutcomeSuccess, exSample ''b'' 2 110 OutcomeSuccess, exSample ''c'' 2 120 OutcomeSuccess,
      exSample ''b'' 3 90 OutcomeSuccess, exSample ''a'' 3 310 OutcomeSuccess, exSample ''c'' 3 130 OutcomeSuccess]"

definition exFailing :: "Sample list" where
  "exFailing =
     [exSample ''a'' 1 300 OutcomeSuccess, exSample ''b'' 1 100 OutcomeSuccess,
      exSample ''a'' 2 0 OutcomeTimeout, exSample ''b'' 2 110 OutcomeSuccess,
      exSample ''a'' 3 900 OutcomeSuccess, exSample ''b'' 3 90 OutcomeSuccess,
      exSample ''a'' 4 0 OutcomeError, exSample ''b'' 4 90 OutcomeSuccess]"

section \<open>Windows\<close>

text \<open>
  A window keeps the newest \<open>limit\<close> entries in order of completion. Latency and stream windows
  share these laws.
\<close>

locale timed_window =
  fixes finished :: "'a \<Rightarrow> gotime" and window :: "'a list \<Rightarrow> int \<Rightarrow> 'a list"
  assumes window_all: "limit \<le> 0 \<Longrightarrow> window xs limit = sort_key finished xs"
    and window_cap: "0 < limit \<Longrightarrow> window xs limit = last_n (nat limit) (sort_key finished xs)"
begin

lemma window_subset: "set (window xs limit) \<subseteq> set xs"
  using set_last_n [of "nat limit" "sort_key finished xs"]
  by (cases "0 < limit") (auto simp: window_all window_cap)

lemma window_length: "0 < limit \<Longrightarrow> int (length (window xs limit)) \<le> limit"
  by (simp add: window_cap)

lemma window_length_le: "length (window xs limit) \<le> length xs"
  by (cases "0 < limit") (auto simp: window_all window_cap)

lemma window_Nil_iff: "window xs limit = [] \<longleftrightarrow> xs = []"
  by (cases "0 < limit") (auto simp: window_all window_cap)

lemma window_sorted: "sorted (map finished (window xs limit))"
  by (cases "0 < limit") (auto simp: window_all window_cap last_n_def drop_map [symmetric] sorted_wrt_drop)

lemma window_window: "window (window xs limit) 0 = window xs limit"
  by (subst window_all) (auto intro: sort_key_id_if_sorted window_sorted)

lemma window_last: "xs \<noteq> [] \<Longrightarrow> last (window xs limit) = last (sort_key finished xs)"
  by (cases "0 < limit") (auto simp: window_all window_cap last_last_n)

lemma window_newest:
  assumes "x \<in> set xs"
  shows "finished x \<le> finished (last (window xs limit))"
proof -
  let ?s = "sort_key finished xs"
  from assms have ne: "xs \<noteq> []" and x: "x \<in> set ?s" by auto
  then obtain i where i: "i < length ?s" "?s ! i = x" by (metis in_set_conv_nth)
  have "sorted (map finished ?s)" by simp
  from sorted_nth_mono [OF this, of i "length ?s - 1"] i
  have "finished x \<le> finished (?s ! (length ?s - 1))" by simp
  moreover from x have "?s \<noteq> []" by auto
  ultimately show ?thesis by (simp add: window_last [OF ne] last_conv_nth)
qed

end

interpretation probe_window: timed_window s_FinishedAt recent
  by unfold_locales (auto simp: recent_def last_n_def Let_def)

section \<open>Medians\<close>

abbreviation mid_lo :: "duration list \<Rightarrow> duration" where
  "mid_lo xs \<equiv> sort xs ! ((length xs - 1) div 2)"

abbreviation mid_hi :: "duration list \<Rightarrow> duration" where
  "mid_hi xs \<equiv> sort xs ! (length xs div 2)"

lemma mid_mem: "xs \<noteq> [] \<Longrightarrow> mid_lo xs \<in> set xs \<and> mid_hi xs \<in> set xs"
proof -
  assume "xs \<noteq> []"
  then have "(length xs - 1) div 2 < length (sort xs)" "length xs div 2 < length (sort xs)"
    by (cases xs, auto)+
  then show ?thesis using nth_mem set_sort by metis
qed

lemma mid_le: "mid_lo xs \<le> mid_hi xs"
proof (cases "xs = []")
  case False
  then have "length xs div 2 < length (sort xs)" by simp
  then show ?thesis by (intro sorted_nth_mono) (auto intro: div_le_mono)
qed simp

lemma median_eq:
  assumes "xs \<noteq> []" and "\<And>x. x \<in> set xs \<Longrightarrow> 0 \<le> x \<and> in_i64 x"
  shows "median xs = (mid_lo xs + mid_hi xs) div 2"
proof (cases "odd (length xs)")
  case True
  then have "(length xs - 1) div 2 = length xs div 2" by presburger
  with True show ?thesis by (simp add: median_def Let_def odd_iff_mod_2_eq_one)
next
  case False
  with assms(1) have "(length xs - 1) div 2 = length xs div 2 - 1" by (cases xs) auto
  moreover have r: "in_i64 (mid_hi xs - mid_lo xs)" "0 \<le> mid_hi xs - mid_lo xs"
    using mid_le [of xs] mid_mem [OF assms(1)] assms(2) by (auto intro: in_i64_diff_nonneg)
  moreover have "mid_lo xs + (mid_hi xs - mid_lo xs) div 2 = (mid_lo xs + mid_hi xs) div 2"
    by presburger
  moreover have "in_i64 ((mid_lo xs + mid_hi xs) div 2)"
    by (rule in_i64_between [of "mid_lo xs" "mid_hi xs"])
      (use mid_le [of xs] mid_mem [OF assms(1)] assms(2) in auto)
  ultimately show ?thesis using False by (simp add: median_def Let_def)
qed

lemma median_bounds:
  assumes "xs \<noteq> []" and "\<And>x. x \<in> set xs \<Longrightarrow> 0 \<le> x \<and> in_i64 x"
  shows "mid_lo xs \<le> median xs \<and> median xs \<le> mid_hi xs"
proof -
  have "a \<le> (a + b) div 2 \<and> (a + b) div 2 \<le> b" if "a \<le> b" for a b :: int
    using that by presburger
  from this [OF mid_le [of xs]] show ?thesis by (simp add: median_eq [OF assms])
qed

lemma sorted_filter_le_count:
  assumes "sorted v" and "k < length v" and "v ! k \<le> c"
  shows "Suc k \<le> length (filter (\<lambda>x. x \<le> c) v)"
proof -
  have "{i. i < Suc k} \<subseteq> {i. i < length v \<and> v ! i \<le> c}"
    using assms by (auto dest: sorted_nth_mono [of v _ k] simp: less_Suc_eq_le)
  then have "card {i. i < Suc k} \<le> card {i. i < length v \<and> v ! i \<le> c}"
    by (intro card_mono) auto
  then show ?thesis by (simp add: length_filter_conv_card)
qed

lemma sorted_filter_ge_count:
  assumes "sorted v" and "k < length v" and "c \<le> v ! k"
  shows "length v - k \<le> length (filter (\<lambda>x. c \<le> x) v)"
proof -
  have "{k..<length v} \<subseteq> {i. i < length v \<and> c \<le> v ! i}"
    using assms by (auto dest: sorted_nth_mono [of v k])
  then have "card {k..<length v} \<le> card {i. i < length v \<and> c \<le> v ! i}"
    by (intro card_mono) auto
  then show ?thesis by (simp add: length_filter_conv_card)
qed

lemma length_filter_sort: "length (filter P (sort xs)) = length (filter P xs)"
  by (metis mset_filter mset_sort size_mset)

lemma median_splits:
  assumes "xs \<noteq> []" and "\<And>x. x \<in> set xs \<Longrightarrow> 0 \<le> x \<and> in_i64 x"
  shows "length xs \<le> 2 * length (filter (\<lambda>x. x \<le> median xs) xs)"
    and "length xs \<le> 2 * length (filter (\<lambda>x. median xs \<le> x) xs)"
proof -
  note b = median_bounds [OF assms]
  have "(length xs - 1) div 2 < length (sort xs)" using assms(1) by (cases xs) auto
  from sorted_filter_le_count [OF sorted_sort this conjunct1 [OF b]]
  have "Suc ((length xs - 1) div 2) \<le> length (filter (\<lambda>x. x \<le> median xs) xs)"
    by (simp add: length_filter_sort)
  then show "length xs \<le> 2 * length (filter (\<lambda>x. x \<le> median xs) xs)" by linarith
  have "length xs div 2 < length (sort xs)" using assms(1) by simp
  from sorted_filter_ge_count [OF sorted_sort this conjunct2 [OF b]]
  have "length xs - length xs div 2 \<le> length (filter (\<lambda>x. median xs \<le> x) xs)"
    by (simp add: length_filter_sort)
  then show "length xs \<le> 2 * length (filter (\<lambda>x. median xs \<le> x) xs)" by linarith
qed


text \<open>
  The median of a non-empty list of non-negative 64-bit durations is computed without overflow:
  it is the rounded-down mean of the two middle elements of the sorted list, and at least half
  of the values lie on either side of it.
\<close>

theorem median_correct:
  assumes "xs \<noteq> []" and "\<And>x. x \<in> set xs \<Longrightarrow> 0 \<le> x \<and> in_i64 x"
  shows "median xs = (sort xs ! ((length xs - 1) div 2) + sort xs ! (length xs div 2)) div 2
    \<and> length xs \<le> 2 * length (filter (\<lambda>x. x \<le> median xs) xs)
    \<and> length xs \<le> 2 * length (filter (\<lambda>x. median xs \<le> x) xs)"
  using median_eq [OF assms] median_splits [OF assms] by simp

theorem median_correct_witness: "median [2 ^ 63 - 1, 2 ^ 63 - 3] = 2 ^ 63 - 2"
proof -
  let ?xs = "[2 ^ 63 - 1, 2 ^ 63 - 3] :: int list"
  have "\<And>x. x \<in> set ?xs \<Longrightarrow> 0 \<le> x \<and> in_i64 x" by (auto simp: in_i64_def)
  from median_correct [of ?xs, OF _ this] show ?thesis by simp
qed

section \<open>Probe statistics\<close>

text \<open>Latencies are values of a 64-bit type.\<close>

definition latencies_ok :: "Sample list \<Rightarrow> bool" where
  "latencies_ok xs \<longleftrightarrow> (\<forall>s \<in> set xs. in_i64 (s_Latency s))"

lemma latencies_ok_recent: "latencies_ok xs \<Longrightarrow> latencies_ok (recent xs n)"
  using probe_window.window_subset unfolding latencies_ok_def by blast

lemma MeasureStability_sel [simp]:
  "b_Samples (MeasureStability xs n) = int (length (recent xs n))"
  "b_Failures (MeasureStability xs n) = int (length (filter sampleFailed (recent xs n)))"
  by (simp_all add: MeasureStability_def Let_def)

lemma MeasureStability_Median:
  "b_Median (MeasureStability xs n) =
     (if filter (\<lambda>s. \<not> sampleFailed s) (recent xs n) = [] then 0
      else median (map s_Latency (filter (\<lambda>s. \<not> sampleFailed s) (recent xs n))))"
  by (simp add: MeasureStability_def Let_def)

lemma successes:
  "int (length (recent xs n)) - int (length (filter sampleFailed (recent xs n)))
     = int (length (filter (\<lambda>s. \<not> sampleFailed s) (recent xs n)))"
  using sum_length_filter_compl [of sampleFailed "recent xs n"] by linarith

lemma successful_latency: "\<not> sampleFailed s \<Longrightarrow> 0 < s_Latency s"
  by (auto simp: sampleFailed_def)

lemma median_positive:
  assumes "xs \<noteq> []" and "\<And>x. x \<in> set xs \<Longrightarrow> 0 < x \<and> in_i64 x"
  shows "0 < median xs \<and> in_i64 (median xs)"
proof -
  have b: "mid_lo xs \<le> median xs \<and> median xs \<le> mid_hi xs"
    by (rule median_bounds) (use assms in \<open>force+\<close>)
  with mid_mem [OF assms(1)] assms(2) show ?thesis
    using in_i64_between [of "mid_lo xs" "mid_hi xs" "median xs"] by force
qed

lemma MeasureStability_Median_range:
  assumes "latencies_ok xs"
  shows "0 \<le> b_Median (MeasureStability xs n) \<and> in_i64 (b_Median (MeasureStability xs n))"
proof (cases "filter (\<lambda>s. \<not> sampleFailed s) (recent xs n) = []")
  case False
  have "0 < median (map s_Latency (filter (\<lambda>s. \<not> sampleFailed s) (recent xs n)))
        \<and> in_i64 (median (map s_Latency (filter (\<lambda>s. \<not> sampleFailed s) (recent xs n))))"
    using latencies_ok_recent [OF assms, of n] False
    by (intro median_positive) (auto simp: latencies_ok_def successful_latency filter_empty_conv)
  with False show ?thesis by (simp add: MeasureStability_Median)
qed (simp add: MeasureStability_Median)

lemma offline_iff:
  "b_Failures (MeasureStability xs n) = b_Samples (MeasureStability xs n)
     \<longleftrightarrow> (\<forall>s \<in> set (recent xs n). sampleFailed s)"
proof -
  have "length (filter sampleFailed ys) = length ys \<longleftrightarrow> (\<forall>s \<in> set ys. sampleFailed s)" for ys
    by (metis filter_True filter_id_conv length_filter_less less_irrefl)
  then show ?thesis by simp
qed

section \<open>The ranking of candidates\<close>

text \<open>
  The key by which \<open>steadier\<close> compares: failures, median, jitter, name. Its lexicographic order
  makes the type a \<open>linorder\<close>, so the library's \<open>Min\<close> describes the best candidate.
\<close>

datatype rank = Rank (r_Failures: int) (r_Median: int) (r_Jitter: int) (r_Name: string)

definition rank_of :: "Stability \<Rightarrow> string \<Rightarrow> rank" where
  "rank_of s name = Rank (b_Failures s) (b_Median s) (b_Jitter s) name"

instantiation rank :: linorder
begin

definition less_rank :: "rank \<Rightarrow> rank \<Rightarrow> bool" where
  "less_rank a b \<longleftrightarrow>
     (if r_Failures a \<noteq> r_Failures b then r_Failures a < r_Failures b
      else if r_Median a \<noteq> r_Median b then r_Median a < r_Median b
      else if r_Jitter a \<noteq> r_Jitter b then r_Jitter a < r_Jitter b
      else r_Name a < r_Name b)"

definition less_eq_rank :: "rank \<Rightarrow> rank \<Rightarrow> bool" where
  "less_eq_rank a b \<longleftrightarrow> a < b \<or> a = (b :: rank)"

instance
proof
  fix a b c :: rank
  show "a < b \<longleftrightarrow> a \<le> b \<and> \<not> b \<le> a"
    by (auto simp: less_rank_def less_eq_rank_def split: if_splits)
  show "a \<le> a" by (simp add: less_eq_rank_def)
  show "a \<le> b \<Longrightarrow> b \<le> c \<Longrightarrow> a \<le> c"
    by (auto simp: less_rank_def less_eq_rank_def split: if_splits)
  show "a \<le> b \<Longrightarrow> b \<le> a \<Longrightarrow> a = b"
    by (auto simp: less_rank_def less_eq_rank_def split: if_splits)
  show "a \<le> b \<or> b \<le> a"
    by (cases a; cases b) (auto simp: less_rank_def less_eq_rank_def)
qed

end

lemma rank_of_Name [simp]: "r_Name (rank_of s name) = name"
  by (simp add: rank_of_def)

lemma steadier_rank: "steadier a aName b bName \<longleftrightarrow> rank_of a aName < rank_of b bName"
  by (simp add: steadier_def rank_of_def less_rank_def)

text \<open>
  The scan over the candidates keeps the least rank seen so far; the empty name stands for none.
\<close>

lemma pickBest_scan:
  assumes "\<not> adm ''''" and "pickBest adm stats ps (n, s) = (m, t)" and "n \<noteq> '''' \<longrightarrow> s = stats n"
  shows "(m = '''' \<longleftrightarrow> n = '''' \<and> (\<forall>p \<in> set ps. \<not> adm p))
    \<and> (m \<noteq> '''' \<longrightarrow> t = stats m \<and> (m = n \<or> m \<in> set ps \<and> adm m))
    \<and> (m \<noteq> '''' \<longrightarrow> (\<forall>p \<in> set ps. adm p \<longrightarrow> rank_of (stats m) m \<le> rank_of (stats p) p))
    \<and> (n \<noteq> '''' \<longrightarrow> rank_of (stats m) m \<le> rank_of (stats n) n)"
  using assms(2,3)
proof (induction ps arbitrary: n s)
  case Nil
  then show ?case by auto
next
  case (Cons p ps)
  show ?case
  proof (cases "adm p \<and> (n = '''' \<or> rank_of (stats p) p < rank_of (stats n) n)")
    case True
    with Cons.prems have run: "pickBest adm stats ps (p, stats p) = (m, t)"
      by (auto simp: steadier_rank split: if_splits)
    have "p \<noteq> ''''" using True assms(1) by metis
    with Cons.IH [OF run] True show ?thesis by auto
  next
    case False
    with Cons.prems have run: "pickBest adm stats ps (n, s) = (m, t)"
      by (auto simp: steadier_rank split: if_splits)
    from False have "adm p \<Longrightarrow> n \<noteq> '''' \<and> rank_of (stats n) n \<le> rank_of (stats p) p" by auto
    with Cons.IH [OF run Cons.prems(2)] show ?thesis by (auto intro: order_trans)
  qed
qed

lemma pickBest_least:
  assumes "\<not> adm ''''" and "fst (pickBest adm stats ps ('''', z)) = best" and "best \<noteq> ''''"
  shows "best \<in> set ps \<and> adm best
     \<and> (\<forall>p \<in> set ps. adm p \<longrightarrow> rank_of (stats best) best \<le> rank_of (stats p) p)"
  using pickBest_scan [of adm stats ps "''''" z best] assms by (metis prod.collapse)

lemma pickBest_none:
  "\<not> adm '''' \<Longrightarrow> fst (pickBest adm stats ps ('''', z)) = '''' \<longleftrightarrow> (\<forall>p \<in> set ps. \<not> adm p)"
  using pickBest_scan [of adm stats ps "''''" z] by (metis prod.collapse)

section \<open>Properties of Decide\<close>

lemma samplesByProxy_eq:
  "samplesByProxy policy state samples p = filter (\<lambda>s. s_Proxy s = p) (groupSamples policy state samples)"
  by (simp add: samplesByProxy_def fold_append_at)

lemma samplesByProxy_empty_name [simp]: "samplesByProxy policy state samples '''' = []"
  by (auto simp: samplesByProxy_eq groupSamples_def filter_empty_conv)

lemma latencies_ok_byProxy: "latencies_ok samples \<Longrightarrow> latencies_ok (samplesByProxy policy state samples p)"
  by (auto simp: latencies_ok_def samplesByProxy_eq groupSamples_def)

abbreviation windowOf :: "Policy \<Rightarrow> GroupState \<Rightarrow> Sample list \<Rightarrow> string \<Rightarrow> Sample list" where
  "windowOf policy state samples proxy \<equiv> recent (samplesByProxy policy state samples proxy) (p_WindowSize policy)"

abbreviation statsOf :: "Policy \<Rightarrow> GroupState \<Rightarrow> Sample list \<Rightarrow> string \<Rightarrow> Stability" where
  "statsOf policy state samples proxy \<equiv> MeasureStability (windowOf policy state samples proxy) 0"

definition admits :: "Policy \<Rightarrow> GroupState \<Rightarrow> Sample list \<Rightarrow> Sample list \<Rightarrow> bool \<Rightarrow> string \<Rightarrow> bool" where
  "admits policy state samples comparable unstable proxy \<longleftrightarrow>
     proxy \<noteq> g_Selected state
     \<and> candidateAdmitted policy (statsOf policy state samples (g_Selected state)) (MeasureStability comparable 0)
         (b_Failures (MeasureStability comparable 0) = b_Samples (MeasureStability comparable 0)) unstable
         (windowOf policy state samples proxy)"

lemma admits_empty_name [simp]: "\<not> admits policy state samples c u ''''"
  by (simp add: admits_def candidateAdmitted_def probe_window.window_Nil_iff)

lemma Decide_unfold:
  "Decide policy state samples now =
     (let decision = \<lparr> d_Switch = False, d_LowerLatency = False, d_Group = g_Group state,
                       d_Old = g_Selected state, d_New = '''', d_Reason = ReasonInsufficientSamples,
                       d_Evidence = groupSamples policy state samples, d_Streams = [] \<rparr>
      in if guard policy state now \<noteq> '''' then decision\<lparr> d_Reason := guard policy state now \<rparr>
         else if g_Selected state = '''' \<or> g_Proxies state = [] then decision
         else if allCandidatesFailed (g_Proxies state) (samplesByProxy policy state samples) (p_WindowSize policy)
         then decision\<lparr> d_Reason := ReasonAllCandidatesFailed \<rparr>
         else case inspectSelected policy (windowOf policy state samples (g_Selected state)) of
                Keep reason \<Rightarrow> decision\<lparr> d_Reason := reason \<rparr>
              | Compare c u \<Rightarrow>
                  let best = fst (pickBest (admits policy state samples c u) (statsOf policy state samples)
                                   (g_Proxies state) ('''', zeroStability))
                  in if best = '''' then decision\<lparr> d_Reason := ReasonNoBetterCandidate \<rparr>
                     else decision\<lparr>
                       d_LowerLatency :=
                         b_Failures (MeasureStability c 0) \<noteq> b_Samples (MeasureStability c 0) \<and> \<not> u
                         \<and> b_Samples (MeasureStability c 0) - b_Failures (MeasureStability c 0)
                             \<ge> p_MinCandidateSamples policy
                         \<and> \<not> sampleFailed (last c),
                       d_Switch := True, d_New := best, d_Reason := ReasonSwitchCandidate \<rparr>)"
  by (simp only: Decide_def Let_def admits_def [abs_def] considerCandidate_def [abs_def]
      candidateStats_def [abs_def] candidateWindow_def)

lemma Decide_Switch_iff:
  "d_Switch (Decide policy state samples now) \<longleftrightarrow>
     guard policy state now = '''' \<and> g_Selected state \<noteq> '''' \<and> g_Proxies state \<noteq> []
     \<and> \<not> allCandidatesFailed (g_Proxies state) (samplesByProxy policy state samples) (p_WindowSize policy)
     \<and> (\<exists>c u. inspectSelected policy (windowOf policy state samples (g_Selected state)) = Compare c u
              \<and> (\<exists>p \<in> set (g_Proxies state). admits policy state samples c u p))"
  by (auto simp: Decide_unfold Let_def pickBest_none split: selection.split)

lemma Decide_SwitchE:
  assumes "d_Switch (Decide policy state samples now)"
  obtains c u where
    "guard policy state now = ''''"
    "inspectSelected policy (windowOf policy state samples (g_Selected state)) = Compare c u"
    "d_New (Decide policy state samples now) \<in> set (g_Proxies state)"
    "admits policy state samples c u (d_New (Decide policy state samples now))"
    "\<And>p. p \<in> set (g_Proxies state) \<Longrightarrow> admits policy state samples c u p \<Longrightarrow>
       rank_of (statsOf policy state samples (d_New (Decide policy state samples now)))
               (d_New (Decide policy state samples now))
         \<le> rank_of (statsOf policy state samples p) p"
    "d_LowerLatency (Decide policy state samples now) \<longleftrightarrow>
       b_Failures (MeasureStability c 0) \<noteq> b_Samples (MeasureStability c 0) \<and> \<not> u
       \<and> b_Samples (MeasureStability c 0) - b_Failures (MeasureStability c 0) \<ge> p_MinCandidateSamples policy
       \<and> \<not> sampleFailed (last c)"
proof -
  from assms obtain c u p where sw:
    "guard policy state now = ''''" "g_Selected state \<noteq> ''''" "g_Proxies state \<noteq> []"
    "\<not> allCandidatesFailed (g_Proxies state) (samplesByProxy policy state samples) (p_WindowSize policy)"
    "inspectSelected policy (windowOf policy state samples (g_Selected state)) = Compare c u"
    "p \<in> set (g_Proxies state)" "admits policy state samples c u p"
    by (auto simp: Decide_Switch_iff)
  let ?best = "fst (pickBest (admits policy state samples c u) (statsOf policy state samples)
                 (g_Proxies state) ('''', zeroStability))"
  have ne: "?best \<noteq> ''''" using sw by (auto simp: pickBest_none)
  then have new: "d_New (Decide policy state samples now) = ?best"
    using sw by (simp add: Decide_unfold Let_def)
  note least = pickBest_least [of "admits policy state samples c u", OF admits_empty_name refl ne]
  show ?thesis
  proof (rule that [of c u])
    show "d_LowerLatency (Decide policy state samples now) \<longleftrightarrow>
       b_Failures (MeasureStability c 0) \<noteq> b_Samples (MeasureStability c 0) \<and> \<not> u
       \<and> b_Samples (MeasureStability c 0) - b_Failures (MeasureStability c 0) \<ge> p_MinCandidateSamples policy
       \<and> \<not> sampleFailed (last c)"
      using sw ne by (simp add: Decide_unfold Let_def)
  qed (use sw least new in auto)
qed

lemma guard_ok_iff:
  "guard policy state now = '''' \<longleftrightarrow>
     \<not> g_ManualOverride state \<and> g_AutomationEnabled state \<and> \<not> g_SwitchInFlight state
     \<and> g_LastSwitchAt state \<le> now
     \<and> (g_LastSwitchAt state = 0 \<or> p_Cooldown policy \<le> time_Sub now (g_LastSwitchAt state))"
  by (auto simp: guard_def reason_defs time_IsZero_def)

lemma cooldown_elapsed:
  assumes "guard policy state now = ''''" and "0 \<le> p_Cooldown policy" and "g_LastSwitchAt state \<noteq> 0"
  shows "p_Cooldown policy \<le> now - g_LastSwitchAt state"
proof -
  from assms have "p_Cooldown policy \<le> time_Sub now (g_LastSwitchAt state)"
    by (simp add: guard_ok_iff)
  with assms(2) show ?thesis by (intro time_Sub_ge) auto
qed

lemma admitsD:
  assumes "admits policy state samples c u p"
  shows "p \<noteq> g_Selected state" and "windowOf policy state samples p \<noteq> []"
    and "\<not> sampleFailed (last (windowOf policy state samples p))"
    and "p_MinCandidateSamples policy
           \<le> int (length (filter (\<lambda>s. \<not> sampleFailed s) (windowOf policy state samples p)))"
  using assms
  by (auto simp: admits_def candidateAdmitted_def Let_def probe_window.window_window successes
      split: if_splits)


text \<open>
  C7. A switch is decided only when automation is on, no manual override and no other switch is in
  effect and the cooldown since the last switch has elapsed; the node it moves to is another member
  of the group whose newest probe succeeded and which has at least \<open>MinCandidateSamples\<close> successful
  probes in its window.
\<close>

theorem decide_switch_sound:
  assumes "d_Switch (Decide policy state samples now)" and "0 \<le> p_Cooldown policy"
  shows "\<not> g_ManualOverride state \<and> g_AutomationEnabled state \<and> \<not> g_SwitchInFlight state
    \<and> (g_LastSwitchAt state = 0 \<or> p_Cooldown policy \<le> now - g_LastSwitchAt state)
    \<and> d_New (Decide policy state samples now) \<in> set (g_Proxies state) - {g_Selected state}
    \<and> windowOf policy state samples (d_New (Decide policy state samples now)) \<noteq> []
    \<and> \<not> sampleFailed (last (windowOf policy state samples (d_New (Decide policy state samples now))))
    \<and> p_MinCandidateSamples policy
        \<le> int (length (filter (\<lambda>s. \<not> sampleFailed s)
                 (windowOf policy state samples (d_New (Decide policy state samples now)))))"
proof -
  from assms(1) obtain c u where
      g: "guard policy state now = ''''"
      and new: "d_New (Decide policy state samples now) \<in> set (g_Proxies state)"
      and adm: "admits policy state samples c u (d_New (Decide policy state samples now))"
    by (rule Decide_SwitchE)
  from g cooldown_elapsed [OF g assms(2)] new admitsD [OF adm] show ?thesis
    by (auto simp: guard_ok_iff)
qed

lemma ex_decide:
  "(d_Switch (Decide exPolicy exGroup exSamples 10), d_New (Decide exPolicy exGroup exSamples 10)) = (True, ''b'')"
  by code_simp

theorem decide_switch_sound_witness:
  "d_New (Decide exPolicy exGroup exSamples 10) = ''b''
   \<and> \<not> sampleFailed (last (windowOf exPolicy exGroup exSamples ''b''))"
proof -
  have "d_Switch (Decide exPolicy exGroup exSamples 10)" "0 \<le> p_Cooldown exPolicy"
    using ex_decide by (simp_all add: exPolicy_def DefaultPolicy_def Minute_def)
  from decide_switch_sound [OF this] ex_decide show ?thesis by simp
qed

text \<open>
  C8. The node a switch moves to is the steadiest of the admitted candidates: fewer failed probes,
  then lower median, then lower jitter, then name, than every other admitted candidate.
\<close>

theorem decide_picks_steadiest:
  assumes "d_Switch (Decide policy state samples now)"
    and "inspectSelected policy (windowOf policy state samples (g_Selected state)) = Compare c u"
    and "p \<in> set (g_Proxies state)" and "admits policy state samples c u p"
    and "p \<noteq> d_New (Decide policy state samples now)"
  shows "steadier (statsOf policy state samples (d_New (Decide policy state samples now)))
           (d_New (Decide policy state samples now)) (statsOf policy state samples p) p"
proof -
  from assms(1) obtain c' u' where
      i: "inspectSelected policy (windowOf policy state samples (g_Selected state)) = Compare c' u'"
      and least: "\<And>p. p \<in> set (g_Proxies state) \<Longrightarrow> admits policy state samples c' u' p \<Longrightarrow>
         rank_of (statsOf policy state samples (d_New (Decide policy state samples now)))
                 (d_New (Decide policy state samples now))
           \<le> rank_of (statsOf policy state samples p) p"
    by (rule Decide_SwitchE) blast
  from i assms(2) have "c' = c" "u' = u" by auto
  with least [OF assms(3)] assms(4,5) show ?thesis
    by (auto simp: steadier_rank order_less_le rank_of_def)
qed

theorem decide_picks_steadiest_witness:
  "steadier (statsOf exPolicy exGroup exSamples ''b'') ''b'' (statsOf exPolicy exGroup exSamples ''c'') ''c''"
proof -
  let ?w = "windowOf exPolicy exGroup exSamples"
  have "inspectSelected exPolicy (?w (g_Selected exGroup)) = Compare (?w ''a'') False" by code_simp
  moreover have "admits exPolicy exGroup exSamples (?w ''a'') False ''c''" by code_simp
  moreover have "''c'' \<in> set (g_Proxies exGroup)" by (simp add: exGroup_def)
  ultimately show ?thesis
    using decide_picks_steadiest [of exPolicy exGroup exSamples 10 "?w ''a''" False "''c''"] ex_decide by simp
qed




text \<open>A count that reaches the limit has seen that many unhealthy samples at the end of the window.\<close>

lemma countBad_take:
  assumes "countBad threshold limit ss bad = b"
  shows "bad \<le> b \<and> b \<le> max bad limit \<and> nat (b - bad) \<le> length ss
    \<and> (\<forall>s \<in> set (take (nat (b - bad)) ss). unhealthy s threshold)"
  using assms
proof (induction ss arbitrary: bad)
  case (Cons s ss)
  show ?case
  proof (cases "bad < limit \<and> unhealthy s threshold")
    case True
    with Cons.prems have "countBad threshold limit ss (bad + 1) = b" by simp
    from Cons.IH [OF this] True have IH: "bad + 1 \<le> b" "b \<le> max (bad + 1) limit"
      "nat (b - (bad + 1)) \<le> length ss" "\<forall>s \<in> set (take (nat (b - (bad + 1))) ss). unhealthy s threshold"
      by auto
    from IH(1) have n: "nat (b - bad) = Suc (nat (b - (bad + 1)))" by simp
    show ?thesis unfolding n using IH True by auto
  qed (use Cons.prems in auto)
qed auto

lemma countBad_last_n:
  assumes "limit \<le> countBad threshold limit (rev w) 0" and "0 \<le> limit"
  shows "limit \<le> int (length w) \<and> (\<forall>s \<in> set (last_n (nat limit) w). unhealthy s threshold)"
proof -
  let ?b = "countBad threshold limit (rev w) 0"
  from countBad_take [of threshold limit "rev w" 0 ?b] assms have b: "?b = limit"
    and len: "nat ?b \<le> length w" and all: "\<forall>s \<in> set (take (nat ?b) (rev w)). unhealthy s threshold"
    by auto
  from all have "\<forall>s \<in> set (last_n (nat limit) w). unhealthy s threshold"
    unfolding b last_n_def by (simp add: take_rev)
  with b len assms(2) show ?thesis by auto
qed

text \<open>
  C10. Outside lowest-latency mode the selected node is left only on evidence against it: its last
  \<open>ConsecutiveBadSamples\<close> probes were all unhealthy, or at least \<open>MaxFailures\<close> probes of its
  window failed.
\<close>

theorem failover_needs_evidence:
  assumes "d_Switch (Decide policy state samples now)"
    and "p_SwitchPolicy policy \<noteq> SwitchLowestLatency" and "0 \<le> p_ConsecutiveBadSamples policy"
  shows "(p_ConsecutiveBadSamples policy \<le> int (length (windowOf policy state samples (g_Selected state)))
          \<and> (\<forall>s \<in> set (last_n (nat (p_ConsecutiveBadSamples policy))
                         (windowOf policy state samples (g_Selected state)))
               . unhealthy s (p_Threshold policy)))
    \<or> p_MaxFailures policy
        \<le> int (length (filter sampleFailed (windowOf policy state samples (g_Selected state))))"
proof -
  let ?w = "windowOf policy state samples (g_Selected state)"
  from assms(1) obtain c u where "inspectSelected policy ?w = Compare c u" by (rule Decide_SwitchE)
  with assms(2) have "p_ConsecutiveBadSamples policy
      \<le> countBad (p_Threshold policy) (p_ConsecutiveBadSamples policy) (rev ?w) 0
    \<or> p_MaxFailures policy \<le> int (length (filter sampleFailed ?w))"
    by (auto simp: inspectSelected_def Let_def probe_window.window_window split: if_splits)
  then show ?thesis using countBad_last_n [OF _ assms(3)] by blast
qed

theorem failover_needs_evidence_witness:
  "d_Switch (Decide exFailover exGroup exFailing 10)
   \<and> list_all (\<lambda>s. unhealthy s (800 * Millisecond)) (last_n 3 (windowOf exFailover exGroup exFailing ''a''))"
proof -
  have sw: "d_Switch (Decide exFailover exGroup exFailing 10)" by code_simp
  have "p_SwitchPolicy exFailover \<noteq> SwitchLowestLatency" "0 \<le> p_ConsecutiveBadSamples exFailover"
    by code_simp+
  from failover_needs_evidence [OF sw this]
  have "list_all (\<lambda>s. unhealthy s (800 * Millisecond)) (last_n 3 (windowOf exFailover exGroup exFailing ''a''))"
    by code_simp
  with sw show ?thesis ..
qed

section \<open>Lowest-latency switching does not oscillate\<close>

text \<open>
  With the samples held fixed, \<open>switches_to\<close> relates the selected node to the node \<open>Decide\<close>
  moves to.
\<close>

definition switches_to :: "Policy \<Rightarrow> GroupState \<Rightarrow> Sample list \<Rightarrow> gotime \<Rightarrow> string \<Rightarrow> string \<Rightarrow> bool" where
  "switches_to policy state samples now a b \<longleftrightarrow>
     (let d = Decide policy (state\<lparr> g_Selected := a \<rparr>) samples now in d_Switch d \<and> d_New d = b)"

lemma samplesByProxy_Selected [simp]:
  "samplesByProxy policy (state\<lparr> g_Selected := a \<rparr>) samples = samplesByProxy policy state samples"
  by (simp add: samplesByProxy_def groupSamples_def)

lemma lowest_latency_step:
  assumes "p_SwitchPolicy policy = SwitchLowestLatency" and "latencies_ok samples"
    and "switches_to policy state samples now a b"
  shows "\<not> sampleFailed (last (windowOf policy state samples b)) \<and> windowOf policy state samples b \<noteq> []
    \<and> ((\<exists>s \<in> set (windowOf policy state samples a). \<not> sampleFailed s) \<longrightarrow>
        b_Failures (statsOf policy state samples b) < p_MaxFailures policy
        \<and> p_MinImprovement policy \<le> b_Median (statsOf policy state samples a) - b_Median (statsOf policy state samples b))"
proof -
  let ?st = "state\<lparr> g_Selected := a \<rparr>"
  from assms(3) have "d_Switch (Decide policy ?st samples now)" and new: "d_New (Decide policy ?st samples now) = b"
    by (auto simp: switches_to_def Let_def)
  then obtain c u where i: "inspectSelected policy (windowOf policy ?st samples (g_Selected ?st)) = Compare c u"
      and adm: "admits policy ?st samples c u b"
    by (metis Decide_SwitchE)
  from i assms(1) have cu: "c = windowOf policy state samples a" "\<not> u"
    by (auto simp: inspectSelected_def Let_def split: if_splits)
  have med: "i64 (b_Median (statsOf policy state samples a) - b_Median (statsOf policy state samples b))
      = b_Median (statsOf policy state samples a) - b_Median (statsOf policy state samples b)"
    using MeasureStability_Median_range [OF latencies_ok_recent [OF latencies_ok_byProxy [OF assms(2)]]]
    by (simp add: in_i64_diff_nonneg)
  have "\<not> b_Failures (statsOf policy state samples a) = b_Samples (statsOf policy state samples a)"
    if "\<exists>s \<in> set (windowOf policy state samples a). \<not> sampleFailed s"
    unfolding offline_iff probe_window.window_window using that by blast
  with adm cu med have "(\<exists>s \<in> set (windowOf policy state samples a). \<not> sampleFailed s) \<longrightarrow>
        b_Failures (statsOf policy state samples b) < p_MaxFailures policy
        \<and> p_MinImprovement policy \<le> b_Median (statsOf policy state samples a) - b_Median (statsOf policy state samples b)"
    unfolding admits_def candidateAdmitted_def Let_def
    by (auto simp del: MeasureStability_sel split: if_splits)
  with admitsD [OF adm] show ?thesis by simp
qed

text \<open>
  C9. Lowest-latency switching cannot oscillate: while the samples stay the same, no sequence of
  switches leads from a node back to it.
\<close>

theorem lowest_latency_no_oscillation:
  assumes "p_SwitchPolicy policy = SwitchLowestLatency" and "0 < p_MinImprovement policy"
    and "latencies_ok samples"
  shows "\<not> (switches_to policy state samples now)\<^sup>+\<^sup>+ a a"
proof
  let ?sw = "switches_to policy state samples now"
  let ?online = "\<lambda>x. \<exists>s \<in> set (windowOf policy state samples x). \<not> sampleFailed s"
  let ?med = "\<lambda>x. b_Median (statsOf policy state samples x)"
  note step = lowest_latency_step [OF assms(1,3)]
  have target: "?online y" if "?sw x y" for x y
    using step [OF that] by (meson last_in_set)
  have reach: "?online y" if "?sw\<^sup>+\<^sup>+ x y" for x y
    using that by (induction rule: tranclp.induct) (auto dest: target)
  have decrease: "?med y < ?med x" if "?sw\<^sup>+\<^sup>+ x y" "?online x" for x y
    using that
  proof (induction rule: tranclp.induct)
    case (r_into_trancl x y)
    then show ?case using step [of state now x y] assms(2) by force
  next
    case (trancl_into_trancl x y z)
    then have "?med y < ?med x" and "?online y" using reach by auto
    with step [of state now y z] trancl_into_trancl(2) assms(2) show ?case by force
  qed
  assume "?sw\<^sup>+\<^sup>+ a a"
  with decrease reach show False by blast
qed

theorem lowest_latency_no_oscillation_witness:
  "switches_to exPolicy exGroup exSamples 10 ''a'' ''b''
   \<and> \<not> (switches_to exPolicy exGroup exSamples 10)\<^sup>+\<^sup>+ ''a'' ''a''"
proof
  have "exGroup\<lparr> g_Selected := ''a'' \<rparr> = exGroup" by (simp add: exGroup_def)
  with ex_decide show "switches_to exPolicy exGroup exSamples 10 ''a'' ''b''"
    by (simp add: switches_to_def)
  have "p_SwitchPolicy exPolicy = SwitchLowestLatency" "0 < p_MinImprovement exPolicy" "latencies_ok exSamples"
    by code_simp+
  then show "\<not> (switches_to exPolicy exGroup exSamples 10)\<^sup>+\<^sup>+ ''a'' ''a''"
    by (rule lowest_latency_no_oscillation)
qed

section \<open>Properties of the latency alert\<close>

text \<open>The newest sample of a proxy, when it succeeded.\<close>

definition latestSuccess :: "(string \<Rightarrow> Sample list) \<Rightarrow> string \<Rightarrow> Sample option" where
  "latestSuccess byProxy proxy =
     (case recent (byProxy proxy) 1 of [] \<Rightarrow> None | s # _ \<Rightarrow> if sampleFailed s then None else Some s)"

lemma scanLatest_eq:
  "scanLatest threshold byProxy ps (latest, allHigh, anyRecovered, complete) =
     (latest @ List.map_filter (latestSuccess byProxy) ps,
      allHigh \<and> (\<forall>p \<in> set ps. \<forall>s. latestSuccess byProxy p = Some s \<longrightarrow> s_Latency s > threshold),
      anyRecovered \<or> (\<exists>p \<in> set ps. \<exists>s. latestSuccess byProxy p = Some s \<and> s_Latency s \<le> threshold),
      complete \<and> (\<forall>p \<in> set ps. latestSuccess byProxy p \<noteq> None))"
proof (induction ps arbitrary: latest allHigh anyRecovered complete)
  case (Cons p ps)
  show ?case
    by (cases "recent (byProxy p) 1")
      (auto simp: Cons Let_def latestSuccess_def List.map_filter_def split: if_splits)
qed (simp add: List.map_filter_def)

text \<open>
  C12. The alert is raised exactly when it was not active and every node of the group has a
  successful newest measurement above the threshold; it recovers exactly when it was active and
  some node measured at or below the threshold. A failed or missing measurement does neither, and
  the state changes exactly when a transition is reported.
\<close>

theorem alert_transitions:
  "let result = UpdateLatencyAlert policy state samples previous;
       transition = e_Transition (snd result);
       latest = latestSuccess (samplesByProxy policy state samples)
   in (transition = AlertHighLatency \<longleftrightarrow>
         \<not> a_HighLatency previous \<and> g_Proxies state \<noteq> []
         \<and> (\<forall>p \<in> set (g_Proxies state). \<exists>s. latest p = Some s \<and> s_Latency s > p_LatencyAlertThreshold policy))
    \<and> (transition = AlertRecovered \<longleftrightarrow>
         a_HighLatency previous
         \<and> (\<exists>p \<in> set (g_Proxies state). \<exists>s. latest p = Some s \<and> s_Latency s \<le> p_LatencyAlertThreshold policy))
    \<and> (transition = AlertNoChange \<longleftrightarrow> fst result = previous)
    \<and> a_HighLatency (fst result) =
        (case transition of
           AlertHighLatency \<Rightarrow> True | AlertRecovered \<Rightarrow> False | AlertNoChange \<Rightarrow> a_HighLatency previous)"
proof -
  have eq: "\<lparr> a_HighLatency = b \<rparr> = previous \<longleftrightarrow> a_HighLatency previous = b" for b
    by (cases previous) auto
  show ?thesis
    unfolding UpdateLatencyAlert_def Let_def scanLatest_eq
    by (fastforce simp: eq split: if_splits)
qed

theorem alert_transitions_witness:
  "e_Transition (snd (UpdateLatencyAlert exFailover exGroup
      [exSample ''a'' 1 300 OutcomeSuccess, exSample ''b'' 1 400 OutcomeSuccess, exSample ''c'' 1 500 OutcomeSuccess]
      \<lparr> a_HighLatency = False \<rparr>)) = AlertHighLatency"
proof -
  let ?xs = "[exSample ''a'' 1 300 OutcomeSuccess, exSample ''b'' 1 400 OutcomeSuccess, exSample ''c'' 1 500 OutcomeSuccess]"
  have "\<forall>p \<in> set (g_Proxies exGroup).
      (case latestSuccess (samplesByProxy exFailover exGroup ?xs) p of
         None \<Rightarrow> False | Some s \<Rightarrow> s_Latency s > p_LatencyAlertThreshold exFailover)"
    by code_simp
  then have "\<forall>p \<in> set (g_Proxies exGroup). \<exists>s. latestSuccess (samplesByProxy exFailover exGroup ?xs) p = Some s
      \<and> s_Latency s > p_LatencyAlertThreshold exFailover"
    by (auto split: option.splits)
  moreover have "g_Proxies exGroup \<noteq> []" by (simp add: exGroup_def)
  ultimately show ?thesis
    using alert_transitions [of exFailover exGroup ?xs "\<lparr> a_HighLatency = False \<rparr>"] by (simp add: Let_def)
qed

section \<open>Validated policies\<close>

lemma Policy_ValidateD:
  assumes "Policy_Validate url_Parse p = None"
  shows "ValidPolicyName (p_SwitchPolicy p)" and "0 < p_Interval p" and "0 < p_Timeout p"
    and "p_Timeout p \<le> p_Interval p" and "1 \<le> p_Concurrency p" and "p_Concurrency p \<le> 64"
    and "0 < p_Threshold p" and "0 < p_LatencyAlertThreshold p" and "2 \<le> p_WindowSize p"
    and "1 \<le> p_ConsecutiveBadSamples p" and "p_ConsecutiveBadSamples p \<le> p_WindowSize p"
    and "2 \<le> p_MinCandidateSamples p" and "p_MinCandidateSamples p \<le> p_WindowSize p"
    and "1 \<le> p_MaxFailures p" and "p_MaxFailures p \<le> p_WindowSize p"
    and "0 < p_MinImprovement p" and "0 \<le> p_Cooldown p" and "0 \<le> p_Jitter p" and "p_Jitter p < p_Interval p"
  using assms unfolding Policy_Validate_def MonitorWindowMin_def
  by (auto split: if_splits)

end
