(* ===== verification/Monitor_Steady.thy ===== *)
theory Monitor_Steady
  imports Monitor_Policy
begin

text \<open>
  Steady-stream switching (\<open>src/monitor/steady.go\<close>): windows of stream pulls, their statistics and
  the decision \<open>DecideSteady\<close>. The decision sorts its eligible candidates with \<open>sort.Slice\<close>, which
  is a parameter here: the theorems hold for every function that meets the contract \<open>slice_sort\<close>.
  The comparison it is given is not a strict weak order, which the last section shows.
\<close>

section \<open>Definitions\<close>

definition recentStreams :: "StreamSample list \<Rightarrow> int \<Rightarrow> StreamSample list" where
  "recentStreams samples limit =
     (let out = sort_key ss_FinishedAt samples in
      if limit > 0 \<and> int (length out) > limit then drop (length out - nat limit) out else out)"

definition MeasureStreams :: "string \<Rightarrow> StreamSample list \<Rightarrow> int \<Rightarrow> StreamStability" where
  "MeasureStreams proxy samples windowSize =
     (let window = recentStreams samples windowSize;
          completed = filter Completed window;
          rates = sort (map Throughput completed)
      in \<lparr> st_Proxy = proxy, st_Samples = int (length window), st_Completed = int (length completed),
           st_MedianThroughput = (if rates = [] then 0 else rates ! (length rates div 2)) \<rparr>)"

text \<open>The map \<open>windows\<close>: only members of the group have an entry.\<close>

definition streamWindow ::
  "Policy \<Rightarrow> GroupState \<Rightarrow> (string \<Rightarrow> StreamSample list) \<Rightarrow> string \<Rightarrow> StreamSample list" where
  "streamWindow policy state streams proxy =
     (if proxy \<in> set (g_Proxies state) then recentStreams (streams proxy) (p_WindowSize policy) else [])"

definition streamStats ::
  "Policy \<Rightarrow> GroupState \<Rightarrow> (string \<Rightarrow> StreamSample list) \<Rightarrow> string \<Rightarrow> StreamStability" where
  "streamStats policy state streams proxy = MeasureStreams proxy (streamWindow policy state streams proxy) 0"

text \<open>How many pulls of a window did not complete.\<close>

definition interruptions :: "StreamStability \<Rightarrow> int" where
  "interruptions stats = st_Samples stats - st_Completed stats"

text \<open>The map \<open>latencyByProxy\<close>: the median probe latency, 0 where none is known.\<close>

definition latencyByProxy :: "Policy \<Rightarrow> GroupState \<Rightarrow> Sample list \<Rightarrow> string \<Rightarrow> duration" where
  "latencyByProxy policy state latency proxy =
     b_Median (MeasureStability
       (recent (filter (\<lambda>sample. s_Group sample = g_Group state \<and> s_Proxy sample = proxy) latency)
         (p_WindowSize policy)) 0)"

text \<open>The candidate loop keeps a proxy when its pulls qualify it.\<close>

definition streamEligible ::
  "Policy \<Rightarrow> GroupState \<Rightarrow> (string \<Rightarrow> StreamSample list) \<Rightarrow> int \<Rightarrow> string \<Rightarrow> bool" where
  "streamEligible policy state streams interrupted proxy =
     (let window = streamWindow policy state streams proxy in
      if proxy = g_Selected state \<or> window = [] \<or> \<not> Completed (last window) then False
      else
        let stats = MeasureStreams proxy window 0 in
        \<not> (st_Completed stats < p_MinCandidateSamples policy \<or> interruptions stats \<ge> interrupted))"

text \<open>The comparison passed to \<open>sort.Slice\<close>.\<close>

definition steadyLess ::
  "(string \<Rightarrow> duration) \<Rightarrow> string \<times> StreamStability \<Rightarrow> string \<times> StreamStability \<Rightarrow> bool" where
  "steadyLess lat a b =
     (if interruptions (snd a) \<noteq> interruptions (snd b) then interruptions (snd a) < interruptions (snd b)
      else if st_MedianThroughput (snd a) \<noteq> st_MedianThroughput (snd b)
      then st_MedianThroughput (snd a) > st_MedianThroughput (snd b)
      else if lat (fst a) \<noteq> lat (fst b) \<and> lat (fst a) > 0 \<and> lat (fst b) > 0 then lat (fst a) < lat (fst b)
      else fst a < fst b)"

definition eligibleCandidates ::
  "Policy \<Rightarrow> GroupState \<Rightarrow> (string \<Rightarrow> StreamSample list) \<Rightarrow> int \<Rightarrow> (string \<times> StreamStability) list" where
  "eligibleCandidates policy state streams interrupted =
     map (\<lambda>proxy. (proxy, streamStats policy state streams proxy))
       (filter (streamEligible policy state streams interrupted) (g_Proxies state))"

definition measuredProxies :: "Policy \<Rightarrow> GroupState \<Rightarrow> (string \<Rightarrow> StreamSample list) \<Rightarrow> string list" where
  "measuredProxies policy state streams =
     filter (\<lambda>proxy. streamWindow policy state streams proxy \<noteq> []) (g_Proxies state)"

type_synonym candidate_sort =
  "(string \<times> StreamStability \<Rightarrow> string \<times> StreamStability \<Rightarrow> bool)
    \<Rightarrow> (string \<times> StreamStability) list \<Rightarrow> (string \<times> StreamStability) list"

definition DecideSteady ::
  "candidate_sort \<Rightarrow> Policy \<Rightarrow> GroupState \<Rightarrow> Sample list \<Rightarrow> (string \<Rightarrow> StreamSample list) \<Rightarrow> gotime \<Rightarrow> Decision" where
  "DecideSteady sort_Slice policy state latency streams now =
     (let decision = \<lparr> d_Switch = False, d_LowerLatency = False, d_Group = g_Group state,
                       d_Old = g_Selected state, d_New = '''', d_Reason = ReasonInsufficientSamples,
                       d_Evidence = [], d_Streams = [] \<rparr>;
          measured = measuredProxies policy state streams;
          selected = streamStats policy state streams (g_Selected state);
          interrupted = interruptions selected;
          eligible = eligibleCandidates policy state streams interrupted
      in if guard policy state now \<noteq> '''' then decision\<lparr> d_Reason := guard policy state now \<rparr>
         else if g_Selected state = '''' \<or> g_Proxies state = [] then decision
         else if length measured > 1
                 \<and> list_all (\<lambda>proxy. \<not> Completed (last (streamWindow policy state streams proxy))) measured
         then decision\<lparr> d_Reason := ReasonAllCandidatesFailed \<rparr>
         else if interrupted < p_MaxFailures policy
         then (if st_Samples selected > 0 then decision\<lparr> d_Reason := ReasonSelectedStreamsHealthy \<rparr> else decision)
         else if eligible = [] then decision\<lparr> d_Reason := ReasonNoBetterCandidate \<rparr>
         else
           let best = fst (hd (sort_Slice (steadyLess (latencyByProxy policy state latency)) eligible))
           in decision\<lparr> d_Switch := True, d_New := best, d_Reason := ReasonSteadierStream,
                d_Streams := streamWindow policy state streams (g_Selected state)
                             @ streamWindow policy state streams best,
                d_Evidence := filter (\<lambda>sample. s_Group sample = g_Group state
                    \<and> (s_Proxy sample = g_Selected state \<or> s_Proxy sample = best)) latency \<rparr>)"

section \<open>A concrete group\<close>

definition exPull :: "string \<Rightarrow> int \<Rightarrow> StreamOutcome \<Rightarrow> StreamSample" where
  "exPull proxy at outcome =
     \<lparr> ss_Proxy = proxy, ss_URL = ''s'', ss_FinishedAt = at, ss_Bytes = 0, ss_FirstByte = 0,
       ss_Duration = 0, ss_Outcome = outcome \<rparr>"

definition exStreams :: "string \<Rightarrow> StreamSample list" where
  "exStreams =
     (\<lambda>_. [])(''a'' := [exPull ''a'' 1 StreamReset, exPull ''a'' 2 StreamStall],
             ''b'' := [exPull ''b'' 1 StreamSuccess, exPull ''b'' 2 StreamSuccess, exPull ''b'' 3 StreamSuccess],
             ''c'' := [exPull ''c'' 1 StreamSuccess, exPull ''c'' 2 StreamReset, exPull ''c'' 3 StreamSuccess,
                       exPull ''c'' 4 StreamSuccess])"

definition exSteady :: Policy where
  "exSteady = DefaultPolicy\<lparr> p_TestURL := ''u'', p_SwitchPolicy := SwitchSteadyStream \<rparr>"

definition exLatency :: "Sample list" where
  "exLatency = [exSample ''b'' 1 100 OutcomeSuccess, exSample ''c'' 1 120 OutcomeSuccess]"

section \<open>Stream windows\<close>

interpretation stream_window: timed_window ss_FinishedAt recentStreams
  by unfold_locales (auto simp: recentStreams_def last_n_def Let_def)

lemma MeasureStreams_sel [simp]:
  "st_Samples (MeasureStreams proxy samples n) = int (length (recentStreams samples n))"
  "st_Completed (MeasureStreams proxy samples n) = int (length (filter Completed (recentStreams samples n)))"
  by (simp_all add: MeasureStreams_def Let_def)

lemma interruptions_eq:
  "interruptions (MeasureStreams proxy samples n) =
     int (length (filter (\<lambda>s. \<not> Completed s) (recentStreams samples n)))"
  using sum_length_filter_compl [of Completed "recentStreams samples n"]
  by (simp add: interruptions_def)

lemma streamWindow_window [simp]:
  "recentStreams (streamWindow policy state streams proxy) 0 = streamWindow policy state streams proxy"
  by (cases "proxy \<in> set (g_Proxies state)")
    (simp_all add: streamWindow_def stream_window.window_window, simp add: recentStreams_def)

section \<open>Properties of DecideSteady\<close>

lemma DecideSteady_SwitchE:
  assumes "d_Switch (DecideSteady srt policy state latency streams now)" and "slice_sort srt"
  obtains "guard policy state now = ''''"
    "p_MaxFailures policy \<le> interruptions (streamStats policy state streams (g_Selected state))"
    "d_New (DecideSteady srt policy state latency streams now) \<in> set (g_Proxies state)"
    "streamEligible policy state streams (interruptions (streamStats policy state streams (g_Selected state)))
       (d_New (DecideSteady srt policy state latency streams now))"
    "d_New (DecideSteady srt policy state latency streams now) =
       fst (hd (srt (steadyLess (latencyByProxy policy state latency))
         (eligibleCandidates policy state streams
            (interruptions (streamStats policy state streams (g_Selected state))))))"
proof -
  let ?i = "interruptions (streamStats policy state streams (g_Selected state))"
  let ?e = "eligibleCandidates policy state streams ?i"
  let ?b = "hd (srt (steadyLess (latencyByProxy policy state latency)) ?e)"
  from assms(1) have *: "guard policy state now = ''''" "p_MaxFailures policy \<le> ?i" "?e \<noteq> []"
      "d_New (DecideSteady srt policy state latency streams now) = fst ?b"
    unfolding DecideSteady_def Let_def by (auto split: if_splits)
  from slice_sort.sort_Slice_hd_in [OF assms(2) *(3)] have "?b \<in> set ?e" .
  then have "fst ?b \<in> set (g_Proxies state) \<and> streamEligible policy state streams ?i (fst ?b)"
    by (auto simp: eligibleCandidates_def)
  with * that show ?thesis by metis
qed

text \<open>
  C13. Whatever \<open>sort.Slice\<close> does with equal candidates, a steady-stream switch leaves a node only
  after at least \<open>MaxFailures\<close> of its recent downloads broke, respects the guard, and moves to
  another member whose newest download completed, which completed at least \<open>MinCandidateSamples\<close>
  downloads and broke strictly fewer than the node it replaces.
\<close>

theorem steady_switch_sound:
  assumes "d_Switch (DecideSteady srt policy state latency streams now)" and "slice_sort srt"
  shows "guard policy state now = ''''
    \<and> p_MaxFailures policy
        \<le> int (length (filter (\<lambda>s. \<not> Completed s) (streamWindow policy state streams (g_Selected state))))
    \<and> d_New (DecideSteady srt policy state latency streams now) \<in> set (g_Proxies state) - {g_Selected state}
    \<and> Completed (last (streamWindow policy state streams (d_New (DecideSteady srt policy state latency streams now))))
    \<and> p_MinCandidateSamples policy
        \<le> int (length (filter Completed
             (streamWindow policy state streams (d_New (DecideSteady srt policy state latency streams now)))))
    \<and> length (filter (\<lambda>s. \<not> Completed s)
          (streamWindow policy state streams (d_New (DecideSteady srt policy state latency streams now))))
        < length (filter (\<lambda>s. \<not> Completed s) (streamWindow policy state streams (g_Selected state)))"
  using assms
proof (rule DecideSteady_SwitchE)
  assume "guard policy state now = ''''"
    "p_MaxFailures policy \<le> interruptions (streamStats policy state streams (g_Selected state))"
    "d_New (DecideSteady srt policy state latency streams now) \<in> set (g_Proxies state)"
    "streamEligible policy state streams (interruptions (streamStats policy state streams (g_Selected state)))
       (d_New (DecideSteady srt policy state latency streams now))"
  then show ?thesis
    by (auto simp: streamEligible_def streamStats_def Let_def interruptions_eq split: if_splits)
qed

lemma ex_steady:
  "d_Switch (DecideSteady insertionSort exSteady exGroup exLatency exStreams 10)
   \<and> d_New (DecideSteady insertionSort exSteady exGroup exLatency exStreams 10) = ''b''"
  by code_simp

theorem steady_switch_sound_witness:
  "Completed (last (streamWindow exSteady exGroup exStreams ''b''))"
  using steady_switch_sound [OF conjunct1 [OF ex_steady] go_insertion.slice_sort_axioms] ex_steady by simp

text \<open>
  Where every eligible candidate has a known latency the comparison is a strict weak order (in
  fact a strict linear order on distinct names), and the head of the sorted slice is a best one.
\<close>

lemma steadyLess_strict_weak:
  assumes "\<And>c. c \<in> A \<Longrightarrow> 0 < lat (fst c)"
  shows "strict_weak_on A (steadyLess lat)"
  using assms unfolding strict_weak_on_def steadyLess_def
  by (intro conjI ballI impI; force split: if_splits)

text \<open>
  C14. When the latency of every eligible candidate is known, the chosen node is best among them: no
  eligible candidate has fewer broken downloads, or equally many and a higher median throughput,
  or equal ones and a lower median latency.
\<close>

theorem steady_picks_best:
  assumes "d_Switch (DecideSteady srt policy state latency streams now)" and "slice_sort srt"
    and "\<And>q. q \<in> set (g_Proxies state) \<Longrightarrow> 0 < latencyByProxy policy state latency q"
    and "p \<in> set (g_Proxies state)"
    and "streamEligible policy state streams (interruptions (streamStats policy state streams (g_Selected state))) p"
  shows "\<not> steadyLess (latencyByProxy policy state latency)
      (p, streamStats policy state streams p)
      (d_New (DecideSteady srt policy state latency streams now),
       streamStats policy state streams (d_New (DecideSteady srt policy state latency streams now)))"
  using assms(1,2)
proof (rule DecideSteady_SwitchE)
  let ?e = "eligibleCandidates policy state streams
    (interruptions (streamStats policy state streams (g_Selected state)))"
  let ?lt = "steadyLess (latencyByProxy policy state latency)"
  assume new: "d_New (DecideSteady srt policy state latency streams now) = fst (hd (srt ?lt ?e))"
  have p: "(p, streamStats policy state streams p) \<in> set ?e"
    using assms(4,5) by (auto simp: eligibleCandidates_def)
  have "strict_weak_on (set ?e) ?lt"
    by (rule steadyLess_strict_weak) (auto simp: eligibleCandidates_def assms(3))
  from slice_sort.sort_Slice_hd_least [OF assms(2) this p]
  have "\<not> ?lt (p, streamStats policy state streams p) (hd (srt ?lt ?e))" .
  moreover have "hd (srt ?lt ?e) = (fst (hd (srt ?lt ?e)), streamStats policy state streams (fst (hd (srt ?lt ?e))))"
  proof -
    have "hd (srt ?lt ?e) \<in> set ?e"
      using p by (intro slice_sort.sort_Slice_hd_in [OF assms(2)]) auto
    then show ?thesis by (auto simp: eligibleCandidates_def)
  qed
  ultimately show ?thesis using new by metis
qed

definition exLatencyAll :: "Sample list" where
  "exLatencyAll = exSample ''a'' 1 300 OutcomeSuccess # exLatency"

lemma ex_steady_all:
  "d_Switch (DecideSteady insertionSort exSteady exGroup exLatencyAll exStreams 10)"
  "d_New (DecideSteady insertionSort exSteady exGroup exLatencyAll exStreams 10) = ''b''"
  "list_all (\<lambda>q. 0 < latencyByProxy exSteady exGroup exLatencyAll q) (g_Proxies exGroup)"
  "''c'' \<in> set (g_Proxies exGroup)"
  "streamEligible exSteady exGroup exStreams
     (interruptions (streamStats exSteady exGroup exStreams (g_Selected exGroup))) ''c''"
  by code_simp+

theorem steady_picks_best_witness:
  "\<not> steadyLess (latencyByProxy exSteady exGroup exLatencyAll)
      (''c'', streamStats exSteady exGroup exStreams ''c'')
      (''b'', streamStats exSteady exGroup exStreams ''b'')"
  using steady_picks_best [OF ex_steady_all(1) go_insertion.slice_sort_axioms _ ex_steady_all(4,5)]
    ex_steady_all(2,3) by (simp add: list_all_iff)

section \<open>The comparison is not an order\<close>

definition cyc :: "string \<Rightarrow> string \<times> StreamStability" where
  "cyc name = (name, \<lparr> st_Proxy = name, st_Samples = 3, st_Completed = 3, st_MedianThroughput = 0 \<rparr>)"

definition cycLatency :: "string \<Rightarrow> duration" where
  "cycLatency = (\<lambda>_. 0)(''a'' := 20, ''c'' := 10)"


end
