(* ===== verification/Monitor_Scheduler.thy ===== *)
theory Monitor_Scheduler
  imports Monitor_Steady
begin

text \<open>
  The shared part of the probe scheduler (\<open>src/monitor/scheduler.go\<close>): the state behind the mutex,
  the calls other goroutines make (\<open>SetGroups\<close>, \<open>Request\<close>, \<open>SetStreamMembers\<close>, \<open>ReportDialFailure\<close>),
  and the pure helpers of the loop, of which \<open>streamTargets\<close> chooses the nodes of a download round.
  The loop itself is in \<open>Monitor_Run\<close>.

  A call that takes the mutex is one step. Where it goes on to \<open>signal()\<close> after the unlock, its
  result says so and the signal is a step of its own in \<open>Monitor_Run\<close>.
\<close>

section \<open>State\<close>

datatype SchedulerError =
    PolicyInvalid string | ProberRequired | StreamProberRequired | BatchHandlerRequired
  | GroupNameRequired | DuplicateGroup string | SelectedRequired string | BlankProxy string
  | DuplicateProxy string string | SelectedAbsent string string | AutomatedWithoutProbes string
  | UnknownGroup string | RunOnlyOnce

text \<open>
  \<open>sc_groups\<close> is \<open>None\<close> while the slice is nil, which \<open>reflect.DeepEqual\<close> tells from an empty one.
  The maps \<open>dialFailures\<close> and \<open>lastDialProbe\<close> are only indexed; \<open>requests\<close> and \<open>members\<close> are used as sets.
\<close>

record Scheduler =
  sc_policy :: Policy
  sc_groups :: "GroupState list option"
  sc_generation :: int
  sc_requests :: "string set"
  sc_dialFailures :: "string \<Rightarrow> int"
  sc_lastDialProbe :: "string \<Rightarrow> gotime"
  sc_members :: "string set"
  sc_wake :: bool
  sc_started :: bool

definition groupList :: "Scheduler \<Rightarrow> GroupState list" where
  "groupList s = (case sc_groups s of None \<Rightarrow> [] | Some groups \<Rightarrow> groups)"

definition DialFailureProbeSpacing :: duration where
  "DialFailureProbeSpacing = 15 * Second"

text \<open>The three flags say whether the prober, the stream prober and the batch handler are non-nil.\<close>

definition NewScheduler ::
  "url_parser \<Rightarrow> Policy \<Rightarrow> bool \<Rightarrow> bool \<Rightarrow> bool \<Rightarrow> SchedulerError + Scheduler" where
  "NewScheduler url_Parse policy prober streamer onBatch =
     (case Policy_Validate url_Parse policy of
        Some err \<Rightarrow> Inl (PolicyInvalid err)
      | None \<Rightarrow>
          if \<not> prober then Inl ProberRequired
          else if p_SwitchPolicy policy = SwitchSteadyStream \<and> \<not> streamer then Inl StreamProberRequired
          else if \<not> onBatch then Inl BatchHandlerRequired
          else Inr \<lparr> sc_policy = policy, sc_groups = None, sc_generation = 0, sc_requests = {},
                     sc_dialFailures = (\<lambda>_. 0), sc_lastDialProbe = (\<lambda>_. 0), sc_members = {},
                     sc_wake = False, sc_started = False \<rparr>)"

section \<open>Calls of other goroutines\<close>

text \<open>The inner loop over the proxies of a group: the result says whether the selected one was found.\<close>

fun checkProxies :: "string \<Rightarrow> string \<Rightarrow> string list \<Rightarrow> string list \<Rightarrow> bool \<Rightarrow> SchedulerError + bool" where
  "checkProxies grp selected seen [] found = Inr found"
| "checkProxies grp selected seen (proxy # proxies) found =
     (if strings_TrimSpace proxy = '''' then Inl (BlankProxy grp)
      else if proxy \<in> set seen then Inl (DuplicateProxy proxy grp)
      else checkProxies grp selected (proxy # seen) proxies (found \<or> proxy = selected))"

fun checkGroups :: "string list \<Rightarrow> GroupState list \<Rightarrow> SchedulerError option" where
  "checkGroups seen [] = None"
| "checkGroups seen (grp # groups) =
     (if strings_TrimSpace (g_Group grp) = '''' then Some GroupNameRequired
      else if g_Group grp \<in> set seen then Some (DuplicateGroup (g_Group grp))
      else if g_Selected grp = '''' then Some (SelectedRequired (g_Group grp))
      else
        case checkProxies (g_Group grp) (g_Selected grp) [] (g_Proxies grp) False of
          Inl err \<Rightarrow> Some err
        | Inr selectedFound \<Rightarrow>
            if \<not> selectedFound then Some (SelectedAbsent (g_Selected grp) (g_Group grp))
            else if g_AutomationEnabled grp \<and> \<not> g_ProbeEnabled grp
            then Some (AutomatedWithoutProbes (g_Group grp))
            else checkGroups (g_Group grp # seen) groups)"

text \<open>
  The results of a call: the error, and whether the call goes on to \<open>signal()\<close>. The generation is a
  \<open>uint64\<close>.
\<close>

definition SetGroups :: "GroupState list \<Rightarrow> Scheduler \<Rightarrow> SchedulerError + (Scheduler \<times> bool)" where
  "SetGroups groups s =
     (case checkGroups [] groups of
        Some err \<Rightarrow> Inl err
      | None \<Rightarrow>
          if sc_groups s = Some groups then Inr (s, False)
          else Inr (s\<lparr> sc_groups := Some groups, sc_generation := (sc_generation s + 1) mod 2 ^ 64 \<rparr>, True))"

definition Request :: "string \<Rightarrow> Scheduler \<Rightarrow> SchedulerError + (Scheduler \<times> bool)" where
  "Request grp s =
     (if \<not> list_ex (\<lambda>current. g_Group current = grp) (groupList s) then Inl (UnknownGroup grp)
      else Inr (s\<lparr> sc_requests := insert grp (sc_requests s) \<rparr>, True))"

definition ProbedGroups :: "Scheduler \<Rightarrow> string list" where
  "ProbedGroups s = map g_Group (filter g_ProbeEnabled (groupList s))"

definition SetStreamMembers :: "string list \<Rightarrow> Scheduler \<Rightarrow> Scheduler \<times> bool" where
  "SetStreamMembers names s =
     (if sc_members s = set names then (s, False) else (s\<lparr> sc_members := set names \<rparr>, True))"

definition ReportDialFailure :: "string \<Rightarrow> gotime \<Rightarrow> Scheduler \<Rightarrow> Scheduler \<times> bool" where
  "ReportDialFailure grp now s =
     (let probed = (case find (\<lambda>current. g_Group current = grp) (groupList s) of
                      None \<Rightarrow> False | Some current \<Rightarrow> g_ProbeEnabled current)
      in if \<not> probed then (s, False)
         else
           let failures = sc_dialFailures s grp + 1;
               s' = s\<lparr> sc_dialFailures := (sc_dialFailures s)(grp := failures) \<rparr>
           in if failures < p_MaxFailures (sc_policy s)
                 \<or> time_Sub now (sc_lastDialProbe s grp) < DialFailureProbeSpacing
              then (s', False)
              else (s'\<lparr> sc_lastDialProbe := (sc_lastDialProbe s)(grp := now),
                         sc_requests := insert grp (sc_requests s) \<rparr>, True))"

text \<open>A send on the channel \<open>wake\<close> of capacity one, dropped when it is full.\<close>

definition signal :: "Scheduler \<Rightarrow> Scheduler" where
  "signal s = s\<lparr> sc_wake := True \<rparr>"

text \<open>\<open>draw\<close> is the number \<open>rand.Int64N\<close> returns for the bound it is given.\<close>

definition jitter :: "(int \<Rightarrow> int) \<Rightarrow> Policy \<Rightarrow> duration" where
  "jitter draw policy = (if p_Jitter policy \<le> 0 then 0 else draw (i64 (p_Jitter policy + 1)))"

section \<open>Helpers of the loop\<close>

record groupRuntime =
  gr_state :: GroupState
  gr_next :: gotime
  gr_history :: "(string \<times> Sample list) list"
  gr_alert :: AlertState

type_synonym runtimes = "(string \<times> groupRuntime) list"

definition historyOf :: "groupRuntime \<Rightarrow> string \<Rightarrow> Sample list" where
  "historyOf runtime proxy = (case map_of (gr_history runtime) proxy of None \<Rightarrow> [] | Some samples \<Rightarrow> samples)"

definition sortedGroupNames :: "runtimes \<Rightarrow> string list" where
  "sortedGroupNames groups = sort (map fst groups)"

fun nextDeadlineFrom :: "groupRuntime list \<Rightarrow> gotime \<Rightarrow> gotime" where
  "nextDeadlineFrom [] next = next"
| "nextDeadlineFrom (runtime # groups) next =
     (if \<not> g_ProbeEnabled (gr_state runtime) \<or> time_IsZero (gr_next runtime) then nextDeadlineFrom groups next
      else if time_IsZero next \<or> gr_next runtime < next then nextDeadlineFrom groups (gr_next runtime)
      else nextDeadlineFrom groups next)"

definition nextDeadline :: "runtimes \<Rightarrow> gotime" where
  "nextDeadline groups = nextDeadlineFrom (map snd groups) 0"

definition historySamples :: "groupRuntime \<Rightarrow> Sample list" where
  "historySamples runtime = concat (map snd (gr_history runtime))"

definition pruneStreams :: "StreamSample list \<Rightarrow> gotime \<Rightarrow> int \<Rightarrow> StreamSample list" where
  "pruneStreams samples cutoff windowSize =
     (let start = max (int (length (takeWhile (\<lambda>s. ss_FinishedAt s < cutoff) samples)))
                      (int (length samples) - windowSize)
      in if start = 0 then samples else drop (nat start) samples)"

section \<open>The nodes of a download round\<close>

text \<open>The closure \<open>add\<close>; the map \<open>seen\<close> holds exactly the elements of \<open>out\<close>.\<close>

definition addTarget :: "string set \<Rightarrow> string \<Rightarrow> string list \<Rightarrow> string list" where
  "addTarget members proxy out =
     (if proxy \<in> members \<and> proxy \<notin> set out \<and> length out < StreamPullCap then out @ [proxy] else out)"

definition selectedTargets :: "string set \<Rightarrow> GroupState list \<Rightarrow> string list" where
  "selectedTargets members groups =
     fold (addTarget members) (map g_Selected (filter g_AutomationEnabled groups)) []"

text \<open>The candidates of one group, fastest first.\<close>

definition targetEligible ::
  "(string \<Rightarrow> Sample list) \<Rightarrow> string set \<Rightarrow> int \<Rightarrow> GroupState \<Rightarrow> string \<Rightarrow> bool" where
  "targetEligible history members windowSize grp proxy =
     (let samples = recent (history proxy) windowSize in
      \<not> (proxy = g_Selected grp \<or> proxy \<notin> members \<or> samples = [] \<or> sampleFailed (last samples)))"

definition targetMedian :: "(string \<Rightarrow> Sample list) \<Rightarrow> int \<Rightarrow> string \<Rightarrow> duration" where
  "targetMedian history windowSize proxy = b_Median (MeasureStability (recent (history proxy) windowSize) 0)"

definition fastest :: "(string \<Rightarrow> Sample list) \<Rightarrow> string set \<Rightarrow> int \<Rightarrow> GroupState \<Rightarrow> string list" where
  "fastest history members windowSize grp =
     sort_key (targetMedian history windowSize)
       (filter (targetEligible history members windowSize grp) (g_Proxies grp))"

definition streamCandidates ::
  "GroupState list \<Rightarrow> (string \<Rightarrow> string \<Rightarrow> Sample list) \<Rightarrow> string set \<Rightarrow> int \<Rightarrow> string list list" where
  "streamCandidates groups history members windowSize =
     map (\<lambda>grp. fastest (history (g_Group grp)) members windowSize grp)
       (filter g_AutomationEnabled groups)"

text \<open>The proxies the double loop offers to \<open>add\<close>, in order: rank by rank, one per group in turn.\<close>

definition offeredAt :: "string list list \<Rightarrow> nat \<Rightarrow> nat \<Rightarrow> nat \<Rightarrow> string list" where
  "offeredAt candidates round rank i =
     (let grp = candidates ! ((round + i) mod length candidates) in
      if rank < length grp then [grp ! rank] else [])"

definition offered :: "string list list \<Rightarrow> nat \<Rightarrow> string list" where
  "offered candidates round =
     concat (map (\<lambda>rank. concat (map (offeredAt candidates round rank) [0..<length candidates]))
       [0..<StreamCandidates])"

definition streamTargets ::
  "GroupState list \<Rightarrow> (string \<Rightarrow> string \<Rightarrow> Sample list) \<Rightarrow> string set \<Rightarrow> int \<Rightarrow> nat \<Rightarrow> string list" where
  "streamTargets groups history members windowSize round =
     fold (addTarget members) (offered (streamCandidates groups history members windowSize) round)
       (selectedTargets members groups)"

section \<open>Accepted group snapshots\<close>

text \<open>What \<open>SetGroups\<close> demands of a snapshot, stated without the order of its checks.\<close>

definition wf_group :: "GroupState \<Rightarrow> bool" where
  "wf_group grp \<longleftrightarrow>
     strings_TrimSpace (g_Group grp) \<noteq> '''' \<and> g_Selected grp \<noteq> '''' \<and> g_Selected grp \<in> set (g_Proxies grp)
     \<and> distinct (g_Proxies grp) \<and> list_all (\<lambda>proxy. strings_TrimSpace proxy \<noteq> '''') (g_Proxies grp)
     \<and> (g_AutomationEnabled grp \<longrightarrow> g_ProbeEnabled grp)"

definition wf_groups :: "GroupState list \<Rightarrow> bool" where
  "wf_groups groups \<longleftrightarrow> distinct (map g_Group groups) \<and> list_all wf_group groups"

lemma checkProxies_Inr_iff:
  "checkProxies grp selected seen proxies found = Inr r \<longleftrightarrow>
     list_all (\<lambda>proxy. strings_TrimSpace proxy \<noteq> '''') proxies
     \<and> distinct proxies \<and> set proxies \<inter> set seen = {}
     \<and> r = (found \<or> selected \<in> set proxies)"
  by (induction grp selected seen proxies found rule: checkProxies.induct) auto

lemma checkGroups_None_iff:
  "checkGroups seen groups = None \<longleftrightarrow>
     distinct (map g_Group groups) \<and> g_Group ` set groups \<inter> set seen = {} \<and> list_all wf_group groups"
proof (induction seen groups rule: checkGroups.induct)
  case (2 seen grp groups)
  show ?case
  proof (cases "checkProxies (g_Group grp) (g_Selected grp) [] (g_Proxies grp) False")
    case (Inl err)
    then have "\<not> (list_all (\<lambda>proxy. strings_TrimSpace proxy \<noteq> '''') (g_Proxies grp) \<and> distinct (g_Proxies grp))"
      using checkProxies_Inr_iff [of "g_Group grp" "g_Selected grp" "[]" "g_Proxies grp" False
          "g_Selected grp \<in> set (g_Proxies grp)"] by auto
    with Inl show ?thesis by (auto simp: wf_group_def)
  next
    case (Inr found)
    let ?ok = "strings_TrimSpace (g_Group grp) \<noteq> '''' \<and> g_Group grp \<notin> set seen \<and> g_Selected grp \<noteq> ''''
      \<and> found \<and> (g_AutomationEnabled grp \<longrightarrow> g_ProbeEnabled grp)"
    from Inr have wf: "wf_group grp \<and> g_Group grp \<notin> set seen \<longleftrightarrow> ?ok"
      by (auto simp: checkProxies_Inr_iff wf_group_def)
    show ?thesis
    proof (cases ?ok)
      case True
      with 2 Inr have "checkGroups (g_Group grp # seen) groups = None \<longleftrightarrow>
          distinct (map g_Group groups) \<and> g_Group ` set groups \<inter> set (g_Group grp # seen) = {}
          \<and> list_all wf_group groups" by blast
      with True Inr wf show ?thesis by auto
    next
      case False
      then have "checkGroups seen (grp # groups) \<noteq> None" using Inr by auto
      with False wf show ?thesis by (auto simp del: checkGroups.simps)
    qed
  qed
qed simp

text \<open>
  \<open>SetGroups\<close> accepts a snapshot exactly when the group names are distinct and every group is
  well formed (named, selected node among distinct, non-blank members, probed if automated). An
  accepted snapshot becomes the current one, and the generation moves exactly when it differs from
  the one before; a rejected one changes nothing.
\<close>

theorem SetGroups_accepts:
  "(case SetGroups groups s of
      Inl err \<Rightarrow> \<not> wf_groups groups
    | Inr (s', signalled) \<Rightarrow>
        wf_groups groups \<and> sc_groups s' = Some groups
        \<and> signalled = (sc_groups s \<noteq> Some groups)
        \<and> sc_generation s' = (if signalled then (sc_generation s + 1) mod 2 ^ 64 else sc_generation s)
        \<and> s'\<lparr> sc_groups := sc_groups s, sc_generation := sc_generation s \<rparr> = s)"
  using checkGroups_None_iff [of "[]" groups]
  by (cases "checkGroups [] groups") (simp_all add: SetGroups_def wf_groups_def)

section \<open>Download rounds\<close>

lemma addTarget_cases:
  "addTarget members proxy out = out \<or>
   (addTarget members proxy out = out @ [proxy] \<and> proxy \<in> members \<and> proxy \<notin> set out \<and> length out < StreamPullCap)"
  by (simp add: addTarget_def)

lemma fold_addTarget:
  assumes "distinct out" and "length out \<le> StreamPullCap" and "set out \<subseteq> members"
  shows "distinct (fold (addTarget members) xs out)
    \<and> length (fold (addTarget members) xs out) \<le> StreamPullCap
    \<and> set (fold (addTarget members) xs out) \<subseteq> members
    \<and> set (fold (addTarget members) xs out) \<subseteq> set out \<union> set xs
    \<and> prefix out (fold (addTarget members) xs out)"
  using assms
proof (induction xs arbitrary: out)
  case (Cons x xs)
  have "distinct (addTarget members x out) \<and> length (addTarget members x out) \<le> StreamPullCap
      \<and> set (addTarget members x out) \<subseteq> members" "prefix out (addTarget members x out)"
      "set (addTarget members x out) \<subseteq> insert x (set out)"
    using Cons.prems addTarget_cases [of members x out] by auto
  with Cons.IH [of "addTarget members x out"] show ?case
    by (fastforce intro: prefix_order.trans)
qed auto

lemma fold_addTarget_full: "StreamPullCap \<le> length out \<Longrightarrow> fold (addTarget members) xs out = out"
  by (induction xs) (simp_all add: addTarget_def)

lemma fold_addTarget_append:
  "distinct (out @ xs) \<Longrightarrow> set xs \<subseteq> members \<Longrightarrow> length (out @ xs) \<le> StreamPullCap \<Longrightarrow>
   fold (addTarget members) xs out = out @ xs"
proof (induction xs arbitrary: out)
  case (Cons x xs)
  then have "addTarget members x out = out @ [x]" by (simp add: addTarget_def)
  with Cons.IH [of "out @ [x]"] Cons.prems show ?case by simp
qed simp

lemma fold_addTarget_room:
  assumes "x \<in> set xs" and "x \<in> members" and "length (fold (addTarget members) xs out) < StreamPullCap"
  shows "x \<in> set (fold (addTarget members) xs out)"
  using assms(1,3)
proof (induction xs arbitrary: out)
  case (Cons y ys)
  show ?case
  proof (cases "x = y")
    case True
    have mono: "prefix o' (fold (addTarget members) zs o')" for zs o'
      by (induction zs arbitrary: o')
        (auto simp: addTarget_def intro: prefix_order.trans [OF prefixI [OF refl]])
    have "length out < StreamPullCap"
      using Cons.prems(2) prefix_length_le [OF mono [of out "y # ys"]] by simp
    with True assms(2) have "x \<in> set (addTarget members y out)" by (auto simp: addTarget_def)
    moreover have "set (addTarget members y out) \<subseteq> set (fold (addTarget members) ys (addTarget members y out))"
      by (rule set_mono_prefix [OF mono])
    ultimately show ?thesis by auto
  next
    case False
    with Cons show ?thesis by simp
  qed
qed simp

lemma set_offered:
  assumes "candidates \<noteq> []"
  shows "set (offered candidates round) \<subseteq> (\<Union>c \<in> set candidates. set c)"
proof
  fix p assume "p \<in> set (offered candidates round)"
  then obtain rank i where "i < length candidates" "p \<in> set (offeredAt candidates round rank i)"
    by (auto simp: offered_def)
  then have "p \<in> set (candidates ! ((round + i) mod length candidates))"
    by (auto simp: offeredAt_def Let_def split: if_splits)
  moreover have "candidates ! ((round + i) mod length candidates) \<in> set candidates" using assms by simp
  ultimately show "p \<in> (\<Union>c \<in> set candidates. set c)" by blast
qed

lemma offered_Nil [simp]: "offered [] round = []"
  by (simp add: offered_def)

lemma set_streamCandidates:
  "p \<in> (\<Union>c \<in> set (streamCandidates groups history members windowSize). set c) \<longleftrightarrow>
   (\<exists>grp \<in> set groups. g_AutomationEnabled grp \<and> p \<in> set (g_Proxies grp)
      \<and> targetEligible (history (g_Group grp)) members windowSize grp p)"
  by (auto simp: streamCandidates_def fastest_def)

lemma selectedTargets_sound:
  "distinct (selectedTargets members groups) \<and> length (selectedTargets members groups) \<le> StreamPullCap
   \<and> set (selectedTargets members groups) \<subseteq> members
   \<and> set (selectedTargets members groups) \<subseteq> g_Selected ` {grp \<in> set groups. g_AutomationEnabled grp}"
  using fold_addTarget [of "[]" members "map g_Selected (filter g_AutomationEnabled groups)"]
  by (auto simp: selectedTargets_def)

text \<open>
  A download round pulls each node once, at most \<open>StreamPullCap\<close> of them, only nodes reachable
  through the probe listener, the selected nodes of automated groups first; every other node of the
  round is a member of an automated group whose newest probe answered.
\<close>

theorem streamTargets_sound:
  "distinct (streamTargets groups history members windowSize round)
   \<and> length (streamTargets groups history members windowSize round) \<le> StreamPullCap
   \<and> set (streamTargets groups history members windowSize round) \<subseteq> members
   \<and> prefix (selectedTargets members groups) (streamTargets groups history members windowSize round)
   \<and> set (streamTargets groups history members windowSize round)
       \<subseteq> g_Selected ` {grp \<in> set groups. g_AutomationEnabled grp}
         \<union> {p. \<exists>grp \<in> set groups. g_AutomationEnabled grp \<and> p \<in> set (g_Proxies grp)
              \<and> targetEligible (history (g_Group grp)) members windowSize grp p}"
proof -
  let ?cs = "streamCandidates groups history members windowSize"
  have "set (offered ?cs round) \<subseteq> (\<Union>c \<in> set ?cs. set c)"
    by (cases "?cs = []") (simp, rule set_offered)
  then have off: "set (offered ?cs round) \<subseteq> {p. \<exists>grp \<in> set groups. g_AutomationEnabled grp
      \<and> p \<in> set (g_Proxies grp) \<and> targetEligible (history (g_Group grp)) members windowSize grp p}"
    using set_streamCandidates [of _ groups history members windowSize] by (simp add: subset_iff)
  note sel = selectedTargets_sound [of members groups]
  from fold_addTarget [of "selectedTargets members groups" members "offered ?cs round"] sel
  have fld: "distinct (streamTargets groups history members windowSize round)
    \<and> length (streamTargets groups history members windowSize round) \<le> StreamPullCap
    \<and> set (streamTargets groups history members windowSize round) \<subseteq> members
    \<and> set (streamTargets groups history members windowSize round)
        \<subseteq> set (selectedTargets members groups) \<union> set (offered ?cs round)
    \<and> prefix (selectedTargets members groups) (streamTargets groups history members windowSize round)"
    unfolding streamTargets_def by simp
  then have "set (streamTargets groups history members windowSize round)
      \<subseteq> set (selectedTargets members groups) \<union> set (offered ?cs round)" by simp
  also have "\<dots> \<subseteq> g_Selected ` {grp \<in> set groups. g_AutomationEnabled grp}
      \<union> {p. \<exists>grp \<in> set groups. g_AutomationEnabled grp
      \<and> p \<in> set (g_Proxies grp) \<and> targetEligible (history (g_Group grp)) members windowSize grp p}"
    using sel off by (intro Un_mono) simp_all
  finally show ?thesis using fld by simp
qed

lemma offered_first:
  assumes "candidates \<noteq> []" and "candidates ! (round mod length candidates) \<noteq> []"
  shows "\<exists>rest. offered candidates round = hd (candidates ! (round mod length candidates)) # rest"
proof -
  have "[0..<StreamCandidates] = 0 # [1..<StreamCandidates]"
    by (simp add: StreamCandidates_def upt_conv_Cons)
  moreover have "[0..<length candidates] = 0 # [1..<length candidates]"
    using assms(1) by (simp add: upt_conv_Cons)
  moreover have "offeredAt candidates round 0 0 = [hd (candidates ! (round mod length candidates))]"
    using assms(2) by (simp add: offeredAt_def hd_conv_nth)
  ultimately show ?thesis by (simp add: offered_def)
qed

lemma streamCandidates_members:
  "c \<in> set (streamCandidates groups history members windowSize) \<Longrightarrow> set c \<subseteq> members"
  by (auto simp: streamCandidates_def fastest_def targetEligible_def Let_def)

text \<open>
  C16. The rotation serves every automated group while a slot is left: unless the selected nodes alone
  fill the cap, in the rounds that are congruent to the position of an automated group its fastest
  candidate is pulled.
\<close>

theorem streamTargets_rotation:
  assumes "i < length (streamCandidates groups history members windowSize)"
    and "streamCandidates groups history members windowSize ! i \<noteq> []"
    and "round mod length (streamCandidates groups history members windowSize) = i"
    and "length (selectedTargets members groups) < StreamPullCap"
  shows "hd (streamCandidates groups history members windowSize ! i)
           \<in> set (streamTargets groups history members windowSize round)"
proof -
  let ?cs = "streamCandidates groups history members windowSize"
  let ?c = "hd (?cs ! i)" and ?sel = "selectedTargets members groups"
  obtain rest where rest: "offered ?cs round = ?c # rest"
    using offered_first [of ?cs round] assms(1-3) by (cases "?cs = []") auto
  have "?c \<in> members"
    using streamCandidates_members [of "?cs ! i" groups history members windowSize] assms(1,2) by auto
  with assms(4) have "?c \<in> set (addTarget members ?c ?sel)" by (auto simp: addTarget_def)
  moreover have "prefix (addTarget members ?c ?sel) (fold (addTarget members) rest (addTarget members ?c ?sel))"
    using fold_addTarget [of "addTarget members ?c ?sel" members rest]
      selectedTargets_sound [of members groups] addTarget_cases [of members ?c ?sel] by auto
  ultimately show ?thesis
    using set_mono_prefix by (fastforce simp: streamTargets_def rest)
qed

text \<open>
  C17. The cap is applied to the selected nodes in group order and is not rotated: when the first
  automated groups select \<open>StreamPullCap\<close> different reachable nodes, every round pulls exactly these,
  and the selected node and the candidates of a later automated group are never pulled.
\<close>

theorem streamTargets_cap_starves:
  assumes "map g_Selected (filter g_AutomationEnabled groups) = sel @ later"
    and "distinct sel" and "length sel = StreamPullCap" and "set sel \<subseteq> members"
  shows "streamTargets groups history members windowSize round = sel"
proof -
  have "selectedTargets members groups = sel"
    using fold_addTarget_append [of "[]" sel members] assms
    by (simp add: selectedTargets_def fold_addTarget_full)
  then show ?thesis using assms(3) by (simp add: streamTargets_def fold_addTarget_full)
qed

section \<open>Concrete rounds\<close>

definition exNine :: "GroupState list" where
  "exNine = map (\<lambda>n. exGroup\<lparr> g_Group := n, g_Selected := n, g_Proxies := [n] \<rparr>)
     [''a'', ''b'', ''c'', ''d'', ''e'', ''f'', ''g'', ''h'', ''i'']"

theorem streamTargets_cap_starves_witness:
  "''i'' \<notin> set (streamTargets exNine (\<lambda>_ _. []) (set (map g_Group exNine)) 5 3)"
proof -
  have "streamTargets exNine (\<lambda>_ _. []) (set (map g_Group exNine)) 5 3
      = [''a'', ''b'', ''c'', ''d'', ''e'', ''f'', ''g'', ''h'']"
    by (rule streamTargets_cap_starves [where later = "[''i'']"])
      (simp_all add: exNine_def exGroup_def StreamPullCap_def)
  then show ?thesis by simp
qed

definition exHistory :: "string \<Rightarrow> string \<Rightarrow> Sample list" where
  "exHistory grp proxy = filter (\<lambda>s. s_Proxy s = proxy) exLatency"

lemma ex_candidates: "streamCandidates [exGroup] exHistory {''a'', ''b''} 5 = [[''b'']]"
  by code_simp

lemma ex_selected: "selectedTargets {''a'', ''b''} [exGroup] = [''a'']"
  by code_simp

theorem streamTargets_rotation_witness: "''b'' \<in> set (streamTargets [exGroup] exHistory {''a'', ''b''} 5 7)"
  using streamTargets_rotation [of 0 "[exGroup]" exHistory "{''a'', ''b''}" 5 7]
  by (simp add: ex_candidates ex_selected StreamPullCap_def)

end
