(* ===== verification/Monitor_Run.thy ===== *)
theory Monitor_Run
  imports Monitor_Scheduler
begin

text \<open>
  The scheduler loop (\<open>Scheduler.Run\<close> in \<open>src/monitor/scheduler.go\<close>) as a labelled transition
  system. The local variables of \<open>Run\<close>, its channels and its workers are one record; a label names
  the call, the case of the \<open>select\<close> or the worker action that runs next, and carries what the
  environment decides there: clock readings, random draws, probe results. Each section under the
  mutex is one step, so that calls of other goroutines interleave with the loop at the points where
  the code releases it; a call and the \<open>signal()\<close> after its unlock are two steps.

  The section that starts a batch takes the mutex once to read the generation and once per due
  group to delete a dial-failure counter; these are one step here.
\<close>

section \<open>State\<close>

record probeTask =
  t_group :: string
  t_proxy :: string

record probeResult =
  pr_task :: probeTask
  pr_sample :: Sample

datatype phase = NotStarted | Refreshing | PreparingProbes | PreparingStreams | Selecting | Stopped

record Run =
  l_phase :: phase
  l_runtimes :: runtimes
  l_forced :: "string set"
  l_pending :: "probeTask list"
  l_active :: bool
  l_remaining :: "(string \<times> int) list"
  l_activeGroups :: "string list"
  l_batchSamples :: "Sample list"
  l_batchGeneration :: int
  l_streamNext :: gotime
  l_streamHistory :: "string \<Rightarrow> StreamSample list"
  l_streamPending :: "string list"
  l_streamActive :: bool
  l_streamInFlight :: int
  l_streamSamples :: "StreamSample list"
  l_streamGeneration :: int
  l_streamRound :: nat
  l_jobs :: "probeTask list" \<comment> \<open>the buffered channel \<open>jobs\<close>\<close>
  l_probing :: "probeTask list" \<comment> \<open>the tasks the workers hold\<close>
  l_results :: "probeResult list" \<comment> \<open>the buffered channel \<open>results\<close>\<close>
  l_pulling :: "string option" \<comment> \<open>the task of the stream worker\<close>
  l_streamResults :: "StreamSample list" \<comment> \<open>the buffered channel \<open>streamResults\<close>\<close>

text \<open>\<open>y_signals\<close> counts the calls between their unlock and their signal; \<open>y_batches\<close> the calls of \<open>onBatch\<close>.\<close>

record System =
  y_sched :: Scheduler
  y_run :: Run
  y_signals :: nat
  y_batches :: "Batch list"

definition emptyRun :: Run where
  "emptyRun = \<lparr> l_phase = NotStarted, l_runtimes = [], l_forced = {}, l_pending = [], l_active = False,
     l_remaining = [], l_activeGroups = [], l_batchSamples = [], l_batchGeneration = 0, l_streamNext = 0,
     l_streamHistory = (\<lambda>_. []), l_streamPending = [], l_streamActive = False, l_streamInFlight = 0,
     l_streamSamples = [], l_streamGeneration = 0, l_streamRound = 0, l_jobs = [], l_probing = [],
     l_results = [], l_pulling = None, l_streamResults = [] \<rparr>"

definition steadyMode :: "Policy \<Rightarrow> bool" where
  "steadyMode policy \<longleftrightarrow> p_SwitchPolicy policy = SwitchSteadyStream"

section \<open>The closure refresh\<close>

text \<open>\<open>now name\<close> is the clock reading in the turn of the group \<open>name\<close>.\<close>

definition refreshRuntime :: "gotime \<Rightarrow> GroupState \<Rightarrow> groupRuntime option \<Rightarrow> groupRuntime" where
  "refreshRuntime now state old =
     (case old of
        None \<Rightarrow> \<lparr> gr_state = state, gr_next = (if g_ProbeEnabled state then now else 0), gr_history = [],
                 gr_alert = \<lparr> a_HighLatency = False \<rparr> \<rparr>
      | Some runtime \<Rightarrow>
          if \<not> g_ProbeEnabled state
          then runtime\<lparr> gr_state := state, gr_next := 0, gr_history := [], gr_alert := \<lparr> a_HighLatency = False \<rparr> \<rparr>
          else if \<not> g_ProbeEnabled (gr_state runtime) then runtime\<lparr> gr_state := state, gr_next := now \<rparr>
          else runtime\<lparr> gr_state := state \<rparr>)"

definition refreshForced :: "GroupState \<Rightarrow> groupRuntime option \<Rightarrow> string set \<Rightarrow> string set" where
  "refreshForced state old forced =
     (case old of
        None \<Rightarrow> forced
      | Some runtime \<Rightarrow>
          if gr_state runtime \<noteq> state \<and> g_ProbeEnabled state then insert (g_Group state) forced else forced)"

definition refreshGroup ::
  "(string \<Rightarrow> gotime) \<Rightarrow> GroupState \<Rightarrow> runtimes \<times> string set \<Rightarrow> runtimes \<times> string set" where
  "refreshGroup now state acc =
     (let old = map_of (fst acc) (g_Group state) in
      (AList.update (g_Group state) (refreshRuntime (now (g_Group state)) state old) (fst acc),
       refreshForced state old (snd acc)))"

definition refreshStreamNext :: "Policy \<Rightarrow> gotime \<Rightarrow> runtimes \<Rightarrow> gotime \<Rightarrow> gotime" where
  "refreshStreamNext policy now runtimes streamNext =
     (if \<not> steadyMode policy then streamNext
      else if \<not> list_ex (\<lambda>r. g_AutomationEnabled (gr_state (snd r))) runtimes then 0
      else if time_IsZero streamNext then now else streamNext)"

definition refresh :: "(string \<Rightarrow> gotime) \<Rightarrow> gotime \<Rightarrow> System \<Rightarrow> System" where
  "refresh now streamNow y =
     (let s = y_sched y; l = y_run y;
          inputs = groupList s;
          present = set (map g_Group inputs);
          acc = fold (refreshGroup now) inputs (l_runtimes l, l_forced l);
          gone = Set.filter (\<lambda>name. name \<notin> present) (set (map fst (fst acc)));
          runtimes' = filter (\<lambda>r. fst r \<in> present) (fst acc);
          requested = Set.filter (\<lambda>name. name \<in> set (map fst runtimes')) (sc_requests s)
      in y\<lparr> y_sched := s\<lparr> sc_requests := {} \<rparr>,
            y_run := l\<lparr> l_phase := PreparingProbes, l_runtimes := runtimes',
              l_forced := (snd acc - gone) \<union> requested,
              l_streamNext := refreshStreamNext (sc_policy s) streamNow runtimes' (l_streamNext l) \<rparr> \<rparr>)"

section \<open>The start of a batch\<close>

text \<open>The clock readings and random draws in the turn of each group.\<close>

record Readings =
  c_due :: "string \<Rightarrow> gotime"
  c_next :: "string \<Rightarrow> gotime"
  c_draw :: "string \<Rightarrow> int \<Rightarrow> int"

definition groupDue :: "Readings \<Rightarrow> string set \<Rightarrow> string \<Rightarrow> groupRuntime \<Rightarrow> bool" where
  "groupDue clk forced name runtime \<longleftrightarrow>
     (g_ProbeEnabled (gr_state runtime) \<and> \<not> time_IsZero (gr_next runtime) \<and> \<not> c_due clk name < gr_next runtime)
     \<or> name \<in> forced"

definition groupTasks :: "string \<Rightarrow> groupRuntime \<Rightarrow> probeTask list" where
  "groupTasks name runtime = map (\<lambda>proxy. \<lparr> t_group = name, t_proxy = proxy \<rparr>) (g_Proxies (gr_state runtime))"

definition nextProbe :: "Readings \<Rightarrow> Policy \<Rightarrow> string \<Rightarrow> gotime" where
  "nextProbe clk policy name = c_next clk name + i64 (p_Interval policy + jitter (c_draw clk name) policy)"

definition prepareGroup :: "Readings \<Rightarrow> string \<Rightarrow> System \<Rightarrow> System" where
  "prepareGroup clk name y =
     (let s = y_sched y; l = y_run y in
      case map_of (l_runtimes l) name of
        None \<Rightarrow> y
      | Some runtime \<Rightarrow>
          if \<not> groupDue clk (l_forced l) name runtime then y
          else
            let runtime' = (if g_ProbeEnabled (gr_state runtime)
                            then runtime\<lparr> gr_next := nextProbe clk (sc_policy s) name \<rparr> else runtime)
            in y\<lparr> y_sched := s\<lparr> sc_dialFailures := (sc_dialFailures s)(name := 0) \<rparr>,
                  y_run := l\<lparr> l_forced := l_forced l - {name},
                    l_runtimes := AList.update name runtime' (l_runtimes l),
                    l_activeGroups := l_activeGroups l @ [name],
                    l_remaining := AList.update name (int (length (g_Proxies (gr_state runtime)))) (l_remaining l),
                    l_pending := l_pending l @ groupTasks name runtime \<rparr> \<rparr>)"

definition prepareProbes :: "Readings \<Rightarrow> System \<Rightarrow> System" where
  "prepareProbes clk y =
     (if l_active (y_run y) then y\<lparr> y_run := (y_run y)\<lparr> l_phase := PreparingStreams \<rparr> \<rparr>
      else
        let y0 = y\<lparr> y_run := (y_run y)\<lparr> l_pending := [], l_activeGroups := [], l_remaining := [],
                     l_batchSamples := [], l_batchGeneration := sc_generation (y_sched y) \<rparr> \<rparr>;
            y' = fold (prepareGroup clk) (sortedGroupNames (l_runtimes (y_run y))) y0
        in y'\<lparr> y_run := (y_run y')\<lparr> l_active := l_activeGroups (y_run y') \<noteq> [], l_phase := PreparingStreams \<rparr> \<rparr>)"

definition runtimeHistories :: "runtimes \<Rightarrow> string \<Rightarrow> string \<Rightarrow> Sample list" where
  "runtimeHistories runtimes name proxy =
     (case map_of runtimes name of None \<Rightarrow> [] | Some runtime \<Rightarrow> historyOf runtime proxy)"

definition sortedStates :: "runtimes \<Rightarrow> GroupState list" where
  "sortedStates runtimes = map (\<lambda>name. gr_state (the (map_of runtimes name))) (sortedGroupNames runtimes)"

definition prepareStreams :: "gotime \<Rightarrow> gotime \<Rightarrow> (int \<Rightarrow> int) \<Rightarrow> System \<Rightarrow> System" where
  "prepareStreams now nextNow draw y =
     (let s = y_sched y; l = y_run y; policy = sc_policy s in
      if steadyMode policy \<and> \<not> l_active l \<and> \<not> l_streamActive l \<and> \<not> time_IsZero (l_streamNext l)
         \<and> \<not> now < l_streamNext l
      then
        let targets = streamTargets (sortedStates (l_runtimes l)) (runtimeHistories (l_runtimes l))
                        (sc_members s) (p_WindowSize policy) (l_streamRound l)
        in y\<lparr> y_run := l\<lparr> l_phase := Selecting, l_streamGeneration := sc_generation s,
                l_streamPending := targets, l_streamRound := l_streamRound l + 1,
                l_streamNext := nextNow + i64 (p_StreamInterval policy + jitter draw policy),
                l_streamSamples := [], l_streamActive := targets \<noteq> [] \<rparr> \<rparr>
      else y\<lparr> y_run := l\<lparr> l_phase := Selecting \<rparr> \<rparr>)"

section \<open>Workers\<close>

text \<open>What the prober returned: the delay, whether there was an error, whether a deadline passed.\<close>

definition probeSample :: "Policy \<Rightarrow> probeTask \<Rightarrow> gotime \<Rightarrow> duration \<Rightarrow> bool \<Rightarrow> bool \<Rightarrow> Sample" where
  "probeSample policy task at latency failed deadline =
     (let bad = (failed \<or> latency \<le> 0) in
      \<lparr> s_Group = t_group task, s_Proxy = t_proxy task, s_URL = p_TestURL policy, s_FinishedAt = at,
        s_Latency = (if bad then 0 else latency),
        s_Outcome = (if bad then (if deadline then OutcomeTimeout else OutcomeError) else OutcomeSuccess) \<rparr>)"

section \<open>Probe results\<close>

definition recordSample :: "Policy \<Rightarrow> probeTask \<Rightarrow> Sample \<Rightarrow> groupRuntime \<Rightarrow> groupRuntime" where
  "recordSample policy task sample runtime =
     (let items = historyOf runtime (t_proxy task) @ [sample];
          items' = (if int (length items) > p_WindowSize policy
                    then drop (length items - nat (p_WindowSize policy)) items else items)
      in runtime\<lparr> gr_history := AList.update (t_proxy task) items' (gr_history runtime) \<rparr>)"

definition updateRuntime :: "string \<Rightarrow> (groupRuntime \<Rightarrow> groupRuntime) \<Rightarrow> runtimes \<Rightarrow> runtimes" where
  "updateRuntime name f runtimes =
     (case map_of runtimes name of None \<Rightarrow> runtimes | Some runtime \<Rightarrow> AList.update name (f runtime) runtimes)"

definition forgetHistory :: "groupRuntime \<Rightarrow> groupRuntime" where
  "forgetHistory runtime = runtime\<lparr> gr_history := [], gr_alert := \<lparr> a_HighLatency = False \<rparr> \<rparr>"

definition emptyBatch :: "gotime \<Rightarrow> Batch" where
  "emptyBatch now = \<lparr> bt_FinishedAt = now, bt_Samples = [], bt_Streams = [], bt_Decisions = [], bt_Alerts = [],
     bt_Stability = [], bt_StreamStability = [] \<rparr>"

text \<open>The turn of one active group in a valid batch.\<close>

definition judgeGroup :: "Policy \<Rightarrow> string \<Rightarrow> runtimes \<times> Batch \<Rightarrow> runtimes \<times> Batch" where
  "judgeGroup policy name acc =
     (case map_of (fst acc) name of
        None \<Rightarrow> acc
      | Some runtime \<Rightarrow>
          let batch = snd acc; state = gr_state runtime;
              decision = Decide policy state (historySamples runtime) (bt_FinishedAt batch);
              stability = map (\<lambda>proxy. \<lparr> ps_Group = name, ps_Proxy = proxy,
                  ps_Stability = MeasureStability (historyOf runtime proxy) (p_WindowSize policy) \<rparr>) (g_Proxies state);
              grpSamples = filter (\<lambda>sample. s_Group sample = name) (bt_Samples batch);
              alert = UpdateLatencyAlert policy state grpSamples (gr_alert runtime)
          in (AList.update name (runtime\<lparr> gr_alert := fst alert \<rparr>) (fst acc),
              batch\<lparr> bt_Decisions := bt_Decisions batch @ [decision],
                     bt_Stability := bt_Stability batch @ stability,
                     bt_Alerts := (if e_Transition (snd alert) \<noteq> AlertNoChange
                                   then bt_Alerts batch @ [snd alert] else bt_Alerts batch) \<rparr>))"

definition finishBatch :: "gotime \<Rightarrow> System \<Rightarrow> System" where
  "finishBatch now y =
     (let s = y_sched y; l = y_run y;
          batch = (emptyBatch now)\<lparr> bt_Samples := l_batchSamples l \<rparr>;
          validBatch = (l_batchGeneration l = sc_generation s);
          done = (if validBatch then fold (judgeGroup (sc_policy s)) (l_activeGroups l) (l_runtimes l, batch)
                  else (fold (\<lambda>name. updateRuntime name forgetHistory) (l_activeGroups l) (l_runtimes l), batch))
      in y\<lparr> y_run := l\<lparr> l_runtimes := fst done, l_active := False, l_phase := Refreshing \<rparr>,
            y_batches := y_batches y @ [snd done] \<rparr>)"

definition remainingOf :: "(string \<times> int) list \<Rightarrow> string \<Rightarrow> int" where
  "remainingOf remaining name = (case map_of remaining name of None \<Rightarrow> 0 | Some n \<Rightarrow> n)"

definition receiveResult :: "gotime \<Rightarrow> probeResult \<Rightarrow> System \<Rightarrow> System" where
  "receiveResult now result y =
     (let s = y_sched y; l = y_run y; name = t_group (pr_task result);
          left = remainingOf (l_remaining l) name - 1;
          remaining' = AList.update name left (l_remaining l);
          y' = y\<lparr> y_run := l\<lparr> l_phase := PreparingProbes,
                   l_batchSamples := l_batchSamples l @ [pr_sample result],
                   l_runtimes := updateRuntime name (recordSample (sc_policy s) (pr_task result) (pr_sample result))
                                   (l_runtimes l),
                   l_remaining := remaining' \<rparr> \<rparr>
      in if left = 0 \<and> \<not> list_ex (\<lambda>r. snd r > 0) remaining' then finishBatch now y' else y')"

section \<open>Download results\<close>

definition receiveStream :: "gotime \<Rightarrow> candidate_sort \<Rightarrow> StreamSample \<Rightarrow> System \<Rightarrow> System" where
  "receiveStream now sort_Slice sample y =
     (let s = y_sched y; l = y_run y; policy = sc_policy s; W = p_WindowSize policy;
          cutoff = now + i64 (- 6 * p_StreamInterval policy);
          samples' = l_streamSamples l @ [sample];
          history' = (l_streamHistory l)(ss_Proxy sample :=
             pruneStreams (l_streamHistory l (ss_Proxy sample) @ [sample]) cutoff W);
          inFlight' = l_streamInFlight l - 1;
          l' = l\<lparr> l_phase := PreparingProbes, l_streamInFlight := inFlight', l_streamSamples := samples',
                  l_streamHistory := history' \<rparr>
      in if l_streamPending l \<noteq> [] \<or> inFlight' > 0 then y\<lparr> y_run := l' \<rparr>
         else if l_streamGeneration l \<noteq> sc_generation s then y\<lparr> y_run := l'\<lparr> l_streamActive := False \<rparr> \<rparr>
         else
           let history'' = (\<lambda>proxy. pruneStreams (history' proxy) cutoff W);
               stability = map (\<lambda>pulled. MeasureStreams (ss_Proxy pulled) (history'' (ss_Proxy pulled)) W) samples';
               automated = filter (\<lambda>runtime. g_AutomationEnabled (gr_state runtime))
                 (map (\<lambda>name. the (map_of (l_runtimes l) name)) (sortedGroupNames (l_runtimes l)));
               decisions = map (\<lambda>runtime. DecideSteady sort_Slice policy (gr_state runtime) (historySamples runtime)
                                            history'' now) automated
           in y\<lparr> y_run := l'\<lparr> l_streamActive := False, l_streamHistory := history'' \<rparr>,
                 y_batches := y_batches y @ [(emptyBatch now)\<lparr> bt_Streams := samples',
                   bt_StreamStability := stability, bt_Decisions := decisions \<rparr>] \<rparr>)"

section \<open>The timer\<close>

definition timerDeadline :: "System \<Rightarrow> gotime" where
  "timerDeadline y =
     (let l = y_run y in
      if l_active l then 0
      else
        let deadline = nextDeadline (l_runtimes l) in
        if steadyMode (sc_policy (y_sched y)) \<and> \<not> l_streamActive l \<and> \<not> time_IsZero (l_streamNext l)
           \<and> (time_IsZero deadline \<or> l_streamNext l < deadline)
        then l_streamNext l else deadline)"

section \<open>Steps\<close>

datatype label =
    CallSetGroups "GroupState list"
  | CallRequest string
  | CallSetStreamMembers "string list"
  | CallReportDialFailure string gotime
  | Signal
  | CallRun
  | Refresh "string \<Rightarrow> gotime" gotime
  | PrepareProbes Readings
  | PrepareStreams gotime gotime "int \<Rightarrow> int"
  | Cancel
  | Wake
  | TimerFires gotime
  | SendStream
  | ReceiveStream gotime candidate_sort
  | SendTask
  | ReceiveResult gotime
  | TakeTask
  | FinishProbe nat gotime duration bool bool
  | FinishPull StreamSample

definition call :: "System \<Rightarrow> Scheduler \<times> bool \<Rightarrow> System" where
  "call y r = y\<lparr> y_sched := fst r, y_signals := (if snd r then y_signals y + 1 else y_signals y) \<rparr>"

definition capacity :: "System \<Rightarrow> nat" where
  "capacity y = nat (p_Concurrency (sc_policy (y_sched y)))"

text \<open>The labels that do not depend on the phase of the loop: calls and workers.\<close>

fun outside :: "label \<Rightarrow> System \<Rightarrow> System option" where
  "outside (CallSetGroups groups) y =
     (case SetGroups groups (y_sched y) of Inl _ \<Rightarrow> Some y | Inr r \<Rightarrow> Some (call y r))"
| "outside (CallRequest grp) y =
     (case Request grp (y_sched y) of Inl _ \<Rightarrow> Some y | Inr r \<Rightarrow> Some (call y r))"
| "outside (CallSetStreamMembers names) y = Some (call y (SetStreamMembers names (y_sched y)))"
| "outside (CallReportDialFailure grp now) y = Some (call y (ReportDialFailure grp now (y_sched y)))"
| "outside Signal y =
     (if y_signals y = 0 then None
      else Some (y\<lparr> y_sched := signal (y_sched y), y_signals := y_signals y - 1 \<rparr>))"
| "outside CallRun y =
     (if sc_started (y_sched y) then Some y
      else Some (y\<lparr> y_sched := (y_sched y)\<lparr> sc_started := True \<rparr>, y_run := (y_run y)\<lparr> l_phase := Refreshing \<rparr> \<rparr>))"
| "outside TakeTask y =
     (case l_jobs (y_run y) of
        [] \<Rightarrow> None
      | task # jobs \<Rightarrow>
          if length (l_probing (y_run y)) < capacity y
          then Some (y\<lparr> y_run := (y_run y)\<lparr> l_jobs := jobs, l_probing := l_probing (y_run y) @ [task] \<rparr> \<rparr>)
          else None)"
| "outside (FinishProbe i at latency failed deadline) y =
     (let l = y_run y in
      if i < length (l_probing l) \<and> length (l_results l) < capacity y
      then Some (y\<lparr> y_run := l\<lparr> l_probing := take i (l_probing l) @ drop (Suc i) (l_probing l),
             l_results := l_results l @ [\<lparr> pr_task = l_probing l ! i,
               pr_sample = probeSample (sc_policy (y_sched y)) (l_probing l ! i) at latency failed deadline \<rparr>] \<rparr> \<rparr>)
      else None)"
| "outside (FinishPull sample) y =
     (if l_pulling (y_run y) \<noteq> None \<and> l_streamResults (y_run y) = []
      then Some (y\<lparr> y_run := (y_run y)\<lparr> l_pulling := None, l_streamResults := [sample] \<rparr> \<rparr>)
      else None)"
| "outside _ y = None"

text \<open>The cases of the \<open>select\<close>. After each of them the loop goes round.\<close>

fun selecting :: "label \<Rightarrow> System \<Rightarrow> System option" where
  "selecting Cancel y = Some (y\<lparr> y_run := (y_run y)\<lparr> l_phase := Stopped \<rparr> \<rparr>)"
| "selecting Wake y =
     (if sc_wake (y_sched y)
      then Some (y\<lparr> y_sched := (y_sched y)\<lparr> sc_wake := False \<rparr>, y_run := (y_run y)\<lparr> l_phase := Refreshing \<rparr> \<rparr>)
      else None)"
| "selecting (TimerFires now) y =
     (if \<not> time_IsZero (timerDeadline y) \<and> timerDeadline y \<le> now
      then Some (y\<lparr> y_run := (y_run y)\<lparr> l_phase := PreparingProbes \<rparr> \<rparr>) else None)"
| "selecting SendStream y =
     (case l_streamPending (y_run y) of
        [] \<Rightarrow> None
      | proxy # rest \<Rightarrow>
          if l_pulling (y_run y) = None
          then Some (y\<lparr> y_run := (y_run y)\<lparr> l_phase := PreparingProbes, l_streamPending := rest,
                 l_streamInFlight := l_streamInFlight (y_run y) + 1, l_pulling := Some proxy \<rparr> \<rparr>)
          else None)"
| "selecting (ReceiveStream now sort_Slice) y =
     (case l_streamResults (y_run y) of
        [] \<Rightarrow> None
      | sample # rest \<Rightarrow>
          Some (receiveStream now sort_Slice sample (y\<lparr> y_run := (y_run y)\<lparr> l_streamResults := rest \<rparr> \<rparr>)))"
| "selecting SendTask y =
     (case l_pending (y_run y) of
        [] \<Rightarrow> None
      | task # rest \<Rightarrow>
          if length (l_jobs (y_run y)) < capacity y
          then Some (y\<lparr> y_run := (y_run y)\<lparr> l_phase := PreparingProbes, l_pending := rest,
                 l_jobs := l_jobs (y_run y) @ [task] \<rparr> \<rparr>)
          else None)"
| "selecting (ReceiveResult now) y =
     (case l_results (y_run y) of
        [] \<Rightarrow> None
      | result # rest \<Rightarrow>
          Some (receiveResult now result (y\<lparr> y_run := (y_run y)\<lparr> l_results := rest \<rparr> \<rparr>)))"
| "selecting _ y = None"

definition inside :: "label \<Rightarrow> System \<Rightarrow> System option" where
  "inside e y =
     (case l_phase (y_run y) of
        Refreshing \<Rightarrow> (case e of Refresh now streamNow \<Rightarrow> Some (refresh now streamNow y) | _ \<Rightarrow> None)
      | PreparingProbes \<Rightarrow>
          (case e of PrepareProbes clk \<Rightarrow> Some (prepareProbes clk y)
                   | Cancel \<Rightarrow> Some (y\<lparr> y_run := (y_run y)\<lparr> l_phase := Stopped \<rparr> \<rparr>) | _ \<Rightarrow> None)
      | PreparingStreams \<Rightarrow>
          (case e of PrepareStreams now nextNow draw \<Rightarrow> Some (prepareStreams now nextNow draw y) | _ \<Rightarrow> None)
      | Selecting \<Rightarrow> selecting e y
      | _ \<Rightarrow> None)"

definition next_state :: "label \<Rightarrow> System \<Rightarrow> System option" where
  "next_state e y = (case outside e y of Some z \<Rightarrow> Some z | None \<Rightarrow> inside e y)"

inductive sched_step :: "System \<Rightarrow> label \<Rightarrow> System \<Rightarrow> bool" where
  "next_state e y = Some z \<Longrightarrow> sched_step y e z"

definition sched_init :: "url_parser \<Rightarrow> System \<Rightarrow> bool" where
  "sched_init url_Parse y \<longleftrightarrow>
     (\<exists>policy streamer s. NewScheduler url_Parse policy True streamer True = Inr s
        \<and> y = \<lparr> y_sched = s, y_run = emptyRun, y_signals = 0, y_batches = [] \<rparr>)"

section \<open>Effects of the operations, field by field\<close>

named_theorems sched_frame \<open>what the operations of the scheduler leave unchanged\<close>

lemma prepareGroup_frame [sched_frame]:
  "sc_policy (y_sched (prepareGroup clk name y)) = sc_policy (y_sched y)"
  "sc_groups (y_sched (prepareGroup clk name y)) = sc_groups (y_sched y)"
  "sc_generation (y_sched (prepareGroup clk name y)) = sc_generation (y_sched y)"
  "sc_requests (y_sched (prepareGroup clk name y)) = sc_requests (y_sched y)"
  "sc_lastDialProbe (y_sched (prepareGroup clk name y)) = sc_lastDialProbe (y_sched y)"
  "sc_wake (y_sched (prepareGroup clk name y)) = sc_wake (y_sched y)"
  "sc_started (y_sched (prepareGroup clk name y)) = sc_started (y_sched y)"
  "y_signals (prepareGroup clk name y) = y_signals y"
  "y_batches (prepareGroup clk name y) = y_batches y"
  "l_active (y_run (prepareGroup clk name y)) = l_active (y_run y)"
  "l_jobs (y_run (prepareGroup clk name y)) = l_jobs (y_run y)"
  "l_probing (y_run (prepareGroup clk name y)) = l_probing (y_run y)"
  "l_results (y_run (prepareGroup clk name y)) = l_results (y_run y)"
  "l_pulling (y_run (prepareGroup clk name y)) = l_pulling (y_run y)"
  "l_streamResults (y_run (prepareGroup clk name y)) = l_streamResults (y_run y)"
  "l_streamPending (y_run (prepareGroup clk name y)) = l_streamPending (y_run y)"
  "l_streamActive (y_run (prepareGroup clk name y)) = l_streamActive (y_run y)"
  "l_streamInFlight (y_run (prepareGroup clk name y)) = l_streamInFlight (y_run y)"
  "l_batchGeneration (y_run (prepareGroup clk name y)) = l_batchGeneration (y_run y)"
  by (simp_all add: prepareGroup_def Let_def split: option.split)

lemma fold_frame: "(\<And>x y. f (g x y) = f y) \<Longrightarrow> f (fold g xs y) = f y"
  by (induction xs arbitrary: y) simp_all

lemma fold_prepareGroup_frame [sched_frame]:
  "sc_policy (y_sched (fold (prepareGroup clk) names y)) = sc_policy (y_sched y)"
  "sc_groups (y_sched (fold (prepareGroup clk) names y)) = sc_groups (y_sched y)"
  "sc_generation (y_sched (fold (prepareGroup clk) names y)) = sc_generation (y_sched y)"
  "sc_requests (y_sched (fold (prepareGroup clk) names y)) = sc_requests (y_sched y)"
  "sc_lastDialProbe (y_sched (fold (prepareGroup clk) names y)) = sc_lastDialProbe (y_sched y)"
  "sc_wake (y_sched (fold (prepareGroup clk) names y)) = sc_wake (y_sched y)"
  "sc_started (y_sched (fold (prepareGroup clk) names y)) = sc_started (y_sched y)"
  "y_signals (fold (prepareGroup clk) names y) = y_signals y"
  "y_batches (fold (prepareGroup clk) names y) = y_batches y"
  "l_active (y_run (fold (prepareGroup clk) names y)) = l_active (y_run y)"
  "l_jobs (y_run (fold (prepareGroup clk) names y)) = l_jobs (y_run y)"
  "l_probing (y_run (fold (prepareGroup clk) names y)) = l_probing (y_run y)"
  "l_results (y_run (fold (prepareGroup clk) names y)) = l_results (y_run y)"
  "l_pulling (y_run (fold (prepareGroup clk) names y)) = l_pulling (y_run y)"
  "l_streamResults (y_run (fold (prepareGroup clk) names y)) = l_streamResults (y_run y)"
  "l_streamPending (y_run (fold (prepareGroup clk) names y)) = l_streamPending (y_run y)"
  "l_streamActive (y_run (fold (prepareGroup clk) names y)) = l_streamActive (y_run y)"
  "l_streamInFlight (y_run (fold (prepareGroup clk) names y)) = l_streamInFlight (y_run y)"
  "l_batchGeneration (y_run (fold (prepareGroup clk) names y)) = l_batchGeneration (y_run y)"
  by (rule fold_frame, rule sched_frame)+

section \<open>The runtimes\<close>

text \<open>
  Every runtime is filed under the name of its group, the group is well formed, and no proxy has a
  history longer than the window.
\<close>

definition rt_ok :: "int \<Rightarrow> string \<Rightarrow> groupRuntime \<Rightarrow> bool" where
  "rt_ok W name r \<longleftrightarrow> g_Group (gr_state r) = name \<and> wf_group (gr_state r)
     \<and> (\<forall>h \<in> snd ` set (gr_history r). int (length h) \<le> W)"

definition rts_ok :: "int \<Rightarrow> runtimes \<Rightarrow> bool" where
  "rts_ok W rts \<longleftrightarrow> distinct (map fst rts) \<and> (\<forall>(name, r) \<in> set rts. rt_ok W name r)"

definition states :: "runtimes \<Rightarrow> string \<Rightarrow> GroupState option" where
  "states rts name = map_option gr_state (map_of rts name)"

lemma rts_ok_Nil [simp]: "rts_ok W []"
  by (simp add: rts_ok_def)

lemma rts_okD: "rts_ok W rts \<Longrightarrow> map_of rts name = Some r \<Longrightarrow> rt_ok W name r"
  unfolding rts_ok_def by (fastforce dest: map_of_SomeD)

lemma rts_ok_update: "rts_ok W rts \<Longrightarrow> rt_ok W name r \<Longrightarrow> rts_ok W (AList.update name r rts)"
  unfolding rts_ok_def using set_AList_update [of name r rts] by (fastforce simp: distinct_update)

lemma rts_ok_filter: "rts_ok W rts \<Longrightarrow> rts_ok W (filter P rts)"
  by (auto simp: rts_ok_def distinct_map_filter)

lemma rts_ok_updateRuntime:
  "rts_ok W rts \<Longrightarrow> (\<And>r. rt_ok W name r \<Longrightarrow> rt_ok W name (f r)) \<Longrightarrow> rts_ok W (updateRuntime name f rts)"
  by (auto simp: updateRuntime_def split: option.splits intro: rts_ok_update rts_okD)

lemma states_update [simp]: "states (AList.update name r rts) = (states rts)(name \<mapsto> gr_state r)"
  by (auto simp: states_def update_conv')

lemma states_updateRuntime: "(\<And>r. gr_state (f r) = gr_state r) \<Longrightarrow> states (updateRuntime name f rts) = states rts"
  by (auto simp: updateRuntime_def states_def update_conv' split: option.splits)

lemma historyOf_length: "rt_ok W name r \<Longrightarrow> 0 \<le> W \<Longrightarrow> int (length (historyOf r proxy)) \<le> W"
  unfolding rt_ok_def historyOf_def by (fastforce split: option.split dest: map_of_SomeD)

lemma rt_ok_recordSample: "rt_ok W name r \<Longrightarrow> p_WindowSize policy = W \<Longrightarrow> 0 \<le> W
    \<Longrightarrow> rt_ok W name (recordSample policy task sample r)"
  using set_AList_update unfolding rt_ok_def recordSample_def Let_def
  by (fastforce split: if_splits)

lemma rt_ok_forget: "rt_ok W name r \<Longrightarrow> rt_ok W name (forgetHistory r)"
  by (simp add: rt_ok_def forgetHistory_def)

lemma rt_ok_refresh:
  "wf_group g \<Longrightarrow> (\<And>r. old = Some r \<Longrightarrow> rt_ok W (g_Group g) r) \<Longrightarrow> rt_ok W (g_Group g) (refreshRuntime now g old)"
  by (cases old) (auto simp: refreshRuntime_def rt_ok_def)

lemma gr_state_refreshRuntime [simp]: "gr_state (refreshRuntime now g old) = g"
  by (simp add: refreshRuntime_def split: option.split)

lemma gr_state_recordSample [simp]: "gr_state (recordSample policy task sample r) = gr_state r"
  by (simp add: recordSample_def Let_def)

lemma gr_state_forget [simp]: "gr_state (forgetHistory r) = gr_state r"
  by (simp add: forgetHistory_def)

lemma fold_refreshGroup:
  assumes "rts_ok W rts" and "list_all wf_group groups"
  shows "rts_ok W (fst (fold (refreshGroup now) groups (rts, forced)))
    \<and> states (fst (fold (refreshGroup now) groups (rts, forced)))
        = states rts ++ map_of (rev (map (\<lambda>g. (g_Group g, g)) groups))"
  using assms
proof (induction groups arbitrary: rts forced)
  case (Cons g groups)
  let ?r = "refreshRuntime (now (g_Group g)) g (map_of rts (g_Group g))"
  have "rts_ok W (AList.update (g_Group g) ?r rts)"
    using Cons.prems by (auto intro!: rts_ok_update rt_ok_refresh dest: rts_okD)
  with Cons.IH Cons.prems(2) show ?case by (simp add: refreshGroup_def Let_def)
qed simp

lemma fold_judgeGroup:
  assumes "rts_ok W rts"
  shows "rts_ok W (fst (fold (judgeGroup policy) names (rts, b)))
    \<and> states (fst (fold (judgeGroup policy) names (rts, b))) = states rts"
  using assms
proof (induction names arbitrary: rts b)
  case (Cons name names)
  show ?case
  proof (cases "map_of rts name")
    case None
    with Cons show ?thesis by (simp add: judgeGroup_def)
  next
    case (Some r)
    have "rt_ok W name (r\<lparr> gr_alert := a \<rparr>)" for a using rts_okD [OF Cons.prems Some] by (simp add: rt_ok_def)
    then have "rts_ok W (AList.update name (r\<lparr> gr_alert := a \<rparr>) rts)" for a
      using Cons.prems by (simp add: rts_ok_update)
    moreover have "states (AList.update name (r\<lparr> gr_alert := a \<rparr>) rts) = states rts" for a
      using Some by (auto simp: states_def)
    ultimately show ?thesis using Some Cons.IH by (simp add: judgeGroup_def Let_def)
  qed
qed simp

lemma fold_forget:
  assumes "rts_ok W rts"
  shows "rts_ok W (fold (\<lambda>name. updateRuntime name forgetHistory) names rts)
    \<and> states (fold (\<lambda>name. updateRuntime name forgetHistory) names rts) = states rts"
  using assms
proof (induction names arbitrary: rts)
  case (Cons name names)
  have "rts_ok W (updateRuntime name forgetHistory rts)"
    using Cons.prems by (rule rts_ok_updateRuntime) (rule rt_ok_forget)
  from Cons.IH [OF this] show ?case by (simp add: states_updateRuntime)
qed simp

section \<open>The probe pipeline\<close>

text \<open>
  The tasks of the running batch that have not been answered: queued in the loop, in the channel
  \<open>jobs\<close>, held by a worker, or waiting in \<open>results\<close>. The counters of \<open>remaining\<close> tally with them.
\<close>

definition in_flight :: "Run \<Rightarrow> probeTask list" where
  "in_flight l = l_pending l @ l_jobs l @ l_probing l @ map pr_task (l_results l)"

definition task_count :: "probeTask list \<Rightarrow> string \<Rightarrow> nat" where
  "task_count tasks name = length (filter (\<lambda>t. t_group t = name) tasks)"

definition tally :: "(string \<times> int) list \<Rightarrow> probeTask list \<Rightarrow> bool" where
  "tally remaining tasks \<longleftrightarrow> distinct (map fst remaining)
     \<and> (\<forall>name. remainingOf remaining name = int (task_count tasks name))"

definition inv_probes :: "System \<Rightarrow> bool" where
  "inv_probes y \<longleftrightarrow>
     (l_active (y_run y) \<longrightarrow> tally (l_remaining (y_run y)) (in_flight (y_run y)))
     \<and> (l_active (y_run y) \<longleftrightarrow> in_flight (y_run y) \<noteq> [])
     \<and> length (l_jobs (y_run y)) \<le> capacity y \<and> length (l_probing (y_run y)) \<le> capacity y
     \<and> length (l_results (y_run y)) \<le> capacity y"

lemma task_count_simps [simp]:
  "task_count [] name = 0"
  "task_count (t # ts) name = (if t_group t = name then 1 else 0) + task_count ts name"
  "task_count (ts @ us) name = task_count ts name + task_count us name"
  by (simp_all add: task_count_def)

lemma task_count_zero:
  assumes "\<And>name. task_count ts name = 0"
  shows "ts = []"
proof (cases ts)
  case (Cons t us)
  with assms [of "t_group t"] show ?thesis by simp
qed

lemma task_count_pos: "0 < task_count ts name \<Longrightarrow> ts \<noteq> []"
  by auto

lemma remainingOf_update [simp]:
  "remainingOf (AList.update name n remaining) = (remainingOf remaining)(name := n)"
  by (auto simp: remainingOf_def update_conv')

lemma task_count_groupTasks: "task_count (groupTasks name r) n = (if n = name then length (g_Proxies (gr_state r)) else 0)"
  by (auto simp: task_count_def groupTasks_def filter_map o_def)

lemma prepareGroup_runtimes:
  assumes "rts_ok W (l_runtimes (y_run y))"
  shows "rts_ok W (l_runtimes (y_run (prepareGroup clk name y)))
    \<and> states (l_runtimes (y_run (prepareGroup clk name y))) = states (l_runtimes (y_run y))"
proof (cases "map_of (l_runtimes (y_run y)) name")
  case None
  with assms show ?thesis by (simp add: prepareGroup_def)
next
  case (Some r)
  have "rts_ok W (AList.update name r' (l_runtimes (y_run y)))
      \<and> states (AList.update name r' (l_runtimes (y_run y))) = states (l_runtimes (y_run y))"
    if "gr_state r' = gr_state r" "gr_history r' = gr_history r" for r'
    using that assms rts_okD [OF assms Some] Some
    by (auto simp: rt_ok_def states_def intro!: rts_ok_update)
  with Some assms show ?thesis by (simp add: prepareGroup_def Let_def)
qed

definition prepared :: "System \<Rightarrow> bool" where
  "prepared y \<longleftrightarrow> tally (l_remaining (y_run y)) (l_pending (y_run y))
     \<and> (l_activeGroups (y_run y) = [] \<longleftrightarrow> l_pending (y_run y) = [])"

lemma prepareGroup_prepared:
  assumes "prepared y" and "rts_ok W (l_runtimes (y_run y))" and "task_count (l_pending (y_run y)) name = 0"
  shows "prepared (prepareGroup clk name y)"
proof (cases "map_of (l_runtimes (y_run y)) name")
  case None
  with assms show ?thesis by (simp add: prepareGroup_def)
next
  case (Some r)
  have "groupTasks name r \<noteq> []"
    using rts_okD [OF assms(2) Some] by (auto simp: groupTasks_def rt_ok_def wf_group_def)
  with Some assms show ?thesis
    by (auto simp: prepareGroup_def Let_def prepared_def tally_def distinct_update task_count_groupTasks)
qed

lemma prepareGroup_other:
  "n \<noteq> name \<Longrightarrow> task_count (l_pending (y_run (prepareGroup clk name y))) n = task_count (l_pending (y_run y)) n"
  by (simp add: prepareGroup_def Let_def task_count_groupTasks split: option.split)

lemma fold_prepareGroup:
  assumes "prepared y" and "rts_ok W (l_runtimes (y_run y))" and "distinct names"
    and "\<And>n. n \<in> set names \<Longrightarrow> task_count (l_pending (y_run y)) n = 0"
  shows "prepared (fold (prepareGroup clk) names y)
    \<and> rts_ok W (l_runtimes (y_run (fold (prepareGroup clk) names y)))
    \<and> states (l_runtimes (y_run (fold (prepareGroup clk) names y))) = states (l_runtimes (y_run y))"
  using assms
proof (induction names arbitrary: y)
  case (Cons name names)
  let ?z = "prepareGroup clk name y"
  have *: "prepared ?z" "rts_ok W (l_runtimes (y_run ?z))" "states (l_runtimes (y_run ?z)) = states (l_runtimes (y_run y))"
    using Cons.prems prepareGroup_prepared [of y W name clk] prepareGroup_runtimes [of W y clk name] by simp_all
  have "task_count (l_pending (y_run ?z)) n = 0" if "n \<in> set names" for n
    using that Cons.prems(3,4) by (metis distinct.simps(2) list.set_intros(2) prepareGroup_other)
  with Cons.IH [OF *(1,2)] Cons.prems(3) *(3) show ?case by simp
qed simp

section \<open>Preservation\<close>

definition inv_static :: "System \<Rightarrow> bool" where
  "inv_static y \<longleftrightarrow> 1 \<le> p_Concurrency (sc_policy (y_sched y)) \<and> 2 \<le> p_WindowSize (sc_policy (y_sched y))
     \<and> wf_groups (groupList (y_sched y))
     \<and> rts_ok (p_WindowSize (sc_policy (y_sched y))) (l_runtimes (y_run y))"

text \<open>What every call on the scheduler satisfies: \<open>sig\<close> says that it goes on to signal.\<close>

definition call_ok :: "Scheduler \<Rightarrow> Scheduler \<Rightarrow> bool \<Rightarrow> bool" where
  "call_ok s t sig \<longleftrightarrow> sc_policy t = sc_policy s \<and> sc_started t = sc_started s \<and> sc_wake t = sc_wake s
     \<and> (wf_groups (groupList s) \<longrightarrow> wf_groups (groupList t))
     \<and> (\<not> sig \<longrightarrow> sc_groups t = sc_groups s \<and> sc_requests t = sc_requests s)
     \<and> (\<forall>grp. sc_lastDialProbe t grp = sc_lastDialProbe s grp
             \<or> sc_lastDialProbe s grp + DialFailureProbeSpacing \<le> sc_lastDialProbe t grp)"

lemma SetGroups_ok: "SetGroups groups s = Inr r \<Longrightarrow> call_ok s (fst r) (snd r)"
  using checkGroups_None_iff [of "[]" groups]
  by (auto simp: SetGroups_def groupList_def wf_groups_def call_ok_def split: option.splits if_splits)

lemma Request_ok: "Request grp s = Inr r \<Longrightarrow> call_ok s (fst r) (snd r)"
  by (auto simp: Request_def call_ok_def groupList_def split: if_splits)

lemma SetStreamMembers_ok: "call_ok s (fst (SetStreamMembers names s)) (snd (SetStreamMembers names s))"
  by (simp add: SetStreamMembers_def call_ok_def groupList_def)

lemma spacing_elapsed:
  "\<not> time_Sub now prev < DialFailureProbeSpacing \<Longrightarrow> prev + DialFailureProbeSpacing \<le> now"
  by (auto simp: time_Sub_def DialFailureProbeSpacing_def Second_def split: if_splits)

lemma ReportDialFailure_ok:
  "call_ok s (fst (ReportDialFailure grp now s)) (snd (ReportDialFailure grp now s))"
  using spacing_elapsed [of now "sc_lastDialProbe s grp"]
  by (simp add: ReportDialFailure_def Let_def call_ok_def groupList_def split: option.split)

lemma call_ok_refl: "call_ok s s False"
  by (simp add: call_ok_def)

lemma idle_call: "z = y \<Longrightarrow> z = call y (y_sched y, False)"
  by (simp add: call_def)

text \<open>The cases of a step outside the loop, with the calls brought together.\<close>

lemma outside_cases:
  assumes "outside e y = Some z"
  obtains (Call) t sig where "z = call y (t, sig)" "call_ok (y_sched y) t sig"
  | (Signalled) "y_signals y \<noteq> 0" "z = y\<lparr> y_sched := signal (y_sched y), y_signals := y_signals y - 1 \<rparr>"
  | (Started) "\<not> sc_started (y_sched y)"
      "z = y\<lparr> y_sched := (y_sched y)\<lparr> sc_started := True \<rparr>, y_run := (y_run y)\<lparr> l_phase := Refreshing \<rparr> \<rparr>"
  | (Taken) task jobs where "l_jobs (y_run y) = task # jobs" "length (l_probing (y_run y)) < capacity y"
      "z = y\<lparr> y_run := (y_run y)\<lparr> l_jobs := jobs, l_probing := l_probing (y_run y) @ [task] \<rparr> \<rparr>"
  | (Probed) i result where "i < length (l_probing (y_run y))" "length (l_results (y_run y)) < capacity y"
      "pr_task result = l_probing (y_run y) ! i"
      "z = y\<lparr> y_run := (y_run y)\<lparr> l_probing := take i (l_probing (y_run y)) @ drop (Suc i) (l_probing (y_run y)),
         l_results := l_results (y_run y) @ [result] \<rparr> \<rparr>"
  | (Pulled) proxy sample where "l_pulling (y_run y) = Some proxy" "l_streamResults (y_run y) = []"
      "z = y\<lparr> y_run := (y_run y)\<lparr> l_pulling := None, l_streamResults := [sample] \<rparr> \<rparr>"
proof (cases e)
  case (CallSetGroups groups)
  show thesis
  proof (cases "SetGroups groups (y_sched y)")
    case (Inl err)
    with CallSetGroups assms show thesis by (intro Call [OF idle_call call_ok_refl]) simp
  next
    case (Inr r)
    with CallSetGroups assms show thesis by (intro Call [of "fst r" "snd r"]) (simp_all add: SetGroups_ok)
  qed
next
  case (CallRequest grp)
  show thesis
  proof (cases "Request grp (y_sched y)")
    case (Inl err)
    with CallRequest assms show thesis by (intro Call [OF idle_call call_ok_refl]) simp
  next
    case (Inr r)
    with CallRequest assms show thesis by (intro Call [of "fst r" "snd r"]) (simp_all add: Request_ok)
  qed
next
  case (CallSetStreamMembers names)
  with assms show thesis
    using Call [of "fst (SetStreamMembers names (y_sched y))" "snd (SetStreamMembers names (y_sched y))"]
      SetStreamMembers_ok [of "y_sched y" names] by simp
next
  case (CallReportDialFailure grp now)
  with assms show thesis
    using Call [of "fst (ReportDialFailure grp now (y_sched y))" "snd (ReportDialFailure grp now (y_sched y))"]
      ReportDialFailure_ok [of "y_sched y" grp now] by simp
next
  case CallRun
  show thesis
  proof (cases "sc_started (y_sched y)")
    case True
    with CallRun assms show thesis by (intro Call [OF idle_call call_ok_refl]) simp
  next
    case False
    with CallRun assms show thesis by (intro Started) simp_all
  qed
next
  case (FinishProbe i at latency failed deadline)
  with assms show thesis by (intro Probed [of i]) (auto simp: Let_def split: if_splits)
qed (use assms in \<open>auto split: if_splits list.splits option.splits intro: Signalled Taken Pulled\<close>)

lemma capacity_eq: "sc_policy (y_sched z) = sc_policy (y_sched y) \<Longrightarrow> capacity z = capacity y"
  by (simp add: capacity_def)

subsection \<open>refresh\<close>

definition snapshot :: "GroupState list \<Rightarrow> string \<Rightarrow> GroupState option" where
  "snapshot groups = map_of (map (\<lambda>g. (g_Group g, g)) groups)"

lemma snapshot_rev: "distinct (map g_Group groups) \<Longrightarrow> map_of (rev (map (\<lambda>g. (g_Group g, g)) groups)) = snapshot groups"
  unfolding snapshot_def by (subst map_of_inject_set) (simp_all add: o_def rev_map [symmetric])

lemma dom_snapshot: "dom (snapshot groups) = g_Group ` set groups"
  by (simp add: snapshot_def dom_map_of_conv_image_fst image_image)

lemma states_filter: "states (filter (\<lambda>r. fst r \<in> A) rts) = states rts |` A"
proof
  fix n
  have "map_of (filter (\<lambda>r. fst r \<in> A) rts) n = (map_of rts |` A) n"
    by (induction rts) (auto simp: restrict_map_def)
  then show "states (filter (\<lambda>r. fst r \<in> A) rts) n = (states rts |` A) n"
    by (simp add: states_def restrict_map_def)
qed

lemma refresh_runtimes:
  assumes "inv_static y"
  shows "inv_static (refresh now streamNow y)
    \<and> states (l_runtimes (y_run (refresh now streamNow y))) = snapshot (groupList (y_sched y))"
proof -
  let ?gs = "groupList (y_sched y)" and ?W = "p_WindowSize (sc_policy (y_sched y))"
  let ?acc = "fold (refreshGroup now) ?gs (l_runtimes (y_run y), l_forced (y_run y))"
  let ?rts = "filter (\<lambda>r. fst r \<in> set (map g_Group ?gs)) (fst ?acc)"
  have wf: "distinct (map g_Group ?gs)" "list_all wf_group ?gs" and ok: "rts_ok ?W (l_runtimes (y_run y))"
    using assms by (auto simp: inv_static_def wf_groups_def)
  note acc = fold_refreshGroup [OF ok wf(2), of now "l_forced (y_run y)"]
  then have "rts_ok ?W ?rts" by (simp add: rts_ok_filter)
  moreover have "states ?rts = snapshot ?gs"
  proof -
    have "states ?rts = (states (l_runtimes (y_run y)) ++ snapshot ?gs) |` set (map g_Group ?gs)"
      using acc wf(1) by (simp only: states_filter snapshot_rev)
    also have "\<dots> = snapshot ?gs"
      using dom_snapshot [of ?gs] by (auto simp: fun_eq_iff restrict_map_def map_add_def split: option.split)
    finally show ?thesis .
  qed
  ultimately show ?thesis
    using assms by (simp add: refresh_def Let_def inv_static_def groupList_def)
qed

subsection \<open>The start of a batch\<close>

lemma distinct_sortedGroupNames: "rts_ok W rts \<Longrightarrow> distinct (sortedGroupNames rts)"
  by (simp add: sortedGroupNames_def rts_ok_def)

text \<open>Started batches: the facts about \<open>prepareProbes\<close> that the invariants need.\<close>

lemma prepareProbes_facts:
  assumes "inv_static y" and "inv_probes y"
  shows "inv_static (prepareProbes clk y) \<and> inv_probes (prepareProbes clk y)
    \<and> states (l_runtimes (y_run (prepareProbes clk y))) = states (l_runtimes (y_run y))"
proof (cases "l_active (y_run y)")
  case True
  with assms show ?thesis
    by (simp add: prepareProbes_def inv_static_def inv_probes_def in_flight_def capacity_def)
next
  case False
  let ?W = "p_WindowSize (sc_policy (y_sched y))"
  let ?y0 = "y\<lparr> y_run := (y_run y)\<lparr> l_pending := [], l_activeGroups := [], l_remaining := [],
    l_batchSamples := [], l_batchGeneration := sc_generation (y_sched y) \<rparr> \<rparr>"
  let ?z = "fold (prepareGroup clk) (sortedGroupNames (l_runtimes (y_run y))) ?y0"
  have ok: "rts_ok ?W (l_runtimes (y_run y))" using assms(1) by (simp add: inv_static_def)
  have "prepared ?z \<and> rts_ok ?W (l_runtimes (y_run ?z))
      \<and> states (l_runtimes (y_run ?z)) = states (l_runtimes (y_run ?y0))"
    by (rule fold_prepareGroup)
      (simp_all add: ok distinct_sortedGroupNames [OF ok] prepared_def tally_def remainingOf_def)
  moreover have "l_jobs (y_run y) = []" "l_probing (y_run y) = []" "l_results (y_run y) = []"
    using assms(2) False by (simp_all add: inv_probes_def in_flight_def)
  moreover have "prepareProbes clk y =
      ?z\<lparr> y_run := (y_run ?z)\<lparr> l_active := l_activeGroups (y_run ?z) \<noteq> [], l_phase := PreparingStreams \<rparr> \<rparr>"
    using False by (simp add: prepareProbes_def Let_def)
  ultimately show ?thesis
    using assms(1) by (simp add: inv_static_def inv_probes_def prepared_def in_flight_def capacity_def
        groupList_def sched_frame)
qed

lemma prepareStreams_facts:
  assumes "inv_static y" and "inv_probes y"
  shows "inv_static (prepareStreams now nextNow draw y) \<and> inv_probes (prepareStreams now nextNow draw y)
    \<and> l_runtimes (y_run (prepareStreams now nextNow draw y)) = l_runtimes (y_run y)
    \<and> y_sched (prepareStreams now nextNow draw y) = y_sched y
    \<and> y_signals (prepareStreams now nextNow draw y) = y_signals y"
  using assms by (simp add: prepareStreams_def Let_def inv_static_def inv_probes_def in_flight_def capacity_def)

subsection \<open>Results\<close>

lemma tally_receive:
  assumes "tally remaining (ts @ task # us)"
  shows "tally (AList.update (t_group task) (remainingOf remaining (t_group task) - 1) remaining) (ts @ us)"
  using assms by (auto simp: tally_def distinct_update)

lemma tally_all_done:
  assumes "tally remaining tasks"
  shows "\<not> list_ex (\<lambda>r. snd r > 0) remaining \<longleftrightarrow> tasks = []"
proof
  assume none: "\<not> list_ex (\<lambda>r. snd r > 0) remaining"
  have "task_count tasks name = 0" for name
  proof (cases "map_of remaining name")
    case None
    with assms show ?thesis by (auto simp: tally_def remainingOf_def dest!: spec [of _ name])
  next
    case (Some n)
    from map_of_SomeD [OF Some] none have "n \<le> 0" by (auto simp: list_ex_iff)
    with assms Some show ?thesis by (auto simp: tally_def remainingOf_def dest!: spec [of _ name])
  qed
  then show "tasks = []" by (rule task_count_zero)
next
  assume "tasks = []"
  with assms have "snd r = 0" if "r \<in> set remaining" for r
    using that by (cases r) (auto simp: tally_def remainingOf_def dest!: spec [of _ "fst r"])
  then show "\<not> list_ex (\<lambda>r. snd r > 0) remaining" by (auto simp: list_ex_iff)
qed

lemma finishBatch_facts:
  assumes "inv_static y" and "in_flight (y_run y) = []"
  shows "inv_static (finishBatch now y) \<and> inv_probes (finishBatch now y)
    \<and> states (l_runtimes (y_run (finishBatch now y))) = states (l_runtimes (y_run y))"
proof -
  let ?W = "p_WindowSize (sc_policy (y_sched y))"
  have ok: "rts_ok ?W (l_runtimes (y_run y))" using assms(1) by (simp add: inv_static_def)
  show ?thesis
    using assms fold_judgeGroup [OF ok] fold_forget [OF ok]
    by (simp add: finishBatch_def Let_def inv_static_def inv_probes_def in_flight_def capacity_def)
qed

lemma receiveResult_facts:
  assumes "inv_static y" and "inv_probes y" and "l_results (y_run y) = result # rest"
    and z_def: "z = receiveResult now result (y\<lparr> y_run := (y_run y)\<lparr> l_results := rest \<rparr> \<rparr>)"
  shows "inv_static z \<and> inv_probes z \<and> states (l_runtimes (y_run z)) = states (l_runtimes (y_run y))
    \<and> y_sched z = y_sched y \<and> y_signals z = y_signals y
    \<and> (if l_active (y_run z) then y_batches z = y_batches y \<and> l_phase (y_run z) = PreparingProbes
       else length (y_batches z) = Suc (length (y_batches y)) \<and> l_phase (y_run z) = Refreshing)"
proof -
  let ?l = "y_run y" and ?name = "t_group (pr_task result)" and ?pol = "sc_policy (y_sched y)"
  let ?W = "p_WindowSize ?pol"
  let ?rem = "AList.update ?name (remainingOf (l_remaining ?l) ?name - 1) (l_remaining ?l)"
  let ?rts = "updateRuntime ?name (recordSample ?pol (pr_task result) (pr_sample result)) (l_runtimes ?l)"
  let ?y = "y\<lparr> y_run := ?l\<lparr> l_results := rest, l_phase := PreparingProbes,
    l_batchSamples := l_batchSamples ?l @ [pr_sample result], l_runtimes := ?rts, l_remaining := ?rem \<rparr> \<rparr>"
  have act: "l_active ?l"
    using assms(2,3) by (auto simp: inv_probes_def in_flight_def)
  then have "tally (l_remaining ?l) ((l_pending ?l @ l_jobs ?l @ l_probing ?l) @ pr_task result # map pr_task rest)"
    using assms(2,3) by (simp add: inv_probes_def in_flight_def)
  from tally_receive [OF this] have t: "tally ?rem (in_flight (y_run ?y))" by (simp add: in_flight_def)
  have rts: "rts_ok ?W ?rts" "states ?rts = states (l_runtimes ?l)"
    using assms(1) by (auto simp: inv_static_def states_updateRuntime intro!: rts_ok_updateRuntime rt_ok_recordSample)
  then have st: "inv_static ?y" using assms(1) by (simp add: inv_static_def)
  have left: "remainingOf (l_remaining ?l) ?name - 1 = 0" if "\<not> list_ex (\<lambda>r. snd r > 0) ?rem"
    using t that tally_all_done [OF t] by (auto simp: tally_def fun_upd_def dest!: spec [of _ ?name])
  have z: "z = (if in_flight (y_run ?y) = [] then finishBatch now ?y else ?y)"
    using left tally_all_done [OF t] by (auto simp: z_def receiveResult_def Let_def)
  show ?thesis
  proof (cases "in_flight (y_run ?y) = []")
    case True
    from finishBatch_facts [OF st True, of now] True rts(2) show ?thesis
      by (simp add: z) (simp add: finishBatch_def Let_def)
  next
    case False
    with act t assms(2,3) have "inv_probes ?y"
      by (simp add: inv_probes_def capacity_def)
    with False st rts(2) act show ?thesis by (simp add: z)
  qed
qed

subsection \<open>The cases of a step of the loop\<close>

lemma inside_cases:
  assumes "inside e y = Some z"
  obtains (Refreshed) now streamNow where "l_phase (y_run y) = Refreshing" "z = refresh now streamNow y"
  | (PreparedProbes) clk where "l_phase (y_run y) = PreparingProbes" "z = prepareProbes clk y"
  | (PreparedStreams) now nextNow draw where
      "l_phase (y_run y) = PreparingStreams" "z = prepareStreams now nextNow draw y"
  | (Cancelled) "z = y\<lparr> y_run := (y_run y)\<lparr> l_phase := Stopped \<rparr> \<rparr>"
  | (Woken) "z = y\<lparr> y_sched := (y_sched y)\<lparr> sc_wake := False \<rparr>, y_run := (y_run y)\<lparr> l_phase := Refreshing \<rparr> \<rparr>"
  | (Timed) "l_phase (y_run y) = Selecting" "z = y\<lparr> y_run := (y_run y)\<lparr> l_phase := PreparingProbes \<rparr> \<rparr>"
  | (SentStream) proxy rest where "l_phase (y_run y) = Selecting"
      "l_streamPending (y_run y) = proxy # rest" "l_pulling (y_run y) = None"
      "z = y\<lparr> y_run := (y_run y)\<lparr> l_phase := PreparingProbes, l_streamPending := rest,
                 l_streamInFlight := l_streamInFlight (y_run y) + 1, l_pulling := Some proxy \<rparr> \<rparr>"
  | (GotStream) now sort_Slice sample rest where "l_phase (y_run y) = Selecting"
      "l_streamResults (y_run y) = sample # rest"
      "z = receiveStream now sort_Slice sample (y\<lparr> y_run := (y_run y)\<lparr> l_streamResults := rest \<rparr> \<rparr>)"
  | (SentTask) task rest where "l_phase (y_run y) = Selecting"
      "l_pending (y_run y) = task # rest" "length (l_jobs (y_run y)) < capacity y"
      "z = y\<lparr> y_run := (y_run y)\<lparr> l_phase := PreparingProbes, l_pending := rest,
                 l_jobs := l_jobs (y_run y) @ [task] \<rparr> \<rparr>"
  | (GotResult) now result rest where "l_phase (y_run y) = Selecting" "l_results (y_run y) = result # rest"
      "z = receiveResult now result (y\<lparr> y_run := (y_run y)\<lparr> l_results := rest \<rparr> \<rparr>)"
proof (cases "l_phase (y_run y)")
  case Refreshing
  with assms show thesis by (auto simp: inside_def split: label.splits intro: Refreshed)
next
  case PreparingProbes
  with assms show thesis by (auto simp: inside_def split: label.splits intro: PreparedProbes Cancelled)
next
  case PreparingStreams
  with assms show thesis by (auto simp: inside_def split: label.splits intro: PreparedStreams)
next
  case Selecting
  then have "selecting e y = Some z" using assms by (simp add: inside_def)
  with Selecting show thesis
    by (cases e) (auto split: if_splits list.splits
        intro: Cancelled Woken Timed SentStream GotStream SentTask GotResult)
next
  case NotStarted
  with assms show thesis by (simp add: inside_def)
next
  case Stopped
  with assms show thesis by (simp add: inside_def)
qed

subsection \<open>Downloads and wake-ups\<close>

text \<open>One stream worker: at most one pull and one waiting result, and the counter agrees with them.\<close>

definition inv_streams :: "System \<Rightarrow> bool" where
  "inv_streams y \<longleftrightarrow> length (l_streamResults (y_run y)) \<le> 1
     \<and> l_streamInFlight (y_run y)
         = (if l_pulling (y_run y) = None then 0 else 1) + int (length (l_streamResults (y_run y)))
     \<and> (l_streamActive (y_run y) \<longleftrightarrow> l_streamPending (y_run y) \<noteq> [] \<or> l_streamInFlight (y_run y) > 0)"

text \<open>
  No lost wake-up: unless a signal is pending or about to be sent, or the loop is about to refresh,
  its runtimes hold the current groups and no request waits.
\<close>

definition inv_sync :: "System \<Rightarrow> bool" where
  "inv_sync y \<longleftrightarrow>
     (l_phase (y_run y) \<in> {PreparingProbes, PreparingStreams, Selecting}
      \<and> \<not> sc_wake (y_sched y) \<and> y_signals y = 0
      \<longrightarrow> sc_requests (y_sched y) = {} \<and> states (l_runtimes (y_run y)) = snapshot (groupList (y_sched y)))"

lemma receiveStream_facts:
  assumes "l_streamResults (y_run y) = sample # rest"
    and z: "z = receiveStream now sort_Slice sample (y\<lparr> y_run := (y_run y)\<lparr> l_streamResults := rest \<rparr> \<rparr>)"
  shows "l_runtimes (y_run z) = l_runtimes (y_run y) \<and> y_sched z = y_sched y \<and> y_signals z = y_signals y
    \<and> l_phase (y_run z) = PreparingProbes \<and> l_active (y_run z) = l_active (y_run y)
    \<and> l_remaining (y_run z) = l_remaining (y_run y) \<and> in_flight (y_run z) = in_flight (y_run y)
    \<and> l_jobs (y_run z) = l_jobs (y_run y) \<and> l_probing (y_run z) = l_probing (y_run y)
    \<and> l_results (y_run z) = l_results (y_run y)
    \<and> l_streamResults (y_run z) = rest \<and> l_pulling (y_run z) = l_pulling (y_run y)
    \<and> l_streamPending (y_run z) = l_streamPending (y_run y)
    \<and> l_streamInFlight (y_run z) = l_streamInFlight (y_run y) - 1
    \<and> l_streamActive (y_run z) = (l_streamActive (y_run y)
        \<and> (l_streamPending (y_run y) \<noteq> [] \<or> l_streamInFlight (y_run y) - 1 > 0))"
  unfolding z by (simp add: receiveStream_def Let_def in_flight_def)

lemma receiveStream_streams:
  assumes "inv_streams y" and "l_streamResults (y_run y) = sample # rest"
    and "z = receiveStream now sort_Slice sample (y\<lparr> y_run := (y_run y)\<lparr> l_streamResults := rest \<rparr> \<rparr>)"
  shows "inv_streams z"
  using assms(1,2) receiveStream_facts [OF assms(2,3)] by (auto simp: inv_streams_def split: if_splits)

subsection \<open>The invariant is inductive\<close>

definition sched_inv :: "System \<Rightarrow> bool" where
  "sched_inv y \<longleftrightarrow> inv_static y \<and> inv_probes y \<and> inv_streams y \<and> inv_sync y"

lemma groupList_eq: "sc_groups t = sc_groups s \<Longrightarrow> groupList t = groupList s"
  by (simp add: groupList_def)

lemma tally_cong: "(\<And>name. task_count ts name = task_count us name) \<Longrightarrow> tally remaining ts = tally remaining us"
  by (simp add: tally_def)

lemma task_count_remove:
  "i < length ts \<Longrightarrow> task_count (take i ts) name + (task_count (drop (Suc i) ts) name + task_count [ts ! i] name)
     = task_count ts name"
  by (subst (4) id_take_nth_drop [of i ts]) simp_all

lemma outside_inv:
  assumes "outside e y = Some z" and "sched_inv y"
  shows "sched_inv z"
  using assms(1)
proof (cases rule: outside_cases)
  case (Call t sig)
  have "inv_static z"
    using Call assms(2) by (simp add: sched_inv_def inv_static_def call_def call_ok_def)
  moreover have "inv_probes z" "inv_streams z"
    using Call assms(2) by (simp_all add: sched_inv_def inv_probes_def inv_streams_def call_def call_ok_def capacity_def)
  moreover have "inv_sync z"
    using Call assms(2) groupList_eq [of t "y_sched y"]
    by (cases sig) (auto simp: sched_inv_def inv_sync_def call_def call_ok_def)
  ultimately show ?thesis by (simp add: sched_inv_def)
next
  case Signalled
  with assms(2) show ?thesis
    by (simp add: sched_inv_def inv_static_def inv_probes_def inv_streams_def inv_sync_def signal_def capacity_def groupList_def)
next
  case Started
  with assms(2) show ?thesis
    by (simp add: sched_inv_def inv_static_def inv_probes_def inv_streams_def inv_sync_def in_flight_def capacity_def groupList_def)
next
  case (Taken task jobs)
  have "tally rem (p @ (task # jobs) @ q @ r) = tally rem (p @ jobs @ (q @ [task]) @ r)" for rem p q r
    by (rule tally_cong) simp
  with Taken assms(2) show ?thesis
    by (simp add: sched_inv_def inv_static_def inv_probes_def inv_streams_def inv_sync_def in_flight_def capacity_def)
next
  case (Probed i result)
  let ?p = "l_probing (y_run y)"
  have "tally rem (a @ b @ ?p @ c) = tally rem (a @ b @ (take i ?p @ drop (Suc i) ?p) @ c @ [?p ! i])" for rem a b c
    using task_count_remove [OF Probed(1)] by (intro tally_cong) (simp add: algebra_simps)
  moreover have "?p \<noteq> []" using Probed(1) by auto
  moreover have "length ?p - Suc 0 \<le> capacity y" using assms(2) by (auto simp: sched_inv_def inv_probes_def)
  ultimately show ?thesis using Probed assms(2)
    by (simp add: sched_inv_def inv_static_def inv_probes_def inv_streams_def inv_sync_def in_flight_def capacity_def)
next
  case (Pulled proxy sample)
  with assms(2) show ?thesis
    by (simp add: sched_inv_def inv_static_def inv_probes_def inv_streams_def inv_sync_def in_flight_def capacity_def)
qed

lemma inside_inv:
  assumes "inside e y = Some z" and "sched_inv y"
  shows "sched_inv z"
  using assms(1)
proof (cases rule: inside_cases)
  case (Refreshed now streamNow)
  from assms(2) have "inv_static y" by (simp add: sched_inv_def)
  from refresh_runtimes [OF this, of now streamNow]
  have "inv_static z" "states (l_runtimes (y_run z)) = snapshot (groupList (y_sched y))"
    by (simp_all add: Refreshed)
  moreover have "inv_probes z" "inv_streams z" "groupList (y_sched z) = groupList (y_sched y)" "sc_requests (y_sched z) = {}"
    using assms(2) by (simp_all add: Refreshed refresh_def Let_def sched_inv_def inv_probes_def inv_streams_def
        in_flight_def capacity_def groupList_def)
  ultimately show ?thesis by (simp add: sched_inv_def inv_sync_def)
next
  case (PreparedProbes clk)
  then have "inv_static z" "inv_probes z" "states (l_runtimes (y_run z)) = states (l_runtimes (y_run y))"
    using assms(2) prepareProbes_facts by (auto simp: sched_inv_def)
  moreover have "y_signals z = y_signals y" "sc_wake (y_sched z) = sc_wake (y_sched y)"
      "sc_requests (y_sched z) = sc_requests (y_sched y)" "sc_groups (y_sched z) = sc_groups (y_sched y)"
      "inv_streams z"
    using assms(2) PreparedProbes(2)
    by (simp_all add: prepareProbes_def Let_def sched_frame sched_inv_def inv_streams_def)
  ultimately show ?thesis
    using assms(2) PreparedProbes(1) by (auto simp: sched_inv_def inv_sync_def groupList_def)
next
  case (PreparedStreams now nextNow draw)
  then have "inv_static z" "inv_probes z" "l_runtimes (y_run z) = l_runtimes (y_run y)" "y_sched z = y_sched y"
      "y_signals z = y_signals y"
    using assms(2) prepareStreams_facts [of y now nextNow draw] by (auto simp: sched_inv_def)
  moreover have "inv_streams z"
    using assms(2) PreparedStreams(2) by (auto simp: sched_inv_def inv_streams_def prepareStreams_def Let_def)
  ultimately show ?thesis
    using assms(2) PreparedStreams(1) by (auto simp: sched_inv_def inv_sync_def)
next
  case (GotStream now sort_Slice sample rest)
  then show ?thesis
    using assms(2) receiveStream_facts [OF GotStream(2,3)] receiveStream_streams [OF _ GotStream(2,3)]
    by (simp add: sched_inv_def inv_static_def inv_probes_def inv_sync_def capacity_def)
next
  case (GotResult now result rest)
  from assms(2) receiveResult_facts [OF _ _ GotResult(2,3)]
  have "inv_static z" "inv_probes z" "states (l_runtimes (y_run z)) = states (l_runtimes (y_run y))"
      "y_sched z = y_sched y" "y_signals z = y_signals y"
    by (simp_all add: sched_inv_def)
  moreover have "inv_streams z"
    using assms(2) GotResult
    by (simp add: sched_inv_def inv_streams_def receiveResult_def finishBatch_def Let_def)
  ultimately show ?thesis
    using assms(2) GotResult(1) by (auto simp: sched_inv_def inv_sync_def)
next
  case (SentTask task rest)
  have "tally rem ((task # rest) @ b @ c) = tally rem (rest @ (b @ [task]) @ c)" for rem b c
    by (rule tally_cong) simp
  with SentTask assms(2) show ?thesis
    by (simp add: sched_inv_def inv_static_def inv_probes_def inv_streams_def inv_sync_def in_flight_def capacity_def)
next
  case (SentStream proxy rest)
  with assms(2) show ?thesis
    by (auto simp: sched_inv_def inv_static_def inv_probes_def inv_streams_def inv_sync_def in_flight_def capacity_def)
qed (use assms(2) in \<open>auto simp: sched_inv_def inv_static_def inv_probes_def inv_streams_def inv_sync_def
       in_flight_def capacity_def groupList_def\<close>)

lemma init_inv:
  assumes "sched_init url_Parse y"
  shows "sched_inv y"
proof -
  from assms obtain policy streamer s where s: "NewScheduler url_Parse policy True streamer True = Inr s"
      and y: "y = \<lparr> y_sched = s, y_run = emptyRun, y_signals = 0, y_batches = [] \<rparr>"
    by (auto simp: sched_init_def)
  then have "Policy_Validate url_Parse policy = None" "sc_policy s = policy" "sc_groups s = None"
    by (auto simp: NewScheduler_def split: option.splits if_splits)
  with y Policy_ValidateD [of url_Parse policy] show ?thesis
    by (simp add: sched_inv_def inv_static_def inv_probes_def inv_streams_def inv_sync_def emptyRun_def
        in_flight_def capacity_def groupList_def wf_groups_def)
qed

interpretation sched: inductive_invariant "sched_init url_Parse" sched_step sched_inv for url_Parse
proof
  show "sched_init url_Parse y \<Longrightarrow> sched_inv y" for y by (rule init_inv)
  show "sched_inv y \<Longrightarrow> sched_step y e z \<Longrightarrow> sched_inv z" for y e z
    by (auto simp: next_state_def elim!: sched_step.cases split: option.splits intro: outside_inv inside_inv)
qed

section \<open>Properties of the loop\<close>

text \<open>
  C18. In every reachable state of the scheduler the counters of \<open>remaining\<close> equal the number of
  unanswered probes of each group, a batch is active exactly while probes are unanswered, and
  neither the workers nor the channels exceed the configured concurrency.
\<close>

theorem sched_probes_accounted:
  assumes "reachable (sched_init url_Parse) sched_step y"
  shows "(l_active (y_run y) \<longleftrightarrow> in_flight (y_run y) \<noteq> [])
    \<and> (l_active (y_run y) \<longrightarrow>
         (\<forall>name. remainingOf (l_remaining (y_run y)) name
            = int (length (filter (\<lambda>t. t_group t = name) (in_flight (y_run y))))))
    \<and> int (length (l_probing (y_run y))) \<le> p_Concurrency (sc_policy (y_sched y))
    \<and> int (length (l_jobs (y_run y))) \<le> p_Concurrency (sc_policy (y_sched y))
    \<and> int (length (l_results (y_run y))) \<le> p_Concurrency (sc_policy (y_sched y))"
  using sched.inv_reachable [OF assms]
  by (auto simp: sched_inv_def inv_static_def inv_probes_def capacity_def tally_def task_count_def)

text \<open>
  C19. No wake-up is lost: in every reachable state in which the loop is not about to refresh and no
  signal is pending or about to be sent, no probe request waits and the group states the loop works
  with are exactly the snapshot installed last.
\<close>

theorem sched_no_lost_wakeup:
  assumes "reachable (sched_init url_Parse) sched_step y"
    and "l_phase (y_run y) = PreparingProbes \<or> l_phase (y_run y) = PreparingStreams \<or> l_phase (y_run y) = Selecting"
    and "\<not> sc_wake (y_sched y)" and "y_signals y = 0"
  shows "sc_requests (y_sched y) = {}
    \<and> (\<forall>name. map_option gr_state (map_of (l_runtimes (y_run y)) name)
          = find (\<lambda>g. g_Group g = name) (groupList (y_sched y)))"
proof -
  have "snapshot gs name = find (\<lambda>g. g_Group g = name) gs" for gs name
    by (induction gs) (auto simp: snapshot_def)
  with sched.inv_reachable [OF assms(1)] assms(2-4) show ?thesis
    by (auto simp: sched_inv_def inv_sync_def states_def fun_eq_iff)
qed

text \<open>
  C20. No proxy of a reachable state has more than \<open>WindowSize\<close> recorded probes, every runtime belongs
  to a well-formed group of its own name, and names are not repeated.
\<close>

theorem sched_history_bounded:
  assumes "reachable (sched_init url_Parse) sched_step y"
    and "map_of (l_runtimes (y_run y)) name = Some runtime"
  shows "int (length (historyOf runtime proxy)) \<le> p_WindowSize (sc_policy (y_sched y))
    \<and> g_Group (gr_state runtime) = name \<and> wf_group (gr_state runtime)
    \<and> distinct (map fst (l_runtimes (y_run y)))"
proof -
  let ?W = "p_WindowSize (sc_policy (y_sched y))"
  have ok: "rts_ok ?W (l_runtimes (y_run y))" "0 \<le> ?W"
    using sched.inv_reachable [OF assms(1)] by (auto simp: sched_inv_def inv_static_def)
  from rts_okD [OF ok(1) assms(2)] ok show ?thesis
    by (simp add: historyOf_length) (simp add: rt_ok_def rts_ok_def)
qed

section \<open>Batches complete\<close>

definition steps :: "System \<Rightarrow> System \<Rightarrow> bool" where
  "steps = (\<lambda>y z. \<exists>e. sched_step y e z)\<^sup>*\<^sup>*"

lemma step_steps: "next_state e y = Some z \<Longrightarrow> steps z w \<Longrightarrow> steps y w"
  unfolding steps_def by (rule converse_rtranclp_into_rtranclp) (auto intro: sched_step.intros)

lemma steps_refl: "steps y y"
  by (simp add: steps_def)

text \<open>What is left to do for the running batch: the stages every unanswered task has ahead.\<close>

definition work :: "Run \<Rightarrow> nat" where
  "work l = 4 * length (l_pending l) + 3 * length (l_jobs l) + 2 * length (l_probing l) + length (l_results l)"

fun to_select :: "phase \<Rightarrow> nat" where
  "to_select Refreshing = 3" | "to_select PreparingProbes = 2" | "to_select PreparingStreams = 1" | "to_select _ = 0"

definition ahead :: "System \<Rightarrow> nat" where
  "ahead y = 4 * work (y_run y) + to_select (l_phase (y_run y))"

lemma active_progress_select:
  assumes inv: "sched_inv y" and act: "l_active (y_run y)" and ph: "l_phase (y_run y) = Selecting"
  shows "\<exists>e z. next_state e y = Some z \<and>
    (length (y_batches z) = Suc (length (y_batches y))
     \<or> y_batches z = y_batches y \<and> l_active (y_run z) \<and> ahead z < ahead y
       \<and> l_phase (y_run z) \<in> {PreparingProbes, Selecting})"
proof -
  have cap: "0 < capacity y" and st: "inv_static y" and pr: "inv_probes y"
    using inv by (auto simp: sched_inv_def inv_static_def capacity_def)
  consider (results) result rest where "l_results (y_run y) = result # rest"
    | (probing) task rest where "l_results (y_run y) = []" "l_probing (y_run y) = task # rest"
    | (jobs) task rest where "l_probing (y_run y) = []" "l_jobs (y_run y) = task # rest"
    | (pending) task rest where "l_jobs (y_run y) = []" "l_pending (y_run y) = task # rest"
    using pr act by (cases "l_results (y_run y)"; cases "l_probing (y_run y)"; cases "l_jobs (y_run y)";
        cases "l_pending (y_run y)") (auto simp: inv_probes_def in_flight_def)
  then show ?thesis
  proof cases
    case results
    let ?z = "receiveResult 0 result (y\<lparr> y_run := (y_run y)\<lparr> l_results := rest \<rparr> \<rparr>)"
    have "next_state (ReceiveResult 0) y = Some ?z"
      using results ph by (simp add: next_state_def inside_def)
    moreover have "work (y_run ?z) < work (y_run y)"
      using results by (simp add: work_def receiveResult_def finishBatch_def Let_def)
    ultimately show ?thesis
      using receiveResult_facts [OF st pr results refl, of 0] ph
      by (intro exI [of _ "ReceiveResult 0"] exI [of _ ?z]) (auto simp: ahead_def split: if_splits)
  next
    case probing
    then show ?thesis
      by (intro exI [of _ "FinishProbe 0 0 0 False False"])
        (use cap act ph in \<open>simp add: next_state_def ahead_def work_def Let_def\<close>)
  next
    case jobs
    then show ?thesis
      by (intro exI [of _ TakeTask]) (use cap act ph in \<open>simp add: next_state_def ahead_def work_def\<close>)
  next
    case pending
    then show ?thesis
      by (intro exI [of _ SendTask])
        (use cap act ph in \<open>simp add: next_state_def inside_def ahead_def work_def\<close>)
  qed
qed

lemma active_progress_other:
  assumes "l_active (y_run y)" and "l_phase (y_run y) \<in> {Refreshing, PreparingProbes, PreparingStreams}"
  shows "\<exists>e z. next_state e y = Some z \<and> y_batches z = y_batches y \<and> l_active (y_run z) \<and> ahead z < ahead y
       \<and> l_phase (y_run z) \<in> {PreparingProbes, PreparingStreams, Selecting}"
proof -
  from assms(2) consider "l_phase (y_run y) = Refreshing" | "l_phase (y_run y) = PreparingProbes"
    | "l_phase (y_run y) = PreparingStreams" by auto
  then show ?thesis
  proof cases
    case 1
    then show ?thesis using assms(1)
      by (intro exI [of _ "Refresh (\<lambda>_. 0) 0"])
        (simp add: next_state_def inside_def refresh_def Let_def ahead_def work_def)
  next
    case 2
    then show ?thesis using assms(1)
      by (intro exI [of _ "PrepareProbes clk" for clk])
        (simp add: next_state_def inside_def prepareProbes_def ahead_def work_def)
  next
    case 3
    then show ?thesis using assms(1)
      by (intro exI [of _ "PrepareStreams 0 0 id"])
        (simp add: next_state_def inside_def prepareStreams_def Let_def ahead_def work_def)
  qed
qed

lemma next_inv: "sched_inv y \<Longrightarrow> next_state e y = Some z \<Longrightarrow> sched_inv z"
  by (auto simp: next_state_def split: option.splits intro: outside_inv inside_inv)

lemma active_completes:
  assumes "sched_inv y" and "l_active (y_run y)"
    and "l_phase (y_run y) \<in> {Refreshing, PreparingProbes, PreparingStreams, Selecting}"
  shows "\<exists>z. steps y z \<and> length (y_batches z) = Suc (length (y_batches y))"
  using assms
proof (induction "ahead y" arbitrary: y rule: less_induct)
  case less
  from less.prems(2,3) active_progress_select [OF less.prems(1,2)] active_progress_other [OF less.prems(2)]
  obtain e z where e: "next_state e y = Some z"
    and z: "length (y_batches z) = Suc (length (y_batches y))
      \<or> y_batches z = y_batches y \<and> l_active (y_run z) \<and> ahead z < ahead y
         \<and> l_phase (y_run z) \<in> {PreparingProbes, PreparingStreams, Selecting}"
    by (cases "l_phase (y_run y) = Selecting") blast+
  show ?case
  proof (cases "length (y_batches z) = Suc (length (y_batches y))")
    case True
    with step_steps [OF e steps_refl] show ?thesis by blast
  next
    case False
    with z less.hyps [of z] next_inv [OF less.prems(1) e] obtain w
      where "steps z w" "length (y_batches w) = Suc (length (y_batches z))" by auto
    with step_steps [OF e, of w] z False show ?thesis by auto
  qed
qed

text \<open>
  C21. The pipeline cannot jam: from every reachable state with an active batch, whatever calls have
  interfered, the loop and the workers can run on to the delivery of that batch.
\<close>

theorem sched_batch_completes:
  assumes "reachable (sched_init url_Parse) sched_step y" and "l_active (y_run y)"
    and "l_phase (y_run y) = Refreshing \<or> l_phase (y_run y) = PreparingProbes
      \<or> l_phase (y_run y) = PreparingStreams \<or> l_phase (y_run y) = Selecting"
  shows "\<exists>z. steps y z \<and> length (y_batches z) = Suc (length (y_batches y))"
  using active_completes [OF sched.inv_reachable [OF assms(1)] assms(2)] assms(3) by blast

section \<open>Dial failures\<close>

text \<open>A report that forces an early probe.\<close>

definition forces_probe :: "string \<Rightarrow> gotime \<Rightarrow> System \<Rightarrow> bool" where
  "forces_probe grp now y \<longleftrightarrow> snd (ReportDialFailure grp now (y_sched y))"

lemma forces_probe_spacing:
  "forces_probe grp now y \<Longrightarrow> sc_lastDialProbe (y_sched y) grp + DialFailureProbeSpacing \<le> now"
  by (auto simp: forces_probe_def ReportDialFailure_def Let_def spacing_elapsed split: if_splits)

lemma forces_probe_records:
  "forces_probe grp now y \<Longrightarrow> sched_step y (CallReportDialFailure grp now) z
     \<Longrightarrow> sc_lastDialProbe (y_sched z) grp = now"
  by (auto simp: forces_probe_def ReportDialFailure_def Let_def next_state_def call_def
      elim!: sched_step.cases split: if_splits)

lemma inside_lastDialProbe: "inside e y = Some z \<Longrightarrow> sc_lastDialProbe (y_sched z) = sc_lastDialProbe (y_sched y)"
  by (erule inside_cases)
    (auto simp: refresh_def prepareProbes_def prepareStreams_def receiveResult_def finishBatch_def
      receiveStream_def Let_def sched_frame)

lemma outside_lastDialProbe:
  "outside e y = Some z \<Longrightarrow> sc_lastDialProbe (y_sched z) grp = sc_lastDialProbe (y_sched y) grp
     \<or> sc_lastDialProbe (y_sched y) grp + DialFailureProbeSpacing \<le> sc_lastDialProbe (y_sched z) grp"
  by (erule outside_cases) (auto simp: call_def call_ok_def signal_def)

lemma steps_lastDialProbe: "steps y z \<Longrightarrow> sc_lastDialProbe (y_sched y) grp \<le> sc_lastDialProbe (y_sched z) grp"
  unfolding steps_def
proof (induction rule: rtranclp_induct)
  case (step z w)
  then obtain e where "next_state e z = Some w" by (auto elim: sched_step.cases)
  then have "sc_lastDialProbe (y_sched z) grp \<le> sc_lastDialProbe (y_sched w) grp"
    using inside_lastDialProbe [of e z w] outside_lastDialProbe [of e z w grp]
    by (auto simp: next_state_def DialFailureProbeSpacing_def Second_def split: option.splits)
  with step.IH show ?case by simp
qed simp

text \<open>
  C23. Reported dial failures force early probes of a group at most once per
  \<open>DialFailureProbeSpacing\<close>, however the reports interleave with the loop and with other calls.
\<close>

theorem dial_probe_spacing:
  assumes "forces_probe grp t1 y1" and "sched_step y1 (CallReportDialFailure grp t1) y2"
    and "steps y2 y3" and "forces_probe grp t2 y3"
  shows "t1 + DialFailureProbeSpacing \<le> t2"
  using forces_probe_spacing [OF assms(4)] forces_probe_records [OF assms(1,2)]
    steps_lastDialProbe [OF assms(3), of grp] by simp

section \<open>Decisions and generations\<close>

lemma fold_judgeGroup_decisions:
  assumes "d \<in> set (bt_Decisions (snd (fold (judgeGroup policy) names (rts, b))))"
  shows "d \<in> set (bt_Decisions b) \<or>
    (\<exists>name \<in> set names. \<exists>g. states rts name = Some g \<and> (\<exists>samples now. d = Decide policy g samples now))"
  using assms
proof (induction names arbitrary: rts b)
  case (Cons name names)
  show ?case
  proof (cases "map_of rts name")
    case None
    then have "judgeGroup policy name (rts, b) = (rts, b)" by (simp add: judgeGroup_def)
    with Cons.prems have "d \<in> set (bt_Decisions (snd (fold (judgeGroup policy) names (rts, b))))" by simp
    from Cons.IH [OF this] show ?thesis by auto
  next
    case (Some r)
    let ?acc = "judgeGroup policy name (rts, b)"
    have st: "states (fst ?acc) = states rts"
      using Some by (auto simp: judgeGroup_def Let_def states_def update_conv')
    have dec: "bt_Decisions (snd ?acc) = bt_Decisions b @ [Decide policy (gr_state r) (historySamples r) (bt_FinishedAt b)]"
      using Some by (simp add: judgeGroup_def Let_def)
    from Cons.prems Cons.IH [of "fst ?acc" "snd ?acc"] st dec Some show ?thesis
      by (fastforce simp: states_def)
  qed
qed simp

lemma prepare_batches [simp]:
  "y_batches (refresh now streamNow y) = y_batches y"
  "y_batches (prepareProbes clk y) = y_batches y"
  "y_batches (prepareStreams t u draw y) = y_batches y"
  by (simp_all add: refresh_def prepareProbes_def prepareStreams_def Let_def sched_frame)

lemma Decide_names: "d_Group (Decide policy g samples now) = g_Group g \<and> d_Old (Decide policy g samples now) = g_Selected g"
  by (simp add: Decide_def Let_def split: selection.split)

lemma DecideSteady_names:
  "d_Group (DecideSteady srt policy g latency streams now) = g_Group g
   \<and> d_Old (DecideSteady srt policy g latency streams now) = g_Selected g"
  by (simp add: DecideSteady_def Let_def)

text \<open>
  Decisions are made for group states the loop holds, and only while the generation is the one
  read when the round began.
\<close>

lemma finishBatch_decisions:
  assumes "y_batches (finishBatch now y) = y_batches y @ [b]" and "d \<in> set (bt_Decisions b)"
  shows "l_batchGeneration (y_run y) = sc_generation (y_sched y)
    \<and> (\<exists>name g. states (l_runtimes (y_run y)) name = Some g \<and> d_Group d = g_Group g \<and> d_Old d = g_Selected g)"
proof -
  have valid: "l_batchGeneration (y_run y) = sc_generation (y_sched y)"
    using assms by (auto simp: finishBatch_def Let_def emptyBatch_def split: if_splits)
  then have "b = snd (fold (judgeGroup (sc_policy (y_sched y))) (l_activeGroups (y_run y))
      (l_runtimes (y_run y), (emptyBatch now)\<lparr> bt_Samples := l_batchSamples (y_run y) \<rparr>))"
    using assms(1) by (simp add: finishBatch_def Let_def)
  with assms(2) fold_judgeGroup_decisions [of d "sc_policy (y_sched y)"] Decide_names valid show ?thesis
    by (fastforce simp: emptyBatch_def)
qed

lemma receiveStream_decisions:
  assumes "y_batches (receiveStream now srt sample y) = y_batches y @ [b]" and "d \<in> set (bt_Decisions b)"
  shows "l_streamGeneration (y_run y) = sc_generation (y_sched y)
    \<and> (\<exists>name g. states (l_runtimes (y_run y)) name = Some g \<and> d_Group d = g_Group g \<and> d_Old d = g_Selected g)"
proof -
  let ?rts = "l_runtimes (y_run y)"
  have named: "\<exists>n g. states ?rts n = Some g \<and> g = gr_state (the (map_of ?rts name))"
    if "name \<in> set (sortedGroupNames ?rts)" for name
  proof -
    from that obtain r where "map_of ?rts name = Some r"
      by (auto simp: sortedGroupNames_def) (metis map_of_eq_None_iff option.exhaust image_eqI fst_conv)
    then show ?thesis by (auto simp: states_def)
  qed
  have "l_streamGeneration (y_run y) = sc_generation (y_sched y)"
    using assms by (auto simp: receiveStream_def Let_def split: if_splits)
  moreover have "\<exists>name \<in> set (sortedGroupNames ?rts). \<exists>lat str.
      d = DecideSteady srt (sc_policy (y_sched y)) (gr_state (the (map_of ?rts name))) lat str now"
    using assms by (auto simp: receiveStream_def Let_def emptyBatch_def split: if_splits) blast
  ultimately show ?thesis using named DecideSteady_names by metis
qed


end
