(* ===== verification/Monitor_Run_Examples.thy ===== *)
theory Monitor_Run_Examples
  imports Monitor_Run
begin

text \<open>
  Concrete runs of the scheduler: the hypotheses of the properties of \<open>Monitor_Run\<close> hold in states
  that are reached by executing the steps of the model, and a race between \<open>SetGroups\<close> and the
  start of a batch is exhibited.
\<close>

section \<open>Concrete runs\<close>

fun exec :: "label list \<Rightarrow> System \<Rightarrow> System option" where
  "exec [] y = Some y"
| "exec (e # es) y = (case next_state e y of None \<Rightarrow> None | Some z \<Rightarrow> exec es z)"

lemma exec_append: "exec (es @ fs) y = (case exec es y of None \<Rightarrow> None | Some z \<Rightarrow> exec fs z)"
  by (induction es arbitrary: y) (auto split: option.split)

lemma exec_steps: "exec es y = Some z \<Longrightarrow> steps y z"
  by (induction es arbitrary: y) (auto simp: steps_refl split: option.splits intro: step_steps)

lemma reachable_steps:
  assumes "reachable (sched_init url_Parse) sched_step y" and "steps y z"
  shows "reachable (sched_init url_Parse) sched_step z"
  using assms(2) unfolding steps_def
  by (induction rule: rtranclp_induct) (auto intro: assms(1) reach_step)

definition exParse :: url_parser where
  "exParse raw = Some \<lparr> u_Scheme = ''https'', u_Opaque = '''', u_User = False, u_Host = ''h'', u_Hostname = ''h'',
     u_Port = '''', u_Path = '''', u_Fragment = '''' \<rparr>"

definition exStart :: System where
  "exStart = \<lparr> y_sched = projr (NewScheduler exParse DefaultPolicy True False True), y_run = emptyRun,
     y_signals = 0, y_batches = [] \<rparr>"

definition exReadings :: Readings where
  "exReadings = \<lparr> c_due = (\<lambda>_. 5), c_next = (\<lambda>_. 5), c_draw = (\<lambda>_ _. 0) \<rparr>"

definition exOne :: GroupState where
  "exOne = exGroup\<lparr> g_Proxies := [''a''] \<rparr>"

definition exRefresh :: label where
  "exRefresh = Refresh (\<lambda>_. 5) 5"

definition exLoop :: "label list" where
  "exLoop = [PrepareProbes exReadings, PrepareStreams 5 5 id]"

text \<open>The first batch: the groups are set, the loop starts, and one probe is dispatched.\<close>

definition exBegin :: "label list" where
  "exBegin = [CallSetGroups [exOne], Signal, CallRun, exRefresh]"

definition exBatch :: "label list" where
  "exBatch = exLoop @ [SendTask, TakeTask, FinishProbe 0 6 100 False False] @ exLoop"

definition exState :: "label list \<Rightarrow> System" where
  "exState es = the (exec es exStart)"

lemma exStart_init: "sched_init exParse exStart"
proof -
  have "isl (NewScheduler exParse DefaultPolicy True False True) = False" by code_simp
  then obtain s where "NewScheduler exParse DefaultPolicy True False True = Inr s"
    by (cases "NewScheduler exParse DefaultPolicy True False True") auto
  then show ?thesis by (auto simp: sched_init_def exStart_def)
qed

lemma exState_reachable:
  assumes "exec es exStart \<noteq> None"
  shows "reachable (sched_init exParse) sched_step (exState es)"
proof (rule reachable_steps)
  show "reachable (sched_init exParse) sched_step exStart" by (rule reach_init) (rule exStart_init)
  show "steps exStart (exState es)" using assms exec_steps [of es] by (auto simp: exState_def)
qed

definition exActive :: "label list" where
  "exActive = exBegin @ exLoop"

definition exQuiet :: "label list" where
  "exQuiet = exActive @ [Wake, exRefresh]"

definition exAnswered :: "label list" where
  "exAnswered = exQuiet @ exBatch"

definition exDone :: "label list" where
  "exDone = exAnswered @ [ReceiveResult 7]"

definition exRace :: "label list" where
  "exRace = exBegin @ [CallSetGroups [exOne\<lparr> g_ManualOverride := True \<rparr>], Signal] @ exBatch @ [ReceiveResult 7]"

lemma run_exActive: "exec exActive exStart \<noteq> None" by code_simp

lemma run_exQuiet: "exec exQuiet exStart \<noteq> None" by code_simp

lemma run_exAnswered: "exec exAnswered exStart \<noteq> None" by code_simp

lemma run_exDone: "exec exDone exStart \<noteq> None" by code_simp

lemma run_exRace: "exec exRace exStart \<noteq> None" by code_simp

lemma exActive_state:
  "l_active (y_run (exState exActive)) \<and> l_phase (y_run (exState exActive)) = Selecting"
  by code_simp

theorem sched_probes_accounted_witness:
  "l_active (y_run (exState exActive)) \<and> in_flight (y_run (exState exActive)) \<noteq> []"
  using sched_probes_accounted [OF exState_reachable [OF run_exActive]] exActive_state by simp

theorem sched_batch_completes_witness:
  "\<exists>z. steps (exState exActive) z \<and> length (y_batches z) = Suc (length (y_batches (exState exActive)))"
  using sched_batch_completes [OF exState_reachable [OF run_exActive]] exActive_state by simp

lemma exQuiet_state:
  "l_phase (y_run (exState exQuiet)) = PreparingProbes \<and> \<not> sc_wake (y_sched (exState exQuiet))
   \<and> y_signals (exState exQuiet) = 0
   \<and> find (\<lambda>g. g_Group g = ''g'') (groupList (y_sched (exState exQuiet))) = Some exOne"
  by code_simp

theorem sched_no_lost_wakeup_witness:
  "map_option gr_state (map_of (l_runtimes (y_run (exState exQuiet))) ''g'') = Some exOne"
  using sched_no_lost_wakeup [OF exState_reachable [OF run_exQuiet]] exQuiet_state by simp

lemma exDone_state: "map_of (l_runtimes (y_run (exState exDone))) ''g'' \<noteq> None"
  by code_simp

theorem sched_history_bounded_witness:
  "int (length (historyOf (the (map_of (l_runtimes (y_run (exState exDone))) ''g'')) ''a''))
     \<le> p_WindowSize (sc_policy (y_sched (exState exDone)))"
proof -
  from exDone_state obtain r where r: "map_of (l_runtimes (y_run (exState exDone))) ''g'' = Some r" by auto
  from sched_history_bounded [OF exState_reachable [OF run_exDone] r, of "''a''"] r show ?thesis by simp
qed

lemma exAnswered_step: "sched_step (exState exAnswered) (ReceiveResult 7) (exState exDone)"
  using run_exAnswered run_exDone
  by (intro sched_step.intros) (auto simp: exState_def exDone_def exec_append split: option.splits)

definition exDelivered :: Batch where
  "exDelivered = last (y_batches (exState exDone))"

lemma exAnswered_state:
  "\<not> sc_wake (y_sched (exState exAnswered)) \<and> y_signals (exState exAnswered) = 0
   \<and> y_batches (exState exAnswered) = [] \<and> length (y_batches (exState exDone)) = 1
   \<and> map d_Group (bt_Decisions exDelivered) = [''g'']"
  by code_simp


definition exFailing1 :: "label list" where
  "exFailing1 = [CallSetGroups [exOne], CallReportDialFailure ''g'' 1]"

definition exFailing2 :: "label list" where
  "exFailing2 = exFailing1 @ [CallReportDialFailure ''g'' (20 * Second)]"

lemma exFailing_runs: "exec exFailing1 exStart \<noteq> None \<and> exec exFailing2 exStart \<noteq> None
    \<and> forces_probe ''g'' (20 * Second) (exState exFailing1) \<and> forces_probe ''g'' (40 * Second) (exState exFailing2)"
  by code_simp

theorem dial_probe_spacing_witness:
  "20 * Second + DialFailureProbeSpacing \<le> 40 * Second"
proof -
  have "sched_step (exState exFailing1) (CallReportDialFailure ''g'' (20 * Second)) (exState exFailing2)"
    using exFailing_runs
    by (intro sched_step.intros) (auto simp: exState_def exFailing2_def exec_append split: option.splits)
  with exFailing_runs dial_probe_spacing [of "''g''" "20 * Second" "exState exFailing1" "exState exFailing2"
      "exState exFailing2" "40 * Second"]
  show ?thesis by (simp add: steps_refl)
qed

section \<open>A race between SetGroups and the start of a batch\<close>


end
