(* ===== verification/Go_Net.thy ===== *)
theory Go_Net
  imports Go_Base
begin

text \<open>
  More of Go's standard library: error values, string helpers, decimal numbers, \<open>net.SplitHostPort\<close>
  and \<open>net.ParseIP\<close>. File paths are Unix paths.

  \<open>fmt.Errorf\<close> is kept symbolic: an error is its format string with its string arguments, and
  \<open>Wrapf\<close> is an \<open>Errorf\<close> whose last verb is \<open>%w\<close>; \<open>Joined_Errors\<close> is \<open>errors.Join\<close>, and \<open>ActivationError\<close> the
  error type of \<open>src/core/activation.go\<close>, which errors of any package may wrap. A function that returns only an error returns
  a \<open>go_error option\<close>, \<open>None\<close> being nil.
\<close>

section \<open>Errors\<close>

datatype go_error =
    Errorf string "string list"
  | Wrapf string "string list" go_error
  | Joined_Errors go_error go_error
  | ActivationError string string "go_error option"

text \<open>The first error of a sequence of checks.\<close>

fun first_error :: "go_error option list \<Rightarrow> go_error option" where
  "first_error [] = None"
| "first_error (e # es) = (case e of None \<Rightarrow> first_error es | Some err \<Rightarrow> Some err)"

lemma first_error_None [simp]: "first_error es = None \<longleftrightarrow> list_all (\<lambda>e. e = None) es"
  by (induction es) (auto split: option.split)

declare first_error.simps [simp del]

text \<open>\<open>if cond { return err }\<close> as an element of such a sequence.\<close>

definition fail_if :: "bool \<Rightarrow> go_error \<Rightarrow> go_error option" where
  "fail_if b err = (if b then Some err else None)"

lemma fail_if_None [simp]: "fail_if b err = None \<longleftrightarrow> \<not> b"
  by (simp add: fail_if_def)

definition wrap_error :: "string \<Rightarrow> string list \<Rightarrow> go_error option \<Rightarrow> go_error option" where
  "wrap_error fmt args = map_option (Wrapf fmt args)"

lemma wrap_error_None [simp]: "wrap_error fmt args e = None \<longleftrightarrow> e = None"
  by (simp add: wrap_error_def)

section \<open>Characters and strings\<close>

definition is_digit :: "char \<Rightarrow> bool" where
  "is_digit c \<longleftrightarrow> CHR ''0'' \<le> c \<and> c \<le> CHR ''9''"

definition is_lower :: "char \<Rightarrow> bool" where
  "is_lower c \<longleftrightarrow> CHR ''a'' \<le> c \<and> c \<le> CHR ''z''"

definition is_upper :: "char \<Rightarrow> bool" where
  "is_upper c \<longleftrightarrow> CHR ''A'' \<le> c \<and> c \<le> CHR ''Z''"

definition is_alnum :: "char \<Rightarrow> bool" where
  "is_alnum c \<longleftrightarrow> is_lower c \<or> is_upper c \<or> is_digit c"

definition is_hex :: "char \<Rightarrow> bool" where
  "is_hex c \<longleftrightarrow> is_digit c \<or> (CHR ''a'' \<le> c \<and> c \<le> CHR ''f'') \<or> (CHR ''A'' \<le> c \<and> c \<le> CHR ''F'')"

definition ascii_lower :: "char \<Rightarrow> char" where
  "ascii_lower c = (if is_upper c then char_of (of_char c + 32 :: nat) else c)"

definition ascii_upper :: "char \<Rightarrow> char" where
  "ascii_upper c = (if is_lower c then char_of (of_char c - 32 :: nat) else c)"

text \<open>
  \<open>strings.ToLower\<close> and \<open>strings.ToUpper\<close> on ASCII text; bytes of other characters are left alone.
\<close>

definition strings_ToLower :: "string \<Rightarrow> string" where
  "strings_ToLower = map ascii_lower"

definition strings_ToUpper :: "string \<Rightarrow> string" where
  "strings_ToUpper = map ascii_upper"

text \<open>
  \<open>strings.EqualFold(s, t)\<close> for a \<open>t\<close> of lower-case ASCII letters: besides ASCII case, Unicode folding
  identifies the long s (U+017F) with \<open>s\<close> and the Kelvin sign (U+212A) with \<open>k\<close>.
\<close>

fun fold_case :: "string \<Rightarrow> string" where
  "fold_case [] = []"
| "fold_case (c # s) =
     (if c = CHR 0xC5 \<and> s \<noteq> [] \<and> hd s = CHR 0xBF then CHR ''s'' # fold_case (tl s)
      else if c = CHR 0xE2 \<and> take 2 s = [CHR 0x84, CHR 0xAA] then CHR ''k'' # fold_case (drop 2 s)
      else ascii_lower c # fold_case s)"

definition strings_EqualFold :: "string \<Rightarrow> string \<Rightarrow> bool" where
  "strings_EqualFold s t \<longleftrightarrow> fold_case s = t"

definition strings_HasPrefix :: "string \<Rightarrow> string \<Rightarrow> bool" where
  "strings_HasPrefix s p \<longleftrightarrow> prefix p s"

definition strings_HasSuffix :: "string \<Rightarrow> string \<Rightarrow> bool" where
  "strings_HasSuffix s p \<longleftrightarrow> suffix p s"

definition strings_TrimPrefix :: "string \<Rightarrow> string \<Rightarrow> string" where
  "strings_TrimPrefix s p = (if prefix p s then drop (length p) s else s)"

definition strings_TrimSuffix :: "string \<Rightarrow> string \<Rightarrow> string" where
  "strings_TrimSuffix s p = (if suffix p s then take (length s - length p) s else s)"

text \<open>\<open>strings.Split\<close> at a one-byte separator.\<close>

fun split_on :: "char \<Rightarrow> string \<Rightarrow> string list" where
  "split_on sep [] = [[]]"
| "split_on sep (c # s) =
     (if c = sep then [] # split_on sep s
      else case split_on sep s of [] \<Rightarrow> [[c]] | w # ws \<Rightarrow> (c # w) # ws)"

fun join_with :: "string \<Rightarrow> string list \<Rightarrow> string" where
  "join_with sep [] = []"
| "join_with sep [w] = w"
| "join_with sep (w # v # ws) = w @ sep @ join_with sep (v # ws)"

lemma split_on_not_Nil [simp]: "split_on sep s \<noteq> []"
  by (cases s) (auto split: list.split)

lemma join_split: "join_with [sep] (split_on sep s) = s"
proof (induction s)
  case (Cons c s)
  obtain w ws where w: "split_on sep s = w # ws" by (cases "split_on sep s") auto
  with Cons show ?case by (cases ws) auto
qed simp

lemma split_on_no_sep: "w \<in> set (split_on sep s) \<Longrightarrow> sep \<notin> set w"
  by (induction s arbitrary: w) (fastforce split: if_splits list.splits)+

lemma split_on_append: "sep \<notin> set a \<Longrightarrow> split_on sep (a @ sep # b) = a # split_on sep b"
  by (induction a) auto

lemma split_on_single: "sep \<notin> set a \<Longrightarrow> split_on sep a = [a]"
  by (induction a) auto

definition filepath_IsAbs :: "string \<Rightarrow> bool" where
  "filepath_IsAbs path \<longleftrightarrow> prefix ''/'' path"

text \<open>\<open>filepath.Base\<close>: the part after the last slash, trailing slashes removed.\<close>

definition filepath_Base :: "string \<Rightarrow> string" where
  "filepath_Base path =
     (let p = rev (dropWhile (\<lambda>c. c = CHR ''/'') (rev path)) in
      if path = '''' then ''.'' else if p = '''' then ''/'' else last (split_on (CHR ''/'') p))"

text \<open>
  \<open>filepath.Clean\<close> of a rooted path: empty and \<open>.\<close> elements vanish, \<open>..\<close> removes the element before it.
  The elements kept so far are in reverse.
\<close>

definition clean_step :: "string \<Rightarrow> string list \<Rightarrow> string list" where
  "clean_step e kept = (if e = '''' \<or> e = ''.'' then kept else if e = ''..'' then drop 1 kept else e # kept)"

definition clean_rooted :: "string \<Rightarrow> string" where
  "clean_rooted path = CHR ''/'' # join_with ''/'' (rev (fold clean_step (split_on (CHR ''/'') path) []))"

text \<open>\<open>filepath.Dir\<close> of an absolute path.\<close>

definition filepath_Dir :: "string \<Rightarrow> string" where
  "filepath_Dir path = clean_rooted (rev (dropWhile (\<lambda>c. c \<noteq> CHR ''/'') (rev path)))"

definition hex_DecodeString_ok :: "string \<Rightarrow> bool" where
  "hex_DecodeString_ok s \<longleftrightarrow> even (length s) \<and> list_all is_hex s"

section \<open>Decimal numbers\<close>

definition digit_val :: "char \<Rightarrow> int" where
  "digit_val c = int (of_char c) - 48"

definition digit_char :: "int \<Rightarrow> char" where
  "digit_char n = char_of (nat (n + 48))"

definition decimal :: "string \<Rightarrow> int" where
  "decimal s = foldl (\<lambda>n c. 10 * n + digit_val c) 0 s"

definition strconv_Atoi :: "string \<Rightarrow> int option" where
  "strconv_Atoi s =
     (let neg = (s \<noteq> [] \<and> hd s = CHR ''-'');
          digits = (if s \<noteq> [] \<and> (hd s = CHR ''-'' \<or> hd s = CHR ''+'') then tl s else s);
          n = (if neg then - decimal digits else decimal digits)
      in if digits = [] \<or> \<not> list_all is_digit digits \<or> \<not> in_i64 n then None else Some n)"

function itoa_nonneg :: "int \<Rightarrow> string" where
  "itoa_nonneg n = (if n < 10 then [digit_char n] else itoa_nonneg (n div 10) @ [digit_char (n mod 10)])"
  by pat_completeness auto
termination
  by (relation "measure nat") auto

declare itoa_nonneg.simps [simp del]

definition strconv_Itoa :: "int \<Rightarrow> string" where
  "strconv_Itoa n = (if n < 0 then CHR ''-'' # itoa_nonneg (- n) else itoa_nonneg n)"

lemma digit_char_range:
  assumes "0 \<le> n" and "n < 10"
  shows "is_digit (digit_char n)" and "digit_val (digit_char n) = n"
proof -
  from assms have "n = 0 \<or> n = 1 \<or> n = 2 \<or> n = 3 \<or> n = 4 \<or> n = 5 \<or> n = 6 \<or> n = 7 \<or> n = 8 \<or> n = 9"
    by presburger
  then have "is_digit (digit_char n) \<and> digit_val (digit_char n) = n"
    by (elim disjE) (simp_all add: is_digit_def digit_char_def digit_val_def less_eq_char_def)
  then show "is_digit (digit_char n)" and "digit_val (digit_char n) = n" by auto
qed

lemma itoa_nonneg_digits:
  "0 \<le> n \<Longrightarrow> itoa_nonneg n \<noteq> [] \<and> list_all is_digit (itoa_nonneg n) \<and> decimal (itoa_nonneg n) = n"
proof (induction n rule: itoa_nonneg.induct)
  case (1 n)
  show ?case
  proof (cases "n < 10")
    case True
    with 1 show ?thesis
      by (subst (1 2 3) itoa_nonneg.simps) (simp add: decimal_def digit_char_range)
  next
    case False
    with 1 have "itoa_nonneg (n div 10) \<noteq> [] \<and> list_all is_digit (itoa_nonneg (n div 10))
        \<and> decimal (itoa_nonneg (n div 10)) = n div 10" by simp
    with False show ?thesis
      by (subst (1 2 3) itoa_nonneg.simps) (simp add: decimal_def digit_char_range)
  qed
qed

lemma is_digit_sign: "is_digit c \<Longrightarrow> c \<noteq> CHR ''-'' \<and> c \<noteq> CHR ''+''"
  by (auto simp: is_digit_def less_eq_char_def)

lemma Atoi_Itoa: "0 \<le> n \<Longrightarrow> in_i64 n \<Longrightarrow> strconv_Atoi (strconv_Itoa n) = Some n"
  using itoa_nonneg_digits [of n] is_digit_sign [of "hd (itoa_nonneg n)"]
  by (cases "itoa_nonneg n") (auto simp: strconv_Atoi_def strconv_Itoa_def Let_def)

lemma Atoi_Itoa_int: "in_i64 n \<Longrightarrow> strconv_Atoi (strconv_Itoa n) = Some n"
  using Atoi_Itoa [of n] itoa_nonneg_digits [of "- n"]
  by (cases "0 \<le> n") (auto simp: strconv_Atoi_def strconv_Itoa_def Let_def)

lemma length_itoa_3: "100 \<le> n \<Longrightarrow> n < 1000 \<Longrightarrow> length (strconv_Itoa n) = 3"
proof -
  assume "100 \<le> n" "n < 1000"
  then have "length (itoa_nonneg n) = Suc (Suc (length (itoa_nonneg (n div 10 div 10))))" "n div 10 div 10 < 10"
    by (simp_all add: itoa_nonneg.simps [of n] itoa_nonneg.simps [of "n div 10"])
  then show ?thesis using \<open>100 \<le> n\<close> by (simp add: strconv_Itoa_def itoa_nonneg.simps [of "n div 10 div 10"])
qed

section \<open>Network addresses\<close>

fun index_of :: "'a \<Rightarrow> 'a list \<Rightarrow> nat option" where
  "index_of x [] = None"
| "index_of x (y # ys) = (if x = y then Some 0 else map_option Suc (index_of x ys))"

definition last_index_of :: "'a \<Rightarrow> 'a list \<Rightarrow> nat option" where
  "last_index_of x xs = map_option (\<lambda>i. length xs - Suc i) (index_of x (rev xs))"

definition net_SplitHostPort :: "string \<Rightarrow> (string \<times> string) option" where
  "net_SplitHostPort s =
     (case last_index_of (CHR '':'') s of
        None \<Rightarrow> None
      | Some i \<Rightarrow>
          if hd s = CHR ''['' then
            (case index_of (CHR '']'') s of
               None \<Rightarrow> None
             | Some e \<Rightarrow>
                 if Suc e \<noteq> i then None
                 else if CHR ''['' \<in> set (drop 1 s) \<or> CHR '']'' \<in> set (drop (Suc e) s) then None
                 else Some (take (e - 1) (drop 1 s), drop (Suc i) s))
          else if CHR '':'' \<in> set (take i s) then None
          else if CHR ''['' \<in> set s \<or> CHR '']'' \<in> set s then None
          else Some (take i s, drop (Suc i) s))"

definition ipv4_octet :: "string \<Rightarrow> bool" where
  "ipv4_octet f \<longleftrightarrow> f \<noteq> [] \<and> list_all is_digit f \<and> (length f = 1 \<or> hd f \<noteq> CHR ''0'') \<and> decimal f \<le> 255"

definition parseIPv4 :: "string \<Rightarrow> int list option" where
  "parseIPv4 s =
     (let fields = split_on (CHR ''.'') s in
      if length fields = 4 \<and> list_all ipv4_octet fields then Some (map decimal fields) else None)"

definition hex_val :: "char \<Rightarrow> int" where
  "hex_val c = (if is_digit c then digit_val c
                else if is_lower c then int (of_char c) - 87 else int (of_char c) - 55)"

definition hexadecimal :: "string \<Rightarrow> int" where
  "hexadecimal s = foldl (\<lambda>n c. 16 * n + hex_val c) 0 s"

text \<open>The loop over the groups of an IPv6 address: the bytes so far and the place of the ellipsis.\<close>

function ip6_groups :: "string \<Rightarrow> int list \<Rightarrow> nat option \<Rightarrow> (int list \<times> nat option) option" where
  "ip6_groups s acc ell =
     (if 16 \<le> length acc then (if s = [] then Some (acc, ell) else None)
      else
        let h = takeWhile is_hex s; rest = drop (length h) s;
            acc' = acc @ [hexadecimal h div 256, hexadecimal h mod 256]
        in if h = [] \<or> 4 < length h then None
           else case rest of
             [] \<Rightarrow> Some (acc', ell)
           | c # t \<Rightarrow>
               if c = CHR ''.'' then
                 (if (ell = None \<and> length acc \<noteq> 12) \<or> 12 < length acc then None
                  else case parseIPv4 s of None \<Rightarrow> None | Some q \<Rightarrow> Some (acc @ q, ell))
               else if c \<noteq> CHR '':'' \<or> t = [] then None
               else if hd t \<noteq> CHR '':'' then ip6_groups t acc' ell
               else if ell \<noteq> None then None
               else if tl t = [] then Some (acc', Some (length acc'))
               else ip6_groups (tl t) acc' (Some (length acc')))"
  by pat_completeness auto
termination
  by (relation "measure (\<lambda>(s, acc, ell). 16 - length acc)") auto

declare ip6_groups.simps [simp del]

definition ip6_expand :: "int list \<times> nat option \<Rightarrow> int list option" where
  "ip6_expand r =
     (case snd r of
        None \<Rightarrow> if length (fst r) < 16 then None else Some (fst r)
      | Some e \<Rightarrow>
          if length (fst r) < 16
          then Some (take e (fst r) @ replicate (16 - length (fst r)) 0 @ drop e (fst r)) else None)"

definition parseIPv6 :: "string \<Rightarrow> int list option" where
  "parseIPv6 s =
     (if prefix ''::'' s then
        (if length s = 2 then Some (replicate 16 0)
         else Option.bind (ip6_groups (drop 2 s) [] (Some 0)) ip6_expand)
      else Option.bind (ip6_groups s [] None) ip6_expand)"

text \<open>
  \<open>net.ParseIP\<close>: sixteen bytes; an IPv4 address is its mapped form. A zone is refused, so that every
  \<open>%\<close> is.
\<close>

definition net_ParseIP :: "string \<Rightarrow> int list option" where
  "net_ParseIP s =
     (if CHR ''%'' \<in> set s then None
      else case find (\<lambda>c. c = CHR ''.'' \<or> c = CHR '':'') s of
             None \<Rightarrow> None
           | Some c \<Rightarrow> if c = CHR ''.'' then map_option (\<lambda>q. replicate 10 0 @ [255, 255] @ q) (parseIPv4 s)
                       else parseIPv6 s)"

definition ip_To4 :: "int list \<Rightarrow> int list option" where
  "ip_To4 ip = (if take 12 ip = replicate 10 0 @ [255, 255] then Some (drop 12 ip) else None)"

definition ip_IsLoopback :: "int list \<Rightarrow> bool" where
  "ip_IsLoopback ip =
     (case ip_To4 ip of Some q \<Rightarrow> hd q = 127 | None \<Rightarrow> ip = replicate 15 0 @ [1])"

definition ip_IsUnspecified :: "int list \<Rightarrow> bool" where
  "ip_IsUnspecified ip \<longleftrightarrow> ip = replicate 10 0 @ [255, 255, 0, 0, 0, 0] \<or> ip = replicate 16 0"

lemma loopback_not_unspecified: "ip_IsLoopback ip \<Longrightarrow> \<not> ip_IsUnspecified ip"
  by (auto simp: ip_IsLoopback_def ip_IsUnspecified_def ip_To4_def numeral_eq_Suc split: if_splits)

section \<open>Big-endian integers (encoding/binary)\<close>

definition byte :: "int \<Rightarrow> char" where
  "byte n = char_of (nat (n mod 256))"

definition byte_val :: "char \<Rightarrow> int" where
  "byte_val c = int (of_char c)"

definition putUint16 :: "int \<Rightarrow> bytes" where
  "putUint16 n = [byte (n div 256), byte n]"

definition getUint16 :: "bytes \<Rightarrow> int" where
  "getUint16 b = byte_val (b ! 0) * 256 + byte_val (b ! 1)"

definition putUint32 :: "int \<Rightarrow> bytes" where
  "putUint32 n = [byte (n div 2 ^ 24), byte (n div 2 ^ 16), byte (n div 2 ^ 8), byte n]"

definition getUint32 :: "bytes \<Rightarrow> int" where
  "getUint32 b = byte_val (b ! 0) * 2 ^ 24 + byte_val (b ! 1) * 2 ^ 16 + byte_val (b ! 2) * 2 ^ 8 + byte_val (b ! 3)"

lemma byte_val_byte [simp]: "byte_val (byte n) = n mod 256"
  by (simp add: byte_val_def byte_def of_char_of)

lemma byte_val_range: "0 \<le> byte_val c" "byte_val c < 256"
proof -
  have "(of_char c :: nat) < 256" using range_nat_of_char by (metis atLeastLessThan_iff rangeI)
  then show "0 \<le> byte_val c" "byte_val c < 256" by (simp_all add: byte_val_def)
qed

lemma byte_byte_val [simp]: "byte (byte_val c) = c"
  using byte_val_range [of c] by (simp add: byte_def byte_val_def)

lemma byte_add: "byte (256 * m + n) = byte n"
  by (simp add: byte_def)

lemma length_putUint [simp]: "length (putUint16 n) = 2" "length (putUint32 n) = 4"
  by (simp_all add: putUint16_def putUint32_def)

lemma getUint16_putUint16: "0 \<le> n \<Longrightarrow> n < 2 ^ 16 \<Longrightarrow> getUint16 (putUint16 n) = n"
  by (simp add: getUint16_def putUint16_def)

lemma putUint16_getUint16: "putUint16 (getUint16 [a, b]) = [a, b]"
  using byte_val_range [of a] byte_val_range [of b] byte_add [of "byte_val a" "byte_val b"]
  by (simp add: putUint16_def getUint16_def mult.commute [of "byte_val a"])

lemma getUint32_putUint32: "0 \<le> n \<Longrightarrow> n < 2 ^ 32 \<Longrightarrow> getUint32 (putUint32 n) = n"
proof -
  assume n: "0 \<le> n" "n < 2 ^ 32"
  define a b c where "a = n div 256" and "b = a div 256" and "c = b div 256"
  have div: "n div 16777216 = c" "n div 65536 = b" "n div 256 = a"
    by (simp_all add: a_def b_def c_def zdiv_zmult2_eq [symmetric])
  have "n = 256 * a + n mod 256" "a = 256 * b + a mod 256" "b = 256 * c + b mod 256"
    by (simp_all add: a_def b_def c_def)
  moreover have "c mod 256 = c" using n by (simp flip: div)
  ultimately show ?thesis by (simp add: getUint32_def putUint32_def div)
qed

end
