(* ===== verification/Config_Types.thy ===== *)
theory Config_Types
  imports Monitor_Policy Go_Net
begin

text \<open>
  The configuration snapshot (\<open>src/config/types.go\<close>) with the constants it draws from other packages
  (\<open>src/core/snapshot.go\<close>, \<open>src/download/client.go\<close>), and the identifier and domain grammars of
  \<open>src/config/load.go\<close>. The clone functions of \<open>types.go\<close> copy slices and turn an empty one into nil:
  on HOL lists they are the identity.
\<close>

section \<open>Snapshot\<close>

record SystemProxy =
  sp_Enabled :: bool

record App =
  ap_SystemProxy :: SystemProxy

record Tun =
  tun_Enabled :: bool
  tun_Stack :: string
  tun_DNSMode :: string

record Mihomo =
  mh_Binary :: string
  mh_URLTestInterval :: duration
  mh_URLTestTolerance :: duration
  mh_MixedPort :: int
  mh_Mode :: string

record Monitor =
  m_Enabled :: bool
  m_TestURL :: string
  m_SwitchPolicy :: string
  m_StreamURL :: string
  m_StreamInterval :: duration
  m_Interval :: duration
  m_Timeout :: duration
  m_Concurrency :: int
  m_Threshold :: duration
  m_AlertThreshold :: duration
  m_ConsecutiveBadSamples :: int
  m_WindowSize :: int
  m_MinCandidateSamples :: int
  m_MaxFailures :: int
  m_MinImprovement :: duration
  m_Cooldown :: duration
  m_Jitter :: duration
  m_AutomatedGroups :: "string list"

record Subscription =
  sub_ID :: string
  sub_Name :: string
  sub_URL :: string
  sub_UserAgent :: string
  sub_Enabled :: bool
  sub_RefreshInterval :: duration
  sub_Timeout :: duration
  sub_Route :: string
  sub_AllowHTTP :: bool
  sub_AllowInvalidTLS :: bool

type_synonym ResourceKind = string
type_synonym ResourceFormat = string
type_synonym RuleType = string

definition ResourceGeoIP :: ResourceKind where "ResourceGeoIP = ''geoip.dat''"
definition ResourceGeoSite :: ResourceKind where "ResourceGeoSite = ''geosite.dat''"
definition ResourceMMDB :: ResourceKind where "ResourceMMDB = ''Country.mmdb''"
definition ResourceRuleSet :: ResourceKind where "ResourceRuleSet = ''rule-set''"
definition ResourceRuleProvider :: ResourceKind where "ResourceRuleProvider = ''rule-provider''"

definition FormatDAT :: ResourceFormat where "FormatDAT = ''dat''"
definition FormatMMDB :: ResourceFormat where "FormatMMDB = ''mmdb''"
definition FormatYAML :: ResourceFormat where "FormatYAML = ''yaml''"
definition FormatText :: ResourceFormat where "FormatText = ''text''"
definition FormatMRS :: ResourceFormat where "FormatMRS = ''mrs''"

definition RuleDomain :: RuleType where "RuleDomain = ''domain''"
definition RuleIPCIDR :: RuleType where "RuleIPCIDR = ''ipcidr''"
definition RuleClassical :: RuleType where "RuleClassical = ''classical''"

lemmas resource_names =
  ResourceGeoIP_def ResourceGeoSite_def ResourceMMDB_def ResourceRuleSet_def ResourceRuleProvider_def
  FormatDAT_def FormatMMDB_def FormatYAML_def FormatText_def FormatMRS_def
  RuleDomain_def RuleIPCIDR_def RuleClassical_def

record Resource =
  rs_ID :: string
  rs_Kind :: ResourceKind
  rs_Format :: ResourceFormat
  rs_RuleType :: RuleType
  rs_URL :: string
  rs_Enabled :: bool
  rs_Interval :: duration
  rs_SHA256 :: string

record ResolverSet =
  rset_ID :: string
  rset_Endpoints :: "string list"
  rset_DNSCrypt :: bool

record DNSRoute =
  rt_Suffix :: string
  rt_GeoSite :: string
  rt_Resource :: string
  rt_ResolverSet :: string

record DNS =
  dns_Listen :: string
  dns_ResolverSets :: "ResolverSet list"
  dns_Routes :: "DNSRoute list"

record Filter =
  f_ID :: string
  f_Resource :: string
  f_Format :: ResourceFormat
  f_Target :: string
  f_Enabled :: bool

record Snapshot =
  c_App :: App
  c_Mihomo :: Mihomo
  c_Monitor :: Monitor
  c_DNS :: DNS
  c_Tun :: Tun
  c_Subscriptions :: "Subscription list"
  c_Resources :: "Resource list"
  c_Filters :: "Filter list"

record Change =
  ch_Section :: string
  ch_Sections :: "string list"
  ch_Before :: Snapshot
  ch_After :: Snapshot

section \<open>Constants of other packages\<close>

definition MixedPortMin :: int where "MixedPortMin = 1024"
definition MixedPortMax :: int where "MixedPortMax = 65535"

definition ProxyModes :: "string list" where "ProxyModes = [''rule'', ''global'', ''direct'']"
definition TunStacks :: "string list" where "TunStacks = [''gvisor'', ''mixed'', ''system'']"
definition TunDNSModes :: "string list" where "TunDNSModes = [''profile'', ''fake-ip'', ''redir-host'']"

definition download_Auto :: string where "download_Auto = ''auto''"
definition download_Routes :: "string list" where
  "download_Routes = [download_Auto, ''direct'', ''system_proxy'', ''mihomo_proxy'']"

definition ValidRoute :: "string \<Rightarrow> bool" where
  "ValidRoute name \<longleftrightarrow> name \<in> set download_Routes"

definition DefaultMixedPort :: int where "DefaultMixedPort = 7899"

section \<open>Grammars\<close>

text \<open>
  The loops run over the runes of the string. Every byte of a character outside ASCII is at least
  0x80 and every character that is accepted is ASCII, so that testing the bytes is the same.
\<close>

definition id_inner :: "char \<Rightarrow> bool" where
  "id_inner r \<longleftrightarrow> is_alnum r \<or> r = CHR ''-'' \<or> r = CHR ''_'' \<or> r = CHR ''.''"

definition ValidStableID :: "string \<Rightarrow> bool" where
  "ValidStableID ident \<longleftrightarrow>
     \<not> (length ident = 0 \<or> length ident > 64 \<or> ident = ''.'' \<or> ident = ''..'')
     \<and> is_alnum (hd ident) \<and> list_all id_inner (tl ident)"

definition ValidRuleToken :: "string \<Rightarrow> bool" where
  "ValidRuleToken v \<longleftrightarrow> v \<noteq> '''' \<and> list_all (\<lambda>r. is_alnum r \<or> r = CHR ''-'' \<or> r = CHR ''_'') v"

definition valid_label :: "string \<Rightarrow> bool" where
  "valid_label lab \<longleftrightarrow>
     \<not> (length lab = 0 \<or> length lab > 63 \<or> hd lab = CHR ''-'' \<or> last lab = CHR ''-'')
     \<and> list_all (\<lambda>r. is_alnum r \<or> r = CHR ''-'') lab"

definition ValidDomain :: "string \<Rightarrow> bool" where
  "ValidDomain v =
     (let d = strings_TrimSuffix (strings_TrimPrefix v ''.'') ''.'' in
      \<not> (length d = 0 \<or> length d > 253) \<and> list_all valid_label (split_on (CHR ''.'') d))"

definition ValidSubscriptionUserAgent :: "string \<Rightarrow> bool" where
  "ValidSubscriptionUserAgent v \<longleftrightarrow>
     length v \<le> 256 \<and> list_all (\<lambda>r. \<not> (r < CHR 0x20 \<or> r > CHR 0x7E)) v"

section \<open>What the grammars exclude\<close>

lemma alnum_not_special:
  "is_alnum c \<Longrightarrow> c \<noteq> CHR ''/'' \<and> c \<noteq> CHR 0x00 \<and> c \<noteq> CHR '','' \<and> c \<noteq> CHR 0x0A \<and> c \<noteq> CHR 0x0D \<and> c \<noteq> CHR ''.''
     \<and> c \<noteq> CHR 0x5C \<and> c \<noteq> CHR '':''"
  by (auto simp: is_alnum_def is_lower_def is_upper_def is_digit_def less_eq_char_def)

lemma id_inner_not_special:
  "id_inner c \<Longrightarrow> c \<noteq> CHR ''/'' \<and> c \<noteq> CHR 0x00 \<and> c \<noteq> CHR '','' \<and> c \<noteq> CHR 0x0A \<and> c \<noteq> CHR 0x0D \<and> c \<noteq> CHR 0x5C
     \<and> c \<noteq> CHR '':''"
  using alnum_not_special by (auto simp: id_inner_def)

lemma stable_id_chars:
  assumes "ValidStableID ident"
  shows "set ident \<inter> {CHR ''/'', CHR 0x5C, CHR '':'', CHR '','', CHR 0x00, CHR 0x0A, CHR 0x0D} = {}"
proof -
  from assms obtain c cs where ident: "ident = c # cs" "is_alnum c" "list_all id_inner cs"
    by (cases ident) (auto simp: ValidStableID_def)
  from alnum_not_special [OF ident(2)] id_inner_not_special ident(3) show ?thesis
    unfolding ident(1) list_all_iff by fastforce
qed

text \<open>
  A stable identifier is safe as a single path component and as a field of a comma-separated
  rule: it is neither empty nor a dot name, does not begin with a dot, and contains no slash,
  backslash, colon, comma, NUL or line break.
\<close>

theorem stable_id_path_safe:
  assumes "ValidStableID ident"
  shows "ident \<noteq> '''' \<and> ident \<noteq> ''.'' \<and> ident \<noteq> ''..'' \<and> hd ident \<noteq> CHR ''.'' \<and> length ident \<le> 64
    \<and> set ident \<inter> {CHR ''/'', CHR 0x5C, CHR '':'', CHR '','', CHR 0x00, CHR 0x0A, CHR 0x0D} = {}"
  using assms stable_id_chars [OF assms] alnum_not_special [of "hd ident"] by (auto simp: ValidStableID_def)

theorem stable_id_path_safe_witness: "CHR ''/'' \<notin> set ''ad-block_1.v2''"
proof -
  have "ValidStableID ''ad-block_1.v2''" by code_simp
  from stable_id_path_safe [OF this] show ?thesis by blast
qed

section \<open>A concrete snapshot\<close>

definition exApp :: Snapshot where
  "exApp = \<lparr> c_App = \<lparr> ap_SystemProxy = \<lparr> sp_Enabled = False \<rparr> \<rparr>,
     c_Mihomo = \<lparr> mh_Binary = ''system'', mh_URLTestInterval = 0, mh_URLTestTolerance = 0, mh_MixedPort = DefaultMixedPort, mh_Mode = ''rule'' \<rparr>,
     c_Monitor = \<lparr> m_Enabled = False, m_TestURL = '''', m_SwitchPolicy = '''', m_StreamURL = '''', m_StreamInterval = 0,
       m_Interval = 0, m_Timeout = 0, m_Concurrency = 0, m_Threshold = 0, m_AlertThreshold = 0,
       m_ConsecutiveBadSamples = 0, m_WindowSize = 0, m_MinCandidateSamples = 0, m_MaxFailures = 0, m_MinImprovement = 0,
       m_Cooldown = 0, m_Jitter = 0, m_AutomatedGroups = [] \<rparr>,
     c_DNS = \<lparr> dns_Listen = ''127.0.0.1:1053'', dns_ResolverSets = [], dns_Routes = [] \<rparr>,
     c_Tun = \<lparr> tun_Enabled = False, tun_Stack = ''gvisor'', tun_DNSMode = ''profile'' \<rparr>,
     c_Subscriptions = [], c_Resources = [], c_Filters = [] \<rparr>"

end
