(* ===== verification/Config_Store.thy ===== *)
theory Config_Store
  imports Config_Types
begin

text \<open>
  The configuration store (\<open>src/config/store.go\<close>): the current snapshot and the subscribers of its
  sections. A callback is a value of the type variable \<open>'fn\<close>; \<open>Replace\<close> returns the calls it makes
  after it releases the mutex, in order. A bucket is an association list whose order stands for the
  iteration order of the Go map.
\<close>

section \<open>Model\<close>

record 'fn Store =
  cs_snap :: Snapshot
  cs_subs :: "(string \<times> (int \<times> 'fn) list) list"
  cs_nextID :: int

definition NewStore :: "Snapshot \<Rightarrow> 'fn Store" where
  "NewStore snapshot = \<lparr> cs_snap = snapshot, cs_subs = [], cs_nextID = 0 \<rparr>"

definition Store_Snapshot :: "'fn Store \<Rightarrow> Snapshot" where
  "Store_Snapshot s = cs_snap s"

definition bucketOf :: "'fn Store \<Rightarrow> string \<Rightarrow> (int \<times> 'fn) list" where
  "bucketOf s sec = (case map_of (cs_subs s) sec of None \<Rightarrow> [] | Some bucket \<Rightarrow> bucket)"

text \<open>
  The result holds the section and identifier the returned function unsubscribes; it is \<open>None\<close> for a
  nil callback, where that function does nothing.
\<close>

definition Subscribe :: "string \<Rightarrow> 'fn option \<Rightarrow> 'fn Store \<Rightarrow> 'fn Store \<times> (string \<times> int) option" where
  "Subscribe sec fn s =
     (case fn of
        None \<Rightarrow> (s, None)
      | Some f \<Rightarrow>
          let ident = cs_nextID s in
          (s\<lparr> cs_nextID := (ident + 1) mod 2 ^ 64,
              cs_subs := AList.update sec (AList.update ident f (bucketOf s sec)) (cs_subs s) \<rparr>,
           Some (sec, ident)))"

definition Unsubscribe :: "(string \<times> int) option \<Rightarrow> 'fn Store \<Rightarrow> 'fn Store" where
  "Unsubscribe handle s =
     (case handle of
        None \<Rightarrow> s
      | Some (sec, ident) \<Rightarrow>
          (case map_of (cs_subs s) sec of
             None \<Rightarrow> s
           | Some bucket \<Rightarrow>
               let bucket' = AList.delete ident bucket in
               s\<lparr> cs_subs := (if bucket' = [] then AList.delete sec (cs_subs s)
                               else AList.update sec bucket' (cs_subs s)) \<rparr>))"

definition diffSections :: "Snapshot \<Rightarrow> Snapshot \<Rightarrow> string list" where
  "diffSections old next =
     (if c_App old \<noteq> c_App next then [''app''] else [])
     @ (if c_Mihomo old \<noteq> c_Mihomo next then [''mihomo''] else [])
     @ (if c_Monitor old \<noteq> c_Monitor next then [''monitor''] else [])
     @ (if c_DNS old \<noteq> c_DNS next then [''dns''] else [])
     @ (if c_Tun old \<noteq> c_Tun next then [''tun''] else [])
     @ (if c_Subscriptions old \<noteq> c_Subscriptions next then [''subscriptions''] else [])
     @ (if c_Resources old \<noteq> c_Resources next then [''resources''] else [])
     @ (if c_Filters old \<noteq> c_Filters next then [''filters''] else [])"

text \<open>The zero change is \<open>None\<close>. The third component is the sequence of callback invocations.\<close>

definition Replace :: "Snapshot \<Rightarrow> 'fn Store \<Rightarrow> 'fn Store \<times> Change option \<times> ('fn \<times> Change) list" where
  "Replace next s =
     (let old = cs_snap s; changed = diffSections old next in
      if changed = [] then (s, None, [])
      else
        let base = \<lparr> ch_Section = hd changed, ch_Sections = changed, ch_Before = old, ch_After = next \<rparr>;
            calls = concat (map (\<lambda>sec. map (\<lambda>entry. (snd entry, base\<lparr> ch_Section := sec \<rparr>)) (bucketOf s sec)) changed)
        in (s\<lparr> cs_snap := next \<rparr>, Some base, calls))"

section \<open>Properties\<close>

text \<open>The section a name stands for, as a test whether it differs.\<close>

definition section_differs :: "string \<Rightarrow> Snapshot \<Rightarrow> Snapshot \<Rightarrow> bool" where
  "section_differs sec old next \<longleftrightarrow>
     sec = ''app'' \<and> c_App old \<noteq> c_App next \<or> sec = ''mihomo'' \<and> c_Mihomo old \<noteq> c_Mihomo next
     \<or> sec = ''monitor'' \<and> c_Monitor old \<noteq> c_Monitor next \<or> sec = ''dns'' \<and> c_DNS old \<noteq> c_DNS next
     \<or> sec = ''tun'' \<and> c_Tun old \<noteq> c_Tun next \<or> sec = ''subscriptions'' \<and> c_Subscriptions old \<noteq> c_Subscriptions next
     \<or> sec = ''resources'' \<and> c_Resources old \<noteq> c_Resources next \<or> sec = ''filters'' \<and> c_Filters old \<noteq> c_Filters next"

lemma set_diffSections: "sec \<in> set (diffSections old next) \<longleftrightarrow> section_differs sec old next"
  by (simp add: diffSections_def section_differs_def)

lemma distinct_diffSections: "distinct (diffSections old next)"
  by (simp add: diffSections_def)

lemma diffSections_Nil: "diffSections old next = [] \<longleftrightarrow> old = next"
  by (auto simp: diffSections_def intro: Snapshot.equality)

lemma set_calls:
  "set (concat (map (\<lambda>x. map (\<lambda>e. (snd e, g x)) (B x)) xs))
     = {(f, ev). \<exists>x i. x \<in> set xs \<and> (i, f) \<in> set (B x) \<and> ev = g x}"
  by (induction xs) (auto simp: image_iff, force+)


text \<open>
  Handles are fresh as long as the counter has not wrapped: every stored identifier is below it.
\<close>

definition bucket_ok :: "int \<Rightarrow> (int \<times> 'fn) list \<Rightarrow> bool" where
  "bucket_ok n bucket \<longleftrightarrow> bucket \<noteq> [] \<and> distinct (map fst bucket) \<and> (\<forall>ident \<in> fst ` set bucket. 0 \<le> ident \<and> ident < n)"

definition store_ok :: "'fn Store \<Rightarrow> bool" where
  "store_ok s \<longleftrightarrow> distinct (map fst (cs_subs s)) \<and> (\<forall>entry \<in> set (cs_subs s). bucket_ok (cs_nextID s) (snd entry))"

lemma bucketOf_ok: "store_ok s \<Longrightarrow> bucketOf s sec = [] \<or> bucket_ok (cs_nextID s) (bucketOf s sec)"
  unfolding store_ok_def bucketOf_def by (force split: option.split dest: map_of_SomeD)

lemma bucket_ok_mono: "bucket_ok n b \<Longrightarrow> n \<le> n' \<Longrightarrow> bucket_ok n' b"
  by (force simp: bucket_ok_def)

lemma update_fresh: "k \<notin> fst ` set xs \<Longrightarrow> AList.update k v xs = xs @ [(k, v)]"
  by (induction xs) auto

lemma delete_fresh: "k \<notin> fst ` set xs \<Longrightarrow> AList.delete k (xs @ [(k, v)]) = xs"
  by (force simp: AList.delete_eq filter_id_conv)

lemma bucketOf_NewStore: "bucketOf (NewStore snap) sec = []"
  by (simp add: bucketOf_def NewStore_def)

text \<open>
  Subscribing adds the callback to its section alone, and unsubscribing with the handle that was
  returned gives every section exactly the subscribers it had before.
\<close>

theorem subscribe_unsubscribe:
  assumes "store_ok s" and "Subscribe sec (Some f) s = (s', handle)"
  shows "bucketOf s' sec = bucketOf s sec @ [(cs_nextID s, f)]
    \<and> bucketOf (Unsubscribe handle s') other = bucketOf s other
    \<and> cs_snap s' = cs_snap s"
proof -
  have fresh: "cs_nextID s \<notin> fst ` set (bucketOf s sec)"
    using bucketOf_ok [OF assms(1), of sec] by (auto simp: bucket_ok_def)
  have s': "s' = s\<lparr> cs_nextID := (cs_nextID s + 1) mod 2 ^ 64,
      cs_subs := AList.update sec (bucketOf s sec @ [(cs_nextID s, f)]) (cs_subs s) \<rparr>"
    and h: "handle = Some (sec, cs_nextID s)"
    using assms(2) by (auto simp: Subscribe_def Let_def update_fresh [OF fresh])
  have "bucketOf (Unsubscribe handle s') other = bucketOf s other"
  proof (cases "bucketOf s sec = []")
    case True
    then show ?thesis
      by (auto simp: s' h Unsubscribe_def Let_def bucketOf_def update_conv' delete_conv' split: option.splits)
  next
    case False
    then show ?thesis
      using delete_fresh [OF fresh]
      by (auto simp: s' h Unsubscribe_def Let_def bucketOf_def update_conv' split: option.splits)
  qed
  then show ?thesis by (simp add: s' bucketOf_def update_conv')
qed

lemma store_ok_NewStore: "store_ok (NewStore snap)"
  by (simp add: store_ok_def NewStore_def)

lemma store_ok_Replace: "store_ok s \<Longrightarrow> store_ok (fst (Replace next s))"
  by (simp add: store_ok_def Replace_def Let_def)

lemma store_ok_Subscribe:
  assumes "store_ok s" and "0 \<le> cs_nextID s" and "cs_nextID s + 1 < 2 ^ 64"
  shows "store_ok (fst (Subscribe sec fn s))"
proof (cases fn)
  case None
  with assms(1) show ?thesis by (simp add: Subscribe_def)
next
  case (Some f)
  let ?b = "AList.update (cs_nextID s) f (bucketOf s sec)"
  have fresh: "cs_nextID s \<notin> fst ` set (bucketOf s sec)"
    using bucketOf_ok [OF assms(1), of sec] by (auto simp: bucket_ok_def)
  have "bucket_ok (cs_nextID s + 1) ?b"
    using bucketOf_ok [OF assms(1), of sec] assms(2) fresh
    unfolding update_fresh [OF fresh] by (auto simp: bucket_ok_def)
  moreover have "bucket_ok (cs_nextID s + 1) (snd entry)" if "entry \<in> set (cs_subs s)" for entry
    using that assms(1) bucket_ok_mono [of "cs_nextID s" "snd entry" "cs_nextID s + 1"] by (simp add: store_ok_def)
  ultimately have "bucket_ok (cs_nextID s + 1) (snd entry)" if "entry \<in> set (AList.update sec ?b (cs_subs s))" for entry
    using set_AList_update [of sec ?b "cs_subs s", THEN subsetD, OF that] by fastforce
  moreover have "distinct (map fst (AList.update sec ?b (cs_subs s)))"
    using assms(1) by (simp add: store_ok_def distinct_update)
  ultimately show ?thesis
    using assms(2,3) Some by (simp add: store_ok_def Subscribe_def Let_def)
qed

theorem subscribe_unsubscribe_witness:
  "bucketOf (Unsubscribe (Some (''dns'', 0)) (fst (Subscribe ''dns'' (Some ''reload'') (NewStore exApp)))) ''dns'' = []"
proof -
  have "Subscribe ''dns'' (Some ''reload'') (NewStore exApp)
      = (fst (Subscribe ''dns'' (Some ''reload'') (NewStore exApp)), Some (''dns'', 0))"
    by (simp add: Subscribe_def Let_def NewStore_def)
  from subscribe_unsubscribe [OF store_ok_NewStore this] show ?thesis by (simp add: bucketOf_NewStore)
qed

end
