(* ===== verification/Config_Load.thy ===== *)
theory Config_Load
  imports Config_Types
begin

text \<open>
  Defaults and validation of a configuration snapshot (\<open>src/config/load.go\<close>): \<open>applyDefaults\<close>,
  \<open>validateSnapshot\<close> and everything it calls, in the order of the source. Decoding the four TOML files
  is not part of this theory. \<open>url.Parse\<close> and \<open>os.Stat\<close> are parameters; \<open>os_Stat path\<close> gives whether
  the file is regular and whether a mode bit of 0o111 is set.
\<close>

type_synonym file_stat = "string \<Rightarrow> (bool \<times> bool) option"

definition maxMonitorConcurrency :: int where "maxMonitorConcurrency = 64"
definition maxMonitorInterval :: duration where "maxMonitorInterval = 24 * Hour"

definition resourceKinds :: "ResourceKind list" where
  "resourceKinds = [ResourceGeoIP, ResourceGeoSite, ResourceMMDB, ResourceRuleProvider, ResourceRuleSet]"

definition ruleFormats :: "ResourceFormat list" where
  "ruleFormats = [FormatYAML, FormatText, FormatMRS]"

section \<open>Defaults\<close>

text \<open>\<open>if x == 0 { x = d }\<close>, for numbers and for strings.\<close>

definition or_default :: "'a \<Rightarrow> 'a \<Rightarrow> 'a \<Rightarrow> 'a" where
  "or_default zero d x = (if x = zero then d else x)"

text \<open>The later defaults depend on the interval and the window after their own.\<close>

definition defaultMonitor :: "Monitor \<Rightarrow> Monitor" where
  "defaultMonitor m =
     (let interval = or_default 0 Minute (m_Interval m);
          window = or_default 0 5 (m_WindowSize m)
      in m\<lparr>
            m_TestURL := or_default '''' ''http://cp.cloudflare.com/generate_204'' (m_TestURL m),
            m_SwitchPolicy := or_default '''' (p_SwitchPolicy DefaultPolicy) (m_SwitchPolicy m),
            m_StreamURL := or_default '''' DefaultStreamURL (m_StreamURL m),
            m_StreamInterval := or_default 0 (p_StreamInterval DefaultPolicy) (m_StreamInterval m),
            m_Interval := interval,
            m_Timeout := or_default 0 (if 5 * Second > interval then interval else 5 * Second) (m_Timeout m),
            m_Concurrency := or_default 0 3 (m_Concurrency m),
            m_Threshold := or_default 0 (800 * Millisecond) (m_Threshold m),
            m_WindowSize := window,
            m_ConsecutiveBadSamples := or_default 0 (min 3 window) (m_ConsecutiveBadSamples m),
            m_MinCandidateSamples := or_default 0 (min 3 window) (m_MinCandidateSamples m),
            m_MaxFailures := or_default 0 (min 2 window) (m_MaxFailures m),
            m_MinImprovement := or_default 0 (100 * Millisecond) (m_MinImprovement m),
            m_AlertThreshold := or_default 0 (250 * Millisecond) (m_AlertThreshold m) \<rparr>)"

definition defaultSubscription :: "Subscription \<Rightarrow> Subscription" where
  "defaultSubscription s = s\<lparr>
     sub_Name := (if sub_Name s = '''' then sub_ID s else sub_Name s),
     sub_RefreshInterval := (if sub_RefreshInterval s = 0 then 12 * Hour else sub_RefreshInterval s),
     sub_Timeout := (if sub_Timeout s = 0 then 30 * Second else sub_Timeout s),
     sub_Route := (if sub_Route s = '''' then download_Auto else sub_Route s) \<rparr>"

definition defaultResource :: "Resource \<Rightarrow> Resource" where
  "defaultResource r = r\<lparr> rs_Interval := (if rs_Interval r = 0 then 12 * Hour else rs_Interval r) \<rparr>"

definition applyDefaults :: "Snapshot \<Rightarrow> Snapshot" where
  "applyDefaults s = s\<lparr>
     c_Mihomo := (c_Mihomo s)\<lparr> mh_Binary := (if mh_Binary (c_Mihomo s) = '''' then ''system'' else mh_Binary (c_Mihomo s)) \<rparr>,
     c_Monitor := defaultMonitor (c_Monitor s),
     c_DNS := (c_DNS s)\<lparr> dns_Listen := (if dns_Listen (c_DNS s) = '''' then ''127.0.0.1:1053'' else dns_Listen (c_DNS s)) \<rparr>,
     c_Subscriptions := map defaultSubscription (c_Subscriptions s),
     c_Resources := map defaultResource (c_Resources s) \<rparr>"

section \<open>Validation of single values\<close>

definition validPort :: "string \<Rightarrow> bool" where
  "validPort port = (case strconv_Atoi port of None \<Rightarrow> False | Some n \<Rightarrow> n > 0 \<and> n \<le> 65535)"

text \<open>\<open>strconv.Itoa\<close> of \<open>strconv.Atoi\<close> with its error dropped: the number is 0 then.\<close>

definition normal_port :: "string \<Rightarrow> string" where
  "normal_port port = strconv_Itoa (case strconv_Atoi port of None \<Rightarrow> 0 | Some n \<Rightarrow> n)"

definition isLoopbackHost :: "string \<Rightarrow> bool" where
  "isLoopbackHost host =
     (strings_EqualFold host ''localhost'' \<or> (case net_ParseIP host of None \<Rightarrow> False | Some ip \<Rightarrow> ip_IsLoopback ip))"

definition isLocalListenHost :: "string \<Rightarrow> bool" where
  "isLocalListenHost host =
     (case net_ParseIP host of None \<Rightarrow> False | Some ip \<Rightarrow> ip_IsLoopback ip \<or> ip_IsUnspecified ip)"

definition endpointSchemes :: "string list" where
  "endpointSchemes = [''udp'', ''tcp'', ''tls'', ''https'', ''quic'']"

definition defaultPort :: "string \<Rightarrow> string" where
  "defaultPort scheme =
     (if scheme = ''https'' then ''443'' else if scheme = ''tls'' \<or> scheme = ''quic'' then ''853'' else ''53'')"

text \<open>The result is (host, port, scheme).\<close>

definition parseResolverEndpoint :: "url_parser \<Rightarrow> string \<Rightarrow> go_error + (string \<times> string \<times> string)" where
  "parseResolverEndpoint url_Parse raw =
     (if \<not> strings_Contains raw ''://'' then
        (case net_SplitHostPort raw of
           None \<Rightarrow> Inl (Errorf ''invalid endpoint'' [])
         | Some (host, port) \<Rightarrow>
             if host = '''' \<or> \<not> validPort port then Inl (Errorf ''invalid endpoint'' [])
             else Inr (host, normal_port port, ''udp''))
      else
        case url_Parse raw of
          None \<Rightarrow> Inl (Errorf ''invalid endpoint'' [])
        | Some u \<Rightarrow>
            let scheme = strings_ToLower (u_Scheme u);
                port = (if u_Port u = '''' then defaultPort scheme else u_Port u)
            in if u_User u \<or> u_Host u = '''' \<or> u_Opaque u \<noteq> '''' then Inl (Errorf ''invalid endpoint'' [])
               else if scheme \<notin> set endpointSchemes then Inl (Errorf ''unsupported endpoint scheme %q'' [u_Scheme u])
               else if u_Hostname u = '''' then Inl (Errorf ''invalid endpoint'' [])
               else if \<not> validPort port then Inl (Errorf ''invalid endpoint port'' [])
               else if scheme \<noteq> ''https'' \<and> u_Path u \<noteq> '''' \<and> u_Path u \<noteq> ''/''
               then Inl (Errorf ''unexpected endpoint path'' [])
               else Inr (u_Hostname u, normal_port port, scheme))"

definition validateResolverEndpoint :: "url_parser \<Rightarrow> string \<Rightarrow> go_error option" where
  "validateResolverEndpoint url_Parse raw =
     (case parseResolverEndpoint url_Parse raw of Inl err \<Rightarrow> Some err | Inr _ \<Rightarrow> None)"

definition validateMihomoBinary :: "file_stat \<Rightarrow> string \<Rightarrow> go_error option" where
  "validateMihomoBinary os_Stat binary =
     (if binary = ''system'' \<or> binary = ''bundled'' then None
      else if binary = '''' then Some (Errorf ''config.toml: mihomo.binary: required'' [])
      else if strings_Contains binary ''://'' then Some (Errorf ''config.toml: mihomo.binary: invalid binary %q'' [binary])
      else if \<not> strings_ContainsAny binary [CHR ''/'', CHR 0x5C]
      then Some (Errorf ''config.toml: mihomo.binary: unsupported binary %q'' [binary])
      else case os_Stat binary of
             None \<Rightarrow> Some (Wrapf ''config.toml: mihomo.binary: %w'' [] (Errorf ''stat'' [binary]))
           | Some (regular, executable) \<Rightarrow>
               if \<not> regular \<or> \<not> executable
               then Some (Errorf ''config.toml: mihomo.binary: not executable %q'' [binary]) else None)"

definition url_error :: "string \<Rightarrow> go_error" where
  "url_error raw = Errorf ''parse'' [raw]"

definition validateMonitorTestURL :: "url_parser \<Rightarrow> string \<Rightarrow> go_error option" where
  "validateMonitorTestURL url_Parse raw =
     (case url_Parse raw of
        None \<Rightarrow> Some (url_error raw)
      | Some u \<Rightarrow>
          fail_if (strings_ContainsAny raw url_reject_chars \<or> u_User u \<or> u_Fragment u \<noteq> '''' \<or> u_Opaque u \<noteq> ''''
                   \<or> u_Host u = '''' \<or> (u_Scheme u \<noteq> ''http'' \<and> u_Scheme u \<noteq> ''https''))
            (Errorf ''must use an HTTP or HTTPS URL without credentials or fragment'' []))"

definition validateSubscriptionURL :: "url_parser \<Rightarrow> string \<Rightarrow> bool \<Rightarrow> go_error option" where
  "validateSubscriptionURL url_Parse raw allowHTTP =
     (case url_Parse raw of
        None \<Rightarrow> Some (url_error raw)
      | Some u \<Rightarrow>
          if u_User u then Some (Errorf ''userinfo not allowed'' [])
          else if u_Scheme u = ''https'' then
            (if u_Host u = '''' \<or> u_Opaque u \<noteq> '''' then Some (Errorf ''must use https'' []) else None)
          else if allowHTTP \<and> u_Scheme u = ''http'' \<and> u_Host u \<noteq> '''' \<and> u_Opaque u = '''' then None
          else Some (Errorf ''must use https'' []))"

definition validateSourceOrPath :: "url_parser \<Rightarrow> string \<Rightarrow> bool \<Rightarrow> go_error option" where
  "validateSourceOrPath url_Parse raw allowPath =
     (if allowPath \<and> filepath_IsAbs raw then None
      else
        case url_Parse raw of
          None \<Rightarrow> Some (url_error raw)
        | Some u \<Rightarrow>
            if u_Scheme u = '''' then Some (Errorf ''must use https or an absolute local path'' [])
            else if u_User u then Some (Errorf ''userinfo not allowed'' [])
            else if u_Scheme u \<noteq> ''https'' \<or> u_Host u = '''' \<or> u_Opaque u \<noteq> '''' then Some (Errorf ''must use https'' [])
            else None)"

definition validateResourceFormat :: "Resource \<Rightarrow> go_error option" where
  "validateResourceFormat r =
     (let kind = rs_Kind r in
      if kind = ResourceGeoIP \<or> kind = ResourceGeoSite then
        (if rs_Format r \<noteq> FormatDAT then Some (Errorf ''kind %q requires format dat'' [kind])
         else if rs_RuleType r \<noteq> '''' then Some (Errorf ''kind %q does not accept rule_type'' [kind]) else None)
      else if kind = ResourceMMDB then
        (if rs_Format r \<noteq> FormatMMDB then Some (Errorf ''kind %q requires format mmdb'' [kind])
         else if rs_RuleType r \<noteq> '''' then Some (Errorf ''kind %q does not accept rule_type'' [kind]) else None)
      else if kind = ResourceRuleSet \<or> kind = ResourceRuleProvider then
        (if rs_Format r \<notin> set ruleFormats then Some (Errorf ''kind %q requires format yaml, text, or mrs'' [kind])
         else if rs_RuleType r = RuleDomain \<or> rs_RuleType r = RuleIPCIDR then None
         else if rs_RuleType r = RuleClassical then
           (if rs_Format r = FormatMRS then Some (Errorf ''kind %q cannot use mrs format with classical rules'' [kind])
            else None)
         else Some (Errorf ''kind %q requires rule_type domain, ipcidr, or classical'' [kind]))
      else Some (Errorf ''unknown kind %q'' [kind]))"

definition uniqueID :: "(string \<times> string) list \<Rightarrow> string \<Rightarrow> string \<Rightarrow> go_error option" where
  "uniqueID seen kind ident =
     (case map_of seen ident of
        Some prev \<Rightarrow> Some (Errorf ''duplicate id %q used by %s and %s'' [ident, prev, kind])
      | None \<Rightarrow> None)"

section \<open>Validation of the sections of config.toml\<close>

definition validateMihomo :: "Mihomo \<Rightarrow> go_error option" where
  "validateMihomo m = first_error
     [fail_if (mh_URLTestInterval m > 0 \<and> (mh_URLTestInterval m < Second \<or> mh_URLTestInterval m > maxMonitorInterval))
        (Errorf ''config.toml: mihomo.url_test_interval: must be between one second and 24 hours'' []),
      fail_if (mh_URLTestTolerance m > 0 \<and> (mh_URLTestTolerance m < Millisecond \<or> mh_URLTestTolerance m > Minute))
        (Errorf ''config.toml: mihomo.url_test_tolerance: must be between one millisecond and one minute'' []),
      fail_if (mh_Mode m \<notin> set ProxyModes) (Errorf ''config.toml: mihomo.mode: must be one of %s'' ProxyModes),
      fail_if (mh_MixedPort m < MixedPortMin \<or> mh_MixedPort m > MixedPortMax)
        (Errorf ''config.toml: mihomo.mixed_port: must be between %d and %d'' [])]"

fun checkAutomatedGroups :: "string list \<Rightarrow> string list \<Rightarrow> go_error option" where
  "checkAutomatedGroups seen [] = None"
| "checkAutomatedGroups seen (ident # ids) =
     (if length ident \<noteq> 64 \<or> strings_ToLower ident \<noteq> ident
      then Some (Errorf ''config.toml: monitor.automated_groups: invalid group identity'' [])
      else if \<not> hex_DecodeString_ok ident \<or> ident \<in> set seen
      then Some (Errorf ''config.toml: monitor.automated_groups: invalid or duplicate group identity'' [])
      else checkAutomatedGroups (ident # seen) ids)"

definition stream_url_error :: "url_parser \<Rightarrow> string \<Rightarrow> go_error option" where
  "stream_url_error url_Parse raw = map_option (\<lambda>text. Errorf text []) (ValidStreamURL url_Parse raw)"

definition validateMonitor :: "url_parser \<Rightarrow> Monitor \<Rightarrow> go_error option" where
  "validateMonitor url_Parse m = first_error
     [wrap_error ''config.toml: monitor.test_url: %w'' [] (validateMonitorTestURL url_Parse (m_TestURL m)),
      fail_if (\<not> ValidPolicyName (m_SwitchPolicy m))
        (Errorf ''config.toml: monitor.switch_policy: must be one of %s'' SwitchPolicies),
      wrap_error ''config.toml: monitor.stream_url: %w'' [] (stream_url_error url_Parse (m_StreamURL m)),
      fail_if (m_StreamInterval m < MinStreamInterval \<or> m_StreamInterval m > maxMonitorInterval)
        (Errorf ''config.toml: monitor.stream_interval: must be between 4m and 24h'' []),
      fail_if (m_Interval m < Second \<or> m_Interval m > maxMonitorInterval)
        (Errorf ''config.toml: monitor.interval: must be between one second and 24 hours'' []),
      fail_if (m_Timeout m \<le> 0 \<or> m_Timeout m > m_Interval m)
        (Errorf ''config.toml: monitor.timeout: must be positive and no greater than interval'' []),
      fail_if (m_Concurrency m < 1 \<or> m_Concurrency m > maxMonitorConcurrency)
        (Errorf ''config.toml: monitor.concurrency: must be between 1 and %d'' []),
      fail_if (m_Threshold m \<le> 0) (Errorf ''config.toml: monitor.threshold: must be positive'' []),
      fail_if (m_AlertThreshold m \<le> 0) (Errorf ''config.toml: monitor.alert_threshold: must be positive'' []),
      fail_if (m_WindowSize m < MonitorWindowMin \<or> m_WindowSize m > MonitorWindowMax)
        (Errorf ''config.toml: monitor.window_size: must be between %d and %d'' []),
      fail_if (m_ConsecutiveBadSamples m < 1 \<or> m_ConsecutiveBadSamples m > m_WindowSize m)
        (Errorf ''config.toml: monitor.consecutive_bad_samples: must be between 1 and window_size'' []),
      fail_if (m_MinCandidateSamples m < MonitorWindowMin \<or> m_MinCandidateSamples m > m_WindowSize m)
        (Errorf ''config.toml: monitor.min_candidate_samples: must be between %d and window_size'' []),
      fail_if (m_MaxFailures m < 1 \<or> m_MaxFailures m > m_WindowSize m)
        (Errorf ''config.toml: monitor.max_failures: must be between 1 and window_size'' []),
      fail_if (m_MinImprovement m \<le> 0) (Errorf ''config.toml: monitor.min_improvement: must be positive'' []),
      fail_if (m_Cooldown m < 0) (Errorf ''config.toml: monitor.cooldown: must be nonnegative'' []),
      fail_if (m_Jitter m < 0 \<or> m_Jitter m \<ge> m_Interval m)
        (Errorf ''config.toml: monitor.jitter: must be nonnegative and less than interval'' []),
      checkAutomatedGroups [] (m_AutomatedGroups m)]"

definition validateTun :: "Tun \<Rightarrow> go_error option" where
  "validateTun t = first_error
     [fail_if (tun_Stack t \<notin> set TunStacks) (Errorf ''config.toml: tun.stack: must be one of %s'' TunStacks),
      fail_if (tun_DNSMode t \<notin> set TunDNSModes) (Errorf ''config.toml: tun.dns_mode: must be one of %s'' TunDNSModes)]"

definition loopbackListen :: "string \<Rightarrow> bool" where
  "loopbackListen listen =
     (case net_SplitHostPort listen of
        None \<Rightarrow> False
      | Some (host, port) \<Rightarrow>
          (case net_ParseIP host of None \<Rightarrow> False | Some ip \<Rightarrow> ip_IsLoopback ip) \<and> validPort port)"

definition validateDNS :: "DNS \<Rightarrow> go_error option" where
  "validateDNS d = first_error
     [fail_if (dns_Listen d = '''') (Errorf ''config.toml: dns.listen: required'' []),
      fail_if (\<not> loopbackListen (dns_Listen d))
        (Errorf ''config.toml: dns.listen: must be a loopback host and valid port'' [])]"

section \<open>Validation of the whole snapshot\<close>

definition checkSubscription :: "url_parser \<Rightarrow> (string \<times> string) list \<Rightarrow> Subscription \<Rightarrow> go_error option" where
  "checkSubscription url_Parse seen item = first_error
     [fail_if (\<not> ValidStableID (sub_ID item))
        (Errorf ''subscriptions.toml: subscription.id: invalid stable ID %q'' [sub_ID item]),
      fail_if (sub_URL item = '''') (Errorf ''subscriptions.toml: subscription.url: required'' []),
      wrap_error ''subscriptions.toml: subscription.id: %w'' [] (uniqueID seen ''subscription'' (sub_ID item)),
      wrap_error ''subscriptions.toml: subscription.url: %w'' []
        (validateSubscriptionURL url_Parse (sub_URL item) (sub_AllowHTTP item)),
      fail_if (\<not> ValidSubscriptionUserAgent (sub_UserAgent item))
        (Errorf ''subscriptions.toml: subscription.user_agent: must be printable ASCII at most 256 bytes'' []),
      fail_if (sub_Route item \<noteq> '''' \<and> \<not> ValidRoute (sub_Route item))
        (Errorf ''subscriptions.toml: subscription.route: unknown route %q'' [sub_Route item])]"

fun checkSubscriptions :: "url_parser \<Rightarrow> (string \<times> string) list \<Rightarrow> Subscription list \<Rightarrow> go_error option" where
  "checkSubscriptions url_Parse seen [] = None"
| "checkSubscriptions url_Parse seen (item # items) =
     (case checkSubscription url_Parse seen item of
        Some err \<Rightarrow> Some err
      | None \<Rightarrow> checkSubscriptions url_Parse ((sub_ID item, ''subscription'') # seen) items)"

definition isGeoKind :: "ResourceKind \<Rightarrow> bool" where
  "isGeoKind kind \<longleftrightarrow> kind = ResourceGeoIP \<or> kind = ResourceGeoSite \<or> kind = ResourceMMDB"

definition checkResource ::
  "url_parser \<Rightarrow> (string \<times> string) list \<Rightarrow> (ResourceKind \<times> string) list \<Rightarrow> Resource \<Rightarrow> go_error option" where
  "checkResource url_Parse seen geo item = first_error
     [fail_if (\<not> ValidStableID (rs_ID item)) (Errorf ''resources.toml: resource.id: invalid stable ID %q'' [rs_ID item]),
      fail_if (rs_URL item = '''') (Errorf ''resources.toml: resource.url: required'' []),
      wrap_error ''resources.toml: resource.id: %w'' [] (uniqueID seen ''resource'' (rs_ID item)),
      fail_if (rs_Kind item \<notin> set resourceKinds) (Errorf ''resources.toml: resource.kind: unknown kind %q'' [rs_Kind item]),
      wrap_error ''resources.toml: resource.format: %w'' [] (validateResourceFormat item),
      wrap_error ''resources.toml: resource.url: %w'' [] (validateSourceOrPath url_Parse (rs_URL item) True),
      fail_if (rs_Interval item \<le> 0) (Errorf ''resources.toml: resource.interval: must be positive'' []),
      fail_if (rs_SHA256 item \<noteq> '''' \<and> length (rs_SHA256 item) \<noteq> 64)
        (Errorf ''resources.toml: resource.sha256: must be 64 hexadecimal characters'' []),
      fail_if (rs_SHA256 item \<noteq> '''' \<and> \<not> hex_DecodeString_ok (rs_SHA256 item))
        (Errorf ''resources.toml: resource.sha256: must be hexadecimal'' []),
      fail_if (isGeoKind (rs_Kind item) \<and> map_of geo (rs_Kind item) \<noteq> None)
        (Errorf ''resources.toml: resource.kind: %q and %q both target %s''
           [the (map_of geo (rs_Kind item)), rs_ID item, rs_Kind item])]"

fun checkResources ::
  "url_parser \<Rightarrow> (string \<times> string) list \<Rightarrow> (ResourceKind \<times> string) list \<Rightarrow> Resource list \<Rightarrow> go_error option" where
  "checkResources url_Parse seen geo [] = None"
| "checkResources url_Parse seen geo (item # items) =
     (case checkResource url_Parse seen geo item of
        Some err \<Rightarrow> Some err
      | None \<Rightarrow>
          checkResources url_Parse ((rs_ID item, ''resource'') # seen)
            (if isGeoKind (rs_Kind item) then (rs_Kind item, rs_ID item) # geo else geo) items)"

definition checkResolverSet :: "url_parser \<Rightarrow> (string \<times> string) list \<Rightarrow> ResolverSet \<Rightarrow> go_error option" where
  "checkResolverSet url_Parse seen rset = first_error
     ([fail_if (\<not> ValidStableID (rset_ID rset))
         (Errorf ''resources.toml: resolver_set.id: invalid stable ID %q'' [rset_ID rset]),
       fail_if (rset_Endpoints rset = []) (Errorf ''resources.toml: resolver_set.endpoints: required'' []),
       wrap_error ''resources.toml: resolver_set.id: %w'' [] (uniqueID seen ''resolver_set'' (rset_ID rset))]
      @ map (\<lambda>endpoint. wrap_error ''resources.toml: resolver_set.endpoints: %w'' []
                           (validateResolverEndpoint url_Parse endpoint)) (rset_Endpoints rset))"

fun checkResolverSets :: "url_parser \<Rightarrow> (string \<times> string) list \<Rightarrow> ResolverSet list \<Rightarrow> go_error option" where
  "checkResolverSets url_Parse seen [] = None"
| "checkResolverSets url_Parse seen (rset # rsets) =
     (case checkResolverSet url_Parse seen rset of
        Some err \<Rightarrow> Some err
      | None \<Rightarrow> checkResolverSets url_Parse ((rset_ID rset, ''resolver_set'') # seen) rsets)"

text \<open>The second loop over the resolver sets, which knows the address the DNS service listens on.\<close>

definition checkEndpointLoop :: "url_parser \<Rightarrow> string \<Rightarrow> string \<Rightarrow> bool \<Rightarrow> string \<Rightarrow> go_error option" where
  "checkEndpointLoop url_Parse listenHost listenPort dnscrypt endpoint =
     (case parseResolverEndpoint url_Parse endpoint of
        Inl err \<Rightarrow> Some (Wrapf ''resources.toml: resolver_set.endpoints: %w'' [] err)
      | Inr (host, port, scheme) \<Rightarrow>
          if dnscrypt \<and> (\<not> isLoopbackHost host \<or> (scheme \<noteq> ''udp'' \<and> scheme \<noteq> ''tcp''))
          then Some (Errorf ''resources.toml: resolver_set.dnscrypt: listener must be a loopback UDP or TCP endpoint'' [])
          else if port = listenPort \<and> isLoopbackHost host \<and> isLocalListenHost listenHost
          then Some (Errorf ''resources.toml: resolver_set.endpoints: endpoint %q loops back to dns.listen'' [endpoint])
          else None)"

definition checkEndpointLoops :: "url_parser \<Rightarrow> DNS \<Rightarrow> go_error option" where
  "checkEndpointLoops url_Parse d =
     (let (listenHost, listenPort) = (case net_SplitHostPort (dns_Listen d) of None \<Rightarrow> ('''', '''') | Some hp \<Rightarrow> hp) in
      first_error (concat (map (\<lambda>rset.
        map (checkEndpointLoop url_Parse listenHost (normal_port listenPort) (rset_DNSCrypt rset)) (rset_Endpoints rset))
        (dns_ResolverSets d))))"

text \<open>The maps \<open>resourcesByID\<close> and \<open>resolverSetsByID\<close>; identifiers are distinct when they are used.\<close>

definition resourceByID :: "Resource list \<Rightarrow> string \<Rightarrow> Resource option" where
  "resourceByID resources ident = find (\<lambda>r. rs_ID r = ident) resources"

definition resolverSetByID :: "ResolverSet list \<Rightarrow> string \<Rightarrow> ResolverSet option" where
  "resolverSetByID rsets ident = find (\<lambda>r. rset_ID r = ident) rsets"

definition count_matchers :: "DNSRoute \<Rightarrow> nat" where
  "count_matchers route =
     length (filter (\<lambda>m. m \<noteq> '''') [rt_Suffix route, rt_GeoSite route, rt_Resource route])"

definition domainRuleSet :: "Resource option \<Rightarrow> bool" where
  "domainRuleSet r =
     (case r of None \<Rightarrow> False
      | Some resource \<Rightarrow> rs_Kind resource = ResourceRuleSet \<and> rs_RuleType resource = RuleDomain \<and> rs_Enabled resource)"

definition checkRoute :: "Snapshot \<Rightarrow> DNSRoute \<Rightarrow> go_error option" where
  "checkRoute s route = first_error
     [fail_if (rt_ResolverSet route = '''') (Errorf ''resources.toml: dns_route.resolver_set: required'' []),
      fail_if (rt_Suffix route \<noteq> '''' \<and> \<not> ValidDomain (rt_Suffix route))
        (Errorf ''resources.toml: dns_route.suffix: invalid domain %q'' [rt_Suffix route]),
      fail_if (rt_GeoSite route \<noteq> '''' \<and> \<not> ValidRuleToken (rt_GeoSite route))
        (Errorf ''resources.toml: dns_route.geosite: invalid selector %q'' [rt_GeoSite route]),
      fail_if (rt_Resource route \<noteq> '''' \<and> \<not> domainRuleSet (resourceByID (c_Resources s) (rt_Resource route)))
        (Errorf ''resources.toml: dns_route.resource: %q must reference an enabled domain rule-set resource'' [rt_Resource route]),
      fail_if (count_matchers route \<noteq> 1)
        (Errorf ''resources.toml: dns_route: specify exactly one of suffix, geosite, or domain rule-set resource'' []),
      fail_if (resolverSetByID (dns_ResolverSets (c_DNS s)) (rt_ResolverSet route) = None)
        (Errorf ''resources.toml: dns_route.resolver_set: unknown resolver set %q'' [rt_ResolverSet route])]"

definition target_reject_chars :: string where
  "target_reject_chars = [CHR '','', CHR 0x0D, CHR 0x0A, CHR 0x09, CHR 0x00]"

definition isRuleKind :: "ResourceKind \<Rightarrow> bool" where
  "isRuleKind kind \<longleftrightarrow> kind = ResourceRuleProvider \<or> kind = ResourceRuleSet"

definition checkFilter :: "Snapshot \<Rightarrow> (string \<times> string) list \<Rightarrow> Filter \<Rightarrow> go_error option" where
  "checkFilter s seen flt =
     (let resource = resourceByID (c_Resources s) (f_Resource flt) in
      first_error
       [fail_if (\<not> ValidStableID (f_ID flt)) (Errorf ''filters.toml: filter.id: invalid stable ID %q'' [f_ID flt]),
        fail_if (f_Resource flt = '''') (Errorf ''filters.toml: filter.resource: required'' []),
        fail_if (f_Target flt = '''' \<or> strings_TrimSpace (f_Target flt) \<noteq> f_Target flt
                 \<or> strings_ContainsAny (f_Target flt) target_reject_chars)
          (Errorf ''filters.toml: filter.target: required; commas and control characters are not allowed'' []),
        wrap_error ''filters.toml: filter.id: %w'' [] (uniqueID seen ''filter'' (f_ID flt)),
        fail_if (resource = None \<or> \<not> isRuleKind (rs_Kind (the resource)))
          (Errorf ''filters.toml: filter.resource: %q is not a rule resource'' [f_Resource flt]),
        fail_if (f_Format flt = '''') (Errorf ''filters.toml: filter.format: required'' []),
        fail_if (f_Format flt \<notin> set ruleFormats \<or> f_Format flt \<noteq> rs_Format (the resource))
          (Errorf ''filters.toml: filter.format: must match resource %q format'' [f_Resource flt]),
        fail_if (f_Enabled flt \<and> \<not> rs_Enabled (the resource))
          (Errorf ''filters.toml: filter.resource: enabled filter references disabled resource %q'' [f_Resource flt])])"

fun checkFilters :: "Snapshot \<Rightarrow> (string \<times> string) list \<Rightarrow> Filter list \<Rightarrow> go_error option" where
  "checkFilters s seen [] = None"
| "checkFilters s seen (flt # flts) =
     (case checkFilter s seen flt of
        Some err \<Rightarrow> Some err
      | None \<Rightarrow> checkFilters s ((f_ID flt, ''filter'') # seen) flts)"

definition validateSnapshot :: "url_parser \<Rightarrow> file_stat \<Rightarrow> Snapshot \<Rightarrow> go_error option" where
  "validateSnapshot url_Parse os_Stat s = first_error
     ([validateMihomoBinary os_Stat (mh_Binary (c_Mihomo s)),
       validateMonitor url_Parse (c_Monitor s),
       validateMihomo (c_Mihomo s),
       validateDNS (c_DNS s),
       validateTun (c_Tun s),
       checkSubscriptions url_Parse [] (c_Subscriptions s),
       checkResources url_Parse [] [] (c_Resources s),
       checkResolverSets url_Parse [] (dns_ResolverSets (c_DNS s)),
       checkEndpointLoops url_Parse (c_DNS s)]
      @ map (checkRoute s) (dns_Routes (c_DNS s))
      @ [checkFilters s [] (c_Filters s)])"

section \<open>Loops that keep identifiers unique\<close>

text \<open>
  The loops over subscriptions, resolver sets and filters have one shape: each item is checked on its
  own and against the identifiers seen before it.
\<close>

locale id_loop =
  fixes check :: "(string \<times> string) list \<Rightarrow> 'a \<Rightarrow> go_error option"
    and run :: "(string \<times> string) list \<Rightarrow> 'a list \<Rightarrow> go_error option"
    and key :: "'a \<Rightarrow> string" and kind :: string and ok :: "'a \<Rightarrow> bool"
  assumes run_Nil: "run seen [] = None"
    and run_Cons: "run seen (x # xs) =
      (case check seen x of Some err \<Rightarrow> Some err | None \<Rightarrow> run ((key x, kind) # seen) xs)"
    and check_None: "check seen x = None \<longleftrightarrow> ok x \<and> key x \<notin> fst ` set seen"
begin

lemma run_None_iff:
  "run seen xs = None \<longleftrightarrow> list_all ok xs \<and> distinct (map key xs) \<and> key ` set xs \<inter> fst ` set seen = {}"
proof (induction xs arbitrary: seen)
  case (Cons x xs)
  show ?case
  proof (cases "check seen x")
    case None
    with Cons.IH [of "(key x, kind) # seen"] check_None [of seen x] show ?thesis
      by (auto simp: run_Cons)
  next
    case (Some err)
    with check_None [of seen x] show ?thesis by (auto simp: run_Cons)
  qed
qed (simp add: run_Nil)

lemma run_accepts: "run [] xs = None \<longleftrightarrow> list_all ok xs \<and> distinct (map key xs)"
  by (simp add: run_None_iff)

end

lemma uniqueID_None [simp]: "uniqueID seen kind ident = None \<longleftrightarrow> ident \<notin> fst ` set seen"
  using map_of_eq_None_iff [of seen ident] by (auto simp: uniqueID_def split: option.splits)

definition subscription_ok :: "url_parser \<Rightarrow> Subscription \<Rightarrow> bool" where
  "subscription_ok url_Parse item \<longleftrightarrow>
     ValidStableID (sub_ID item) \<and> sub_URL item \<noteq> ''''
     \<and> validateSubscriptionURL url_Parse (sub_URL item) (sub_AllowHTTP item) = None
     \<and> ValidSubscriptionUserAgent (sub_UserAgent item) \<and> (sub_Route item = '''' \<or> ValidRoute (sub_Route item))"

definition resolver_set_ok :: "url_parser \<Rightarrow> ResolverSet \<Rightarrow> bool" where
  "resolver_set_ok url_Parse rset \<longleftrightarrow>
     ValidStableID (rset_ID rset) \<and> rset_Endpoints rset \<noteq> []
     \<and> list_all (\<lambda>e. validateResolverEndpoint url_Parse e = None) (rset_Endpoints rset)"

definition filter_ok :: "Resource list \<Rightarrow> Filter \<Rightarrow> bool" where
  "filter_ok resources flt \<longleftrightarrow>
     ValidStableID (f_ID flt) \<and> f_Target flt \<noteq> '''' \<and> strings_TrimSpace (f_Target flt) = f_Target flt
     \<and> \<not> strings_ContainsAny (f_Target flt) target_reject_chars \<and> f_Resource flt \<noteq> ''''
     \<and> (\<exists>r. resourceByID resources (f_Resource flt) = Some r \<and> isRuleKind (rs_Kind r)
            \<and> f_Format flt = rs_Format r \<and> f_Format flt \<in> set ruleFormats \<and> (f_Enabled flt \<longrightarrow> rs_Enabled r))"

interpretation subscriptions: id_loop "checkSubscription url_Parse" "checkSubscriptions url_Parse" sub_ID
  "''subscription''" "subscription_ok url_Parse" for url_Parse
  by unfold_locales (auto simp: checkSubscription_def subscription_ok_def)

interpretation resolver_sets: id_loop "checkResolverSet url_Parse" "checkResolverSets url_Parse" rset_ID
  "''resolver_set''" "resolver_set_ok url_Parse" for url_Parse
  by unfold_locales (auto simp: checkResolverSet_def resolver_set_ok_def list_all_iff)

lemma ruleFormats_nonempty: "fmt \<in> set ruleFormats \<Longrightarrow> fmt \<noteq> ''''"
  by (auto simp: ruleFormats_def resource_names)

interpretation filters: id_loop "checkFilter s" "checkFilters s" f_ID "''filter''" "filter_ok (c_Resources s)" for s
proof unfold_locales
  show "checkFilter s seen x = None \<longleftrightarrow> filter_ok (c_Resources s) x \<and> f_ID x \<notin> fst ` set seen" for seen x
    by (cases "resourceByID (c_Resources s) (f_Resource x)")
      (auto simp: checkFilter_def filter_ok_def Let_def dest: ruleFormats_nonempty)
qed simp_all

section \<open>What validation accepts\<close>

definition resource_ok :: "url_parser \<Rightarrow> Resource \<Rightarrow> bool" where
  "resource_ok url_Parse r \<longleftrightarrow>
     ValidStableID (rs_ID r) \<and> rs_URL r \<noteq> '''' \<and> rs_Kind r \<in> set resourceKinds \<and> validateResourceFormat r = None
     \<and> validateSourceOrPath url_Parse (rs_URL r) True = None \<and> rs_Interval r > 0
     \<and> (rs_SHA256 r = '''' \<or> length (rs_SHA256 r) = 64 \<and> hex_DecodeString_ok (rs_SHA256 r))"

lemma checkResource_None:
  "checkResource url_Parse seen geo r = None \<longleftrightarrow>
     resource_ok url_Parse r \<and> rs_ID r \<notin> fst ` set seen \<and> (isGeoKind (rs_Kind r) \<longrightarrow> rs_Kind r \<notin> fst ` set geo)"
  by (auto simp: checkResource_def resource_ok_def map_of_eq_None_iff)

text \<open>Besides the identifiers, no two resources target the same geo database.\<close>

lemma checkResources_None_iff:
  "checkResources url_Parse seen geo rs = None \<longleftrightarrow>
     list_all (resource_ok url_Parse) rs \<and> distinct (map rs_ID rs) \<and> set (map rs_ID rs) \<inter> fst ` set seen = {}
     \<and> distinct (filter isGeoKind (map rs_Kind rs)) \<and> set (filter isGeoKind (map rs_Kind rs)) \<inter> fst ` set geo = {}"
proof (induction rs arbitrary: seen geo)
  case (Cons r rs)
  let ?geo = "if isGeoKind (rs_Kind r) then (rs_Kind r, rs_ID r) # geo else geo"
  have step: "checkResources url_Parse seen geo (r # rs) = None \<longleftrightarrow>
      checkResource url_Parse seen geo r = None \<and> checkResources url_Parse ((rs_ID r, ''resource'') # seen) ?geo rs = None"
    by (simp split: option.split)
  show ?case
    unfolding step checkResource_None Cons.IH
    by (cases "isGeoKind (rs_Kind r)") (simp_all add: disjoint_insert conj_ac del: set_map set_filter)
qed simp

definition route_ok :: "Snapshot \<Rightarrow> DNSRoute \<Rightarrow> bool" where
  "route_ok s route \<longleftrightarrow>
     count_matchers route = 1
     \<and> (rt_Suffix route \<noteq> '''' \<longrightarrow> ValidDomain (rt_Suffix route))
     \<and> (rt_GeoSite route \<noteq> '''' \<longrightarrow> ValidRuleToken (rt_GeoSite route))
     \<and> (rt_Resource route \<noteq> '''' \<longrightarrow> domainRuleSet (resourceByID (c_Resources s) (rt_Resource route)))
     \<and> rt_ResolverSet route \<noteq> '''' \<and> resolverSetByID (dns_ResolverSets (c_DNS s)) (rt_ResolverSet route) \<noteq> None"

lemma checkRoute_None: "checkRoute s route = None \<longleftrightarrow> route_ok s route"
  by (auto simp: checkRoute_def route_ok_def)

text \<open>An endpoint that would send the queries of the DNS service back to itself.\<close>

definition loops_back :: "url_parser \<Rightarrow> string \<Rightarrow> string \<Rightarrow> bool" where
  "loops_back url_Parse listen endpoint =
     (case (net_SplitHostPort listen, parseResolverEndpoint url_Parse endpoint) of
        (Some (listenHost, listenPort), Inr (host, port, scheme)) \<Rightarrow>
          port = normal_port listenPort \<and> isLoopbackHost host
      | _ \<Rightarrow> False)"

definition dnscrypt_ok :: "url_parser \<Rightarrow> string \<Rightarrow> bool" where
  "dnscrypt_ok url_Parse endpoint =
     (case parseResolverEndpoint url_Parse endpoint of
        Inr (host, port, scheme) \<Rightarrow> isLoopbackHost host \<and> (scheme = ''udp'' \<or> scheme = ''tcp'') | Inl _ \<Rightarrow> False)"

lemma loopbackListen_local:
  "loopbackListen listen \<Longrightarrow> net_SplitHostPort listen = Some (h, p) \<Longrightarrow> isLocalListenHost h"
  by (auto simp: loopbackListen_def isLocalListenHost_def split: option.splits)

lemma checkEndpointLoops_None_iff:
  assumes "loopbackListen (dns_Listen d)"
  shows "checkEndpointLoops url_Parse d = None \<longleftrightarrow>
    list_all (\<lambda>rset. list_all (\<lambda>e. validateResolverEndpoint url_Parse e = None
        \<and> (rset_DNSCrypt rset \<longrightarrow> dnscrypt_ok url_Parse e) \<and> \<not> loops_back url_Parse (dns_Listen d) e)
      (rset_Endpoints rset)) (dns_ResolverSets d)"
proof -
  obtain h p where hp: "net_SplitHostPort (dns_Listen d) = Some (h, p)"
    using assms by (auto simp: loopbackListen_def split: option.splits)
  note loc = loopbackListen_local [OF assms hp]
  have "checkEndpointLoop url_Parse h (normal_port p) c e = None \<longleftrightarrow>
      validateResolverEndpoint url_Parse e = None \<and> (c \<longrightarrow> dnscrypt_ok url_Parse e)
      \<and> \<not> loops_back url_Parse (dns_Listen d) e" for c e
    using hp loc by (auto simp: checkEndpointLoop_def validateResolverEndpoint_def dnscrypt_ok_def loops_back_def
        split: sum.split)
  then show ?thesis using hp by (auto simp: checkEndpointLoops_def list_all_iff)
qed

lemma validateSnapshot_iff:
  "validateSnapshot url_Parse os_Stat s = None \<longleftrightarrow>
     validateMihomoBinary os_Stat (mh_Binary (c_Mihomo s)) = None \<and> validateMonitor url_Parse (c_Monitor s) = None
     \<and> validateMihomo (c_Mihomo s) = None \<and> loopbackListen (dns_Listen (c_DNS s)) \<and> validateTun (c_Tun s) = None
     \<and> list_all (subscription_ok url_Parse) (c_Subscriptions s) \<and> distinct (map sub_ID (c_Subscriptions s))
     \<and> list_all (resource_ok url_Parse) (c_Resources s) \<and> distinct (map rs_ID (c_Resources s))
     \<and> distinct (filter isGeoKind (map rs_Kind (c_Resources s)))
     \<and> list_all (resolver_set_ok url_Parse) (dns_ResolverSets (c_DNS s))
     \<and> distinct (map rset_ID (dns_ResolverSets (c_DNS s)))
     \<and> list_all (\<lambda>rset. list_all (\<lambda>e. if rset_DNSCrypt rset then dnscrypt_ok url_Parse e \<and> \<not> loops_back url_Parse (dns_Listen (c_DNS s)) e
          else \<not> loops_back url_Parse (dns_Listen (c_DNS s)) e) (rset_Endpoints rset)) (dns_ResolverSets (c_DNS s))
     \<and> list_all (route_ok s) (dns_Routes (c_DNS s))
     \<and> list_all (filter_ok (c_Resources s)) (c_Filters s) \<and> distinct (map f_ID (c_Filters s))"
proof (cases "loopbackListen (dns_Listen (c_DNS s))")
  case True
  then have "dns_Listen (c_DNS s) \<noteq> ''''"
    by (auto simp: loopbackListen_def net_SplitHostPort_def last_index_of_def)
  with True show ?thesis
    by (auto simp: validateSnapshot_def validateDNS_def subscriptions.run_accepts resolver_sets.run_accepts
        filters.run_accepts checkResources_None_iff checkRoute_None checkEndpointLoops_None_iff
        resolver_set_ok_def list_all_iff)
next
  case False
  then show ?thesis by (simp add: validateSnapshot_def validateDNS_def)
qed

text \<open>
  C28. \<open>validateSnapshot\<close> accepts exactly the coherent configurations: every section is valid by itself;
  identifiers are unique per kind and no two resources target one geo database; no resolver endpoint
  points back at the DNS service and DNSCrypt endpoints are local; every route has exactly one valid
  matcher and a known resolver set; every filter refers to a rule resource of its own format that is
  enabled if the filter is.
\<close>

theorem validateSnapshot_accepts:
  "validateSnapshot url_Parse os_Stat s = None \<longleftrightarrow>
     validateMihomoBinary os_Stat (mh_Binary (c_Mihomo s)) = None \<and> validateMonitor url_Parse (c_Monitor s) = None
     \<and> validateMihomo (c_Mihomo s) = None \<and> loopbackListen (dns_Listen (c_DNS s)) \<and> validateTun (c_Tun s) = None
     \<and> list_all (subscription_ok url_Parse) (c_Subscriptions s) \<and> distinct (map sub_ID (c_Subscriptions s))
     \<and> list_all (resource_ok url_Parse) (c_Resources s) \<and> distinct (map rs_ID (c_Resources s))
     \<and> distinct (filter isGeoKind (map rs_Kind (c_Resources s)))
     \<and> list_all (resolver_set_ok url_Parse) (dns_ResolverSets (c_DNS s))
     \<and> distinct (map rset_ID (dns_ResolverSets (c_DNS s)))
     \<and> list_all (\<lambda>rset. list_all (\<lambda>e. if rset_DNSCrypt rset then dnscrypt_ok url_Parse e \<and> \<not> loops_back url_Parse (dns_Listen (c_DNS s)) e
          else \<not> loops_back url_Parse (dns_Listen (c_DNS s)) e) (rset_Endpoints rset)) (dns_ResolverSets (c_DNS s))
     \<and> list_all (route_ok s) (dns_Routes (c_DNS s))
     \<and> list_all (filter_ok (c_Resources s)) (c_Filters s) \<and> distinct (map f_ID (c_Filters s))"
  by (rule validateSnapshot_iff)

section \<open>What the defaults provide\<close>

lemma or_default_idem [simp]: "d \<noteq> zero \<Longrightarrow> or_default zero d' (or_default zero d x) = or_default zero d x"
  by (simp add: or_default_def)

lemma or_default_nonzero [simp]: "d \<noteq> zero \<Longrightarrow> or_default zero d x \<noteq> zero"
  by (simp add: or_default_def)

lemma min_nonzero: "w \<noteq> 0 \<Longrightarrow> 0 < c \<Longrightarrow> min c w \<noteq> (0::int)"
  by (simp add: min_def)

lemma defaultMonitor_idem: "defaultMonitor (defaultMonitor m) = defaultMonitor m"
proof -
  have "p_SwitchPolicy DefaultPolicy \<noteq> ''''" "DefaultStreamURL \<noteq> ''''" "p_StreamInterval DefaultPolicy \<noteq> 0"
      "Minute \<noteq> 0" "Millisecond \<noteq> 0" "Second \<noteq> 0"
    by (simp_all add: DefaultPolicy_def SwitchLowestLatency_def DefaultStreamURL_def go_defs)
  then show ?thesis
    by (intro Monitor.equality) (simp_all add: defaultMonitor_def Let_def min_nonzero)
qed

lemma defaultSubscription_idem: "defaultSubscription (defaultSubscription x) = defaultSubscription x"
  by (rule Subscription.equality) (simp_all add: defaultSubscription_def download_Auto_def go_defs)

lemma defaultResource_idem: "defaultResource (defaultResource x) = defaultResource x"
  by (rule Resource.equality) (simp_all add: defaultResource_def go_defs)

definition zeroMonitor :: Monitor where
  "zeroMonitor = \<lparr> m_Enabled = False, m_TestURL = '''', m_SwitchPolicy = '''', m_StreamURL = '''', m_StreamInterval = 0,
     m_Interval = 0, m_Timeout = 0, m_Concurrency = 0, m_Threshold = 0, m_AlertThreshold = 0,
     m_ConsecutiveBadSamples = 0, m_WindowSize = 0, m_MinCandidateSamples = 0, m_MaxFailures = 0, m_MinImprovement = 0,
     m_Cooldown = 0, m_Jitter = 0, m_AutomatedGroups = [] \<rparr>"

text \<open>The documented reading of the two URLs that are the defaults.\<close>

definition parses_defaults :: "url_parser \<Rightarrow> bool" where
  "parses_defaults url_Parse \<longleftrightarrow>
     url_Parse ''http://cp.cloudflare.com/generate_204'' =
       Some \<lparr> u_Scheme = ''http'', u_Opaque = '''', u_User = False, u_Host = ''cp.cloudflare.com'',
              u_Hostname = ''cp.cloudflare.com'', u_Port = '''', u_Path = ''/generate_204'', u_Fragment = '''' \<rparr>
     \<and> url_Parse DefaultStreamURL =
       Some \<lparr> u_Scheme = ''https'', u_Opaque = '''', u_User = False, u_Host = ''speed.cloudflare.com'',
              u_Hostname = ''speed.cloudflare.com'', u_Port = '''', u_Path = ''/__down'', u_Fragment = '''' \<rparr>"

text \<open>
  C29. The defaults are stable and sufficient: applying them twice changes nothing more, and a monitor
  section that sets nothing, or only an interval and a window in their ranges, becomes a valid one; in
  particular the sample counts shrink with a narrow window and the timeout with a short interval.
\<close>

theorem defaults_stable_and_valid:
  assumes "parses_defaults url_Parse"
    and "i = 0 \<or> Second \<le> i \<and> i \<le> 24 * Hour" and "w = 0 \<or> 2 \<le> w \<and> w \<le> 20"
  shows "validateMonitor url_Parse (defaultMonitor (zeroMonitor\<lparr> m_Interval := i, m_WindowSize := w \<rparr>)) = None
    \<and> applyDefaults (applyDefaults s) = applyDefaults s"
proof -
  have "applyDefaults (applyDefaults s) = applyDefaults s"
    by (rule Snapshot.equality)
      (simp_all add: applyDefaults_def defaultMonitor_idem defaultSubscription_idem defaultResource_idem o_def)
  moreover have "validateMonitor url_Parse (defaultMonitor (zeroMonitor\<lparr> m_Interval := i, m_WindowSize := w \<rparr>)) = None"
  proof -
    have urls: "validateMonitorTestURL url_Parse ''http://cp.cloudflare.com/generate_204'' = None"
        "ValidStreamURL url_Parse DefaultStreamURL = None"
      using assms(1) by (simp_all add: parses_defaults_def validateMonitorTestURL_def ValidStreamURL_def
          strings_ContainsAny_def url_reject_chars_def DefaultStreamURL_def)
    have "ValidPolicyName SwitchLowestLatency" by (simp add: ValidPolicyName_def SwitchPolicies_def)
    with urls assms(2,3) show ?thesis
      by (auto simp: validateMonitor_def defaultMonitor_def zeroMonitor_def Let_def DefaultPolicy_def stream_url_error_def
          MinStreamInterval_def maxMonitorInterval_def maxMonitorConcurrency_def MonitorWindowMin_def MonitorWindowMax_def
          or_default_def go_defs)
  qed
  ultimately show ?thesis by blast
qed

definition exDefaults :: url_parser where
  "exDefaults raw = Some (if raw = DefaultStreamURL
     then \<lparr> u_Scheme = ''https'', u_Opaque = '''', u_User = False, u_Host = ''speed.cloudflare.com'',
            u_Hostname = ''speed.cloudflare.com'', u_Port = '''', u_Path = ''/__down'', u_Fragment = '''' \<rparr>
     else \<lparr> u_Scheme = ''http'', u_Opaque = '''', u_User = False, u_Host = ''cp.cloudflare.com'',
            u_Hostname = ''cp.cloudflare.com'', u_Port = '''', u_Path = ''/generate_204'', u_Fragment = '''' \<rparr>)"

lemma exDefaults_parses: "parses_defaults exDefaults"
  by (simp add: parses_defaults_def exDefaults_def DefaultStreamURL_def)

theorem defaults_stable_and_valid_witness:
  "validateMonitor exDefaults (defaultMonitor (zeroMonitor\<lparr> m_Interval := Second, m_WindowSize := 2 \<rparr>)) = None"
  using defaults_stable_and_valid [OF exDefaults_parses, of Second 2] by (simp add: Second_def Hour_def)

end
