(* ===== verification/Resources_Validate.thy ===== *)
theory Resources_Validate
  imports Config_Load
begin

text \<open>
  Validation of managed resources (\<open>src/resources/validate.go\<close>) and the names of their files
  (\<open>ManagedFilename\<close> in \<open>src/resources/registry.go\<close>). Parameters: \<open>yaml_payload\<close>, the strict decoding
  of a YAML rule file by \<open>gopkg.in/yaml.v3\<close>; \<open>regexp_ok\<close>, whether \<open>regexp.Compile\<close> succeeds;
  \<open>sha256_hex\<close>, the hexadecimal SHA-256 digest.
\<close>

section \<open>Address prefixes\<close>

text \<open>\<open>netip.ParseAddr\<close>: whether the address is an IPv4 one, and its zone.\<close>

definition netip_ParseAddr :: "string \<Rightarrow> (bool \<times> string) option" where
  "netip_ParseAddr s =
     (case find (\<lambda>c. c = CHR ''.'' \<or> c = CHR '':'' \<or> c = CHR ''%'') s of
        None \<Rightarrow> None
      | Some c \<Rightarrow>
          if c = CHR ''.'' then (if parseIPv4 s = None then None else Some (True, ''''))
          else if c = CHR ''%'' then None
          else case index_of (CHR ''%'') s of
                 None \<Rightarrow> if parseIPv6 s = None then None else Some (False, '''')
               | Some i \<Rightarrow> if drop (Suc i) s = '''' \<or> parseIPv6 (take i s) = None then None
                            else Some (False, drop (Suc i) s))"

definition netip_ParsePrefix_ok :: "string \<Rightarrow> bool" where
  "netip_ParsePrefix_ok s =
     (case last_index_of (CHR ''/'') s of
        None \<Rightarrow> False
      | Some i \<Rightarrow>
          let bits = drop (Suc i) s in
          case netip_ParseAddr (take i s) of
            None \<Rightarrow> False
          | Some (is4, zone) \<Rightarrow>
              zone = '''' \<and> \<not> (length bits > 1 \<and> (hd bits < CHR ''1'' \<or> hd bits > CHR ''9''))
              \<and> (case strconv_Atoi bits of None \<Rightarrow> False | Some n \<Rightarrow> 0 \<le> n \<and> n \<le> (if is4 then 32 else 128)))"

section \<open>Declarations\<close>

definition ValidateDeclaration :: "Resource \<Rightarrow> go_error option" where
  "ValidateDeclaration r =
     (let kind = rs_Kind r in
      if \<not> ValidStableID (rs_ID r) then Some (Errorf ''invalid resource ID %q'' [rs_ID r])
      else if kind = ResourceGeoIP \<or> kind = ResourceGeoSite then
        fail_if (rs_Format r \<noteq> FormatDAT \<or> rs_RuleType r \<noteq> '''')
          (Errorf ''resource %q requires kind-specific dat format and no rule type'' [rs_ID r])
      else if kind = ResourceMMDB then
        fail_if (rs_Format r \<noteq> FormatMMDB \<or> rs_RuleType r \<noteq> '''')
          (Errorf ''resource %q requires mmdb format and no rule type'' [rs_ID r])
      else if kind = ResourceRuleProvider \<or> kind = ResourceRuleSet then
        (if rs_Format r \<noteq> FormatYAML \<and> rs_Format r \<noteq> FormatText \<and> rs_Format r \<noteq> FormatMRS
         then Some (Errorf ''resource %q has unsupported rule format %q'' [rs_ID r, rs_Format r])
         else if rs_RuleType r = RuleDomain \<or> rs_RuleType r = RuleIPCIDR then None
         else if rs_RuleType r = RuleClassical then
           fail_if (rs_Format r = FormatMRS) (Errorf ''resource %q: mrs format does not support classical rules'' [rs_ID r])
         else Some (Errorf ''resource %q has unsupported rule type %q'' [rs_ID r, rs_RuleType r]))
      else Some (Errorf ''resource %q has unsupported kind %q'' [rs_ID r, kind]))"

definition formatExtension :: "ResourceFormat \<Rightarrow> string" where
  "formatExtension format =
     (if format = FormatDAT then ''.dat'' else if format = FormatMMDB then ''.mmdb''
      else if format = FormatYAML then ''.yaml'' else if format = FormatText then ''.txt''
      else if format = FormatMRS then ''.mrs'' else ''.invalid'')"

definition ManagedFilename :: "(string \<Rightarrow> string) \<Rightarrow> Resource \<Rightarrow> string" where
  "ManagedFilename sha256_hex r =
     sha256_hex (rs_ID r)
     @ (if rs_Format r = FormatYAML \<or> rs_Format r = FormatText \<or> rs_Format r = FormatMRS
        then formatExtension (rs_Format r) else ''.invalid'')"

section \<open>Rules\<close>

text \<open>The loop of \<open>newPort\<close>; a rune outside ASCII is not a digit.\<close>

fun newPortFrom :: "int \<Rightarrow> string \<Rightarrow> int" where
  "newPortFrom n [] = n"
| "newPortFrom n (r # rs) =
     (if \<not> is_digit r then 0
      else let n' = n * 10 + digit_val r in if n' > 65535 then 0 else newPortFrom n' rs)"

definition newPort :: "string \<Rightarrow> int" where
  "newPort v = newPortFrom 0 v"

definition parsePortOrRange :: "string \<Rightarrow> go_error + string" where
  "parsePortOrRange v =
     (if strings_Contains v ''-'' then
        let parts = split_on (CHR ''-'') v in
        if length parts \<noteq> 2 then Inl (Errorf ''invalid port range'' [])
        else
          let left = newPort (parts ! 0); right = newPort (parts ! 1) in
          if left = 0 \<or> right < left then Inl (Errorf ''invalid port range'' []) else Inr v
      else if newPort v = 0 then Inl (Errorf ''invalid port'' [])
      else Inr v)"

text \<open>The depth after a prefix, or \<open>None\<close> once it has been negative.\<close>

fun parenDepth :: "int \<Rightarrow> string \<Rightarrow> int option" where
  "parenDepth d [] = Some d"
| "parenDepth d (r # rs) =
     (if r = CHR ''('' then parenDepth (d + 1) rs
      else if r = CHR '')'' then (if d - 1 < 0 then None else parenDepth (d - 1) rs)
      else parenDepth d rs)"

definition balancedExpression :: "string \<Rightarrow> bool" where
  "balancedExpression v \<longleftrightarrow>
     length v \<ge> 2 \<and> parenDepth 0 v = Some 0 \<and> strings_HasPrefix (strings_TrimSpace v) ''(''"

definition validateDomain :: "string \<Rightarrow> go_error option" where
  "validateDomain domain =
     fail_if (length domain > 253 \<or> strings_HasPrefix domain ''.'' \<or> \<not> ValidDomain domain)
       (Errorf ''invalid domain'' [])"

definition unchecked_kinds :: "string list" where
  "unchecked_kinds =
     [''DOMAIN-KEYWORD'', ''DOMAIN-WILDCARD'', ''GEOSITE'', ''GEOIP'', ''SRC-GEOIP'', ''IP-ASN'', ''SRC-IP-ASN'',
      ''IP-SUFFIX'', ''SRC-IP-SUFFIX'', ''PROCESS-NAME'', ''PROCESS-PATH'', ''PROCESS-NAME-REGEX'', ''PROCESS-PATH-REGEX'',
      ''PROCESS-NAME-WILDCARD'', ''PROCESS-PATH-WILDCARD'', ''UID'', ''IN-TYPE'', ''IN-USER'', ''IN-NAME'', ''REMATCH-NAME'']"

definition validateClassical :: "(string \<Rightarrow> bool) \<Rightarrow> string \<Rightarrow> go_error option" where
  "validateClassical regexp_ok line =
     (let parts = split_on (CHR '','') line;
          kind = strings_ToUpper (strings_TrimSpace (hd parts));
          target = strings_TrimSpace (parts ! 1)
      in if kind = ''AND'' \<or> kind = ''OR'' \<or> kind = ''NOT'' then
           fail_if (\<not> balancedExpression (join_with '','' (tl parts))) (Errorf ''invalid %s expression'' [kind])
         else if length parts < 2 \<or> target = '''' then Some (Errorf ''rule target is required'' [])
         else if kind = ''DOMAIN'' \<or> kind = ''DOMAIN-SUFFIX'' then validateDomain target
         else if kind = ''DOMAIN-REGEX'' then fail_if (\<not> regexp_ok target) (Errorf ''regexp'' [target])
         else if kind \<in> set unchecked_kinds then None
         else if kind = ''NETWORK'' then
           fail_if (\<not> (strings_EqualFold target ''tcp'' \<or> strings_EqualFold target ''udp''))
             (Errorf ''invalid network type'' [])
         else if kind = ''DSCP'' then
           fail_if (newPort target > 63 \<or> newPort target = 0) (Errorf ''invalid DSCP value'' [])
         else if kind = ''IP-CIDR'' \<or> kind = ''IP-CIDR6'' \<or> kind = ''SRC-IP-CIDR'' then
           fail_if (\<not> netip_ParsePrefix_ok target \<and> netip_ParseAddr target = None)
             (Errorf ''invalid IP address or prefix'' [])
         else if kind = ''DST-PORT'' \<or> kind = ''SRC-PORT'' \<or> kind = ''IN-PORT'' then
           (case parsePortOrRange target of Inl err \<Rightarrow> Some err | Inr _ \<Rightarrow> None)
         else Some (Errorf ''unsupported classical rule %q'' [kind]))"

definition validateRuleLine :: "(string \<Rightarrow> bool) \<Rightarrow> RuleType \<Rightarrow> string \<Rightarrow> go_error option" where
  "validateRuleLine regexp_ok ruleType raw =
     (let line = strings_TrimSpace raw in
      if line = '''' \<or> strings_HasPrefix line ''#'' then Some (Errorf ''empty or commented rule'' [])
      else if ruleType = RuleDomain then
        validateDomain (if strings_HasPrefix line ''+.'' then drop 2 line else line)
      else if ruleType = RuleIPCIDR then fail_if (\<not> netip_ParsePrefix_ok line) (Errorf ''invalid IP prefix'' [])
      else if ruleType = RuleClassical then validateClassical regexp_ok line
      else Some (Errorf ''unknown rule behavior'' []))"

text \<open>
  The loop over the lines of a text file. \<open>bufio.Scanner\<close> splits at line feeds; the carriage return it
  strips is white space that \<open>TrimSpace\<close> removes anyway, and its buffer holds the whole file, so that
  it reports no error. \<open>cnt\<close> is the number of rules so far.
\<close>

fun scanRules :: "(string \<Rightarrow> bool) \<Rightarrow> Resource \<Rightarrow> nat \<Rightarrow> string list \<Rightarrow> go_error + nat" where
  "scanRules regexp_ok r cnt [] = Inr cnt"
| "scanRules regexp_ok r cnt (raw # lines) =
     (let line = strings_TrimSpace raw in
      if line = '''' \<or> strings_HasPrefix line ''#'' then scanRules regexp_ok r cnt lines
      else case validateRuleLine regexp_ok (rs_RuleType r) line of
             Some err \<Rightarrow>
               Inl (Wrapf ''resource %q: invalid rule on line %d: %w'' [rs_ID r, strconv_Itoa (int cnt + 1)] err)
           | None \<Rightarrow> scanRules regexp_ok r (Suc cnt) lines)"

text \<open>
  What the strict YAML decoder finds: an error, more than one document, an error after the first
  document, or the entries of \<open>payload\<close>.
\<close>

datatype yaml_result = YamlError string | YamlMultiple | YamlTrailing string | YamlPayload "string list"

definition validateRules ::
  "(string \<Rightarrow> yaml_result) \<Rightarrow> (string \<Rightarrow> bool) \<Rightarrow> Resource \<Rightarrow> bytes \<Rightarrow> go_error option" where
  "validateRules yaml_payload regexp_ok r data =
     (if rs_Format r = FormatYAML then
        (case yaml_payload data of
           YamlError err \<Rightarrow> Some (Wrapf ''resource %q: invalid yaml rule provider: %w'' [rs_ID r] (Errorf err []))
         | YamlMultiple \<Rightarrow> Some (Errorf ''resource %q: multiple yaml documents are not supported'' [rs_ID r])
         | YamlTrailing err \<Rightarrow> Some (Wrapf ''resource %q: invalid trailing yaml: %w'' [rs_ID r] (Errorf err []))
         | YamlPayload payload \<Rightarrow>
             if payload = [] then Some (Errorf ''resource %q: yaml rule provider requires a non-empty payload'' [rs_ID r])
             else first_error (map (\<lambda>line. wrap_error ''resource %q: invalid rule: %w'' [rs_ID r]
                    (validateRuleLine regexp_ok (rs_RuleType r) line)) payload))
      else if rs_Format r = FormatText then
        (case scanRules regexp_ok r 0 (split_on (CHR 0x0A) data) of
           Inl err \<Rightarrow> Some err
         | Inr cnt \<Rightarrow> fail_if (cnt = 0) (Errorf ''resource %q: text rule provider has no rules'' [rs_ID r]))
      else if rs_Format r = FormatMRS then
        fail_if (length data < 4 \<or> take 4 data \<noteq> [CHR 0x28, CHR 0xB5, CHR 0x2F, CHR 0xFD])
          (Errorf ''resource %q: invalid mrs binary'' [rs_ID r])
      else Some (Errorf ''resource %q has unsupported format %q'' [rs_ID r, rs_Format r]))"

definition mmdb_marker :: bytes where
  "mmdb_marker = [CHR 0xAB, CHR 0xCD, CHR 0xEF] @ ''MaxMind.com''"

definition Resource_Validate ::
  "(string \<Rightarrow> yaml_result) \<Rightarrow> (string \<Rightarrow> bool) \<Rightarrow> Resource \<Rightarrow> bytes \<Rightarrow> go_error option" where
  "Resource_Validate yaml_payload regexp_ok r data =
     (case ValidateDeclaration r of
        Some err \<Rightarrow> Some err
      | None \<Rightarrow>
          if data = [] then Some (Errorf ''resource %q is empty'' [rs_ID r])
          else if rs_Kind r = ResourceGeoIP \<or> rs_Kind r = ResourceGeoSite then None
          else if rs_Kind r = ResourceMMDB then
            fail_if (\<not> strings_Contains data mmdb_marker) (Errorf ''resource %q is not a MaxMind database'' [rs_ID r])
          else if rs_Kind r = ResourceRuleProvider \<or> rs_Kind r = ResourceRuleSet
          then validateRules yaml_payload regexp_ok r data
          else Some (Errorf ''resource %q has unsupported kind %q'' [rs_ID r, rs_Kind r]))"

section \<open>Properties\<close>

lemma ValidateDeclaration_iff:
  "ValidateDeclaration r = None \<longleftrightarrow> ValidStableID (rs_ID r) \<and> validateResourceFormat r = None"
proof -
  consider (geo) "rs_Kind r = ResourceGeoIP \<or> rs_Kind r = ResourceGeoSite"
    | (mmdb) "rs_Kind r = ResourceMMDB"
    | (rule) "rs_Kind r = ResourceRuleSet \<or> rs_Kind r = ResourceRuleProvider"
    | (other) "rs_Kind r \<notin> set resourceKinds"
    by (auto simp: resourceKinds_def)
  then show ?thesis
  proof cases
    case geo
    then show ?thesis by (simp add: ValidateDeclaration_def validateResourceFormat_def Let_def)
  next
    case mmdb
    moreover have "ResourceMMDB \<noteq> ResourceGeoIP" "ResourceMMDB \<noteq> ResourceGeoSite" by (simp_all add: resource_names)
    ultimately show ?thesis by (simp add: ValidateDeclaration_def validateResourceFormat_def Let_def)
  next
    case rule
    then have "rs_Kind r \<noteq> ResourceGeoIP" "rs_Kind r \<noteq> ResourceGeoSite" "rs_Kind r \<noteq> ResourceMMDB"
      by (auto simp: resource_names)
    with rule show ?thesis
      by (cases "rs_Format r \<in> set ruleFormats")
        (auto simp: ValidateDeclaration_def validateResourceFormat_def Let_def ruleFormats_def)
  next
    case other
    then show ?thesis by (simp add: ValidateDeclaration_def validateResourceFormat_def Let_def resourceKinds_def)
  qed
qed

text \<open>
  The two independent checks of a resource declaration agree: what \<open>config.validateResourceFormat\<close>
  accepts together with the identifier grammar is exactly what \<open>resources.ValidateDeclaration\<close> accepts.
\<close>

theorem declarations_agree:
  "ValidateDeclaration r = None \<longleftrightarrow> ValidStableID (rs_ID r) \<and> validateResourceFormat r = None"
  by (rule ValidateDeclaration_iff)

lemma newPortFrom_spec:
  "0 \<le> n \<Longrightarrow> n \<le> 65535 \<Longrightarrow> newPortFrom n v =
     (let m = foldl (\<lambda>n c. 10 * n + digit_val c) n v in
      if list_all is_digit v \<and> m \<le> 65535 then m else 0)"
proof (induction v arbitrary: n)
  case (Cons r rs)
  show ?case
  proof (cases "is_digit r")
    case True
    then have d: "0 \<le> digit_val r"
      by (auto simp: is_digit_def digit_val_def less_eq_char_def)
    have mono: "0 \<le> k \<Longrightarrow> list_all is_digit ds \<Longrightarrow> k \<le> foldl (\<lambda>n c. 10 * n + digit_val c) k ds" for k ds
    proof (induction ds arbitrary: k)
      case (Cons c ds)
      then have c: "0 \<le> digit_val c" by (auto simp: is_digit_def digit_val_def less_eq_char_def)
      have "k \<le> 10 * k + digit_val c" using Cons.prems(1) c by simp
      also have "\<dots> \<le> foldl (\<lambda>n c. 10 * n + digit_val c) (10 * k + digit_val c) ds"
        using Cons c by (intro Cons.IH) auto
      finally show ?case by simp
    qed simp
    from True d Cons mono [of "10 * n + digit_val r" rs] show ?thesis
      by (auto simp: Let_def mult.commute)
  next
    case False
    then show ?thesis by simp
  qed
qed simp

lemma newPort_spec: "newPort v = (if list_all is_digit v \<and> decimal v \<le> 65535 then decimal v else 0)"
  using newPortFrom_spec [of 0 v] by (simp add: newPort_def decimal_def Let_def)

lemma decimal_nonneg: "list_all is_digit v \<Longrightarrow> 0 \<le> decimal v"
proof -
  have "0 \<le> k \<Longrightarrow> list_all is_digit v \<Longrightarrow> 0 \<le> foldl (\<lambda>n c. 10 * n + digit_val c) k v" for k
    by (induction v arbitrary: k) (auto simp: is_digit_def digit_val_def less_eq_char_def)
  then show "list_all is_digit v \<Longrightarrow> 0 \<le> decimal v" by (simp add: decimal_def)
qed

lemma newPort_range: "0 \<le> newPort v \<and> newPort v \<le> 65535"
  using decimal_nonneg [of v] by (simp add: newPort_spec)

text \<open>
  An accepted port rule is a decimal port between 1 and 65535, or two such ports joined by one
  hyphen, the first not above the second; no wrapped or truncated number is accepted.
\<close>

theorem port_rules_in_range:
  assumes "parsePortOrRange v = Inr w"
  shows "w = v \<and> (\<exists>lo hi. 1 \<le> decimal lo \<and> decimal lo \<le> decimal hi \<and> decimal hi \<le> 65535
    \<and> list_all is_digit lo \<and> list_all is_digit hi \<and> (v = lo @ ''-'' @ hi \<or> v = lo \<and> lo = hi))"
proof -
  have pos: "list_all is_digit p \<and> 1 \<le> decimal p \<and> decimal p \<le> 65535 \<and> newPort p = decimal p" if "newPort p \<noteq> 0" for p
    using that newPort_range [of p] by (auto simp: newPort_spec split: if_splits)
  show ?thesis
  proof (cases "strings_Contains v ''-''")
    case True
    obtain a b where ab: "split_on (CHR ''-'') v = [a, b]"
      using assms True by (auto simp: parsePortOrRange_def Let_def length_Suc_conv numeral_2_eq_2 split: if_splits)
    have v: "v = a @ ''-'' @ b" using join_split [of "CHR ''-''" v] ab by simp
    have "newPort a \<noteq> 0" "newPort a \<le> newPort b" "w = v"
      using assms True ab by (auto simp: parsePortOrRange_def Let_def split: if_splits)
    moreover from this have "newPort b \<noteq> 0" using newPort_range [of a] by auto
    ultimately show ?thesis using pos [of a] pos [of b] v by auto
  next
    case False
    with assms have "newPort v \<noteq> 0" "w = v" by (auto simp: parsePortOrRange_def split: if_splits)
    with pos [of v] show ?thesis by auto
  qed
qed

theorem port_rules_in_range_witness:
  "\<exists>lo hi. 1 \<le> decimal lo \<and> decimal lo \<le> decimal hi \<and> decimal hi \<le> 65535
     \<and> (''80-443'' = lo @ ''-'' @ hi \<or> ''80-443'' = lo \<and> lo = hi)"
proof -
  have "parsePortOrRange ''80-443'' = Inr ''80-443''" by code_simp
  from port_rules_in_range [OF this] show ?thesis by blast
qed

end
