(* ===== verification/Filters_Registry.thy ===== *)
theory Filters_Registry
  imports Resources_Validate
begin

text \<open>
  The filter registry (\<open>src/filters/registry.go\<close>): rule providers derived from the enabled rule
  resources, and the references of the enabled filters to them. \<open>managedPaths\<close> is the map of managed
  files; \<open>regular_file\<close> says that \<open>os.Lstat\<close> finds a regular file that is no symbolic link.

  The providers are sorted by name with \<open>sort.Slice\<close>. Names are distinct because identifiers are, so
  that the result does not depend on the sorting algorithm (\<open>sort_Slice_key\<close> of \<open>Go_Base\<close>).
\<close>

section \<open>Model\<close>

record Provider =
  pv_Name :: string
  pv_ID :: string
  pv_Path :: string
  pv_Behavior :: string
  pv_Format :: string

record Reference =
  rf_FilterID :: string
  rf_ResourceID :: string
  rf_Provider :: string
  rf_Target :: string

text \<open>The maps \<open>byID\<close> and \<open>byFilter\<close> hold the providers and references under their identifiers.\<close>

record Registry =
  rg_providers :: "Provider list"
  rg_byID :: "(string \<times> Provider) list"
  rg_references :: "Reference list"
  rg_byFilter :: "(string \<times> Reference) list"

definition provider_Name :: "string \<Rightarrow> string" where
  "provider_Name resourceID = (if \<not> ValidStableID resourceID then '''' else ''managed-'' @ resourceID)"

definition validTarget :: "string \<Rightarrow> bool" where
  "validTarget target \<longleftrightarrow>
     target \<noteq> '''' \<and> strings_TrimSpace target = target \<and> \<not> strings_ContainsAny target target_reject_chars"

type_synonym managed_paths = "string \<Rightarrow> string"

text \<open>The checks on the managed file of one rule resource; \<open>home\<close> is the directory seen first.\<close>

definition checkManaged ::
  "(string \<Rightarrow> string) \<Rightarrow> (string \<Rightarrow> bool) \<Rightarrow> managed_paths \<Rightarrow> string \<Rightarrow> Resource \<Rightarrow> go_error option" where
  "checkManaged sha256_hex regular_file managedPaths home resource =
     (let path = managedPaths (rs_ID resource) in
      first_error
       [wrap_error ''filters: resource %q has invalid declaration: %w'' [rs_ID resource] (ValidateDeclaration resource),
        fail_if (path = '''' \<or> \<not> filepath_IsAbs path \<or> filepath_Base path \<noteq> ManagedFilename sha256_hex resource)
          (Errorf ''filters: resource %q has no registry destination'' [rs_ID resource]),
        fail_if (home \<noteq> '''' \<and> filepath_Dir path \<noteq> home)
          (Errorf ''filters: rule resources do not share one managed home'' []),
        fail_if (\<not> regular_file path) (Errorf ''filters: resource %q path is not a regular managed file'' [rs_ID resource])])"

definition usesProvider :: "Resource \<Rightarrow> bool" where
  "usesProvider resource \<longleftrightarrow> rs_Enabled resource \<and> isRuleKind (rs_Kind resource)"

definition providerOf :: "managed_paths \<Rightarrow> Resource \<Rightarrow> Provider" where
  "providerOf managedPaths resource =
     \<lparr> pv_Name = provider_Name (rs_ID resource), pv_ID = rs_ID resource, pv_Path = managedPaths (rs_ID resource),
       pv_Behavior = rs_RuleType resource, pv_Format = rs_Format resource \<rparr>"

text \<open>The loop over the resources: \<open>seen\<close> holds the identifiers so far, the result the providers.\<close>

fun buildProviders ::
  "(string \<Rightarrow> string) \<Rightarrow> (string \<Rightarrow> bool) \<Rightarrow> managed_paths \<Rightarrow> string list \<Rightarrow> string \<Rightarrow> Resource list
   \<Rightarrow> go_error + Provider list" where
  "buildProviders sha256_hex regular_file managedPaths seen home [] = Inr []"
| "buildProviders sha256_hex regular_file managedPaths seen home (resource # resources) =
     (if \<not> ValidStableID (rs_ID resource) then Inl (Errorf ''filters: invalid resource ID %q'' [rs_ID resource])
      else if rs_ID resource \<in> set seen then Inl (Errorf ''filters: duplicate resource ID %q'' [rs_ID resource])
      else if \<not> usesProvider resource
      then buildProviders sha256_hex regular_file managedPaths (rs_ID resource # seen) home resources
      else
        case checkManaged sha256_hex regular_file managedPaths home resource of
          Some err \<Rightarrow> Inl err
        | None \<Rightarrow>
            (case buildProviders sha256_hex regular_file managedPaths (rs_ID resource # seen)
                    (filepath_Dir (managedPaths (rs_ID resource))) resources of
               Inl err \<Rightarrow> Inl err
             | Inr providers \<Rightarrow> Inr (providerOf managedPaths resource # providers)))"

text \<open>The loop over the filters.\<close>

fun buildReferences ::
  "Resource list \<Rightarrow> (string \<times> Provider) list \<Rightarrow> string list \<Rightarrow> Filter list \<Rightarrow> go_error + Reference list" where
  "buildReferences resources byID seen [] = Inr []"
| "buildReferences resources byID seen (flt # flts) =
     (if \<not> ValidStableID (f_ID flt) then Inl (Errorf ''filters: invalid filter ID %q'' [f_ID flt])
      else if f_ID flt \<in> set seen then Inl (Errorf ''filters: duplicate filter ID %q'' [f_ID flt])
      else if \<not> validTarget (f_Target flt) then Inl (Errorf ''filters: filter %q has invalid target'' [f_ID flt])
      else if \<not> f_Enabled flt then buildReferences resources byID (f_ID flt # seen) flts
      else
        case (resourceByID resources (f_Resource flt), map_of byID (f_Resource flt)) of
          (Some resource, Some provider) \<Rightarrow>
            if f_Format flt \<noteq> rs_Format resource
            then Inl (Errorf ''filters: filter %q requires an enabled compatible rule resource'' [f_ID flt])
            else
              (case buildReferences resources byID (f_ID flt # seen) flts of
                 Inl err \<Rightarrow> Inl err
               | Inr references \<Rightarrow>
                   Inr (\<lparr> rf_FilterID = f_ID flt, rf_ResourceID = rs_ID resource, rf_Provider = pv_Name provider,
                          rf_Target = f_Target flt \<rparr> # references))
        | _ \<Rightarrow> Inl (Errorf ''filters: filter %q requires an enabled compatible rule resource'' [f_ID flt]))"

definition Filters_Build ::
  "(string \<Rightarrow> string) \<Rightarrow> (string \<Rightarrow> bool) \<Rightarrow> Snapshot \<Rightarrow> managed_paths \<Rightarrow> go_error + Registry" where
  "Filters_Build sha256_hex regular_file snapshot managedPaths =
     (case buildProviders sha256_hex regular_file managedPaths [] '''' (c_Resources snapshot) of
        Inl err \<Rightarrow> Inl err
      | Inr providers \<Rightarrow>
          let byID = map (\<lambda>p. (pv_ID p, p)) providers in
          (case buildReferences (c_Resources snapshot) byID [] (c_Filters snapshot) of
             Inl err \<Rightarrow> Inl err
           | Inr references \<Rightarrow>
               Inr \<lparr> rg_providers = sort_key pv_Name providers, rg_byID = byID, rg_references = references,
                     rg_byFilter = map (\<lambda>r. (rf_FilterID r, r)) references \<rparr>))"

text \<open>A nil registry is \<open>None\<close>.\<close>

definition RuleSetReference :: "Registry option \<Rightarrow> string \<Rightarrow> go_error + string" where
  "RuleSetReference r filterID =
     (case r of
        None \<Rightarrow> Inl (Errorf ''filters: nil registry'' [])
      | Some registry \<Rightarrow>
          (case map_of (rg_byFilter registry) filterID of
             None \<Rightarrow> Inl (Errorf ''filters: filter %q is not enabled'' [filterID])
           | Some reference \<Rightarrow> Inr (''RULE-SET,'' @ rf_Provider reference @ '','' @ rf_Target reference)))"

definition DNSRuleSetKey :: "Registry option \<Rightarrow> string \<Rightarrow> go_error + string" where
  "DNSRuleSetKey r resourceID =
     (case r of
        None \<Rightarrow> Inl (Errorf ''filters: nil registry'' [])
      | Some registry \<Rightarrow>
          (case map_of (rg_byID registry) resourceID of
             None \<Rightarrow> Inl (Errorf ''filters: resource %q is not an enabled domain rule-set'' [resourceID])
           | Some provider \<Rightarrow>
               if pv_Behavior provider \<noteq> RuleDomain
               then Inl (Errorf ''filters: resource %q is not an enabled domain rule-set'' [resourceID])
               else Inr (''rule-set:'' @ pv_Name provider)))"

definition Registry_Providers :: "Registry option \<Rightarrow> Provider list" where
  "Registry_Providers r = (case r of None \<Rightarrow> [] | Some registry \<Rightarrow> rg_providers registry)"

definition Registry_References :: "Registry option \<Rightarrow> Reference list" where
  "Registry_References r = (case r of None \<Rightarrow> [] | Some registry \<Rightarrow> rg_references registry)"

section \<open>What a build yields\<close>

lemma buildProviders_Inr:
  assumes "buildProviders sha fs paths seen home rs = Inr providers"
  shows "providers = map (providerOf paths) (filter usesProvider rs) \<and> distinct (map rs_ID rs)
    \<and> set (map rs_ID rs) \<inter> set seen = {} \<and> list_all (\<lambda>r. ValidStableID (rs_ID r)) rs
    \<and> list_all (\<lambda>r. checkManaged sha fs paths '''' r = None) (filter usesProvider rs)"
  using assms
proof (induction rs arbitrary: seen home providers)
  case (Cons r rs)
  have ok: "ValidStableID (rs_ID r)" "rs_ID r \<notin> set seen"
    using Cons.prems by (auto split: if_splits)
  show ?case
  proof (cases "usesProvider r")
    case False
    with Cons.prems ok have "buildProviders sha fs paths (rs_ID r # seen) home rs = Inr providers" by simp
    from Cons.IH [OF this] False ok show ?thesis by auto
  next
    case True
    with Cons.prems ok obtain ps where ps: "buildProviders sha fs paths (rs_ID r # seen) (filepath_Dir (paths (rs_ID r))) rs = Inr ps"
        "providers = providerOf paths r # ps" and chk: "checkManaged sha fs paths home r = None"
      by (auto split: option.splits sum.splits)
    from chk have "checkManaged sha fs paths '''' r = None" by (simp add: checkManaged_def Let_def)
    with Cons.IH [OF ps(1)] ps(2) True ok show ?thesis by auto
  qed
qed simp

text \<open>What the references of a list of filters are, given that all of them resolve.\<close>

definition referenceOf :: "Filter \<Rightarrow> Reference" where
  "referenceOf flt = \<lparr> rf_FilterID = f_ID flt, rf_ResourceID = f_Resource flt, rf_Provider = provider_Name (f_Resource flt),
     rf_Target = f_Target flt \<rparr>"

definition resolves :: "Resource list \<Rightarrow> Filter \<Rightarrow> bool" where
  "resolves resources flt \<longleftrightarrow>
     (case resourceByID resources (f_Resource flt) of
        None \<Rightarrow> False | Some r \<Rightarrow> usesProvider r \<and> f_Format flt = rs_Format r)"

lemma resourceByID_ID: "resourceByID rs ident = Some r \<Longrightarrow> rs_ID r = ident \<and> r \<in> set rs"
  by (auto simp: resourceByID_def find_Some_iff)

lemma byID_lookup:
  assumes "distinct (map rs_ID rs)"
  shows "map_of (map (\<lambda>p. (pv_ID p, p)) (map (providerOf paths) (filter usesProvider rs))) ident =
    (case resourceByID rs ident of None \<Rightarrow> None | Some r \<Rightarrow> if usesProvider r then Some (providerOf paths r) else None)"
  using assms
proof (induction rs)
  case (Cons r rs)
  have "resourceByID rs ident = None" if "rs_ID r = ident"
    using that Cons.prems unfolding resourceByID_def find_None_iff by (auto simp: image_iff)
  with Cons show ?case by (auto simp: resourceByID_def providerOf_def)
qed (simp add: resourceByID_def)

lemma buildReferences_iff:
  fixes rs :: "Resource list" and paths :: managed_paths
  assumes "distinct (map rs_ID rs)"
  defines "byID \<equiv> map (\<lambda>p. (pv_ID p, p)) (map (providerOf paths) (filter usesProvider rs))"
  shows "buildReferences rs byID seen flts = Inr refs \<longleftrightarrow>
    list_all (\<lambda>f. ValidStableID (f_ID f) \<and> validTarget (f_Target f)) flts \<and> distinct (map f_ID flts)
    \<and> set (map f_ID flts) \<inter> set seen = {} \<and> list_all (resolves rs) (filter f_Enabled flts)
    \<and> refs = map referenceOf (filter f_Enabled flts)"
proof (induction flts arbitrary: seen refs)
  case (Cons f flts)
  let ?own = "ValidStableID (f_ID f) \<and> f_ID f \<notin> set seen \<and> validTarget (f_Target f)"
  show ?case
  proof (cases ?own)
    case False
    then show ?thesis by auto
  next
    case own: True
    show ?thesis
    proof (cases "f_Enabled f")
      case False
      with own Cons.IH [of "f_ID f # seen" refs] show ?thesis by auto
    next
      case en: True
      note look = byID_lookup [OF assms(1), of paths "f_Resource f", folded byID_def]
      show ?thesis
      proof (cases "resolves rs f")
        case True
        then obtain r where r: "resourceByID rs (f_Resource f) = Some r" "usesProvider r" "f_Format f = rs_Format r"
          by (auto simp: resolves_def split: option.splits)
        have head: "\<lparr> rf_FilterID = f_ID f, rf_ResourceID = rs_ID r, rf_Provider = pv_Name (providerOf paths r),
            rf_Target = f_Target f \<rparr> = referenceOf f"
          using resourceByID_ID [OF r(1)] by (simp add: referenceOf_def providerOf_def)
        have "buildReferences rs byID seen (f # flts) = Inr refs \<longleftrightarrow>
            (\<exists>refs'. buildReferences rs byID (f_ID f # seen) flts = Inr refs' \<and> refs = referenceOf f # refs')"
          using own en r look by (auto simp: head split: sum.splits)
        with Cons.IH [of "f_ID f # seen"] own en True show ?thesis by auto
      next
        case False
        then have "buildReferences rs byID seen (f # flts) \<noteq> Inr refs"
          using own en look by (auto simp: resolves_def split: option.splits if_splits)
        with False en show ?thesis by auto
      qed
    qed
  qed
qed auto

lemma provider_Name_inj: "ValidStableID a \<Longrightarrow> ValidStableID b \<Longrightarrow> provider_Name a = provider_Name b \<longleftrightarrow> a = b"
  by (simp add: provider_Name_def)

lemma distinct_provider_names:
  assumes "distinct (map rs_ID rs)" and "list_all (\<lambda>r. ValidStableID (rs_ID r)) rs"
  shows "distinct (map pv_Name (map (providerOf paths) (filter P rs)))"
proof -
  have "inj_on provider_Name (rs_ID ` set (filter P rs))"
    using assms(2) by (auto simp: inj_on_def list_all_iff provider_Name_inj)
  moreover have "distinct (map rs_ID (filter P rs))" using assms(1) by (rule distinct_map_filter)
  ultimately have "distinct (map provider_Name (map rs_ID (filter P rs)))"
    by (simp add: distinct_map comp_inj_on)
  then show ?thesis by (simp add: o_def providerOf_def)
qed

lemma Filters_Build_Inr:
  assumes "Filters_Build sha fs snap paths = Inr reg"
  shows "distinct (map rs_ID (c_Resources snap)) \<and> list_all (\<lambda>r. ValidStableID (rs_ID r)) (c_Resources snap)
    \<and> rg_providers reg = sort_key pv_Name (map (providerOf paths) (filter usesProvider (c_Resources snap)))
    \<and> rg_byFilter reg = map (\<lambda>r. (rf_FilterID r, r)) (rg_references reg)
    \<and> rg_references reg = map referenceOf (filter f_Enabled (c_Filters snap))
    \<and> list_all (\<lambda>r. checkManaged sha fs paths '''' r = None) (filter usesProvider (c_Resources snap))
    \<and> list_all (\<lambda>f. ValidStableID (f_ID f) \<and> validTarget (f_Target f)) (c_Filters snap)
    \<and> list_all (resolves (c_Resources snap)) (filter f_Enabled (c_Filters snap))"
proof -
  from assms obtain ps refs where ps: "buildProviders sha fs paths [] '''' (c_Resources snap) = Inr ps"
    and refs: "buildReferences (c_Resources snap) (map (\<lambda>p. (pv_ID p, p)) ps) [] (c_Filters snap) = Inr refs"
    and reg: "reg = \<lparr> rg_providers = sort_key pv_Name ps, rg_byID = map (\<lambda>p. (pv_ID p, p)) ps, rg_references = refs,
      rg_byFilter = map (\<lambda>r. (rf_FilterID r, r)) refs \<rparr>"
    by (auto simp: Filters_Build_def Let_def split: sum.splits)
  note P = buildProviders_Inr [OF ps]
  then have "distinct (map rs_ID (c_Resources snap))" by simp
  from refs P buildReferences_iff [OF this, of paths "[]" "c_Filters snap" refs] reg show ?thesis by auto
qed

text \<open>
  C31. A built registry is exactly what the configuration asks for: the providers are the enabled rule
  resources in strictly increasing order of their names, each with an absolute path to a regular
  file under its managed name; the references are the enabled filters in configuration order, and
  each names one of these providers.
\<close>

theorem registry_complete:
  assumes "Filters_Build sha256_hex regular_file snapshot managedPaths = Inr registry"
  shows "sorted_wrt (<) (map pv_Name (rg_providers registry))
    \<and> set (rg_providers registry)
        = providerOf managedPaths ` {r \<in> set (c_Resources snapshot). rs_Enabled r \<and> isRuleKind (rs_Kind r)}
    \<and> list_all (\<lambda>p. filepath_IsAbs (pv_Path p) \<and> regular_file (pv_Path p)) (rg_providers registry)
    \<and> rg_references registry = map referenceOf (filter f_Enabled (c_Filters snapshot))
    \<and> rf_Provider ` set (rg_references registry) \<subseteq> pv_Name ` set (rg_providers registry)"
proof -
  let ?ps = "map (providerOf managedPaths) (filter usesProvider (c_Resources snapshot))"
  note B = Filters_Build_Inr [OF assms]
  have prov: "rg_providers registry = sort_key pv_Name ?ps" using B by simp
  have "distinct (map pv_Name ?ps)" using B by (intro distinct_provider_names) auto
  then have "distinct (map pv_Name (rg_providers registry))"
    by (metis prov mset_eq_imp_distinct_iff mset_map mset_sort)
  moreover have "sorted (map pv_Name (rg_providers registry))" by (simp add: prov)
  ultimately have "sorted_wrt (<) (map pv_Name (rg_providers registry))"
    by (simp add: strict_sorted_iff)
  moreover have "list_all (\<lambda>p. filepath_IsAbs (pv_Path p) \<and> regular_file (pv_Path p)) (rg_providers registry)"
    using B by (auto simp: prov list_all_iff checkManaged_def Let_def providerOf_def)
  moreover have "rf_Provider ` set (rg_references registry) \<subseteq> pv_Name ` set (rg_providers registry)"
  proof -
    have "provider_Name (f_Resource f) \<in> pv_Name ` set ?ps" if "f \<in> set (c_Filters snapshot)" "f_Enabled f" for f
    proof -
      from that B have "resolves (c_Resources snapshot) f" by (auto simp: list_all_iff)
      then obtain r where r: "resourceByID (c_Resources snapshot) (f_Resource f) = Some r" "usesProvider r"
        by (auto simp: resolves_def split: option.splits)
      from resourceByID_ID [OF r(1)] r(2) show ?thesis by (force simp: providerOf_def)
    qed
    with B prov show ?thesis by (auto simp: referenceOf_def)
  qed
  ultimately show ?thesis using B prov by (auto simp: usesProvider_def)
qed

text \<open>
  A rule the registry hands out always reads as three fields: \<open>RULE-SET\<close>, the provider of the
  filter's resource and the filter's target. Neither an identifier nor a target can add a field or a
  line to it.
\<close>

theorem rule_reference_fields:
  assumes "Filters_Build sha256_hex regular_file snapshot managedPaths = Inr registry"
    and "RuleSetReference (Some registry) filterID = Inr rule"
  shows "\<exists>flt. flt \<in> set (c_Filters snapshot) \<and> f_Enabled flt \<and> f_ID flt = filterID
    \<and> split_on (CHR '','') rule = [''RULE-SET'', ''managed-'' @ f_Resource flt, f_Target flt]
    \<and> CHR 0x0A \<notin> set rule"
proof -
  note B = Filters_Build_Inr [OF assms(1)]
  from assms(2) obtain ref where ref: "map_of (rg_byFilter registry) filterID = Some ref"
      and rule: "rule = ''RULE-SET,'' @ rf_Provider ref @ '','' @ rf_Target ref"
    by (auto simp: RuleSetReference_def split: option.splits)
  from map_of_SomeD [OF ref] B obtain flt where flt: "flt \<in> set (c_Filters snapshot)" "f_Enabled flt" "f_ID flt = filterID"
      "ref = referenceOf flt"
    by (auto simp: referenceOf_def)
  from B flt have "resolves (c_Resources snapshot) flt" and tgt: "validTarget (f_Target flt)"
    by (auto simp: list_all_iff)
  then obtain r where r: "resourceByID (c_Resources snapshot) (f_Resource flt) = Some r"
    by (auto simp: resolves_def split: option.splits)
  have ids: "ValidStableID (f_Resource flt)"
    using resourceByID_ID [OF r] B by (auto simp: list_all_iff)
  then have safe: "CHR '','' \<notin> set (f_Resource flt)" "CHR 0x0A \<notin> set (f_Resource flt)"
    using stable_id_chars [OF ids] by auto
  have target: "CHR '','' \<notin> set (f_Target flt)" "CHR 0x0A \<notin> set (f_Target flt)"
    using tgt by (auto simp: validTarget_def strings_ContainsAny_def target_reject_chars_def)
  have rule': "rule = ''RULE-SET'' @ CHR '','' # (''managed-'' @ f_Resource flt) @ CHR '','' # f_Target flt"
    using rule flt(4) ids by (simp add: referenceOf_def provider_Name_def)
  have "split_on (CHR '','') rule = [''RULE-SET'', ''managed-'' @ f_Resource flt, f_Target flt]"
    unfolding rule' using safe target by (simp add: split_on_append split_on_single del: append.simps append_assoc)
  with flt safe target rule' show ?thesis by auto
qed

section \<open>A concrete registry\<close>

definition exResource :: Resource where
  "exResource = \<lparr> rs_ID = ''ads'', rs_Kind = ResourceRuleSet, rs_Format = FormatText, rs_RuleType = RuleDomain,
     rs_URL = ''/ads.txt'', rs_Enabled = True, rs_Interval = Hour, rs_SHA256 = '''' \<rparr>"

definition exFilters :: Snapshot where
  "exFilters = exApp\<lparr> c_Resources := [exResource],
     c_Filters := [\<lparr> f_ID = ''block'', f_Resource = ''ads'', f_Format = FormatText, f_Target = ''REJECT'', f_Enabled = True \<rparr>] \<rparr>"

definition exSha :: "string \<Rightarrow> string" where
  "exSha s = ''sha-'' @ s"

definition exPaths :: managed_paths where
  "exPaths ident = (if ident = ''ads'' then ''/home/sha-ads.txt'' else '''')"

definition exRegistry :: Registry where
  "exRegistry = projr (Filters_Build exSha (\<lambda>p. p = ''/home/sha-ads.txt'') exFilters exPaths)"

lemma exRegistry_built: "Filters_Build exSha (\<lambda>p. p = ''/home/sha-ads.txt'') exFilters exPaths = Inr exRegistry"
proof -
  have "\<not> isl (Filters_Build exSha (\<lambda>p. p = ''/home/sha-ads.txt'') exFilters exPaths)" by code_simp
  then show ?thesis by (simp add: exRegistry_def)
qed

theorem registry_complete_witness: "rg_references exRegistry = map referenceOf (filter f_Enabled (c_Filters exFilters))"
  using registry_complete [OF exRegistry_built] by blast

theorem rule_reference_fields_witness:
  "split_on (CHR '','') ''RULE-SET,managed-ads,REJECT'' = [''RULE-SET'', ''managed-ads'', ''REJECT'']"
proof -
  have "RuleSetReference (Some exRegistry) ''block'' = Inr ''RULE-SET,managed-ads,REJECT''" by code_simp
  from rule_reference_fields [OF exRegistry_built this] show ?thesis by (auto simp: exFilters_def)
qed

end
