(* ===== verification/Dns_Policy.thy ===== *)
theory Dns_Policy
  imports Filters_Registry
begin

text \<open>
  DNS routing (\<open>src/dns/policy.go\<close>): the endpoint parser, the policy built from resolver sets and
  routes, the check before promotion, and the packet of the DNSCrypt probe. The network exchange of
  \<open>probeDNSCrypt\<close> is a parameter of \<open>DNS_Validate\<close>.
\<close>

section \<open>Endpoints\<close>

record endpoint =
  ep_host :: string
  ep_port :: string
  ep_network :: string

definition parseEndpoint :: "url_parser \<Rightarrow> string \<Rightarrow> go_error + endpoint" where
  "parseEndpoint url_Parse raw =
     (if \<not> strings_Contains raw ''://'' then
        (case net_SplitHostPort raw of
           None \<Rightarrow> Inl (Errorf ''dns: invalid resolver endpoint'' [])
         | Some (host, port) \<Rightarrow>
             if host = '''' \<or> \<not> validPort port then Inl (Errorf ''dns: invalid resolver endpoint'' [])
             else Inr \<lparr> ep_host = host, ep_port = normal_port port, ep_network = ''udp'' \<rparr>)
      else
        case url_Parse raw of
          None \<Rightarrow> Inl (Errorf ''dns: invalid resolver endpoint'' [])
        | Some u \<Rightarrow>
            let network = strings_ToLower (u_Scheme u);
                port = (if u_Port u = '''' then defaultPort network else u_Port u)
            in if u_User u \<or> u_Host u = '''' \<or> u_Opaque u \<noteq> '''' then Inl (Errorf ''dns: invalid resolver endpoint'' [])
               else if network \<notin> set endpointSchemes then Inl (Errorf ''dns: unsupported resolver scheme %q'' [network])
               else if u_Hostname u = '''' then Inl (Errorf ''dns: invalid resolver host'' [])
               else if \<not> validPort port then Inl (Errorf ''dns: invalid resolver port'' [])
               else if network \<noteq> ''https'' \<and> u_Path u \<noteq> '''' \<and> u_Path u \<noteq> ''/''
               then Inl (Errorf ''dns: unexpected resolver path'' [])
               else Inr \<lparr> ep_host = u_Hostname u, ep_port = normal_port port, ep_network = network \<rparr>)"

definition validateListen :: "string \<Rightarrow> go_error option" where
  "validateListen address =
     fail_if (\<not> loopbackListen address) (Errorf ''dns: listen address must be loopback with a valid port'' [])"

section \<open>Build\<close>

definition checkSetEndpoint :: "url_parser \<Rightarrow> ResolverSet \<Rightarrow> string \<Rightarrow> go_error option" where
  "checkSetEndpoint url_Parse rset raw =
     (case parseEndpoint url_Parse raw of
        Inl err \<Rightarrow> Some (Wrapf ''dns: resolver set %q: %w'' [rset_ID rset] err)
      | Inr parsed \<Rightarrow>
          fail_if (rset_DNSCrypt rset \<and> (\<not> isLoopbackHost (ep_host parsed)
                   \<or> (ep_network parsed \<noteq> ''udp'' \<and> ep_network parsed \<noteq> ''tcp'')))
            (Errorf ''dns: DNSCrypt listener must be a loopback UDP or TCP endpoint'' []))"

text \<open>The map \<open>sets\<close> from identifiers to endpoints.\<close>

fun buildSets :: "url_parser \<Rightarrow> (string \<times> string list) list \<Rightarrow> ResolverSet list \<Rightarrow> go_error + (string \<times> string list) list" where
  "buildSets url_Parse sets [] = Inr sets"
| "buildSets url_Parse sets (rset # rsets) =
     (if \<not> ValidStableID (rset_ID rset) \<or> rset_Endpoints rset = []
      then Inl (Errorf ''dns: invalid or empty resolver set %q'' [rset_ID rset])
      else if map_of sets (rset_ID rset) \<noteq> None then Inl (Errorf ''dns: duplicate resolver set %q'' [rset_ID rset])
      else case first_error (map (checkSetEndpoint url_Parse rset) (rset_Endpoints rset)) of
             Some err \<Rightarrow> Inl err
           | None \<Rightarrow> buildSets url_Parse ((rset_ID rset, rset_Endpoints rset) # sets) rsets)"

fun checkResourceIDs :: "string list \<Rightarrow> Resource list \<Rightarrow> go_error option" where
  "checkResourceIDs seen [] = None"
| "checkResourceIDs seen (resource # resources) =
     (if \<not> ValidStableID (rs_ID resource) then Some (Errorf ''dns: invalid resource ID %q'' [rs_ID resource])
      else if rs_ID resource \<in> set seen then Some (Errorf ''dns: duplicate resource ID %q'' [rs_ID resource])
      else checkResourceIDs (rs_ID resource # seen) resources)"

definition checkListenLoop :: "url_parser \<Rightarrow> string \<Rightarrow> string \<Rightarrow> bool \<Rightarrow> string \<Rightarrow> go_error option" where
  "checkListenLoop url_Parse listenHost listenPort dnscrypt raw =
     (case parseEndpoint url_Parse raw of
        Inl err \<Rightarrow> Some err
      | Inr parsed \<Rightarrow>
          if dnscrypt \<and> \<not> isLoopbackHost (ep_host parsed)
          then Some (Errorf ''dns: DNSCrypt listener must be loopback'' [])
          else if ep_port parsed = listenPort \<and> isLoopbackHost (ep_host parsed) \<and> isLocalListenHost listenHost
          then Some (Errorf ''dns: resolver endpoint %q loops back to dns.listen'' [raw])
          else None)"

definition checkListenLoops :: "url_parser \<Rightarrow> DNS \<Rightarrow> go_error option" where
  "checkListenLoops url_Parse d =
     (let (listenHost, listenPort) = (case net_SplitHostPort (dns_Listen d) of None \<Rightarrow> ('''', '''') | Some hp \<Rightarrow> hp) in
      first_error (concat (map (\<lambda>rset.
        map (checkListenLoop url_Parse listenHost (normal_port listenPort) (rset_DNSCrypt rset)) (rset_Endpoints rset))
        (dns_ResolverSets d))))"

text \<open>The key of a route: a later matcher overrides an earlier one before the count is checked.\<close>

definition routeKey :: "DNSRoute \<Rightarrow> string" where
  "routeKey route =
     (if rt_Resource route \<noteq> '''' then ''rule-set:'' @ provider_Name (rt_Resource route)
      else if rt_GeoSite route \<noteq> '''' then ''geosite:'' @ rt_GeoSite route
      else if rt_Suffix route \<noteq> '''' then ''+.'' @ strings_TrimPrefix (strings_TrimSuffix (rt_Suffix route) ''.'') ''.''
      else '''')"

definition checkDNSRoute :: "(string \<times> string list) list \<Rightarrow> Resource list \<Rightarrow> DNSRoute \<Rightarrow> go_error option" where
  "checkDNSRoute sets resources route =
     (let resource = resourceByID resources (rt_Resource route) in
      first_error
       [fail_if (\<not> ValidStableID (rt_ResolverSet route)) (Errorf ''dns: route has no valid resolver set'' []),
        fail_if (map_of sets (rt_ResolverSet route) = None) (Errorf ''dns: unknown resolver set %q'' [rt_ResolverSet route]),
        fail_if (rt_Suffix route \<noteq> '''' \<and> \<not> ValidDomain (rt_Suffix route))
          (Errorf ''dns: invalid suffix %q'' [rt_Suffix route]),
        fail_if (rt_GeoSite route \<noteq> '''' \<and> \<not> ValidRuleToken (rt_GeoSite route))
          (Errorf ''dns: invalid GeoSite selector %q'' [rt_GeoSite route]),
        fail_if (rt_Resource route \<noteq> '''' \<and> \<not> domainRuleSet resource)
          (Errorf ''dns: route resource %q must be an enabled domain rule-set'' [rt_Resource route]),
        wrap_error ''dns: route resource %q has an invalid declaration: %w'' [rt_Resource route]
          (if rt_Resource route \<noteq> '''' then ValidateDeclaration (the resource) else None),
        fail_if (count_matchers route \<noteq> 1)
          (Errorf ''dns: route must select exactly one suffix, GeoSite, or domain rule-set resource'' [])])"

fun buildRoutes ::
  "(string \<times> string list) list \<Rightarrow> Resource list \<Rightarrow> (string \<times> string list) list \<Rightarrow> DNSRoute list
   \<Rightarrow> go_error + (string \<times> string list) list" where
  "buildRoutes sets resources policy [] = Inr policy"
| "buildRoutes sets resources policy (route # routes) =
     (case checkDNSRoute sets resources route of
        Some err \<Rightarrow> Inl err
      | None \<Rightarrow>
          if map_of policy (routeKey route) \<noteq> None
          then Inl (Errorf ''dns: duplicate route matcher %q'' [routeKey route])
          else buildRoutes sets resources (policy @ [(routeKey route, the (map_of sets (rt_ResolverSet route)))]) routes)"

text \<open>The policy is the association list of its map, in the order of the routes.\<close>

definition DNS_Build :: "url_parser \<Rightarrow> Snapshot \<Rightarrow> go_error + (string \<times> string list) list" where
  "DNS_Build url_Parse snapshot =
     (case validateListen (dns_Listen (c_DNS snapshot)) of
        Some err \<Rightarrow> Inl err
      | None \<Rightarrow>
          (case buildSets url_Parse [] (dns_ResolverSets (c_DNS snapshot)) of
             Inl err \<Rightarrow> Inl err
           | Inr sets \<Rightarrow>
               (case first_error [checkResourceIDs [] (c_Resources snapshot), checkListenLoops url_Parse (c_DNS snapshot)] of
                  Some err \<Rightarrow> Inl err
                | None \<Rightarrow> buildRoutes sets (c_Resources snapshot) [] (dns_Routes (c_DNS snapshot)))))"

definition SortedKeys :: "(string \<times> string list) list \<Rightarrow> string list" where
  "SortedKeys policy = sort (map fst policy)"

section \<open>Validate\<close>

text \<open>The loop over the routes that use a rule-set; \<open>home\<close> is the directory seen first.\<close>

fun checkRoutePaths ::
  "(string \<Rightarrow> string) \<Rightarrow> (string \<Rightarrow> bool) \<Rightarrow> managed_paths \<Rightarrow> Resource list \<Rightarrow> string \<Rightarrow> DNSRoute list \<Rightarrow> go_error option" where
  "checkRoutePaths sha256_hex regular_file managedPaths resources home [] = None"
| "checkRoutePaths sha256_hex regular_file managedPaths resources home (route # routes) =
     (if rt_Resource route = '''' then checkRoutePaths sha256_hex regular_file managedPaths resources home routes
      else
        let path = managedPaths (rt_Resource route) in
        if path = '''' \<or> \<not> filepath_IsAbs path
        then Some (Errorf ''dns: required rule-set resource %q has no managed absolute path'' [rt_Resource route])
        else if filepath_Base path \<noteq> ManagedFilename sha256_hex (the (resourceByID resources (rt_Resource route)))
        then Some (Errorf ''dns: rule-set resource %q path is not its registry destination'' [rt_Resource route])
        else if home \<noteq> '''' \<and> filepath_Dir path \<noteq> home
        then Some (Errorf ''dns: rule-set resources do not share one managed home'' [])
        else if \<not> regular_file path
        then Some (Errorf ''dns: required rule-set resource %q is unavailable'' [rt_Resource route])
        else checkRoutePaths sha256_hex regular_file managedPaths resources
               (if home = '''' then filepath_Dir path else home) routes)"

definition probeSets :: "url_parser \<Rightarrow> (endpoint \<Rightarrow> go_error option) \<Rightarrow> ResolverSet list \<Rightarrow> go_error option" where
  "probeSets url_Parse probeDNSCrypt rsets =
     first_error (concat (map (\<lambda>rset. map (\<lambda>raw.
       case parseEndpoint url_Parse raw of
         Inl err \<Rightarrow> Some err
       | Inr parsed \<Rightarrow>
           if \<not> rset_DNSCrypt rset then None
           else wrap_error ''dns: configured DNSCrypt listener %q is unavailable: %w'' [raw] (probeDNSCrypt parsed))
       (rset_Endpoints rset)) rsets))"

definition DNS_Validate ::
  "url_parser \<Rightarrow> (string \<Rightarrow> string) \<Rightarrow> (string \<Rightarrow> bool) \<Rightarrow> (endpoint \<Rightarrow> go_error option) \<Rightarrow> Snapshot \<Rightarrow> managed_paths
   \<Rightarrow> go_error option" where
  "DNS_Validate url_Parse sha256_hex regular_file probeDNSCrypt snapshot managedPaths =
     (case DNS_Build url_Parse snapshot of
        Inl err \<Rightarrow> Some err
      | Inr _ \<Rightarrow>
          first_error
           [checkRoutePaths sha256_hex regular_file managedPaths (c_Resources snapshot) '''' (dns_Routes (c_DNS snapshot)),
            probeSets url_Parse probeDNSCrypt (dns_ResolverSets (c_DNS snapshot))])"

section \<open>The probe packet\<close>

text \<open>The two random bytes are the argument; the result is the query and its identifier.\<close>

definition dnsProbeQuery :: "char \<Rightarrow> char \<Rightarrow> bytes \<times> int" where
  "dnsProbeQuery b0 b1 =
     (let ident = getUint16 [b0, b1] in
      (putUint16 ident @ map byte [1, 0, 0, 1, 0, 0, 0, 0, 0, 0]
       @ byte 10 # ''clashpulse'' @ byte 7 # ''invalid'' @ map byte [0, 0, 1, 0, 1], ident))"

definition validateDNSResponse :: "bytes \<Rightarrow> int \<Rightarrow> go_error option" where
  "validateDNSResponse response ident =
     fail_if (length response < 12 \<or> getUint16 (take 2 response) \<noteq> ident
              \<or> getUint16 (take 2 (drop 2 response)) mod 2 ^ 16 < 2 ^ 15)
       (Errorf ''dns: invalid DNS probe response'' [])"

text \<open>The TCP branch of the probe: a length prefix, and the bounds on the length of the answer.\<close>

definition tcpPacket :: "bytes \<Rightarrow> bytes" where
  "tcpPacket query = putUint16 (int (length query) mod 2 ^ 16) @ query"

definition tcpResponse :: "bytes \<Rightarrow> go_error + bytes" where
  "tcpResponse stream =
     (if length stream < 2 then Inl (Errorf ''unexpected EOF'' [])
      else
        let len = nat (getUint16 (take 2 stream)) in
        if len < 12 \<or> len > 4096 then Inl (Errorf ''dns: invalid DNS response length'' [])
        else if length (drop 2 stream) < len then Inl (Errorf ''unexpected EOF'' [])
        else Inr (take len (drop 2 stream)))"

section \<open>Agreement with the configuration check\<close>

lemma parsers_agree:
  "parseEndpoint url_Parse raw = Inr e \<longleftrightarrow> parseResolverEndpoint url_Parse raw = Inr (ep_host e, ep_port e, ep_network e)"
proof (cases "strings_Contains raw ''://''")
  case False
  then show ?thesis
    by (auto simp: parseEndpoint_def parseResolverEndpoint_def split: option.splits)
next
  case True
  show ?thesis
  proof (cases "url_Parse raw")
    case None
    with True show ?thesis by (simp add: parseEndpoint_def parseResolverEndpoint_def)
  next
    case (Some u)
    have "\<lparr> ep_host = h, ep_port = p, ep_network = n \<rparr> = e \<longleftrightarrow> (h, p, n) = (ep_host e, ep_port e, ep_network e)" for h p n
      by (cases e) simp
    with True Some show ?thesis by (auto simp: parseEndpoint_def parseResolverEndpoint_def Let_def)
  qed
qed

lemma validateResolverEndpoint_parse:
  "validateResolverEndpoint url_Parse raw = None \<longleftrightarrow> (\<exists>e. parseEndpoint url_Parse raw = Inr e)"
proof
  assume "validateResolverEndpoint url_Parse raw = None"
  then obtain h p n where "parseResolverEndpoint url_Parse raw = Inr (h, p, n)"
    by (auto simp: validateResolverEndpoint_def split: sum.splits)
  then show "\<exists>e. parseEndpoint url_Parse raw = Inr e"
    by (intro exI [of _ "\<lparr> ep_host = h, ep_port = p, ep_network = n \<rparr>"]) (simp add: parsers_agree)
next
  assume "\<exists>e. parseEndpoint url_Parse raw = Inr e"
  then show "validateResolverEndpoint url_Parse raw = None"
    by (auto simp: parsers_agree validateResolverEndpoint_def)
qed

lemma checkSetEndpoint_None:
  "checkSetEndpoint url_Parse rset raw = None \<longleftrightarrow>
     validateResolverEndpoint url_Parse raw = None \<and> (rset_DNSCrypt rset \<longrightarrow> dnscrypt_ok url_Parse raw)"
proof (cases "parseEndpoint url_Parse raw")
  case (Inl err)
  with validateResolverEndpoint_parse [of url_Parse raw] show ?thesis by (simp add: checkSetEndpoint_def)
next
  case (Inr e)
  with parsers_agree [of url_Parse raw e] show ?thesis
    by (auto simp: checkSetEndpoint_def dnscrypt_ok_def validateResolverEndpoint_def)
qed

lemma checkListenLoop_None:
  assumes "net_SplitHostPort listen = Some (h, p)" and "isLocalListenHost h"
  shows "checkListenLoop url_Parse h (normal_port p) False raw = None \<longleftrightarrow>
    validateResolverEndpoint url_Parse raw = None \<and> \<not> loops_back url_Parse listen raw"
    and "dnscrypt_ok url_Parse raw \<Longrightarrow> checkListenLoop url_Parse h (normal_port p) True raw = None \<longleftrightarrow>
    \<not> loops_back url_Parse listen raw"
proof -
  have "(checkListenLoop url_Parse h (normal_port p) False raw = None \<longleftrightarrow>
      validateResolverEndpoint url_Parse raw = None \<and> \<not> loops_back url_Parse listen raw)
    \<and> (dnscrypt_ok url_Parse raw \<longrightarrow> (checkListenLoop url_Parse h (normal_port p) True raw = None \<longleftrightarrow>
      \<not> loops_back url_Parse listen raw))"
  proof (cases "parseEndpoint url_Parse raw")
    case (Inl err)
    have "parseResolverEndpoint url_Parse raw \<noteq> Inr r" for r
      using parsers_agree [of url_Parse raw "\<lparr> ep_host = fst r, ep_port = fst (snd r), ep_network = snd (snd r) \<rparr>"] Inl by simp
    then have "\<not> dnscrypt_ok url_Parse raw" by (auto simp: dnscrypt_ok_def split: sum.splits)
    with Inl validateResolverEndpoint_parse [of url_Parse raw] show ?thesis by (simp add: checkListenLoop_def)
  next
    case (Inr e)
    with parsers_agree [of url_Parse raw e] assms show ?thesis
      by (auto simp: checkListenLoop_def loops_back_def dnscrypt_ok_def validateResolverEndpoint_def)
  qed
  then show "checkListenLoop url_Parse h (normal_port p) False raw = None \<longleftrightarrow>
      validateResolverEndpoint url_Parse raw = None \<and> \<not> loops_back url_Parse listen raw"
    and "dnscrypt_ok url_Parse raw \<Longrightarrow> checkListenLoop url_Parse h (normal_port p) True raw = None \<longleftrightarrow>
      \<not> loops_back url_Parse listen raw" by auto
qed

lemma buildSets_ok:
  assumes "list_all (resolver_set_ok url_Parse) rsets" and "distinct (map rset_ID rsets)"
    and "set (map rset_ID rsets) \<inter> fst ` set sets = {}"
    and "list_all (\<lambda>rset. list_all (\<lambda>e. checkSetEndpoint url_Parse rset e = None) (rset_Endpoints rset)) rsets"
  shows "buildSets url_Parse sets rsets = Inr (rev (map (\<lambda>r. (rset_ID r, rset_Endpoints r)) rsets) @ sets)"
  using assms
proof (induction rsets arbitrary: sets)
  case (Cons r rsets)
  have "map_of sets (rset_ID r) = None" using Cons.prems(3) by (auto simp: map_of_eq_None_iff)
  moreover have "first_error (map (checkSetEndpoint url_Parse r) (rset_Endpoints r)) = None"
    using Cons.prems(4) by (simp add: list_all_iff)
  moreover have "ValidStableID (rset_ID r)" "rset_Endpoints r \<noteq> []"
    using Cons.prems(1) by (simp_all add: resolver_set_ok_def)
  moreover have "buildSets url_Parse ((rset_ID r, rset_Endpoints r) # sets) rsets =
      Inr (rev (map (\<lambda>r. (rset_ID r, rset_Endpoints r)) rsets) @ (rset_ID r, rset_Endpoints r) # sets)"
    using Cons.prems by (intro Cons.IH) auto
  ultimately show ?case by (simp del: first_error_None)
qed simp

lemma checkResourceIDs_None:
  "checkResourceIDs seen rs = None \<longleftrightarrow>
     list_all (\<lambda>r. ValidStableID (rs_ID r)) rs \<and> distinct (map rs_ID rs) \<and> set (map rs_ID rs) \<inter> set seen = {}"
  by (induction rs arbitrary: seen) auto

text \<open>The policy the routes describe.\<close>

definition policyOf :: "DNS \<Rightarrow> (string \<times> string list) list" where
  "policyOf d = map (\<lambda>route. (routeKey route,
     (case resolverSetByID (dns_ResolverSets d) (rt_ResolverSet route) of None \<Rightarrow> [] | Some r \<Rightarrow> rset_Endpoints r)))
     (dns_Routes d)"

lemma sets_lookup:
  assumes "distinct (map rset_ID rsets)"
  shows "map_of (rev (map (\<lambda>r. (rset_ID r, rset_Endpoints r)) rsets)) ident = map_option rset_Endpoints (resolverSetByID rsets ident)"
proof -
  have "map_of (rev (map (\<lambda>r. (rset_ID r, rset_Endpoints r)) rsets)) = map_of (map (\<lambda>r. (rset_ID r, rset_Endpoints r)) rsets)"
    using assms by (subst map_of_inject_set) (simp_all add: o_def rev_map [symmetric])
  moreover have "map_of (map (\<lambda>r. (rset_ID r, rset_Endpoints r)) rsets) ident = map_option rset_Endpoints (resolverSetByID rsets ident)"
    by (induction rsets) (auto simp: resolverSetByID_def)
  ultimately show ?thesis by simp
qed

lemma buildRoutes_iff:
  assumes "list_all (\<lambda>route. checkDNSRoute sets rs route = None) routes"
  shows "buildRoutes sets rs policy routes = Inr p \<longleftrightarrow>
    distinct (map routeKey routes) \<and> set (map routeKey routes) \<inter> fst ` set policy = {}
    \<and> p = policy @ map (\<lambda>route. (routeKey route, the (map_of sets (rt_ResolverSet route)))) routes"
  using assms
proof (induction routes arbitrary: policy)
  case (Cons route routes)
  show ?case
  proof (cases "map_of policy (routeKey route)")
    case None
    then have "routeKey route \<notin> fst ` set policy" by (simp add: map_of_eq_None_iff)
    with Cons None show ?thesis by auto
  next
    case (Some x)
    then have "routeKey route \<in> fst ` set policy" by (metis map_of_eq_None_iff option.distinct(1))
    with Cons.prems Some show ?thesis by auto
  qed
qed auto

lemma checkDNSRoute_ok:
  assumes "route_ok s route" and "list_all (resolver_set_ok url_Parse) (dns_ResolverSets (c_DNS s))"
    and "list_all (resource_ok url_Parse) (c_Resources s)"
    and "\<And>ident. map_of sets ident = map_option rset_Endpoints (resolverSetByID (dns_ResolverSets (c_DNS s)) ident)"
  shows "checkDNSRoute sets (c_Resources s) route = None"
proof -
  from assms(1) obtain rset where rset: "resolverSetByID (dns_ResolverSets (c_DNS s)) (rt_ResolverSet route) = Some rset"
    by (auto simp: route_ok_def)
  then have "rset \<in> set (dns_ResolverSets (c_DNS s))" "rset_ID rset = rt_ResolverSet route"
    by (auto simp: resolverSetByID_def find_Some_iff)
  with assms(2) have "ValidStableID (rt_ResolverSet route)" by (auto simp: list_all_iff resolver_set_ok_def)
  moreover have "ValidateDeclaration (the (resourceByID (c_Resources s) (rt_Resource route))) = None"
    if "rt_Resource route \<noteq> ''''"
  proof -
    from that assms(1) obtain r where r: "resourceByID (c_Resources s) (rt_Resource route) = Some r"
      by (auto simp: route_ok_def domainRuleSet_def split: option.splits)
    then have "r \<in> set (c_Resources s)" by (auto simp: resourceByID_def find_Some_iff)
    with assms(3) have "resource_ok url_Parse r" by (simp add: list_all_iff)
    with r show ?thesis by (simp add: ValidateDeclaration_iff resource_ok_def)
  qed
  ultimately show ?thesis
    using assms(1,4) rset by (auto simp: checkDNSRoute_def route_ok_def Let_def)
qed

lemma checkListenLoops_ok:
  assumes "loopbackListen (dns_Listen d)" and "list_all (resolver_set_ok url_Parse) (dns_ResolverSets d)"
    and "list_all (\<lambda>rset. list_all (\<lambda>e. (rset_DNSCrypt rset \<longrightarrow> dnscrypt_ok url_Parse e)
        \<and> \<not> loops_back url_Parse (dns_Listen d) e) (rset_Endpoints rset)) (dns_ResolverSets d)"
  shows "checkListenLoops url_Parse d = None"
proof -
  obtain h p where hp: "net_SplitHostPort (dns_Listen d) = Some (h, p)"
    using assms(1) by (auto simp: loopbackListen_def split: option.splits)
  note L = checkListenLoop_None [OF hp loopbackListen_local [OF assms(1) hp], of url_Parse]
  have "checkListenLoop url_Parse h (normal_port p) (rset_DNSCrypt rset) e = None"
    if "rset \<in> set (dns_ResolverSets d)" "e \<in> set (rset_Endpoints rset)" for rset e
  proof -
    have "validateResolverEndpoint url_Parse e = None" and "rset_DNSCrypt rset \<longrightarrow> dnscrypt_ok url_Parse e"
        and "\<not> loops_back url_Parse (dns_Listen d) e"
      using assms(2,3) that by (auto simp: list_all_iff resolver_set_ok_def)
    then show ?thesis using L by (cases "rset_DNSCrypt rset") simp_all
  qed
  then show ?thesis using hp by (auto simp: checkListenLoops_def list_all_iff)
qed

section \<open>Properties\<close>

text \<open>
  C32. The package parses resolver endpoints on its own, and its parser accepts exactly the endpoints
  that the configuration's parser accepts, with the same host, port and network.
\<close>

theorem dns_parsers_agree:
  "parseEndpoint url_Parse raw = Inr e \<longleftrightarrow> parseResolverEndpoint url_Parse raw = Inr (ep_host e, ep_port e, ep_network e)"
  by (rule parsers_agree)

text \<open>
  C33. On a validated configuration \<open>Build\<close> can fail in one way only: two routes with the same matcher,
  which the configuration check does not look for. Otherwise its policy has for every route, in order,
  the endpoints of the resolver set the route names.
\<close>

theorem dns_build_total:
  assumes "validateSnapshot url_Parse os_Stat s = None"
  shows "DNS_Build url_Parse s = Inr policy \<longleftrightarrow>
    distinct (map routeKey (dns_Routes (c_DNS s))) \<and> policy = policyOf (c_DNS s)"
proof -
  note V = assms [unfolded validateSnapshot_iff]
  let ?rsets = "dns_ResolverSets (c_DNS s)"
  let ?sets = "rev (map (\<lambda>r. (rset_ID r, rset_Endpoints r)) ?rsets)"
  have enc: "list_all (\<lambda>rset. list_all (\<lambda>e. checkSetEndpoint url_Parse rset e = None) (rset_Endpoints rset)) ?rsets"
    using V by (auto simp: checkSetEndpoint_None list_all_iff resolver_set_ok_def)
  have sets: "buildSets url_Parse [] ?rsets = Inr ?sets"
    using buildSets_ok [OF _ _ _ enc, of "[]"] V by simp
  have look: "map_of ?sets ident = map_option rset_Endpoints (resolverSetByID ?rsets ident)" for ident
    using sets_lookup V by blast
  have loops: "checkListenLoops url_Parse (c_DNS s) = None"
  proof -
    have "(if c then A \<and> B else B) \<longleftrightarrow> (c \<longrightarrow> A) \<and> B" for c A B by simp
    with V show ?thesis by (intro checkListenLoops_ok) (auto simp: list_all_iff)
  qed
  have ids: "checkResourceIDs [] (c_Resources s) = None"
    using V by (auto simp: checkResourceIDs_None list_all_iff resource_ok_def)
  have routes: "list_all (\<lambda>route. checkDNSRoute ?sets (c_Resources s) route = None) (dns_Routes (c_DNS s))"
    using V checkDNSRoute_ok [OF _ _ _ look] by (auto simp: list_all_iff)
  have listen: "validateListen (dns_Listen (c_DNS s)) = None" using V by (simp add: validateListen_def)
  have "DNS_Build url_Parse s = buildRoutes ?sets (c_Resources s) [] (dns_Routes (c_DNS s))"
    using listen sets ids loops by (simp add: DNS_Build_def first_error.simps)
  moreover have "map (\<lambda>route. (routeKey route, the (map_of ?sets (rt_ResolverSet route)))) (dns_Routes (c_DNS s)) = policyOf (c_DNS s)"
    using V by (auto simp: policyOf_def look list_all_iff route_ok_def)
  ultimately show ?thesis using buildRoutes_iff [OF routes, of "[]" policy] by simp
qed

definition exParser :: url_parser where
  "exParser raw = (if raw = ''http://cp.cloudflare.com/generate_204'' \<or> raw = DefaultStreamURL then exDefaults raw else None)"

definition exDNS :: Snapshot where
  "exDNS = (exApp\<lparr> c_Monitor := defaultMonitor zeroMonitor, c_Resources := [exResource],
     c_DNS := \<lparr> dns_Listen = ''127.0.0.1:1053'',
       dns_ResolverSets = [\<lparr> rset_ID = ''local'', rset_Endpoints = [''127.0.0.1:5353''], rset_DNSCrypt = True \<rparr>],
       dns_Routes = [\<lparr> rt_Suffix = ''corp.example'', rt_GeoSite = '''', rt_Resource = '''', rt_ResolverSet = ''local'' \<rparr>] \<rparr> \<rparr>)"

lemma exDNS_valid: "validateSnapshot exParser (\<lambda>_. None) exDNS = None"
  by code_simp

theorem dns_build_total_witness: "DNS_Build exParser exDNS = Inr [(''+.corp.example'', [''127.0.0.1:5353''])]"
proof -
  have "distinct (map routeKey (dns_Routes (c_DNS exDNS)))" by code_simp
  moreover have "policyOf (c_DNS exDNS) = [(''+.corp.example'', [''127.0.0.1:5353''])]" by code_simp
  ultimately show ?thesis using dns_build_total [OF exDNS_valid] by simp
qed

section \<open>The probe packet round trip\<close>

lemma tcp_frame:
  assumes "12 \<le> length answer" and "length answer \<le> 4096"
  shows "tcpResponse (tcpPacket answer @ rest) = Inr answer"
proof -
  have "getUint16 (take 2 (tcpPacket answer @ rest)) = int (length answer)"
    using assms by (simp add: tcpPacket_def getUint16_putUint16)
  then show ?thesis using assms by (simp add: tcpResponse_def tcpPacket_def Let_def)
qed

text \<open>What a resolver sends back for the probe: the query with the response bit, as UDP or behind a length.\<close>

definition dnsAnswer :: "bytes \<Rightarrow> char \<Rightarrow> bytes" where
  "dnsAnswer query flags = take 2 query @ byte (128 + byte_val flags mod 128) # drop 3 query"

text \<open>
  The probe of a DNSCrypt listener takes an answer to its own query, and nothing else: the query
  with the response bit set is accepted whatever the random identifier and the other flags are, over
  TCP it arrives intact behind its length prefix, and the query echoed back without the response bit
  is refused.
\<close>

theorem dns_probe_roundtrip:
  "let (query, ident) = dnsProbeQuery b0 b1; answer = dnsAnswer query flags in
     validateDNSResponse answer ident = None
     \<and> tcpResponse (tcpPacket answer @ rest) = Inr answer
     \<and> validateDNSResponse query ident \<noteq> None"
proof -
  define query where "query = fst (dnsProbeQuery b0 b1)"
  have q: "dnsProbeQuery b0 b1 = (query, getUint16 [b0, b1])"
    by (simp add: query_def dnsProbeQuery_def Let_def)
  have query: "query = b0 # b1 # byte 1 # map byte [0, 0, 1, 0, 0, 0, 0, 0, 0]
      @ byte 10 # ''clashpulse'' @ byte 7 # ''invalid'' @ map byte [0, 0, 1, 0, 1]"
    by (simp add: query_def dnsProbeQuery_def Let_def putUint16_getUint16)
  have a: "dnsAnswer query flags = b0 # b1 # byte (128 + byte_val flags mod 128) # map byte [0, 0, 1, 0, 0, 0, 0, 0, 0]
      @ byte 10 # ''clashpulse'' @ byte 7 # ''invalid'' @ map byte [0, 0, 1, 0, 1]"
    by (simp add: dnsAnswer_def query numeral_eq_Suc)
  have "validateDNSResponse (dnsAnswer query flags) (getUint16 [b0, b1]) = None"
    unfolding a by (simp add: validateDNSResponse_def getUint16_def numeral_eq_Suc)
  moreover have "validateDNSResponse query (getUint16 [b0, b1]) \<noteq> None"
    unfolding query by (simp add: validateDNSResponse_def getUint16_def numeral_eq_Suc)
  moreover have "tcpResponse (tcpPacket (dnsAnswer query flags) @ rest) = Inr (dnsAnswer query flags)"
    by (rule tcp_frame) (simp_all add: a)
  ultimately show ?thesis by (simp add: q Let_def)
qed

end
