(* ===== verification/Go_IO.thy ===== *)
theory Go_IO
  imports Go_Net
begin

text \<open>
  Programs that change files. A program runs on a state and on a list of faults, one for each
  operation of the operating system it performs: the operation may succeed, report an error before or
  after it took effect (a rename that is durable but whose directory could not be synced, for example),
  or the process may die before or after it. Operations beyond the end of the list succeed.

  \<open>wp m Q R C h\<close> says that \<open>m\<close>, started in \<open>h\<close> with any faults, ends in a state satisfying \<open>Q x\<close> if it
  returns \<open>x\<close>, \<open>R e\<close> if it returns the error \<open>e\<close>, and \<open>C\<close> if the process dies; \<open>runs m Q h\<close> says that
  without faults \<open>m\<close> returns, in a state satisfying \<open>Q\<close>.
\<close>

section \<open>Programs\<close>

datatype fault = Works | Fails_Before | Fails_After | Dies_Before | Dies_After

datatype 'a outcome = Ret 'a | Err go_error | Crash

type_synonym ('s, 'a) io = "fault list \<Rightarrow> 's \<Rightarrow> 'a outcome \<times> fault list \<times> 's"

definition return_io :: "'a \<Rightarrow> ('s, 'a) io" where
  "return_io x fs h = (Ret x, fs, h)"

definition fail_io :: "go_error \<Rightarrow> ('s, 'a) io" where
  "fail_io e fs h = (Err e, fs, h)"

definition read_io :: "('s \<Rightarrow> 'a) \<Rightarrow> ('s, 'a) io" where
  "read_io f fs h = (Ret (f h), fs, h)"

fun step_io :: "('s \<Rightarrow> 's) \<Rightarrow> go_error \<Rightarrow> ('s, unit) io" where
  "step_io f e [] h = (Ret (), [], f h)"
| "step_io f e (Works # fs) h = (Ret (), fs, f h)"
| "step_io f e (Fails_Before # fs) h = (Err e, fs, h)"
| "step_io f e (Fails_After # fs) h = (Err e, fs, f h)"
| "step_io f e (Dies_Before # fs) h = (Crash, fs, h)"
| "step_io f e (Dies_After # fs) h = (Crash, fs, f h)"

text \<open>An operation that takes effect or fails, but never both.\<close>

fun atomic_io :: "('s \<Rightarrow> 's) \<Rightarrow> go_error \<Rightarrow> ('s, unit) io" where
  "atomic_io f e (Fails_After # fs) h = (Err e, fs, h)"
| "atomic_io f e fs h = step_io f e fs h"

text \<open>A change of memory, which cannot fail.\<close>

definition modify_io :: "('s \<Rightarrow> 's) \<Rightarrow> ('s, unit) io" where
  "modify_io f fs h = (Ret (), fs, f h)"

definition bind_io :: "('s, 'a) io \<Rightarrow> ('a \<Rightarrow> ('s, 'b) io) \<Rightarrow> ('s, 'b) io" where
  "bind_io m f fs h =
     (case m fs h of
        (Ret x, fs', h') \<Rightarrow> f x fs' h'
      | (Err e, fs', h') \<Rightarrow> (Err e, fs', h')
      | (Crash, fs', h') \<Rightarrow> (Crash, fs', h'))"

definition then_io :: "('s, 'a) io \<Rightarrow> ('s, 'b) io \<Rightarrow> ('s, 'b) io" where
  "then_io m n = bind_io m (\<lambda>_. n)"

text \<open>\<open>catch_io\<close> handles an error; \<open>try_io\<close> ignores the result of a best-effort operation.\<close>

definition catch_io :: "('s, 'a) io \<Rightarrow> (go_error \<Rightarrow> ('s, 'a) io) \<Rightarrow> ('s, 'a) io" where
  "catch_io m hnd fs h =
     (case m fs h of
        (Ret x, fs', h') \<Rightarrow> (Ret x, fs', h')
      | (Err e, fs', h') \<Rightarrow> hnd e fs' h'
      | (Crash, fs', h') \<Rightarrow> (Crash, fs', h'))"

definition wrap_io :: "string \<Rightarrow> string list \<Rightarrow> ('s, 'a) io \<Rightarrow> ('s, 'a) io" where
  "wrap_io fmt args m = catch_io m (\<lambda>e. fail_io (Wrapf fmt args e))"

definition try_io :: "('s, unit) io \<Rightarrow> ('s, unit) io" where
  "try_io m = catch_io m (\<lambda>_. return_io ())"

definition check_io :: "go_error option \<Rightarrow> ('s, unit) io" where
  "check_io r = (case r of None \<Rightarrow> return_io () | Some e \<Rightarrow> fail_io e)"

fun each_io :: "('x \<Rightarrow> ('s, unit) io) \<Rightarrow> 'x list \<Rightarrow> ('s, unit) io" where
  "each_io m [] = return_io ()"
| "each_io m (x # xs) = then_io (m x) (each_io m xs)"

section \<open>Runs with arbitrary faults\<close>

definition wp ::
  "('s, 'a) io \<Rightarrow> ('a \<Rightarrow> 's \<Rightarrow> bool) \<Rightarrow> (go_error \<Rightarrow> 's \<Rightarrow> bool) \<Rightarrow> ('s \<Rightarrow> bool) \<Rightarrow> 's \<Rightarrow> bool" where
  "wp m Q R C h \<longleftrightarrow>
     (\<forall>fs. case m fs h of (Ret x, _, h') \<Rightarrow> Q x h' | (Err e, _, h') \<Rightarrow> R e h' | (Crash, _, h') \<Rightarrow> C h')"

lemma wp_return [simp]: "wp (return_io x) Q R C h \<longleftrightarrow> Q x h"
  by (simp add: wp_def return_io_def)

lemma wp_fail [simp]: "wp (fail_io e) Q R C h \<longleftrightarrow> R e h"
  by (simp add: wp_def fail_io_def)

lemma wp_read [simp]: "wp (read_io f) Q R C h \<longleftrightarrow> Q (f h) h"
  by (simp add: wp_def read_io_def)

lemma wp_check [simp]: "wp (check_io r) Q R C h \<longleftrightarrow> (case r of None \<Rightarrow> Q () h | Some e \<Rightarrow> R e h)"
  by (simp add: check_io_def split: option.split)

lemma wp_step [simp]:
  "wp (step_io f e) Q R C h \<longleftrightarrow> Q () (f h) \<and> R e h \<and> R e (f h) \<and> C h \<and> C (f h)"
proof
  assume w: "wp (step_io f e) Q R C h"
  show "Q () (f h) \<and> R e h \<and> R e (f h) \<and> C h \<and> C (f h)"
    using w [unfolded wp_def, rule_format, of "[]"] w [unfolded wp_def, rule_format, of "[Fails_Before]"]
      w [unfolded wp_def, rule_format, of "[Fails_After]"] w [unfolded wp_def, rule_format, of "[Dies_Before]"]
      w [unfolded wp_def, rule_format, of "[Dies_After]"] by simp
next
  assume a: "Q () (f h) \<and> R e h \<and> R e (f h) \<and> C h \<and> C (f h)"
  show "wp (step_io f e) Q R C h"
    unfolding wp_def
  proof
    fix fs show "case step_io f e fs h of (Ret x, _, h') \<Rightarrow> Q x h' | (Err e, _, h') \<Rightarrow> R e h' | (Crash, _, h') \<Rightarrow> C h'"
      using a by (cases "(f, e, fs, h)" rule: step_io.cases) auto
  qed
qed

lemma wp_atomic [simp]: "wp (atomic_io f e) Q R C h \<longleftrightarrow> Q () (f h) \<and> R e h \<and> C h \<and> C (f h)"
proof
  assume w: "wp (atomic_io f e) Q R C h"
  show "Q () (f h) \<and> R e h \<and> C h \<and> C (f h)"
    using w [unfolded wp_def, rule_format, of "[]"] w [unfolded wp_def, rule_format, of "[Fails_Before]"]
      w [unfolded wp_def, rule_format, of "[Dies_Before]"] w [unfolded wp_def, rule_format, of "[Dies_After]"] by simp
next
  assume a: "Q () (f h) \<and> R e h \<and> C h \<and> C (f h)"
  show "wp (atomic_io f e) Q R C h"
    unfolding wp_def
  proof
    fix fs show "case atomic_io f e fs h of (Ret x, _, h') \<Rightarrow> Q x h' | (Err e, _, h') \<Rightarrow> R e h' | (Crash, _, h') \<Rightarrow> C h'"
      using a by (cases "(f, e, fs, h)" rule: atomic_io.cases) auto
  qed
qed

lemma wp_modify [simp]: "wp (modify_io f) Q R C h \<longleftrightarrow> Q () (f h)"
  by (simp add: wp_def modify_io_def)

lemma wp_bind: "wp m (\<lambda>x. wp (f x) Q R C) R C h \<Longrightarrow> wp (bind_io m f) Q R C h"
  by (fastforce simp: wp_def bind_io_def split: prod.splits outcome.splits)

lemma wp_then: "wp m (\<lambda>_. wp n Q R C) R C h \<Longrightarrow> wp (then_io m n) Q R C h"
  by (simp add: then_io_def wp_bind)

lemma wp_catch: "wp m Q (\<lambda>e. wp (hnd e) Q R C) C h \<Longrightarrow> wp (catch_io m hnd) Q R C h"
  by (fastforce simp: wp_def catch_io_def split: prod.splits outcome.splits)

lemma wp_mono:
  assumes "wp m Q R C h" and "\<And>x h. Q x h \<Longrightarrow> Q' x h" and "\<And>e h. R e h \<Longrightarrow> R' e h" and "\<And>h. C h \<Longrightarrow> C' h"
  shows "wp m Q' R' C' h"
  unfolding wp_def
proof
  fix fs
  from assms(1) have "case m fs h of (Ret x, _, h') \<Rightarrow> Q x h' | (Err e, _, h') \<Rightarrow> R e h' | (Crash, _, h') \<Rightarrow> C h'"
    by (simp add: wp_def)
  then show "case m fs h of (Ret x, _, h') \<Rightarrow> Q' x h' | (Err e, _, h') \<Rightarrow> R' e h' | (Crash, _, h') \<Rightarrow> C' h'"
    by (auto split: prod.splits outcome.splits intro: assms(2-4))
qed

lemma wp_try: "wp m Q (\<lambda>_. Q ()) C h \<Longrightarrow> wp (try_io m) Q R C h"
  unfolding try_io_def by (rule wp_catch) (rule wp_mono, assumption, simp_all)

lemma wp_wrap: "wp m Q (\<lambda>e. R (Wrapf fmt args e)) C h \<Longrightarrow> wp (wrap_io fmt args m) Q R C h"
  unfolding wrap_io_def by (rule wp_catch) (rule wp_mono, assumption, simp_all)

text \<open>A loop keeps \<open>I dn todo\<close>, which may depend on the items done and those left.\<close>

lemma wp_each:
  assumes "\<And>dn x todo h. xs = dn @ x # todo \<Longrightarrow> I dn (x # todo) h
      \<Longrightarrow> wp (m x) (\<lambda>_. I (dn @ [x]) todo) R C h"
    and "I [] xs h" and "\<And>h. I xs [] h \<Longrightarrow> Q () h"
  shows "wp (each_io m xs) Q R C h"
proof -
  have "wp (each_io m todo) (\<lambda>_. I xs []) R C h" if "xs = dn @ todo" and "I dn todo h" for dn todo h
    using that
  proof (induction todo arbitrary: dn h)
    case (Cons x todo)
    from assms(1) [OF Cons.prems] show ?case
      unfolding each_io.simps
      by (intro wp_then) (rule wp_mono, assumption, use Cons.IH [of "dn @ [x]"] Cons.prems(1) in auto)
  qed simp
  from this [of "[]" xs h] assms(2) have "wp (each_io m xs) (\<lambda>_. I xs []) R C h" by simp
  then show ?thesis by (rule wp_mono) (auto intro: assms(3))
qed

section \<open>Runs without faults\<close>

definition runs :: "('s, 'a) io \<Rightarrow> ('a \<Rightarrow> 's \<Rightarrow> bool) \<Rightarrow> 's \<Rightarrow> bool" where
  "runs m Q h \<longleftrightarrow> (\<exists>x h'. m [] h = (Ret x, [], h') \<and> Q x h')"

lemma runs_return [simp]: "runs (return_io x) Q h \<longleftrightarrow> Q x h"
  by (simp add: runs_def return_io_def)

lemma runs_read [simp]: "runs (read_io f) Q h \<longleftrightarrow> Q (f h) h"
  by (simp add: runs_def read_io_def)

lemma runs_check [simp]: "runs (check_io r) Q h \<longleftrightarrow> r = None \<and> Q () h"
  by (cases r) (auto simp: check_io_def fail_io_def runs_def return_io_def)

lemma runs_step [simp]: "runs (step_io f e) Q h \<longleftrightarrow> Q () (f h)"
  by (simp add: runs_def)

lemma runs_atomic [simp]: "runs (atomic_io f e) Q h \<longleftrightarrow> Q () (f h)"
  by (simp add: runs_def)

lemma runs_modify [simp]: "runs (modify_io f) Q h \<longleftrightarrow> Q () (f h)"
  by (simp add: runs_def modify_io_def)

lemma runs_bind: "runs m (\<lambda>x. runs (f x) Q) h \<Longrightarrow> runs (bind_io m f) Q h"
  by (auto simp: runs_def bind_io_def)

lemma runs_then: "runs m (\<lambda>_. runs n Q) h \<Longrightarrow> runs (then_io m n) Q h"
  by (simp add: then_io_def runs_bind)

lemma runs_catch: "runs m Q h \<Longrightarrow> runs (catch_io m hnd) Q h"
  by (auto simp: runs_def catch_io_def)

lemma runs_try: "runs m Q h \<Longrightarrow> runs (try_io m) Q h"
  by (simp add: try_io_def runs_catch)

lemma runs_wrap: "runs m Q h \<Longrightarrow> runs (wrap_io fmt args m) Q h"
  by (simp add: wrap_io_def runs_catch)

lemma runs_mono: "runs m Q h \<Longrightarrow> (\<And>x h. Q x h \<Longrightarrow> Q' x h) \<Longrightarrow> runs m Q' h"
  by (auto simp: runs_def)

text \<open>A run without faults is one of the runs with faults.\<close>

lemma runs_wp: "wp m Q R C h \<Longrightarrow> runs m (\<lambda>_ _. True) h \<Longrightarrow> runs m Q h"
  by (auto simp: wp_def runs_def dest!: spec [of _ "[]"])

lemma runs_each_True:
  assumes "\<And>x h. x \<in> set xs \<Longrightarrow> runs (m x) (\<lambda>_ _. True) h"
  shows "runs (each_io m xs) (\<lambda>_ _. True) h"
  using assms
proof (induction xs arbitrary: h)
  case (Cons x xs)
  have "runs (each_io m xs) (\<lambda>_ _. True) g" for g by (rule Cons.IH) (simp add: Cons.prems)
  then show ?case
    unfolding each_io.simps by (intro runs_then) (rule runs_mono [OF Cons.prems], simp_all)
qed simp

lemma runs_each:
  assumes "\<And>dn x todo h. xs = dn @ x # todo \<Longrightarrow> I dn (x # todo) h \<Longrightarrow> runs (m x) (\<lambda>_. I (dn @ [x]) todo) h"
    and "I [] xs h" and "\<And>h. I xs [] h \<Longrightarrow> Q () h"
  shows "runs (each_io m xs) Q h"
proof -
  have "runs (each_io m todo) (\<lambda>_. I xs []) h" if "xs = dn @ todo" and "I dn todo h" for dn todo h
    using that
  proof (induction todo arbitrary: dn h)
    case (Cons x todo)
    from assms(1) [OF Cons.prems] show ?case
      unfolding each_io.simps
      by (intro runs_then) (rule runs_mono, assumption, use Cons.IH [of "dn @ [x]"] Cons.prems(1) in auto)
  qed simp
  from this [of "[]" xs h] assms(2) have "runs (each_io m xs) (\<lambda>_. I xs []) h" by simp
  then show ?thesis by (rule runs_mono) (auto intro: assms(3))
qed

section \<open>Updates that recovery undoes\<close>

text \<open>
  An update of a state and the recovery that runs at the next start. \<open>view\<close> is what clients see of the
  state; when an update is cut short, recovery gives them back what they saw before.
\<close>

locale recoverable_update =
  fixes update :: "'i \<Rightarrow> ('s, 'a) io" and recover :: "('s, unit) io"
    and pre :: "'i \<Rightarrow> 's \<Rightarrow> bool" and view :: "'s \<Rightarrow> 'v"
  assumes recovers: "pre i h \<Longrightarrow> update i fs h = (r, fs', h') \<Longrightarrow> \<exists>h''. recover [] h' = (Ret (), [], h'') \<and> view h'' = view h"
    and pre_view: "pre i h \<Longrightarrow> view h' = view h \<Longrightarrow> pre i h'"
begin

text \<open>Any number of attempts, each cut short by its faults and followed by a restart.\<close>

fun attempts :: "'i \<Rightarrow> fault list list \<Rightarrow> 's \<Rightarrow> 's" where
  "attempts i [] h = h"
| "attempts i (fs # fss) h = attempts i fss (snd (snd (recover [] (snd (snd (update i fs h))))))"

lemma attempts_view: "pre i h \<Longrightarrow> view (attempts i fss h) = view h"
proof (induction fss arbitrary: h)
  case (Cons fs fss)
  obtain r fs' h' where u: "update i fs h = (r, fs', h')" by (cases "update i fs h")
  from recovers [OF Cons.prems u] obtain h'' where h'': "recover [] h' = (Ret (), [], h'')" "view h'' = view h" by blast
  from Cons.IH [OF pre_view [OF Cons.prems h''(2)]] h'' u show ?case by simp
qed simp

end

end
