(* ===== verification/Download_Client.thy ===== *)
theory Download_Client
  imports Config_Types
begin

text \<open>
  Conditional, bounded downloads (\<open>src/download/client.go\<close>).

  The network is a parameter: \<open>net\<close> gives the answer to a request from the list of the requests sent so
  far, which the model also returns. A context is the list of the results of its \<open>Err\<close> calls, by their
  number. A response body is the list of the results of its \<open>Read\<close> calls, which ends with \<open>io.EOF\<close>.
  Parameters from the standard library: \<open>url.Parse\<close>, \<open>URL.ResolveReference\<close>, \<open>strings.ToValidUTF8\<close>
  followed by the removal of unprintable characters, and \<open>utf8.ValidString\<close>.
\<close>

section \<open>Data\<close>

definition maxRedirects :: nat where "maxRedirects = 5"
definition maxErrorResponseBytes :: nat where "maxErrorResponseBytes = 4096"

abbreviation errBodyTooLarge :: go_error where "errBodyTooLarge \<equiv> Errorf ''download: body too large'' []"

record Request =
  rq_URL :: string
  rq_Route :: string
  rq_ETag :: string
  rq_LastModified :: string
  rq_MaxBytes :: int
  rq_AllowHTTP :: bool
  rq_UserAgent :: string
  rq_CaptureErrorBody :: bool

record Response =
  rs_StatusCode :: int
  rs_Body :: bytes
  rs_DiagnosticBody :: string
  rs_ETag :: string
  rs_LastModified :: string
  rs_SubscriptionUserInfo :: string

record StatusError =
  st_Code :: int
  st_ResponseBody :: string

text \<open>The errors of \<open>Fetch\<close>: with \<open>errors.As\<close> a status can be taken out of the last two.\<close>

datatype fetch_error = Plain go_error | Status StatusError | Joined go_error StatusError

definition StatusError_Error :: "StatusError \<Rightarrow> string" where
  "StatusError_Error e = ''HTTP '' @ strconv_Itoa (st_Code e)"

definition StatusError_Valid :: "StatusError \<Rightarrow> bool" where
  "StatusError_Valid e \<longleftrightarrow> 400 \<le> st_Code e \<and> st_Code e \<le> 599"

definition HTTPResponseFrom :: "fetch_error \<Rightarrow> StatusError option" where
  "HTTPResponseFrom err =
     (case err of
        Plain _ \<Rightarrow> None
      | Status e \<Rightarrow> if 100 \<le> st_Code e \<and> st_Code e \<le> 599 then Some e else None
      | Joined _ e \<Rightarrow> if 100 \<le> st_Code e \<and> st_Code e \<le> 599 then Some e else None)"

definition StatusErrorFrom :: "fetch_error \<Rightarrow> StatusError option" where
  "StatusErrorFrom err = (case HTTPResponseFrom err of Some e \<Rightarrow> if StatusError_Valid e then Some e else None | None \<Rightarrow> None)"

text \<open>A status as a Go error.\<close>

definition statusError :: "StatusError \<Rightarrow> go_error" where
  "statusError e = Errorf ''HTTP %d'' [strconv_Itoa (st_Code e), st_ResponseBody e]"

definition ParseStatus :: "string \<Rightarrow> StatusError option" where
  "ParseStatus message =
     (if length message \<noteq> length ''HTTP 406'' \<or> \<not> strings_HasPrefix message ''HTTP '' then None
      else case strconv_Atoi (drop (length ''HTTP '') message) of
             None \<Rightarrow> None
           | Some code \<Rightarrow>
               if StatusError_Valid \<lparr> st_Code = code, st_ResponseBody = '''' \<rparr> then Some \<lparr> st_Code = code, st_ResponseBody = '''' \<rparr> else None)"

section \<open>Targets\<close>

record originKey =
  ok_Scheme :: string
  ok_Host :: string
  ok_Port :: string

definition effectivePort :: "URL \<Rightarrow> string" where
  "effectivePort u =
     (if u_Port u \<noteq> '''' then u_Port u
      else if strings_ToLower (u_Scheme u) = ''http'' then ''80''
      else if strings_ToLower (u_Scheme u) = ''https'' then ''443''
      else '''')"

definition originOf :: "URL \<Rightarrow> originKey" where
  "originOf u = \<lparr> ok_Scheme = strings_ToLower (u_Scheme u), ok_Host = strings_ToLower (u_Hostname u), ok_Port = effectivePort u \<rparr>"

definition sameOrigin :: "URL \<Rightarrow> originKey \<Rightarrow> bool" where
  "sameOrigin u origin \<longleftrightarrow> origin = originOf u"

definition validateURL :: "URL \<Rightarrow> bool \<Rightarrow> go_error + URL" where
  "validateURL u allowHTTP =
     (if u_User u then Inl (Errorf ''download: userinfo not allowed'' [])
      else if u_Scheme u = ''https'' then
        (if u_Host u = '''' \<or> u_Opaque u \<noteq> '''' then Inl (Errorf ''download: invalid https url'' []) else Inr u)
      else if allowHTTP \<and> u_Scheme u = ''http'' then
        (if u_Host u = '''' \<or> u_Opaque u \<noteq> '''' then Inl (Errorf ''download: invalid http url'' []) else Inr u)
      else Inl (Errorf ''download: must use https'' []))"

definition parseURL :: "url_parser \<Rightarrow> string \<Rightarrow> bool \<Rightarrow> go_error + URL" where
  "parseURL url_Parse text allowHTTP =
     (let raw = strings_TrimSpace text;
          full = (if strings_HasPrefix raw ''//'' then ''https:'' @ raw
                  else if \<not> strings_Contains raw ''://'' then ''https://'' @ raw else raw)
      in if raw = '''' then Inl (Errorf ''download: empty url'' [])
         else case url_Parse full of
                None \<Rightarrow> Inl (Errorf ''download: invalid url'' [])
              | Some u \<Rightarrow> validateURL u allowHTTP)"

definition resolveRedirect :: "url_parser \<Rightarrow> (URL \<Rightarrow> URL \<Rightarrow> URL) \<Rightarrow> URL \<Rightarrow> string \<Rightarrow> bool \<Rightarrow> go_error + URL" where
  "resolveRedirect url_Parse url_Resolve base location allowHTTP =
     (case url_Parse location of
        None \<Rightarrow> Inl (Errorf ''download: invalid redirect url'' [])
      | Some u \<Rightarrow> validateURL (if u_Scheme u \<noteq> '''' then u else url_Resolve base u) allowHTTP)"

section \<open>The network\<close>

record httpRequest =
  hq_URL :: URL
  hq_UserAgent :: string
  hq_IfNoneMatch :: string
  hq_IfModifiedSince :: string

datatype read_end = More | EOF | Broken go_error

record httpResponse =
  hr_StatusCode :: int
  hr_Location :: string
  hr_ETag :: string
  hr_LastModified :: string
  hr_Userinfo :: string
  hr_Reads :: "(bytes \<times> read_end) list"

type_synonym ctx = "nat \<Rightarrow> go_error option"

record transport =
  tr_net :: "httpRequest list \<Rightarrow> httpResponse option" \<comment> \<open>\<open>None\<close>: \<open>Do\<close> failed\<close>
  tr_parse :: url_parser
  tr_resolve :: "URL \<Rightarrow> URL \<Rightarrow> URL"
  tr_printable :: "string \<Rightarrow> string"
  tr_validUTF8 :: "string \<Rightarrow> bool"
  tr_timedOut :: bool

section \<open>Bodies\<close>

text \<open>\<open>readBody\<close>: the buffer, the error, and the number of the next context check.\<close>

fun readLoop :: "ctx \<Rightarrow> int \<Rightarrow> nat \<Rightarrow> bytes \<Rightarrow> int \<Rightarrow> (bytes \<times> read_end) list \<Rightarrow> bytes \<times> go_error option \<times> nat" where
  "readLoop ctx maxBytes k buf got reads =
     (case ctx k of
        Some err \<Rightarrow> ([], Some err, k + 1)
      | None \<Rightarrow>
          (case reads of
             [] \<Rightarrow> (case ctx (k + 1) of Some err \<Rightarrow> ([], Some err, k + 2) | None \<Rightarrow> (buf, None, k + 2))
           | (chunk, err) # reads' \<Rightarrow>
               (case ctx (k + 1) of
                  Some e \<Rightarrow> ([], Some e, k + 2)
                | None \<Rightarrow>
                    let got' = got + int (length chunk); buf' = buf @ chunk in
                    if chunk \<noteq> [] \<and> got' > maxBytes then
                      (if maxBytes - got > 0 then buf @ take (nat (min (int (length chunk)) (maxBytes - got))) chunk else buf,
                       Some errBodyTooLarge, k + 2)
                    else case err of
                           EOF \<Rightarrow> (buf', None, k + 2)
                         | Broken e \<Rightarrow> (buf', Some (Wrapf ''download: read body: %w'' [] e), k + 2)
                         | More \<Rightarrow> readLoop ctx maxBytes (k + 2) buf' got' reads')))"

declare readLoop.simps [simp del]

definition readBody :: "ctx \<Rightarrow> nat \<Rightarrow> (bytes \<times> read_end) list \<Rightarrow> int \<Rightarrow> bytes \<times> go_error option \<times> nat" where
  "readBody ctx k reads maxBytes =
     (if maxBytes \<le> 0 then ([], Some (Errorf ''download: max bytes must be positive'' []), k)
      else readLoop ctx maxBytes k [] 0 reads)"

fun cutInvalid :: "(string \<Rightarrow> bool) \<Rightarrow> nat \<Rightarrow> string \<Rightarrow> string" where
  "cutInvalid valid 0 txt = []"
| "cutInvalid valid (Suc n) txt = (if valid (take (Suc n) txt) then take (Suc n) txt else cutInvalid valid n txt)"

definition truncateUTF8 :: "(string \<Rightarrow> bool) \<Rightarrow> string \<Rightarrow> nat \<Rightarrow> string" where
  "truncateUTF8 valid txt limit = (if length txt \<le> limit then txt else cutInvalid valid limit txt)"

definition truncatedSuffix :: string where
  "truncatedSuffix = CHR 0x0A # ''[response truncated]''"

definition printableResponseBody :: "transport \<Rightarrow> bytes \<Rightarrow> bool \<Rightarrow> string" where
  "printableResponseBody tr body truncated =
     (let data = take maxErrorResponseBytes body;
          result = tr_printable tr data
      in if truncated \<or> length body > maxErrorResponseBytes \<or> length result > maxErrorResponseBytes
         then truncateUTF8 (tr_validUTF8 tr) result (maxErrorResponseBytes - length truncatedSuffix) @ truncatedSuffix
         else result)"

text \<open>What \<open>io.ReadAll\<close> gives of a body before its first error.\<close>

fun readAll :: "(bytes \<times> read_end) list \<Rightarrow> bytes" where
  "readAll [] = []"
| "readAll ((chunk, err) # reads) = chunk @ (if err = More then readAll reads else [])"

definition captureErrorResponse :: "transport \<Rightarrow> (bytes \<times> read_end) list \<Rightarrow> bool \<Rightarrow> string" where
  "captureErrorResponse tr reads closable =
     (let data = take (maxErrorResponseBytes + 1) (readAll reads)
      in printableResponseBody tr data (length data > maxErrorResponseBytes \<or> (closable \<and> tr_timedOut tr)))"

definition boundedUsageHeader :: "string \<Rightarrow> string" where
  "boundedUsageHeader value = (if length value > 1024 then '''' else value)"

section \<open>Fetch\<close>

definition isRedirect :: "int \<Rightarrow> bool" where
  "isRedirect status \<longleftrightarrow> status \<in> {301, 302, 303, 307, 308}"

definition scopedValidators :: "httpResponse \<Rightarrow> URL \<Rightarrow> originKey \<Rightarrow> string \<times> string" where
  "scopedValidators response final original = (if \<not> sameOrigin final original then ('''', '''') else (hr_ETag response, hr_LastModified response))"

text \<open>The request that \<open>do\<close> sends.\<close>

definition requestFor :: "URL \<Rightarrow> Request \<Rightarrow> originKey \<Rightarrow> httpRequest" where
  "requestFor target req origin =
     \<lparr> hq_URL = target,
       hq_UserAgent = (if sameOrigin target origin \<and> rq_UserAgent req \<noteq> '''' then rq_UserAgent req else ''clash-pulse''),
       hq_IfNoneMatch = (if sameOrigin target origin then rq_ETag req else ''''),
       hq_IfModifiedSince = (if sameOrigin target origin then rq_LastModified req else '''') \<rparr>"

definition capturing :: "bool \<Rightarrow> Request \<Rightarrow> bool" where
  "capturing captureErrorBody req \<longleftrightarrow> rq_CaptureErrorBody req \<or> captureErrorBody"

text \<open>A response that is neither a redirect nor an error of the transport.\<close>

definition finishFetch ::
  "transport \<Rightarrow> bool \<Rightarrow> ctx \<Rightarrow> Request \<Rightarrow> originKey \<Rightarrow> nat \<Rightarrow> URL \<Rightarrow> httpResponse \<Rightarrow> fetch_error + Response" where
  "finishFetch tr capture ctx req origin k current response =
     (let status = hr_StatusCode response; (etag, lastModified) = scopedValidators response current origin in
      if status = 304 then
        Inr \<lparr> rs_StatusCode = 304, rs_Body = [], rs_DiagnosticBody = '''', rs_ETag = etag, rs_LastModified = lastModified,
              rs_SubscriptionUserInfo = boundedUsageHeader (hr_Userinfo response) \<rparr>
      else if status < 200 \<or> status \<ge> 300 then
        Inl (Status \<lparr> st_Code = status,
          st_ResponseBody = (if capturing capture req then captureErrorResponse tr (hr_Reads response) True else '''') \<rparr>)
      else
        case readBody ctx k (hr_Reads response) (rq_MaxBytes req) of
          (body, Some err, _) \<Rightarrow>
            Inl (if capturing capture req \<and> err = errBodyTooLarge
                 then Joined err \<lparr> st_Code = status, st_ResponseBody = printableResponseBody tr body True \<rparr> else Plain err)
        | (body, None, _) \<Rightarrow>
            Inr \<lparr> rs_StatusCode = status, rs_Body = body,
                  rs_DiagnosticBody = (if capturing capture req then captureErrorResponse tr [(body, EOF)] False else ''''),
                  rs_ETag = etag, rs_LastModified = lastModified,
                  rs_SubscriptionUserInfo = boundedUsageHeader (hr_Userinfo response) \<rparr>)"

function fetchLoop ::
  "transport \<Rightarrow> bool \<Rightarrow> ctx \<Rightarrow> Request \<Rightarrow> originKey \<Rightarrow> nat \<Rightarrow> nat \<Rightarrow> URL \<Rightarrow> httpRequest list
   \<Rightarrow> (fetch_error + Response) \<times> httpRequest list" where
  "fetchLoop tr capture ctx req origin redirects k current sent =
     (if redirects > maxRedirects then (Inl (Plain (Errorf ''download: too many redirects'' [])), sent)
      else case ctx k of
             Some err \<Rightarrow> (Inl (Plain err), sent)
           | None \<Rightarrow>
               let sent' = sent @ [requestFor current req origin] in
               (case tr_net tr sent' of
                  None \<Rightarrow> (Inl (Plain (case ctx (k + 1) of Some err \<Rightarrow> err | None \<Rightarrow> Errorf ''download: request failed'' [])), sent')
                | Some response \<Rightarrow>
                    if isRedirect (hr_StatusCode response) then
                      (if hr_Location response = '''' then (Inl (Plain (Errorf ''download: redirect missing location'' [])), sent')
                       else case resolveRedirect (tr_parse tr) (tr_resolve tr) current (hr_Location response) (rq_AllowHTTP req) of
                              Inl err \<Rightarrow> (Inl (Plain err), sent')
                            | Inr u \<Rightarrow> fetchLoop tr capture ctx req origin (redirects + 1) (k + 1) u sent')
                    else (finishFetch tr capture ctx req origin (k + 1) current response, sent')))"
  by pat_completeness auto
termination
  by (relation "measure (\<lambda>(_, _, _, _, _, redirects, _, _, _). maxRedirects + 1 - redirects)") auto

declare fetchLoop.simps [simp del]

definition validUserAgent :: "string \<Rightarrow> bool" where
  "validUserAgent agent \<longleftrightarrow> length agent \<le> 256 \<and> list_all (\<lambda>c. 32 \<le> (of_char c :: nat) \<and> (of_char c :: nat) \<le> 126) agent"

text \<open>\<open>routed\<close> is the result of the transport factory for the route.\<close>

definition Fetch :: "transport \<Rightarrow> bool \<Rightarrow> (string \<Rightarrow> go_error option) \<Rightarrow> ctx \<Rightarrow> Request \<Rightarrow> (fetch_error + Response) \<times> httpRequest list" where
  "Fetch tr capture routed ctx req =
     (case ctx 0 of
        Some err \<Rightarrow> (Inl (Plain err), [])
      | None \<Rightarrow>
          if rq_MaxBytes req \<le> 0 then (Inl (Plain (Errorf ''download: max bytes must be positive'' [])), [])
          else if \<not> validUserAgent (rq_UserAgent req) then (Inl (Plain (Errorf ''download: invalid user agent'' [])), [])
          else if \<not> ValidRoute (rq_Route req) then (Inl (Plain (Errorf ''download: invalid route %q'' [rq_Route req])), [])
          else case routed (rq_Route req) of
                 Some err \<Rightarrow> (Inl (Plain err), [])
               | None \<Rightarrow>
                   (case parseURL (tr_parse tr) (rq_URL req) (rq_AllowHTTP req) of
                      Inl err \<Rightarrow> (Inl (Plain err), [])
                    | Inr current \<Rightarrow> fetchLoop tr capture ctx req (originOf current) 0 1 current []))"

section \<open>Bounds\<close>

lemma readLoop_bound:
  assumes "got = int (length buf)" and "got \<le> maxBytes"
  shows "int (length (fst (readLoop ctx maxBytes k buf got reads))) \<le> maxBytes"
  using assms
proof (induction reads arbitrary: k buf got)
  case Nil
  then show ?case by (subst readLoop.simps) (auto split: option.split)
next
  case (Cons x reads)
  obtain chunk err where x: "x = (chunk, err)" by (cases x)
  have step: "int (length (fst (readLoop ctx maxBytes (k + 2) (buf @ chunk) (got + int (length chunk)) reads))) \<le> maxBytes"
    if "got + int (length chunk) \<le> maxBytes"
    using Cons.IH [of "got + int (length chunk)" "buf @ chunk" "k + 2"] Cons.prems that by simp
  have "0 \<le> maxBytes" using Cons.prems by simp
  then show ?case
    using Cons.prems step by (subst readLoop.simps) (auto simp: x Let_def min_def split: option.split read_end.split)
qed

text \<open>A body that was read without an error is complete.\<close>

lemma readLoop_complete:
  assumes "readLoop ctx maxBytes k buf got reads = (body, None, k')"
  shows "body = buf @ readAll reads"
  using assms
proof (induction reads arbitrary: k buf got)
  case Nil
  then show ?case by (subst (asm) readLoop.simps) (auto split: option.splits)
next
  case (Cons x reads)
  obtain chunk err where x: "x = (chunk, err)" by (cases x)
  show ?case
  proof (cases "ctx k = None \<and> ctx (k + 1) = None \<and> \<not> (chunk \<noteq> [] \<and> got + int (length chunk) > maxBytes)")
    case True
    with Cons.prems Cons.IH [of "k + 2" "buf @ chunk" "got + int (length chunk)"] show ?thesis
      by (subst (asm) readLoop.simps) (auto simp: x Let_def split: read_end.splits)
  next
    case False
    with Cons.prems show ?thesis
      by (subst (asm) readLoop.simps) (auto simp: x Let_def split: option.splits)
  qed
qed

lemma length_cutInvalid: "length (cutInvalid valid n txt) \<le> n"
  by (induction n) (auto intro: le_SucI)

lemma printableResponseBody_bound: "length (printableResponseBody tr body truncated) \<le> maxErrorResponseBytes"
proof -
  have "length (truncateUTF8 valid t (maxErrorResponseBytes - length truncatedSuffix)) + length truncatedSuffix \<le> maxErrorResponseBytes" for valid t
    using length_cutInvalid [of valid "maxErrorResponseBytes - length truncatedSuffix" t]
    by (auto simp: truncateUTF8_def maxErrorResponseBytes_def truncatedSuffix_def)
  then show ?thesis by (auto simp: printableResponseBody_def Let_def not_less)
qed

section \<open>What is sent and what is returned\<close>

text \<open>\<open>admissible\<close>: an address the client may contact; \<open>discreet\<close>: a request that carries private headers only to
  the origin they belong to.\<close>

definition admissible :: "bool \<Rightarrow> URL \<Rightarrow> bool" where
  "admissible allowHTTP u \<longleftrightarrow>
     (u_Scheme u = ''https'' \<or> allowHTTP \<and> u_Scheme u = ''http'') \<and> \<not> u_User u \<and> u_Host u \<noteq> '''' \<and> u_Opaque u = ''''"

definition discreet :: "originKey \<Rightarrow> httpRequest \<Rightarrow> bool" where
  "discreet origin q \<longleftrightarrow>
     originOf (hq_URL q) = origin \<or> hq_IfNoneMatch q = '''' \<and> hq_IfModifiedSince q = '''' \<and> hq_UserAgent q = ''clash-pulse''"

definition sound_request :: "Request \<Rightarrow> originKey \<Rightarrow> httpRequest \<Rightarrow> bool" where
  "sound_request req origin q \<longleftrightarrow> admissible (rq_AllowHTTP req) (hq_URL q) \<and> discreet origin q"

text \<open>What is returned of the last answer.\<close>

definition sound_response :: "Request \<Rightarrow> originKey \<Rightarrow> URL \<Rightarrow> httpResponse \<Rightarrow> Response \<Rightarrow> bool" where
  "sound_response req origin final response resp \<longleftrightarrow>
     rs_StatusCode resp = hr_StatusCode response
     \<and> (rs_StatusCode resp = 304 \<and> rs_Body resp = []
        \<or> 200 \<le> rs_StatusCode resp \<and> rs_StatusCode resp < 300 \<and> rs_Body resp = readAll (hr_Reads response))
     \<and> int (length (rs_Body resp)) \<le> rq_MaxBytes req \<and> length (rs_DiagnosticBody resp) \<le> 4096
     \<and> length (rs_SubscriptionUserInfo resp) \<le> 1024
     \<and> (rs_ETag resp \<noteq> '''' \<or> rs_LastModified resp \<noteq> '''' \<longrightarrow> originOf final = origin)"

lemma validateURL_Inr: "validateURL u allowHTTP = Inr v \<longleftrightarrow> v = u \<and> admissible allowHTTP u"
  by (auto simp: validateURL_def admissible_def)

lemma sound_requestFor: "admissible (rq_AllowHTTP req) u \<Longrightarrow> sound_request req origin (requestFor u req origin)"
  by (auto simp: sound_request_def requestFor_def discreet_def sameOrigin_def)

lemma finishFetch_sound:
  assumes "0 < rq_MaxBytes req" and "finishFetch tr capture ctx req origin k u response = Inr resp"
  shows "sound_response req origin u response resp"
proof -
  obtain body err k' where b: "readBody ctx k (hr_Reads response) (rq_MaxBytes req) = (body, err, k')"
    by (cases "readBody ctx k (hr_Reads response) (rq_MaxBytes req)")
  have "int (length body) \<le> rq_MaxBytes req"
    using b assms(1) readLoop_bound [of 0 "[]" "rq_MaxBytes req" ctx k "hr_Reads response"] by (simp add: readBody_def)
  moreover have "body = readAll (hr_Reads response)" if "err = None"
    using b that assms(1) readLoop_complete [of ctx "rq_MaxBytes req" k "[]" 0 "hr_Reads response" body k'] by (simp add: readBody_def)
  ultimately show ?thesis
    using assms b printableResponseBody_bound
    by (auto simp: finishFetch_def sound_response_def scopedValidators_def sameOrigin_def boundedUsageHeader_def captureErrorResponse_def
        Let_def maxErrorResponseBytes_def split: if_splits option.splits)
qed

lemma fetchLoop_sound:
  assumes "fetchLoop tr capture ctx req origin redirects k current sent = (r, sent')" and "0 < rq_MaxBytes req"
    and "admissible (rq_AllowHTTP req) current" and "list_all (sound_request req origin) sent" and "length sent \<le> redirects"
    and "redirects \<le> maxRedirects + 1"
  shows "list_all (sound_request req origin) sent' \<and> length sent' \<le> maxRedirects + 1
    \<and> (\<forall>resp. r = Inr resp \<longrightarrow> sent' \<noteq> []
      \<and> (\<exists>response. tr_net tr sent' = Some response \<and> sound_response req origin (hq_URL (last sent')) response resp))"
  using assms
proof (induction tr capture ctx req origin redirects k current sent rule: fetchLoop.induct)
  case (1 tr capture ctx req origin redirects k current sent)
  let ?q = "requestFor current req origin"
  have q: "list_all (sound_request req origin) (sent @ [?q])" using "1.prems"(3,4) by (simp add: sound_requestFor)
  have stop: "list_all (sound_request req origin) sent' \<and> length sent' \<le> maxRedirects + 1"
    if "sent' = sent @ [?q]" "\<not> redirects > maxRedirects" using that q "1.prems"(5) by simp
  show ?case
  proof (cases "redirects > maxRedirects \<or> ctx k \<noteq> None")
    case True
    with "1.prems" show ?thesis by (subst (asm) fetchLoop.simps) (auto split: if_splits option.splits)
  next
    case False
    then have go: "\<not> redirects > maxRedirects" "ctx k = None" by auto
    show ?thesis
    proof (cases "tr_net tr (sent @ [?q])")
      case None
      with "1.prems"(1) go stop show ?thesis by (subst (asm) fetchLoop.simps) (auto simp: Let_def)
    next
      case (Some response)
      show ?thesis
      proof (cases "isRedirect (hr_StatusCode response)")
        case False
        with "1.prems"(1) go Some have r: "r = finishFetch tr capture ctx req origin (k + 1) current response" "sent' = sent @ [?q]"
          by (subst (asm) fetchLoop.simps, simp add: Let_def)+
        with finishFetch_sound [OF "1.prems"(2)] stop go Some show ?thesis by (auto simp: requestFor_def)
      next
        case redirect: True
        show ?thesis
        proof (cases "hr_Location response = ''''")
          case True
          with "1.prems"(1) go Some redirect stop show ?thesis by (subst (asm) fetchLoop.simps) (auto simp: Let_def)
        next
          case location: False
          show ?thesis
          proof (cases "resolveRedirect (tr_parse tr) (tr_resolve tr) current (hr_Location response) (rq_AllowHTTP req)")
            case (Inl err)
            with "1.prems"(1) go Some redirect location stop show ?thesis by (subst (asm) fetchLoop.simps) (auto simp: Let_def)
          next
            case (Inr u)
            then have "admissible (rq_AllowHTTP req) u" by (auto simp: resolveRedirect_def validateURL_Inr split: option.splits)
            moreover have "fetchLoop tr capture ctx req origin (redirects + 1) (k + 1) u (sent @ [?q]) = (r, sent')"
              using "1.prems"(1) go Some redirect location Inr by (subst (asm) fetchLoop.simps) (simp add: Let_def)
            ultimately show ?thesis
              using "1.IH" [OF go refl Some redirect location Inr] "1.prems"(2,5) q go by simp
          qed
        qed
      qed
    qed
  qed
qed

lemma parseURL_admissible: "parseURL url_Parse txt allowHTTP = Inr u \<Longrightarrow> admissible allowHTTP u"
  by (auto simp: parseURL_def Let_def validateURL_Inr split: if_splits option.splits)

lemma Fetch_sound:
  assumes "Fetch tr capture routed ctx req = (r, sent)" and "parseURL (tr_parse tr) (rq_URL req) (rq_AllowHTTP req) = Inr u"
  shows "list_all (sound_request req (originOf u)) sent \<and> length sent \<le> maxRedirects + 1
    \<and> (\<forall>resp. r = Inr resp \<longrightarrow> sent \<noteq> []
      \<and> (\<exists>response. tr_net tr sent = Some response \<and> sound_response req (originOf u) (hq_URL (last sent)) response resp))"
proof (cases "ctx 0 = None \<and> 0 < rq_MaxBytes req \<and> validUserAgent (rq_UserAgent req) \<and> ValidRoute (rq_Route req) \<and> routed (rq_Route req) = None")
  case True
  with assms have "fetchLoop tr capture ctx req (originOf u) 0 1 u [] = (r, sent)" by (simp add: Fetch_def)
  from fetchLoop_sound [OF this] True parseURL_admissible [OF assms(2)] show ?thesis by simp
next
  case False
  with assms(1) show ?thesis by (auto simp: Fetch_def split: option.splits if_splits)
qed

text \<open>The first request goes to the address of the request.\<close>

lemma fetchLoop_first:
  "fetchLoop tr capture ctx req origin redirects k current sent = (r, sent') \<Longrightarrow>
   sent' = sent \<or> prefix (sent @ [requestFor current req origin]) sent'"
proof (induction tr capture ctx req origin redirects k current sent rule: fetchLoop.induct)
  case (1 tr capture ctx req origin redirects k current sent)
  let ?sent = "sent @ [requestFor current req origin]"
  have deeper: "prefix ?sent sent'"
    if "\<not> redirects > maxRedirects" "ctx k = None" "tr_net tr ?sent = Some response" "isRedirect (hr_StatusCode response)"
      "hr_Location response \<noteq> ''''" "resolveRedirect (tr_parse tr) (tr_resolve tr) current (hr_Location response) (rq_AllowHTTP req) = Inr u"
      "fetchLoop tr capture ctx req origin (redirects + 1) (k + 1) u ?sent = (r, sent')" for response u
    using "1.IH" [OF that(1,2) refl that(3-7)] by (auto simp: prefix_def)
  from "1.prems" show ?case
    by (subst (asm) fetchLoop.simps) (auto simp: Let_def split: if_splits option.splits sum.splits intro: deeper)
qed

lemma Fetch_origin:
  assumes "Fetch tr capture routed ctx req = (r, sent)" and "sent \<noteq> []"
  shows "parseURL (tr_parse tr) (rq_URL req) (rq_AllowHTTP req) = Inr (hq_URL (hd sent))"
proof -
  obtain u where u: "parseURL (tr_parse tr) (rq_URL req) (rq_AllowHTTP req) = Inr u"
    "fetchLoop tr capture ctx req (originOf u) 0 1 u [] = (r, sent)"
    using assms by (auto simp: Fetch_def split: option.splits if_splits sum.splits)
  from fetchLoop_first [OF u(2)] assms(2) have "hd sent = requestFor u req (originOf u)" by (auto simp: prefix_def)
  with u(1) show ?thesis by (simp add: requestFor_def)
qed

section \<open>Properties\<close>

text \<open>
  C34. A download contacts at most six addresses, each of them over https (or over http where the request
  allows it), with a host and without user information, and it shows the validators and the user agent of
  the subscription only to the origin of its own address: a redirect to another scheme, host or port gets
  neither.
\<close>

theorem fetch_discreet:
  assumes "Fetch tr capture routed ctx req = (r, sent)"
  shows "length sent \<le> 6
    \<and> (\<forall>q \<in> set sent. admissible (rq_AllowHTTP req) (hq_URL q) \<and> discreet (originOf (hq_URL (hd sent))) q)"
proof (cases "sent = []")
  case False
  from Fetch_sound [OF assms Fetch_origin [OF assms False]] show ?thesis
    by (simp add: maxRedirects_def list_all_iff sound_request_def)
qed simp

text \<open>
  C35. What a download returns: the answer to the last request, which is either 304 with an empty body or a
  success with the complete body, never longer than the limit of the request; the captured diagnostic text has
  at most 4096 bytes and the usage header at most 1024, and validators are returned only when the last address
  has the origin of the first.
\<close>

theorem fetch_bounded:
  assumes "Fetch tr capture routed ctx req = (Inr resp, sent)"
  shows "sent \<noteq> [] \<and> (\<exists>response. tr_net tr sent = Some response
    \<and> sound_response req (originOf (hq_URL (hd sent))) (hq_URL (last sent)) response resp)"
proof -
  obtain u where "parseURL (tr_parse tr) (rq_URL req) (rq_AllowHTTP req) = Inr u"
    using assms by (auto simp: Fetch_def split: option.splits if_splits sum.splits)
  from Fetch_sound [OF assms this] have ne: "sent \<noteq> []" by blast
  from Fetch_sound [OF assms Fetch_origin [OF assms this]] ne show ?thesis by blast
qed

lemma Fetch_body:
  assumes "Fetch tr capture routed ctx req = (Inr resp, sent)"
  shows "int (length (rs_Body resp)) \<le> rq_MaxBytes req" and "rs_StatusCode resp = 304 \<or> 200 \<le> rs_StatusCode resp \<and> rs_StatusCode resp < 300"
proof -
  obtain u where "parseURL (tr_parse tr) (rq_URL req) (rq_AllowHTTP req) = Inr u"
    using assms by (auto simp: Fetch_def split: option.splits if_splits sum.splits)
  from Fetch_sound [OF assms this]
  show "int (length (rs_Body resp)) \<le> rq_MaxBytes req" "rs_StatusCode resp = 304 \<or> 200 \<le> rs_StatusCode resp \<and> rs_StatusCode resp < 300"
    by (auto simp: sound_response_def)
qed

text \<open>
  A status error that is shown to the user is read back from its text: \<open>ParseStatus\<close> inverts \<open>Error\<close> on the
  statuses from 400 to 599, and accepts the text of no other status.
\<close>

theorem status_roundtrip:
  assumes "in_i64 (st_Code e)"
  shows "ParseStatus (StatusError_Error e)
    = (if StatusError_Valid e then Some \<lparr> st_Code = st_Code e, st_ResponseBody = '''' \<rparr> else None)"
  using Atoi_Itoa_int [OF assms] length_itoa_3 [of "st_Code e"]
  by (auto simp: ParseStatus_def StatusError_Error_def StatusError_Valid_def strings_HasPrefix_def)

section \<open>A concrete download\<close>

text \<open>An https address that redirects to another host, which answers with six bytes.\<close>

definition exURL :: "string \<Rightarrow> URL" where
  "exURL host = \<lparr> u_Scheme = ''https'', u_Opaque = '''', u_User = False, u_Host = host, u_Hostname = host, u_Port = '''', u_Path = ''/'',
     u_Fragment = '''' \<rparr>"

definition exTransport :: transport where
  "exTransport = \<lparr> tr_net = (\<lambda>sent.
       if length sent = 1 then Some \<lparr> hr_StatusCode = 302, hr_Location = ''https://b'', hr_ETag = '''', hr_LastModified = '''', hr_Userinfo = '''', hr_Reads = [] \<rparr>
       else Some \<lparr> hr_StatusCode = 200, hr_Location = '''', hr_ETag = ''x'', hr_LastModified = '''', hr_Userinfo = '''',
              hr_Reads = [(''abc'', More), (''def'', EOF)] \<rparr>),
     tr_parse = (\<lambda>t. Some (exURL (drop 8 t))), tr_resolve = (\<lambda>base u. u), tr_printable = (\<lambda>t. t), tr_validUTF8 = (\<lambda>_. True), tr_timedOut = False \<rparr>"

definition exRequest :: Request where
  "exRequest = \<lparr> rq_URL = ''https://a'', rq_Route = ''direct'', rq_ETag = ''tag'', rq_LastModified = '''', rq_MaxBytes = 100, rq_AllowHTTP = False,
     rq_UserAgent = ''agent'', rq_CaptureErrorBody = False \<rparr>"

abbreviation exFetch :: "(fetch_error + Response) \<times> httpRequest list" where
  "exFetch \<equiv> Fetch exTransport False (\<lambda>_. None) (\<lambda>_. None) exRequest"

lemma exFetch_eval:
  "exFetch = (Inr \<lparr> rs_StatusCode = 200, rs_Body = ''abcdef'', rs_DiagnosticBody = '''', rs_ETag = '''', rs_LastModified = '''', rs_SubscriptionUserInfo = '''' \<rparr>,
     [\<lparr> hq_URL = exURL ''a'', hq_UserAgent = ''agent'', hq_IfNoneMatch = ''tag'', hq_IfModifiedSince = '''' \<rparr>,
      \<lparr> hq_URL = exURL ''b'', hq_UserAgent = ''clash-pulse'', hq_IfNoneMatch = '''', hq_IfModifiedSince = '''' \<rparr>])"
  by code_simp

theorem fetch_discreet_witness: "discreet (originOf (exURL ''a'')) (snd exFetch ! 1)"
proof -
  have "exFetch = (fst exFetch, snd exFetch)" by simp
  from fetch_discreet [OF this] show ?thesis by (simp add: exFetch_eval)
qed

theorem fetch_bounded_witness:
  "\<exists>response resp. fst exFetch = Inr resp \<and> sound_response exRequest (originOf (exURL ''a'')) (exURL ''b'') response resp"
  using fetch_bounded [OF exFetch_eval] by (auto simp: exFetch_eval)

theorem status_roundtrip_witness: "ParseStatus ''HTTP 404'' = Some \<lparr> st_Code = 404, st_ResponseBody = '''' \<rparr>"
proof -
  have "in_i64 (st_Code \<lparr> st_Code = 404, st_ResponseBody = '''' \<rparr>)" by (simp add: in_i64_def)
  moreover have "StatusError_Error \<lparr> st_Code = 404, st_ResponseBody = '''' \<rparr> = ''HTTP 404''" by code_simp
  ultimately show ?thesis using status_roundtrip [of "\<lparr> st_Code = 404, st_ResponseBody = '''' \<rparr>"] by (simp add: StatusError_Valid_def)
qed

end
