(* ===== verification/Subscriptions_Store.thy ===== *)
theory Subscriptions_Store
  imports Config_Load Go_IO Download_Client
begin

text \<open>
  The private store of the subscriptions (\<open>src/subscriptions/store.go\<close>).

  \<open>subStore\<close> is the state directory together with the memory of the process: for every subscription its
  \<open>record.json\<close> and its generation files, the markers \<open>active.json\<close> and \<open>.activation-pending.json\<close>, the
  directories waiting for deletion, and the records and the active identity the process holds. A JSON file
  is absent, unreadable, or the document it decodes to; a file with bytes is readable when it is within its
  size limit. \<open>config.Write\<close> replaces a file atomically and reports an error only if it did not.

  Parameters: \<open>sha\<close>, the hexadecimal SHA-256 digest of \<open>hashBytes\<close>; \<open>url_Parse\<close>; the random bytes of \<open>newID\<close>.
  A map is an association list whose order stands for the iteration order of the Go map.
\<close>

section \<open>Data\<close>

record Usage =
  us_Upload :: int
  us_Download :: int
  us_Total :: int
  us_ExpiresAt :: int

record privateRecord =
  pr_Subscription :: Subscription
  pr_ETag :: string
  pr_LastModified :: string
  pr_CheckedAt :: gotime
  pr_LastSuccess :: gotime
  pr_LastFailureAt :: gotime
  pr_LastFailure :: string
  pr_Usage :: "Usage option"
  pr_Hash :: string
  pr_CandidateHash :: string
  pr_DownloadedOnly :: bool
  pr_AppliedHash :: string
  pr_AppliedProfileHash :: string
  pr_AppliedCandidateHash :: string
  pr_Active :: bool

record activeMarker =
  am_ID :: string
  am_ProfileHash :: string
  am_CandidateHash :: string

record pendingActivation =
  pa_ID :: string
  pa_ProfileHash :: string
  pa_CandidateHash :: string
  pa_ResourceCommitID :: string
  pa_Accepted :: bool

datatype 'a json_file = Missing | Unreadable | Json 'a

record subDir =
  sd_record :: "privateRecord json_file"
  sd_files :: "(string \<times> bytes) list"

record subStore =
  ss_dirs :: "(string \<times> subDir) list"
  ss_active :: "activeMarker json_file"
  ss_pending :: "pendingActivation json_file"
  ss_quarantine :: "string list"
  ss_records :: "(string \<times> privateRecord) list"
  ss_activeID :: string
  ss_activeProfileHash :: string
  ss_activeCandidateHash :: string

type_synonym 'a store_io = "(subStore, 'a) io"

abbreviation ErrInvalid :: go_error where "ErrInvalid \<equiv> Errorf ''subscriptions: invalid subscription'' []"
abbreviation ErrActive :: go_error where "ErrActive \<equiv> Errorf ''subscriptions: active subscription cannot be deleted'' []"
abbreviation ErrNotFound :: go_error where "ErrNotFound \<equiv> Errorf ''subscriptions: not found'' []"
abbreviation ErrAlreadyExists :: go_error where "ErrAlreadyExists \<equiv> Errorf ''subscriptions: already exists'' []"
abbreviation ErrNoSnapshot :: go_error where "ErrNoSnapshot \<equiv> Errorf ''subscriptions: no validated snapshot'' []"
abbreviation ErrStore :: go_error where "ErrStore \<equiv> Errorf ''subscriptions: private state unavailable'' []"
abbreviation ErrCleanupPending :: go_error where "ErrCleanupPending \<equiv> Errorf ''subscriptions: deletion cleanup pending'' []"

definition maxProfileBytes :: int where
  "maxProfileBytes = 32 * 2 ^ 20"

definition maxCandidateBytes :: int where
  "maxCandidateBytes = 64 * 2 ^ 20"

section \<open>Grammars\<close>

definition subID_inner :: "char \<Rightarrow> bool" where
  "subID_inner c \<longleftrightarrow> is_alnum c \<or> c = CHR ''.'' \<or> c = CHR ''_'' \<or> c = CHR ''-''"

definition validID :: "string \<Rightarrow> bool" where
  "validID ident \<longleftrightarrow> ident \<noteq> '''' \<and> length ident \<le> 128 \<and> is_alnum (hd ident) \<and> list_all subID_inner (tl ident)"

definition validURL :: "url_parser \<Rightarrow> string \<Rightarrow> bool \<Rightarrow> bool" where
  "validURL url_Parse raw allowHTTP =
     (let full = (if strings_HasPrefix raw ''//'' then ''https:'' @ raw
                  else if \<not> strings_Contains raw ''://'' then ''https://'' @ raw else raw)
      in raw \<noteq> ''''
         \<and> (case url_Parse full of
              None \<Rightarrow> False
            | Some target \<Rightarrow>
                \<not> u_User target \<and> u_Host target \<noteq> '''' \<and> u_Opaque target = ''''
                \<and> (u_Scheme target = ''https'' \<or> allowHTTP \<and> u_Scheme target = ''http'')))"

definition validOptionalHash :: "string \<Rightarrow> bool" where
  "validOptionalHash value \<longleftrightarrow> value = '''' \<or> length value = 64 \<and> hex_DecodeString_ok value"

definition validFailure :: "string \<Rightarrow> bool" where
  "validFailure failure \<longleftrightarrow>
     failure \<in> set ['''', ''subscriptions: refresh failed'', ''subscriptions: no validated snapshot'',
       ''subscriptions: invalid profile'', ''subscriptions: candidate generation failed'',
       ''subscriptions: candidate validation failed'', ''context deadline exceeded'']
     \<or> ParseStatus failure \<noteq> None"

definition newID :: "string \<Rightarrow> string" where
  "newID hex = ''sub_'' @ hex"

text \<open>\<open>generated\<close> is the random identifier, or \<open>None\<close> when none is to be generated.\<close>

definition normalizeSubscription :: "url_parser \<Rightarrow> Subscription \<Rightarrow> string option \<Rightarrow> go_error + Subscription" where
  "normalizeSubscription url_Parse s generated =
     (let trimmed = strings_TrimSpace (sub_ID s);
          ident = (if trimmed = '''' \<and> generated \<noteq> None then newID (the generated) else trimmed);
          name = (if strings_TrimSpace (sub_Name s) = '''' then ident else strings_TrimSpace (sub_Name s));
          interval = (if sub_RefreshInterval s = 0 then 12 * Hour else sub_RefreshInterval s);
          timeout = (if sub_Timeout s = 0 then 30 * Second else sub_Timeout s);
          route = (if sub_Route s = '''' then download_Auto else sub_Route s);
          link = strings_TrimSpace (sub_URL s)
      in if \<not> validID ident then Inl ErrInvalid
         else if length name > 256 then Inl ErrInvalid
         else if interval < 0 \<or> timeout < 0 then Inl ErrInvalid
         else if \<not> ValidRoute route then Inl ErrInvalid
         else if \<not> validURL url_Parse link (sub_AllowHTTP s) then Inl ErrInvalid
         else if \<not> ValidSubscriptionUserAgent (sub_UserAgent s) then Inl ErrInvalid
         else Inr (s\<lparr> sub_ID := ident, sub_Name := name, sub_RefreshInterval := interval, sub_Timeout := timeout,
                      sub_Route := route, sub_URL := link \<rparr>))"

section \<open>Generations\<close>

definition profileFilename :: "string \<Rightarrow> string" where
  "profileFilename profileHash = ''profile-'' @ profileHash @ ''.yaml''"

definition candidateFilename :: "string \<Rightarrow> string \<Rightarrow> string" where
  "candidateFilename profileHash candidateHash = ''candidate-'' @ profileHash @ ''-'' @ candidateHash @ ''.yaml''"

definition dirOf :: "subStore \<Rightarrow> string \<Rightarrow> subDir" where
  "dirOf s ident = (case map_of (ss_dirs s) ident of None \<Rightarrow> \<lparr> sd_record = Missing, sd_files = [] \<rparr> | Some d \<Rightarrow> d)"

definition readPrivateFile :: "subStore \<Rightarrow> string \<Rightarrow> string \<Rightarrow> int \<Rightarrow> bytes option" where
  "readPrivateFile s ident name limit =
     (case map_of (sd_files (dirOf s ident)) name of
        None \<Rightarrow> None
      | Some data \<Rightarrow> if int (length data) > limit then None else Some data)"

definition readGenerationFiles :: "subStore \<Rightarrow> string \<Rightarrow> string \<Rightarrow> string \<Rightarrow> (bytes \<times> bytes) option" where
  "readGenerationFiles s ident profileHash candidateHash =
     (case (readPrivateFile s ident (profileFilename profileHash) maxProfileBytes,
            readPrivateFile s ident (candidateFilename profileHash candidateHash) maxCandidateBytes) of
        (Some profile, Some candidate) \<Rightarrow> Some (profile, candidate)
      | _ \<Rightarrow> None)"

definition generationMatches :: "(bytes \<Rightarrow> string) \<Rightarrow> bytes \<Rightarrow> bytes \<Rightarrow> string \<Rightarrow> string \<Rightarrow> bool" where
  "generationMatches sha profile candidate profileHash candidateHash \<longleftrightarrow> sha profile = profileHash \<and> sha candidate = candidateHash"

definition readPairProfile :: "(bytes \<Rightarrow> string) \<Rightarrow> subStore \<Rightarrow> string \<Rightarrow> string \<Rightarrow> string \<Rightarrow> go_error + bytes" where
  "readPairProfile sha s ident profileHash candidateHash =
     (if \<not> validID ident \<or> \<not> validOptionalHash profileHash \<or> profileHash = '''' \<or> \<not> validOptionalHash candidateHash \<or> candidateHash = ''''
      then Inl ErrNoSnapshot
      else case readGenerationFiles s ident profileHash candidateHash of
             None \<Rightarrow> Inl ErrStore
           | Some (profile, candidate) \<Rightarrow>
               if generationMatches sha profile candidate profileHash candidateHash then Inr profile else Inl ErrStore)"

definition verifyPair :: "(bytes \<Rightarrow> string) \<Rightarrow> subStore \<Rightarrow> string \<Rightarrow> string \<Rightarrow> string \<Rightarrow> go_error option" where
  "verifyPair sha s ident profileHash candidateHash =
     (case readPairProfile sha s ident profileHash candidateHash of Inl err \<Rightarrow> Some err | Inr _ \<Rightarrow> None)"

definition generationReferenced :: "privateRecord \<Rightarrow> string \<Rightarrow> string \<Rightarrow> bool" where
  "generationReferenced r profileHash candidateHash \<longleftrightarrow>
     pr_Hash r = profileHash \<and> pr_CandidateHash r = candidateHash
     \<or> pr_AppliedProfileHash r = profileHash \<and> pr_AppliedCandidateHash r = candidateHash"

section \<open>Opening\<close>

definition checkRecord :: "(bytes \<Rightarrow> string) \<Rightarrow> url_parser \<Rightarrow> subStore \<Rightarrow> string \<Rightarrow> privateRecord \<Rightarrow> go_error option" where
  "checkRecord sha url_Parse s ident r =
     (if sub_ID (pr_Subscription r) \<noteq> ident then Some ErrStore
      else if normalizeSubscription url_Parse (pr_Subscription r) None \<noteq> Inr (pr_Subscription r)
        \<or> \<not> validOptionalHash (pr_Hash r) \<or> \<not> validOptionalHash (pr_CandidateHash r) \<or> \<not> validFailure (pr_LastFailure r)
        \<or> (pr_DownloadedOnly r \<and> (pr_Hash r = '''' \<or> pr_CandidateHash r \<noteq> pr_Hash r)) then Some ErrStore
      else if pr_Hash r = '''' then fail_if (pr_CandidateHash r \<noteq> '''') ErrStore
      else fail_if (pr_CandidateHash r = '''' \<or> verifyPair sha s ident (pr_Hash r) (pr_CandidateHash r) \<noteq> None) ErrStore)"

fun loadRecords ::
  "(bytes \<Rightarrow> string) \<Rightarrow> url_parser \<Rightarrow> subStore \<Rightarrow> (string \<times> privateRecord) list \<Rightarrow> (string \<times> subDir) list
   \<Rightarrow> go_error + (string \<times> privateRecord) list" where
  "loadRecords sha url_Parse s acc [] = Inr acc"
| "loadRecords sha url_Parse s acc ((ident, dir) # dirs) =
     (if \<not> validID ident then Inl ErrStore
      else case sd_record dir of
             Json r \<Rightarrow>
               (case checkRecord sha url_Parse s ident r of
                  Some err \<Rightarrow> Inl err
                | None \<Rightarrow> loadRecords sha url_Parse s (acc @ [(ident, r)]) dirs)
           | _ \<Rightarrow> Inl ErrStore)"

text \<open>A marker written before it named its generation takes it from the record.\<close>

definition activeGeneration :: "(bytes \<Rightarrow> string) \<Rightarrow> subStore \<Rightarrow> privateRecord \<Rightarrow> activeMarker \<Rightarrow> string \<times> string" where
  "activeGeneration sha s r m =
     (if am_ProfileHash m = '''' \<and> am_CandidateHash m = '''' then
        let (p, c) = (if pr_AppliedProfileHash r = '''' \<and> pr_AppliedHash r \<noteq> '''' then (pr_Hash r, pr_AppliedHash r)
                      else (pr_AppliedProfileHash r, pr_AppliedCandidateHash r))
        in if verifyPair sha s (am_ID m) p c \<noteq> None then (pr_Hash r, pr_CandidateHash r) else (p, c)
      else (am_ProfileHash m, am_CandidateHash m))"

definition loadActive :: "(bytes \<Rightarrow> string) \<Rightarrow> subStore \<Rightarrow> (string \<times> privateRecord) list \<Rightarrow> go_error + string \<times> string \<times> string" where
  "loadActive sha s records =
     (case ss_active s of
        Missing \<Rightarrow> Inr ('''', '''', '''')
      | Unreadable \<Rightarrow> Inl ErrStore
      | Json m \<Rightarrow>
          if am_ID m \<noteq> '''' then
            (if \<not> validID (am_ID m) then Inl ErrStore
             else case map_of records (am_ID m) of
                    None \<Rightarrow> Inl ErrStore
                  | Some r \<Rightarrow>
                      let (p, c) = activeGeneration sha s r m in
                      if verifyPair sha s (am_ID m) p c \<noteq> None then Inl ErrStore else Inr (am_ID m, p, c))
          else if am_ProfileHash m \<noteq> '''' \<or> am_CandidateHash m \<noteq> '''' then Inl ErrStore
          else Inr ('''', am_ProfileHash m, am_CandidateHash m))"

definition unapply :: "privateRecord \<Rightarrow> privateRecord" where
  "unapply r = r\<lparr> pr_AppliedHash := '''', pr_AppliedProfileHash := '''', pr_AppliedCandidateHash := '''', pr_Active := False \<rparr>"

text \<open>The applied generation is written into the record of the active subscription only.\<close>

definition applyTo :: "string \<Rightarrow> string \<Rightarrow> string \<Rightarrow> (string \<times> privateRecord) list \<Rightarrow> (string \<times> privateRecord) list" where
  "applyTo ident profileHash candidateHash records =
     map (\<lambda>(i, r). (i, if i = ident
       then (unapply r)\<lparr> pr_Active := True, pr_AppliedHash := candidateHash, pr_AppliedProfileHash := profileHash,
              pr_AppliedCandidateHash := candidateHash \<rparr>
       else unapply r)) records"

definition NewSubStore :: "(bytes \<Rightarrow> string) \<Rightarrow> url_parser \<Rightarrow> unit store_io" where
  "NewSubStore sha url_Parse =
     then_io (bind_io (read_io ss_quarantine) (\<lambda>q.
         if q = [] then return_io () else step_io (\<lambda>s. s\<lparr> ss_quarantine := [] \<rparr>) ErrCleanupPending))
       (bind_io (read_io (\<lambda>s. loadRecords sha url_Parse s [] (ss_dirs s))) (\<lambda>r.
          case r of
            Inl err \<Rightarrow> fail_io err
          | Inr records \<Rightarrow>
              bind_io (read_io (\<lambda>s. loadActive sha s records)) (\<lambda>a.
                case a of
                  Inl err \<Rightarrow> fail_io err
                | Inr (ident, p, c) \<Rightarrow>
                    modify_io (\<lambda>s. s\<lparr> ss_records := applyTo ident p c records, ss_activeID := ident,
                      ss_activeProfileHash := p, ss_activeCandidateHash := c \<rparr>))))"

section \<open>Reading\<close>

definition Store_ActiveID :: "subStore \<Rightarrow> go_error + string" where
  "Store_ActiveID s = (if ss_activeID s = '''' then Inl ErrNoSnapshot else Inr (ss_activeID s))"

definition Store_Profile :: "(bytes \<Rightarrow> string) \<Rightarrow> subStore \<Rightarrow> string \<Rightarrow> go_error + bytes" where
  "Store_Profile sha s ident =
     (case map_of (ss_records s) ident of
        None \<Rightarrow> Inl ErrNotFound
      | Some r \<Rightarrow> readPairProfile sha s ident (pr_Hash r) (pr_CandidateHash r))"

definition ActiveProfile :: "(bytes \<Rightarrow> string) \<Rightarrow> subStore \<Rightarrow> go_error + string \<times> bytes" where
  "ActiveProfile sha s =
     (if ss_activeID s = '''' then Inl ErrNoSnapshot
      else case readPairProfile sha s (ss_activeID s) (ss_activeProfileHash s) (ss_activeCandidateHash s) of
             Inl err \<Rightarrow> Inl err
           | Inr profile \<Rightarrow> Inr (ss_activeID s, profile))"

definition appliedProfile :: "(bytes \<Rightarrow> string) \<Rightarrow> subStore \<Rightarrow> string \<Rightarrow> go_error + bytes" where
  "appliedProfile sha s ident =
     (case map_of (ss_records s) ident of
        None \<Rightarrow> Inl ErrNotFound
      | Some r \<Rightarrow> readPairProfile sha s ident (pr_AppliedProfileHash r) (pr_AppliedCandidateHash r))"

definition Store_get :: "subStore \<Rightarrow> string \<Rightarrow> privateRecord option" where
  "Store_get s ident = map_option (\<lambda>r. r\<lparr> pr_Active := (ss_activeID s = ident) \<rparr>) (map_of (ss_records s) ident)"

definition isActive :: "subStore \<Rightarrow> string \<Rightarrow> bool" where
  "isActive s ident \<longleftrightarrow> ss_activeID s = ident"

definition Store_list :: "subStore \<Rightarrow> privateRecord list" where
  "Store_list s = sort_key (\<lambda>r. sub_ID (pr_Subscription r)) (map (\<lambda>(i, r). r\<lparr> pr_Active := (ss_activeID s = i) \<rparr>) (ss_records s))"

definition recordSnapshot :: "(bytes \<Rightarrow> string) \<Rightarrow> subStore \<Rightarrow> string \<Rightarrow> go_error + privateRecord \<times> bytes \<times> bytes" where
  "recordSnapshot sha s ident =
     (case map_of (ss_records s) ident of
        None \<Rightarrow> Inl ErrNotFound
      | Some r \<Rightarrow>
          if pr_Hash r = '''' \<or> pr_CandidateHash r = '''' then Inl ErrNoSnapshot
          else case readGenerationFiles s ident (pr_Hash r) (pr_CandidateHash r) of
                 None \<Rightarrow> Inl ErrStore
               | Some (profile, candidate) \<Rightarrow>
                   if generationMatches sha profile candidate (pr_Hash r) (pr_CandidateHash r) then Inr (r, profile, candidate) else Inl ErrStore)"

definition appliedIdentity :: "subStore \<Rightarrow> string \<times> string \<times> string" where
  "appliedIdentity s = (ss_activeID s, ss_activeProfileHash s, ss_activeCandidateHash s)"

text \<open>The loop of \<open>dueIDs\<close>: the identifiers due and the earliest deadline.\<close>

definition recordDue :: "gotime \<Rightarrow> privateRecord \<Rightarrow> gotime" where
  "recordDue now r = (if time_IsZero (pr_CheckedAt r) then now else pr_CheckedAt r + sub_RefreshInterval (pr_Subscription r))"

fun dueFrom :: "gotime \<Rightarrow> (string \<Rightarrow> bool) \<Rightarrow> string list \<times> gotime \<Rightarrow> (string \<times> privateRecord) list \<Rightarrow> string list \<times> gotime" where
  "dueFrom now excluded acc [] = acc"
| "dueFrom now excluded (ids, next) ((ident, r) # rest) =
     (if \<not> sub_Enabled (pr_Subscription r) \<or> excluded ident then dueFrom now excluded (ids, next) rest
      else
        let due = recordDue now r in
        dueFrom now excluded
          (if \<not> due > now then ids @ [ident] else ids, if time_IsZero next \<or> due < next then due else next) rest)"

definition dueIDs :: "gotime \<Rightarrow> (string \<Rightarrow> bool) \<Rightarrow> subStore \<Rightarrow> string list \<times> gotime" where
  "dueIDs now excluded s = (let (ids, next) = dueFrom now excluded ([], 0) (ss_records s) in (sort ids, next))"

section \<open>Writing\<close>

definition upd_dir :: "string \<Rightarrow> (subDir \<Rightarrow> subDir) \<Rightarrow> subStore \<Rightarrow> subStore" where
  "upd_dir ident f s = s\<lparr> ss_dirs := AList.update ident (f (dirOf s ident)) (ss_dirs s) \<rparr>"

definition put_file :: "string \<Rightarrow> bytes \<Rightarrow> subDir \<Rightarrow> subDir" where
  "put_file name data d = d\<lparr> sd_files := AList.update name data (sd_files d) \<rparr>"

definition put_record :: "string \<Rightarrow> privateRecord \<Rightarrow> subStore \<Rightarrow> subStore" where
  "put_record ident r s = s\<lparr> ss_records := AList.update ident r (ss_records s) \<rparr>"

text \<open>\<open>config.Write\<close> of a generation file and of a record.\<close>

definition writeFile :: "string \<Rightarrow> string \<Rightarrow> bytes \<Rightarrow> unit store_io" where
  "writeFile ident name data = atomic_io (upd_dir ident (put_file name data)) ErrStore"

definition writeRecord :: "string \<Rightarrow> privateRecord \<Rightarrow> unit store_io" where
  "writeRecord ident r = atomic_io (upd_dir ident (\<lambda>d. d\<lparr> sd_record := Json (unapply r) \<rparr>)) ErrStore"

definition Store_add :: "privateRecord \<Rightarrow> unit store_io" where
  "Store_add r =
     (let ident = sub_ID (pr_Subscription r) in
      bind_io (read_io (\<lambda>s. (map_of (ss_records s) ident, map_of (ss_dirs s) ident))) (\<lambda>(old, dir).
        if old \<noteq> None then fail_io ErrAlreadyExists
        else if dir \<noteq> None then fail_io ErrAlreadyExists
        else
          then_io (atomic_io (upd_dir ident (\<lambda>_. \<lparr> sd_record = Missing, sd_files = [] \<rparr>)) ErrStore)
         (then_io (catch_io (writeRecord ident r)
            (\<lambda>_. then_io (try_io (atomic_io (\<lambda>s. s\<lparr> ss_dirs := AList.delete ident (ss_dirs s) \<rparr>) ErrStore)) (fail_io ErrStore)))
            (modify_io (put_record ident r)))))"

definition Store_replace :: "privateRecord \<Rightarrow> unit store_io" where
  "Store_replace r =
     (let ident = sub_ID (pr_Subscription r) in
      bind_io (read_io (\<lambda>s. map_of (ss_records s) ident)) (\<lambda>old.
        if old = None then fail_io ErrNotFound
        else then_io (writeRecord ident r) (modify_io (put_record ident r))))"

definition Store_delete :: "string \<Rightarrow> unit store_io" where
  "Store_delete ident =
     bind_io (read_io (\<lambda>s. (map_of (ss_records s) ident, ss_activeID s))) (\<lambda>(old, active).
       if old = None then fail_io ErrNotFound
       else if active = ident then fail_io ErrActive
       else
         then_io (atomic_io (\<lambda>s. s\<lparr> ss_dirs := AList.delete ident (ss_dirs s), ss_quarantine := ident # ss_quarantine s \<rparr>) ErrStore)
        (then_io (modify_io (\<lambda>s. s\<lparr> ss_records := AList.delete ident (ss_records s) \<rparr>))
        (then_io (step_io (\<lambda>s. s) ErrCleanupPending)
           (step_io (\<lambda>s. s\<lparr> ss_quarantine := remove1 ident (ss_quarantine s) \<rparr>) ErrCleanupPending))))"

definition touchSuccess :: "string \<Rightarrow> gotime \<Rightarrow> string \<Rightarrow> string \<Rightarrow> Usage option \<Rightarrow> bool store_io" where
  "touchSuccess ident checkedAt etag lastModified usage =
     bind_io (read_io (\<lambda>s. map_of (ss_records s) ident)) (\<lambda>old.
       case old of
         None \<Rightarrow> fail_io ErrNotFound
       | Some r \<Rightarrow>
           let recovered = (pr_LastFailure r \<noteq> '''');
               r' = r\<lparr> pr_CheckedAt := checkedAt, pr_LastSuccess := checkedAt,
                 pr_ETag := (if etag \<noteq> '''' then etag else pr_ETag r),
                 pr_LastModified := (if lastModified \<noteq> '''' then lastModified else pr_LastModified r),
                 pr_Usage := (if usage \<noteq> None then usage else pr_Usage r), pr_LastFailureAt := 0, pr_LastFailure := '''' \<rparr>
           in
           then_io (if recovered then writeRecord ident r' else return_io ())
          (then_io (modify_io (put_record ident r')) (return_io recovered)))"

definition touchFailure :: "string \<Rightarrow> gotime \<Rightarrow> string \<Rightarrow> bool store_io" where
  "touchFailure ident checkedAt failure =
     (if \<not> validFailure failure \<or> failure = '''' then return_io False
      else
        bind_io (read_io (\<lambda>s. map_of (ss_records s) ident)) (\<lambda>old.
          case old of
            None \<Rightarrow> return_io False
          | Some r \<Rightarrow>
              let r' = r\<lparr> pr_CheckedAt := checkedAt, pr_LastFailureAt := checkedAt, pr_LastFailure := failure \<rparr> in
              bind_io (catch_io (then_io (writeRecord ident r') (return_io True)) (\<lambda>_. return_io False)) (\<lambda>persisted.
                then_io (modify_io (put_record ident r')) (return_io persisted))))"

definition promotedRecord ::
  "(bytes \<Rightarrow> string) \<Rightarrow> bytes \<Rightarrow> bytes \<Rightarrow> gotime \<Rightarrow> string \<Rightarrow> string \<Rightarrow> Usage option \<Rightarrow> bool \<Rightarrow> privateRecord \<Rightarrow> privateRecord" where
  "promotedRecord sha profile candidate checkedAt etag lastModified usage downloadedOnly r =
     r\<lparr> pr_Hash := sha profile, pr_CandidateHash := sha candidate, pr_DownloadedOnly := downloadedOnly,
        pr_CheckedAt := checkedAt, pr_LastSuccess := checkedAt, pr_LastFailureAt := 0, pr_LastFailure := '''',
        pr_ETag := etag, pr_LastModified := lastModified, pr_Usage := usage \<rparr>"

definition Store_promote ::
  "(bytes \<Rightarrow> string) \<Rightarrow> string \<Rightarrow> bytes \<Rightarrow> bytes \<Rightarrow> gotime \<Rightarrow> string \<Rightarrow> string \<Rightarrow> Usage option \<Rightarrow> bool \<Rightarrow> privateRecord store_io" where
  "Store_promote sha ident profile candidate checkedAt etag lastModified usage downloadedOnly =
     bind_io (read_io (\<lambda>s. map_of (ss_records s) ident)) (\<lambda>old.
       case old of
         None \<Rightarrow> fail_io ErrNotFound
       | Some previous \<Rightarrow>
           let r = promotedRecord sha profile candidate checkedAt etag lastModified usage downloadedOnly previous in
           then_io (writeFile ident (profileFilename (sha profile)) profile)
          (then_io (writeFile ident (candidateFilename (sha profile) (sha candidate)) candidate)
          (then_io (writeRecord ident r)
          (then_io (modify_io (put_record ident r))
             (return_io previous)))))"

definition removeFile :: "string \<Rightarrow> string \<Rightarrow> unit store_io" where
  "removeFile ident name = try_io (atomic_io (upd_dir ident (\<lambda>d. d\<lparr> sd_files := AList.delete name (sd_files d) \<rparr>)) ErrStore)"

definition rollbackPromotion :: "string \<Rightarrow> privateRecord \<Rightarrow> string \<Rightarrow> string \<Rightarrow> unit store_io" where
  "rollbackPromotion ident previous profileHash candidateHash =
     bind_io (read_io (\<lambda>s. map_of (ss_records s) ident)) (\<lambda>old.
       if old = None then fail_io ErrNotFound
       else
         then_io (catch_io (writeRecord ident previous)
           (\<lambda>_. then_io (modify_io (put_record ident previous)) (fail_io ErrStore)))
        (then_io (modify_io (put_record ident previous))
        (then_io (if \<not> generationReferenced previous profileHash candidateHash
                  then removeFile ident (candidateFilename profileHash candidateHash) else return_io ())
           (if profileHash \<noteq> pr_Hash previous \<and> profileHash \<noteq> pr_AppliedProfileHash previous
            then removeFile ident (profileFilename profileHash) else return_io ()))))"

text \<open>Which generation files of a record are kept.\<close>

definition keptFile :: "privateRecord \<Rightarrow> string \<Rightarrow> bool" where
  "keptFile r name \<longleftrightarrow>
     (strings_HasPrefix name ''profile-'' \<longrightarrow>
        (pr_Hash r \<noteq> '''' \<and> pr_CandidateHash r \<noteq> '''' \<and> name = profileFilename (pr_Hash r))
        \<or> (pr_AppliedProfileHash r \<noteq> '''' \<and> pr_AppliedCandidateHash r \<noteq> '''' \<and> name = profileFilename (pr_AppliedProfileHash r)))
     \<and> (strings_HasPrefix name ''candidate-'' \<longrightarrow>
        (pr_Hash r \<noteq> '''' \<and> pr_CandidateHash r \<noteq> '''' \<and> name = candidateFilename (pr_Hash r) (pr_CandidateHash r))
        \<or> (pr_AppliedProfileHash r \<noteq> '''' \<and> pr_AppliedCandidateHash r \<noteq> ''''
           \<and> name = candidateFilename (pr_AppliedProfileHash r) (pr_AppliedCandidateHash r)))"

definition cleanupGenerations :: "string \<Rightarrow> privateRecord \<Rightarrow> unit store_io" where
  "cleanupGenerations ident r =
     bind_io (read_io (\<lambda>s. map fst (sd_files (dirOf s ident))))
       (each_io (\<lambda>name. if keptFile r name then return_io () else removeFile ident name))"

definition finalizePromotion :: "string \<Rightarrow> unit store_io" where
  "finalizePromotion ident =
     bind_io (read_io (\<lambda>s. map_of (ss_records s) ident)) (\<lambda>old.
       case old of None \<Rightarrow> return_io () | Some r \<Rightarrow> cleanupGenerations ident r)"

definition cleanupApplied :: "unit store_io" where
  "cleanupApplied = bind_io (read_io ss_records) (each_io (\<lambda>(ident, r). cleanupGenerations ident r))"

section \<open>Activation\<close>

definition setApplied :: "(bytes \<Rightarrow> string) \<Rightarrow> string \<Rightarrow> string \<Rightarrow> string \<Rightarrow> unit store_io" where
  "setApplied sha ident profileHash candidateHash =
     bind_io (read_io (\<lambda>s. (map_of (ss_records s) ident, verifyPair sha s ident profileHash candidateHash))) (\<lambda>(old, pair).
       if old = None then fail_io ErrNotFound
       else if pair \<noteq> None then fail_io ErrNoSnapshot
       else
         then_io (atomic_io (\<lambda>s. s\<lparr> ss_active := Json \<lparr> am_ID = ident, am_ProfileHash = profileHash, am_CandidateHash = candidateHash \<rparr> \<rparr>) ErrStore)
           (modify_io (\<lambda>s. s\<lparr> ss_records := applyTo ident profileHash candidateHash (ss_records s), ss_activeID := ident,
              ss_activeProfileHash := profileHash, ss_activeCandidateHash := candidateHash \<rparr>)))"

definition restoreApplied :: "(bytes \<Rightarrow> string) \<Rightarrow> string \<Rightarrow> string \<Rightarrow> string \<Rightarrow> unit store_io" where
  "restoreApplied sha ident profileHash candidateHash =
     (if ident \<noteq> '''' then setApplied sha ident profileHash candidateHash
      else
        then_io (atomic_io (\<lambda>s. s\<lparr> ss_active := Missing \<rparr>) ErrStore)
          (modify_io (\<lambda>s. s\<lparr> ss_records := map (\<lambda>(i, r). (i, unapply r)) (ss_records s), ss_activeID := '''',
             ss_activeProfileHash := '''', ss_activeCandidateHash := '''' \<rparr>)))"

definition validResourceCommitID :: "string \<Rightarrow> bool" where
  "validResourceCommitID ident \<longleftrightarrow> length ident = 32 \<and> hex_DecodeString_ok ident"

definition markActivationPending :: "string \<Rightarrow> string \<Rightarrow> string \<Rightarrow> string \<Rightarrow> unit store_io" where
  "markActivationPending ident profileHash candidateHash resourceCommitID =
     (if \<not> validResourceCommitID resourceCommitID then fail_io ErrStore
      else
        bind_io (read_io ss_pending) (\<lambda>file.
          if file \<noteq> Missing then fail_io ErrStore
          else atomic_io (\<lambda>s. s\<lparr> ss_pending := Json \<lparr> pa_ID = ident, pa_ProfileHash = profileHash, pa_CandidateHash = candidateHash,
                 pa_ResourceCommitID = resourceCommitID, pa_Accepted = False \<rparr> \<rparr>) ErrStore))"

definition clearActivationPending :: "unit store_io" where
  "clearActivationPending = atomic_io (\<lambda>s. s\<lparr> ss_pending := Missing \<rparr>) ErrStore"

definition validPending :: "pendingActivation \<Rightarrow> bool" where
  "validPending p \<longleftrightarrow>
     (pa_ID p \<noteq> '''' \<longrightarrow> validID (pa_ID p)) \<and> validOptionalHash (pa_ProfileHash p) \<and> validOptionalHash (pa_CandidateHash p)
     \<and> validResourceCommitID (pa_ResourceCommitID p)
     \<and> \<not> (pa_ID p = '''' \<and> (pa_ProfileHash p \<noteq> '''' \<or> pa_CandidateHash p \<noteq> ''''))"

definition loadPendingActivation :: "pendingActivation option store_io" where
  "loadPendingActivation =
     bind_io (read_io ss_pending) (\<lambda>file.
       case file of
         Missing \<Rightarrow> return_io None
       | Unreadable \<Rightarrow> fail_io ErrStore
       | Json p \<Rightarrow> if validPending p then return_io (Some p) else fail_io ErrStore)"

definition markActivationAccepted :: "unit store_io" where
  "markActivationAccepted =
     bind_io loadPendingActivation (\<lambda>pending.
       case pending of
         None \<Rightarrow> fail_io ErrStore
       | Some p \<Rightarrow> atomic_io (\<lambda>s. s\<lparr> ss_pending := Json (p\<lparr> pa_Accepted := True \<rparr>) \<rparr>) ErrStore)"

definition retryAcceptedActivationCleanup :: "unit store_io" where
  "retryAcceptedActivationCleanup =
     bind_io loadPendingActivation (\<lambda>pending.
       case pending of
         None \<Rightarrow> return_io ()
       | Some p \<Rightarrow> if \<not> pa_Accepted p then fail_io ErrStore else clearActivationPending)"

definition RecoverPendingActivation :: "(bytes \<Rightarrow> string) \<Rightarrow> string \<Rightarrow> unit store_io" where
  "RecoverPendingActivation sha resourceCommitID =
     bind_io loadPendingActivation (\<lambda>pending.
       then_io (case pending of
           None \<Rightarrow> return_io ()
         | Some p \<Rightarrow>
             then_io (if \<not> pa_Accepted p \<and> pa_ResourceCommitID p \<noteq> resourceCommitID
                      then restoreApplied sha (pa_ID p) (pa_ProfileHash p) (pa_CandidateHash p) else return_io ())
               clearActivationPending)
         cleanupApplied)"

end
