(* ===== verification/Subscriptions_Integrity.thy ===== *)
theory Subscriptions_Integrity
  imports Subscriptions_Store
begin

text \<open>
  Integrity of the subscription store: what is on disk can always be opened again, with the active
  generation intact, whatever operation failed or wherever the process died.
\<close>

section \<open>Generation files\<close>

definition sha_ok :: "(bytes \<Rightarrow> string) \<Rightarrow> bool" where
  "sha_ok sha \<longleftrightarrow> (\<forall>data. length (sha data) = 64 \<and> hex_DecodeString_ok (sha data))"

lemma dirOf_upd [simp]: "dirOf (upd_dir i f s) j = (if i = j then f (dirOf s i) else dirOf s j)"
  by (simp add: dirOf_def upd_dir_def update_conv')

lemma upd_dir_simps [simp]:
  "ss_active (upd_dir i f s) = ss_active s" "ss_pending (upd_dir i f s) = ss_pending s" "ss_records (upd_dir i f s) = ss_records s"
  "ss_activeID (upd_dir i f s) = ss_activeID s" "ss_activeProfileHash (upd_dir i f s) = ss_activeProfileHash s"
  "ss_activeCandidateHash (upd_dir i f s) = ss_activeCandidateHash s" "ss_quarantine (upd_dir i f s) = ss_quarantine s"
  by (simp_all add: upd_dir_def)

lemma put_record_simps [simp]:
  "ss_active (put_record i r s) = ss_active s" "ss_pending (put_record i r s) = ss_pending s" "ss_dirs (put_record i r s) = ss_dirs s"
  "ss_activeID (put_record i r s) = ss_activeID s" "ss_activeProfileHash (put_record i r s) = ss_activeProfileHash s"
  "ss_activeCandidateHash (put_record i r s) = ss_activeCandidateHash s" "dirOf (put_record i r s) = dirOf s"
  by (simp_all add: put_record_def dirOf_def fun_eq_iff)

abbreviation files_of :: "subStore \<Rightarrow> string \<Rightarrow> string \<Rightarrow> bytes option" where
  "files_of s ident \<equiv> map_of (sd_files (dirOf s ident))"

definition hash_ok :: "string \<Rightarrow> bool" where
  "hash_ok value \<longleftrightarrow> length value = 64 \<and> hex_DecodeString_ok value"

lemma hash_ok_nonempty: "hash_ok value \<Longrightarrow> value \<noteq> ''''"
  by (auto simp: hash_ok_def)

lemma validOptionalHash_iff: "validOptionalHash value \<longleftrightarrow> value = '''' \<or> hash_ok value"
  by (simp add: validOptionalHash_def hash_ok_def)

text \<open>A pair of digests names two files with these digests.\<close>

definition pair_ok :: "(bytes \<Rightarrow> string) \<Rightarrow> (string \<Rightarrow> bytes option) \<Rightarrow> string \<Rightarrow> string \<Rightarrow> bool" where
  "pair_ok sha files p c \<longleftrightarrow>
     hash_ok p \<and> hash_ok c
     \<and> (\<exists>data. files (profileFilename p) = Some data \<and> sha data = p \<and> int (length data) \<le> maxProfileBytes)
     \<and> (\<exists>data. files (candidateFilename p c) = Some data \<and> sha data = c \<and> int (length data) \<le> maxCandidateBytes)"

lemma verifyPair_None: "verifyPair sha s ident p c = None \<longleftrightarrow> validID ident \<and> pair_ok sha (files_of s ident) p c"
proof (cases "validID ident \<and> hash_ok p \<and> hash_ok c")
  case True
  then show ?thesis
    by (auto simp: verifyPair_def readPairProfile_def pair_ok_def readGenerationFiles_def readPrivateFile_def generationMatches_def
        validOptionalHash_iff hash_ok_nonempty split: option.splits)
next
  case False
  then show ?thesis
    by (auto simp: verifyPair_def readPairProfile_def pair_ok_def validOptionalHash_iff split: option.splits)
qed

lemma profileFilename_inj [simp]: "profileFilename p = profileFilename q \<longleftrightarrow> p = q"
  by (simp add: profileFilename_def)

lemma profile_not_candidate [simp]: "profileFilename p \<noteq> candidateFilename q c" "candidateFilename q c \<noteq> profileFilename p"
  by (simp_all add: profileFilename_def candidateFilename_def)

lemma candidateFilename_inj:
  assumes "hash_ok p" and "hash_ok q" and "candidateFilename p c = candidateFilename q d"
  shows "p = q \<and> c = d"
proof -
  have "p @ ''-'' @ c @ ''.yaml'' = q @ ''-'' @ d @ ''.yaml''" using assms(3) by (simp add: candidateFilename_def)
  moreover have "length p = length q" using assms(1,2) by (simp add: hash_ok_def)
  ultimately show ?thesis by (simp add: append_eq_append_conv)
qed

text \<open>Writing a generation file under the name of its digest keeps every pair.\<close>

lemma pair_ok_put_profile:
  assumes "pair_ok sha files p c" and "int (length data) \<le> maxProfileBytes"
  shows "pair_ok sha (files(profileFilename (sha data) \<mapsto> data)) p c"
  using assms by (auto simp: pair_ok_def)

lemma pair_ok_put_candidate:
  assumes "pair_ok sha files p c" and "hash_ok q" and "int (length data) \<le> maxCandidateBytes"
  shows "pair_ok sha (files(candidateFilename q (sha data) \<mapsto> data)) p c"
  using assms candidateFilename_inj [of p q c "sha data"] by (auto simp: pair_ok_def)

lemma pair_ok_new:
  assumes "sha_ok sha" and "int (length profile) \<le> maxProfileBytes" and "int (length candidate) \<le> maxCandidateBytes"
  shows "pair_ok sha (files(profileFilename (sha profile) \<mapsto> profile, candidateFilename (sha profile) (sha candidate) \<mapsto> candidate))
    (sha profile) (sha candidate)"
  using assms by (auto simp: pair_ok_def hash_ok_def sha_ok_def)

lemma pair_ok_remove:
  assumes "pair_ok sha files p c" and "name \<noteq> profileFilename p" and "name \<noteq> candidateFilename p c"
  shows "pair_ok sha (files(name := None)) p c"
  using assms by (auto simp: pair_ok_def)

section \<open>The invariant\<close>

definition generation_ok :: "(bytes \<Rightarrow> string) \<Rightarrow> (string \<Rightarrow> bytes option) \<Rightarrow> privateRecord \<Rightarrow> bool" where
  "generation_ok sha files r \<longleftrightarrow>
     pr_Hash r = '''' \<and> pr_CandidateHash r = '''' \<or> pair_ok sha files (pr_Hash r) (pr_CandidateHash r)"

definition settings_ok :: "url_parser \<Rightarrow> string \<Rightarrow> privateRecord \<Rightarrow> bool" where
  "settings_ok url_Parse ident r \<longleftrightarrow>
     validID ident \<and> sub_ID (pr_Subscription r) = ident
     \<and> normalizeSubscription url_Parse (pr_Subscription r) None = Inr (pr_Subscription r)
     \<and> validFailure (pr_LastFailure r) \<and> (pr_DownloadedOnly r \<longrightarrow> pr_Hash r \<noteq> '''' \<and> pr_CandidateHash r = pr_Hash r)"

lemma checkRecord_None:
  assumes "validID ident"
  shows "checkRecord sha url_Parse s ident r = None \<longleftrightarrow> settings_ok url_Parse ident r \<and> generation_ok sha (files_of s ident) r"
proof (cases "pr_Hash r = ''''")
  case True
  then show ?thesis
    using assms by (auto simp: checkRecord_def settings_ok_def generation_ok_def pair_ok_def validOptionalHash_iff hash_ok_def)
next
  case False
  then show ?thesis
    using assms by (auto simp: checkRecord_def settings_ok_def generation_ok_def verifyPair_None validOptionalHash_iff pair_ok_def
        hash_ok_nonempty)
qed

definition marker_ok :: "(bytes \<Rightarrow> string) \<Rightarrow> subStore \<Rightarrow> bool" where
  "marker_ok sha s =
     (case ss_active s of
        Missing \<Rightarrow> True
      | Unreadable \<Rightarrow> False
      | Json m \<Rightarrow>
          if am_ID m = '''' then am_ProfileHash m = '''' \<and> am_CandidateHash m = ''''
          else map_of (ss_dirs s) (am_ID m) \<noteq> None \<and> pair_ok sha (files_of s (am_ID m)) (am_ProfileHash m) (am_CandidateHash m))"

definition disk_ok :: "(bytes \<Rightarrow> string) \<Rightarrow> url_parser \<Rightarrow> subStore \<Rightarrow> bool" where
  "disk_ok sha url_Parse s \<longleftrightarrow>
     distinct (map fst (ss_dirs s))
     \<and> (\<forall>ident d. map_of (ss_dirs s) ident = Some d \<longrightarrow>
          (\<exists>r. sd_record d = Json r \<and> settings_ok url_Parse ident r \<and> generation_ok sha (map_of (sd_files d)) r))
     \<and> marker_ok sha s"

text \<open>The memory of the process agrees with the disk on the generations.\<close>

definition marked :: "subStore \<Rightarrow> string \<times> string \<times> string" where
  "marked s = (case ss_active s of Json m \<Rightarrow> (am_ID m, am_ProfileHash m, am_CandidateHash m) | _ \<Rightarrow> ('''', '''', ''''))"

definition mem_record_ok :: "url_parser \<Rightarrow> subStore \<Rightarrow> string \<Rightarrow> privateRecord \<Rightarrow> bool" where
  "mem_record_ok url_Parse s ident m \<longleftrightarrow>
     settings_ok url_Parse ident m
     \<and> (\<exists>r. sd_record (dirOf s ident) = Json r \<and> pr_Hash r = pr_Hash m \<and> pr_CandidateHash r = pr_CandidateHash m)
     \<and> (ident = ss_activeID s \<longrightarrow>
          pr_AppliedProfileHash m = ss_activeProfileHash s \<and> pr_AppliedCandidateHash m = ss_activeCandidateHash s)"

definition mem_ok :: "url_parser \<Rightarrow> subStore \<Rightarrow> bool" where
  "mem_ok url_Parse s \<longleftrightarrow>
     distinct (map fst (ss_records s)) \<and> fst ` set (ss_records s) = fst ` set (ss_dirs s)
     \<and> (\<forall>ident m. map_of (ss_records s) ident = Some m \<longrightarrow> mem_record_ok url_Parse s ident m)
     \<and> appliedIdentity s = marked s"

definition store_ok :: "(bytes \<Rightarrow> string) \<Rightarrow> url_parser \<Rightarrow> subStore \<Rightarrow> bool" where
  "store_ok sha url_Parse s \<longleftrightarrow> disk_ok sha url_Parse s \<and> mem_ok url_Parse s"

lemma disk_record:
  assumes "disk_ok sha url_Parse s" and "map_of (ss_dirs s) ident \<noteq> None"
  obtains d r where "map_of (ss_dirs s) ident = Some d" "dirOf s ident = d" "sd_record d = Json r" "settings_ok url_Parse ident r"
    "generation_ok sha (map_of (sd_files d)) r"
proof -
  from assms(2) obtain d where d: "map_of (ss_dirs s) ident = Some d" by auto
  with assms(1) obtain r where "sd_record d = Json r" "settings_ok url_Parse ident r" "generation_ok sha (map_of (sd_files d)) r"
    unfolding disk_ok_def by blast
  with d that show thesis by (simp add: dirOf_def)
qed

lemma disk_ok_cong:
  assumes "ss_dirs g = ss_dirs s" and "ss_active g = ss_active s"
  shows "disk_ok sha url_Parse g = disk_ok sha url_Parse s"
proof -
  have "dirOf g = dirOf s" using assms by (simp add: dirOf_def fun_eq_iff)
  then show ?thesis using assms by (cases "ss_active s") (simp_all add: disk_ok_def marker_ok_def)
qed

lemma settings_ok_validID: "settings_ok url_Parse ident r \<Longrightarrow> validID ident"
  by (simp add: settings_ok_def)

section \<open>Opening again\<close>

lemma settings_ok_unapply [simp]: "settings_ok url_Parse ident (unapply r) = settings_ok url_Parse ident r"
  by (simp add: settings_ok_def unapply_def)

lemma generation_ok_unapply [simp]: "generation_ok sha files (unapply r) = generation_ok sha files r"
  by (simp add: generation_ok_def unapply_def)

lemma loadRecords_ok:
  assumes "disk_ok sha url_Parse s" and "set dirs \<subseteq> set (ss_dirs s)"
  shows "loadRecords sha url_Parse s acc dirs = Inr (acc @ map (\<lambda>(i, d). (i, case sd_record d of Json r \<Rightarrow> r)) dirs)"
  using assms(2)
proof (induction dirs arbitrary: acc)
  case (Cons x dirs)
  obtain ident d where x: "x = (ident, d)" by (cases x)
  have lookup: "map_of (ss_dirs s) ident = Some d"
    using assms(1) Cons.prems by (simp add: disk_ok_def x)
  with assms(1) obtain r where r: "sd_record d = Json r" "settings_ok url_Parse ident r" "generation_ok sha (map_of (sd_files d)) r"
    unfolding disk_ok_def by blast
  have "checkRecord sha url_Parse s ident r = None"
    using r lookup by (subst checkRecord_None) (auto simp: settings_ok_def dirOf_def)
  moreover have "validID ident" using r(2) by (simp add: settings_ok_def)
  ultimately show ?case using Cons.IH [of "acc @ [(ident, r)]"] Cons.prems r(1) by (simp add: x)
qed simp

lemma map_fst_applyTo [simp]: "map fst (applyTo ident p c records) = map fst records"
  by (simp add: applyTo_def o_def split_beta)

lemma map_of_applyTo:
  "map_of (applyTo ident p c records) i = map_option (\<lambda>r. if i = ident
     then (unapply r)\<lparr> pr_Active := True, pr_AppliedHash := c, pr_AppliedProfileHash := p, pr_AppliedCandidateHash := c \<rparr>
     else unapply r) (map_of records i)"
  by (induction records) (auto simp: applyTo_def)

lemma settings_ok_applied [simp]:
  "settings_ok url_Parse ident (r\<lparr> pr_Active := a, pr_AppliedHash := h, pr_AppliedProfileHash := p, pr_AppliedCandidateHash := c \<rparr>)
   = settings_ok url_Parse ident r"
  by (simp add: settings_ok_def)

lemma mem_ok_opened:
  assumes "disk_ok sha url_Parse s"
  shows "mem_ok url_Parse (s\<lparr> ss_records := applyTo (fst (marked s)) (fst (snd (marked s))) (snd (snd (marked s)))
      (map (\<lambda>(i, d). (i, case sd_record d of Json r \<Rightarrow> r)) (ss_dirs s)),
    ss_activeID := fst (marked s), ss_activeProfileHash := fst (snd (marked s)), ss_activeCandidateHash := snd (snd (marked s)) \<rparr>)"
    (is "mem_ok _ ?s")
proof -
  let ?recs = "map (\<lambda>(i, d). (i, case sd_record d of Json r \<Rightarrow> r)) (ss_dirs s)"
  have keys: "map fst ?recs = map fst (ss_dirs s)" by (simp add: o_def split_beta)
  have lookup: "map_of ?recs ident = map_option (\<lambda>d. case sd_record d of Json r \<Rightarrow> r) (map_of (ss_dirs s) ident)" for ident
    by (induction "ss_dirs s") (auto simp: map_of_map)
  have "mem_record_ok url_Parse ?s ident m" if m: "map_of (ss_records ?s) ident = Some m" for ident m
  proof -
    from m have "map_of (ss_dirs s) ident \<noteq> None" by (auto simp: map_of_applyTo lookup)
    with assms obtain d r where d: "map_of (ss_dirs s) ident = Some d" "dirOf s ident = d" "sd_record d = Json r" "settings_ok url_Parse ident r"
      by (rule disk_record)
    have same: "dirOf ?s ident = dirOf s ident" by (simp add: dirOf_def)
    from m d have "m = (if ident = fst (marked s) then (unapply r)\<lparr> pr_Active := True, pr_AppliedHash := snd (snd (marked s)),
        pr_AppliedProfileHash := fst (snd (marked s)), pr_AppliedCandidateHash := snd (snd (marked s)) \<rparr> else unapply r)"
      by (simp add: map_of_applyTo lookup)
    with d same show ?thesis by (auto simp: mem_record_ok_def unapply_def settings_ok_def)
  qed
  moreover have "fst ` set (ss_records ?s) = fst ` set (ss_dirs s)"
  proof -
    have "map fst (ss_records ?s) = map fst (ss_dirs s)" by (simp add: o_def split_beta)
    then show ?thesis by (metis list.set_map)
  qed
  moreover have "distinct (map fst (ss_records ?s))"
  proof -
    have eq: "map fst (ss_records ?s) = map fst (ss_dirs s)" by (simp add: o_def split_beta)
    have "distinct (map fst (ss_dirs s))" using assms by (simp add: disk_ok_def)
    then show ?thesis by (simp only: eq)
  qed
  moreover have "appliedIdentity ?s = marked ?s" by (simp add: appliedIdentity_def marked_def)
  ultimately show ?thesis by (simp add: mem_ok_def)
qed

lemma runs_NewSubStore:
  assumes "disk_ok sha url_Parse s"
  shows "runs (NewSubStore sha url_Parse) (\<lambda>_ s'. store_ok sha url_Parse s' \<and> ss_dirs s' = ss_dirs s \<and> ss_active s' = ss_active s
    \<and> ss_pending s' = ss_pending s \<and> appliedIdentity s' = marked s) s"
proof -
  let ?recs = "map (\<lambda>(i, d). (i, case sd_record d of Json r \<Rightarrow> r)) (ss_dirs s)"
  have active: "loadActive sha g ?recs = Inr (marked s)" if g: "ss_dirs g = ss_dirs s" "ss_active g = ss_active s" for g
  proof -
    have same: "dirOf g = dirOf s" using g by (simp add: dirOf_def fun_eq_iff)
    show ?thesis
    proof (cases "ss_active s")
      case (Json m)
      show ?thesis
      proof (cases "am_ID m = ''''")
        case True
        with assms Json g show ?thesis by (simp add: loadActive_def marked_def disk_ok_def marker_ok_def)
      next
        case False
        with assms Json have p: "pair_ok sha (files_of s (am_ID m)) (am_ProfileHash m) (am_CandidateHash m)"
          and d: "map_of (ss_dirs s) (am_ID m) \<noteq> None" by (auto simp: disk_ok_def marker_ok_def)
        from disk_record [OF assms d] have "validID (am_ID m)" by (metis settings_ok_validID)
        moreover have "map_of ?recs (am_ID m) \<noteq> None"
          using d by (auto simp: map_of_eq_None_iff image_image split_beta)
        moreover have "am_ProfileHash m \<noteq> ''''" using p by (auto simp: pair_ok_def hash_ok_def)
        ultimately show ?thesis
          using False Json p g same by (auto simp: loadActive_def marked_def activeGeneration_def verifyPair_None)
      qed
    qed (use assms g in \<open>simp_all add: loadActive_def marked_def disk_ok_def marker_ok_def\<close>)
  qed
  have load: "loadRecords sha url_Parse g [] (ss_dirs s) = Inr ?recs"
    if g: "ss_dirs g = ss_dirs s" "ss_active g = ss_active s" for g
  proof -
    have "disk_ok sha url_Parse g" using assms disk_ok_cong [OF g] by simp
    from loadRecords_ok [OF this, of "ss_dirs g" "[]"] g(1) show ?thesis by simp
  qed
  have done_ok: "store_ok sha url_Parse (g\<lparr> ss_records := applyTo (fst (marked s)) (fst (snd (marked s))) (snd (snd (marked s))) ?recs,
      ss_activeID := fst (marked s), ss_activeProfileHash := fst (snd (marked s)), ss_activeCandidateHash := snd (snd (marked s)) \<rparr>)"
    if g: "ss_dirs g = ss_dirs s" "ss_active g = ss_active s" for g
  proof -
    have d: "disk_ok sha url_Parse g" using assms disk_ok_cong [OF g] by simp
    have m: "marked g = marked s" using g by (simp add: marked_def)
    show ?thesis
      using mem_ok_opened [OF d] assms by (simp add: store_ok_def m g cong: disk_ok_cong)
  qed
  obtain i p c where mk: "marked s = (i, p, c)" by (cases "marked s")
  show ?thesis
    unfolding NewSubStore_def
    by (intro runs_then runs_bind)
      (auto simp: load active mk appliedIdentity_def intro!: runs_bind done_ok [unfolded mk, simplified])
qed

section \<open>Changes that keep the invariant\<close>

lemma disk_ok_upd_dir:
  assumes "disk_ok sha url_Parse s" and "settings_ok url_Parse ident r" and "sd_record (f (dirOf s ident)) = Json r"
    and "generation_ok sha (map_of (sd_files (f (dirOf s ident)))) r"
    and "\<And>m. ss_active s = Json m \<Longrightarrow> am_ID m = ident \<Longrightarrow> pair_ok sha (files_of s ident) (am_ProfileHash m) (am_CandidateHash m)
      \<Longrightarrow> pair_ok sha (map_of (sd_files (f (dirOf s ident)))) (am_ProfileHash m) (am_CandidateHash m)"
  shows "disk_ok sha url_Parse (upd_dir ident f s)"
proof -
  have "marker_ok sha s" using assms(1) by (simp add: disk_ok_def)
  then have "marker_ok sha (upd_dir ident f s)"
    using assms(5) by (auto simp: marker_ok_def upd_dir_def [of ident f s] update_conv' dirOf_def split: json_file.splits)
  then show ?thesis
    using assms(1-4) by (auto simp: disk_ok_def upd_dir_def [of ident f s] update_conv' distinct_update)
qed

lemma mem_dir:
  assumes "mem_ok url_Parse s" and "map_of (ss_records s) ident = Some m"
  obtains d where "map_of (ss_dirs s) ident = Some d" "dirOf s ident = d"
proof -
  have "ident \<in> fst ` set (ss_dirs s)" using assms by (metis mem_ok_def image_eqI fst_conv map_of_SomeD)
  then obtain d where "map_of (ss_dirs s) ident = Some d" by (metis map_of_eq_None_iff not_None_eq)
  with that show thesis by (simp add: dirOf_def)
qed

text \<open>Under the invariant the record in memory names the generation on disk.\<close>

lemma store_record:
  assumes "store_ok sha url_Parse s" and "map_of (ss_records s) ident = Some m"
  obtains r where "map_of (ss_dirs s) ident = Some (dirOf s ident)" "sd_record (dirOf s ident) = Json r" "settings_ok url_Parse ident r"
    "generation_ok sha (files_of s ident) r" "settings_ok url_Parse ident m" "generation_ok sha (files_of s ident) m"
    "pr_Hash r = pr_Hash m" "pr_CandidateHash r = pr_CandidateHash m" "mem_record_ok url_Parse s ident m"
proof -
  from assms have ok: "disk_ok sha url_Parse s" "mem_ok url_Parse s" by (simp_all add: store_ok_def)
  from ok(2) assms(2) obtain d where d: "map_of (ss_dirs s) ident = Some d" "dirOf s ident = d" by (rule mem_dir)
  then have "map_of (ss_dirs s) ident \<noteq> None" by simp
  from disk_record [OF ok(1) this] obtain r where r: "sd_record (dirOf s ident) = Json r" "settings_ok url_Parse ident r"
    "generation_ok sha (files_of s ident) r" by metis
  have m: "mem_record_ok url_Parse s ident m" using ok(2) assms(2) by (simp add: mem_ok_def)
  with r have h: "pr_Hash r = pr_Hash m" "pr_CandidateHash r = pr_CandidateHash m" by (auto simp: mem_record_ok_def)
  with r(3) have "generation_ok sha (files_of s ident) m" by (simp add: generation_ok_def)
  moreover have "settings_ok url_Parse ident m" using m by (simp add: mem_record_ok_def)
  ultimately show thesis using that d r h m by simp
qed

lemma mem_ok_put:
  assumes "mem_ok url_Parse s" and "ss_records s' = AList.update ident r (ss_records s)"
    and "fst ` set (ss_dirs s') = insert ident (fst ` set (ss_dirs s))" and "\<And>j. j \<noteq> ident \<Longrightarrow> dirOf s' j = dirOf s j"
    and "appliedIdentity s' = appliedIdentity s" and "ss_active s' = ss_active s" and "mem_record_ok url_Parse s' ident r"
  shows "mem_ok url_Parse s'"
proof -
  have "mem_record_ok url_Parse s' j m" if "map_of (ss_records s') j = Some m" for j m
  proof (cases "j = ident")
    case True
    with that assms(2,7) show ?thesis by (simp add: update_conv')
  next
    case False
    with that assms(1,2) have "mem_record_ok url_Parse s j m" by (simp add: update_conv' mem_ok_def)
    with assms(4) [OF False] assms(5) show ?thesis by (simp add: mem_record_ok_def appliedIdentity_def)
  qed
  moreover have "fst ` set (ss_records s') = insert ident (fst ` set (ss_records s))"
  proof -
    have "dom (map_of (ss_records s')) = insert ident (dom (map_of (ss_records s)))" by (simp add: assms(2) update_conv')
    then show ?thesis by (simp add: dom_map_of_conv_image_fst)
  qed
  ultimately show ?thesis
    using assms(1-3,5,6) by (simp add: mem_ok_def distinct_update marked_def)
qed

lemma dirs_upd [simp]: "fst ` set (ss_dirs (upd_dir ident f s)) = insert ident (fst ` set (ss_dirs s))"
proof -
  have "dom (map_of (ss_dirs (upd_dir ident f s))) = insert ident (dom (map_of (ss_dirs s)))"
    by (simp add: upd_dir_def update_conv')
  then show ?thesis by (simp add: dom_map_of_conv_image_fst)
qed

lemma marked_upd [simp]: "marked (upd_dir ident f s) = marked s" "marked (put_record ident r s) = marked s"
  "appliedIdentity (upd_dir ident f s) = appliedIdentity s" "appliedIdentity (put_record ident r s) = appliedIdentity s"
  by (simp_all add: marked_def appliedIdentity_def)

lemma ss_records_put [simp]: "ss_records (put_record ident r s) = AList.update ident r (ss_records s)"
  by (simp add: put_record_def)

lemma unapply_simps [simp]:
  "pr_Hash (unapply r) = pr_Hash r" "pr_CandidateHash (unapply r) = pr_CandidateHash r" "pr_Subscription (unapply r) = pr_Subscription r"
  by (simp_all add: unapply_def)

text \<open>A new record of a known generation, written and then remembered.\<close>

lemma disk_ok_write:
  assumes "disk_ok sha url_Parse s" and "settings_ok url_Parse ident r" and "generation_ok sha (files_of s ident) r"
  shows "disk_ok sha url_Parse (upd_dir ident (\<lambda>d. d\<lparr> sd_record := Json (unapply r) \<rparr>) s)"
  using assms by (intro disk_ok_upd_dir [where r = "unapply r"]) simp_all

lemma store_ok_write:
  assumes "store_ok sha url_Parse s" and "map_of (ss_records s) ident = Some m" and "settings_ok url_Parse ident r"
    and "generation_ok sha (files_of s ident) r"
    and "pr_AppliedProfileHash r = pr_AppliedProfileHash m" and "pr_AppliedCandidateHash r = pr_AppliedCandidateHash m"
  shows "store_ok sha url_Parse (put_record ident r (upd_dir ident (\<lambda>d. d\<lparr> sd_record := Json (unapply r) \<rparr>) s))" (is "store_ok _ _ ?s")
proof -
  have "disk_ok sha url_Parse ?s"
    using disk_ok_write [of sha url_Parse s ident r] assms(1,3,4) disk_ok_cong [of ?s "upd_dir ident (\<lambda>d. d\<lparr> sd_record := Json (unapply r) \<rparr>) s"]
    by (simp add: store_ok_def)
  moreover have "mem_ok url_Parse ?s"
  proof (rule mem_ok_put)
    show "mem_ok url_Parse s" using assms(1) by (simp add: store_ok_def)
    from assms(1,2) have "mem_record_ok url_Parse s ident m" by (simp add: store_ok_def mem_ok_def)
    then show "mem_record_ok url_Parse ?s ident r" using assms(3,5,6) by (auto simp: mem_record_ok_def)
  qed simp_all
  ultimately show ?thesis by (simp add: store_ok_def)
qed

lemma store_ok_remember:
  assumes "store_ok sha url_Parse s" and "map_of (ss_records s) ident = Some m" and "settings_ok url_Parse ident r"
    and "pr_Hash r = pr_Hash m" and "pr_CandidateHash r = pr_CandidateHash m"
    and "pr_AppliedProfileHash r = pr_AppliedProfileHash m" and "pr_AppliedCandidateHash r = pr_AppliedCandidateHash m"
  shows "store_ok sha url_Parse (put_record ident r s)" (is "store_ok _ _ ?s")
proof -
  from assms(1,2) obtain d where d: "map_of (ss_dirs s) ident = Some d" by (auto simp: store_ok_def elim: mem_dir)
  have "disk_ok sha url_Parse ?s" using assms(1) disk_ok_cong [of ?s s] by (simp add: store_ok_def)
  moreover have "mem_ok url_Parse ?s"
  proof (rule mem_ok_put)
    show "mem_ok url_Parse s" using assms(1) by (simp add: store_ok_def)
    from assms(1,2) have "mem_record_ok url_Parse s ident m" by (simp add: store_ok_def mem_ok_def)
    then show "mem_record_ok url_Parse ?s ident r" using assms(3-7) by (auto simp: mem_record_ok_def)
    show "fst ` set (ss_dirs ?s) = insert ident (fst ` set (ss_dirs s))" using map_of_SomeD [OF d] by force
  qed simp_all
  ultimately show ?thesis by (simp add: store_ok_def)
qed

text \<open>A change of generation files that keeps the referenced pairs.\<close>

lemma store_ok_files:
  assumes "store_ok sha url_Parse s" and "map_of (ss_records s) ident = Some m" and "\<And>d. sd_record (f d) = sd_record d"
    and "\<And>p c. pair_ok sha (files_of s ident) p c \<Longrightarrow> generationReferenced m p c
      \<Longrightarrow> pair_ok sha (map_of (sd_files (f (dirOf s ident)))) p c"
  shows "store_ok sha url_Parse (upd_dir ident f s)" (is "store_ok _ _ ?s")
proof -
  from assms(1,2) obtain r where r: "map_of (ss_dirs s) ident = Some (dirOf s ident)" "sd_record (dirOf s ident) = Json r"
    "settings_ok url_Parse ident r" "generation_ok sha (files_of s ident) r" "pr_Hash r = pr_Hash m" "pr_CandidateHash r = pr_CandidateHash m"
    "mem_record_ok url_Parse s ident m" by (rule store_record)
  have "disk_ok sha url_Parse ?s"
  proof (rule disk_ok_upd_dir)
    show "generation_ok sha (map_of (sd_files (f (dirOf s ident)))) r"
      using r(4-6) assms(4) by (auto simp: generation_ok_def generationReferenced_def)
    fix mk assume mk: "ss_active s = Json mk" "am_ID mk = ident" "pair_ok sha (files_of s ident) (am_ProfileHash mk) (am_CandidateHash mk)"
    have "appliedIdentity s = marked s" using assms(1) by (simp add: store_ok_def mem_ok_def)
    then have "ss_activeID s = ident" "ss_activeProfileHash s = am_ProfileHash mk" "ss_activeCandidateHash s = am_CandidateHash mk"
      using mk(1,2) by (auto simp: appliedIdentity_def marked_def)
    with r(7) have "generationReferenced m (am_ProfileHash mk) (am_CandidateHash mk)"
      by (simp add: generationReferenced_def mem_record_ok_def)
    with mk(3) assms(4) show "pair_ok sha (map_of (sd_files (f (dirOf s ident)))) (am_ProfileHash mk) (am_CandidateHash mk)" by blast
  qed (use assms r in \<open>auto simp: store_ok_def\<close>)
  moreover have "mem_ok url_Parse ?s"
  proof -
    have "fst ` set (ss_dirs ?s) = fst ` set (ss_dirs s)" using map_of_SomeD [OF r(1)] by force
    moreover have "mem_record_ok url_Parse ?s j m = mem_record_ok url_Parse s j m" for j m
      using assms(3) by (simp add: mem_record_ok_def)
    ultimately show ?thesis using assms(1) by (simp add: store_ok_def mem_ok_def)
  qed
  ultimately show ?thesis by (simp add: store_ok_def)
qed

end
