(* ===== verification/Subscriptions_Operations.thy ===== *)
theory Subscriptions_Operations
  imports Subscriptions_Integrity
begin

text \<open>
  Every operation of the subscription store keeps the invariant of \<open>Subscriptions_Integrity\<close>: it ends in a
  good state when it returns, with or without an error, and a crash at any point leaves a disk that can be
  opened again. Only \<open>setApplied\<close> and \<open>restoreApplied\<close> change the active marker.
\<close>

section \<open>Keeping the active generation\<close>

definition store_at :: "(bytes \<Rightarrow> string) \<Rightarrow> url_parser \<Rightarrow> activeMarker json_file \<Rightarrow> pendingActivation json_file \<Rightarrow> subStore \<Rightarrow> bool" where
  "store_at sha url_Parse a p s \<longleftrightarrow> store_ok sha url_Parse s \<and> ss_active s = a \<and> ss_pending s = p"

definition disk_at :: "(bytes \<Rightarrow> string) \<Rightarrow> url_parser \<Rightarrow> activeMarker json_file \<Rightarrow> pendingActivation json_file \<Rightarrow> subStore \<Rightarrow> bool" where
  "disk_at sha url_Parse a p s \<longleftrightarrow> disk_ok sha url_Parse s \<and> ss_active s = a \<and> ss_pending s = p"

lemma disk_at_store: "store_at sha url_Parse a p s \<Longrightarrow> disk_at sha url_Parse a p s"
  by (simp add: store_at_def disk_at_def store_ok_def)

text \<open>\<open>keeps\<close> names the postconditions that most operations share.\<close>

definition keeps :: "(bytes \<Rightarrow> string) \<Rightarrow> url_parser \<Rightarrow> activeMarker json_file \<Rightarrow> pendingActivation json_file \<Rightarrow> 'a store_io \<Rightarrow> subStore \<Rightarrow> bool" where
  "keeps sha url_Parse a p m = wp m (\<lambda>_. store_at sha url_Parse a p) (\<lambda>_. store_at sha url_Parse a p) (disk_at sha url_Parse a p)"

lemma store_at_write:
  assumes "store_at sha url_Parse a p s" and "map_of (ss_records s) ident = Some m" and "settings_ok url_Parse ident r"
    and "generation_ok sha (files_of s ident) r"
    and "pr_AppliedProfileHash r = pr_AppliedProfileHash m" and "pr_AppliedCandidateHash r = pr_AppliedCandidateHash m"
  shows "store_at sha url_Parse a p (put_record ident r (upd_dir ident (\<lambda>d. d\<lparr> sd_record := Json (unapply r) \<rparr>) s))"
    and "disk_at sha url_Parse a p (upd_dir ident (\<lambda>d. d\<lparr> sd_record := Json (unapply r) \<rparr>) s)"
  using assms store_ok_write [of sha url_Parse s ident m r] disk_ok_write [of sha url_Parse s ident r]
  by (simp_all add: store_at_def disk_at_def store_ok_def)

lemma store_at_remember:
  assumes "store_at sha url_Parse a p s" and "map_of (ss_records s) ident = Some m" and "settings_ok url_Parse ident r"
    and "pr_Hash r = pr_Hash m" and "pr_CandidateHash r = pr_CandidateHash m"
    and "pr_AppliedProfileHash r = pr_AppliedProfileHash m" and "pr_AppliedCandidateHash r = pr_AppliedCandidateHash m"
  shows "store_at sha url_Parse a p (put_record ident r s)"
  using assms store_ok_remember [of sha url_Parse s ident m r] by (simp add: store_at_def)

lemma store_at_record:
  assumes "store_at sha url_Parse a p s" and "map_of (ss_records s) ident = Some m"
  shows "settings_ok url_Parse ident m" and "generation_ok sha (files_of s ident) m"
proof -
  have "store_ok sha url_Parse s" using assms(1) by (simp add: store_at_def)
  from store_record [OF this assms(2)] show "settings_ok url_Parse ident m" "generation_ok sha (files_of s ident) m" by blast+
qed

text \<open>A record is written, then remembered.\<close>

lemma wp_writeRecord:
  assumes "store_at sha url_Parse a p s" and "map_of (ss_records s) ident = Some m" and "settings_ok url_Parse ident r"
    and "generation_ok sha (files_of s ident) r"
    and "pr_AppliedProfileHash r = pr_AppliedProfileHash m" and "pr_AppliedCandidateHash r = pr_AppliedCandidateHash m"
  shows "wp (writeRecord ident r) (\<lambda>_ s'. s' = upd_dir ident (\<lambda>d. d\<lparr> sd_record := Json (unapply r) \<rparr>) s
      \<and> store_at sha url_Parse a p (put_record ident r s')) (\<lambda>_ s'. s' = s) (disk_at sha url_Parse a p) s"
  using store_at_write [OF assms] disk_at_store [OF assms(1)] by (simp add: writeRecord_def)

section \<open>Records\<close>

lemma keeps_replace:
  assumes "store_at sha url_Parse a p s" and "map_of (ss_records s) (sub_ID (pr_Subscription r)) = Some m"
    and "settings_ok url_Parse (sub_ID (pr_Subscription r)) r" and "pr_Hash r = pr_Hash m" and "pr_CandidateHash r = pr_CandidateHash m"
    and "pr_AppliedProfileHash r = pr_AppliedProfileHash m" and "pr_AppliedCandidateHash r = pr_AppliedCandidateHash m"
  shows "keeps sha url_Parse a p (Store_replace r) s"
proof -
  have "generation_ok sha (files_of s (sub_ID (pr_Subscription r))) r"
    using store_at_record [OF assms(1,2)] assms(4,5) by (simp add: generation_ok_def)
  note w = wp_writeRecord [OF assms(1-3) this assms(6,7)]
  show ?thesis
    unfolding keeps_def Store_replace_def Let_def
    by (rule wp_bind) (use assms(1,2) in \<open>auto intro!: wp_then wp_mono [OF w]\<close>)
qed

lemma keeps_touchSuccess:
  assumes "store_at sha url_Parse a p s"
  shows "keeps sha url_Parse a p (touchSuccess ident checkedAt etag lastModified usage) s"
proof (cases "map_of (ss_records s) ident")
  case None
  with assms show ?thesis unfolding keeps_def touchSuccess_def by (intro wp_bind) simp
next
  case (Some m)
  define r where "r = m\<lparr> pr_CheckedAt := checkedAt, pr_LastSuccess := checkedAt, pr_ETag := (if etag \<noteq> '''' then etag else pr_ETag m),
    pr_LastModified := (if lastModified \<noteq> '''' then lastModified else pr_LastModified m),
    pr_Usage := (if usage \<noteq> None then usage else pr_Usage m), pr_LastFailureAt := 0, pr_LastFailure := '''' \<rparr>"
  have r: "settings_ok url_Parse ident r" "generation_ok sha (files_of s ident) r"
    "pr_AppliedProfileHash r = pr_AppliedProfileHash m" "pr_AppliedCandidateHash r = pr_AppliedCandidateHash m"
    using store_at_record [OF assms Some] by (simp_all add: r_def settings_ok_def generation_ok_def validFailure_def)
  have remembered: "store_at sha url_Parse a p (put_record ident r s)"
    by (rule store_at_remember [OF assms Some r(1)]) (simp_all add: r_def)
  have w: "wp (if pr_LastFailure m \<noteq> '''' then writeRecord ident r else return_io ())
    (\<lambda>_ s'. store_at sha url_Parse a p (put_record ident r s')) (\<lambda>_. store_at sha url_Parse a p) (disk_at sha url_Parse a p) s"
    using assms remembered by (auto intro!: wp_mono [OF wp_writeRecord [OF assms Some r]])
  show ?thesis
    unfolding keeps_def touchSuccess_def Let_def
    by (rule wp_bind, unfold wp_read Some option.case r_def [symmetric], rule wp_then, rule wp_mono [OF w])
      (auto intro!: wp_then)
qed

lemma keeps_touchFailure:
  assumes "store_at sha url_Parse a p s"
  shows "keeps sha url_Parse a p (touchFailure ident checkedAt failure) s"
proof (cases "validFailure failure \<and> failure \<noteq> '''' \<and> map_of (ss_records s) ident \<noteq> None")
  case False
  with assms show ?thesis unfolding keeps_def touchFailure_def by (auto intro!: wp_bind)
next
  case True
  then obtain m where Some: "map_of (ss_records s) ident = Some m" by auto
  let ?r = "m\<lparr> pr_CheckedAt := checkedAt, pr_LastFailureAt := checkedAt, pr_LastFailure := failure \<rparr>"
  have r: "settings_ok url_Parse ident ?r" "generation_ok sha (files_of s ident) ?r"
    using store_at_record [OF assms Some] True by (simp_all add: settings_ok_def generation_ok_def)
  have remembered: "store_at sha url_Parse a p (put_record ident ?r s)" by (rule store_at_remember [OF assms Some r(1)]) simp_all
  have w: "wp (writeRecord ident ?r) (\<lambda>_ s'. store_at sha url_Parse a p (put_record ident ?r s'))
    (\<lambda>_ s'. store_at sha url_Parse a p (put_record ident ?r s')) (disk_at sha url_Parse a p) s"
    by (rule wp_mono [OF wp_writeRecord [OF assms Some r]]) (use remembered in auto)
  show ?thesis
    unfolding keeps_def touchFailure_def Let_def
    using True Some by (auto intro!: wp_bind wp_then wp_catch wp_mono [OF w])
qed

lemma map_of_delete_Some: "map_of (AList.delete k xs) j = Some v \<longleftrightarrow> j \<noteq> k \<and> map_of xs j = Some v"
  by (simp add: delete_conv')

lemma keeps_delete:
  assumes "store_at sha url_Parse a p s"
  shows "keeps sha url_Parse a p (Store_delete ident) s"
proof (cases "map_of (ss_records s) ident = None \<or> ss_activeID s = ident")
  case True
  with assms show ?thesis unfolding keeps_def Store_delete_def by (auto intro!: wp_bind)
next
  case False
  define gone where "gone q s = s\<lparr> ss_dirs := AList.delete ident (ss_dirs s), ss_quarantine := q \<rparr>" for q and s :: subStore
  define forgot where "forgot q s = (gone q s)\<lparr> ss_records := AList.delete ident (ss_records s) \<rparr>" for q s
  have ok: "disk_ok sha url_Parse s" "mem_ok url_Parse s" using assms by (simp_all add: store_at_def store_ok_def)
  have other: "dirOf (gone q s) j = dirOf s j" "dirOf (forgot q s) j = dirOf s j" if "j \<noteq> ident" for j q
    using that by (simp_all add: dirOf_def gone_def forgot_def delete_conv')
  have marker: "am_ID m \<noteq> ident" if "ss_active s = Json m" for m
    using ok(2) that False by (auto simp: mem_ok_def appliedIdentity_def marked_def)
  have "marker_ok sha (gone q s)" for q
  proof -
    have "marker_ok sha s" using ok(1) by (simp add: disk_ok_def)
    then show ?thesis
      using marker other by (auto simp: marker_ok_def gone_def [of q s] delete_conv' split: json_file.splits) (simp_all add: dirOf_def delete_conv')
  qed
  then have disk: "disk_ok sha url_Parse (gone q s)" for q
    using ok(1) by (auto simp: disk_ok_def gone_def map_of_delete_Some distinct_delete)
  have mem: "mem_ok url_Parse (forgot q s)" for q
  proof -
    have "mem_record_ok url_Parse (forgot q s) j m" if j: "map_of (ss_records (forgot q s)) j = Some m" for j m
    proof -
      from j have ne: "j \<noteq> ident" and m: "map_of (ss_records s) j = Some m" by (simp_all add: forgot_def map_of_delete_Some)
      from m ok(2) have "mem_record_ok url_Parse s j m" by (simp add: mem_ok_def)
      with other(2) [OF ne, of q] show ?thesis by (simp add: mem_record_ok_def forgot_def gone_def)
    qed
    moreover have "fst ` set (AList.delete ident (ss_records s)) = fst ` set (AList.delete ident (ss_dirs s))"
      using ok(2) by (simp add: delete_conv' mem_ok_def flip: dom_map_of_conv_image_fst)
    ultimately show ?thesis
      using ok(2) by (simp add: mem_ok_def forgot_def gone_def distinct_delete appliedIdentity_def marked_def)
  qed
  have d: "disk_at sha url_Parse a p (gone q s)" for q
    using disk [of q] assms by (simp add: disk_at_def store_at_def gone_def)
  have st: "store_at sha url_Parse a p (forgot q s)" for q
    using mem [of q] disk [of q] assms disk_ok_cong [of "forgot q s" "gone q s"]
    by (simp add: store_at_def store_ok_def forgot_def gone_def)
  show ?thesis
    unfolding keeps_def Store_delete_def
    using False assms disk_at_store [OF assms] d st disk_at_store [OF st] st [of "ss_quarantine s"] disk_at_store [OF st [of "ss_quarantine s"]]
    by (auto intro!: wp_bind wp_then simp: gone_def forgot_def)
qed

section \<open>Generations\<close>

lemma store_at_files:
  assumes "store_at sha url_Parse a p s" and "map_of (ss_records s) ident = Some m" and "\<And>d. sd_record (f d) = sd_record d"
    and "\<And>p c. pair_ok sha (files_of s ident) p c \<Longrightarrow> generationReferenced m p c
      \<Longrightarrow> pair_ok sha (map_of (sd_files (f (dirOf s ident)))) p c"
  shows "store_at sha url_Parse a p (upd_dir ident f s)"
  using assms(1) store_ok_files [OF _ assms(2-4), of url_Parse] by (simp add: store_at_def)

lemma put_file_simps [simp]:
  "sd_record (put_file name data d) = sd_record d" "map_of (sd_files (put_file name data d)) = (map_of (sd_files d))(name \<mapsto> data)"
  by (simp_all add: put_file_def update_conv')

text \<open>A promotion: the new generation is on disk and recorded, and the previous one is still there.\<close>

lemma wp_Store_promote:
  assumes at: "store_at sha url_Parse a p s" and sha: "sha_ok sha"
    and size: "int (length profile) \<le> maxProfileBytes" "int (length candidate) \<le> maxCandidateBytes"
    and raw: "downloadedOnly \<Longrightarrow> candidate = profile"
  shows "wp (Store_promote sha ident profile candidate checkedAt etag lastModified usage downloadedOnly)
    (\<lambda>previous s'. store_at sha url_Parse a p s' \<and> settings_ok url_Parse ident previous \<and> generation_ok sha (files_of s' ident) previous
       \<and> (\<exists>r. map_of (ss_records s') ident = Some r \<and> pr_AppliedProfileHash previous = pr_AppliedProfileHash r
            \<and> pr_AppliedCandidateHash previous = pr_AppliedCandidateHash r))
    (\<lambda>_. store_at sha url_Parse a p) (disk_at sha url_Parse a p) s"
proof (cases "map_of (ss_records s) ident")
  case None
  with at show ?thesis unfolding Store_promote_def by (intro wp_bind) simp
next
  case (Some m)
  let ?p = "sha profile" and ?c = "sha candidate"
  define s1 where "s1 = upd_dir ident (put_file (profileFilename ?p) profile) s"
  define s2 where "s2 = upd_dir ident (put_file (candidateFilename ?p ?c) candidate) s1"
  define r where "r = promotedRecord sha profile candidate checkedAt etag lastModified usage downloadedOnly m"
  have hash: "hash_ok ?p" using sha by (simp add: sha_ok_def hash_ok_def)
  have s1: "store_at sha url_Parse a p s1"
    unfolding s1_def by (rule store_at_files [OF at Some]) (simp_all add: pair_ok_put_profile size(1))
  have m1: "map_of (ss_records s1) ident = Some m" using Some by (simp add: s1_def)
  have s2: "store_at sha url_Parse a p s2"
    unfolding s2_def by (rule store_at_files [OF s1 m1]) (simp_all add: pair_ok_put_candidate hash size(2))
  have m2: "map_of (ss_records s2) ident = Some m" using m1 by (simp add: s2_def)
  note m = store_at_record [OF s2 m2]
  have "generation_ok sha (files_of s2 ident) r"
    using pair_ok_new [OF sha size] by (simp add: generation_ok_def r_def promotedRecord_def s2_def s1_def)
  moreover have "settings_ok url_Parse ident r"
    using m(1) raw hash_ok_nonempty [OF hash] by (simp add: settings_ok_def r_def promotedRecord_def validFailure_def)
  ultimately have w: "wp (writeRecord ident r) (\<lambda>_ s'. s' = upd_dir ident (\<lambda>d. d\<lparr> sd_record := Json (unapply r) \<rparr>) s2
      \<and> store_at sha url_Parse a p (put_record ident r s')) (\<lambda>_ s'. s' = s2) (disk_at sha url_Parse a p) s2"
    by (intro wp_writeRecord [OF s2 m2]) (simp_all add: r_def promotedRecord_def)
  have "wp (then_io (writeRecord ident r) (then_io (modify_io (put_record ident r)) (return_io m)))
    (\<lambda>previous s'. store_at sha url_Parse a p s' \<and> settings_ok url_Parse ident previous \<and> generation_ok sha (files_of s' ident) previous
       \<and> (\<exists>r. map_of (ss_records s') ident = Some r \<and> pr_AppliedProfileHash previous = pr_AppliedProfileHash r
            \<and> pr_AppliedCandidateHash previous = pr_AppliedCandidateHash r))
    (\<lambda>_. store_at sha url_Parse a p) (disk_at sha url_Parse a p) s2"
    by (intro wp_then wp_mono [OF w])
      (use s2 m in \<open>auto intro!: wp_then simp: update_conv' r_def promotedRecord_def\<close>)
  then show ?thesis
    unfolding Store_promote_def writeFile_def
    by (intro wp_bind)
      (auto simp: Some Let_def at s1 disk_at_store [OF at] disk_at_store [OF s1] disk_at_store [OF s2]
        intro!: wp_then simp flip: s1_def s2_def r_def)
qed

text \<open>Removing a file that no referenced pair names.\<close>

lemma store_at_remove:
  assumes "store_at sha url_Parse a p s" and "map_of (ss_records s) ident = Some m"
    and "\<And>q c. hash_ok q \<Longrightarrow> hash_ok c \<Longrightarrow> generationReferenced m q c \<Longrightarrow> name \<noteq> profileFilename q \<and> name \<noteq> candidateFilename q c"
  shows "wp (removeFile ident name) (\<lambda>_ s'. store_at sha url_Parse a p s' \<and> ss_records s' = ss_records s) R (disk_at sha url_Parse a p) s"
proof -
  have "store_at sha url_Parse a p (upd_dir ident (\<lambda>d. d\<lparr> sd_files := AList.delete name (sd_files d) \<rparr>) s)"
  proof (rule store_at_files [OF assms(1,2)])
    fix q c assume pair: "pair_ok sha (files_of s ident) q c" and "generationReferenced m q c"
    with assms(3) [of q c] have "name \<noteq> profileFilename q" "name \<noteq> candidateFilename q c" by (auto simp: pair_ok_def)
    from pair_ok_remove [OF pair this]
    show "pair_ok sha (map_of (sd_files ((dirOf s ident)\<lparr> sd_files := AList.delete name (sd_files (dirOf s ident)) \<rparr>))) q c"
      by (simp add: delete_conv')
  qed simp
  then show ?thesis
    using assms(1) disk_at_store [OF assms(1)] unfolding removeFile_def by (intro wp_try) (auto intro: disk_at_store)
qed

lemma keptFile_referenced:
  assumes "hash_ok q" and "hash_ok c" and "generationReferenced m q c" and "\<not> keptFile m name"
  shows "name \<noteq> profileFilename q \<and> name \<noteq> candidateFilename q c"
proof -
  have "q \<noteq> ''''" "c \<noteq> ''''" using assms(1,2) by (simp_all add: hash_ok_nonempty)
  then have "keptFile m (profileFilename q)" "keptFile m (candidateFilename q c)"
    using assms(3) by (auto simp: keptFile_def generationReferenced_def strings_HasPrefix_def profileFilename_def candidateFilename_def)
  with assms(4) show ?thesis by auto
qed

lemma wp_cleanupGenerations:
  assumes "store_at sha url_Parse a p s" and "map_of (ss_records s) ident = Some m"
  shows "wp (cleanupGenerations ident m) (\<lambda>_ s'. store_at sha url_Parse a p s' \<and> ss_records s' = ss_records s) R (disk_at sha url_Parse a p) s"
proof -
  have "wp (if keptFile m name then return_io () else removeFile ident name)
    (\<lambda>_ s'. store_at sha url_Parse a p s' \<and> ss_records s' = ss_records s) R (disk_at sha url_Parse a p) g"
    if g: "store_at sha url_Parse a p g" "ss_records g = ss_records s" for name g
  proof (cases "keptFile m name")
    case False
    have "map_of (ss_records g) ident = Some m" using assms(2) g(2) by simp
    from store_at_remove [OF g(1) this, of name R] keptFile_referenced [of _ _ m name] False g(2)
    show ?thesis by auto
  qed (use g in simp)
  then show ?thesis
    unfolding cleanupGenerations_def
    by (intro wp_bind) (simp add: wp_each [where I = "\<lambda>_ _ g. store_at sha url_Parse a p g \<and> ss_records g = ss_records s"] assms(1))
qed

lemma keeps_finalizePromotion:
  assumes "store_at sha url_Parse a p s"
  shows "keeps sha url_Parse a p (finalizePromotion ident) s"
proof (cases "map_of (ss_records s) ident")
  case None
  with assms show ?thesis unfolding keeps_def finalizePromotion_def by (intro wp_bind) simp
next
  case (Some m)
  show ?thesis unfolding keeps_def finalizePromotion_def
    by (rule wp_bind) (use Some in \<open>simp add: wp_mono [OF wp_cleanupGenerations [OF assms Some]]\<close>)
qed

lemma keeps_cleanupApplied:
  assumes "store_at sha url_Parse a p s"
  shows "keeps sha url_Parse a p cleanupApplied s"
proof -
  have "wp (each_io (\<lambda>(ident, r). cleanupGenerations ident r) (ss_records s)) (\<lambda>_. store_at sha url_Parse a p) (\<lambda>_. store_at sha url_Parse a p)
    (disk_at sha url_Parse a p) s"
  proof (rule wp_each [where I = "\<lambda>_ _ g. store_at sha url_Parse a p g \<and> ss_records g = ss_records s"])
    fix dn x todo g
    assume eq: "ss_records s = dn @ x # todo" and g: "store_at sha url_Parse a p g \<and> ss_records g = ss_records s"
    obtain ident m where x: "x = (ident, m)" by (cases x)
    have "distinct (map fst (ss_records s))" using assms by (simp add: store_at_def store_ok_def mem_ok_def)
    then have "map_of (ss_records s) ident = Some m" by (rule map_of_is_SomeI) (simp add: eq x)
    with g have "map_of (ss_records g) ident = Some m" by simp
    from wp_cleanupGenerations [OF conjunct1 [OF g] this] g x
    show "wp (case x of (ident, r) \<Rightarrow> cleanupGenerations ident r) (\<lambda>_ g. store_at sha url_Parse a p g \<and> ss_records g = ss_records s)
      (\<lambda>_. store_at sha url_Parse a p) (disk_at sha url_Parse a p) g" by simp
  qed (use assms in auto)
  then show ?thesis unfolding keeps_def cleanupApplied_def by (intro wp_bind) simp
qed

text \<open>Withdrawing a promotion. Only when the previous record cannot be written do memory and disk differ.\<close>

lemma wp_rollbackPromotion:
  assumes at: "store_at sha url_Parse a p s" and r: "map_of (ss_records s) ident = Some r"
    and previous: "settings_ok url_Parse ident previous" "generation_ok sha (files_of s ident) previous"
      "pr_AppliedProfileHash previous = pr_AppliedProfileHash r" "pr_AppliedCandidateHash previous = pr_AppliedCandidateHash r"
    and hash: "hash_ok profileHash"
  shows "wp (rollbackPromotion ident previous profileHash candidateHash) (\<lambda>_. store_at sha url_Parse a p) (\<lambda>_. disk_at sha url_Parse a p)
    (disk_at sha url_Parse a p) s"
proof -
  let ?kept = "\<lambda>g. store_at sha url_Parse a p g \<and> map_of (ss_records g) ident = Some previous"
  have apart: "candidateFilename profileHash candidateHash \<noteq> candidateFilename q c"
    if "hash_ok q" "generationReferenced previous q c" "\<not> generationReferenced previous profileHash candidateHash" for q c
    using candidateFilename_inj [OF hash that(1)] that(2,3) by metis
  have candidate: "wp (if \<not> generationReferenced previous profileHash candidateHash
      then removeFile ident (candidateFilename profileHash candidateHash) else return_io ()) (\<lambda>_. ?kept) R (disk_at sha url_Parse a p) g"
    if g: "?kept g" for g R
    using g apart
    by (auto intro!: wp_mono [OF store_at_remove [OF conjunct1 [OF g] conjunct2 [OF g], of "candidateFilename profileHash candidateHash" R]])
  have profile: "wp (if profileHash \<noteq> pr_Hash previous \<and> profileHash \<noteq> pr_AppliedProfileHash previous
      then removeFile ident (profileFilename profileHash) else return_io ()) (\<lambda>_. store_at sha url_Parse a p) R (disk_at sha url_Parse a p) g"
    if g: "?kept g" for g R
    using g by (auto simp: generationReferenced_def
        intro!: wp_mono [OF store_at_remove [OF conjunct1 [OF g] conjunct2 [OF g], of "profileFilename profileHash" R]])
  have "wp (writeRecord ident previous) (\<lambda>_ g. ?kept (put_record ident previous g)) (\<lambda>_ g. disk_at sha url_Parse a p (put_record ident previous g))
    (disk_at sha url_Parse a p) s"
    by (rule wp_mono [OF wp_writeRecord [OF at r previous]])
      (use disk_at_store [OF at] disk_ok_cong [of "put_record ident previous s" s] in \<open>auto simp: update_conv' disk_at_def\<close>)
  then have w: "wp (catch_io (writeRecord ident previous) (\<lambda>_. then_io (modify_io (put_record ident previous)) (fail_io ErrStore)))
    (\<lambda>_ g. ?kept (put_record ident previous g)) (\<lambda>_. disk_at sha url_Parse a p) (disk_at sha url_Parse a p) s"
    by (intro wp_catch) (erule wp_mono, auto intro!: wp_then)
  show ?thesis
    unfolding rollbackPromotion_def
    by (rule wp_bind, simp only: wp_read r option.distinct if_False, rule wp_then, rule wp_mono [OF w],
        rule wp_then, simp only: wp_modify, rule wp_then, rule wp_mono [OF candidate], assumption, rule profile)
qed

section \<open>The active marker\<close>

definition marker :: "string \<Rightarrow> string \<Rightarrow> string \<Rightarrow> activeMarker json_file" where
  "marker ident profileHash candidateHash =
     (if ident = '''' then Missing else Json \<lparr> am_ID = ident, am_ProfileHash = profileHash, am_CandidateHash = candidateHash \<rparr>)"

definition identity_ok :: "(bytes \<Rightarrow> string) \<Rightarrow> subStore \<Rightarrow> string \<Rightarrow> string \<Rightarrow> string \<Rightarrow> bool" where
  "identity_ok sha s ident profileHash candidateHash \<longleftrightarrow>
     ident = '''' \<or> validID ident \<and> map_of (ss_dirs s) ident \<noteq> None \<and> pair_ok sha (files_of s ident) profileHash candidateHash"

lemma validID_nonempty: "validID ident \<Longrightarrow> ident \<noteq> ''''"
  by (simp add: validID_def)

lemma disk_ok_marker:
  assumes "disk_ok sha url_Parse s" and "identity_ok sha s ident profileHash candidateHash" and "ss_dirs g = ss_dirs s"
    and "ss_active g = marker ident profileHash candidateHash"
  shows "disk_ok sha url_Parse g"
proof -
  have "dirOf g = dirOf s" using assms(3) by (simp add: dirOf_def fun_eq_iff)
  then show ?thesis using assms by (auto simp: disk_ok_def marker_ok_def marker_def identity_ok_def)
qed

lemma store_ok_marker:
  assumes "store_ok sha url_Parse s" and "identity_ok sha s ident profileHash candidateHash"
    and "ident = '''' \<Longrightarrow> profileHash = '''' \<and> candidateHash = ''''"
  shows "store_ok sha url_Parse (s\<lparr> ss_active := marker ident profileHash candidateHash, ss_records := applyTo ident profileHash candidateHash (ss_records s),
    ss_activeID := ident, ss_activeProfileHash := profileHash, ss_activeCandidateHash := candidateHash \<rparr>)" (is "store_ok _ _ ?s")
proof -
  have ok: "disk_ok sha url_Parse s" "mem_ok url_Parse s" using assms(1) by (simp_all add: store_ok_def)
  have same: "dirOf ?s = dirOf s" by (simp add: dirOf_def fun_eq_iff)
  have "disk_ok sha url_Parse ?s" by (rule disk_ok_marker [OF ok(1) assms(2)]) simp_all
  moreover have "mem_record_ok url_Parse ?s j m" if "map_of (ss_records ?s) j = Some m" for j m
  proof -
    from that obtain r where r: "map_of (ss_records s) j = Some r" by (auto simp: map_of_applyTo)
    with ok(2) have "mem_record_ok url_Parse s j r" by (simp add: mem_ok_def)
    with that r same show ?thesis by (auto simp: map_of_applyTo mem_record_ok_def split: if_splits)
  qed
  moreover have "appliedIdentity ?s = marked ?s" using assms(3) by (auto simp: appliedIdentity_def marked_def marker_def)
  moreover have keys: "map fst (ss_records ?s) = map fst (ss_records s)" by simp
  then have "fst ` set (ss_records ?s) = fst ` set (ss_records s)" by (metis list.set_map)
  moreover have "distinct (map fst (ss_records ?s))" unfolding keys using ok(2) by (simp add: mem_ok_def)
  ultimately show ?thesis using ok(2) by (simp add: store_ok_def mem_ok_def)
qed

text \<open>\<open>setApplied\<close> and \<open>restoreApplied\<close> move the marker in one step.\<close>

definition moves_marker ::
  "(bytes \<Rightarrow> string) \<Rightarrow> url_parser \<Rightarrow> activeMarker json_file \<Rightarrow> activeMarker json_file \<Rightarrow> pendingActivation json_file \<Rightarrow> unit store_io \<Rightarrow> subStore \<Rightarrow> bool" where
  "moves_marker sha url_Parse a a' p m s \<longleftrightarrow>
     wp m (\<lambda>_ g. store_at sha url_Parse a' p g \<and> ss_dirs g = ss_dirs s) (\<lambda>_ g. g = s)
       (\<lambda>g. (disk_at sha url_Parse a p g \<or> disk_at sha url_Parse a' p g) \<and> ss_dirs g = ss_dirs s) s"

lemma moves_setApplied:
  assumes "store_at sha url_Parse a p s"
  shows "moves_marker sha url_Parse a (marker ident profileHash candidateHash) p (setApplied sha ident profileHash candidateHash) s"
proof (cases "map_of (ss_records s) ident \<noteq> None \<and> verifyPair sha s ident profileHash candidateHash = None")
  case True
  then have "validID ident" "pair_ok sha (files_of s ident) profileHash candidateHash" by (simp_all add: verifyPair_None)
  moreover obtain d where "map_of (ss_dirs s) ident = Some d" using True assms by (auto simp: store_at_def store_ok_def elim: mem_dir)
  ultimately have idok: "identity_ok sha s ident profileHash candidateHash" and ne: "ident \<noteq> ''''"
    by (simp_all add: identity_ok_def validID_nonempty)
  have at: "store_ok sha url_Parse s" "ss_active s = a" "ss_pending s = p" using assms by (simp_all add: store_at_def)
  have mk: "marker ident profileHash candidateHash = Json \<lparr> am_ID = ident, am_ProfileHash = profileHash, am_CandidateHash = candidateHash \<rparr>"
    using ne by (simp add: marker_def)
  have "disk_ok sha url_Parse (s\<lparr> ss_active := marker ident profileHash candidateHash \<rparr>)"
    by (rule disk_ok_marker [OF _ idok]) (use at in \<open>simp_all add: store_ok_def\<close>)
  with store_ok_marker [OF at(1) idok] ne True assms disk_at_store [OF assms] show ?thesis
    unfolding moves_marker_def setApplied_def mk
    by (intro wp_bind) (auto intro!: wp_then simp: store_at_def disk_at_def)
next
  case False
  with assms show ?thesis
    unfolding moves_marker_def setApplied_def by (intro wp_bind) auto
qed

lemma moves_restoreApplied:
  assumes "store_at sha url_Parse a p s"
    and "ident = '''' \<Longrightarrow> profileHash = '''' \<and> candidateHash = ''''"
  shows "moves_marker sha url_Parse a (marker ident profileHash candidateHash) p (restoreApplied sha ident profileHash candidateHash) s"
proof (cases "ident = ''''")
  case False
  then show ?thesis using moves_setApplied [OF assms(1)] by (simp add: restoreApplied_def)
next
  case True
  have at: "store_ok sha url_Parse s" "ss_active s = a" "ss_pending s = p" using assms by (simp_all add: store_at_def)
  have none: "identity_ok sha s '''' '''' ''''" by (simp add: identity_ok_def)
  have applied: "applyTo '''' '''' '''' (ss_records s) = map (\<lambda>(i, r). (i, unapply r)) (ss_records s)"
  proof -
    have "i \<noteq> ''''" if "(i, r) \<in> set (ss_records s)" for i r
    proof -
      have "distinct (map fst (ss_records s))" using at(1) by (simp add: store_ok_def mem_ok_def)
      then have "map_of (ss_records s) i = Some r" using that by simp
      from store_record [OF at(1) this] show ?thesis by (metis settings_ok_validID validID_nonempty)
    qed
    then show ?thesis by (auto simp: applyTo_def)
  qed
  have "disk_ok sha url_Parse (s\<lparr> ss_active := Missing \<rparr>)"
    by (rule disk_ok_marker [OF _ none]) (use at in \<open>simp_all add: store_ok_def marker_def\<close>)
  with store_ok_marker [OF at(1) none] True assms disk_at_store [OF assms(1)] show ?thesis
    unfolding moves_marker_def restoreApplied_def
    by (auto intro!: wp_then simp: store_at_def disk_at_def marker_def applied)
qed

section \<open>Starting again\<close>

definition pending_ok :: "(bytes \<Rightarrow> string) \<Rightarrow> subStore \<Rightarrow> bool" where
  "pending_ok sha s \<longleftrightarrow>
     (case ss_pending s of
        Missing \<Rightarrow> True
      | Unreadable \<Rightarrow> False
      | Json p \<Rightarrow> validPending p \<and> identity_ok sha s (pa_ID p) (pa_ProfileHash p) (pa_CandidateHash p))"

text \<open>The marker after the recovery: an activation that was not accepted is undone unless the resources
  were committed with it.\<close>

definition recoveredMarker :: "string \<Rightarrow> subStore \<Rightarrow> activeMarker json_file" where
  "recoveredMarker resourceCommitID s =
     (case ss_pending s of
        Json p \<Rightarrow> if \<not> pa_Accepted p \<and> pa_ResourceCommitID p \<noteq> resourceCommitID
                  then marker (pa_ID p) (pa_ProfileHash p) (pa_CandidateHash p) else ss_active s
      | _ \<Rightarrow> ss_active s)"

lemma runs_cleanupApplied: "runs cleanupApplied (\<lambda>_ _. True) s"
  unfolding cleanupApplied_def cleanupGenerations_def removeFile_def
  by (auto intro!: runs_bind runs_each_True runs_try)

lemma runs_restoreApplied:
  assumes "store_ok sha url_Parse s" and "identity_ok sha s ident profileHash candidateHash"
  shows "runs (restoreApplied sha ident profileHash candidateHash) (\<lambda>_ _. True) s"
proof (cases "ident = ''''")
  case True
  then show ?thesis by (auto simp: restoreApplied_def intro!: runs_then)
next
  case False
  with assms(2) have "verifyPair sha s ident profileHash candidateHash = None" and d: "map_of (ss_dirs s) ident \<noteq> None"
    by (simp_all add: identity_ok_def verifyPair_None)
  moreover have "map_of (ss_records s) ident \<noteq> None"
    using d assms(1) by (auto simp: store_ok_def mem_ok_def map_of_eq_None_iff)
  ultimately show ?thesis using False by (auto simp: restoreApplied_def setApplied_def intro!: runs_bind runs_then)
qed

lemma store_at_pending: "store_at sha url_Parse a p s \<Longrightarrow> store_at sha url_Parse a q (s\<lparr> ss_pending := q \<rparr>)"
proof -
  assume at: "store_at sha url_Parse a p s"
  have "dirOf (s\<lparr> ss_pending := q \<rparr>) = dirOf s" by (simp add: dirOf_def fun_eq_iff)
  then have "mem_ok url_Parse (s\<lparr> ss_pending := q \<rparr>) = mem_ok url_Parse s"
    by (simp add: mem_ok_def mem_record_ok_def appliedIdentity_def marked_def)
  with at disk_ok_cong [of "s\<lparr> ss_pending := q \<rparr>" s] show ?thesis by (simp add: store_at_def store_ok_def)
qed

lemma disk_at_pending: "disk_at sha url_Parse a p s \<Longrightarrow> disk_at sha url_Parse a q (s\<lparr> ss_pending := q \<rparr>)"
  using disk_ok_cong [of "s\<lparr> ss_pending := q \<rparr>" s] by (simp add: disk_at_def)

lemma runs_Recover:
  assumes "store_ok sha url_Parse s" and "pending_ok sha s"
  shows "runs (RecoverPendingActivation sha resourceCommitID)
    (\<lambda>_ g. store_at sha url_Parse (recoveredMarker resourceCommitID s) Missing g) s"
proof -
  let ?final = "\<lambda>g. store_at sha url_Parse (recoveredMarker resourceCommitID s) Missing g"
  have clean: "runs cleanupApplied (\<lambda>_. ?final) g" if "?final g" for g
    using keeps_cleanupApplied [OF that] runs_cleanupApplied unfolding keeps_def by (rule runs_wp)
  have at: "store_at sha url_Parse (ss_active s) (ss_pending s) s" using assms(1) by (simp add: store_at_def)
  show ?thesis
  proof (cases "ss_pending s")
    case Missing
    then have "?final s" using at by (simp add: recoveredMarker_def)
    from clean [OF this] show ?thesis
      unfolding RecoverPendingActivation_def loadPendingActivation_def
      by (auto intro!: runs_bind runs_then simp: Missing)
  next
    case (Json p)
    then have p: "validPending p" "identity_ok sha s (pa_ID p) (pa_ProfileHash p) (pa_CandidateHash p)"
      using assms(2) by (simp_all add: pending_ok_def)
    let ?undo = "\<not> pa_Accepted p \<and> pa_ResourceCommitID p \<noteq> resourceCommitID"
    have "moves_marker sha url_Parse (ss_active s) (marker (pa_ID p) (pa_ProfileHash p) (pa_CandidateHash p)) (ss_pending s)
      (restoreApplied sha (pa_ID p) (pa_ProfileHash p) (pa_CandidateHash p)) s"
      by (rule moves_restoreApplied [OF at]) (use p(1) in \<open>simp add: validPending_def\<close>)
    from runs_wp [OF this [unfolded moves_marker_def] runs_restoreApplied [OF assms(1) p(2)]]
    have undo: "runs (restoreApplied sha (pa_ID p) (pa_ProfileHash p) (pa_CandidateHash p)) (\<lambda>_ g. ?final (g\<lparr> ss_pending := Missing \<rparr>)) s" if ?undo
      using that by (elim runs_mono) (auto simp: recoveredMarker_def Json intro: store_at_pending)
    have keep: "?final (s\<lparr> ss_pending := Missing \<rparr>)" if "\<not> ?undo"
      using store_at_pending [OF at] that by (auto simp: recoveredMarker_def Json)
    have "runs (if ?undo then restoreApplied sha (pa_ID p) (pa_ProfileHash p) (pa_CandidateHash p) else return_io ())
      (\<lambda>_ g. ?final (g\<lparr> ss_pending := Missing \<rparr>)) s"
      using undo keep by simp
    then have w: "runs (then_io (if ?undo then restoreApplied sha (pa_ID p) (pa_ProfileHash p) (pa_CandidateHash p) else return_io ())
      clearActivationPending) (\<lambda>_. ?final) s"
      by (intro runs_then) (erule runs_mono, simp add: clearActivationPending_def)
    show ?thesis
      unfolding RecoverPendingActivation_def loadPendingActivation_def
      by (rule runs_bind, rule runs_bind, simp only: runs_read Json json_file.case p(1) if_True runs_return option.case,
          rule runs_then, rule runs_mono [OF w], rule clean)
  qed (use assms(2) in \<open>simp add: pending_ok_def\<close>)
qed

text \<open>What the application runs at its start: open the store, then settle a pending activation.\<close>

definition restart :: "(bytes \<Rightarrow> string) \<Rightarrow> url_parser \<Rightarrow> string \<Rightarrow> unit store_io" where
  "restart sha url_Parse resourceCommitID = then_io (NewSubStore sha url_Parse) (RecoverPendingActivation sha resourceCommitID)"

lemma runs_restart:
  assumes "disk_ok sha url_Parse s" and "pending_ok sha s"
  shows "runs (restart sha url_Parse resourceCommitID)
    (\<lambda>_ g. store_at sha url_Parse (recoveredMarker resourceCommitID s) Missing g) s"
  unfolding restart_def
proof (rule runs_then, rule runs_mono [OF runs_NewSubStore [OF assms(1)]])
  fix x g
  assume g: "store_ok sha url_Parse g \<and> ss_dirs g = ss_dirs s \<and> ss_active g = ss_active s \<and> ss_pending g = ss_pending s
    \<and> appliedIdentity g = marked s"
  then have "dirOf g = dirOf s" by (simp add: dirOf_def fun_eq_iff)
  with g assms(2) have "pending_ok sha g" by (auto simp: pending_ok_def identity_ok_def split: json_file.splits)
  moreover have "recoveredMarker resourceCommitID g = recoveredMarker resourceCommitID s" using g by (cases "ss_pending s") (simp_all add: recoveredMarker_def)
  ultimately show "runs (RecoverPendingActivation sha resourceCommitID)
    (\<lambda>_ g. store_at sha url_Parse (recoveredMarker resourceCommitID s) Missing g) g"
    using runs_Recover [of sha url_Parse g resourceCommitID] g by simp
qed

end
