(* ===== verification/Core_Activation.thy ===== *)
theory Core_Activation
  imports Config_Types
begin

text \<open>
  Activation failures and what of them is shown (\<open>src/core/activation.go\<close>). An activation error carries its
  stage, the resource it concerns and its cause; \<open>PublicActivation\<close> makes the part that leaves the process.
\<close>

section \<open>Stages\<close>

abbreviation ActivationBinary :: string where "ActivationBinary \<equiv> ''binary''"
abbreviation ActivationResources :: string where "ActivationResources \<equiv> ''resources''"
abbreviation ActivationStateCommit :: string where "ActivationStateCommit \<equiv> ''state_commit''"
abbreviation ActivationRollback :: string where "ActivationRollback \<equiv> ''rollback''"

definition activationMessages :: "(string \<times> string) list" where
  "activationMessages =
     [(''file_input'', ''local profile file is unavailable or invalid''),
      (ActivationBinary, ''selected Mihomo binary is incompatible or unavailable''),
      (ActivationResources, ''managed resources could not be validated''),
      (''config_validation'', ''generated Mihomo configuration was rejected''),
      (''process_start'', ''Mihomo process could not start''),
      (''mixed_port'', ''the configured mixed port is already in use''),
      (''stream_probe_port'', ''the stream probe port is unavailable''),
      (''controller_readiness'', ''Mihomo controller did not become ready''),
      (''system_proxy'', ''System Proxy could not be applied''),
      (''system_proxy_unsupported'', ''system proxy is unsupported in this desktop environment''),
      (''tun_privilege'', ''TUN privilege is not granted for the selected Mihomo binary''),
      (''tun_start'', ''Mihomo did not start the TUN interface''),
      (ActivationStateCommit, ''private activation state could not be committed''),
      (ActivationRollback, ''activation rollback failed; prior runtime needs attention'')]"

definition stage_Message :: "string \<Rightarrow> string" where
  "stage_Message stage = (case map_of activationMessages stage of Some message \<Rightarrow> message | None \<Rightarrow> ''activation failed'')"

section \<open>Errors\<close>

fun resourceIDFrom :: "nat \<Rightarrow> string \<Rightarrow> bool" where
  "resourceIDFrom i [] \<longleftrightarrow> True"
| "resourceIDFrom i (b # bs) \<longleftrightarrow>
     (is_alnum b \<or> i > 0 \<and> (b = CHR ''-'' \<or> b = CHR ''_'' \<or> b = CHR ''.'')) \<and> resourceIDFrom (i + 1) bs"

definition validResourceID :: "string \<Rightarrow> bool" where
  "validResourceID ident \<longleftrightarrow> \<not> (length ident = 0 \<or> length ident > 64) \<and> resourceIDFrom 0 ident"

definition WrapActivation :: "string \<Rightarrow> go_error option \<Rightarrow> go_error" where
  "WrapActivation stage cause = ActivationError stage '''' cause"

definition WrapActivationResource :: "string \<Rightarrow> string \<Rightarrow> go_error option \<Rightarrow> go_error" where
  "WrapActivationResource stage ident cause =
     ActivationError stage (if stage \<noteq> ActivationBinary \<and> stage \<noteq> ActivationResources \<or> \<not> validResourceID ident then '''' else ident) cause"

text \<open>The text of an activation error.\<close>

definition activation_Error :: "string \<Rightarrow> string \<Rightarrow> string" where
  "activation_Error stage ident =
     (if (stage = ActivationBinary \<or> stage = ActivationResources) \<and> validResourceID ident
      then stage_Message stage @ '' (resource '' @ ident @ '')'' else stage_Message stage)"

text \<open>\<open>errors.As\<close> looks for the first activation error of the tree, an error before the errors it wraps.\<close>

fun errors_As_activation :: "go_error \<Rightarrow> (string \<times> string) option" where
  "errors_As_activation (Errorf _ _) = None"
| "errors_As_activation (Wrapf _ _ e) = errors_As_activation e"
| "errors_As_activation (Joined_Errors a b) =
     (case errors_As_activation a of Some r \<Rightarrow> Some r | None \<Rightarrow> errors_As_activation b)"
| "errors_As_activation (ActivationError stage ident _) = Some (stage, ident)"

definition PublicActivation :: "go_error \<Rightarrow> go_error option" where
  "PublicActivation err =
     (case errors_As_activation err of
        None \<Rightarrow> None
      | Some (stage, ident) \<Rightarrow>
          Some (ActivationError stage
            (if \<not> validResourceID ident \<or> stage \<noteq> ActivationBinary \<and> stage \<noteq> ActivationResources then '''' else ident) None))"

section \<open>Properties\<close>

lemma resourceIDFrom_inner: "i > 0 \<Longrightarrow> resourceIDFrom i bs = list_all id_inner bs"
  by (induction bs arbitrary: i) (auto simp: id_inner_def)

lemma validResourceID_stable: "validResourceID ident = ValidStableID ident"
proof (cases ident)
  case (Cons b bs)
  have "\<not> is_alnum (CHR ''.'')" by (simp add: is_alnum_def is_digit_def is_lower_def is_upper_def less_eq_char_def)
  then show ?thesis using resourceIDFrom_inner [of 1 bs] Cons by (auto simp: validResourceID_def ValidStableID_def)
qed (simp add: validResourceID_def ValidStableID_def)

text \<open>
  The resource identifiers that an activation error may show are exactly the stable identifiers of the
  configuration: the two grammars, written independently in \<open>core\<close> and \<open>config\<close>, accept the same names.
\<close>

theorem resource_ids_agree: "validResourceID ident = ValidStableID ident"
  by (rule validResourceID_stable)

text \<open>
  C36. A public activation error tells the stage and at most a resource identifier: it carries no cause, its text
  is one of the fixed messages, followed by a resource only if that is a stable identifier, and making it public
  again changes nothing.
\<close>

theorem public_activation:
  assumes "PublicActivation err = Some e"
  shows "\<exists>stage ident. e = ActivationError stage ident None \<and> (ident = '''' \<or> ValidStableID ident)
    \<and> activation_Error stage ident = stage_Message stage @ (if ident = '''' then '''' else '' (resource '' @ ident @ '')'')
    \<and> stage_Message stage \<in> insert ''activation failed'' (snd ` set activationMessages) \<and> PublicActivation e = Some e"
proof -
  obtain stage ident where e: "e = ActivationError stage ident None"
    "ident = '''' \<or> validResourceID ident \<and> (stage = ActivationBinary \<or> stage = ActivationResources)"
    using assms by (auto simp: PublicActivation_def split: option.splits)
  have "stage_Message stage \<in> insert ''activation failed'' (snd ` set activationMessages)"
    by (auto simp: stage_Message_def split: option.splits dest!: map_of_SomeD) (metis image_eqI snd_conv)
  moreover have "\<not> validResourceID ''''" by (simp add: validResourceID_def)
  ultimately show ?thesis using e validResourceID_stable [of ident] by (auto simp: PublicActivation_def activation_Error_def)
qed

theorem public_activation_witness:
  "\<exists>stage ident. ActivationError ActivationResources ''ads'' None = ActivationError stage ident None \<and> (ident = '''' \<or> ValidStableID ident)"
proof -
  have "PublicActivation (Wrapf ''apply: %w'' [] (ActivationError ActivationResources ''ads'' (Some (Errorf ''token=secret'' []))))
    = Some (ActivationError ActivationResources ''ads'' None)" by code_simp
  from public_activation [OF this] show ?thesis by blast
qed

end
