(* ===== verification/Subscriptions_Service.thy ===== *)
theory Subscriptions_Service
  imports Subscriptions_Operations Core_Activation
begin

text \<open>
  The subscription service (\<open>src/subscriptions/model.go\<close>, \<open>fetch.go\<close>, \<open>usage.go\<close>): adding, changing and deleting
  subscriptions, refreshing them through the download client, and activating one.

  The state adds to the store the wake-up channel of capacity one, the registered refreshes with the tokens
  that were cancelled, the number of \<open>OnChange\<close> calls, and the runtime that the callbacks of the application
  change. Every operation holds the lock of its identifier, so it is one program; a cancellation repeated after
  the lock was taken is one step.

  What the service does not decide is a parameter: the results of \<open>ctx.Err\<close> and of \<open>Current\<close> by the number of
  the call, the transport, \<open>yaml.Unmarshal\<close>, \<open>Render\<close>, \<open>Validate\<close> and the clock for a refresh; \<open>Apply\<close>, \<open>Restore\<close>,
  \<open>Finalize\<close> and \<open>PendingResourceCommit\<close> for an activation.
\<close>

section \<open>Usage header\<close>

definition strings_Cut :: "string \<Rightarrow> char \<Rightarrow> (string \<times> string) option" where
  "strings_Cut s sep = (case index_of sep s of None \<Rightarrow> None | Some i \<Rightarrow> Some (take i s, drop (i + 1) s))"

fun usageFields :: "string list \<Rightarrow> Usage \<Rightarrow> string list \<Rightarrow> Usage option" where
  "usageFields seen usage [] = (if seen = [] then None else Some usage)"
| "usageFields seen usage (field # rest) =
     (case strings_Cut (strings_TrimSpace field) (CHR ''='') of
        None \<Rightarrow> None
      | Some (k, v) \<Rightarrow>
          let key = strings_ToLower (strings_TrimSpace k) in
          if key \<in> set seen then None
          else case strconv_Atoi (strings_TrimSpace v) of
                 None \<Rightarrow> None
               | Some number \<Rightarrow>
                   if number < 0 then None
                   else if key = ''upload'' then usageFields (key # seen) (usage\<lparr> us_Upload := number \<rparr>) rest
                   else if key = ''download'' then usageFields (key # seen) (usage\<lparr> us_Download := number \<rparr>) rest
                   else if key = ''total'' then usageFields (key # seen) (usage\<lparr> us_Total := number \<rparr>) rest
                   else if key = ''expire'' then usageFields (key # seen) (usage\<lparr> us_ExpiresAt := number \<rparr>) rest
                   else None)"

definition parseUsage :: "string \<Rightarrow> Usage option" where
  "parseUsage header =
     (if header = '''' \<or> length header > 1024 then None
      else usageFields [] \<lparr> us_Upload = 0, us_Download = 0, us_Total = 0, us_ExpiresAt = 0 \<rparr> (split_on (CHR '';'') header))"

section \<open>Profiles\<close>

datatype yaml = YList nat | YMap "(string \<times> yaml) list" | YOther

definition is_YMap :: "yaml \<Rightarrow> bool" where
  "is_YMap y = (case y of YMap _ \<Rightarrow> True | _ \<Rightarrow> False)"

text \<open>\<open>document\<close> is the result of \<open>yaml.Unmarshal\<close>: an error, a nil map, or the entries.\<close>

definition validDocument :: "(string \<times> yaml) list option option \<Rightarrow> bool" where
  "validDocument document =
     (case document of
        Some (Some entries) \<Rightarrow>
          let proxies = map_of entries ''proxies''; providers = map_of entries ''proxy-providers'' in
          (proxies \<noteq> None \<or> providers \<noteq> None)
          \<and> (case (case proxies of None \<Rightarrow> Some 0 | Some (YList n) \<Rightarrow> Some n | Some _ \<Rightarrow> None,
                   case providers of None \<Rightarrow> Some 0
                   | Some (YMap items) \<Rightarrow> if list_all (\<lambda>(_, y). is_YMap y) items then Some (length items) else None
                   | Some _ \<Rightarrow> None) of
               (Some m, Some n) \<Rightarrow> m + n > 0
             | _ \<Rightarrow> False)
      | _ \<Rightarrow> False)"

definition validProfileYAML :: "(bytes \<Rightarrow> (string \<times> yaml) list option option) \<Rightarrow> bytes \<Rightarrow> bool" where
  "validProfileYAML yaml_Unmarshal profile \<longleftrightarrow> profile \<noteq> [] \<and> validDocument (yaml_Unmarshal profile)"

section \<open>Public entries\<close>

record Entry =
  en_ID :: string
  en_Name :: string
  en_SourceHost :: string
  en_Enabled :: bool
  en_RefreshInterval :: duration
  en_Timeout :: duration
  en_Route :: string
  en_AllowHTTP :: bool
  en_AllowInvalidTLS :: bool
  en_CheckedAt :: gotime
  en_LastSuccess :: gotime
  en_LastFailure :: string
  en_LastFailureAt :: gotime
  en_NextDue :: gotime
  en_Hash :: string
  en_AppliedHash :: string
  en_HasSnapshot :: bool
  en_Active :: bool
  en_PendingActivation :: bool
  en_Usage :: "Usage option"

definition publicEntry :: "url_parser \<Rightarrow> gotime \<Rightarrow> privateRecord \<Rightarrow> Entry" where
  "publicEntry url_Parse now r =
     (let sub = pr_Subscription r;
          raw = sub_URL sub;
          parsedURL = (if strings_HasPrefix raw ''//'' then ''https:'' @ raw
                       else if \<not> strings_Contains raw ''://'' then ''https://'' @ raw else raw)
      in \<lparr> en_ID = sub_ID sub, en_Name = sub_Name sub,
           en_SourceHost = (case url_Parse parsedURL of None \<Rightarrow> '''' | Some u \<Rightarrow> strings_ToLower (u_Hostname u)),
           en_Enabled = sub_Enabled sub, en_RefreshInterval = sub_RefreshInterval sub, en_Timeout = sub_Timeout sub,
           en_Route = sub_Route sub, en_AllowHTTP = sub_AllowHTTP sub, en_AllowInvalidTLS = sub_AllowInvalidTLS sub,
           en_CheckedAt = pr_CheckedAt r, en_LastSuccess = pr_LastSuccess r, en_LastFailure = pr_LastFailure r,
           en_LastFailureAt = pr_LastFailureAt r,
           en_NextDue = (if \<not> sub_Enabled sub then 0 else recordDue now r),
           en_Hash = pr_Hash r, en_AppliedHash = take 12 (pr_AppliedProfileHash r),
           en_HasSnapshot = (pr_Hash r \<noteq> '''' \<and> pr_CandidateHash r \<noteq> ''''),
           en_Active = pr_Active r, en_PendingActivation = (pr_Active r \<and> pr_Hash r \<noteq> pr_AppliedProfileHash r),
           en_Usage = pr_Usage r \<rparr>)"

section \<open>The service\<close>

record 'w Service =
  sv_store :: subStore
  sv_wake :: bool
  sv_refreshes :: "(string \<times> int list) list"
  sv_nextRefresh :: int
  sv_cancelled :: "int list"
  sv_onChange :: bool \<comment> \<open>\<open>options.OnChange != nil\<close>\<close>
  sv_notified :: nat
  sv_runtime :: 'w

abbreviation ErrSourceChanged :: go_error where "ErrSourceChanged \<equiv> Errorf ''subscriptions: source changed during refresh'' []"
abbreviation ErrFetch :: go_error where "ErrFetch \<equiv> Errorf ''subscriptions: refresh failed'' []"
abbreviation ErrInvalidProfile :: go_error where "ErrInvalidProfile \<equiv> Errorf ''subscriptions: invalid profile'' []"
abbreviation ErrRender :: go_error where "ErrRender \<equiv> Errorf ''subscriptions: candidate generation failed'' []"
abbreviation ErrValidation :: go_error where "ErrValidation \<equiv> Errorf ''subscriptions: candidate validation failed'' []"
abbreviation ErrActivation :: go_error where "ErrActivation \<equiv> Errorf ''subscriptions: activation failed'' []"
abbreviation ErrRestore :: go_error where "ErrRestore \<equiv> Errorf ''subscriptions: previous runtime restore failed'' []"
abbreviation ErrActivationCleanupPending :: go_error where
  "ErrActivationCleanupPending \<equiv> Errorf ''subscriptions: activation committed; cleanup pending'' []"
abbreviation ctx_Canceled :: go_error where "ctx_Canceled \<equiv> Errorf ''context canceled'' []"
abbreviation ctx_DeadlineExceeded :: go_error where "ctx_DeadlineExceeded \<equiv> Errorf ''context deadline exceeded'' []"

definition on_store :: "'a store_io \<Rightarrow> ('w Service, 'a) io" where
  "on_store m fs sv = (case m fs (sv_store sv) of (r, fs', s) \<Rightarrow> (r, fs', sv\<lparr> sv_store := s \<rparr>))"

definition on_runtime :: "('w, 'a) io \<Rightarrow> ('w Service, 'a) io" where
  "on_runtime m fs sv = (case m fs (sv_runtime sv) of (r, fs', w) \<Rightarrow> (r, fs', sv\<lparr> sv_runtime := w \<rparr>))"

text \<open>A deferred change of memory; it does not happen when the process dies.\<close>

definition defer_io :: "('s \<Rightarrow> 's) \<Rightarrow> ('s, 'a) io \<Rightarrow> ('s, 'a) io" where
  "defer_io f m fs h = (case m fs h of (Crash, fs', h') \<Rightarrow> (Crash, fs', h') | (r, fs', h') \<Rightarrow> (r, fs', f h'))"

definition safeContextError :: "go_error option \<Rightarrow> go_error option" where
  "safeContextError err =
     (case err of None \<Rightarrow> None | Some e \<Rightarrow> Some (if e = ctx_DeadlineExceeded then ctx_DeadlineExceeded else ctx_Canceled))"

definition signalWake :: "'w Service \<Rightarrow> 'w Service" where
  "signalWake sv = sv\<lparr> sv_wake := True \<rparr>"

definition notifyChange :: "'w Service \<Rightarrow> 'w Service" where
  "notifyChange sv = (if sv_onChange sv then sv\<lparr> sv_notified := sv_notified sv + 1 \<rparr> else sv)"

definition tokensOf :: "'w Service \<Rightarrow> string \<Rightarrow> int list" where
  "tokensOf sv ident = (case map_of (sv_refreshes sv) ident of None \<Rightarrow> [] | Some ts \<Rightarrow> ts)"

definition registerRefresh :: "string \<Rightarrow> ('w Service, int) io" where
  "registerRefresh ident =
     bind_io (read_io (\<lambda>sv. (sv_nextRefresh sv + 1) mod 2 ^ 64)) (\<lambda>token.
       then_io (modify_io (\<lambda>sv. sv\<lparr> sv_nextRefresh := token,
           sv_refreshes := AList.update ident (tokensOf sv ident @ [token]) (sv_refreshes sv) \<rparr>))
         (return_io token))"

definition finishRefresh :: "string \<Rightarrow> int \<Rightarrow> 'w Service \<Rightarrow> 'w Service" where
  "finishRefresh ident token sv =
     (let left = filter (\<lambda>t. t \<noteq> token) (tokensOf sv ident) in
      sv\<lparr> sv_cancelled := token # sv_cancelled sv,
          sv_refreshes := (if left = [] then AList.delete ident (sv_refreshes sv) else AList.update ident left (sv_refreshes sv)) \<rparr>)"

definition cancelRefreshes :: "string \<Rightarrow> 'w Service \<Rightarrow> 'w Service" where
  "cancelRefreshes ident sv = sv\<lparr> sv_cancelled := tokensOf sv ident @ sv_cancelled sv \<rparr>"

definition cancelIfSubscriptionChanges :: "url_parser \<Rightarrow> string \<Rightarrow> Subscription \<Rightarrow> 'w Service \<Rightarrow> 'w Service" where
  "cancelIfSubscriptionChanges url_Parse ident subscription sv =
     (case (normalizeSubscription url_Parse subscription None, Store_get (sv_store sv) ident) of
        (Inr latest, Some r) \<Rightarrow> if pr_Subscription r \<noteq> latest then cancelRefreshes ident sv else sv
      | _ \<Rightarrow> cancelRefreshes ident sv)"

definition CancelChangedSources :: "Subscription list \<Rightarrow> Subscription list \<Rightarrow> 'w Service \<Rightarrow> 'w Service" where
  "CancelChangedSources before after sv =
     (let afterSubscriptions = fold (\<lambda>s m. m(sub_ID s \<mapsto> s)) after Map.empty in
      fold (\<lambda>s sv. if afterSubscriptions (sub_ID s) \<noteq> Some s then cancelRefreshes (sub_ID s) sv else sv) before sv)"

section \<open>Changing subscriptions\<close>

definition newRecord :: "Subscription \<Rightarrow> privateRecord" where
  "newRecord s = \<lparr> pr_Subscription = s, pr_ETag = '''', pr_LastModified = '''', pr_CheckedAt = 0, pr_LastSuccess = 0, pr_LastFailureAt = 0,
     pr_LastFailure = '''', pr_Usage = None, pr_Hash = '''', pr_CandidateHash = '''', pr_DownloadedOnly = False, pr_AppliedHash = '''',
     pr_AppliedProfileHash = '''', pr_AppliedCandidateHash = '''', pr_Active = False \<rparr>"

definition Service_Add :: "url_parser \<Rightarrow> gotime \<Rightarrow> string \<Rightarrow> Subscription \<Rightarrow> ('w Service, Entry) io" where
  "Service_Add url_Parse now random subscription =
     (case normalizeSubscription url_Parse subscription (Some random) of
        Inl err \<Rightarrow> fail_io err
      | Inr normalized \<Rightarrow>
          then_io (on_store (Store_add (newRecord normalized)))
         (then_io (modify_io signalWake)
            (return_io (publicEntry url_Parse now (newRecord normalized)))))"

text \<open>The new settings in the record of the old ones; a new address forgets its validators and is due at once.\<close>

definition installSubscription :: "Subscription \<Rightarrow> privateRecord \<Rightarrow> privateRecord" where
  "installSubscription normalized r =
     (let r' = (if sub_URL (pr_Subscription r) \<noteq> sub_URL normalized then r\<lparr> pr_ETag := '''', pr_LastModified := '''', pr_CheckedAt := 0 \<rparr> else r)
      in r'\<lparr> pr_Subscription := normalized \<rparr>)"

definition Service_Update :: "url_parser \<Rightarrow> gotime \<Rightarrow> Subscription \<Rightarrow> ('w Service, Entry) io" where
  "Service_Update url_Parse now subscription =
     (case normalizeSubscription url_Parse subscription None of
        Inl err \<Rightarrow> fail_io err
      | Inr normalized \<Rightarrow>
          let ident = sub_ID normalized in
          bind_io (read_io (\<lambda>sv. Store_get (sv_store sv) ident)) (\<lambda>old.
            case old of
              None \<Rightarrow> fail_io ErrNotFound
            | Some r \<Rightarrow>
                then_io (if sub_URL (pr_Subscription r) \<noteq> sub_URL normalized then modify_io (cancelRefreshes ident) else return_io ())
               (bind_io (if pr_Subscription r \<noteq> normalized
                         then let r' = installSubscription normalized r in then_io (on_store (Store_replace r')) (return_io r')
                         else return_io r) (\<lambda>r'.
                  then_io (modify_io signalWake) (return_io (publicEntry url_Parse now r'))))))"

text \<open>\<open>Rename\<close> and \<open>SetEnabled\<close> change one field of the settings.\<close>

definition changeSubscription ::
  "url_parser \<Rightarrow> gotime \<Rightarrow> string \<Rightarrow> (Subscription \<Rightarrow> Subscription) \<Rightarrow> ('w Service, Entry) io" where
  "changeSubscription url_Parse now ident f =
     bind_io (read_io (\<lambda>sv. Store_get (sv_store sv) ident)) (\<lambda>old.
       case old of
         None \<Rightarrow> fail_io ErrNotFound
       | Some r \<Rightarrow>
           bind_io (if f (pr_Subscription r) \<noteq> pr_Subscription r
                    then let r' = r\<lparr> pr_Subscription := f (pr_Subscription r) \<rparr> in then_io (on_store (Store_replace r')) (return_io r')
                    else return_io r) (\<lambda>r'.
             then_io (modify_io signalWake) (return_io (publicEntry url_Parse now r'))))"

definition Service_Rename :: "url_parser \<Rightarrow> gotime \<Rightarrow> string \<Rightarrow> string \<Rightarrow> ('w Service, Entry) io" where
  "Service_Rename url_Parse now ident name =
     (let trimmed = strings_TrimSpace name in
      if trimmed = '''' \<or> length trimmed > 256 then fail_io ErrInvalid
      else changeSubscription url_Parse now ident (\<lambda>s. s\<lparr> sub_Name := trimmed \<rparr>))"

definition Service_SetEnabled :: "url_parser \<Rightarrow> gotime \<Rightarrow> string \<Rightarrow> bool \<Rightarrow> ('w Service, Entry) io" where
  "Service_SetEnabled url_Parse now ident enabled =
     then_io (if \<not> enabled then modify_io (cancelRefreshes ident) else return_io ())
       (changeSubscription url_Parse now ident (\<lambda>s. s\<lparr> sub_Enabled := enabled \<rparr>))"

definition Service_Delete :: "string \<Rightarrow> ('w Service, unit) io" where
  "Service_Delete ident =
     bind_io (read_io (\<lambda>sv. isActive (sv_store sv) ident)) (\<lambda>active.
       if active then fail_io ErrActive
       else
         then_io (modify_io (cancelRefreshes ident))
        (then_io (on_store (Store_delete ident))
           (modify_io signalWake)))"

definition Service_List :: "url_parser \<Rightarrow> gotime \<Rightarrow> 'w Service \<Rightarrow> Entry list" where
  "Service_List url_Parse now sv = map (publicEntry url_Parse now) (Store_list (sv_store sv))"

section \<open>Refreshing\<close>

record refresh_env =
  re_hasCurrent :: bool \<comment> \<open>\<open>options.Current != nil\<close>\<close>
  re_Current :: "nat \<Rightarrow> string \<Rightarrow> Subscription option"
  re_ctxErr :: "nat \<Rightarrow> go_error option"
  re_transport :: "string \<Rightarrow> bool \<Rightarrow> transport" \<comment> \<open>by route and TLS intent\<close>
  re_routed :: "string \<Rightarrow> bool \<Rightarrow> go_error option"
  re_fetchCtx :: ctx
  re_Unmarshal :: "bytes \<Rightarrow> (string \<times> yaml) list option option"
  re_Render :: "bytes \<Rightarrow> bytes option"
  re_Validate :: "bytes \<Rightarrow> bool"
  re_now :: gotime
  re_MaxBytes :: int
  re_CaptureErrorBody :: bool

record Result =
  res_ID :: string
  res_Changed :: bool
  res_CheckedAt :: gotime
  res_Hash :: string
  res_Usage :: "Usage option"

definition DefaultMaxProfileBytes :: int where
  "DefaultMaxProfileBytes = 10 * 2 ^ 20"

text \<open>The limit of \<open>NewService\<close>; the callbacks it requires are the fields of the environments.\<close>

definition serviceMaxBytes :: "int \<Rightarrow> go_error + int" where
  "serviceMaxBytes maxBytes =
     (let limit = (if maxBytes = 0 then DefaultMaxProfileBytes else maxBytes) in
      if limit < 0 \<or> limit > maxProfileBytes then Inl ErrInvalid else Inr limit)"

text \<open>The text of a sentinel error.\<close>

fun error_text :: "go_error \<Rightarrow> string" where
  "error_text (Errorf msg _) = msg"
| "error_text _ = ''''"

definition recordFailure :: "string \<Rightarrow> gotime \<Rightarrow> go_error \<Rightarrow> string \<Rightarrow> ('w Service, unit) io" where
  "recordFailure ident checkedAt failure msg =
     (if failure = ctx_Canceled then return_io ()
      else bind_io (on_store (touchFailure ident checkedAt msg)) (\<lambda>persisted.
        then_io (if persisted then modify_io notifyChange else return_io ()) (modify_io signalWake)))"

definition recordContextFailure :: "refresh_env \<Rightarrow> nat \<Rightarrow> string \<Rightarrow> ('w Service, unit) io" where
  "recordContextFailure env k ident =
     (case safeContextError (re_ctxErr env k) of
        None \<Rightarrow> return_io ()
      | Some err \<Rightarrow> then_io (recordFailure ident (re_now env) err (error_text err)) (fail_io err))"

text \<open>A failure is recorded and returned.\<close>

definition failRefresh :: "refresh_env \<Rightarrow> string \<Rightarrow> go_error \<Rightarrow> go_error \<Rightarrow> ('w Service, 'a) io" where
  "failRefresh env ident failure result = then_io (recordFailure ident (re_now env) failure (error_text failure)) (fail_io result)"

definition responseFailure :: "refresh_env \<Rightarrow> Response \<Rightarrow> go_error \<Rightarrow> go_error" where
  "responseFailure env response err =
     (if \<not> re_CaptureErrorBody env then err
      else Joined_Errors err (statusError \<lparr> st_Code = rs_StatusCode response, st_ResponseBody = rs_DiagnosticBody response \<rparr>))"

definition sourceIsCurrent :: "url_parser \<Rightarrow> refresh_env \<Rightarrow> nat \<Rightarrow> Subscription \<Rightarrow> bool" where
  "sourceIsCurrent url_Parse env k expected \<longleftrightarrow>
     \<not> re_hasCurrent env
     \<or> (case re_Current env k (sub_ID expected) of
          None \<Rightarrow> False
        | Some current \<Rightarrow> sub_ID current = sub_ID expected \<and> normalizeSubscription url_Parse current None = Inr expected)"

definition installLatestLocked :: "Subscription \<Rightarrow> ('w Service, unit) io" where
  "installLatestLocked subscription =
     bind_io (read_io (\<lambda>sv. Store_get (sv_store sv) (sub_ID subscription))) (\<lambda>old.
       case old of
         None \<Rightarrow> then_io (on_store (Store_add (newRecord subscription))) (modify_io signalWake)
       | Some r \<Rightarrow>
           if pr_Subscription r = subscription then return_io ()
           else then_io (on_store (Store_replace (installSubscription subscription r))) (modify_io signalWake))"

definition Service_touch :: "string \<Rightarrow> gotime \<Rightarrow> string \<Rightarrow> string \<Rightarrow> Usage option \<Rightarrow> ('w Service, unit) io" where
  "Service_touch ident checkedAt etag lastModified usage =
     bind_io (on_store (touchSuccess ident checkedAt etag lastModified usage)) (\<lambda>recovered.
       then_io (if recovered then modify_io notifyChange else return_io ()) (modify_io signalWake))"

text \<open>The profile did not change: the record is touched.\<close>

definition unchangedProfile ::
  "refresh_env \<Rightarrow> string \<Rightarrow> privateRecord \<Rightarrow> string \<Rightarrow> string \<Rightarrow> Usage option \<Rightarrow> string \<Rightarrow> ('w Service, Result) io" where
  "unchangedProfile env ident r etag lastModified usage hash =
     then_io (Service_touch ident (re_now env) etag lastModified usage)
       (return_io \<lparr> res_ID = ident, res_Changed = False, res_CheckedAt = re_now env, res_Hash = hash,
          res_Usage = (if usage = None then pr_Usage r else usage) \<rparr>)"

text \<open>The commit of a new profile: promoted, withdrawn if the source changed meanwhile, otherwise finalized.\<close>

definition commitProfile ::
  "(bytes \<Rightarrow> string) \<Rightarrow> url_parser \<Rightarrow> refresh_env \<Rightarrow> string \<Rightarrow> privateRecord \<Rightarrow> (go_error \<Rightarrow> go_error) \<Rightarrow> bytes \<Rightarrow> bytes
   \<Rightarrow> string \<Rightarrow> string \<Rightarrow> Usage option \<Rightarrow> bool \<Rightarrow> ('w Service, Result) io" where
  "commitProfile sha url_Parse env ident r report profile candidate etag lastModified usage downloadedOnly =
     (if \<not> sourceIsCurrent url_Parse env 2 (pr_Subscription r) then fail_io (report ErrSourceChanged)
      else
        bind_io (catch_io (on_store (Store_promote sha ident profile candidate (re_now env) etag lastModified usage downloadedOnly))
            (\<lambda>_. fail_io (report ErrStore))) (\<lambda>previous.
          if \<not> sourceIsCurrent url_Parse env 3 (pr_Subscription r) then
            then_io (catch_io (on_store (rollbackPromotion ident previous (sha profile) (sha candidate)))
                (\<lambda>_. fail_io (Joined_Errors (report ErrSourceChanged) ErrStore)))
              (fail_io (report ErrSourceChanged))
          else
            then_io (on_store (finalizePromotion ident))
           (then_io (modify_io notifyChange)
           (then_io (modify_io signalWake)
              (return_io \<lparr> res_ID = ident, res_Changed = True, res_CheckedAt = re_now env, res_Hash = sha profile, res_Usage = usage \<rparr>)))))"

definition fetchRequest :: "refresh_env \<Rightarrow> privateRecord \<Rightarrow> Request" where
  "fetchRequest env r =
     \<lparr> rq_URL = sub_URL (pr_Subscription r), rq_Route = sub_Route (pr_Subscription r), rq_ETag = pr_ETag r, rq_LastModified = pr_LastModified r,
       rq_MaxBytes = re_MaxBytes env, rq_AllowHTTP = sub_AllowHTTP (pr_Subscription r), rq_UserAgent = sub_UserAgent (pr_Subscription r),
       rq_CaptureErrorBody = re_CaptureErrorBody env \<rparr>"

definition fetchResponse :: "refresh_env \<Rightarrow> privateRecord \<Rightarrow> fetch_error + Response" where
  "fetchResponse env r =
     (let route = sub_Route (pr_Subscription r); insecure = sub_AllowInvalidTLS (pr_Subscription r) in
      fst (Fetch (re_transport env route insecure) False (\<lambda>route. re_routed env route insecure) (re_fetchCtx env) (fetchRequest env r)))"

definition fetchFailed :: "refresh_env \<Rightarrow> string \<Rightarrow> fetch_error \<Rightarrow> ('w Service, 'a) io" where
  "fetchFailed env ident err =
     then_io (recordContextFailure env 2 ident)
       (case StatusErrorFrom err of
          Some status \<Rightarrow>
            then_io (recordFailure ident (re_now env) (statusError status) (StatusError_Error status))
              (fail_io (Joined_Errors ErrFetch (statusError status)))
        | None \<Rightarrow>
            failRefresh env ident ErrFetch
              (case HTTPResponseFrom err of Some status \<Rightarrow> Joined_Errors ErrFetch (statusError status) | None \<Rightarrow> ErrFetch))"

text \<open>A body to install: checked, rendered, validated and committed.\<close>

definition installProfile ::
  "(bytes \<Rightarrow> string) \<Rightarrow> url_parser \<Rightarrow> refresh_env \<Rightarrow> string \<Rightarrow> privateRecord \<Rightarrow> bool \<Rightarrow> Response \<Rightarrow> string \<Rightarrow> string \<Rightarrow> ('w Service, Result) io" where
  "installProfile sha url_Parse env ident r downloadOnly response etag lastModified =
     (let profile = rs_Body response; usage = parseUsage (rs_SubscriptionUserInfo response); report = responseFailure env response in
      if pr_Hash r \<noteq> '''' \<and> sha profile = pr_Hash r \<and> (downloadOnly \<or> \<not> pr_DownloadedOnly r)
      then unchangedProfile env ident r etag lastModified usage (sha profile)
      else if \<not> validProfileYAML (re_Unmarshal env) profile then failRefresh env ident ErrInvalidProfile (report ErrInvalidProfile)
      else if downloadOnly
      then commitProfile sha url_Parse env ident r (\<lambda>err. err) profile profile etag lastModified usage True
      else
        case re_Render env profile of
          None \<Rightarrow> then_io (recordContextFailure env 3 ident) (failRefresh env ident ErrRender (report ErrRender))
        | Some candidate \<Rightarrow>
            then_io (recordContextFailure env 3 ident)
              (if candidate = [] \<or> int (length candidate) > maxCandidateBytes then failRefresh env ident ErrRender (report ErrRender)
               else if \<not> re_Validate env candidate
               then then_io (recordContextFailure env 4 ident) (failRefresh env ident ErrValidation (report ErrValidation))
               else then_io (recordContextFailure env 4 ident)
                 (commitProfile sha url_Parse env ident r report profile candidate etag lastModified usage False)))"

definition processResponse ::
  "(bytes \<Rightarrow> string) \<Rightarrow> url_parser \<Rightarrow> refresh_env \<Rightarrow> string \<Rightarrow> privateRecord \<Rightarrow> bool \<Rightarrow> Response \<Rightarrow> ('w Service, Result) io" where
  "processResponse sha url_Parse env ident r downloadOnly response =
     then_io (recordContextFailure env 2 ident)
       (let notModified = (rs_StatusCode response = 304);
            etag = (if notModified \<and> rs_ETag response = '''' then pr_ETag r else rs_ETag response);
            lastModified = (if notModified \<and> rs_LastModified response = '''' then pr_LastModified r else rs_LastModified response);
            usage = parseUsage (rs_SubscriptionUserInfo response)
        in
        if notModified \<and> pr_DownloadedOnly r \<and> \<not> downloadOnly then
          bind_io (read_io (\<lambda>sv. Store_Profile sha (sv_store sv) ident)) (\<lambda>stored.
            case stored of
              Inl _ \<Rightarrow> fail_io ErrStore
            | Inr profile \<Rightarrow>
                installProfile sha url_Parse env ident r downloadOnly (response\<lparr> rs_Body := profile, rs_StatusCode := 200 \<rparr>) etag lastModified)
        else if notModified then
          (if pr_Hash r = '''' \<or> pr_CandidateHash r = '''' then failRefresh env ident ErrNoSnapshot ErrNoSnapshot
           else unchangedProfile env ident r etag lastModified usage (pr_Hash r))
        else installProfile sha url_Parse env ident r downloadOnly response etag lastModified)"

text \<open>The settings to install before the download, if any.\<close>

definition latestSubscription :: "url_parser \<Rightarrow> refresh_env \<Rightarrow> string \<Rightarrow> Subscription option \<Rightarrow> go_error + Subscription option" where
  "latestSubscription url_Parse env ident supplied =
     (case supplied of
        Some s \<Rightarrow>
          if sub_ID s \<noteq> ident then Inl ErrInvalid
          else (case normalizeSubscription url_Parse s None of Inl err \<Rightarrow> Inl err | Inr n \<Rightarrow> Inr (Some n))
      | None \<Rightarrow>
          if \<not> re_hasCurrent env then Inr None
          else (case re_Current env 1 ident of
                  None \<Rightarrow> Inl ErrNotFound
                | Some s \<Rightarrow>
                    if sub_ID s \<noteq> ident then Inl ErrNotFound
                    else (case normalizeSubscription url_Parse s None of Inl err \<Rightarrow> Inl err | Inr n \<Rightarrow> Inr (Some n))))"

definition refreshLocked ::
  "(bytes \<Rightarrow> string) \<Rightarrow> url_parser \<Rightarrow> refresh_env \<Rightarrow> string \<Rightarrow> Subscription option \<Rightarrow> bool \<Rightarrow> ('w Service, Result) io" where
  "refreshLocked sha url_Parse env ident supplied downloadOnly =
     then_io (check_io (safeContextError (re_ctxErr env 0)))
       (case latestSubscription url_Parse env ident supplied of
          Inl err \<Rightarrow> fail_io err
        | Inr latest \<Rightarrow>
            then_io (case latest of None \<Rightarrow> return_io () | Some s \<Rightarrow> installLatestLocked s)
           (bind_io (read_io (\<lambda>sv. Store_get (sv_store sv) ident)) (\<lambda>old.
              case old of
                None \<Rightarrow> fail_io ErrNotFound
              | Some r \<Rightarrow>
                  then_io (check_io (safeContextError (re_ctxErr env 1)))
                    (case fetchResponse env r of
                       Inl err \<Rightarrow> fetchFailed env ident err
                     | Inr response \<Rightarrow> processResponse sha url_Parse env ident r downloadOnly response))))"

definition refreshSubscription ::
  "(bytes \<Rightarrow> string) \<Rightarrow> url_parser \<Rightarrow> refresh_env \<Rightarrow> string \<Rightarrow> Subscription option \<Rightarrow> bool \<Rightarrow> ('w Service, Result) io" where
  "refreshSubscription sha url_Parse env ident supplied downloadOnly =
     (if \<not> validID ident then fail_io ErrInvalid
      else
        bind_io (registerRefresh ident) (\<lambda>token.
          defer_io (finishRefresh ident token) (refreshLocked sha url_Parse env ident supplied downloadOnly)))"

text \<open>\<open>Refresh\<close> and \<open>Download\<close> are the two cases of \<open>refreshLatest\<close>.\<close>

definition refreshLatest :: "(bytes \<Rightarrow> string) \<Rightarrow> url_parser \<Rightarrow> refresh_env \<Rightarrow> string \<Rightarrow> bool \<Rightarrow> ('w Service, Result) io" where
  "refreshLatest sha url_Parse env ident downloadOnly =
     then_io
       (if \<not> re_hasCurrent env then return_io ()
        else (case re_Current env 0 ident of
                None \<Rightarrow> fail_io ErrNotFound
              | Some current \<Rightarrow>
                  if sub_ID current \<noteq> ident then fail_io ErrInvalid
                  else modify_io (cancelIfSubscriptionChanges url_Parse ident current)))
       (refreshSubscription sha url_Parse env ident None downloadOnly)"

definition RefreshWith :: "(bytes \<Rightarrow> string) \<Rightarrow> url_parser \<Rightarrow> refresh_env \<Rightarrow> Subscription \<Rightarrow> ('w Service, Result) io" where
  "RefreshWith sha url_Parse env subscription =
     then_io (modify_io (cancelIfSubscriptionChanges url_Parse (sub_ID subscription) subscription))
       (refreshSubscription sha url_Parse env (sub_ID subscription) (Some subscription) False)"

section \<open>Activating\<close>

record 'w activate_env =
  ae_ctxErr :: "nat \<Rightarrow> go_error option"
  ae_Apply :: "bytes \<Rightarrow> ('w, unit) io"
  ae_Restore :: "bytes option \<Rightarrow> ('w, unit) io"
  ae_Finalize :: "('w, unit) io option"
  ae_PendingResourceCommit :: "('w \<Rightarrow> string) option"

text \<open>\<open>Restore\<close> with the profile active before; its failure ends the activation.\<close>

definition restoreRuntime :: "'w activate_env \<Rightarrow> bytes option \<Rightarrow> (go_error \<Rightarrow> go_error) \<Rightarrow> ('w Service, unit) io" where
  "restoreRuntime env previous report = catch_io (on_runtime (ae_Restore env previous)) (\<lambda>err. fail_io (report err))"

definition applyProfile :: "'w activate_env \<Rightarrow> bytes \<Rightarrow> ('w Service, unit) io" where
  "applyProfile env profile =
     catch_io (on_runtime (ae_Apply env profile)) (\<lambda>err.
       case safeContextError (ae_ctxErr env 1) of
         Some contextErr \<Rightarrow> fail_io contextErr
       | None \<Rightarrow> fail_io (case PublicActivation err of Some public \<Rightarrow> Joined_Errors ErrActivation public | None \<Rightarrow> ErrActivation))"

text \<open>The durable part before the acceptance: the pending marker when resources are committed with the activation,
  then the active marker.\<close>

definition commitActivation ::
  "(bytes \<Rightarrow> string) \<Rightarrow> 'w activate_env \<Rightarrow> string \<Rightarrow> privateRecord \<Rightarrow> string \<times> string \<times> string \<Rightarrow> bytes option \<Rightarrow> string \<Rightarrow> ('w Service, unit) io" where
  "commitActivation sha env ident r previous previousProfile resourceCommitID =
     (let (previousID, previousHash, previousCandidate) = previous in
      then_io (if resourceCommitID = '''' then return_io ()
               else catch_io (on_store (markActivationPending previousID previousHash previousCandidate resourceCommitID)) (\<lambda>_.
                 then_io (restoreRuntime env previousProfile (\<lambda>err. Joined_Errors (Joined_Errors ErrStore ErrRestore) err)) (fail_io ErrStore)))
        (catch_io (on_store (setApplied sha ident (pr_Hash r) (pr_CandidateHash r))) (\<lambda>_.
           then_io (restoreRuntime env previousProfile (\<lambda>_. Joined_Errors ErrStore ErrRestore))
          (then_io (if resourceCommitID = '''' then return_io ()
                    else catch_io (on_store clearActivationPending) (\<lambda>err. fail_io (Joined_Errors ErrStore err)))
             (fail_io ErrStore)))))"

definition finalizeActivation ::
  "(bytes \<Rightarrow> string) \<Rightarrow> 'w activate_env \<Rightarrow> string \<times> string \<times> string \<Rightarrow> bytes option \<Rightarrow> bool \<Rightarrow> string \<Rightarrow> ('w Service, unit) io" where
  "finalizeActivation sha env previous previousProfile alreadyApplied resourceCommitID =
     (let (previousID, previousHash, previousCandidate) = previous;
          failed = (\<lambda>stage err. Joined_Errors err (ActivationError stage '''' None))
      in
      case ae_Finalize env of
        None \<Rightarrow> return_io ()
      | Some finalize \<Rightarrow>
          catch_io (on_runtime finalize) (\<lambda>_.
            then_io (restoreRuntime env previousProfile (\<lambda>_. failed ActivationRollback (Joined_Errors ErrActivation ErrRestore)))
           (then_io (if alreadyApplied then return_io ()
                     else
                       then_io (catch_io (on_store (restoreApplied sha previousID previousHash previousCandidate))
                           (\<lambda>_. fail_io (failed ActivationRollback (Joined_Errors ErrActivation ErrStore))))
                         (if resourceCommitID = '''' then return_io ()
                          else catch_io (on_store clearActivationPending)
                            (\<lambda>_. fail_io (failed ActivationStateCommit (Joined_Errors ErrActivation ErrStore)))))
              (fail_io (failed ActivationStateCommit ErrActivation)))))"

definition acceptActivation :: "('w Service, unit) io" where
  "acceptActivation =
     then_io (catch_io (on_store markActivationAccepted) (\<lambda>err. fail_io (Joined_Errors ErrActivationCleanupPending err)))
       (catch_io (on_store clearActivationPending) (\<lambda>err. fail_io (Joined_Errors ErrActivationCleanupPending err)))"

text \<open>What follows once the runtime has applied the profile.\<close>

definition completeActivation ::
  "(bytes \<Rightarrow> string) \<Rightarrow> 'w activate_env \<Rightarrow> string \<Rightarrow> privateRecord \<Rightarrow> string \<times> string \<times> string \<Rightarrow> bytes option \<Rightarrow> ('w Service, unit) io" where
  "completeActivation sha env ident r previous previousProfile =
     bind_io (read_io (\<lambda>sv. (isActive (sv_store sv) ident \<and> pr_AppliedProfileHash r = pr_Hash r \<and> pr_AppliedCandidateHash r = pr_CandidateHash r,
         case ae_PendingResourceCommit env of None \<Rightarrow> '''' | Some f \<Rightarrow> f (sv_runtime sv)))) (\<lambda>(alreadyApplied, pendingCommit).
       let resourceCommitID = (if alreadyApplied then '''' else pendingCommit) in
       then_io (if alreadyApplied then return_io ()
                else commitActivation sha env ident r previous previousProfile resourceCommitID)
      (then_io (finalizeActivation sha env previous previousProfile alreadyApplied resourceCommitID)
      (then_io (if resourceCommitID = '''' then return_io () else acceptActivation)
         (if alreadyApplied then return_io () else on_store cleanupApplied))))"

text \<open>The checks before the runtime is touched.\<close>

definition activateSnapshot ::
  "(bytes \<Rightarrow> string) \<Rightarrow> 'w activate_env \<Rightarrow> string \<Rightarrow> (go_error + privateRecord \<times> bytes \<times> bytes) \<Rightarrow> string \<times> string \<times> string
   \<Rightarrow> (go_error + string \<times> bytes) \<Rightarrow> ('w Service, unit) io" where
  "activateSnapshot sha env ident snapshot previous active =
     (case snapshot of
        Inl err \<Rightarrow> fail_io err
      | Inr (r, profile, candidate) \<Rightarrow>
          if sha candidate \<noteq> pr_CandidateHash r then fail_io ErrStore
          else if (case active of Inl err \<Rightarrow> err \<noteq> ErrNoSnapshot | Inr _ \<Rightarrow> False) then fail_io ErrStore
          else
            then_io (check_io (safeContextError (ae_ctxErr env 0)))
           (then_io (applyProfile env profile)
              (completeActivation sha env ident r previous (case active of Inl _ \<Rightarrow> None | Inr (_, p) \<Rightarrow> Some p))))"

definition Activate :: "(bytes \<Rightarrow> string) \<Rightarrow> 'w activate_env \<Rightarrow> string \<Rightarrow> ('w Service, unit) io" where
  "Activate sha env ident =
     (if \<not> validID ident then fail_io ErrInvalid
      else
        then_io (catch_io (on_store retryAcceptedActivationCleanup) (\<lambda>err. fail_io (Joined_Errors ErrActivationCleanupPending err)))
       (bind_io (read_io (\<lambda>sv. (recordSnapshot sha (sv_store sv) ident, appliedIdentity (sv_store sv), ActiveProfile sha (sv_store sv))))
          (\<lambda>(snapshot, previous, active). activateSnapshot sha env ident snapshot previous active)))"

end
