(* ===== verification/Subscriptions_Safety.thy ===== *)
theory Subscriptions_Safety
  imports Subscriptions_Service
begin

text \<open>
  The operations of the subscription service keep the invariant of the store: whatever fails and wherever
  the process dies, the next start opens the store with the subscription and the generation that were active.
\<close>

section \<open>Normal forms\<close>

lemma trim_prefixes_clean:
  assumes "\<And>w. w \<in> set ws \<Longrightarrow> w \<noteq> [] \<and> hd w \<notin> set s"
  shows "trim_prefixes ws s = s"
proof (rule trim_prefixes_none)
  fix w assume "w \<in> set ws"
  from assms [OF this] show "w = [] \<or> \<not> prefix w s" by (cases w) (auto simp: prefix_def)
qed

lemma TrimSpace_clean:
  assumes "\<And>w. w \<in> set space_runes \<Longrightarrow> hd w \<notin> set s \<and> last w \<notin> set s"
  shows "strings_TrimSpace s = s"
proof -
  have ne: "w \<noteq> []" if "w \<in> set space_runes" for w using that by (auto simp: space_runes_def)
  have "trim_prefixes space_runes s = s" using assms ne by (intro trim_prefixes_clean) blast
  moreover have "trim_prefixes (map rev space_runes) (rev s) = rev s"
    using assms ne by (intro trim_prefixes_clean) (auto simp: hd_rev)
  ultimately show ?thesis by (simp add: strings_TrimSpace_def)
qed

lemma TrimSpace_idem: "strings_TrimSpace (strings_TrimSpace s) = strings_TrimSpace s"
proof -
  let ?l = "trim_prefixes space_runes s"
  let ?r = "trim_prefixes (map rev space_runes) (rev ?l)"
  have "prefix (rev ?r) ?l" using trim_prefixes_suffix [of "map rev space_runes" "rev ?l"] by (simp add: suffix_to_prefix)
  then have "trim_prefixes space_runes (rev ?r) = rev ?r"
    using trim_prefixes_no_prefix [of _ space_runes s] by (intro trim_prefixes_none) (metis prefix_order.trans)
  then show ?thesis by (simp add: strings_TrimSpace_def trim_prefixes_idem)
qed

lemma subID_chars: "validID ident \<Longrightarrow> c \<in> set ident \<Longrightarrow> subID_inner c"
  by (cases ident) (auto simp: validID_def subID_inner_def list_all_iff)

lemma TrimSpace_validID:
  assumes "validID ident"
  shows "strings_TrimSpace ident = ident"
proof (rule TrimSpace_clean)
  fix w assume "w \<in> set space_runes"
  then have "\<not> subID_inner (hd w) \<and> \<not> subID_inner (last w)"
    by (auto simp: space_runes_def subID_inner_def is_alnum_def is_digit_def is_lower_def is_upper_def less_eq_char_def)
  with subID_chars [OF assms] show "hd w \<notin> set ident \<and> last w \<notin> set ident" by blast
qed

definition canonical :: "url_parser \<Rightarrow> Subscription \<Rightarrow> bool" where
  "canonical url_Parse s \<longleftrightarrow>
     validID (sub_ID s) \<and> strings_TrimSpace (sub_Name s) = sub_Name s \<and> sub_Name s \<noteq> '''' \<and> length (sub_Name s) \<le> 256
     \<and> 0 < sub_RefreshInterval s \<and> 0 < sub_Timeout s \<and> ValidRoute (sub_Route s) \<and> sub_Route s \<noteq> ''''
     \<and> strings_TrimSpace (sub_URL s) = sub_URL s \<and> validURL url_Parse (sub_URL s) (sub_AllowHTTP s)
     \<and> ValidSubscriptionUserAgent (sub_UserAgent s)"

lemma if_Inl_Inr: "(if b then Inl e else x) = Inr n \<longleftrightarrow> \<not> b \<and> x = Inr n"
  by simp

lemma normalize_canonical:
  assumes "normalizeSubscription url_Parse s generated = Inr n"
  shows "canonical url_Parse n"
proof -
  let ?trimmed = "strings_TrimSpace (sub_ID s)" and ?n = "strings_TrimSpace (sub_Name s)"
  let ?ident = "if ?trimmed = '''' \<and> generated \<noteq> None then newID (the generated) else ?trimmed"
  let ?name = "if ?n = '''' then ?ident else ?n"
  let ?interval = "if sub_RefreshInterval s = 0 then 12 * Hour else sub_RefreshInterval s"
  let ?timeout = "if sub_Timeout s = 0 then 30 * Second else sub_Timeout s"
  let ?route = "if sub_Route s = '''' then download_Auto else sub_Route s"
  let ?link = "strings_TrimSpace (sub_URL s)"
  from assms have n: "n = s\<lparr> sub_ID := ?ident, sub_Name := ?name, sub_RefreshInterval := ?interval, sub_Timeout := ?timeout,
      sub_Route := ?route, sub_URL := ?link \<rparr>"
    and ok: "validID ?ident" "\<not> length ?name > 256" "\<not> (?interval < 0 \<or> ?timeout < 0)" "ValidRoute ?route"
      "validURL url_Parse ?link (sub_AllowHTTP s)" "ValidSubscriptionUserAgent (sub_UserAgent s)"
    by (simp_all only: normalizeSubscription_def Let_def if_Inl_Inr sum.inject not_not not_False_eq_True)
  have ident: "?ident \<noteq> ''''" "strings_TrimSpace ?ident = ?ident" using ok(1) by (simp_all only: validID_nonempty TrimSpace_validID not_False_eq_True)
  have name: "strings_TrimSpace ?name = ?name" "?name \<noteq> ''''"
    using ident TrimSpace_idem [of "sub_Name s"] by (cases "?n = ''''", simp_all only: if_True if_False not_False_eq_True)+
  have positive: "0 < ?interval" "0 < ?timeout" "?route \<noteq> ''''" using ok(3) by (auto simp: go_defs download_Auto_def)
  have len: "length ?name \<le> 256" using ok(2) by (simp only: not_less)
  have general: "canonical url_Parse (s\<lparr> sub_ID := ident, sub_Name := name, sub_RefreshInterval := interval, sub_Timeout := timeout,
      sub_Route := route, sub_URL := link \<rparr>)"
    if "validID ident" "strings_TrimSpace name = name" "name \<noteq> ''''" "length name \<le> 256" "0 < interval" "0 < timeout" "ValidRoute route"
      "route \<noteq> ''''" "strings_TrimSpace link = link" "validURL url_Parse link (sub_AllowHTTP s)" for ident name interval timeout route link
    using that ok(6) by (simp add: canonical_def)
  show ?thesis
    unfolding n by (rule general) (fact ok name len positive TrimSpace_idem)+
qed

lemma canonical_normal: "normalizeSubscription url_Parse s None = Inr s \<longleftrightarrow> canonical url_Parse s"
proof
  assume c: "canonical url_Parse s"
  then have "strings_TrimSpace (sub_ID s) = sub_ID s" by (simp add: canonical_def TrimSpace_validID)
  with c show "normalizeSubscription url_Parse s None = Inr s" by (simp add: normalizeSubscription_def canonical_def Let_def)
qed (rule normalize_canonical)

lemma canonical_changes:
  assumes "canonical url_Parse s"
  shows "canonical url_Parse (s\<lparr> sub_Enabled := b \<rparr>)"
    and "name = strings_TrimSpace name \<Longrightarrow> name \<noteq> '''' \<Longrightarrow> length name \<le> 256 \<Longrightarrow> canonical url_Parse (s\<lparr> sub_Name := name \<rparr>)"
  using assms by (simp_all add: canonical_def)

lemma settings_ok_canonical:
  "settings_ok url_Parse ident r \<longleftrightarrow>
     sub_ID (pr_Subscription r) = ident \<and> canonical url_Parse (pr_Subscription r)
     \<and> validFailure (pr_LastFailure r) \<and> (pr_DownloadedOnly r \<longrightarrow> pr_Hash r \<noteq> '''' \<and> pr_CandidateHash r = pr_Hash r)"
  by (auto simp: settings_ok_def canonical_normal canonical_def)

section \<open>Programs of the service\<close>

definition sv_at :: "(bytes \<Rightarrow> string) \<Rightarrow> url_parser \<Rightarrow> activeMarker json_file \<Rightarrow> 'w Service \<Rightarrow> bool" where
  "sv_at sha url_Parse a sv \<longleftrightarrow> store_at sha url_Parse a Missing (sv_store sv)"

definition sv_disk :: "(bytes \<Rightarrow> string) \<Rightarrow> url_parser \<Rightarrow> activeMarker json_file \<Rightarrow> 'w Service \<Rightarrow> bool" where
  "sv_disk sha url_Parse a sv \<longleftrightarrow> disk_at sha url_Parse a Missing (sv_store sv)"

lemma sv_disk_at: "sv_at sha url_Parse a sv \<Longrightarrow> sv_disk sha url_Parse a sv"
  by (simp add: sv_at_def sv_disk_def disk_at_store)

text \<open>\<open>safe\<close>: from a good state the program ends in a good state or dies on a good disk; after an error \<open>E\<close> holds.\<close>

definition safe ::
  "(bytes \<Rightarrow> string) \<Rightarrow> url_parser \<Rightarrow> activeMarker json_file \<Rightarrow> ('w Service \<Rightarrow> bool) \<Rightarrow> ('w Service, 'a) io \<Rightarrow> 'w Service \<Rightarrow> bool" where
  "safe sha url_Parse a E m sv \<longleftrightarrow>
     (sv_at sha url_Parse a sv \<longrightarrow> wp m (\<lambda>_. sv_at sha url_Parse a) (\<lambda>_. E) (sv_disk sha url_Parse a) sv)"

lemma safe_mono: "safe sha url_Parse a (sv_at sha url_Parse a) m sv \<Longrightarrow> safe sha url_Parse a (sv_disk sha url_Parse a) m sv"
  unfolding safe_def by (auto intro: wp_mono sv_disk_at)

lemma safe_return [simp]: "safe sha url_Parse a E (return_io x) sv"
  by (simp add: safe_def)

lemma safe_fail: "(sv_at sha url_Parse a sv \<Longrightarrow> E sv) \<Longrightarrow> safe sha url_Parse a E (fail_io e) sv"
  by (simp add: safe_def)

lemma safe_check: "(sv_at sha url_Parse a sv \<Longrightarrow> E sv) \<Longrightarrow> safe sha url_Parse a E (check_io r) sv"
  by (auto simp: safe_def split: option.split)

lemma safe_modify: "sv_store (f sv) = sv_store sv \<Longrightarrow> safe sha url_Parse a E (modify_io f) sv"
  by (simp add: safe_def sv_at_def)

lemma safe_read: "(sv_at sha url_Parse a sv \<Longrightarrow> safe sha url_Parse a E (f (g sv)) sv) \<Longrightarrow> safe sha url_Parse a E (bind_io (read_io g) f) sv"
  by (auto simp: safe_def intro!: wp_bind)

lemma safe_bind:
  assumes "safe sha url_Parse a E m sv" and "\<And>x sv. safe sha url_Parse a E (f x) sv"
  shows "safe sha url_Parse a E (bind_io m f) sv"
  unfolding safe_def
proof (intro impI wp_bind)
  assume "sv_at sha url_Parse a sv"
  with assms(1) have "wp m (\<lambda>_. sv_at sha url_Parse a) (\<lambda>_. E) (sv_disk sha url_Parse a) sv" by (simp add: safe_def)
  then show "wp m (\<lambda>x. wp (f x) (\<lambda>_. sv_at sha url_Parse a) (\<lambda>_. E) (sv_disk sha url_Parse a)) (\<lambda>_. E) (sv_disk sha url_Parse a) sv"
    by (rule wp_mono) (use assms(2) in \<open>auto simp: safe_def\<close>)
qed

lemma safe_then:
  assumes "safe sha url_Parse a E m sv" and "\<And>sv. safe sha url_Parse a E n sv"
  shows "safe sha url_Parse a E (then_io m n) sv"
  unfolding then_io_def by (rule safe_bind [OF assms])

lemma safe_modify_then:
  assumes "sv_store (f sv) = sv_store sv" and "safe sha url_Parse a E n (f sv)"
  shows "safe sha url_Parse a E (then_io (modify_io f) n) sv"
  using assms by (auto simp: safe_def sv_at_def intro!: wp_then)

lemma safe_when_then:
  assumes "sv_store (f sv) = sv_store sv" and "\<And>g. sv_store g = sv_store sv \<Longrightarrow> safe sha url_Parse a E n g"
  shows "safe sha url_Parse a E (then_io (if b then modify_io f else return_io ()) n) sv"
proof (cases b)
  case True
  then show ?thesis using assms by (simp add: safe_modify_then)
next
  case False
  then show ?thesis using assms(2) [of sv] by (auto simp: safe_def intro!: wp_then)
qed

lemma safe_if:
  "(b \<Longrightarrow> safe sha url_Parse a E m sv) \<Longrightarrow> (\<not> b \<Longrightarrow> safe sha url_Parse a E n sv) \<Longrightarrow> safe sha url_Parse a E (if b then m else n) sv"
  by simp

lemma safe_catch:
  assumes "safe sha url_Parse a (sv_at sha url_Parse a) m sv" and "\<And>e sv. safe sha url_Parse a E (hnd e) sv"
  shows "safe sha url_Parse a E (catch_io m hnd) sv"
  unfolding safe_def
proof (intro impI wp_catch)
  assume "sv_at sha url_Parse a sv"
  with assms(1) have "wp m (\<lambda>_. sv_at sha url_Parse a) (\<lambda>_. sv_at sha url_Parse a) (sv_disk sha url_Parse a) sv" by (simp add: safe_def)
  then show "wp m (\<lambda>_. sv_at sha url_Parse a) (\<lambda>e. wp (hnd e) (\<lambda>_. sv_at sha url_Parse a) (\<lambda>_. E) (sv_disk sha url_Parse a)) (sv_disk sha url_Parse a) sv"
    by (rule wp_mono) (use assms(2) in \<open>auto simp: safe_def\<close>)
qed

lemma wp_on_store:
  "wp m (\<lambda>x s. Q x (sv\<lparr> sv_store := s \<rparr>)) (\<lambda>e s. R e (sv\<lparr> sv_store := s \<rparr>)) (\<lambda>s. C (sv\<lparr> sv_store := s \<rparr>)) (sv_store sv) \<Longrightarrow> wp (on_store m) Q R C sv"
  by (fastforce simp: wp_def on_store_def split: prod.splits outcome.splits)

lemma safe_on_store:
  assumes "\<And>s. s = sv_store sv \<Longrightarrow> store_at sha url_Parse a Missing s \<Longrightarrow> keeps sha url_Parse a Missing m s"
  shows "safe sha url_Parse a (sv_at sha url_Parse a) (on_store m) sv"
  unfolding safe_def
proof (intro impI wp_on_store)
  assume "sv_at sha url_Parse a sv"
  with assms have "wp m (\<lambda>_. store_at sha url_Parse a Missing) (\<lambda>_. store_at sha url_Parse a Missing) (disk_at sha url_Parse a Missing) (sv_store sv)"
    by (simp add: sv_at_def keeps_def)
  then show "wp m (\<lambda>_ s. sv_at sha url_Parse a (sv\<lparr> sv_store := s \<rparr>)) (\<lambda>_ s. sv_at sha url_Parse a (sv\<lparr> sv_store := s \<rparr>))
    (\<lambda>s. sv_disk sha url_Parse a (sv\<lparr> sv_store := s \<rparr>)) (sv_store sv)"
    by (rule wp_mono) (simp_all add: sv_at_def sv_disk_def)
qed

lemma safe_defer:
  assumes "\<And>sv. sv_store (f sv) = sv_store sv" and "safe sha url_Parse a E m sv" and "\<And>sv. E sv \<Longrightarrow> E (f sv)"
  shows "safe sha url_Parse a E (defer_io f m) sv"
  using assms(2) unfolding safe_def wp_def
  by (fastforce simp: defer_io_def sv_at_def assms(1) intro: assms(3) split: prod.splits outcome.splits)

section \<open>Changing subscriptions\<close>

lemma Store_get_Some:
  assumes "sv_at sha url_Parse a sv" and "Store_get (sv_store sv) ident = Some r"
  obtains m where "map_of (ss_records (sv_store sv)) ident = Some m" "settings_ok url_Parse ident r"
    "pr_Hash r = pr_Hash m" "pr_CandidateHash r = pr_CandidateHash m"
    "pr_AppliedProfileHash r = pr_AppliedProfileHash m" "pr_AppliedCandidateHash r = pr_AppliedCandidateHash m"
proof -
  from assms(2) obtain m where m: "map_of (ss_records (sv_store sv)) ident = Some m"
    and r: "r = m\<lparr> pr_Active := (ss_activeID (sv_store sv) = ident) \<rparr>" by (auto simp: Store_get_def)
  have "settings_ok url_Parse ident m" using store_at_record(1) [OF assms(1) [unfolded sv_at_def] m] .
  then show thesis using that m r by (simp add: settings_ok_def)
qed

lemma safe_replace:
  assumes "Store_get (sv_store sv) ident = Some r" and "sub_ID s = ident" and "canonical url_Parse s"
    and "pr_LastFailure r' = pr_LastFailure r" and "pr_DownloadedOnly r' = pr_DownloadedOnly r"
    and "pr_Hash r' = pr_Hash r" and "pr_CandidateHash r' = pr_CandidateHash r"
    and "pr_AppliedProfileHash r' = pr_AppliedProfileHash r" and "pr_AppliedCandidateHash r' = pr_AppliedCandidateHash r"
    and "pr_Subscription r' = s"
  shows "safe sha url_Parse a (sv_at sha url_Parse a) (on_store (Store_replace r')) sv"
proof (rule safe_on_store)
  fix st assume st: "st = sv_store sv" "store_at sha url_Parse a Missing st"
  then have "sv_at sha url_Parse a sv" by (simp add: sv_at_def)
  then obtain m where m: "map_of (ss_records (sv_store sv)) ident = Some m" "settings_ok url_Parse ident r"
    "pr_Hash r = pr_Hash m" "pr_CandidateHash r = pr_CandidateHash m"
    "pr_AppliedProfileHash r = pr_AppliedProfileHash m" "pr_AppliedCandidateHash r = pr_AppliedCandidateHash m"
    using assms(1) by (rule Store_get_Some)
  have "settings_ok url_Parse ident r'" using m(2) assms by (simp add: settings_ok_canonical)
  then show "keeps sha url_Parse a Missing (Store_replace r') st"
    using st m assms by (intro keeps_replace [where m = m]) simp_all
qed

lemma wake_store [simp]: "sv_store (signalWake sv) = sv_store sv" "sv_store (notifyChange sv) = sv_store sv"
  "sv_store (cancelRefreshes ident sv) = sv_store sv" "sv_store (finishRefresh ident token sv) = sv_store sv"
  "sv_store (cancelIfSubscriptionChanges url_Parse ident s sv) = sv_store sv"
  by (simp_all add: signalWake_def notifyChange_def cancelRefreshes_def finishRefresh_def cancelIfSubscriptionChanges_def Let_def
      split: sum.split option.split)

lemma safe_memory [simp]:
  "safe sha url_Parse a E (modify_io signalWake) sv" "safe sha url_Parse a E (modify_io notifyChange) sv"
  "safe sha url_Parse a E (modify_io (cancelRefreshes ident)) sv"
  "safe sha url_Parse a E (modify_io (cancelIfSubscriptionChanges url_Parse' ident s)) sv"
  by (simp_all add: safe_modify)

lemma safe_wake_return: "safe sha url_Parse a E (then_io (modify_io signalWake) (return_io x)) sv"
  by (rule safe_then) simp_all

lemma safe_changeSubscription:
  assumes "\<And>s. canonical url_Parse s \<Longrightarrow> canonical url_Parse (f s) \<and> sub_ID (f s) = sub_ID s"
  shows "safe sha url_Parse a (sv_at sha url_Parse a) (changeSubscription url_Parse now ident f) sv"
  unfolding changeSubscription_def
proof (rule safe_read)
  assume at: "sv_at sha url_Parse a sv"
  show "safe sha url_Parse a (sv_at sha url_Parse a)
     (case Store_get (sv_store sv) ident of
         None \<Rightarrow> fail_io ErrNotFound
       | Some r \<Rightarrow>
           bind_io (if f (pr_Subscription r) \<noteq> pr_Subscription r
                    then let r' = r\<lparr> pr_Subscription := f (pr_Subscription r) \<rparr> in then_io (on_store (Store_replace r')) (return_io r')
                    else return_io r) (\<lambda>r'.
             then_io (modify_io signalWake) (return_io (publicEntry url_Parse now r')))) sv"
  proof (cases "Store_get (sv_store sv) ident")
    case (Some r)
    from at Some obtain m where "settings_ok url_Parse ident r" by (rule Store_get_Some)
    then have "canonical url_Parse (f (pr_Subscription r))" "sub_ID (f (pr_Subscription r)) = ident"
      using assms by (simp_all add: settings_ok_canonical)
    then have "safe sha url_Parse a (sv_at sha url_Parse a) (on_store (Store_replace (r\<lparr> pr_Subscription := f (pr_Subscription r) \<rparr>))) sv"
      by (intro safe_replace [OF Some]) simp_all
    then show ?thesis
      unfolding Some option.case Let_def
      by (intro safe_bind safe_wake_return) (simp add: safe_then)
  qed (auto intro: safe_fail)
qed

lemma safe_Rename: "safe sha url_Parse a (sv_at sha url_Parse a) (Service_Rename url_Parse now ident name) sv"
proof -
  have "safe sha url_Parse a (sv_at sha url_Parse a) (changeSubscription url_Parse now ident (\<lambda>s. s\<lparr> sub_Name := strings_TrimSpace name \<rparr>)) sv"
    if "strings_TrimSpace name \<noteq> ''''" "length (strings_TrimSpace name) \<le> 256"
    using that by (intro safe_changeSubscription) (simp add: canonical_changes TrimSpace_idem)
  then show ?thesis by (auto simp: Service_Rename_def Let_def intro: safe_fail)
qed

lemma safe_SetEnabled: "safe sha url_Parse a (sv_at sha url_Parse a) (Service_SetEnabled url_Parse now ident enabled) sv"
  unfolding Service_SetEnabled_def
  by (intro safe_then safe_changeSubscription) (simp_all add: canonical_changes)

lemma safe_Delete: "safe sha url_Parse a (sv_at sha url_Parse a) (Service_Delete ident) sv"
  unfolding Service_Delete_def
  by (rule safe_read) (simp add: safe_fail safe_then safe_on_store keeps_delete)

lemma safe_install:
  assumes "Store_get (sv_store sv) ident = Some r" and "canonical url_Parse n" and "sub_ID n = ident"
  shows "safe sha url_Parse a (sv_at sha url_Parse a) (on_store (Store_replace (installSubscription n r))) sv"
  by (rule safe_replace [OF assms(1,3,2)]) (simp_all add: installSubscription_def Let_def)

lemma safe_Update: "safe sha url_Parse a (sv_at sha url_Parse a) (Service_Update url_Parse now subscription) sv"
proof (cases "normalizeSubscription url_Parse subscription None")
  case (Inl err)
  then show ?thesis by (simp add: Service_Update_def safe_fail)
next
  case (Inr n)
  note n = normalize_canonical [OF Inr]
  let ?step = "\<lambda>r. if pr_Subscription r \<noteq> n
      then let r' = installSubscription n r in then_io (on_store (Store_replace r')) (return_io r') else return_io r"
  have step: "safe sha url_Parse a (sv_at sha url_Parse a)
      (bind_io (?step r) (\<lambda>r'. then_io (modify_io signalWake) (return_io (publicEntry url_Parse now r')))) g"
    if "Store_get (sv_store g) (sub_ID n) = Some r" for r g
    using safe_install [OF that n refl, of sha a] unfolding Let_def
    by (intro safe_bind safe_wake_return) (simp add: safe_then)
  show ?thesis
    unfolding Service_Update_def Inr sum.case Let_def
  proof (rule safe_read)
    show "safe sha url_Parse a (sv_at sha url_Parse a)
      (case Store_get (sv_store sv) (sub_ID n) of
        None \<Rightarrow> fail_io ErrNotFound
      | Some r \<Rightarrow>
          then_io (if sub_URL (pr_Subscription r) \<noteq> sub_URL n then modify_io (cancelRefreshes (sub_ID n)) else return_io ())
            (bind_io (if pr_Subscription r \<noteq> n then then_io (on_store (Store_replace (installSubscription n r))) (return_io (installSubscription n r))
               else return_io r) (\<lambda>r'. then_io (modify_io signalWake) (return_io (publicEntry url_Parse now r'))))) sv"
      (is "safe _ _ _ _ (case _ of None \<Rightarrow> _ | Some r \<Rightarrow> then_io _ (?rest r)) _")
    proof (cases "Store_get (sv_store sv) (sub_ID n)")
      case (Some r)
      have rest: "safe sha url_Parse a (sv_at sha url_Parse a) (?rest r) g" if "sv_store g = sv_store sv" for g
        using step [unfolded Let_def, of g r] Some that by simp
      show ?thesis
        unfolding Some option.case
        by (rule safe_when_then) (simp_all add: rest)
    qed (simp add: safe_fail)
  qed
qed

section \<open>Refreshing\<close>

text \<open>From here on an error may leave memory behind the disk, when the withdrawal of a promotion cannot be written.\<close>

abbreviation refreshes ::
  "(bytes \<Rightarrow> string) \<Rightarrow> url_parser \<Rightarrow> activeMarker json_file \<Rightarrow> ('w Service, 'a) io \<Rightarrow> 'w Service \<Rightarrow> bool" where
  "refreshes sha url_Parse a \<equiv> safe sha url_Parse a (sv_disk sha url_Parse a)"

lemma refreshes_fail [simp]: "refreshes sha url_Parse a (fail_io e) sv"
  by (rule safe_fail) (rule sv_disk_at)

lemma refreshes_check_then: "refreshes sha url_Parse a n sv \<Longrightarrow> refreshes sha url_Parse a (then_io (check_io r) n) sv"
  by (auto simp: safe_def sv_disk_at intro!: wp_then split: option.split)

lemma refreshes_fail_then: "refreshes sha url_Parse a (then_io (fail_io e) n) sv"
  by (auto simp: safe_def sv_disk_at intro!: wp_then)

lemma safe_on_keeps:
  assumes "\<And>s. store_at sha url_Parse a Missing s \<Longrightarrow> keeps sha url_Parse a Missing m s"
  shows "refreshes sha url_Parse a (on_store m) sv"
  by (rule safe_mono, rule safe_on_store) (rule assms)

lemma safe_recordFailure: "refreshes sha url_Parse a (recordFailure ident checkedAt failure msg) sv"
  unfolding recordFailure_def
  by (cases "failure = ctx_Canceled") (auto intro!: safe_bind safe_then safe_on_keeps keeps_touchFailure)

lemma safe_recordContextFailure: "refreshes sha url_Parse a (recordContextFailure env k ident) sv"
  unfolding recordContextFailure_def by (auto split: option.split intro!: safe_then safe_recordFailure)

lemma safe_failRefresh: "refreshes sha url_Parse a (failRefresh env ident failure result) sv"
  unfolding failRefresh_def by (intro safe_then safe_recordFailure) simp

lemma safe_unchangedProfile: "refreshes sha url_Parse a (unchangedProfile env ident r etag lastModified usage hash) sv"
  unfolding unchangedProfile_def Service_touch_def
  by (intro safe_then safe_bind safe_on_keeps keeps_touchSuccess) simp_all

lemma safe_fetchFailed: "refreshes sha url_Parse a (fetchFailed env ident err) sv"
  unfolding fetchFailed_def
  by (intro safe_then safe_recordContextFailure) (auto split: option.split intro!: safe_then safe_recordFailure safe_failRefresh)

lemma safe_commitProfile:
  assumes "sha_ok sha" and "int (length profile) \<le> maxProfileBytes" and "int (length candidate) \<le> maxCandidateBytes"
    and "downloadedOnly \<Longrightarrow> candidate = profile"
  shows "refreshes sha url_Parse a (commitProfile sha url_Parse env ident r report profile candidate etag lastModified usage downloadedOnly) sv"
proof -
  let ?at = "store_at sha url_Parse a Missing"
  let ?promoted = "\<lambda>previous s. ?at s \<and> settings_ok url_Parse ident previous \<and> generation_ok sha (files_of s ident) previous
       \<and> (\<exists>r. map_of (ss_records s) ident = Some r \<and> pr_AppliedProfileHash previous = pr_AppliedProfileHash r
            \<and> pr_AppliedCandidateHash previous = pr_AppliedCandidateHash r)"
  have hash: "hash_ok (sha profile)" using assms(1) by (simp add: sha_ok_def hash_ok_def)
  have promote: "wp (catch_io (on_store (Store_promote sha ident profile candidate (re_now env) etag lastModified usage downloadedOnly))
      (\<lambda>_. fail_io (report ErrStore))) (\<lambda>previous g. ?promoted previous (sv_store g)) (\<lambda>_. sv_disk sha url_Parse a) (sv_disk sha url_Parse a) sv"
    if "sv_at sha url_Parse a sv"
    by (rule wp_catch, rule wp_on_store, rule wp_mono [OF wp_Store_promote [OF that [unfolded sv_at_def] assms]])
      (simp_all add: sv_disk_def disk_at_store)
  have rollback: "wp (then_io (catch_io (on_store (rollbackPromotion ident previous (sha profile) (sha candidate)))
      (\<lambda>_. fail_io (Joined_Errors (report ErrSourceChanged) ErrStore))) (fail_io (report ErrSourceChanged)))
      (\<lambda>_. sv_at sha url_Parse a) (\<lambda>_. sv_disk sha url_Parse a) (sv_disk sha url_Parse a) g"
    if "?promoted previous (sv_store g)" for previous g
  proof -
    from that obtain m where m: "?at (sv_store g)" "map_of (ss_records (sv_store g)) ident = Some m" "settings_ok url_Parse ident previous"
      "generation_ok sha (files_of (sv_store g) ident) previous" "pr_AppliedProfileHash previous = pr_AppliedProfileHash m"
      "pr_AppliedCandidateHash previous = pr_AppliedCandidateHash m" by blast
    show ?thesis
      by (rule wp_then, rule wp_catch, rule wp_on_store, rule wp_mono [OF wp_rollbackPromotion [OF m hash]])
        (simp_all add: sv_disk_def disk_at_store)
  qed
  have finish: "wp (then_io (on_store (finalizePromotion ident)) (then_io (modify_io notifyChange) (then_io (modify_io signalWake) (return_io result))))
      (\<lambda>_. sv_at sha url_Parse a) (\<lambda>_. sv_disk sha url_Parse a) (sv_disk sha url_Parse a) g"
    if "?promoted previous (sv_store g)" for previous g and result :: Result
  proof -
    have "refreshes sha url_Parse a (then_io (on_store (finalizePromotion ident)) (then_io (modify_io notifyChange) (then_io (modify_io signalWake) (return_io result)))) g"
      by (intro safe_then safe_on_keeps keeps_finalizePromotion) simp_all
    with that show ?thesis by (simp add: safe_def sv_at_def)
  qed
  show ?thesis
  proof (cases "sourceIsCurrent url_Parse env 2 (pr_Subscription r)")
    case True
    show ?thesis
      unfolding safe_def commitProfile_def
      using True by (auto intro!: wp_bind wp_mono [OF promote] simp: rollback finish)
  qed (simp add: commitProfile_def)
qed

lemma maxProfile_maxCandidate: "x \<le> maxProfileBytes \<Longrightarrow> x \<le> maxCandidateBytes"
  by (simp add: maxProfileBytes_def maxCandidateBytes_def)

lemma safe_installProfile:
  assumes "sha_ok sha" and "int (length (rs_Body response)) \<le> maxProfileBytes"
  shows "refreshes sha url_Parse a (installProfile sha url_Parse env ident r downloadOnly response etag lastModified) sv"
proof -
  have raw: "refreshes sha url_Parse a (commitProfile sha url_Parse env ident r (\<lambda>err. err) (rs_Body response) (rs_Body response) etag lastModified usage True) sv"
    for usage sv by (rule safe_commitProfile) (simp_all add: assms maxProfile_maxCandidate)
  have rendered: "refreshes sha url_Parse a (commitProfile sha url_Parse env ident r report (rs_Body response) candidate etag lastModified usage False) sv"
    if "int (length candidate) \<le> maxCandidateBytes" for report usage candidate sv
    by (rule safe_commitProfile) (simp_all add: assms that)
  show ?thesis
    unfolding installProfile_def Let_def
    by (auto simp: not_less raw rendered safe_unchangedProfile safe_failRefresh split: option.split
        intro!: safe_then safe_recordContextFailure)
qed

lemma Store_Profile_size:
  assumes "Store_Profile sha s ident = Inr profile"
  shows "int (length profile) \<le> maxProfileBytes"
  using assms by (auto simp: Store_Profile_def readPairProfile_def readGenerationFiles_def readPrivateFile_def split: option.splits if_splits)

lemma safe_processResponse:
  assumes "sha_ok sha" and "int (length (rs_Body response)) \<le> maxProfileBytes"
  shows "refreshes sha url_Parse a (processResponse sha url_Parse env ident r downloadOnly response) sv"
proof -
  have stored: "refreshes sha url_Parse a
      (bind_io (read_io (\<lambda>sv. Store_Profile sha (sv_store sv) ident)) (\<lambda>stored.
            case stored of
              Inl _ \<Rightarrow> fail_io ErrStore
            | Inr profile \<Rightarrow>
                installProfile sha url_Parse env ident r downloadOnly (response\<lparr> rs_Body := profile, rs_StatusCode := 200 \<rparr>) etag lastModified)) sv"
    for etag lastModified sv
    by (rule safe_read) (auto split: sum.split dest: Store_Profile_size intro!: safe_installProfile assms(1))
  show ?thesis
    unfolding processResponse_def Let_def
    by (rule safe_then [OF safe_recordContextFailure])
      (intro safe_if stored safe_failRefresh safe_unchangedProfile safe_installProfile assms)
qed

definition known :: "string \<Rightarrow> 'w Service \<Rightarrow> bool" where
  "known ident sv \<longleftrightarrow> map_of (ss_records (sv_store sv)) ident \<noteq> None"

lemma safe_installLatestLocked:
  assumes "known (sub_ID n) sv" and "canonical url_Parse n"
  shows "refreshes sha url_Parse a (installLatestLocked n) sv"
  unfolding installLatestLocked_def
proof (rule safe_read)
  from assms(1) obtain r where r: "Store_get (sv_store sv) (sub_ID n) = Some r" by (auto simp: known_def Store_get_def)
  have "refreshes sha url_Parse a (on_store (Store_replace (installSubscription n r))) sv"
    by (rule safe_mono, rule safe_install [OF r assms(2) refl])
  then show "refreshes sha url_Parse a (case Store_get (sv_store sv) (sub_ID n) of
      None \<Rightarrow> then_io (on_store (Store_add (newRecord n))) (modify_io signalWake)
    | Some r \<Rightarrow> if pr_Subscription r = n then return_io ()
        else then_io (on_store (Store_replace (installSubscription n r))) (modify_io signalWake)) sv"
    by (simp add: r safe_then)
qed

lemma normalize_validID:
  assumes "normalizeSubscription url_Parse s None = Inr n" and "validID (sub_ID s)"
  shows "sub_ID n = sub_ID s"
proof -
  have "sub_ID n = strings_TrimSpace (sub_ID s)"
    using assms(1) by (simp only: normalizeSubscription_def Let_def if_Inl_Inr sum.inject) (clarify, simp)
  with TrimSpace_validID [OF assms(2)] show ?thesis by simp
qed

lemma latestSubscription_Some:
  assumes "latestSubscription url_Parse env ident supplied = Inr (Some n)" and "validID ident"
  shows "sub_ID n = ident" and "canonical url_Parse n"
proof -
  from assms(1) obtain s where s: "sub_ID s = ident" "normalizeSubscription url_Parse s None = Inr n"
    by (auto simp: latestSubscription_def split: option.splits if_splits sum.splits)
  show "canonical url_Parse n" using normalize_canonical [OF s(2)] .
  show "sub_ID n = ident" using normalize_validID [OF s(2)] s(1) assms(2) by simp
qed

lemma fetchResponse_size:
  assumes "fetchResponse env r = Inr response"
  shows "int (length (rs_Body response)) \<le> re_MaxBytes env"
proof -
  obtain sent where "Fetch (re_transport env (sub_Route (pr_Subscription r)) (sub_AllowInvalidTLS (pr_Subscription r))) False
      (\<lambda>route. re_routed env route (sub_AllowInvalidTLS (pr_Subscription r))) (re_fetchCtx env) (fetchRequest env r) = (Inr response, sent)"
    using assms by (auto simp: fetchResponse_def Let_def) (metis prod.collapse)
  from Fetch_body(1) [OF this] show ?thesis by (simp add: fetchRequest_def)
qed

lemma safe_refreshLocked:
  assumes "sha_ok sha" and "re_MaxBytes env \<le> maxProfileBytes" and "known ident sv" and "validID ident"
  shows "refreshes sha url_Parse a (refreshLocked sha url_Parse env ident supplied downloadOnly) sv"
proof -
  have fetched: "refreshes sha url_Parse a
      (bind_io (read_io (\<lambda>sv. Store_get (sv_store sv) ident)) (\<lambda>old.
              case old of
                None \<Rightarrow> fail_io ErrNotFound
              | Some r \<Rightarrow>
                  then_io (check_io (safeContextError (re_ctxErr env 1)))
                    (case fetchResponse env r of
                       Inl err \<Rightarrow> fetchFailed env ident err
                     | Inr response \<Rightarrow> processResponse sha url_Parse env ident r downloadOnly response))) g" for g
    by (rule safe_read) (auto split: option.split sum.split dest!: fetchResponse_size
        intro!: refreshes_check_then safe_fetchFailed safe_processResponse assms(1) order_trans [OF _ assms(2)])
  show ?thesis
    unfolding refreshLocked_def
  proof (rule refreshes_check_then)
    show "refreshes sha url_Parse a
      (case latestSubscription url_Parse env ident supplied of
          Inl err \<Rightarrow> fail_io err
        | Inr latest \<Rightarrow>
            then_io (case latest of None \<Rightarrow> return_io () | Some s \<Rightarrow> installLatestLocked s)
           (bind_io (read_io (\<lambda>sv. Store_get (sv_store sv) ident)) (\<lambda>old.
              case old of
                None \<Rightarrow> fail_io ErrNotFound
              | Some r \<Rightarrow>
                  then_io (check_io (safeContextError (re_ctxErr env 1)))
                    (case fetchResponse env r of
                       Inl err \<Rightarrow> fetchFailed env ident err
                     | Inr response \<Rightarrow> processResponse sha url_Parse env ident r downloadOnly response)))) sv"
    proof (cases "latestSubscription url_Parse env ident supplied")
      case (Inr latest)
      have "refreshes sha url_Parse a (case latest of None \<Rightarrow> return_io () | Some s \<Rightarrow> installLatestLocked s) sv"
        using latestSubscription_Some [of url_Parse env ident supplied] Inr assms(3,4)
        by (auto split: option.split intro!: safe_installLatestLocked)
      then show ?thesis unfolding Inr sum.case by (rule safe_then) (rule fetched)
    qed simp
  qed
qed

lemma safe_refreshSubscription:
  assumes "sha_ok sha" and "re_MaxBytes env \<le> maxProfileBytes" and "known ident sv"
  shows "refreshes sha url_Parse a (refreshSubscription sha url_Parse env ident supplied downloadOnly) sv"
proof (cases "validID ident")
  case True
  have "refreshes sha url_Parse a (bind_io (registerRefresh ident)
      (\<lambda>token. defer_io (finishRefresh ident token) (refreshLocked sha url_Parse env ident supplied downloadOnly))) sv"
    unfolding registerRefresh_def safe_def
  proof (intro impI wp_bind, simp, intro wp_then, simp)
    let ?token = "(sv_nextRefresh sv + 1) mod 18446744073709551616"
    let ?sv = "sv\<lparr> sv_nextRefresh := ?token, sv_refreshes := AList.update ident (tokensOf sv ident @ [?token]) (sv_refreshes sv) \<rparr>"
    assume "sv_at sha url_Parse a sv"
    then have at: "sv_at sha url_Parse a ?sv" by (simp add: sv_at_def)
    have "refreshes sha url_Parse a (defer_io (finishRefresh ident ?token) (refreshLocked sha url_Parse env ident supplied downloadOnly)) ?sv"
      by (rule safe_defer, simp, rule safe_refreshLocked) (use assms True in \<open>simp_all add: known_def sv_disk_def\<close>)
    with at show "wp (defer_io (finishRefresh ident ?token) (refreshLocked sha url_Parse env ident supplied downloadOnly))
      (\<lambda>_. sv_at sha url_Parse a) (\<lambda>_. sv_disk sha url_Parse a) (sv_disk sha url_Parse a) ?sv" by (simp add: safe_def)
  qed
  then show ?thesis using True by (simp add: refreshSubscription_def)
qed (simp add: refreshSubscription_def)

lemma safe_refreshLatest:
  assumes "sha_ok sha" and "re_MaxBytes env \<le> maxProfileBytes" and "known ident sv"
  shows "refreshes sha url_Parse a (refreshLatest sha url_Parse env ident downloadOnly) sv"
proof -
  have sub: "refreshes sha url_Parse a (refreshSubscription sha url_Parse env ident None downloadOnly) g" if "sv_store g = sv_store sv" for g
    by (rule safe_refreshSubscription) (use assms that in \<open>simp_all add: known_def\<close>)
  have canceled: "refreshes sha url_Parse a (then_io (modify_io (cancelIfSubscriptionChanges url_Parse ident x))
      (refreshSubscription sha url_Parse env ident None downloadOnly)) sv" for x
    by (rule safe_modify_then) (simp_all add: sub)
  have returning: "refreshes sha url_Parse a (then_io (return_io ()) (refreshSubscription sha url_Parse env ident None downloadOnly)) sv"
    using sub [of sv] by (auto simp: safe_def intro!: wp_then)
  show ?thesis
    unfolding refreshLatest_def
    by (simp add: refreshes_fail_then returning canceled split: option.split)
qed

lemma safe_RefreshWith:
  assumes "sha_ok sha" and "re_MaxBytes env \<le> maxProfileBytes" and "known (sub_ID s) sv"
  shows "refreshes sha url_Parse a (RefreshWith sha url_Parse env s) sv"
  unfolding RefreshWith_def
  by (rule safe_modify_then, simp, rule safe_refreshSubscription) (use assms in \<open>simp_all add: known_def\<close>)

section \<open>Every operation survives\<close>

datatype service_op =
    Op_Update Subscription
  | Op_Rename string string
  | Op_SetEnabled string bool
  | Op_Delete string
  | Op_Refresh refresh_env string bool
  | Op_RefreshWith refresh_env Subscription

definition discard :: "('s, 'a) io \<Rightarrow> ('s, unit) io" where
  "discard m = bind_io m (\<lambda>_. return_io ())"

fun perform :: "(bytes \<Rightarrow> string) \<Rightarrow> url_parser \<Rightarrow> gotime \<Rightarrow> service_op \<Rightarrow> ('w Service, unit) io" where
  "perform sha url_Parse now (Op_Update s) = discard (Service_Update url_Parse now s)"
| "perform sha url_Parse now (Op_Rename ident name) = discard (Service_Rename url_Parse now ident name)"
| "perform sha url_Parse now (Op_SetEnabled ident b) = discard (Service_SetEnabled url_Parse now ident b)"
| "perform sha url_Parse now (Op_Delete ident) = Service_Delete ident"
| "perform sha url_Parse now (Op_Refresh env ident downloadOnly) = discard (refreshLatest sha url_Parse env ident downloadOnly)"
| "perform sha url_Parse now (Op_RefreshWith env s) = discard (RefreshWith sha url_Parse env s)"

text \<open>The limit is the one \<open>NewService\<close> accepts, and a refresh does not add its subscription.\<close>

fun op_pre :: "service_op \<Rightarrow> 'w Service \<Rightarrow> bool" where
  "op_pre (Op_Refresh env ident _) sv \<longleftrightarrow> serviceMaxBytes (re_MaxBytes env) = Inr (re_MaxBytes env) \<and> known ident sv"
| "op_pre (Op_RefreshWith env s) sv \<longleftrightarrow> serviceMaxBytes (re_MaxBytes env) = Inr (re_MaxBytes env) \<and> known (sub_ID s) sv"
| "op_pre _ sv \<longleftrightarrow> True"

lemma refreshes_discard: "refreshes sha url_Parse a m sv \<Longrightarrow> refreshes sha url_Parse a (discard m) sv"
  unfolding discard_def by (rule safe_bind) simp_all

lemma serviceMaxBytes_limit: "serviceMaxBytes n = Inr n \<Longrightarrow> n \<le> maxProfileBytes"
  by (auto simp: serviceMaxBytes_def Let_def split: if_splits)

lemma refreshes_perform:
  assumes "sha_ok sha" and "op_pre op sv"
  shows "refreshes sha url_Parse a (perform sha url_Parse now op) sv"
proof (cases op)
  case (Op_Refresh env ident b)
  then show ?thesis
    using assms serviceMaxBytes_limit by (auto intro!: refreshes_discard safe_refreshLatest)
next
  case (Op_RefreshWith env s)
  then show ?thesis
    using assms serviceMaxBytes_limit by (auto intro!: refreshes_discard safe_RefreshWith)
qed (auto intro!: refreshes_discard intro: safe_mono safe_Update safe_Rename safe_SetEnabled safe_Delete)

lemma store_at_active:
  assumes "store_at sha url_Parse a p s"
  shows "appliedIdentity s = (case a of Json m \<Rightarrow> (am_ID m, am_ProfileHash m, am_CandidateHash m) | _ \<Rightarrow> ('''', '''', ''''))"
    and "ss_activeID s \<noteq> '''' \<Longrightarrow> \<exists>profile. ActiveProfile sha s = Inr (ss_activeID s, profile) \<and> sha profile = ss_activeProfileHash s"
proof -
  have id: "appliedIdentity s = marked s" and act: "ss_active s = a" and disk: "disk_ok sha url_Parse s"
    using assms by (simp_all add: store_at_def store_ok_def mem_ok_def)
  then show "appliedIdentity s = (case a of Json m \<Rightarrow> (am_ID m, am_ProfileHash m, am_CandidateHash m) | _ \<Rightarrow> ('''', '''', ''''))"
    by (simp add: marked_def)
  assume ne: "ss_activeID s \<noteq> ''''"
  with id act obtain m where m: "ss_active s = Json m" "am_ID m = ss_activeID s" "am_ProfileHash m = ss_activeProfileHash s"
    "am_CandidateHash m = ss_activeCandidateHash s"
    by (auto simp: marked_def appliedIdentity_def split: json_file.splits)
  with disk ne have d: "map_of (ss_dirs s) (ss_activeID s) \<noteq> None"
    and pair: "pair_ok sha (files_of s (ss_activeID s)) (ss_activeProfileHash s) (ss_activeCandidateHash s)"
    by (auto simp: disk_ok_def marker_ok_def)
  from disk_record [OF disk d] have "validID (ss_activeID s)" by (metis settings_ok_validID)
  with pair have "verifyPair sha s (ss_activeID s) (ss_activeProfileHash s) (ss_activeCandidateHash s) = None" by (simp add: verifyPair_None)
  then obtain profile where "readPairProfile sha s (ss_activeID s) (ss_activeProfileHash s) (ss_activeCandidateHash s) = Inr profile"
    by (auto simp: verifyPair_def split: sum.splits)
  moreover from this have "sha profile = ss_activeProfileHash s"
    by (auto simp: readPairProfile_def generationMatches_def split: if_splits option.splits)
  ultimately show "\<exists>profile. ActiveProfile sha s = Inr (ss_activeID s, profile) \<and> sha profile = ss_activeProfileHash s"
    using ne by (simp add: ActiveProfile_def)
qed

lemma restart_same_active:
  assumes "disk_at sha url_Parse a Missing s"
  shows "\<exists>g. restart sha url_Parse commitID [] s = (Ret (), [], g) \<and> store_at sha url_Parse a Missing g"
proof -
  have "runs (restart sha url_Parse commitID) (\<lambda>_ g. store_at sha url_Parse a Missing g) s"
    using runs_restart [of sha url_Parse s commitID] assms by (simp add: disk_at_def pending_ok_def recoveredMarker_def)
  then show ?thesis by (auto simp: runs_def)
qed


section \<open>A concrete service\<close>

text \<open>One active subscription; its refresh downloads a new profile.\<close>

definition exSubSha :: "bytes \<Rightarrow> string" where
  "exSubSha body = replicate 64 (if body = ''new'' then CHR ''a'' else CHR ''b'')"

definition exParse :: url_parser where
  "exParse t = Some (exURL (drop 8 t))"

definition exSub :: Subscription where
  "exSub = \<lparr> sub_ID = ''home'', sub_Name = ''Home'', sub_URL = ''https://a'', sub_UserAgent = '''', sub_Enabled = True, sub_RefreshInterval = 1,
     sub_Timeout = 1, sub_Route = ''direct'', sub_AllowHTTP = False, sub_AllowInvalidTLS = False \<rparr>"

definition exRecord :: privateRecord where
  "exRecord = (newRecord exSub)\<lparr> pr_Hash := exSubSha ''old'', pr_CandidateHash := exSubSha ''old'', pr_AppliedHash := exSubSha ''old'',
     pr_AppliedProfileHash := exSubSha ''old'', pr_AppliedCandidateHash := exSubSha ''old'', pr_Active := True \<rparr>"

definition exStore :: subStore where
  "exStore = \<lparr> ss_dirs = [(''home'', \<lparr> sd_record = Json (unapply exRecord),
       sd_files = [(profileFilename (exSubSha ''old''), ''old''), (candidateFilename (exSubSha ''old'') (exSubSha ''old''), ''old'')] \<rparr>)],
     ss_active = Json \<lparr> am_ID = ''home'', am_ProfileHash = exSubSha ''old'', am_CandidateHash = exSubSha ''old'' \<rparr>,
     ss_pending = Missing, ss_quarantine = [], ss_records = [(''home'', exRecord)], ss_activeID = ''home'',
     ss_activeProfileHash = exSubSha ''old'', ss_activeCandidateHash = exSubSha ''old'' \<rparr>"

definition exService :: "unit Service" where
  "exService = \<lparr> sv_store = exStore, sv_wake = False, sv_refreshes = [], sv_nextRefresh = 0, sv_cancelled = [], sv_onChange = True,
     sv_notified = 0, sv_runtime = () \<rparr>"

definition exRefresh :: refresh_env where
  "exRefresh = \<lparr> re_hasCurrent = False, re_Current = (\<lambda>_ _. None), re_ctxErr = (\<lambda>_. None),
     re_transport = (\<lambda>_ _. exTransport\<lparr> tr_net := (\<lambda>_. Some \<lparr> hr_StatusCode = 200, hr_Location = '''', hr_ETag = ''x'', hr_LastModified = '''', hr_Userinfo = '''',
       hr_Reads = [(''new'', EOF)] \<rparr>) \<rparr>),
     re_routed = (\<lambda>_ _. None), re_fetchCtx = (\<lambda>_. None), re_Unmarshal = (\<lambda>_. Some (Some [(''proxies'', YList 1)])), re_Render = Some, re_Validate = (\<lambda>_. True),
     re_now = 5, re_MaxBytes = 1024, re_CaptureErrorBody = False \<rparr>"

lemma exSubSha_ok: "sha_ok exSubSha"
  by (auto simp: sha_ok_def exSubSha_def hex_DecodeString_ok_def list_all_iff is_hex_def is_digit_def less_eq_char_def)

lemma exSettings: "settings_ok exParse ''home'' exRecord" "canonical exParse exSub"
  by code_simp+

lemma exStore_ok: "store_ok exSubSha exParse exStore"
proof -
  have h: "hash_ok (exSubSha body)" for body using exSubSha_ok by (simp add: sha_ok_def hash_ok_def)
  have pair: "pair_ok exSubSha (files_of exStore ''home'') (exSubSha ''old'') (exSubSha ''old'')"
    using h by (simp add: pair_ok_def exStore_def dirOf_def maxProfileBytes_def maxCandidateBytes_def profileFilename_def candidateFilename_def)
  have hashes: "pr_Hash exRecord = exSubSha ''old''" "pr_CandidateHash exRecord = exSubSha ''old''"
    "pr_AppliedProfileHash exRecord = exSubSha ''old''" "pr_AppliedCandidateHash exRecord = exSubSha ''old''"
    by (simp_all add: exRecord_def)
  have "disk_ok exSubSha exParse exStore"
    using pair exSettings(1) hashes by (auto simp: disk_ok_def marker_ok_def generation_ok_def exStore_def dirOf_def)
  moreover have "mem_ok exParse exStore"
    using exSettings(1) hashes by (auto simp: mem_ok_def mem_record_ok_def exStore_def dirOf_def appliedIdentity_def marked_def)
  ultimately show ?thesis by (simp add: store_ok_def)
qed

abbreviation exRun :: "fault list \<Rightarrow> unit outcome \<times> fault list \<times> unit Service" where
  "exRun faults \<equiv> perform exSubSha exParse 5 (Op_Refresh exRefresh ''home'' False) faults exService"


end
