(* ===== verification/Resources_Manifest.thy ===== *)
theory Resources_Manifest
  imports Resources_Validate Go_IO
begin

text \<open>
  The manifest of the managed resources and the files it describes (\<open>src/resources/registry.go\<close>).

  \<open>Home\<close> is the managed directory: its regular and irregular entries, the directories in it, and the two
  JSON files the package writes, the manifest and the transaction journal. Each of these is absent,
  unsafe (a symbolic link or not a regular file), not decodable, or the document it decodes to; a document
  whose map of resources is null counts as not decodable. The package uses files in the directory and in
  its subdirectories, so a path is one of the two constructors of \<open>path\<close> and the checks that a path lies
  in its parent directory hold by construction. A resource map is an association list whose order stands
  for the iteration order of the Go map.

  The parameter \<open>ext\<close> holds the digest, the YAML decoder and \<open>regexp.Compile\<close>. The limit on the size of an
  encoded document is one of the failures of writing it. Temporary files of atomic writes are not part of
  the state: their names are never those of managed files.
\<close>

section \<open>Documents\<close>

record resourceState =
  st_SHA256 :: string
  st_SourceHash :: string
  st_ETag :: string
  st_LastModified :: string
  st_Kind :: ResourceKind
  st_Format :: ResourceFormat
  st_RuleType :: RuleType
  st_LastCheckedUnix :: int
  st_LastSuccessUnix :: int

record stateDocument =
  doc_Version :: int
  doc_Generation :: string
  doc_CommitID :: string
  doc_Resources :: "(string \<times> resourceState) list"

record transactionFile =
  tf_Name :: string
  tf_Backup :: string
  tf_HadPrevious :: bool
  tf_PreviousSHA256 :: string
  tf_CandidateSHA256 :: string

record transactionJournal =
  tj_Version :: int
  tj_Phase :: string
  tj_BackupDir :: string
  tj_MaxBytes :: int
  tj_Previous :: stateDocument
  tj_Candidate :: stateDocument
  tj_MetadataOnly :: bool
  tj_Files :: "transactionFile list"

record externals =
  x_sha256 :: "bytes \<Rightarrow> string"
  x_yaml :: "string \<Rightarrow> yaml_result"
  x_regexp :: "string \<Rightarrow> bool"

definition digest :: "externals \<Rightarrow> bytes \<Rightarrow> string" where
  "digest ext data = x_sha256 ext data"

definition sameResourceState :: "resourceState \<Rightarrow> resourceState \<Rightarrow> bool" where
  "sameResourceState left right \<longleftrightarrow>
     st_Kind left = st_Kind right \<and> st_Format left = st_Format right \<and> st_RuleType left = st_RuleType right"

definition filename :: "externals \<Rightarrow> Resource \<Rightarrow> string" where
  "filename ext r =
     (if rs_Kind r = ResourceGeoIP then ''geoip.dat''
      else if rs_Kind r = ResourceGeoSite then ''geosite.dat''
      else if rs_Kind r = ResourceMMDB then ''Country.mmdb''
      else ManagedFilename (x_sha256 ext) r)"

text \<open>The resource a manifest entry declares.\<close>

definition declared :: "string \<Rightarrow> resourceState \<Rightarrow> Resource" where
  "declared ident state =
     \<lparr> rs_ID = ident, rs_Kind = st_Kind state, rs_Format = st_Format state, rs_RuleType = st_RuleType state,
       rs_URL = '''', rs_Enabled = True, rs_Interval = 0, rs_SHA256 = '''' \<rparr>"

definition resourceFilename :: "externals \<Rightarrow> string \<Rightarrow> resourceState \<Rightarrow> string" where
  "resourceFilename ext ident state = filename ext (declared ident state)"

text \<open>The map from file names to identifiers.\<close>

fun manifestNamesFrom :: "externals \<Rightarrow> (string \<times> string) list \<Rightarrow> (string \<times> resourceState) list \<Rightarrow> go_error + (string \<times> string) list" where
  "manifestNamesFrom ext result [] = Inr result"
| "manifestNamesFrom ext result ((ident, state) # rest) =
     (let name = filename ext (declared ident state) in
      case ValidateDeclaration (declared ident state) of
        Some err \<Rightarrow> Inl (Wrapf ''resources: invalid manifest resource: %w'' [] err)
      | None \<Rightarrow>
          if map_of result name \<noteq> None then Inl (Errorf ''resources: duplicate manifest destination'' [])
          else manifestNamesFrom ext (result @ [(name, ident)]) rest)"

definition manifestNames :: "externals \<Rightarrow> stateDocument \<Rightarrow> go_error + (string \<times> string) list" where
  "manifestNames ext document = manifestNamesFrom ext [] (doc_Resources document)"

definition validGeneration :: "string \<Rightarrow> bool" where
  "validGeneration value \<longleftrightarrow>
     strings_HasPrefix value ''gen-'' \<and> length value = 36 \<and> hex_DecodeString_ok (strings_TrimPrefix value ''gen-'')"

definition validateEntry :: "string \<times> resourceState \<Rightarrow> go_error option" where
  "validateEntry entry = (case entry of (ident, state) \<Rightarrow> first_error
     [fail_if (\<not> ValidStableID ident \<or> length (st_SHA256 state) \<noteq> 64
               \<or> (st_SourceHash state \<noteq> '''' \<and> length (st_SourceHash state) \<noteq> 64)
               \<or> length (st_ETag state) > 4096 \<or> length (st_LastModified state) > 4096)
        (Errorf ''resources: invalid metadata entry'' []),
      fail_if (\<not> hex_DecodeString_ok (st_SHA256 state)) (Errorf ''resources: invalid metadata hash'' []),
      fail_if (st_SourceHash state \<noteq> '''' \<and> \<not> hex_DecodeString_ok (st_SourceHash state))
        (Errorf ''resources: invalid source identity'' []),
      wrap_error ''resources: invalid metadata declaration: %w'' [] (ValidateDeclaration (declared ident state))])"

definition validateStateDocument :: "externals \<Rightarrow> stateDocument \<Rightarrow> go_error option" where
  "validateStateDocument ext document = first_error
     ([fail_if (doc_Version document \<noteq> 1 \<and> doc_Version document \<noteq> 2) (Errorf ''resources: unsupported metadata version'' []),
       fail_if (doc_Version document = 1 \<and> doc_Generation document \<noteq> '''' \<and> \<not> validGeneration (doc_Generation document))
         (Errorf ''resources: invalid legacy generation'' []),
       fail_if (doc_Version document = 2 \<and> doc_Generation document \<noteq> '''')
         (Errorf ''resources: v2 metadata cannot reference a generation'' []),
       fail_if (doc_Version document = 2 \<and> doc_Resources document \<noteq> [] \<and> doc_CommitID document = '''')
         (Errorf ''resources: committed metadata has no identity'' []),
       fail_if (doc_CommitID document \<noteq> '''' \<and> (length (doc_CommitID document) \<noteq> 32 \<or> \<not> hex_DecodeString_ok (doc_CommitID document)))
         (Errorf ''resources: invalid metadata commit identity'' [])]
      @ map validateEntry (doc_Resources document)
      @ [case manifestNames ext document of Inl err \<Rightarrow> Some err | Inr _ \<Rightarrow> None])"

section \<open>The managed directory\<close>

datatype path = InHome string | InDir string string

datatype node = Regular bytes | Irregular

datatype 'a doc_file = Absent | Unsafe | Garbage | Doc 'a

record Home =
  h_root :: bool
  h_files :: "path \<Rightarrow> node option"
  h_dirs :: "string list"
  h_state :: "stateDocument doc_file"
  h_journal :: "transactionJournal doc_file"

abbreviation os_error :: go_error where
  "os_error \<equiv> Errorf ''input/output error'' []"

abbreviation not_exist :: go_error where
  "not_exist \<equiv> Errorf ''file does not exist'' []"

type_synonym 'a home_io = "(Home, 'a) io"

definition upd_file :: "path \<Rightarrow> node option \<Rightarrow> Home \<Rightarrow> Home" where
  "upd_file p n h = h\<lparr> h_files := (h_files h)(p := n) \<rparr>"

definition ensureRoot :: "unit home_io" where
  "ensureRoot = bind_io (read_io h_root) (\<lambda>ok. check_io (fail_if (\<not> ok) (Errorf ''resources: managed root is unsafe'' [])))"

definition syncDirectory :: "unit home_io" where
  "syncDirectory = step_io (\<lambda>h. h) os_error"

definition readManaged :: "path \<Rightarrow> int \<Rightarrow> bytes home_io" where
  "readManaged p maxBytes =
     bind_io (read_io (\<lambda>h. h_files h p)) (\<lambda>n.
       case n of
         None \<Rightarrow> fail_io not_exist
       | Some Irregular \<Rightarrow> fail_io (Errorf ''managed destination is not a regular non-symlink file'' [])
       | Some (Regular data) \<Rightarrow>
           if data = [] \<or> int (length data) > maxBytes then fail_io (Errorf ''managed file is empty or exceeds size limit'' [])
           else then_io (step_io (\<lambda>h. h) os_error) (return_io data))"

definition writeStaged :: "path \<Rightarrow> bytes \<Rightarrow> unit home_io" where
  "writeStaged p body =
     bind_io (read_io (\<lambda>h. h_files h p)) (\<lambda>n.
       case n of
         Some Irregular \<Rightarrow> fail_io (Errorf ''resources: refusing unsafe staged destination'' [])
       | Some (Regular _) \<Rightarrow> fail_io (Errorf ''resources: staged destination already exists'' [])
       | None \<Rightarrow> step_io (upd_file p (Some (Regular body))) os_error)"

definition writeManagedAtomic :: "path \<Rightarrow> bytes \<Rightarrow> unit home_io" where
  "writeManagedAtomic p body =
     bind_io (read_io (\<lambda>h. h_files h p)) (\<lambda>n.
       if n = Some Irregular then fail_io (Errorf ''resources: refusing unsafe managed destination'' [])
       else step_io (upd_file p (Some (Regular body))) os_error)"

definition removeManaged :: "path \<Rightarrow> unit home_io" where
  "removeManaged p =
     bind_io (read_io (\<lambda>h. h_files h p)) (\<lambda>n.
       case n of
         None \<Rightarrow> return_io ()
       | Some Irregular \<Rightarrow> fail_io (Errorf ''resources: refusing unsafe managed removal'' [])
       | Some (Regular _) \<Rightarrow> step_io (upd_file p None) os_error)"

definition os_Remove :: "path \<Rightarrow> unit home_io" where
  "os_Remove p = step_io (upd_file p None) os_error"

definition os_RemoveAll :: "string \<Rightarrow> unit home_io" where
  "os_RemoveAll dir =
     step_io (\<lambda>h. h\<lparr> h_dirs := removeAll dir (h_dirs h),
       h_files := (\<lambda>p. case p of InDir d n \<Rightarrow> if d = dir then None else h_files h p | InHome n \<Rightarrow> h_files h p) \<rparr>) os_error"

definition verifyRealDirectory :: "string \<Rightarrow> Home \<Rightarrow> go_error option" where
  "verifyRealDirectory dir h =
     (if dir \<in> set (h_dirs h) then None
      else if h_files h (InHome dir) = None then Some not_exist
      else Some (Errorf ''generation path is not a real directory'' []))"

text \<open>The random identifier of \<open>newCommitID\<close> is an argument.\<close>

definition makePrivateDir :: "string \<Rightarrow> string \<Rightarrow> string home_io" where
  "makePrivateDir ident pfx =
     bind_io (read_io (\<lambda>h. pfx @ ident \<in> set (h_dirs h) \<or> h_files h (InHome (pfx @ ident)) \<noteq> None)) (\<lambda>exists.
       if exists then fail_io (Errorf ''file exists'' [])
       else then_io (step_io (\<lambda>h. h\<lparr> h_dirs := (pfx @ ident) # h_dirs h \<rparr>) os_error) (return_io (pfx @ ident)))"

definition emptyDocument :: stateDocument where
  "emptyDocument = \<lparr> doc_Version = 2, doc_Generation = '''', doc_CommitID = '''', doc_Resources = [] \<rparr>"

text \<open>\<open>loadStateFile\<close> without the failures of reading, and with them.\<close>

definition stateOf :: "externals \<Rightarrow> Home \<Rightarrow> go_error + stateDocument" where
  "stateOf ext h =
     (case h_state h of
        Absent \<Rightarrow> Inr emptyDocument
      | Unsafe \<Rightarrow> Inl (Errorf ''resources: unsafe metadata file'' [])
      | Garbage \<Rightarrow> Inl (Errorf ''resources: decode metadata'' [])
      | Doc document \<Rightarrow>
          (case validateStateDocument ext document of Some err \<Rightarrow> Inl err | None \<Rightarrow> Inr document))"

definition loadStateFile :: "externals \<Rightarrow> stateDocument home_io" where
  "loadStateFile ext =
     then_io (step_io (\<lambda>h. h) os_error)
       (bind_io (read_io (stateOf ext)) (\<lambda>r. case r of Inl err \<Rightarrow> fail_io err | Inr document \<Rightarrow> return_io document))"

definition writeStateAtomic :: "stateDocument \<Rightarrow> unit home_io" where
  "writeStateAtomic document =
     bind_io (read_io h_state) (\<lambda>old.
       if old = Unsafe then fail_io (Errorf ''resources: refusing unsafe metadata destination'' [])
       else step_io (\<lambda>h. h\<lparr> h_state := Doc document \<rparr>) os_error)"

definition writeJSONAtomic :: "transactionJournal \<Rightarrow> unit home_io" where
  "writeJSONAtomic journal =
     bind_io (read_io h_journal) (\<lambda>old.
       if old = Unsafe then fail_io (Errorf ''resources: refusing unsafe managed destination'' [])
       else step_io (\<lambda>h. h\<lparr> h_journal := Doc journal \<rparr>) os_error)"

definition verifyManifestFile :: "externals \<Rightarrow> int \<Rightarrow> string \<times> resourceState \<Rightarrow> unit home_io" where
  "verifyManifestFile ext maxBytes entry =
     (case entry of (ident, state) \<Rightarrow>
        let changed = Errorf ''resources: promoted resource %q is invalid or changed'' [ident] in
        bind_io (catch_io (readManaged (InHome (resourceFilename ext ident state)) maxBytes) (\<lambda>_. fail_io changed)) (\<lambda>data.
          check_io (fail_if (digest ext data \<noteq> st_SHA256 state
            \<or> Resource_Validate (x_yaml ext) (x_regexp ext) (declared ident state) data \<noteq> None) changed)))"

definition verifyManifestFiles :: "externals \<Rightarrow> stateDocument \<Rightarrow> int \<Rightarrow> unit home_io" where
  "verifyManifestFiles ext document maxBytes = each_io (verifyManifestFile ext maxBytes) (doc_Resources document)"

end
