(* ===== verification/Resources_Transaction.thy ===== *)
theory Resources_Transaction
  imports Resources_Manifest
begin

text \<open>
  The promotion of staged resource files and its recovery after a failure or a crash
  (\<open>src/resources/transaction.go\<close>). The migration of the old layout is in \<open>Resources_Registry\<close>.
\<close>

section \<open>The journal\<close>

definition transactionDirPrefix :: string where
  "transactionDirPrefix = ''.resources-txn-''"

definition stageDirPrefix :: string where
  "stageDirPrefix = ''.resource-stage-''"

definition validPrivateDir :: "string \<Rightarrow> bool" where
  "validPrivateDir name =
     (case find (\<lambda>pfx. strings_HasPrefix name pfx \<and> length name = length pfx + 32) [transactionDirPrefix, stageDirPrefix] of
        None \<Rightarrow> False
      | Some pfx \<Rightarrow> hex_DecodeString_ok (strings_TrimPrefix name pfx))"

definition validBackupName :: "string \<Rightarrow> bool" where
  "validBackupName name \<longleftrightarrow>
     length name = 17 \<and> strings_HasPrefix name ''file-'' \<and> strings_HasSuffix name ''.bak'' \<and> filepath_Base name = name
     \<and> hex_DecodeString_ok (take 8 (drop 5 name))"

text \<open>The loop over the files of the journal; \<open>seen\<close> and \<open>backups\<close> are its sets.\<close>

fun validateFiles ::
  "(string \<times> string) list \<Rightarrow> (string \<times> string) list \<Rightarrow> transactionJournal \<Rightarrow> string list \<Rightarrow> string list
   \<Rightarrow> transactionFile list \<Rightarrow> go_error + string list" where
  "validateFiles previous candidate journal seen backups [] = Inr seen"
| "validateFiles previous candidate journal seen backups (file # files) =
     (let name = tf_Name file;
          expectPrevious = (map_of previous name \<noteq> None \<and> doc_Version (tj_Previous journal) = 2);
          priorState = map_of (doc_Resources (tj_Previous journal)) (the (map_of previous name))
      in
      if map_of previous name = None \<and> map_of candidate name = None
      then Inl (Errorf ''resources: transaction contains unmanaged destination'' [])
      else if name \<in> set seen then Inl (Errorf ''resources: duplicate transaction destination'' [])
      else if tf_HadPrevious file \<noteq> expectPrevious then Inl (Errorf ''resources: transaction prior-file identity mismatch'' [])
      else if expectPrevious \<and> (tf_PreviousSHA256 file \<noteq> st_SHA256 (the priorState) \<or> \<not> validBackupName (tf_Backup file))
      then Inl (Errorf ''resources: invalid transaction backup entry'' [])
      else if expectPrevious \<and> tf_Backup file \<in> set backups then Inl (Errorf ''resources: duplicate transaction backup'' [])
      else if \<not> expectPrevious \<and> (tf_Backup file \<noteq> '''' \<or> tf_PreviousSHA256 file \<noteq> '''')
      then Inl (Errorf ''resources: unexpected transaction backup'' [])
      else case map_of candidate name of
             Some candidateID \<Rightarrow>
               if tf_CandidateSHA256 file \<noteq> st_SHA256 (the (map_of (doc_Resources (tj_Candidate journal)) candidateID))
               then Inl (Errorf ''resources: transaction candidate identity mismatch'' [])
               else validateFiles previous candidate journal (name # seen) (if expectPrevious then tf_Backup file # backups else backups) files
           | None \<Rightarrow>
               if tf_CandidateSHA256 file \<noteq> '''' then Inl (Errorf ''resources: unexpected candidate transaction hash'' [])
               else validateFiles previous candidate journal (name # seen) (if expectPrevious then tf_Backup file # backups else backups) files)"

definition sameEntry :: "transactionJournal \<Rightarrow> (string \<times> string) list \<Rightarrow> string \<times> string \<Rightarrow> bool" where
  "sameEntry journal candidate entry =
     (case entry of (name, priorID) \<Rightarrow>
        (case map_of candidate name of
           None \<Rightarrow> False
         | Some candidateID \<Rightarrow>
             priorID = candidateID
             \<and> (let prior = the (map_of (doc_Resources (tj_Previous journal)) priorID);
                    next = the (map_of (doc_Resources (tj_Candidate journal)) candidateID)
                in st_SHA256 prior = st_SHA256 next \<and> sameResourceState prior next)))"

definition validateJournal :: "externals \<Rightarrow> transactionJournal \<Rightarrow> go_error option" where
  "validateJournal ext journal =
     (if tj_Version journal \<noteq> 1 \<or> (tj_Phase journal \<noteq> ''promoting'' \<and> tj_Phase journal \<noteq> ''accepted'') \<or> tj_MaxBytes journal \<le> 0
         \<or> \<not> validPrivateDir (tj_BackupDir journal) \<or> \<not> strings_HasPrefix (tj_BackupDir journal) transactionDirPrefix
      then Some (Errorf ''resources: invalid transaction journal'' [])
      else case validateStateDocument ext (tj_Previous journal) of
        Some err \<Rightarrow> Some err
      | None \<Rightarrow>
          if validateStateDocument ext (tj_Candidate journal) \<noteq> None \<or> doc_Version (tj_Candidate journal) \<noteq> 2
          then Some (Errorf ''resources: invalid candidate transaction manifest'' [])
          else
            let previous = projr (manifestNames ext (tj_Previous journal));
                candidate = projr (manifestNames ext (tj_Candidate journal))
            in if tj_MetadataOnly journal then
                 (if doc_Version (tj_Previous journal) \<noteq> 2 \<or> tj_Files journal \<noteq> [] \<or> length previous \<noteq> length candidate
                  then Some (Errorf ''resources: invalid metadata-only transaction'' [])
                  else fail_if (\<not> list_all (sameEntry journal candidate) previous)
                    (Errorf ''resources: metadata-only transaction changes resource bytes or declaration'' []))
               else
                 (case validateFiles previous candidate journal [] [] (tj_Files journal) of
                    Inl err \<Rightarrow> Some err
                  | Inr seen \<Rightarrow>
                      fail_if (card (set seen) \<noteq> card (fst ` set previous \<union> fst ` set candidate))
                        (Errorf ''resources: incomplete transaction journal'' [])))"

definition readTransaction :: "externals \<Rightarrow> (transactionJournal \<times> string) home_io" where
  "readTransaction ext =
     bind_io (read_io h_journal) (\<lambda>file.
       case file of
         Absent \<Rightarrow> fail_io not_exist
       | Unsafe \<Rightarrow> fail_io (Errorf ''resources: unsafe transaction journal'' [])
       | Garbage \<Rightarrow> fail_io (Errorf ''resources: decode transaction journal'' [])
       | Doc journal \<Rightarrow>
           then_io (step_io (\<lambda>h. h) os_error)
          (then_io (check_io (validateJournal ext journal))
          (bind_io (read_io (verifyRealDirectory (tj_BackupDir journal))) (\<lambda>r.
             case r of
               None \<Rightarrow> return_io (journal, tj_BackupDir journal)
             | Some err \<Rightarrow>
                 if tj_Phase journal = ''accepted'' \<and> err = not_exist then return_io (journal, tj_BackupDir journal)
                 else fail_io (Wrapf ''resources: transaction backup directory is unsafe: %w'' [] err)))))"

section \<open>Restoring and finishing\<close>

definition restoreFile :: "externals \<Rightarrow> string \<Rightarrow> int \<Rightarrow> transactionFile \<Rightarrow> unit home_io" where
  "restoreFile ext backupDir maxBytes file =
     (let p = InHome (tf_Name file);
          missing = Errorf ''resources: transaction backup is missing or changed'' [];
          refusing = Errorf ''resources: refusing to remove changed transaction destination'' []
      in
      if tf_HadPrevious file then
        bind_io (catch_io (readManaged (InDir backupDir (tf_Backup file)) maxBytes) (\<lambda>_. fail_io missing)) (\<lambda>body.
          then_io (check_io (fail_if (digest ext body \<noteq> tf_PreviousSHA256 file) missing)) (writeManagedAtomic p body))
      else
        bind_io (read_io (\<lambda>h. h_files h p)) (\<lambda>n.
          if n = None then return_io ()
          else
            bind_io (catch_io (readManaged p maxBytes) (\<lambda>_. fail_io refusing)) (\<lambda>body.
              then_io (check_io (fail_if (tf_CandidateSHA256 file = '''' \<or> digest ext body \<noteq> tf_CandidateSHA256 file) refusing))
                (os_Remove p))))"

definition removeJournal :: "unit home_io" where
  "removeJournal = step_io (\<lambda>h. h\<lparr> h_journal := Absent \<rparr>) os_error"

definition restoreTransaction :: "externals \<Rightarrow> string \<Rightarrow> transactionJournal \<Rightarrow> unit home_io" where
  "restoreTransaction ext backupDir journal =
     then_io (each_io (restoreFile ext backupDir (tj_MaxBytes journal)) (tj_Files journal))
    (then_io syncDirectory
    (then_io (writeStateAtomic (tj_Previous journal))
    (then_io removeJournal
    (then_io syncDirectory
       (os_RemoveAll backupDir)))))"

definition removeTransaction :: "string \<Rightarrow> unit home_io" where
  "removeTransaction transactionDir =
     then_io removeJournal
    (then_io (try_io syncDirectory)
    (bind_io (read_io (verifyRealDirectory transactionDir)) (\<lambda>r.
       if r = None then try_io (os_RemoveAll transactionDir) else return_io ())))"

definition finalizeTransaction :: "externals \<Rightarrow> string \<Rightarrow> unit home_io" where
  "finalizeTransaction ext transactionDir =
     bind_io (readTransaction ext) (\<lambda>(journal, dir).
       if dir \<noteq> transactionDir then fail_io (Errorf ''resources: transaction directory changed'' [])
       else
         then_io (if tj_Phase journal \<noteq> ''accepted'' then writeJSONAtomic (journal\<lparr> tj_Phase := ''accepted'' \<rparr>) else return_io ())
           (removeTransaction transactionDir))"

definition recoverTransaction :: "externals \<Rightarrow> unit home_io" where
  "recoverTransaction ext =
     bind_io (read_io h_journal) (\<lambda>file.
       if file = Absent then return_io ()
       else
         bind_io (readTransaction ext) (\<lambda>(journal, dir).
           if tj_Phase journal = ''accepted'' then
             (let mismatch = Errorf ''resources: accepted transaction has no matching committed manifest'' [] in
              bind_io (catch_io (loadStateFile ext) (\<lambda>_. fail_io mismatch)) (\<lambda>current.
                then_io (check_io (fail_if (doc_Version current \<noteq> 2 \<or> doc_CommitID current \<noteq> doc_CommitID (tj_Candidate journal)) mismatch))
               (then_io (verifyManifestFiles ext (tj_Candidate journal) (tj_MaxBytes journal))
                  (removeTransaction dir))))
           else
             wrap_io ''resources: recover interrupted promotion: %w'' [] (restoreTransaction ext dir journal)))"

definition removeOrphan :: "string \<Rightarrow> unit home_io" where
  "removeOrphan name =
     (if \<not> strings_HasPrefix name transactionDirPrefix \<and> \<not> strings_HasPrefix name stageDirPrefix then return_io ()
      else
        bind_io (read_io (verifyRealDirectory name)) (\<lambda>r.
          if \<not> validPrivateDir name \<or> r \<noteq> None then fail_io (Errorf ''resources: unsafe transaction directory'' [])
          else wrap_io ''resources: remove orphan transaction directory: %w'' [] (os_RemoveAll name)))"

text \<open>The names \<open>os.ReadDir\<close> lists are an argument.\<close>

definition removeOrphanTransactions :: "string list \<Rightarrow> unit home_io" where
  "removeOrphanTransactions entries = each_io removeOrphan entries"

section \<open>Promotion\<close>

fun hex_of :: "nat \<Rightarrow> string" where
  "hex_of n = (if n < 16 then [''0123456789abcdef'' ! n] else hex_of (n div 16) @ [''0123456789abcdef'' ! (n mod 16)])"

text \<open>\<open>fmt.Sprintf("file-%08x.bak", index)\<close>\<close>

definition backupName :: "nat \<Rightarrow> string" where
  "backupName index = ''file-'' @ replicate (8 - length (hex_of index)) (CHR ''0'') @ hex_of index @ ''.bak''"

text \<open>The map from the names of managed files to the staged files.\<close>

fun stagedNames ::
  "externals \<Rightarrow> stateDocument \<Rightarrow> (string \<times> path) list \<Rightarrow> (string \<times> path) list \<Rightarrow> go_error + (string \<times> path) list" where
  "stagedNames ext candidate nameToPath [] = Inr nameToPath"
| "stagedNames ext candidate nameToPath ((ident, p) # staged) =
     (case map_of (doc_Resources candidate) ident of
        None \<Rightarrow> Inl (Errorf ''resources: staged unknown resource %q'' [ident])
      | Some state \<Rightarrow>
          let name = resourceFilename ext ident state in
          if map_of nameToPath name \<noteq> None then Inl (Errorf ''resources: duplicate managed destination %q'' [name])
          else stagedNames ext candidate ((name, p) # nameToPath) staged)"

record promotion =
  pm_previous :: stateDocument
  pm_candidate :: stateDocument
  pm_previousNames :: "(string \<times> string) list"
  pm_candidateNames :: "(string \<times> string) list"
  pm_nameToPath :: "(string \<times> path) list"
  pm_dir :: string
  pm_maxBytes :: int

text \<open>The backup of a file and the check of the staged file that replaces it.\<close>

definition backupFile :: "externals \<Rightarrow> promotion \<Rightarrow> nat \<Rightarrow> string \<Rightarrow> transactionFile home_io" where
  "backupFile ext pm index name =
     (let fresh = \<lparr> tf_Name = name, tf_Backup = '''', tf_HadPrevious = False, tf_PreviousSHA256 = '''', tf_CandidateSHA256 = '''' \<rparr> in
      if map_of (pm_previousNames pm) name \<noteq> None \<and> doc_Version (pm_previous pm) = 2 then
        (let ident = the (map_of (pm_previousNames pm) name);
             state = the (map_of (doc_Resources (pm_previous pm)) ident);
             missing = Errorf ''resources: previous resource %q is missing or changed'' [ident]
         in
         bind_io (catch_io (readManaged (InHome name) (pm_maxBytes pm)) (\<lambda>_. fail_io missing)) (\<lambda>body.
           then_io (check_io (fail_if (digest ext body \<noteq> st_SHA256 state) missing))
          (then_io (writeStaged (InDir (pm_dir pm) (backupName index)) body)
             (return_io (fresh\<lparr> tf_HadPrevious := True, tf_PreviousSHA256 := st_SHA256 state, tf_Backup := backupName index \<rparr>)))))
      else
        bind_io (read_io (\<lambda>h. h_files h (InHome name))) (\<lambda>n.
          if n \<noteq> None then fail_io (Errorf ''resources: unmanaged destination already exists: %s'' [name])
          else return_io fresh))"

definition checkStaged :: "externals \<Rightarrow> promotion \<Rightarrow> transactionFile \<Rightarrow> transactionFile home_io" where
  "checkStaged ext pm file =
     (case map_of (pm_nameToPath pm) (tf_Name file) of
        None \<Rightarrow> return_io file
      | Some p \<Rightarrow>
          let stateID = the (map_of (pm_candidateNames pm) (tf_Name file));
              state = the (map_of (doc_Resources (pm_candidate pm)) stateID);
              invalid = Errorf ''resources: staged candidate %q is invalid or changed'' [stateID]
          in
          bind_io (catch_io (readManaged p (pm_maxBytes pm)) (\<lambda>_. fail_io invalid)) (\<lambda>body.
            then_io (check_io (fail_if (digest ext body \<noteq> st_SHA256 state
                \<or> Resource_Validate (x_yaml ext) (x_regexp ext) (declared stateID state) body \<noteq> None) invalid))
              (return_io (file\<lparr> tf_CandidateSHA256 := st_SHA256 state \<rparr>))))"

fun journalFiles :: "externals \<Rightarrow> promotion \<Rightarrow> nat \<Rightarrow> transactionFile list \<Rightarrow> string list \<Rightarrow> transactionFile list home_io" where
  "journalFiles ext pm index files [] = return_io files"
| "journalFiles ext pm index files (name # names) =
     bind_io (backupFile ext pm index name) (\<lambda>file.
       bind_io (checkStaged ext pm file) (\<lambda>file.
         journalFiles ext pm (Suc index) (files @ [file]) names))"

definition promotedNames :: "promotion \<Rightarrow> string list" where
  "promotedNames pm = sort (remdups (map fst (pm_previousNames pm) @ map fst (pm_candidateNames pm)))"

definition journalOf :: "promotion \<Rightarrow> transactionFile list \<Rightarrow> transactionJournal" where
  "journalOf pm files =
     \<lparr> tj_Version = 1, tj_Phase = ''promoting'', tj_BackupDir = pm_dir pm, tj_MaxBytes = pm_maxBytes pm,
       tj_Previous = pm_previous pm, tj_Candidate = pm_candidate pm, tj_MetadataOnly = False, tj_Files = files \<rparr>"

definition failPromotion :: "externals \<Rightarrow> string \<Rightarrow> go_error \<Rightarrow> 'a home_io" where
  "failPromotion ext transactionDir cause =
     then_io (catch_io (bind_io (readTransaction ext) (\<lambda>(journal, dir). restoreTransaction ext dir journal))
                (\<lambda>err. fail_io (Wrapf ''%w; resource rollback failed: %v'' [] cause)))
    (then_io (try_io (os_RemoveAll transactionDir))
       (fail_io cause))"

definition promoteFile :: "promotion \<Rightarrow> transactionFile \<Rightarrow> unit home_io" where
  "promoteFile pm file =
     (case map_of (pm_nameToPath pm) (tf_Name file) of
        Some p \<Rightarrow> bind_io (readManaged p (pm_maxBytes pm)) (writeManagedAtomic (InHome (tf_Name file)))
      | None \<Rightarrow> if tf_HadPrevious file then removeManaged (InHome (tf_Name file)) else return_io ())"

text \<open>The deferred removal of the transaction directory.\<close>

definition discardDir :: "string \<Rightarrow> go_error \<Rightarrow> 'a home_io" where
  "discardDir dir err = then_io (try_io (os_RemoveAll dir)) (fail_io err)"

text \<open>The part before the journal is written, and the part after it.\<close>

definition prepareJournal :: "externals \<Rightarrow> promotion \<Rightarrow> transactionFile list home_io" where
  "prepareJournal ext pm =
     bind_io (journalFiles ext pm 0 [] (promotedNames pm)) (\<lambda>files.
       then_io syncDirectory
      (bind_io (read_io h_journal) (\<lambda>file.
         if file \<noteq> Absent then fail_io (Errorf ''resources: another resource transaction is pending'' [])
         else return_io files)))"

definition promoteFiles :: "externals \<Rightarrow> promotion \<Rightarrow> transactionFile list \<Rightarrow> unit home_io" where
  "promoteFiles ext pm files =
     then_io (each_io (promoteFile pm) files)
    (then_io syncDirectory
    (then_io (verifyManifestFiles ext (pm_candidate pm) (pm_maxBytes pm))
       (writeStateAtomic (pm_candidate pm))))"

definition promoteWith :: "externals \<Rightarrow> promotion \<Rightarrow> string home_io" where
  "promoteWith ext pm =
     (bind_io (catch_io (prepareJournal ext pm) (discardDir (pm_dir pm))) (\<lambda>files.
        then_io (catch_io (writeJSONAtomic (journalOf pm files)) (\<lambda>err.
            bind_io (read_io h_journal) (\<lambda>file.
              if file \<noteq> Absent then failPromotion ext (pm_dir pm) err else discardDir (pm_dir pm) err)))
       (then_io (catch_io (promoteFiles ext pm files) (failPromotion ext (pm_dir pm)))
          (return_io (pm_dir pm)))))"

definition promote ::
  "externals \<Rightarrow> int \<Rightarrow> string \<Rightarrow> stateDocument \<Rightarrow> stateDocument \<Rightarrow> (string \<times> path) list \<Rightarrow> string home_io" where
  "promote ext maxBytes commitID previous candidate staged =
     then_io ensureRoot
       (if (doc_Version previous \<noteq> 1 \<and> doc_Version previous \<noteq> 2) \<or> doc_Version candidate \<noteq> 2 \<or> doc_CommitID candidate = ''''
        then fail_io (Errorf ''resources: invalid promotion manifest'' [])
        else case manifestNames ext previous of Inl err \<Rightarrow> fail_io err | Inr previousNames \<Rightarrow>
        (case manifestNames ext candidate of Inl err \<Rightarrow> fail_io err | Inr candidateNames \<Rightarrow>
        (case stagedNames ext candidate [] staged of Inl err \<Rightarrow> fail_io err | Inr nameToPath \<Rightarrow>
           if \<not> list_all (\<lambda>(name, ident). map_of nameToPath name \<noteq> None) candidateNames
           then fail_io (Errorf ''resources: candidate resource has no staged file'' [])
           else
             bind_io (wrap_io ''resources: create transaction directory: %w'' [] (makePrivateDir commitID transactionDirPrefix)) (\<lambda>dir.
               promoteWith ext \<lparr> pm_previous = previous, pm_candidate = candidate, pm_previousNames = previousNames,
                 pm_candidateNames = candidateNames, pm_nameToPath = nameToPath, pm_dir = dir, pm_maxBytes = maxBytes \<rparr>))))"

definition promoteMetadata :: "externals \<Rightarrow> int \<Rightarrow> string \<Rightarrow> stateDocument \<Rightarrow> stateDocument \<Rightarrow> string home_io" where
  "promoteMetadata ext maxBytes commitID previous candidate =
     then_io (verifyManifestFiles ext previous maxBytes)
    (bind_io (makePrivateDir commitID transactionDirPrefix) (\<lambda>dir.
       let journal = \<lparr> tj_Version = 1, tj_Phase = ''promoting'', tj_BackupDir = dir, tj_MaxBytes = maxBytes,
             tj_Previous = previous, tj_Candidate = candidate, tj_MetadataOnly = True, tj_Files = [] \<rparr>
       in
       then_io (catch_io (check_io (validateJournal ext journal)) (discardDir dir))
      (then_io (catch_io (writeJSONAtomic journal) (\<lambda>err.
          bind_io (read_io h_journal) (\<lambda>file. if file = Absent then discardDir dir err else fail_io err)))
      (then_io (catch_io (writeStateAtomic candidate) (failPromotion ext dir))
         (return_io dir)))))"

end
