(* ===== verification/Resources_Recovery.thy ===== *)
theory Resources_Recovery
  imports Resources_Transaction
begin

text \<open>
  Crash safety of the promotion of resource files: whatever operation fails and wherever the process
  dies, the recovery at the next start puts back the files and the manifest of before, or keeps the ones
  promoted once the transaction was accepted.
\<close>

section \<open>Backup names\<close>

lemmas [simp del] = hex_of.simps

fun hexval :: "string \<Rightarrow> nat" where
  "hexval [] = 0"
| "hexval (c # cs) = (of_char c - (if c \<le> CHR ''9'' then 48 else 87)) * 16 ^ length cs + hexval cs"

lemma hexval_append: "hexval (xs @ ys) = hexval xs * 16 ^ length ys + hexval ys"
  by (induction xs) (auto simp: power_add algebra_simps)

lemma hex_digit_cases: "n < 16 \<Longrightarrow> n \<in> {0, 1, 2, 3, 4, 5, 6, 7, 8, 9, 10, 11, 12, 13, 14, 15 :: nat}"
  by (simp only: insert_iff empty_iff) presburger

lemma hex_digit: "n < 16 \<Longrightarrow> is_hex (''0123456789abcdef'' ! n) \<and> hexval [''0123456789abcdef'' ! n] = n"
  by (drule hex_digit_cases) (auto simp: is_hex_def is_digit_def nth_Cons' less_eq_char_def)

lemma hexval_hex_of: "hexval (hex_of n) = n"
proof (induction n rule: hex_of.induct)
  case (1 n)
  show ?case
  proof (cases "n < 16")
    case True
    then show ?thesis using hex_digit [of n] by (simp add: hex_of.simps [of n])
  next
    case False
    then show ?thesis using 1 hex_digit [of "n mod 16"] by (subst hex_of.simps) (simp add: hexval_append)
  qed
qed

lemma hex_of_hex: "list_all is_hex (hex_of n)"
proof (induction n rule: hex_of.induct)
  case (1 n)
  then show ?case using hex_digit [of n] hex_digit [of "n mod 16"] by (subst hex_of.simps) auto
qed

lemma length_hex_of: "n < 16 ^ Suc k \<Longrightarrow> length (hex_of n) \<le> Suc k"
proof (induction k arbitrary: n)
  case 0
  then show ?case by (simp add: hex_of.simps [of n])
next
  case (Suc k)
  show ?case
  proof (cases "n < 16")
    case True
    then show ?thesis by (simp add: hex_of.simps [of n])
  next
    case False
    from Suc.prems have "n div 16 < 16 ^ Suc k" by (simp add: less_mult_imp_div_less mult.commute)
    from Suc.IH [OF this] False show ?thesis by (simp add: hex_of.simps [of n])
  qed
qed

lemma hexval_zeros: "hexval (replicate m (CHR ''0'') @ xs) = hexval xs"
  by (induction m) (simp_all add: hexval_append)

lemma backupName_inj:
  assumes "backupName m = backupName n"
  shows "m = n"
proof -
  let ?hex = "\<lambda>n. replicate (8 - length (hex_of n)) (CHR ''0'') @ hex_of n"
  have "?hex m @ ''.bak'' = ?hex n @ ''.bak''" using assms by (simp add: backupName_def)
  then have "hexval (?hex m) = hexval (?hex n)" by (simp only: append_same_eq)
  then show ?thesis by (simp only: hexval_zeros hexval_hex_of)
qed

lemma backupName_valid:
  assumes "n < 16 ^ 8"
  shows "validBackupName (backupName n)"
proof -
  let ?hex = "replicate (8 - length (hex_of n)) (CHR ''0'') @ hex_of n"
  have len: "length (hex_of n) \<le> 8" using length_hex_of [of n 7] assms by simp
  have hex: "list_all is_hex ?hex" 
  proof -
    have "is_hex (CHR ''0'')" by (simp add: is_hex_def is_digit_def)
    with hex_of_hex [of n] show ?thesis by (auto simp: list_all_iff)
  qed
  have name: "backupName n = ''file-'' @ ?hex @ ''.bak''" by (simp add: backupName_def)
  have "CHR ''/'' \<notin> set ?hex" 
  proof -
    have "\<not> is_hex (CHR ''/'')" by (simp add: is_hex_def is_digit_def less_eq_char_def)
    with hex show ?thesis by (auto simp only: list_all_iff)
  qed
  then have slash: "CHR ''/'' \<notin> set (backupName n)" by (simp add: name)
  have "filepath_Base (backupName n) = backupName n"
  proof -
    have "rev (dropWhile (\<lambda>c. c = CHR ''/'') (rev (backupName n))) = backupName n"
      using slash by (metis dropWhile_eq_self_iff hd_in_set rev_rev_ident set_rev)
    with slash show ?thesis by (simp add: filepath_Base_def Let_def split_on_single name)
  qed
  moreover have "take 8 (drop 5 (backupName n)) = ?hex" using len by (simp add: name numeral_eq_Suc)
  moreover have "suffix ''.bak'' (backupName n)"
    unfolding name suffix_def by (intro exI [of _ "''file-'' @ ?hex"]) simp
  ultimately show ?thesis
    using hex len by (simp add: validBackupName_def strings_HasPrefix_def strings_HasSuffix_def hex_DecodeString_ok_def name)
qed

section \<open>Names\<close>

lemma manifestNamesFrom_Inr:
  assumes "manifestNamesFrom ext result rs = Inr names"
  shows "names = result @ map (\<lambda>(ident, state). (resourceFilename ext ident state, ident)) rs
    \<and> (distinct (map fst result) \<longrightarrow> distinct (map fst names))"
  using assms
proof (induction ext result rs rule: manifestNamesFrom.induct)
  case (2 ext result ident state rest)
  let ?name = "filename ext (declared ident state)"
  have ok: "ValidateDeclaration (declared ident state) = None" and new: "map_of result ?name = None"
      and rest: "manifestNamesFrom ext (result @ [(?name, ident)]) rest = Inr names"
    using "2.prems" by (auto simp: Let_def split: option.splits if_splits)
  have "distinct (map fst (result @ [(?name, ident)]))" if "distinct (map fst result)"
    using that new by (simp add: map_of_eq_None_iff)
  with "2.IH" [OF refl ok _ rest] new have "distinct (map fst result) \<longrightarrow> distinct (map fst names)" by blast
  moreover have "names = result @ map (\<lambda>(ident, state). (resourceFilename ext ident state, ident)) ((ident, state) # rest)"
    using "2.IH" [OF refl ok _ rest] new by (simp add: resourceFilename_def)
  ultimately show ?case by blast
qed simp

lemma manifestNames_Inr:
  assumes "manifestNames ext document = Inr names"
  shows "names = map (\<lambda>(ident, state). (resourceFilename ext ident state, ident)) (doc_Resources document)"
    and "distinct (map fst names)"
  using manifestNamesFrom_Inr [OF assms [unfolded manifestNames_def]] by auto

lemma stagedNames_Inr:
  assumes "stagedNames ext candidate acc staged = Inr nameToPath"
  shows "\<forall>(name, p) \<in> set nameToPath. (name, p) \<in> set acc
    \<or> (\<exists>ident state. (ident, state) \<in> set (doc_Resources candidate) \<and> name = resourceFilename ext ident state \<and> (ident, p) \<in> set staged)"
  using assms
proof (induction ext candidate acc staged rule: stagedNames.induct)
  case (2 ext candidate acc ident p staged)
  from "2.prems" obtain state where st: "map_of (doc_Resources candidate) ident = Some state"
    and rest: "stagedNames ext candidate ((resourceFilename ext ident state, p) # acc) staged = Inr nameToPath"
    by (auto simp: Let_def split: option.splits if_splits)
  have "map_of acc (resourceFilename ext ident state) = None"
    using "2.prems" st by (auto simp: Let_def split: if_splits)
  from "2.IH" [OF st refl] this rest map_of_SomeD [OF st] show ?case by fastforce
qed auto

section \<open>Rules for the file operations\<close>

lemma upd_file_simps [simp]:
  "h_files (upd_file p n h) = (h_files h)(p := n)" "h_root (upd_file p n h) = h_root h" "h_dirs (upd_file p n h) = h_dirs h"
  "h_state (upd_file p n h) = h_state h" "h_journal (upd_file p n h) = h_journal h"
  by (simp_all add: upd_file_def)

definition readable :: "int \<Rightarrow> bytes \<Rightarrow> bool" where
  "readable maxBytes body \<longleftrightarrow> body \<noteq> [] \<and> int (length body) \<le> maxBytes"

lemma wp_readManaged:
  assumes "\<And>body. h_files h p = Some (Regular body) \<Longrightarrow> readable maxBytes body \<Longrightarrow> Q body h" and "\<And>e. R e h" and "C h"
  shows "wp (readManaged p maxBytes) Q R C h"
  unfolding readManaged_def using assms
  by (intro wp_bind) (auto simp: readable_def intro!: wp_then split: option.split node.split)

lemma runs_readManaged:
  assumes "h_files h p = Some (Regular body)" and "readable maxBytes body" and "Q body h"
  shows "runs (readManaged p maxBytes) Q h"
  unfolding readManaged_def using assms by (intro runs_bind) (auto simp: readable_def intro!: runs_then)

lemma wp_writeManagedAtomic:
  assumes "Q () (upd_file p (Some (Regular body)) h)" and "\<And>e. R e h" and "\<And>e. R e (upd_file p (Some (Regular body)) h)"
    and "C h" and "C (upd_file p (Some (Regular body)) h)"
  shows "wp (writeManagedAtomic p body) Q R C h"
  unfolding writeManagedAtomic_def using assms by (intro wp_bind) auto

lemma runs_writeManagedAtomic:
  assumes "h_files h p \<noteq> Some Irregular" and "Q () (upd_file p (Some (Regular body)) h)"
  shows "runs (writeManagedAtomic p body) Q h"
  unfolding writeManagedAtomic_def using assms by (intro runs_bind) auto

lemma wp_loadStateFile:
  assumes "\<And>document. stateOf ext h = Inr document \<Longrightarrow> Q document h" and "\<And>e. R e h" and "C h"
  shows "wp (loadStateFile ext) Q R C h"
  unfolding loadStateFile_def using assms by (intro wp_then) (auto intro!: wp_bind split: sum.split)

lemma wp_writeStateAtomic:
  assumes "Q () (h\<lparr> h_state := Doc document \<rparr>)" and "\<And>e. R e h" and "\<And>e. R e (h\<lparr> h_state := Doc document \<rparr>)"
    and "C h" and "C (h\<lparr> h_state := Doc document \<rparr>)"
  shows "wp (writeStateAtomic document) Q R C h"
  unfolding writeStateAtomic_def using assms by (intro wp_bind) auto

lemma runs_writeStateAtomic:
  assumes "h_state h \<noteq> Unsafe" and "Q () (h\<lparr> h_state := Doc document \<rparr>)"
  shows "runs (writeStateAtomic document) Q h"
  unfolding writeStateAtomic_def using assms by (intro runs_bind) auto

lemma wp_writeJSONAtomic:
  assumes "Q () (h\<lparr> h_journal := Doc journal \<rparr>)" and "\<And>e. R e h" and "\<And>e. R e (h\<lparr> h_journal := Doc journal \<rparr>)"
    and "C h" and "C (h\<lparr> h_journal := Doc journal \<rparr>)"
  shows "wp (writeJSONAtomic journal) Q R C h"
  unfolding writeJSONAtomic_def using assms by (intro wp_bind) auto

text \<open>The files of a manifest are present with the recorded digest and valid; checking this changes nothing.\<close>

definition entry_present :: "externals \<Rightarrow> int \<Rightarrow> Home \<Rightarrow> string \<times> resourceState \<Rightarrow> bool" where
  "entry_present ext maxBytes h entry = (case entry of (ident, state) \<Rightarrow>
     \<exists>body. h_files h (InHome (resourceFilename ext ident state)) = Some (Regular body) \<and> readable maxBytes body
       \<and> digest ext body = st_SHA256 state
       \<and> Resource_Validate (x_yaml ext) (x_regexp ext) (declared ident state) body = None)"

lemma wp_verifyManifestFiles:
  assumes "(\<forall>entry \<in> set (doc_Resources document). entry_present ext maxBytes h entry) \<Longrightarrow> Q () h"
    and "\<And>e. R e h" and "C h"
  shows "wp (verifyManifestFiles ext document maxBytes) Q R C h"
  unfolding verifyManifestFiles_def
proof (rule wp_each [where I = "\<lambda>dn _ g. g = h \<and> (\<forall>entry \<in> set dn. entry_present ext maxBytes h entry)"])
  fix dn entry todo g assume "g = h \<and> (\<forall>entry \<in> set dn. entry_present ext maxBytes h entry)"
  then show "wp (verifyManifestFile ext maxBytes entry)
      (\<lambda>_ g. g = h \<and> (\<forall>entry \<in> set (dn @ [entry]). entry_present ext maxBytes h entry)) R C g"
    unfolding verifyManifestFile_def Let_def using assms(2,3)
    by (cases entry)
      (auto intro!: wp_bind wp_catch wp_readManaged simp: fail_if_def entry_present_def split: option.split)
qed (use assms in auto)

lemma runs_verifyManifestFiles:
  assumes "\<forall>entry \<in> set (doc_Resources document). entry_present ext maxBytes h entry" and "Q () h"
  shows "runs (verifyManifestFiles ext document maxBytes) Q h"
  unfolding verifyManifestFiles_def
proof (rule runs_each [where I = "\<lambda>_ _ g. g = h"])
  fix dn entry todo g assume "doc_Resources document = dn @ entry # todo" and "g = h"
  then show "runs (verifyManifestFile ext maxBytes entry) (\<lambda>_ g. g = h) g"
    unfolding verifyManifestFile_def Let_def using assms(1)
    by (cases entry) (auto intro!: runs_bind runs_catch runs_readManaged simp: entry_present_def)
qed (use assms in auto)

definition outside_same :: "string \<Rightarrow> Home \<Rightarrow> Home \<Rightarrow> bool" where
  "outside_same dir h h' \<longleftrightarrow>
     h_journal h' = h_journal h \<and> h_state h' = h_state h \<and> (\<forall>n. h_files h' (InHome n) = h_files h (InHome n))
     \<and> (\<forall>d n. d \<noteq> dir \<longrightarrow> h_files h' (InDir d n) = h_files h (InDir d n))"

lemma wp_RemoveAll:
  assumes "\<And>h'. outside_same dir h h' \<Longrightarrow> P h'" and "\<And>h. P h \<Longrightarrow> Q () h" and "\<And>e h. P h \<Longrightarrow> R e h" and "\<And>h. P h \<Longrightarrow> C h"
  shows "wp (os_RemoveAll dir) Q R C h"
  unfolding os_RemoveAll_def using assms by (simp add: outside_same_def)

section \<open>A transaction that can be recovered\<close>

text \<open>
  \<open>F\<close> is the state of the files in the directory before the promotion. A file with a predecessor has its
  exact bytes in the backup; a file without one is absent or is the candidate the journal names.
\<close>

definition file_ok :: "externals \<Rightarrow> transactionJournal \<Rightarrow> (string \<Rightarrow> node option) \<Rightarrow> Home \<Rightarrow> transactionFile \<Rightarrow> bool" where
  "file_ok ext journal F h file \<longleftrightarrow>
     (if tf_HadPrevious file then
        h_files h (InHome (tf_Name file)) \<noteq> Some Irregular
        \<and> (\<exists>body. F (tf_Name file) = Some (Regular body) \<and> readable (tj_MaxBytes journal) body
             \<and> digest ext body = tf_PreviousSHA256 file
             \<and> h_files h (InDir (tj_BackupDir journal) (tf_Backup file)) = Some (Regular body))
      else
        F (tf_Name file) = None
        \<and> (h_files h (InHome (tf_Name file)) = None
           \<or> (\<exists>body. h_files h (InHome (tf_Name file)) = Some (Regular body) \<and> readable (tj_MaxBytes journal) body
                \<and> tf_CandidateSHA256 file \<noteq> '''' \<and> digest ext body = tf_CandidateSHA256 file)))"

definition pending :: "externals \<Rightarrow> transactionJournal \<Rightarrow> (string \<Rightarrow> node option) \<Rightarrow> Home \<Rightarrow> bool" where
  "pending ext journal F h \<longleftrightarrow>
     h_journal h = Doc journal \<and> validateJournal ext journal = None \<and> tj_Phase journal = ''promoting''
     \<and> tj_BackupDir journal \<in> set (h_dirs h) \<and> h_state h \<noteq> Unsafe \<and> distinct (map tf_Name (tj_Files journal))
     \<and> (\<forall>file \<in> set (tj_Files journal). file_ok ext journal F h file)
     \<and> (\<forall>n. n \<notin> tf_Name ` set (tj_Files journal) \<longrightarrow> h_files h (InHome n) = F n)"

definition restored :: "transactionJournal \<Rightarrow> (string \<Rightarrow> node option) \<Rightarrow> Home \<Rightarrow> bool" where
  "restored journal F h \<longleftrightarrow>
     h_journal h = Absent \<and> h_state h = Doc (tj_Previous journal) \<and> (\<forall>n. h_files h (InHome n) = F n)"

lemma pending_upd:
  assumes "pending ext journal F h" and "file \<in> set (tj_Files journal)"
    and "tf_HadPrevious file \<Longrightarrow> n \<noteq> Some Irregular"
    and "\<not> tf_HadPrevious file \<Longrightarrow> n = None \<or> (\<exists>body. n = Some (Regular body) \<and> readable (tj_MaxBytes journal) body
           \<and> tf_CandidateSHA256 file \<noteq> '''' \<and> digest ext body = tf_CandidateSHA256 file)"
  shows "pending ext journal F (upd_file (InHome (tf_Name file)) n h)"
proof -
  let ?h = "upd_file (InHome (tf_Name file)) n h"
  have "file_ok ext journal F ?h g" if g: "g \<in> set (tj_Files journal)" for g
  proof (cases "g = file")
    case True
    from assms(1,2) have "file_ok ext journal F h file" by (simp add: pending_def)
    with True assms(3,4) show ?thesis by (auto simp: file_ok_def)
  next
    case False
    with assms(1,2) g have "tf_Name g \<noteq> tf_Name file" by (metis eq_key_imp_eq_value inj_on_contraD distinct_map pending_def)
    with assms(1) g show ?thesis by (simp add: pending_def file_ok_def)
  qed
  with assms(1,2) show ?thesis by (auto simp: pending_def)
qed

lemma pending_state: "pending ext journal F h \<Longrightarrow> pending ext journal F (h\<lparr> h_state := Doc document \<rparr>)"
  by (simp add: pending_def file_ok_def)

text \<open>After some files have been put back, those are as before.\<close>

definition restoring :: "externals \<Rightarrow> transactionJournal \<Rightarrow> (string \<Rightarrow> node option) \<Rightarrow> transactionFile list \<Rightarrow> Home \<Rightarrow> bool" where
  "restoring ext journal F files h \<longleftrightarrow>
     pending ext journal F h \<and> (\<forall>file \<in> set files. h_files h (InHome (tf_Name file)) = F (tf_Name file))"

lemma restoring_upd:
  assumes "restoring ext journal F dn h" and "file \<in> set (tj_Files journal)"
  shows "restoring ext journal F (dn @ [file]) (upd_file (InHome (tf_Name file)) (F (tf_Name file)) h)"
proof -
  from assms have ok: "file_ok ext journal F h file" by (simp add: restoring_def pending_def)
  then have "pending ext journal F (upd_file (InHome (tf_Name file)) (F (tf_Name file)) h)"
    using assms by (intro pending_upd) (auto simp: restoring_def file_ok_def)
  with assms(1) show ?thesis by (auto simp: restoring_def)
qed

lemma restoring_pending: "restoring ext journal F dn h \<Longrightarrow> pending ext journal F h"
  by (simp add: restoring_def)

lemma wp_restoreFile:
  assumes "restoring ext journal F dn h" and "file \<in> set (tj_Files journal)"
  shows "wp (restoreFile ext (tj_BackupDir journal) (tj_MaxBytes journal) file)
    (\<lambda>_. restoring ext journal F (dn @ [file])) (\<lambda>_. pending ext journal F) (pending ext journal F) h"
proof -
  note next_state = restoring_upd [OF assms]
  have ok: "file_ok ext journal F h file" and p: "pending ext journal F h"
    using assms by (auto simp: restoring_def pending_def)
  show ?thesis
  proof (cases "tf_HadPrevious file")
    case True
    from ok True obtain body where F: "F (tf_Name file) = Some (Regular body)"
      and b: "h_files h (InDir (tj_BackupDir journal) (tf_Backup file)) = Some (Regular body)" by (auto simp: file_ok_def)
    from True show ?thesis
      unfolding restoreFile_def Let_def
      using p next_state restoring_pending [OF next_state] F b
      by (auto intro!: wp_bind wp_catch wp_readManaged wp_then wp_writeManagedAtomic simp: fail_if_def split: option.split)
  next
    case False
    then have F: "F (tf_Name file) = None" using ok by (simp add: file_ok_def)
    have same: "restoring ext journal F (dn @ [file]) h" if "h_files h (InHome (tf_Name file)) = None"
      using that assms(1) F by (auto simp: restoring_def)
    from False show ?thesis
      unfolding restoreFile_def Let_def os_Remove_def
      using p next_state restoring_pending [OF next_state] F same
      by (auto intro!: wp_bind wp_catch wp_readManaged wp_then simp: fail_if_def split: option.split)
  qed
qed

lemma runs_restoreFile:
  assumes "restoring ext journal F dn h" and "file \<in> set (tj_Files journal)"
  shows "runs (restoreFile ext (tj_BackupDir journal) (tj_MaxBytes journal) file) (\<lambda>_. restoring ext journal F (dn @ [file])) h"
proof -
  note next_state = restoring_upd [OF assms]
  have ok: "file_ok ext journal F h file" using assms by (auto simp: restoring_def pending_def)
  show ?thesis
  proof (cases "tf_HadPrevious file")
    case True
    with ok next_state show ?thesis
      unfolding restoreFile_def Let_def
      by (auto simp: file_ok_def intro!: runs_bind runs_catch runs_readManaged runs_then runs_writeManagedAtomic)
  next
    case False
    then have F: "F (tf_Name file) = None" using ok by (simp add: file_ok_def)
    have same: "restoring ext journal F (dn @ [file]) h" if "h_files h (InHome (tf_Name file)) = None"
      using that assms(1) F by (auto simp: restoring_def)
    from False ok F same next_state show ?thesis
      unfolding restoreFile_def Let_def os_Remove_def
      by (auto simp: file_ok_def intro!: runs_bind runs_catch runs_readManaged runs_then)
  qed
qed

lemma restoring_all:
  assumes "restoring ext journal F (tj_Files journal) h"
  shows "restored journal F (h\<lparr> h_state := Doc (tj_Previous journal), h_journal := Absent \<rparr>)"
proof -
  have "h_files h (InHome n) = F n" for n
    using assms by (cases "n \<in> tf_Name ` set (tj_Files journal)") (auto simp: restoring_def pending_def)
  then show ?thesis by (simp add: restored_def)
qed

lemma restored_outside: "restored journal F h \<Longrightarrow> outside_same dir h h' \<Longrightarrow> restored journal F h'"
  by (simp add: restored_def outside_same_def)

lemma wp_restoreTransaction:
  assumes "pending ext journal F h"
  shows "wp (restoreTransaction ext (tj_BackupDir journal) journal) (\<lambda>_. restored journal F)
    (\<lambda>_ h. pending ext journal F h \<or> restored journal F h) (\<lambda>h. pending ext journal F h \<or> restored journal F h) h"
proof -
  have tail: "wp (then_io syncDirectory (then_io (writeStateAtomic (tj_Previous journal)) (then_io removeJournal
        (then_io syncDirectory (os_RemoveAll (tj_BackupDir journal)))))) (\<lambda>_. restored journal F)
      (\<lambda>_ h. pending ext journal F h \<or> restored journal F h) (\<lambda>h. pending ext journal F h \<or> restored journal F h) g"
    if g: "restoring ext journal F (tj_Files journal) g" for g
  proof -
    let ?g = "g\<lparr> h_state := Doc (tj_Previous journal) \<rparr>"
    have p: "pending ext journal F g" "pending ext journal F ?g" using g by (simp_all add: restoring_def pending_state)
    have r: "restored journal F (?g\<lparr> h_journal := Absent \<rparr>)" using restoring_all [OF g] by simp
    show ?thesis
      unfolding syncDirectory_def removeJournal_def
      by (auto intro!: wp_then wp_writeStateAtomic wp_RemoveAll [where P = "restored journal F"]
          simp: p r) (rule restored_outside [OF r], assumption)
  qed
  show ?thesis
    unfolding restoreTransaction_def
  proof (rule wp_then, rule wp_each [where I = "\<lambda>dn _. restoring ext journal F dn"])
    fix dn f todo g
    assume "tj_Files journal = dn @ f # todo" and "restoring ext journal F dn g"
    then show "wp (restoreFile ext (tj_BackupDir journal) (tj_MaxBytes journal) f) (\<lambda>_. restoring ext journal F (dn @ [f]))
        (\<lambda>_ h. pending ext journal F h \<or> restored journal F h) (\<lambda>h. pending ext journal F h \<or> restored journal F h) g"
      by (intro wp_mono [OF wp_restoreFile]) auto
  qed (use assms tail in \<open>auto simp: restoring_def\<close>)
qed

lemma runs_restoreTransaction:
  assumes "pending ext journal F h"
  shows "runs (restoreTransaction ext (tj_BackupDir journal) journal) (\<lambda>_. restored journal F) h"
  unfolding restoreTransaction_def
proof (rule runs_then, rule runs_each [where I = "\<lambda>dn _. restoring ext journal F dn"])
  fix dn f todo g
  assume "tj_Files journal = dn @ f # todo" and "restoring ext journal F dn g"
  then show "runs (restoreFile ext (tj_BackupDir journal) (tj_MaxBytes journal) f) (\<lambda>_. restoring ext journal F (dn @ [f])) g"
    by (intro runs_restoreFile) auto
next
  fix g assume g: "restoring ext journal F (tj_Files journal) g"
  then have "h_state g \<noteq> Unsafe" by (simp add: restoring_def pending_def)
  with restoring_all [OF g] show "runs (then_io syncDirectory (then_io (writeStateAtomic (tj_Previous journal)) (then_io removeJournal
      (then_io syncDirectory (os_RemoveAll (tj_BackupDir journal)))))) (\<lambda>_. restored journal F) g"
    unfolding syncDirectory_def removeJournal_def os_RemoveAll_def
    by (auto intro!: runs_then runs_writeStateAtomic simp: restored_def)
qed (use assms in \<open>simp add: restoring_def\<close>)

lemma wp_readTransaction:
  assumes "pending ext journal F h" and "Q (journal, tj_BackupDir journal) h" and "\<And>e. R e h" and "C h"
  shows "wp (readTransaction ext) Q R C h"
  using assms unfolding readTransaction_def
  by (auto simp: pending_def verifyRealDirectory_def intro!: wp_bind wp_then)

lemma runs_readTransaction:
  assumes "pending ext journal F h" and "Q (journal, tj_BackupDir journal) h"
  shows "runs (readTransaction ext) Q h"
  using assms unfolding readTransaction_def
  by (auto simp: pending_def verifyRealDirectory_def intro!: runs_bind runs_then)

lemma runs_recover_pending:
  assumes "pending ext journal F h"
  shows "runs (recoverTransaction ext) (\<lambda>_. restored journal F) h"
proof -
  have j: "h_journal h \<noteq> Absent" "tj_Phase journal \<noteq> ''accepted''" using assms by (auto simp: pending_def)
  have "runs (readTransaction ext) (\<lambda>x. runs (case x of (journal, dir) \<Rightarrow>
      wrap_io ''resources: recover interrupted promotion: %w'' [] (restoreTransaction ext dir journal)) (\<lambda>_. restored journal F)) h"
    by (rule runs_readTransaction [OF assms]) (simp add: runs_wrap runs_restoreTransaction [OF assms])
  with j show ?thesis
    unfolding recoverTransaction_def
    by (intro runs_bind) (auto intro!: runs_bind runs_readTransaction [OF assms] runs_wrap runs_restoreTransaction [OF assms])
qed

lemma wp_failPromotion:
  assumes "pending ext journal F h"
  shows "wp (failPromotion ext dir cause) Q (\<lambda>_ h. pending ext journal F h \<or> restored journal F h)
    (\<lambda>h. pending ext journal F h \<or> restored journal F h) h"
  unfolding failPromotion_def
proof (rule wp_then)
  have after: "wp (then_io (try_io (os_RemoveAll dir)) (fail_io cause)) Q (\<lambda>_ h. pending ext journal F h \<or> restored journal F h)
      (\<lambda>h. pending ext journal F h \<or> restored journal F h) g" if g: "restored journal F g" for g
    by (auto intro!: wp_then wp_try wp_RemoveAll [where P = "restored journal F"] intro: restored_outside [OF g])
  have "wp (catch_io (bind_io (readTransaction ext) (\<lambda>(journal, dir). restoreTransaction ext dir journal))
      (\<lambda>err. fail_io (Wrapf ''%w; resource rollback failed: %v'' [] cause))) (\<lambda>_. restored journal F)
      (\<lambda>_ h. pending ext journal F h \<or> restored journal F h) (\<lambda>h. pending ext journal F h \<or> restored journal F h) h"
    using assms by (intro wp_catch wp_bind wp_readTransaction [OF assms]) (auto intro: wp_mono [OF wp_restoreTransaction])
  then show "wp (catch_io (bind_io (readTransaction ext) (\<lambda>(journal, dir). restoreTransaction ext dir journal))
      (\<lambda>err. fail_io (Wrapf ''%w; resource rollback failed: %v'' [] cause)))
    (\<lambda>_. wp (then_io (try_io (os_RemoveAll dir)) (fail_io cause)) Q (\<lambda>_ h. pending ext journal F h \<or> restored journal F h)
       (\<lambda>h. pending ext journal F h \<or> restored journal F h))
    (\<lambda>_ h. pending ext journal F h \<or> restored journal F h) (\<lambda>h. pending ext journal F h \<or> restored journal F h) h"
    by (rule wp_mono) (auto intro: after)
qed

section \<open>The journal that promotion writes\<close>

definition expectPrevious :: "promotion \<Rightarrow> string \<Rightarrow> bool" where
  "expectPrevious pm name \<longleftrightarrow> map_of (pm_previousNames pm) name \<noteq> None \<and> doc_Version (pm_previous pm) = 2"

definition entryOf :: "promotion \<Rightarrow> nat \<times> string \<Rightarrow> transactionFile" where
  "entryOf pm entry = (case entry of (index, name) \<Rightarrow>
     \<lparr> tf_Name = name, tf_Backup = (if expectPrevious pm name then backupName index else ''''),
       tf_HadPrevious = expectPrevious pm name,
       tf_PreviousSHA256 = (if expectPrevious pm name
         then st_SHA256 (the (map_of (doc_Resources (pm_previous pm)) (the (map_of (pm_previousNames pm) name)))) else ''''),
       tf_CandidateSHA256 = (if map_of (pm_nameToPath pm) name = None then ''''
         else st_SHA256 (the (map_of (doc_Resources (pm_candidate pm)) (the (map_of (pm_candidateNames pm) name))))) \<rparr>)"

lemma entryOf_simps [simp]:
  "tf_Name (entryOf pm (i, n)) = n" "tf_HadPrevious (entryOf pm (i, n)) = expectPrevious pm n"
  by (simp_all add: entryOf_def)

definition entries :: "promotion \<Rightarrow> transactionFile list" where
  "entries pm = map (entryOf pm) (enumerate 0 (promotedNames pm))"

text \<open>What the checks before the loop and the callers guarantee.\<close>

definition promotion_ok :: "externals \<Rightarrow> promotion \<Rightarrow> bool" where
  "promotion_ok ext pm \<longleftrightarrow>
     validateStateDocument ext (pm_previous pm) = None \<and> validateStateDocument ext (pm_candidate pm) = None
     \<and> doc_Version (pm_candidate pm) = 2
     \<and> manifestNames ext (pm_previous pm) = Inr (pm_previousNames pm)
     \<and> manifestNames ext (pm_candidate pm) = Inr (pm_candidateNames pm)
     \<and> (\<forall>name. map_of (pm_nameToPath pm) name = None \<longleftrightarrow> map_of (pm_candidateNames pm) name = None)
     \<and> (\<forall>name p. map_of (pm_nameToPath pm) name = Some p \<longrightarrow> (\<exists>d n. p = InDir d n \<and> d \<noteq> pm_dir pm))
     \<and> validPrivateDir (pm_dir pm) \<and> strings_HasPrefix (pm_dir pm) transactionDirPrefix \<and> 0 < pm_maxBytes pm
     \<and> length (pm_previousNames pm) + length (pm_candidateNames pm) \<le> 16 ^ 8"

lemma set_promotedNames: "set (promotedNames pm) = fst ` set (pm_previousNames pm) \<union> fst ` set (pm_candidateNames pm)"
  by (simp add: promotedNames_def)

lemma distinct_promotedNames: "distinct (promotedNames pm)"
  by (simp add: promotedNames_def)

lemma length_promotedNames: "length (promotedNames pm) \<le> length (pm_previousNames pm) + length (pm_candidateNames pm)"
  using length_remdups_leq [of "map fst (pm_previousNames pm) @ map fst (pm_candidateNames pm)"] by (simp add: promotedNames_def)

lemma names_entries: "map tf_Name (entries pm) = promotedNames pm"
proof -
  have "tf_Name (entryOf pm x) = snd x" for x by (cases x) simp
  then show ?thesis by (simp add: entries_def o_def)
qed

lemma validateFiles_entries:
  assumes "\<forall>(i, n) \<in> set xs. n \<in> fst ` set (pm_previousNames pm) \<union> fst ` set (pm_candidateNames pm) \<and> i < 16 ^ 8"
    and "distinct (map snd xs)" and "distinct (map fst xs)"
    and "set (map snd xs) \<inter> set seen = {}"
    and "\<forall>i \<in> set (map fst xs). backupName i \<notin> set backups"
    and "\<forall>name. map_of (pm_nameToPath pm) name = None \<longleftrightarrow> map_of (pm_candidateNames pm) name = None"
  shows "validateFiles (pm_previousNames pm) (pm_candidateNames pm) (journalOf pm files) seen backups (map (entryOf pm) xs)
    = Inr (rev (map snd xs) @ seen)"
  using assms(1-5)
proof (induction xs arbitrary: seen backups)
  case (Cons x xs)
  obtain i n where x: "x = (i, n)" by (cases x)
  let ?backups = "if expectPrevious pm n then backupName i # backups else backups"
  have known: "map_of (pm_previousNames pm) n \<noteq> None \<or> map_of (pm_candidateNames pm) n \<noteq> None"
    using Cons.prems(1) by (auto simp: x map_of_eq_None_iff)
  have valid: "validBackupName (backupName i)" using Cons.prems(1) by (simp add: x backupName_valid)
  have fresh: "n \<notin> set seen" "backupName i \<notin> set backups" using Cons.prems(4,5) by (auto simp: x)
  have cand: "map_of (pm_nameToPath pm) n = None \<longleftrightarrow> map_of (pm_candidateNames pm) n = None" using assms(6) by blast
  have "\<forall>j \<in> set (map fst xs). backupName j \<notin> set ?backups"
    using Cons.prems(3,5) by (auto simp: x dest: backupName_inj)
  then have IH: "validateFiles (pm_previousNames pm) (pm_candidateNames pm) (journalOf pm files) (n # seen) ?backups
      (map (entryOf pm) xs) = Inr (rev (map snd xs) @ n # seen)"
    using Cons.prems by (intro Cons.IH) (auto simp: x)
  have step: "validateFiles (pm_previousNames pm) (pm_candidateNames pm) (journalOf pm files) seen backups (entryOf pm (i, n) # rest)
      = validateFiles (pm_previousNames pm) (pm_candidateNames pm) (journalOf pm files) (n # seen) ?backups rest" for rest
    using known valid fresh cand
    by (cases "map_of (pm_candidateNames pm) n")
      (auto simp: Let_def entryOf_def expectPrevious_def journalOf_def)
  show ?case using IH by (simp add: x step del: validateFiles.simps)
qed simp

lemma journal_valid:
  assumes "promotion_ok ext pm"
  shows "validateJournal ext (journalOf pm (entries pm)) = None"
proof -
  let ?xs = "enumerate 0 (promotedNames pm)"
  have len: "length (promotedNames pm) \<le> 16 ^ 8"
    using assms length_promotedNames [of pm] by (simp add: promotion_ok_def)
  have xs: "map snd ?xs = promotedNames pm" "map fst ?xs = [0..<length (promotedNames pm)]" by simp_all
  have "\<forall>(i, n) \<in> set ?xs. n \<in> fst ` set (pm_previousNames pm) \<union> fst ` set (pm_candidateNames pm) \<and> i < 16 ^ 8"
    using len by (auto simp: in_set_enumerate_eq set_promotedNames [symmetric])
  then have "validateFiles (pm_previousNames pm) (pm_candidateNames pm) (journalOf pm (entries pm)) [] [] (map (entryOf pm) ?xs)
      = Inr (rev (map snd ?xs) @ [])"
    using assms by (intro validateFiles_entries) (simp_all add: distinct_promotedNames promotion_ok_def)
  then have "validateFiles (pm_previousNames pm) (pm_candidateNames pm) (journalOf pm (entries pm)) [] [] (entries pm)
      = Inr (rev (promotedNames pm))"
    by (simp add: entries_def)
  with assms show ?thesis
    by (simp add: validateJournal_def promotion_ok_def Let_def journalOf_def set_promotedNames)
qed

section \<open>Preparation\<close>

definition preparing :: "promotion \<Rightarrow> Home \<Rightarrow> Home \<Rightarrow> bool" where
  "preparing pm h0 h \<longleftrightarrow> outside_same (pm_dir pm) h0 h \<and> pm_dir pm \<in> set (h_dirs h)"

definition prior_ok :: "externals \<Rightarrow> promotion \<Rightarrow> Home \<Rightarrow> Home \<Rightarrow> transactionFile \<Rightarrow> bool" where
  "prior_ok ext pm h0 h file \<longleftrightarrow>
     (if tf_HadPrevious file then
        \<exists>body. h_files h0 (InHome (tf_Name file)) = Some (Regular body) \<and> readable (pm_maxBytes pm) body
          \<and> digest ext body = tf_PreviousSHA256 file \<and> h_files h (InDir (pm_dir pm) (tf_Backup file)) = Some (Regular body)
      else h_files h0 (InHome (tf_Name file)) = None)"

definition staged_ok :: "externals \<Rightarrow> promotion \<Rightarrow> Home \<Rightarrow> transactionFile \<Rightarrow> bool" where
  "staged_ok ext pm h0 file \<longleftrightarrow>
     (\<forall>p. map_of (pm_nameToPath pm) (tf_Name file) = Some p \<longrightarrow>
        (\<exists>body. h_files h0 p = Some (Regular body) \<and> readable (pm_maxBytes pm) body \<and> digest ext body = tf_CandidateSHA256 file))"

lemma wp_backupFile:
  assumes "preparing pm h0 h" and "\<forall>file \<in> set dn. prior_ok ext pm h0 h file"
  shows "wp (backupFile ext pm index name)
    (\<lambda>file h. preparing pm h0 h \<and> (\<forall>g \<in> set dn. prior_ok ext pm h0 h g) \<and> prior_ok ext pm h0 h file
       \<and> file = (entryOf pm (index, name))\<lparr> tf_CandidateSHA256 := '''' \<rparr>)
    (\<lambda>_. preparing pm h0) (preparing pm h0) h"
proof -
  have home: "h_files h (InHome name) = h_files h0 (InHome name)"
    using assms(1) by (simp add: preparing_def outside_same_def)
  let ?p = "InDir (pm_dir pm) (backupName index)"
  have prep: "preparing pm h0 (upd_file ?p n h)" for n
    using assms(1) by (simp add: preparing_def outside_same_def)
  have keep: "\<forall>g \<in> set dn. prior_ok ext pm h0 (upd_file ?p n h) g" if "h_files h ?p = None" for n
    using that assms(2) by (fastforce simp: prior_ok_def)
  show ?thesis
  proof (cases "expectPrevious pm name")
    case True
    let ?e = "(entryOf pm (index, name))\<lparr> tf_CandidateSHA256 := '''' \<rparr>"
    have new: "prior_ok ext pm h0 (upd_file ?p (Some (Regular body)) h) ?e"
      if "h_files h (InHome name) = Some (Regular body)" "readable (pm_maxBytes pm) body"
        "digest ext body = tf_PreviousSHA256 ?e" for body
      using that home True by (simp add: prior_ok_def) (simp add: entryOf_def)
    have t: "map_of (pm_previousNames pm) name \<noteq> None \<and> doc_Version (pm_previous pm) = 2"
      using True by (simp add: expectPrevious_def)
    have e: "\<lparr> tf_Name = name, tf_Backup = backupName index, tf_HadPrevious = True, tf_PreviousSHA256 = st_SHA256 (the (map_of
        (doc_Resources (pm_previous pm)) (the (map_of (pm_previousNames pm) name)))), tf_CandidateSHA256 = '''' \<rparr> = ?e"
      using True by (simp add: entryOf_def)
    show ?thesis
      unfolding backupFile_def writeStaged_def Let_def if_P [OF t]
      using assms(1) prep keep new
      by (auto simp: fail_if_def e intro!: wp_bind wp_catch wp_readManaged wp_then split: option.split node.split)
        (simp add: True entryOf_def)
  next
    case False
    then show ?thesis
      unfolding backupFile_def Let_def
      using assms home
      by (auto simp: expectPrevious_def entryOf_def intro!: wp_bind)
         (auto simp: prior_ok_def)
  qed
qed

lemma wp_checkStaged:
  assumes "promotion_ok ext pm" and "preparing pm h0 h"
    and "file = (entryOf pm (index, name))\<lparr> tf_CandidateSHA256 := '''' \<rparr>"
  shows "wp (checkStaged ext pm file) (\<lambda>file' h'. h' = h \<and> file' = entryOf pm (index, name) \<and> staged_ok ext pm h0 file')
    (\<lambda>_ h'. h' = h) (\<lambda>h'. h' = h) h"
proof (cases "map_of (pm_nameToPath pm) name")
  case None
  then show ?thesis using assms(3) by (simp add: checkStaged_def staged_ok_def entryOf_def)
next
  case (Some p)
  with assms(1) obtain d n where "p = InDir d n" "d \<noteq> pm_dir pm" by (fastforce simp: promotion_ok_def)
  then have same: "h_files h p = h_files h0 p" using assms(2) by (simp add: preparing_def outside_same_def)
  let ?sha = "st_SHA256 (the (map_of (doc_Resources (pm_candidate pm)) (the (map_of (pm_candidateNames pm) name))))"
  have entry: "file\<lparr> tf_CandidateSHA256 := ?sha \<rparr> = entryOf pm (index, name)" and name: "tf_Name file = name"
    using Some by (simp_all add: assms(3) entryOf_def)
  have staged: "staged_ok ext pm h0 (entryOf pm (index, name))"
    if "h_files h p = Some (Regular body)" "readable (pm_maxBytes pm) body" "digest ext body = ?sha" for body
    using that Some same by (auto simp: staged_ok_def) (simp add: entryOf_def)
  show ?thesis
    unfolding checkStaged_def Let_def name Some
    by (auto simp: entry fail_if_def intro!: wp_bind wp_catch wp_readManaged wp_then staged split: option.split)
qed

lemma prior_ok_candidate: "prior_ok ext pm h0 h (file\<lparr> tf_CandidateSHA256 := c \<rparr>) = prior_ok ext pm h0 h file"
  by (simp add: prior_ok_def)

definition secured :: "externals \<Rightarrow> promotion \<Rightarrow> Home \<Rightarrow> transactionFile list \<Rightarrow> Home \<Rightarrow> bool" where
  "secured ext pm h0 files h \<longleftrightarrow>
     preparing pm h0 h \<and> (\<forall>file \<in> set files. prior_ok ext pm h0 h file \<and> staged_ok ext pm h0 file)"

lemma wp_journalFiles:
  assumes "promotion_ok ext pm" and "secured ext pm h0 files h"
  shows "wp (journalFiles ext pm index files names)
    (\<lambda>files' h. files' = files @ map (entryOf pm) (enumerate index names) \<and> secured ext pm h0 files' h)
    (\<lambda>_. preparing pm h0) (preparing pm h0) h"
  using assms(2)
proof (induction names arbitrary: index files h)
  case (Cons name names)
  let ?e = "entryOf pm (index, name)"
  let ?Q = "\<lambda>files' h. files' = files @ map (entryOf pm) (enumerate index (name # names)) \<and> secured ext pm h0 files' h"
  have cont: "wp (journalFiles ext pm (Suc index) (files @ [?e]) names) ?Q (\<lambda>_. preparing pm h0) (preparing pm h0) g"
    if "preparing pm h0 g" "\<forall>f \<in> set files. prior_ok ext pm h0 g f" "prior_ok ext pm h0 g ?e" "staged_ok ext pm h0 ?e" for g
    using Cons.IH [of "files @ [?e]" g "Suc index"] that Cons.prems by (simp add: secured_def)
  have check: "wp (checkStaged ext pm f) (\<lambda>f. wp (journalFiles ext pm (Suc index) (files @ [f]) names) ?Q
        (\<lambda>_. preparing pm h0) (preparing pm h0)) (\<lambda>_. preparing pm h0) (preparing pm h0) g"
    if "preparing pm h0 g" "\<forall>f \<in> set files. prior_ok ext pm h0 g f" "prior_ok ext pm h0 g f"
      and f: "f = ?e\<lparr> tf_CandidateSHA256 := '''' \<rparr>" for f g
    by (rule wp_mono [OF wp_checkStaged [OF assms(1) that(1) f]])
      (use that cont [of g] in \<open>auto simp: prior_ok_candidate\<close>)
  have "wp (backupFile ext pm index name) (\<lambda>f. wp (checkStaged ext pm f) (\<lambda>f. wp (journalFiles ext pm (Suc index) (files @ [f]) names) ?Q
        (\<lambda>_. preparing pm h0) (preparing pm h0)) (\<lambda>_. preparing pm h0) (preparing pm h0))
      (\<lambda>_. preparing pm h0) (preparing pm h0) h"
    by (rule wp_mono [OF wp_backupFile [of pm h0 h files]]) (use Cons.prems check in \<open>auto simp: secured_def\<close>)
  then show ?case
    unfolding journalFiles.simps
    by (intro wp_bind) (rule wp_mono, assumption, auto intro: wp_bind)
qed simp

section \<open>Promotion\<close>

definition journalFor :: "promotion \<Rightarrow> transactionJournal" where
  "journalFor pm = journalOf pm (entries pm)"

lemma journalFor_simps [simp]:
  "tj_Files (journalFor pm) = entries pm" "tj_BackupDir (journalFor pm) = pm_dir pm" "tj_MaxBytes (journalFor pm) = pm_maxBytes pm"
  "tj_Previous (journalFor pm) = pm_previous pm" "tj_Candidate (journalFor pm) = pm_candidate pm" "tj_Phase (journalFor pm) = ''promoting''"
  by (simp_all add: journalFor_def journalOf_def)

lemma secured_pending:
  assumes "promotion_ok ext pm" and "secured ext pm h0 (entries pm) h" and "h_state h0 \<noteq> Unsafe"
  shows "pending ext (journalFor pm) (\<lambda>n. h_files h0 (InHome n)) (h\<lparr> h_journal := Doc (journalFor pm) \<rparr>)"
proof -
  have home: "h_files h (InHome n) = h_files h0 (InHome n)" for n
    using assms(2) by (simp add: secured_def preparing_def outside_same_def)
  have "file_ok ext (journalFor pm) (\<lambda>n. h_files h0 (InHome n)) (h\<lparr> h_journal := Doc (journalFor pm) \<rparr>) f"
    if "f \<in> set (entries pm)" for f
  proof -
    from assms(2) that have "prior_ok ext pm h0 h f" by (simp add: secured_def)
    then show ?thesis by (auto simp: prior_ok_def file_ok_def home split: if_splits)
  qed
  moreover have "validateJournal ext (journalFor pm) = None" using journal_valid [OF assms(1)] by (simp add: journalFor_def)
  ultimately show ?thesis
    using assms(2,3) home by (simp add: pending_def secured_def preparing_def outside_same_def names_entries distinct_promotedNames)
qed

lemma candidate_sha:
  assumes "promotion_ok ext pm" and "map_of (pm_nameToPath pm) name \<noteq> None"
  shows "tf_CandidateSHA256 (entryOf pm (index, name)) \<noteq> ''''"
proof -
  have "map_of (pm_candidateNames pm) name \<noteq> None" using assms by (simp add: promotion_ok_def)
  then obtain ident where ident: "map_of (pm_candidateNames pm) name = Some ident" by auto
  have "pm_candidateNames pm = map (\<lambda>(ident, state). (resourceFilename ext ident state, ident)) (doc_Resources (pm_candidate pm))"
    using assms(1) manifestNames_Inr(1) by (simp add: promotion_ok_def)
  with map_of_SomeD [OF ident] have "ident \<in> fst ` set (doc_Resources (pm_candidate pm))" by force
  then obtain state where state: "map_of (doc_Resources (pm_candidate pm)) ident = Some state"
    by (metis map_of_eq_None_iff option.exhaust)
  have "validateEntry (ident, state) = None"
    using assms(1) map_of_SomeD [OF state] by (auto simp: promotion_ok_def validateStateDocument_def list_all_iff)
  then have "length (st_SHA256 state) = 64" by (simp add: validateEntry_def)
  with assms(2) ident state show ?thesis by (auto simp: entryOf_def)
qed

text \<open>The content promotion gives to a file.\<close>

definition promoted :: "promotion \<Rightarrow> Home \<Rightarrow> string \<Rightarrow> node option" where
  "promoted pm h0 name = (case map_of (pm_nameToPath pm) name of Some p \<Rightarrow> h_files h0 p | None \<Rightarrow> None)"

definition promoting :: "externals \<Rightarrow> promotion \<Rightarrow> Home \<Rightarrow> transactionFile list \<Rightarrow> Home \<Rightarrow> bool" where
  "promoting ext pm h0 files h \<longleftrightarrow>
     pending ext (journalFor pm) (\<lambda>n. h_files h0 (InHome n)) h
     \<and> (\<forall>d n. d \<noteq> pm_dir pm \<longrightarrow> h_files h (InDir d n) = h_files h0 (InDir d n))
     \<and> (\<forall>file \<in> set files. h_files h (InHome (tf_Name file)) = promoted pm h0 (tf_Name file))"

lemma promoting_upd:
  assumes "promotion_ok ext pm" and "promoting ext pm h0 dn h" and "file \<in> set (entries pm)" and "staged_ok ext pm h0 file"
  shows "promoting ext pm h0 (dn @ [file]) (upd_file (InHome (tf_Name file)) (promoted pm h0 (tf_Name file)) h)"
proof -
  obtain i where f: "file = entryOf pm (i, tf_Name file)" using assms(3) by (auto simp: entries_def)
  have "pending ext (journalFor pm) (\<lambda>n. h_files h0 (InHome n))
      (upd_file (InHome (tf_Name file)) (promoted pm h0 (tf_Name file)) h)"
  proof (rule pending_upd)
    show "pending ext (journalFor pm) (\<lambda>n. h_files h0 (InHome n)) h" using assms(2) by (simp add: promoting_def)
    show "file \<in> set (tj_Files (journalFor pm))" using assms(3) by simp
    show "promoted pm h0 (tf_Name file) \<noteq> Some Irregular"
      using assms(4) by (auto simp: promoted_def staged_ok_def split: option.split)
    show "promoted pm h0 (tf_Name file) = None \<or> (\<exists>body. promoted pm h0 (tf_Name file) = Some (Regular body)
        \<and> readable (tj_MaxBytes (journalFor pm)) body \<and> tf_CandidateSHA256 file \<noteq> '''' \<and> digest ext body = tf_CandidateSHA256 file)"
    proof (cases "map_of (pm_nameToPath pm) (tf_Name file)")
      case (Some p)
      then have "tf_CandidateSHA256 file \<noteq> ''''" using candidate_sha [OF assms(1), of "tf_Name file" i] f by simp
      with Some assms(4) show ?thesis by (auto simp: promoted_def staged_ok_def)
    qed (simp add: promoted_def)
  qed
  with assms(2) show ?thesis by (auto simp: promoting_def)
qed

lemma wp_promoteFile:
  assumes "promotion_ok ext pm" and "promoting ext pm h0 dn h" and "file \<in> set (entries pm)" and "staged_ok ext pm h0 file"
  shows "wp (promoteFile pm file) (\<lambda>_. promoting ext pm h0 (dn @ [file]))
    (\<lambda>_. pending ext (journalFor pm) (\<lambda>n. h_files h0 (InHome n))) (pending ext (journalFor pm) (\<lambda>n. h_files h0 (InHome n))) h"
proof -
  note upd = promoting_upd [OF assms]
  have p: "pending ext (journalFor pm) (\<lambda>n. h_files h0 (InHome n)) h" using assms(2) by (simp add: promoting_def)
  have p': "pending ext (journalFor pm) (\<lambda>n. h_files h0 (InHome n))
      (upd_file (InHome (tf_Name file)) (promoted pm h0 (tf_Name file)) h)" using upd by (simp add: promoting_def)
  show ?thesis
  proof (cases "map_of (pm_nameToPath pm) (tf_Name file)")
    case (Some q)
    with assms(1) obtain d n where "q = InDir d n" "d \<noteq> pm_dir pm" by (fastforce simp: promotion_ok_def)
    then have "h_files h q = h_files h0 q" using assms(2) by (simp add: promoting_def)
    with Some have "h_files h q = promoted pm h0 (tf_Name file)" by (simp add: promoted_def)
    with Some upd p p' show ?thesis
      unfolding promoteFile_def by (auto intro!: wp_bind wp_readManaged wp_writeManagedAtomic)
  next
    case None
    then have none: "promoted pm h0 (tf_Name file) = None" by (simp add: promoted_def)
    have absent: "promoting ext pm h0 (dn @ [file]) h" if "h_files h (InHome (tf_Name file)) = None"
      using that assms(2) none by (auto simp: promoting_def)
    have "h_files h (InHome (tf_Name file)) = None" if "\<not> tf_HadPrevious file"
    proof -
      from assms(3) obtain i n where "file = entryOf pm (i, n)" by (auto simp: entries_def)
      with None have "tf_CandidateSHA256 file = ''''" by (simp add: entryOf_def)
      moreover have "file_ok ext (journalFor pm) (\<lambda>n. h_files h0 (InHome n)) h file" using p assms(3) by (simp add: pending_def)
      ultimately show ?thesis using that by (auto simp: file_ok_def)
    qed
    with None absent upd p p' none show ?thesis
      unfolding promoteFile_def removeManaged_def by (auto intro!: wp_bind split: option.split node.split)
  qed
qed

definition committed :: "externals \<Rightarrow> promotion \<Rightarrow> Home \<Rightarrow> Home \<Rightarrow> bool" where
  "committed ext pm h0 h \<longleftrightarrow>
     h_state h = Doc (pm_candidate pm)
     \<and> (\<forall>entry \<in> set (doc_Resources (pm_candidate pm)). entry_present ext (pm_maxBytes pm) h entry)
     \<and> (\<forall>n. h_files h (InHome n) = (if n \<in> set (promotedNames pm) then promoted pm h0 n else h_files h0 (InHome n)))"

lemma promoting_all:
  assumes "promoting ext pm h0 (entries pm) h"
    and "\<forall>entry \<in> set (doc_Resources (pm_candidate pm)). entry_present ext (pm_maxBytes pm) h entry"
  shows "committed ext pm h0 (h\<lparr> h_state := Doc (pm_candidate pm) \<rparr>)"
proof -
  have names: "set (promotedNames pm) = tf_Name ` set (entries pm)" using names_entries [of pm] by (metis set_map)
  have "\<forall>entry \<in> set (doc_Resources (pm_candidate pm)).
      entry_present ext (pm_maxBytes pm) (h\<lparr> h_state := Doc (pm_candidate pm) \<rparr>) entry"
    using assms(2) by (simp add: entry_present_def)
  with assms(1) show ?thesis unfolding committed_def names by (auto simp: promoting_def pending_def)
qed

lemma wp_promoteFiles:
  assumes "promotion_ok ext pm" and "promoting ext pm h0 [] h" and "\<forall>file \<in> set (entries pm). staged_ok ext pm h0 file"
  shows "wp (promoteFiles ext pm (entries pm))
    (\<lambda>_ h. pending ext (journalFor pm) (\<lambda>n. h_files h0 (InHome n)) h \<and> committed ext pm h0 h)
    (\<lambda>_. pending ext (journalFor pm) (\<lambda>n. h_files h0 (InHome n))) (pending ext (journalFor pm) (\<lambda>n. h_files h0 (InHome n))) h"
  unfolding promoteFiles_def
proof (rule wp_then, rule wp_each [where I = "\<lambda>dn _. promoting ext pm h0 dn"])
  fix dn f todo g assume "entries pm = dn @ f # todo" and "promoting ext pm h0 dn g"
  then show "wp (promoteFile pm f) (\<lambda>_. promoting ext pm h0 (dn @ [f]))
      (\<lambda>_. pending ext (journalFor pm) (\<lambda>n. h_files h0 (InHome n))) (pending ext (journalFor pm) (\<lambda>n. h_files h0 (InHome n))) g"
    using assms(3) by (intro wp_promoteFile [OF assms(1)]) auto
next
  fix g assume g: "promoting ext pm h0 (entries pm) g"
  then have p: "pending ext (journalFor pm) (\<lambda>n. h_files h0 (InHome n)) g" by (simp add: promoting_def)
  have "wp (writeStateAtomic (pm_candidate pm))
      (\<lambda>_ h. pending ext (journalFor pm) (\<lambda>n. h_files h0 (InHome n)) h \<and> committed ext pm h0 h)
      (\<lambda>_. pending ext (journalFor pm) (\<lambda>n. h_files h0 (InHome n))) (pending ext (journalFor pm) (\<lambda>n. h_files h0 (InHome n))) g"
    if "\<forall>entry \<in> set (doc_Resources (pm_candidate pm)). entry_present ext (pm_maxBytes pm) g entry"
    using g p that by (intro wp_writeStateAtomic) (simp_all add: pending_state promoting_all)
  with p show "wp (then_io syncDirectory (then_io (verifyManifestFiles ext (pm_candidate pm) (pm_maxBytes pm)) (writeStateAtomic (pm_candidate pm))))
      (\<lambda>_ h. pending ext (journalFor pm) (\<lambda>n. h_files h0 (InHome n)) h \<and> committed ext pm h0 h)
      (\<lambda>_. pending ext (journalFor pm) (\<lambda>n. h_files h0 (InHome n))) (pending ext (journalFor pm) (\<lambda>n. h_files h0 (InHome n))) g"
    unfolding syncDirectory_def by (auto intro!: wp_then wp_verifyManifestFiles)
qed (rule assms(2))

text \<open>
  However promotion ends, either nothing outside the new directory has changed, or the transaction is
  pending, or it has been rolled back.
\<close>

definition recoverable :: "externals \<Rightarrow> promotion \<Rightarrow> Home \<Rightarrow> Home \<Rightarrow> bool" where
  "recoverable ext pm h0 h \<longleftrightarrow>
     outside_same (pm_dir pm) h0 h \<or> pending ext (journalFor pm) (\<lambda>n. h_files h0 (InHome n)) h
     \<or> restored (journalFor pm) (\<lambda>n. h_files h0 (InHome n)) h"

lemma outside_same_trans: "outside_same dir h g \<Longrightarrow> outside_same dir g k \<Longrightarrow> outside_same dir h k"
  by (simp add: outside_same_def)

lemma wp_discardDir:
  assumes "outside_same (pm_dir pm) h0 h"
  shows "wp (discardDir (pm_dir pm) e) Q (\<lambda>_. recoverable ext pm h0) (recoverable ext pm h0) h"
  unfolding discardDir_def
  by (auto intro!: wp_then wp_try wp_RemoveAll [where P = "outside_same (pm_dir pm) h0"]
      intro: outside_same_trans [OF assms] simp: recoverable_def)

lemma wp_failPromotion_recoverable:
  assumes "pending ext (journalFor pm) (\<lambda>n. h_files h0 (InHome n)) h"
  shows "wp (failPromotion ext dir e) Q (\<lambda>_. recoverable ext pm h0) (recoverable ext pm h0) h"
  by (rule wp_mono [OF wp_failPromotion [OF assms]]) (auto simp: recoverable_def)

lemma wp_prepareJournal:
  assumes "promotion_ok ext pm" and "preparing pm h0 h"
  shows "wp (prepareJournal ext pm) (\<lambda>files h. files = entries pm \<and> secured ext pm h0 files h \<and> h_journal h = Absent)
    (\<lambda>_. preparing pm h0) (preparing pm h0) h"
proof -
  have sec: "secured ext pm h0 [] h" using assms(2) by (simp add: secured_def)
  have tail: "wp (then_io syncDirectory (bind_io (read_io h_journal) (\<lambda>file.
        if file \<noteq> Absent then fail_io (Errorf ''resources: another resource transaction is pending'' []) else return_io files)))
      (\<lambda>files h. files = entries pm \<and> secured ext pm h0 files h \<and> h_journal h = Absent) (\<lambda>_. preparing pm h0) (preparing pm h0) g"
    if "files = entries pm" "secured ext pm h0 files g" for files g
    using that unfolding syncDirectory_def by (auto intro!: wp_then wp_bind simp: secured_def)
  show ?thesis
    unfolding prepareJournal_def
    by (rule wp_bind, rule wp_mono [OF wp_journalFiles [OF assms(1) sec]]) (auto intro: tail simp: entries_def [symmetric])
qed

lemma wp_promoteWith:
  assumes "promotion_ok ext pm" and "preparing pm h0 h" and "h_state h0 \<noteq> Unsafe"
  shows "wp (promoteWith ext pm)
    (\<lambda>dir h. dir = pm_dir pm \<and> pending ext (journalFor pm) (\<lambda>n. h_files h0 (InHome n)) h \<and> committed ext pm h0 h)
    (\<lambda>_. recoverable ext pm h0) (recoverable ext pm h0) h"
proof -
  let ?Q = "\<lambda>dir h. dir = pm_dir pm \<and> pending ext (journalFor pm) (\<lambda>n. h_files h0 (InHome n)) h \<and> committed ext pm h0 h"
  have out: "outside_same (pm_dir pm) h0 g" if "preparing pm h0 g" for g using that by (simp add: preparing_def)
  have promo: "wp (then_io (catch_io (promoteFiles ext pm (entries pm)) (failPromotion ext (pm_dir pm))) (return_io (pm_dir pm))) ?Q
      (\<lambda>_. recoverable ext pm h0) (recoverable ext pm h0) (g\<lparr> h_journal := Doc (journalFor pm) \<rparr>)"
    if g: "secured ext pm h0 (entries pm) g" for g
  proof -
    have "promoting ext pm h0 [] (g\<lparr> h_journal := Doc (journalFor pm) \<rparr>)"
      using secured_pending [OF assms(1) g assms(3)] g by (simp add: promoting_def secured_def preparing_def outside_same_def)
    then have run: "wp (promoteFiles ext pm (entries pm))
        (\<lambda>_ h. pending ext (journalFor pm) (\<lambda>n. h_files h0 (InHome n)) h \<and> committed ext pm h0 h)
        (\<lambda>_. pending ext (journalFor pm) (\<lambda>n. h_files h0 (InHome n))) (pending ext (journalFor pm) (\<lambda>n. h_files h0 (InHome n)))
        (g\<lparr> h_journal := Doc (journalFor pm) \<rparr>)"
      using wp_promoteFiles [OF assms(1)] g by (simp add: secured_def)
    show ?thesis
      by (intro wp_then wp_catch, rule wp_mono [OF run])
        (auto simp: recoverable_def [of ext pm h0] intro: wp_failPromotion_recoverable)
  qed
  have journal: "wp (then_io (catch_io (writeJSONAtomic (journalOf pm (entries pm))) (\<lambda>err.
        bind_io (read_io h_journal) (\<lambda>file. if file \<noteq> Absent then failPromotion ext (pm_dir pm) err else discardDir (pm_dir pm) err)))
      (then_io (catch_io (promoteFiles ext pm (entries pm)) (failPromotion ext (pm_dir pm))) (return_io (pm_dir pm)))) ?Q
      (\<lambda>_. recoverable ext pm h0) (recoverable ext pm h0) g"
    if g: "secured ext pm h0 (entries pm) g" "h_journal g = Absent" for g
  proof -
    have p: "pending ext (journalFor pm) (\<lambda>n. h_files h0 (InHome n)) (g\<lparr> h_journal := Doc (journalFor pm) \<rparr>)"
      by (rule secured_pending [OF assms(1) g(1) assms(3)])
    have o: "outside_same (pm_dir pm) h0 g" using g(1) by (simp add: secured_def out)
    show ?thesis
      unfolding journalFor_def [symmetric]
      using promo [OF g(1)] p o g(2)
      by (auto intro!: wp_then wp_catch wp_writeJSONAtomic wp_bind wp_failPromotion_recoverable [OF p] wp_discardDir [OF o]
          simp: recoverable_def [of ext pm h0])
  qed
  have prep: "wp (catch_io (prepareJournal ext pm) (discardDir (pm_dir pm)))
      (\<lambda>files h. files = entries pm \<and> secured ext pm h0 files h \<and> h_journal h = Absent) (\<lambda>_. recoverable ext pm h0) (recoverable ext pm h0) h"
    by (rule wp_catch, rule wp_mono [OF wp_prepareJournal [OF assms(1,2)]])
      (auto intro!: wp_discardDir out simp: recoverable_def [of ext pm h0])
  show ?thesis
    unfolding promoteWith_def by (rule wp_bind, rule wp_mono [OF prep]) (auto intro: journal)
qed

section \<open>The whole promotion\<close>

lemma stateOf_valid:
  assumes "stateOf ext h = Inr document"
  shows "validateStateDocument ext document = None" and "h_state h \<noteq> Unsafe"
proof -
  have "validateStateDocument ext emptyDocument = None"
    by (simp add: validateStateDocument_def emptyDocument_def manifestNames_def)
  then show "validateStateDocument ext document = None" "h_state h \<noteq> Unsafe"
    using assms by (auto simp: stateOf_def split: doc_file.splits option.splits)
qed

lemma transactionDir_valid:
  assumes "length ident = 32" and "hex_DecodeString_ok ident"
  shows "validPrivateDir (transactionDirPrefix @ ident) \<and> strings_HasPrefix (transactionDirPrefix @ ident) transactionDirPrefix"
  using assms by (simp add: validPrivateDir_def strings_HasPrefix_def strings_TrimPrefix_def)

lemma stagedNames_covers:
  assumes "manifestNames ext candidate = Inr names" and "stagedNames ext candidate [] staged = Inr nameToPath"
    and "list_all (\<lambda>(name, ident). map_of nameToPath name \<noteq> None) names"
  shows "map_of nameToPath name = None \<longleftrightarrow> map_of names name = None"
proof
  assume none: "map_of nameToPath name = None"
  show "map_of names name = None"
  proof (rule ccontr)
    assume "map_of names name \<noteq> None"
    then obtain ident where "(name, ident) \<in> set names" by (metis map_of_SomeD option.exhaust)
    with assms(3) none show False by (auto simp: list_all_iff)
  qed
next
  assume none: "map_of names name = None"
  show "map_of nameToPath name = None"
  proof (rule ccontr)
    assume "map_of nameToPath name \<noteq> None"
    then obtain p where "(name, p) \<in> set nameToPath" by (metis map_of_SomeD option.exhaust)
    with stagedNames_Inr [OF assms(2)] obtain ident state
      where "(ident, state) \<in> set (doc_Resources candidate)" "name = resourceFilename ext ident state" by fastforce
    then have "(name, ident) \<in> set names" using manifestNames_Inr(1) [OF assms(1)] by force
    with none show False by (metis map_of_eq_None_iff fst_conv image_eqI)
  qed
qed

text \<open>The staged files lie in other directories than the one promotion creates.\<close>

definition staged_apart :: "string \<Rightarrow> (string \<times> path) list \<Rightarrow> bool" where
  "staged_apart commitID staged =
     list_all (\<lambda>(ident, p). case p of InDir d n \<Rightarrow> d \<noteq> transactionDirPrefix @ commitID | InHome n \<Rightarrow> False) staged"

definition promotion_pre ::
  "externals \<Rightarrow> int \<Rightarrow> string \<Rightarrow> stateDocument \<Rightarrow> stateDocument \<Rightarrow> (string \<times> path) list \<Rightarrow> Home \<Rightarrow> bool" where
  "promotion_pre ext maxBytes commitID previous candidate staged h \<longleftrightarrow>
     h_journal h = Absent \<and> stateOf ext h = Inr previous \<and> validateStateDocument ext candidate = None \<and> 0 < maxBytes
     \<and> length commitID = 32 \<and> hex_DecodeString_ok commitID \<and> staged_apart commitID staged
     \<and> length (doc_Resources previous) + length (doc_Resources candidate) \<le> 16 ^ 8"

definition promotionOf ::
  "externals \<Rightarrow> int \<Rightarrow> string \<Rightarrow> stateDocument \<Rightarrow> stateDocument \<Rightarrow> (string \<times> path) list \<Rightarrow> promotion" where
  "promotionOf ext maxBytes commitID previous candidate staged =
     \<lparr> pm_previous = previous, pm_candidate = candidate, pm_previousNames = projr (manifestNames ext previous),
       pm_candidateNames = projr (manifestNames ext candidate), pm_nameToPath = projr (stagedNames ext candidate [] staged),
       pm_dir = transactionDirPrefix @ commitID, pm_maxBytes = maxBytes \<rparr>"

lemma promotionOf_ok:
  assumes "promotion_pre ext maxBytes commitID previous candidate staged h" and "doc_Version candidate = 2"
    and "manifestNames ext previous = Inr previousNames" and "manifestNames ext candidate = Inr candidateNames"
    and "stagedNames ext candidate [] staged = Inr nameToPath"
    and "list_all (\<lambda>(name, ident). map_of nameToPath name \<noteq> None) candidateNames"
  shows "promotion_ok ext (promotionOf ext maxBytes commitID previous candidate staged)"
proof -
  note pre = assms(1) [unfolded promotion_pre_def]
  have "length previousNames = length (doc_Resources previous)" "length candidateNames = length (doc_Resources candidate)"
    using manifestNames_Inr(1) [OF assms(3)] manifestNames_Inr(1) [OF assms(4)] by simp_all
  moreover have "\<exists>d n. p = InDir d n \<and> d \<noteq> transactionDirPrefix @ commitID" if "map_of nameToPath name = Some p" for name p
  proof -
    from map_of_SomeD [OF that] stagedNames_Inr [OF assms(5)] obtain ident where "(ident, p) \<in> set staged" by fastforce
    with pre show ?thesis by (auto simp: staged_apart_def list_all_iff split: path.splits)
  qed
  ultimately show ?thesis
    using pre assms(2-6) stagedNames_covers [OF assms(4-6)] stateOf_valid(1) [of ext h] transactionDir_valid [of commitID]
    by (simp add: promotion_ok_def promotionOf_def)
qed

lemma wp_promote:
  assumes "promotion_pre ext maxBytes commitID previous candidate staged h"
  shows "wp (promote ext maxBytes commitID previous candidate staged)
    (\<lambda>dir h'. promotion_ok ext (promotionOf ext maxBytes commitID previous candidate staged)
       \<and> stagedNames ext candidate [] staged = Inr (pm_nameToPath (promotionOf ext maxBytes commitID previous candidate staged))
       \<and> dir = transactionDirPrefix @ commitID
       \<and> pending ext (journalFor (promotionOf ext maxBytes commitID previous candidate staged)) (\<lambda>n. h_files h (InHome n)) h'
       \<and> committed ext (promotionOf ext maxBytes commitID previous candidate staged) h h')
    (\<lambda>_. recoverable ext (promotionOf ext maxBytes commitID previous candidate staged) h)
    (recoverable ext (promotionOf ext maxBytes commitID previous candidate staged) h) h"
    (is "wp _ ?Q ?R ?C h")
proof -
  let ?pm = "promotionOf ext maxBytes commitID previous candidate staged"
  have here: "recoverable ext ?pm h h" by (simp add: recoverable_def outside_same_def)
  have main: "wp (bind_io (wrap_io ''resources: create transaction directory: %w'' [] (makePrivateDir commitID transactionDirPrefix))
      (\<lambda>dir. promoteWith ext \<lparr> pm_previous = previous, pm_candidate = candidate, pm_previousNames = previousNames,
         pm_candidateNames = candidateNames, pm_nameToPath = nameToPath, pm_dir = dir, pm_maxBytes = maxBytes \<rparr>)) ?Q ?R ?C h"
    if "doc_Version candidate = 2" "manifestNames ext previous = Inr previousNames" "manifestNames ext candidate = Inr candidateNames"
      "stagedNames ext candidate [] staged = Inr nameToPath" "list_all (\<lambda>(name, ident). map_of nameToPath name \<noteq> None) candidateNames"
    for previousNames candidateNames nameToPath
  proof -
    let ?dir = "transactionDirPrefix @ commitID"
    let ?h = "h\<lparr> h_dirs := ?dir # h_dirs h \<rparr>"
    have ok: "promotion_ok ext ?pm" by (rule promotionOf_ok [OF assms that])
    have pm: "?pm = \<lparr> pm_previous = previous, pm_candidate = candidate, pm_previousNames = previousNames,
        pm_candidateNames = candidateNames, pm_nameToPath = nameToPath, pm_dir = ?dir, pm_maxBytes = maxBytes \<rparr>"
      using that by (simp add: promotionOf_def)
    have prep: "preparing ?pm h ?h" by (simp add: preparing_def outside_same_def promotionOf_def)
    have st: "h_state h \<noteq> Unsafe" using assms stateOf_valid(2) by (auto simp: promotion_pre_def)
    have names: "stagedNames ext candidate [] staged = Inr (pm_nameToPath ?pm)" using that(4) pm by simp
    have run: "wp (promoteWith ext ?pm) ?Q ?R ?C ?h"
    proof (rule wp_mono [OF wp_promoteWith [OF ok prep st]])
      have "pm_dir ?pm = ?dir" by (simp add: promotionOf_def)
      then show "?Q dir g" if "dir = pm_dir ?pm \<and> pending ext (journalFor ?pm) (\<lambda>n. h_files h (InHome n)) g \<and> committed ext ?pm h g" for dir g
        using that ok names by metis
    qed
    have "recoverable ext ?pm h ?h" by (simp add: recoverable_def outside_same_def)
    with run here show ?thesis
      unfolding makePrivateDir_def
      by (intro wp_bind wp_wrap) (simp, intro conjI impI wp_then, simp_all add: pm)
  qed
  show ?thesis
    unfolding promote_def ensureRoot_def using here main
    by (auto intro!: wp_then wp_bind simp: fail_if_def split: option.split sum.split)
qed

section \<open>Acceptance\<close>

lemma validateFiles_phase:
  "validateFiles previous candidate (journal\<lparr> tj_Phase := ph \<rparr>) seen backups files = validateFiles previous candidate journal seen backups files"
  by (induction files arbitrary: seen backups) (simp_all add: Let_def cong: if_cong option.case_cong)

lemma sameEntry_phase: "sameEntry (journal\<lparr> tj_Phase := ph \<rparr>) = sameEntry journal"
  by (intro ext) (simp add: sameEntry_def split: prod.split option.split)

lemma validateJournal_accepted:
  "tj_Phase journal = ''promoting'' \<Longrightarrow> validateJournal ext (journal\<lparr> tj_Phase := ''accepted'' \<rparr>) = validateJournal ext journal"
  by (cases "validateStateDocument ext (tj_Candidate journal)"; cases "validateStateDocument ext (tj_Previous journal)")
    (simp_all add: validateJournal_def validateFiles_phase sameEntry_phase Let_def)

lemma validateJournal_candidate:
  assumes "validateJournal ext journal = None"
  shows "validateStateDocument ext (tj_Candidate journal) = None" and "doc_Version (tj_Candidate journal) = 2"
    and "validateStateDocument ext (tj_Previous journal) = None"
  using assms by (auto simp: validateJournal_def split: if_splits option.splits)

text \<open>
  The manifest and the files a transaction installs, \<open>F\<close> being all files of the directory; the accepted
  transaction; and the directory once its journal is gone.
\<close>

definition installed :: "externals \<Rightarrow> transactionJournal \<Rightarrow> (string \<Rightarrow> node option) \<Rightarrow> Home \<Rightarrow> bool" where
  "installed ext journal F h \<longleftrightarrow>
     h_state h = Doc (tj_Candidate journal)
     \<and> (\<forall>entry \<in> set (doc_Resources (tj_Candidate journal)). entry_present ext (tj_MaxBytes journal) h entry)
     \<and> (\<forall>n. h_files h (InHome n) = F n)"

definition accepted :: "externals \<Rightarrow> transactionJournal \<Rightarrow> (string \<Rightarrow> node option) \<Rightarrow> Home \<Rightarrow> bool" where
  "accepted ext journal F h \<longleftrightarrow>
     h_journal h = Doc (journal\<lparr> tj_Phase := ''accepted'' \<rparr>) \<and> tj_BackupDir journal \<in> set (h_dirs h) \<and> installed ext journal F h"

definition finished :: "externals \<Rightarrow> transactionJournal \<Rightarrow> (string \<Rightarrow> node option) \<Rightarrow> Home \<Rightarrow> bool" where
  "finished ext journal F h \<longleftrightarrow> h_journal h = Absent \<and> installed ext journal F h"

lemma committed_installed:
  "committed ext pm h0 h \<Longrightarrow> installed ext (journalFor pm) (\<lambda>n. h_files h (InHome n)) h"
  by (simp add: committed_def installed_def)

lemma installed_outside: "installed ext journal F h \<Longrightarrow> outside_same dir h h' \<Longrightarrow> installed ext journal F h'"
  by (auto simp: installed_def outside_same_def entry_present_def)

lemma finished_outside: "finished ext journal F h \<Longrightarrow> outside_same dir h h' \<Longrightarrow> finished ext journal F h'"
  using installed_outside by (auto simp: finished_def outside_same_def)

lemma installed_journal [simp]: "installed ext journal F (h\<lparr> h_journal := j \<rparr>) = installed ext journal F h"
  by (simp add: installed_def entry_present_def)

lemma wp_removeTransaction:
  assumes "accepted ext journal F h"
  shows "wp (removeTransaction dir) (\<lambda>_. finished ext journal F) (\<lambda>_ h. accepted ext journal F h \<or> finished ext journal F h)
    (\<lambda>h. accepted ext journal F h \<or> finished ext journal F h) h"
proof -
  have f: "finished ext journal F (h\<lparr> h_journal := Absent \<rparr>)" using assms by (simp add: accepted_def finished_def)
  then show ?thesis
    unfolding removeTransaction_def removeJournal_def syncDirectory_def using assms
    by (auto intro!: wp_then wp_try wp_bind wp_RemoveAll [where P = "finished ext journal F"])
      (rule finished_outside [OF f], assumption)
qed

lemma runs_recover_accepted:
  assumes "validateJournal ext journal = None" and "tj_Phase journal = ''promoting''" and "accepted ext journal F h"
  shows "runs (recoverTransaction ext) (\<lambda>_. finished ext journal F) h"
proof -
  let ?j = "journal\<lparr> tj_Phase := ''accepted'' \<rparr>" and ?dir = "tj_BackupDir journal" and ?cand = "tj_Candidate journal"
  have valid: "validateJournal ext ?j = None" using assms(1,2) by (simp add: validateJournal_accepted)
  have dir: "verifyRealDirectory ?dir h = None" using assms(3) by (simp add: accepted_def verifyRealDirectory_def)
  have state: "stateOf ext h = Inr ?cand"
    using assms(3) validateJournal_candidate [OF assms(1)] by (simp add: accepted_def installed_def stateOf_def)
  have files: "\<forall>entry \<in> set (doc_Resources ?cand). entry_present ext (tj_MaxBytes journal) h entry"
    using assms(3) by (simp add: accepted_def installed_def)
  have rm: "runs (removeTransaction ?dir) (\<lambda>_. finished ext journal F) h"
  proof -
    have f: "finished ext journal F (h\<lparr> h_journal := Absent \<rparr>)" using assms(3) by (simp add: accepted_def finished_def)
    have "outside_same ?dir g (g\<lparr> h_dirs := ds, h_files := (\<lambda>p. case p of InDir d n \<Rightarrow> if d = ?dir then None else h_files g p
        | InHome n \<Rightarrow> h_files g p) \<rparr>)" for g ds by (simp add: outside_same_def)
    from finished_outside [OF f this] f show ?thesis
      unfolding removeTransaction_def removeJournal_def syncDirectory_def os_RemoveAll_def
      by (auto intro!: runs_then runs_try runs_bind)
  qed
  have load: "runs (loadStateFile ext) (\<lambda>document g. document = ?cand \<and> g = h) h"
    using state unfolding loadStateFile_def by (auto intro!: runs_then runs_bind)
  have read: "runs (readTransaction ext) (\<lambda>(j, dir) g. j = ?j \<and> dir = ?dir \<and> g = h) h"
    using assms(3) valid dir unfolding readTransaction_def by (auto simp: accepted_def intro!: runs_bind runs_then)
  have v2: "doc_Version ?cand = 2" by (rule validateJournal_candidate [OF assms(1)])
  have body: "runs (let mismatch = Errorf ''resources: accepted transaction has no matching committed manifest'' [] in
      bind_io (catch_io (loadStateFile ext) (\<lambda>_. fail_io mismatch)) (\<lambda>current.
        then_io (check_io (fail_if (doc_Version current \<noteq> 2 \<or> doc_CommitID current \<noteq> doc_CommitID ?cand) mismatch))
       (then_io (verifyManifestFiles ext ?cand (tj_MaxBytes journal)) (removeTransaction ?dir))))
      (\<lambda>_. finished ext journal F) h"
    unfolding Let_def
    by (rule runs_bind, rule runs_catch, rule runs_mono [OF load])
      (use v2 files rm in \<open>auto intro!: runs_then runs_verifyManifestFiles\<close>)
  show ?thesis
    unfolding recoverTransaction_def
    by (rule runs_bind, simp, intro conjI impI)
      (use assms(3) in \<open>simp add: accepted_def\<close>,
       rule runs_bind, rule runs_mono [OF read], use body in auto)
qed

lemma wp_finalizeTransaction:
  assumes "pending ext journal F0 h" and "installed ext journal F h"
  shows "wp (finalizeTransaction ext (tj_BackupDir journal)) (\<lambda>_. finished ext journal F)
    (\<lambda>_ g. g = h \<or> accepted ext journal F g \<or> finished ext journal F g) (\<lambda>g. g = h \<or> accepted ext journal F g \<or> finished ext journal F g) h"
proof -
  have acc: "accepted ext journal F (h\<lparr> h_journal := Doc (journal\<lparr> tj_Phase := ''accepted'' \<rparr>) \<rparr>)"
    using assms by (simp add: accepted_def pending_def)
  have "wp (removeTransaction (tj_BackupDir journal)) (\<lambda>_. finished ext journal F)
      (\<lambda>_ g. g = h \<or> accepted ext journal F g \<or> finished ext journal F g) (\<lambda>g. g = h \<or> accepted ext journal F g \<or> finished ext journal F g)
      (h\<lparr> h_journal := Doc (journal\<lparr> tj_Phase := ''accepted'' \<rparr>) \<rparr>)"
    by (rule wp_mono [OF wp_removeTransaction [OF acc]]) auto
  with acc assms(1) show ?thesis
    unfolding finalizeTransaction_def
    by (auto intro!: wp_bind wp_readTransaction [OF assms(1)] wp_then wp_writeJSONAtomic simp: pending_def)
qed

lemma runs_result:
  assumes "runs m Q h"
  shows "\<exists>x h'. m [] h = (Ret x, [], h') \<and> Q x h'"
  using assms by (simp add: runs_def)

lemma wp_result:
  assumes "wp m Q R C h" and "m fs h = (r, fs', h')"
  shows "case r of Ret x \<Rightarrow> Q x h' | Err e \<Rightarrow> R e h' | Crash \<Rightarrow> C h'"
  using assms(1) [unfolded wp_def, rule_format, of fs] assms(2) by (simp split: outcome.splits)

lemma stagedNames_acc:
  assumes "stagedNames ext candidate acc staged = Inr nameToPath" and "map_of acc name = Some p"
  shows "map_of nameToPath name = Some p"
  using assms
proof (induction ext candidate acc staged rule: stagedNames.induct)
  case (2 ext candidate acc ident q staged)
  from "2.prems"(1) obtain state where st: "map_of (doc_Resources candidate) ident = Some state"
    and rest: "stagedNames ext candidate ((resourceFilename ext ident state, q) # acc) staged = Inr nameToPath"
    and new: "map_of acc (resourceFilename ext ident state) = None"
    by (auto simp: Let_def split: option.splits if_splits)
  from "2.prems"(2) new have "name \<noteq> resourceFilename ext ident state" by auto
  with "2.IH" [OF st refl _ rest] new "2.prems"(2) show ?case by auto
qed simp

lemma stagedNames_lookup:
  assumes "stagedNames ext candidate acc staged = Inr nameToPath" and "(ident, p) \<in> set staged"
  shows "\<exists>state. map_of (doc_Resources candidate) ident = Some state \<and> map_of nameToPath (resourceFilename ext ident state) = Some p"
  using assms
proof (induction ext candidate acc staged rule: stagedNames.induct)
  case (2 ext candidate acc i q staged)
  from "2.prems"(1) obtain state where st: "map_of (doc_Resources candidate) i = Some state"
    and rest: "stagedNames ext candidate ((resourceFilename ext i state, q) # acc) staged = Inr nameToPath"
    and new: "map_of acc (resourceFilename ext i state) = None"
    by (auto simp: Let_def split: option.splits if_splits)
  show ?case
  proof (cases "(ident, p) \<in> set staged")
    case True
    with "2.IH" [OF st refl _ rest] new show ?thesis by auto
  next
    case False
    with "2.prems"(2) have "ident = i" "p = q" by auto
    with st stagedNames_acc [OF rest] show ?thesis by auto
  qed
qed simp

section \<open>Properties\<close>

lemma recover_recoverable:
  assumes "promotion_pre ext maxBytes commitID previous candidate staged h"
    and "recoverable ext (promotionOf ext maxBytes commitID previous candidate staged) h h'"
  shows "\<exists>h''. recoverTransaction ext [] h' = (Ret (), [], h'') \<and> h_journal h'' = Absent \<and> stateOf ext h'' = Inr previous
    \<and> (\<forall>n. h_files h'' (InHome n) = h_files h (InHome n))"
proof -
  let ?pm = "promotionOf ext maxBytes commitID previous candidate staged"
  note pre = assms(1) [unfolded promotion_pre_def]
  have previous: "pm_previous ?pm = previous" by (simp add: promotionOf_def)
  have restored: "h_journal g = Absent \<and> stateOf ext g = Inr previous \<and> (\<forall>n. h_files g (InHome n) = h_files h (InHome n))"
    if "restored (journalFor ?pm) (\<lambda>n. h_files h (InHome n)) g" for g
    using that pre stateOf_valid(1) [of ext h previous] previous by (simp add: restored_def stateOf_def)
  have absent: "recoverTransaction ext [] g = (Ret (), [], g)" if "h_journal g = Absent" for g
    using that by (simp add: recoverTransaction_def bind_io_def read_io_def return_io_def)
  consider (same) "outside_same (pm_dir ?pm) h h'" | (pending) "pending ext (journalFor ?pm) (\<lambda>n. h_files h (InHome n)) h'"
    | (rolled_back) "restored (journalFor ?pm) (\<lambda>n. h_files h (InHome n)) h'"
    using assms(2) by (auto simp: recoverable_def)
  then show ?thesis
  proof cases
    case same
    then have "h_journal h' = Absent" "stateOf ext h' = Inr previous" "\<forall>n. h_files h' (InHome n) = h_files h (InHome n)"
      using pre by (simp_all add: outside_same_def stateOf_def)
    with absent show ?thesis by blast
  next
    case pending
    from runs_result [OF runs_recover_pending [OF pending]] restored show ?thesis by auto
  next
    case rolled_back
    with absent [of h'] restored [OF rolled_back] show ?thesis by blast
  qed
qed

lemma promote_recovers:
  assumes "promotion_pre ext maxBytes commitID previous candidate staged h"
    and "promote ext maxBytes commitID previous candidate staged faults h = (r, faults', h')"
  shows "\<exists>h''. recoverTransaction ext [] h' = (Ret (), [], h'') \<and> h_journal h'' = Absent \<and> stateOf ext h'' = Inr previous
    \<and> (\<forall>n. h_files h'' (InHome n) = h_files h (InHome n))"
proof (rule recover_recoverable [OF assms(1)])
  show "recoverable ext (promotionOf ext maxBytes commitID previous candidate staged) h h'"
    using wp_result [OF wp_promote [OF assms(1)] assms(2)] by (cases r) (auto simp: recoverable_def)
qed

text \<open>What the rest of the program sees of the directory.\<close>

definition home_view :: "externals \<Rightarrow> Home \<Rightarrow> transactionJournal doc_file \<times> (go_error + stateDocument) \<times> (string \<Rightarrow> node option)" where
  "home_view ext h = (h_journal h, stateOf ext h, \<lambda>n. h_files h (InHome n))"

interpretation promo: recoverable_update
  "\<lambda>(maxBytes, commitID, previous, candidate, staged). promote ext maxBytes commitID previous candidate staged"
  "recoverTransaction ext"
  "\<lambda>(maxBytes, commitID, previous, candidate, staged). promotion_pre ext maxBytes commitID previous candidate staged"
  "home_view ext" for ext
proof unfold_locales
  fix i :: "int \<times> string \<times> stateDocument \<times> stateDocument \<times> (string \<times> path) list" and h h' r faults faults'
  obtain maxBytes commitID previous candidate staged where i: "i = (maxBytes, commitID, previous, candidate, staged)" by (cases i)
  assume pre: "(case i of (maxBytes, commitID, previous, candidate, staged) \<Rightarrow> promotion_pre ext maxBytes commitID previous candidate staged) h"
    and run: "(case i of (maxBytes, commitID, previous, candidate, staged) \<Rightarrow> promote ext maxBytes commitID previous candidate staged) faults h
      = (r, faults', h')"
  from promote_recovers [OF pre [unfolded i prod.case] run [unfolded i prod.case]] pre
  show "\<exists>h''. recoverTransaction ext [] h' = (Ret (), [], h'') \<and> home_view ext h'' = home_view ext h"
    by (auto simp: home_view_def i promotion_pre_def)
next
  fix i :: "int \<times> string \<times> stateDocument \<times> stateDocument \<times> (string \<times> path) list" and h h'
  assume "(case i of (maxBytes, commitID, previous, candidate, staged) \<Rightarrow> promotion_pre ext maxBytes commitID previous candidate staged) h"
    and "home_view ext h' = home_view ext h"
  then show "(case i of (maxBytes, commitID, previous, candidate, staged) \<Rightarrow> promotion_pre ext maxBytes commitID previous candidate staged) h'"
    by (auto simp: promotion_pre_def home_view_def)
qed


lemma promote_Ret:
  assumes "promotion_pre ext maxBytes commitID previous candidate staged h"
    and "promote ext maxBytes commitID previous candidate staged faults h = (Ret dir, faults', h')"
  shows "promotion_ok ext (promotionOf ext maxBytes commitID previous candidate staged)"
    and "stagedNames ext candidate [] staged = Inr (pm_nameToPath (promotionOf ext maxBytes commitID previous candidate staged))"
    and "dir = pm_dir (promotionOf ext maxBytes commitID previous candidate staged)"
    and "pending ext (journalFor (promotionOf ext maxBytes commitID previous candidate staged)) (\<lambda>n. h_files h (InHome n)) h'"
    and "committed ext (promotionOf ext maxBytes commitID previous candidate staged) h h'"
  using wp_result [OF wp_promote [OF assms(1)] assms(2)] by (simp_all add: promotionOf_def)

text \<open>
  C4. A promotion that returns has installed exactly the staged files: the manifest is the candidate,
  every staged file is under its managed name, the files of resources that are no longer in the manifest
  are gone, and no other file of the directory has changed.
\<close>

theorem promote_commits:
  assumes "promotion_pre ext maxBytes commitID previous candidate staged h"
    and "promote ext maxBytes commitID previous candidate staged faults h = (Ret dir, faults', h')"
  shows "stateOf ext h' = Inr candidate
    \<and> list_all (\<lambda>(ident, p). h_files h' (InHome (resourceFilename ext ident (the (map_of (doc_Resources candidate) ident)))) = h_files h p) staged
    \<and> (\<forall>n. n \<in> (\<lambda>(ident, state). resourceFilename ext ident state) ` set (doc_Resources previous)
         \<and> n \<notin> (\<lambda>(ident, state). resourceFilename ext ident state) ` set (doc_Resources candidate) \<longrightarrow> h_files h' (InHome n) = None)
    \<and> (\<forall>n. n \<notin> (\<lambda>(ident, state). resourceFilename ext ident state) ` set (doc_Resources previous)
         \<and> n \<notin> (\<lambda>(ident, state). resourceFilename ext ident state) ` set (doc_Resources candidate)
         \<longrightarrow> h_files h' (InHome n) = h_files h (InHome n))"
proof -
  let ?pm = "promotionOf ext maxBytes commitID previous candidate staged"
  note R = promote_Ret [OF assms]
  note ok = R(1) [unfolded promotion_ok_def]
  have fields: "pm_candidate ?pm = candidate" "pm_previous ?pm = previous" by (simp_all add: promotionOf_def)
  have names: "fst ` set (pm_previousNames ?pm) = (\<lambda>(ident, state). resourceFilename ext ident state) ` set (doc_Resources previous)"
      "fst ` set (pm_candidateNames ?pm) = (\<lambda>(ident, state). resourceFilename ext ident state) ` set (doc_Resources candidate)"
    using manifestNames_Inr(1) [of ext previous "pm_previousNames ?pm"] manifestNames_Inr(1) [of ext candidate "pm_candidateNames ?pm"] ok
    by (auto simp: fields image_image split_beta)
  have files: "h_files h' (InHome n) = (if n \<in> set (promotedNames ?pm) then promoted ?pm h n else h_files h (InHome n))" for n
    using R(5) by (simp add: committed_def)
  have "stateOf ext h' = Inr candidate"
    using R(5) ok by (simp add: committed_def stateOf_def fields)
  moreover have "h_files h' (InHome (resourceFilename ext ident (the (map_of (doc_Resources candidate) ident)))) = h_files h p"
    if staged: "(ident, p) \<in> set staged" for ident p
  proof -
    from stagedNames_lookup [OF R(2) staged] obtain state where st: "map_of (doc_Resources candidate) ident = Some state"
      and p: "map_of (pm_nameToPath ?pm) (resourceFilename ext ident state) = Some p" by blast
    have "resourceFilename ext ident state \<in> set (promotedNames ?pm)"
      using map_of_SomeD [OF st] by (force simp: set_promotedNames names)
    with st p show ?thesis by (simp add: files promoted_def)
  qed
  moreover have "h_files h' (InHome n) = None" if "n \<in> fst ` set (pm_previousNames ?pm)" "n \<notin> fst ` set (pm_candidateNames ?pm)" for n
  proof -
    have "map_of (pm_candidateNames ?pm) n = None" using that(2) by (simp add: map_of_eq_None_iff)
    then have "map_of (pm_nameToPath ?pm) n = None" using ok by simp
    with that(1) show ?thesis by (simp add: files promoted_def set_promotedNames)
  qed
  moreover have "h_files h' (InHome n) = h_files h (InHome n)" if "n \<notin> fst ` set (pm_previousNames ?pm)" "n \<notin> fst ` set (pm_candidateNames ?pm)" for n
    using that by (simp add: files set_promotedNames)
  ultimately show ?thesis unfolding names by (auto simp: list_all_iff)
qed

text \<open>
  C2. Accepting a promotion is atomic: whatever fails or dies in \<open>finalizeTransaction\<close>, the recovery at the
  next start succeeds and leaves either the promoted manifest with all promoted files, or the manifest of
  before with all files of before; when \<open>finalizeTransaction\<close> returns it is the former.
\<close>

theorem finalize_atomic:
  assumes "promotion_pre ext maxBytes commitID previous candidate staged h"
    and "promote ext maxBytes commitID previous candidate staged faults h = (Ret dir, faults', h1)"
    and "finalizeTransaction ext dir more_faults h1 = (r, faults'', h2)"
  shows "(\<exists>h3. recoverTransaction ext [] h2 = (Ret (), [], h3) \<and> h_journal h3 = Absent
      \<and> (stateOf ext h3 = Inr candidate \<and> (\<forall>n. h_files h3 (InHome n) = h_files h1 (InHome n))
         \<or> stateOf ext h3 = Inr previous \<and> (\<forall>n. h_files h3 (InHome n) = h_files h (InHome n))))
    \<and> (r = Ret () \<longrightarrow> h_journal h2 = Absent \<and> stateOf ext h2 = Inr candidate \<and> (\<forall>n. h_files h2 (InHome n) = h_files h1 (InHome n)))"
proof -
  let ?j = "journalFor (promotionOf ext maxBytes commitID previous candidate staged)" and ?F = "\<lambda>n. h_files h1 (InHome n)"
  note R = promote_Ret [OF assms(1,2)]
  have j: "validateJournal ext ?j = None" "tj_Phase ?j = ''promoting''" using R(4) by (simp_all add: pending_def)
  have done_state: "stateOf ext g = Inr candidate \<and> (\<forall>n. h_files g (InHome n) = h_files h1 (InHome n))" if "installed ext ?j ?F g" for g
    using that validateJournal_candidate(1) [OF j(1)] by (simp add: installed_def stateOf_def promotionOf_def)
  have dir: "dir = tj_BackupDir ?j" using R(3) by simp
  have result: "case r of Ret x \<Rightarrow> finished ext ?j ?F h2 | _ \<Rightarrow> h2 = h1 \<or> accepted ext ?j ?F h2 \<or> finished ext ?j ?F h2"
    using wp_result [OF wp_finalizeTransaction [OF R(4) committed_installed [OF R(5)]] assms(3) [unfolded dir]] by (auto split: outcome.splits)
  then consider (old) "h2 = h1" | (acc) "accepted ext ?j ?F h2" | (fin) "finished ext ?j ?F h2" by (cases r) auto
  then have "\<exists>h3. recoverTransaction ext [] h2 = (Ret (), [], h3) \<and> h_journal h3 = Absent
      \<and> (stateOf ext h3 = Inr candidate \<and> (\<forall>n. h_files h3 (InHome n) = h_files h1 (InHome n))
         \<or> stateOf ext h3 = Inr previous \<and> (\<forall>n. h_files h3 (InHome n) = h_files h (InHome n)))"
  proof cases
    case old
    then have "recoverable ext (promotionOf ext maxBytes commitID previous candidate staged) h h2" using R(4) by (simp add: recoverable_def)
    from recover_recoverable [OF assms(1) this] show ?thesis by blast
  next
    case acc
    from runs_result [OF runs_recover_accepted [OF j acc]] done_state show ?thesis by (auto simp: finished_def)
  next
    case fin
    then have "recoverTransaction ext [] h2 = (Ret (), [], h2)"
      by (simp add: finished_def recoverTransaction_def bind_io_def read_io_def return_io_def)
    with fin done_state show ?thesis by (auto simp: finished_def)
  qed
  moreover have "r = Ret () \<longrightarrow> h_journal h2 = Absent \<and> stateOf ext h2 = Inr candidate \<and> (\<forall>n. h_files h2 (InHome n) = h_files h1 (InHome n))"
    using result done_state by (auto simp: finished_def)
  ultimately show ?thesis by blast
qed

section \<open>A concrete promotion\<close>

definition exExt :: externals where
  "exExt = \<lparr> x_sha256 = (\<lambda>body. replicate 64 (if body = ''new'' then CHR ''a'' else CHR ''b'')),
     x_yaml = (\<lambda>_. YamlMultiple), x_regexp = (\<lambda>_. True) \<rparr>"

definition exState :: "char \<Rightarrow> resourceState" where
  "exState c = \<lparr> st_SHA256 = replicate 64 c, st_SourceHash = '''', st_ETag = '''', st_LastModified = '''',
     st_Kind = ResourceGeoIP, st_Format = FormatDAT, st_RuleType = '''', st_LastCheckedUnix = 0, st_LastSuccessUnix = 0 \<rparr>"

definition exDoc :: "char \<Rightarrow> stateDocument" where
  "exDoc c = \<lparr> doc_Version = 2, doc_Generation = '''', doc_CommitID = replicate 32 c, doc_Resources = [(''geo'', exState c)] \<rparr>"

definition exHome :: Home where
  "exHome = \<lparr> h_root = True,
     h_files = (\<lambda>p. if p = InHome ''geoip.dat'' then Some (Regular ''old'') else if p = InDir ''stage'' ''geoip.dat'' then Some (Regular ''new'') else None),
     h_dirs = [''stage''], h_state = Doc (exDoc (CHR ''b'')), h_journal = Absent \<rparr>"

abbreviation exPromote :: "fault list \<Rightarrow> string outcome \<times> fault list \<times> Home" where
  "exPromote faults \<equiv>
     promote exExt 100 (replicate 32 (CHR ''0'')) (exDoc (CHR ''b'')) (exDoc (CHR ''a'')) [(''geo'', InDir ''stage'' ''geoip.dat'')] faults exHome"

lemma exHome_pre:
  "promotion_pre exExt 100 (replicate 32 (CHR ''0'')) (exDoc (CHR ''b'')) (exDoc (CHR ''a'')) [(''geo'', InDir ''stage'' ''geoip.dat'')] exHome"
  unfolding promotion_pre_def
proof (intro conjI)
  show "stateOf exExt exHome = Inr (exDoc (CHR ''b''))" by code_simp
  show "validateStateDocument exExt (exDoc (CHR ''a'')) = None" by code_simp
  show "hex_DecodeString_ok (replicate 32 (CHR ''0''))" by code_simp
  show "staged_apart (replicate 32 (CHR ''0'')) [(''geo'', InDir ''stage'' ''geoip.dat'')]" by code_simp
qed (simp_all add: exHome_def exDoc_def)

text \<open>The process dies right after the new file has replaced the old one.\<close>

definition exFaults :: "fault list" where
  "exFaults = replicate 7 Works @ [Dies_After]"


lemma exPromote_Ret:
  "exPromote [] = (Ret (transactionDirPrefix @ replicate 32 (CHR ''0'')), fst (snd (exPromote [])), snd (snd (exPromote [])))"
proof -
  have "fst (exPromote []) = Ret (transactionDirPrefix @ replicate 32 (CHR ''0''))" by code_simp
  then show ?thesis by (metis prod.collapse)
qed

theorem promote_commits_witness: "stateOf exExt (snd (snd (exPromote []))) = Inr (exDoc (CHR ''a''))"
  using promote_commits [OF exHome_pre exPromote_Ret] by blast

theorem finalize_atomic_witness:
  "\<exists>h3. recoverTransaction exExt [] (snd (snd (finalizeTransaction exExt (transactionDirPrefix @ replicate 32 (CHR ''0'')) [Works, Dies_Before]
      (snd (snd (exPromote [])))))) = (Ret (), [], h3) \<and> h_journal h3 = Absent"
proof -
  let ?run = "finalizeTransaction exExt (transactionDirPrefix @ replicate 32 (CHR ''0'')) [Works, Dies_Before] (snd (snd (exPromote [])))"
  have "?run = (fst ?run, fst (snd ?run), snd (snd ?run))" by simp
  from finalize_atomic [OF exHome_pre exPromote_Ret this] show ?thesis by blast
qed

end
