(* ===== verification/Recovery_Gaps.thy ===== *)
theory Recovery_Gaps
  imports Subscriptions_Safety Resources_Recovery
begin

text \<open>
  Runs in which a failure or a crash leaves a state that the next start does not accept. Each is a concrete
  execution of the model: the operations, their faults, and the result of opening the state again.
\<close>

section \<open>Adding a subscription\<close>

text \<open>
  \<open>Store.add\<close> creates the directory before it writes the record into it. If the process dies in between, \<open>NewStore\<close>
  finds a directory without a record and refuses the whole store.
\<close>

definition exOther :: Subscription where
  "exOther = exSub\<lparr> sub_ID := ''work'', sub_Name := ''Work'' \<rparr>"

abbreviation exAdded :: "unit outcome \<times> fault list \<times> subStore" where
  "exAdded \<equiv> Store_add (newRecord exOther) [Works, Dies_Before] exStore"

theorem add_crash_unopenable:
  "fst exAdded = Crash \<and> fst (NewSubStore exSubSha exParse [] (snd (snd exAdded))) = Err ErrStore"
  by (rule conjI; code_simp)

section \<open>Withdrawing a promotion\<close>

text \<open>
  A refresh whose source changed after the promotion writes the previous record back. When that write fails, memory
  holds the previous record and the disk the new one; the next cleanup of unused generations removes the files the
  record on disk names, and the store cannot be opened.
\<close>

abbreviation exWithdrawn :: "unit outcome \<times> fault list \<times> unit Service" where
  "exWithdrawn \<equiv> perform exSubSha exParse 5
     (Op_RefreshWith (exRefresh\<lparr> re_hasCurrent := True, re_Current := (\<lambda>k _. if k < 3 then Some exSub else None) \<rparr>) exSub)
     [Works, Works, Works, Fails_Before] exService"

theorem withdrawal_failure_unopenable:
  "fst exWithdrawn = Err (Joined_Errors ErrSourceChanged ErrStore)
   \<and> fst (NewSubStore exSubSha exParse [] (snd (snd (cleanupApplied [] (sv_store (snd (snd exWithdrawn))))))) = Err ErrStore"
  by (rule conjI; code_simp)

section \<open>Deleting the subscription an activation would fall back to\<close>

text \<open>
  While an activation waits for the acceptance of its resources, the subscription active before is no longer active
  and may be deleted. If the process dies then, \<open>RecoverPendingActivation\<close> cannot restore it and the start fails.
\<close>

definition exTwo :: subStore where
  "exTwo = exStore\<lparr> ss_dirs := ss_dirs exStore @ [(''work'', \<lparr> sd_record = Json ((newRecord exOther)\<lparr> pr_Hash := exSubSha ''new'', pr_CandidateHash := exSubSha ''new'' \<rparr>),
       sd_files = [(profileFilename (exSubSha ''new''), ''new''), (candidateFilename (exSubSha ''new'') (exSubSha ''new''), ''new'')] \<rparr>)],
     ss_records := ss_records exStore @ [(''work'', (newRecord exOther)\<lparr> pr_Hash := exSubSha ''new'', pr_CandidateHash := exSubSha ''new'' \<rparr>)] \<rparr>"

abbreviation exOldCommit :: string where "exOldCommit \<equiv> replicate 32 (CHR ''0'')"
abbreviation exNewCommit :: string where "exNewCommit \<equiv> replicate 32 (CHR ''1'')"

abbreviation exInterleaved :: "unit outcome \<times> fault list \<times> subStore" where
  "exInterleaved \<equiv>
     then_io (markActivationPending ''home'' (exSubSha ''old'') (exSubSha ''old'') exNewCommit)
    (then_io (setApplied exSubSha ''work'' (exSubSha ''new'') (exSubSha ''new''))
       (Store_delete ''home'')) [] exTwo"

theorem delete_during_activation_unopenable:
  "fst exInterleaved = Ret () \<and> fst (restart exSubSha exParse exOldCommit [] (snd (snd exInterleaved))) = Err ErrNotFound"
  by (rule conjI; code_simp)

section \<open>Rolling back an accepted promotion\<close>

text \<open>
  \<open>finalizeTransaction\<close> marks the journal accepted and then removes it. When the removal fails, the caller rolls the
  promotion back, and a crash in that rollback leaves an accepted journal over restored files, which the recovery at
  the next start refuses.
\<close>

abbreviation exDir :: string where
  "exDir \<equiv> transactionDirPrefix @ replicate 32 (CHR ''0'')"

abbreviation exAccepted :: "unit outcome \<times> fault list \<times> Home" where
  "exAccepted \<equiv> finalizeTransaction exExt exDir [Works, Works, Fails_Before] (snd (snd (exPromote [])))"

definition exJournal :: transactionJournal where
  "exJournal = (case h_journal (snd (snd exAccepted)) of Doc j \<Rightarrow> j)"

abbreviation exRolledBack :: "unit outcome \<times> fault list \<times> Home" where
  "exRolledBack \<equiv> restoreTransaction exExt exDir exJournal [Works, Dies_After] (snd (snd exAccepted))"

theorem accepted_rollback_unrecoverable:
  "fst exAccepted = Err os_error \<and> fst exRolledBack = Crash
   \<and> fst (recoverTransaction exExt [] (snd (snd exRolledBack)))
     = Err (Errorf ''resources: promoted resource %q is invalid or changed'' [''geo''])"
  by (intro conjI; code_simp)

end
