(* ===== verification/Resources_Registry.thy ===== *)
theory Resources_Registry
  imports Resources_Recovery Download_Client Dns_Policy
begin

text \<open>
  The registry of managed resources (\<open>src/resources/registry.go\<close>, \<open>status.go\<close> and the migration of the old layout
  in \<open>transaction.go\<close>): opening it, resolving the files of a configuration, and reporting their state.

  The registry keeps the manifest it committed last beside the directory of \<open>Home\<close>. A directory below another one
  is named by its path from the root. What \<open>os.ReadDir\<close> lists and the random identifiers are arguments.
\<close>

section \<open>State\<close>

record Registry =
  rg_home :: Home
  rg_maxBytes :: int
  rg_active :: stateDocument
  rg_failures :: "(string \<times> string) list"

type_synonym ('z, 'a) reg_io = "('z Registry_scheme, 'a) io"

definition on_home :: "'a home_io \<Rightarrow> ('z, 'a) reg_io" where
  "on_home m fs r = (case m fs (rg_home r) of (x, fs', h) \<Rightarrow> (x, fs', r\<lparr> rg_home := h \<rparr>))"

definition DefaultMaxBytes :: int where
  "DefaultMaxBytes = 64 * 2 ^ 20"

definition legacyDirName :: string where
  "legacyDirName = ''generations''"

abbreviation ErrPinMismatch :: go_error where
  "ErrPinMismatch \<equiv> Errorf ''resource SHA-256 pin mismatch'' []"

abbreviation manifest_changed :: go_error where
  "manifest_changed \<equiv> Errorf ''resources: active manifest changed outside registry'' []"

definition resourceStateMatches :: "Resource \<Rightarrow> resourceState \<Rightarrow> bool" where
  "resourceStateMatches resource state \<longleftrightarrow> sameResourceState
     \<lparr> st_SHA256 = '''', st_SourceHash = '''', st_ETag = '''', st_LastModified = '''', st_Kind = rs_Kind resource,
       st_Format = rs_Format resource, st_RuleType = rs_RuleType resource, st_LastCheckedUnix = 0, st_LastSuccessUnix = 0 \<rparr> state"

definition pinMatches :: "Resource \<Rightarrow> string \<Rightarrow> bool" where
  "pinMatches resource checksum \<longleftrightarrow> rs_SHA256 resource = '''' \<or> strings_EqualFold (rs_SHA256 resource) checksum"

abbreviation valid_bytes :: "externals \<Rightarrow> Resource \<Rightarrow> bytes \<Rightarrow> bool" where
  "valid_bytes ext resource body \<equiv> Resource_Validate (x_yaml ext) (x_regexp ext) resource body = None"

definition CommitID :: "'z Registry_scheme \<Rightarrow> string" where
  "CommitID r = doc_CommitID (rg_active r)"

definition SetMaxBytes :: "int \<Rightarrow> ('z, unit) reg_io" where
  "SetMaxBytes maxBytes =
     (if maxBytes \<le> 0 then fail_io (Errorf ''resources: max bytes must be positive'' [])
      else modify_io (\<lambda>r. r\<lparr> rg_maxBytes := maxBytes \<rparr>))"

definition clearFailure :: "string \<Rightarrow> 'z Registry_scheme \<Rightarrow> 'z Registry_scheme" where
  "clearFailure ident r = r\<lparr> rg_failures := AList.delete ident (rg_failures r) \<rparr>"

definition isPinMismatch :: "fetch_error \<Rightarrow> bool" where
  "isPinMismatch err = (case err of Plain e \<Rightarrow> e = ErrPinMismatch | Joined e _ \<Rightarrow> e = ErrPinMismatch | Status _ \<Rightarrow> False)"

definition failureMessage :: "fetch_error \<Rightarrow> string" where
  "failureMessage err =
     (case StatusErrorFrom err of
        Some status \<Rightarrow> StatusError_Error status
      | None \<Rightarrow> if isPinMismatch err then ''resource SHA-256 pin mismatch'' else ''resource refresh or validation failed'')"

definition go_error_of :: "fetch_error \<Rightarrow> go_error" where
  "go_error_of err = (case err of Plain e \<Rightarrow> e | Status s \<Rightarrow> statusError s | Joined e s \<Rightarrow> Joined_Errors e (statusError s))"

text \<open>\<open>recordFailure\<close> returns the error of type \<open>ResourceFailure\<close>.\<close>

definition resourceFailure :: "string \<Rightarrow> go_error \<Rightarrow> go_error" where
  "resourceFailure ident err = Wrapf ''resource %q: %v'' [ident] err"

definition registry_recordFailure :: "string \<Rightarrow> fetch_error \<Rightarrow> ('z, go_error) reg_io" where
  "registry_recordFailure ident err =
     then_io (modify_io (\<lambda>r. r\<lparr> rg_failures := AList.update ident (failureMessage err) (rg_failures r) \<rparr>))
       (return_io (resourceFailure ident (go_error_of err)))"

section \<open>Validation of the configuration\<close>

definition checkDeclared :: "url_parser \<Rightarrow> externals \<Rightarrow> string list \<Rightarrow> (string \<times> string) list \<Rightarrow> Resource \<Rightarrow> go_error option" where
  "checkDeclared url_Parse ext seen destinations resource = first_error
     [fail_if (rs_ID resource \<in> set seen) (Errorf ''resources: duplicate ID %q'' [rs_ID resource]),
      ValidateDeclaration resource,
      fail_if (rs_URL resource = '''') (Errorf ''resource %q has no source'' [rs_ID resource]),
      fail_if (rs_Interval resource < 0) (Errorf ''resource %q has invalid interval'' [rs_ID resource]),
      fail_if (rs_SHA256 resource \<noteq> '''' \<and> \<not> (hex_DecodeString_ok (rs_SHA256 resource) \<and> length (rs_SHA256 resource) = 64))
        (Errorf ''resource %q has invalid SHA-256 pin'' [rs_ID resource]),
      (case url_Parse (rs_URL resource) of
         None \<Rightarrow> Some (Errorf ''resource %q has invalid source'' [rs_ID resource])
       | Some u \<Rightarrow>
           if u_Scheme u \<noteq> '''' then
             fail_if (u_Scheme u \<noteq> ''https'' \<or> u_Host u = '''' \<or> u_User u \<or> u_Opaque u \<noteq> '''')
               (Errorf ''resource %q source must be an HTTPS URL without credentials'' [rs_ID resource])
           else
             fail_if (CHR 0x00 \<in> set (rs_URL resource) \<or> strings_TrimSpace (rs_URL resource) = '''')
               (Errorf ''resource %q has invalid local source path'' [rs_ID resource])),
      fail_if (isGeoKind (rs_Kind resource) \<and> map_of destinations (filename ext resource) \<noteq> None)
        (Errorf ''resources %q and %q share managed destination'' [the (map_of destinations (filename ext resource)), rs_ID resource])]"

fun checkDeclarations :: "url_parser \<Rightarrow> externals \<Rightarrow> string list \<Rightarrow> (string \<times> string) list \<Rightarrow> Resource list \<Rightarrow> go_error option" where
  "checkDeclarations url_Parse ext seen destinations [] = None"
| "checkDeclarations url_Parse ext seen destinations (resource # rest) =
     (case checkDeclared url_Parse ext seen destinations resource of
        Some err \<Rightarrow> Some err
      | None \<Rightarrow>
          checkDeclarations url_Parse ext (rs_ID resource # seen)
            (if isGeoKind (rs_Kind resource) then (filename ext resource, rs_ID resource) # destinations else destinations) rest)"

definition registry_validateSnapshot :: "url_parser \<Rightarrow> externals \<Rightarrow> Snapshot \<Rightarrow> go_error option" where
  "registry_validateSnapshot url_Parse ext snapshot = checkDeclarations url_Parse ext [] [] (c_Resources snapshot)"

section \<open>Resolving the files of a configuration\<close>

definition hasEnabledResources :: "Snapshot \<Rightarrow> bool" where
  "hasEnabledResources snapshot \<longleftrightarrow> list_ex rs_Enabled (c_Resources snapshot)"

text \<open>The manifest on disk, which must be the one this registry committed.\<close>

definition currentState :: "externals \<Rightarrow> ('z, stateDocument) reg_io" where
  "currentState ext =
     bind_io (on_home (loadStateFile ext)) (\<lambda>current.
       bind_io (read_io rg_active) (\<lambda>active.
         if doc_Version current \<noteq> doc_Version active \<or> doc_CommitID current \<noteq> doc_CommitID active then fail_io manifest_changed
         else return_io current))"

definition resolveResource :: "externals \<Rightarrow> Registry \<Rightarrow> Resource \<Rightarrow> (string \<times> path) home_io" where
  "resolveResource ext r resource =
     (let p = InHome (filename ext resource); ident = rs_ID resource in
      bind_io (wrap_io ''resource %q has no safe managed file: %w'' [ident] (readManaged p (rg_maxBytes r))) (\<lambda>data.
        then_io (check_io (Resource_Validate (x_yaml ext) (x_regexp ext) resource data))
       (then_io (check_io (fail_if (\<not> pinMatches resource (digest ext data)) (Wrapf ''resource %q: %w'' [ident] ErrPinMismatch)))
       (then_io (check_io (fail_if
            (case map_of (doc_Resources (rg_active r)) ident of
               None \<Rightarrow> True
             | Some cached \<Rightarrow> st_SHA256 cached \<noteq> digest ext data \<or> st_SourceHash cached \<noteq> digest ext (rs_URL resource)
                 \<or> \<not> resourceStateMatches resource cached)
            (Errorf ''resource %q managed bytes differ from committed state'' [ident])))
          (return_io (ident, p))))))"

fun resolveResources :: "externals \<Rightarrow> Registry \<Rightarrow> (string \<times> path) list \<Rightarrow> Resource list \<Rightarrow> (string \<times> path) list home_io" where
  "resolveResources ext r paths [] = return_io paths"
| "resolveResources ext r paths (resource # rest) =
     (if \<not> rs_Enabled resource then resolveResources ext r paths rest
      else bind_io (resolveResource ext r resource) (\<lambda>(ident, p). resolveResources ext r (AList.update ident p paths) rest))"

definition pathsLocked :: "externals \<Rightarrow> Snapshot \<Rightarrow> ('z, (string \<times> path) list) reg_io" where
  "pathsLocked ext snapshot =
     then_io (on_home ensureRoot)
       (bind_io (read_io Registry.truncate) (\<lambda>r.
          if doc_Resources (rg_active r) = [] then
            (if hasEnabledResources snapshot then fail_io (Errorf ''resources: no committed resource files'' []) else return_io [])
          else on_home (resolveResources ext r [] (c_Resources snapshot))))"

definition PathsWithHome :: "url_parser \<Rightarrow> externals \<Rightarrow> Snapshot \<Rightarrow> ('z, (string \<times> path) list) reg_io" where
  "PathsWithHome url_Parse ext snapshot =
     then_io (check_io (registry_validateSnapshot url_Parse ext snapshot))
       (then_io (currentState ext) (pathsLocked ext snapshot))"

definition ActiveHome :: "externals \<Rightarrow> ('z, unit) reg_io" where
  "ActiveHome ext = then_io (currentState ext) (on_home ensureRoot)"

section \<open>Status\<close>

record ResourceStatus =
  sta_ID :: string
  sta_Kind :: ResourceKind
  sta_Format :: ResourceFormat
  sta_RuleType :: RuleType
  sta_SourceHost :: string
  sta_SHA256 :: string
  sta_LastCheck :: int \<comment> \<open>seconds since the epoch, 0 for the zero time\<close>
  sta_LastSuccess :: int
  sta_LastFailure :: string
  sta_Enabled :: bool
  sta_Validated :: bool
  sta_Destination :: "path option"

definition sourceHost :: "url_parser \<Rightarrow> string \<Rightarrow> string" where
  "sourceHost url_Parse source =
     (case url_Parse source of
        None \<Rightarrow> ''local''
      | Some u \<Rightarrow> if u_Scheme u = '''' \<or> u_Host u = '''' then ''local'' else u_Hostname u)"

definition validatedResource :: "externals \<Rightarrow> int \<Rightarrow> resourceState option \<Rightarrow> Resource \<Rightarrow> bool home_io" where
  "validatedResource ext maxBytes stored resource =
     catch_io (bind_io (readManaged (InHome (filename ext resource)) maxBytes) (\<lambda>data.
         return_io (valid_bytes ext resource data \<and> pinMatches resource (digest ext data)
           \<and> (case stored of
                None \<Rightarrow> False
              | Some state \<Rightarrow> st_SHA256 state = digest ext data \<and> st_SourceHash state = digest ext (rs_URL resource)
                  \<and> resourceStateMatches resource state))))
       (\<lambda>_. return_io False)"

definition resourceStatus :: "url_parser \<Rightarrow> externals \<Rightarrow> stateDocument \<Rightarrow> Resource \<Rightarrow> ('z, ResourceStatus) reg_io" where
  "resourceStatus url_Parse ext current resource =
     (let stored = map_of (doc_Resources current) (rs_ID resource) in
      bind_io (read_io (\<lambda>r. (rg_maxBytes r, case map_of (rg_failures r) (rs_ID resource) of None \<Rightarrow> '''' | Some msg \<Rightarrow> msg))) (\<lambda>(maxBytes, failure).
        bind_io (if rs_Enabled resource then on_home (validatedResource ext maxBytes stored resource) else return_io False) (\<lambda>ok.
          return_io
            \<lparr> sta_ID = rs_ID resource, sta_Kind = rs_Kind resource, sta_Format = rs_Format resource, sta_RuleType = rs_RuleType resource,
              sta_SourceHost = sourceHost url_Parse (rs_URL resource),
              sta_SHA256 = (case stored of None \<Rightarrow> '''' | Some state \<Rightarrow> st_SHA256 state),
              sta_LastCheck = (case stored of None \<Rightarrow> 0 | Some state \<Rightarrow> st_LastCheckedUnix state),
              sta_LastSuccess = (case stored of None \<Rightarrow> 0 | Some state \<Rightarrow> st_LastSuccessUnix state),
              sta_LastFailure =
                (if rs_Enabled resource \<and> \<not> ok \<and> failure = '''' then
                   (if stored = None then ''no committed resource version'' else ''committed resource is unavailable or invalid'')
                 else failure),
              sta_Enabled = rs_Enabled resource, sta_Validated = ok,
              sta_Destination = (if rs_Enabled resource then Some (InHome (filename ext resource)) else None) \<rparr>)))"

fun statuses :: "url_parser \<Rightarrow> externals \<Rightarrow> stateDocument \<Rightarrow> Resource list \<Rightarrow> ('z, ResourceStatus list) reg_io" where
  "statuses url_Parse ext current [] = return_io []"
| "statuses url_Parse ext current (resource # rest) =
     bind_io (resourceStatus url_Parse ext current resource) (\<lambda>status.
       bind_io (statuses url_Parse ext current rest) (\<lambda>more. return_io (status # more)))"

definition registry_Status :: "url_parser \<Rightarrow> externals \<Rightarrow> Snapshot \<Rightarrow> ('z, ResourceStatus list) reg_io" where
  "registry_Status url_Parse ext snapshot =
     bind_io (currentState ext) (\<lambda>current. statuses url_Parse ext current (c_Resources snapshot))"

section \<open>Opening\<close>

definition legacyDir :: "string \<Rightarrow> string" where
  "legacyDir generation = legacyDirName @ ''/'' @ generation"

text \<open>\<open>listed\<close> are the names in the directory of the old generations that are directories.\<close>

definition removeLegacyGenerations :: "string list \<Rightarrow> unit home_io" where
  "removeLegacyGenerations listed =
     bind_io (read_io (verifyRealDirectory legacyDirName)) (\<lambda>r.
       if r = Some not_exist then return_io ()
       else then_io (check_io r)
         (each_io (\<lambda>name. if validGeneration name then os_RemoveAll (legacyDir name) else return_io ()) listed))"

definition stageLegacy :: "externals \<Rightarrow> int \<Rightarrow> string \<Rightarrow> string \<Rightarrow> string \<times> resourceState \<Rightarrow> unit home_io" where
  "stageLegacy ext maxBytes generation stageDir entry =
     (case entry of (ident, state) \<Rightarrow>
        let resource = declared ident state; invalid = Errorf ''resources: legacy resource %q is invalid or changed'' [ident] in
        then_io (wrap_io ''resources: invalid legacy resource declaration: %w'' [] (check_io (ValidateDeclaration resource)))
       (bind_io (catch_io (readManaged (InDir (legacyDir generation) (filename ext resource)) maxBytes) (\<lambda>_. fail_io invalid)) (\<lambda>body.
          then_io (check_io (fail_if (digest ext body \<noteq> st_SHA256 state \<or> \<not> valid_bytes ext resource body) invalid))
            (writeStaged (InDir stageDir (filename ext resource)) body))))"

text \<open>A deferred best-effort operation runs after a return and after an error.\<close>

definition finally_io :: "('s, 'a) io \<Rightarrow> ('s, unit) io \<Rightarrow> ('s, 'a) io" where
  "finally_io m cleanup =
     bind_io (catch_io m (\<lambda>err. then_io (try_io cleanup) (fail_io err))) (\<lambda>x. then_io (try_io cleanup) (return_io x))"

definition migrateStaged :: "externals \<Rightarrow> int \<Rightarrow> string \<Rightarrow> string list \<Rightarrow> string \<Rightarrow> stateDocument \<Rightarrow> stateDocument \<Rightarrow> unit home_io" where
  "migrateStaged ext maxBytes transactionIdent listed stageDir previous candidate =
     then_io (each_io (stageLegacy ext maxBytes (doc_Generation previous) stageDir) (doc_Resources previous))
    (bind_io (promote ext maxBytes transactionIdent previous candidate
         (map (\<lambda>(ident, state). (ident, InDir stageDir (resourceFilename ext ident state))) (doc_Resources previous))) (\<lambda>transactionDir.
       then_io (finalizeTransaction ext transactionDir) (removeLegacyGenerations listed)))"

definition migrateV1 :: "externals \<Rightarrow> int \<Rightarrow> string \<Rightarrow> string \<Rightarrow> string \<Rightarrow> string list \<Rightarrow> stateDocument \<Rightarrow> stateDocument home_io" where
  "migrateV1 ext maxBytes commitID stageIdent transactionIdent listed previous =
     (let candidate = \<lparr> doc_Version = 2, doc_Generation = '''', doc_CommitID = commitID, doc_Resources = doc_Resources previous \<rparr> in
      if doc_Generation previous = '''' then
        (if doc_Resources previous \<noteq> [] then fail_io (Errorf ''resources: v1 resources have no generation'' [])
         else then_io (writeStateAtomic candidate) (return_io candidate))
      else if \<not> validGeneration (doc_Generation previous) then fail_io (Errorf ''resources: invalid legacy generation'' [])
      else
        bind_io (read_io (\<lambda>h. (verifyRealDirectory legacyDirName h, verifyRealDirectory (legacyDir (doc_Generation previous)) h))) (\<lambda>(root, dir).
          then_io (check_io (wrap_error ''resources: legacy generation root is unsafe: %w'' [] root))
         (then_io (check_io (wrap_error ''resources: legacy generation is unsafe: %w'' [] dir))
         (bind_io (wrap_io ''resources: create migration staging directory: %w'' [] (makePrivateDir stageIdent stageDirPrefix)) (\<lambda>stageDir.
            then_io (finally_io (migrateStaged ext maxBytes transactionIdent listed stageDir previous candidate) (os_RemoveAll stageDir))
              (return_io candidate))))))"

text \<open>\<open>names\<close> and \<open>listed\<close> are the contents of the managed directory and of the directory of the old generations.\<close>

definition NewRegistry :: "externals \<Rightarrow> string \<Rightarrow> string \<Rightarrow> string \<Rightarrow> string list \<Rightarrow> string list \<Rightarrow> (Home, Registry) io" where
  "NewRegistry ext commitID stageIdent transactionIdent names listed =
     then_io ensureRoot
    (then_io (recoverTransaction ext)
    (then_io (removeOrphanTransactions names)
    (bind_io (loadStateFile ext) (\<lambda>loaded.
       bind_io (if doc_Version loaded = 1
                then migrateV1 ext DefaultMaxBytes commitID stageIdent transactionIdent listed loaded else return_io loaded) (\<lambda>active.
         then_io (if doc_Version active = 2 \<and> doc_CommitID active \<noteq> '''' then
                    bind_io (catch_io (then_io (verifyManifestFiles ext active DefaultMaxBytes) (return_io True)) (\<lambda>_. return_io False)) (\<lambda>ok.
                      if ok then wrap_io ''resources: remove migrated generations: %w'' [] (removeLegacyGenerations listed) else return_io ())
                  else return_io ())
           (bind_io (read_io (\<lambda>h. h)) (\<lambda>h.
              return_io \<lparr> rg_home = h, rg_maxBytes = DefaultMaxBytes, rg_active = active, rg_failures = [] \<rparr>)))))))"

section \<open>What the registry accepts\<close>

definition source_ok :: "url_parser \<Rightarrow> string \<Rightarrow> bool" where
  "source_ok url_Parse raw =
     (case url_Parse raw of
        None \<Rightarrow> False
      | Some u \<Rightarrow>
          if u_Scheme u \<noteq> '''' then u_Scheme u = ''https'' \<and> u_Host u \<noteq> '''' \<and> \<not> u_User u \<and> u_Opaque u = ''''
          else CHR 0x00 \<notin> set raw \<and> strings_TrimSpace raw \<noteq> '''')"

definition declared_ok :: "url_parser \<Rightarrow> Resource \<Rightarrow> bool" where
  "declared_ok url_Parse r \<longleftrightarrow>
     ValidateDeclaration r = None \<and> rs_URL r \<noteq> '''' \<and> 0 \<le> rs_Interval r
     \<and> (rs_SHA256 r = '''' \<or> hex_DecodeString_ok (rs_SHA256 r) \<and> length (rs_SHA256 r) = 64) \<and> source_ok url_Parse (rs_URL r)"

lemma checkDeclared_None:
  "checkDeclared url_Parse ext seen destinations r = None \<longleftrightarrow>
     declared_ok url_Parse r \<and> rs_ID r \<notin> set seen \<and> (isGeoKind (rs_Kind r) \<longrightarrow> filename ext r \<notin> fst ` set destinations)"
  by (auto simp: checkDeclared_def declared_ok_def source_ok_def map_of_eq_None_iff split: option.splits if_splits)

lemma checkDeclarations_None_iff:
  "checkDeclarations url_Parse ext seen destinations rs = None \<longleftrightarrow>
     list_all (declared_ok url_Parse) rs \<and> distinct (map rs_ID rs) \<and> set (map rs_ID rs) \<inter> set seen = {}
     \<and> distinct (map (filename ext) (filter (\<lambda>r. isGeoKind (rs_Kind r)) rs))
     \<and> filename ext ` set (filter (\<lambda>r. isGeoKind (rs_Kind r)) rs) \<inter> fst ` set destinations = {}"
proof (induction rs arbitrary: seen destinations)
  case (Cons r rs)
  have "checkDeclarations url_Parse ext seen destinations (r # rs) = None \<longleftrightarrow>
      checkDeclared url_Parse ext seen destinations r = None
      \<and> checkDeclarations url_Parse ext (rs_ID r # seen)
          (if isGeoKind (rs_Kind r) then (filename ext r, rs_ID r) # destinations else destinations) rs = None"
    by (simp split: option.split)
  then show ?case unfolding Cons.IH checkDeclared_None by (cases "isGeoKind (rs_Kind r)") auto
qed simp

text \<open>The three databases have one destination each.\<close>

lemma geo_filename_inj:
  "isGeoKind (rs_Kind r) \<Longrightarrow> isGeoKind (rs_Kind r') \<Longrightarrow> filename ext r = filename ext r' \<Longrightarrow> rs_Kind r = rs_Kind r'"
  unfolding isGeoKind_def by (elim disjE) (simp_all add: filename_def resource_names)

lemma distinct_geo_filenames:
  assumes "distinct (filter isGeoKind (map rs_Kind rs))"
  shows "distinct (map (filename ext) (filter (\<lambda>r. isGeoKind (rs_Kind r)) rs))"
  using assms
proof (induction rs)
  case (Cons r rs)
  have "filename ext r \<notin> filename ext ` set (filter (\<lambda>r. isGeoKind (rs_Kind r)) rs)" if "isGeoKind (rs_Kind r)"
  proof
    assume "filename ext r \<in> filename ext ` set (filter (\<lambda>r. isGeoKind (rs_Kind r)) rs)"
    then obtain r' where r': "r' \<in> set rs" "isGeoKind (rs_Kind r')" "filename ext r = filename ext r'" by auto
    from geo_filename_inj [OF that r'(2,3)] r'(1) have "rs_Kind r \<in> rs_Kind ` set rs" by simp
    with Cons.prems that show False by simp
  qed
  with Cons show ?case by (simp split: if_splits)
qed simp

lemma resource_ok_declared:
  assumes "resource_ok url_Parse r" and "\<not> filepath_IsAbs (rs_URL r)"
  shows "source_ok url_Parse (rs_URL r)"
  using assms by (auto simp: resource_ok_def validateSourceOrPath_def source_ok_def split: option.splits if_splits)

text \<open>
  C37. The registry accepts a configuration that the loader accepted except for local files: an absolute path is taken
  by the loader as it is, while the registry parses it as a URL, so a path that is not one (with a stray percent sign,
  for example) loads and then fails whenever resources are resolved or staged.
\<close>

theorem registry_accepts_config:
  assumes "validateSnapshot url_Parse os_Stat s = None"
  shows "registry_validateSnapshot url_Parse ext s = None
    \<longleftrightarrow> list_all (\<lambda>r. filepath_IsAbs (rs_URL r) \<longrightarrow> source_ok url_Parse (rs_URL r)) (c_Resources s)"
proof -
  have ok: "list_all (resource_ok url_Parse) (c_Resources s)" and ids: "distinct (map rs_ID (c_Resources s))"
    and geo: "distinct (filter isGeoKind (map rs_Kind (c_Resources s)))"
    using assms by (simp_all add: validateSnapshot_iff)
  have "declared_ok url_Parse r \<longleftrightarrow> (filepath_IsAbs (rs_URL r) \<longrightarrow> source_ok url_Parse (rs_URL r))" if "r \<in> set (c_Resources s)" for r
  proof -
    from ok that have r: "resource_ok url_Parse r" by (simp add: list_all_iff)
    then have "ValidateDeclaration r = None" by (simp add: ValidateDeclaration_iff resource_ok_def)
    with r resource_ok_declared [OF r] show ?thesis by (auto simp: declared_ok_def resource_ok_def)
  qed
  then have "list_all (declared_ok url_Parse) (c_Resources s)
      \<longleftrightarrow> list_all (\<lambda>r. filepath_IsAbs (rs_URL r) \<longrightarrow> source_ok url_Parse (rs_URL r)) (c_Resources s)"
    by (simp add: list_all_iff)
  then show ?thesis
    using ids distinct_geo_filenames [OF geo] by (simp add: registry_validateSnapshot_def checkDeclarations_None_iff)
qed

definition exPercent :: Snapshot where
  "exPercent = exDNS\<lparr> c_Resources := [exResource\<lparr> rs_URL := ''/100%.txt'' \<rparr>] \<rparr>"

theorem registry_accepts_config_witness:
  "validateSnapshot exParser (\<lambda>_. None) exPercent = None \<and> registry_validateSnapshot exParser exExt exPercent \<noteq> None"
proof -
  have valid: "validateSnapshot exParser (\<lambda>_. None) exPercent = None" by code_simp
  have "\<not> list_all (\<lambda>r. filepath_IsAbs (rs_URL r) \<longrightarrow> source_ok exParser (rs_URL r)) (c_Resources exPercent)" by code_simp
  then show ?thesis using registry_accepts_config [OF valid, of exExt] valid by simp
qed

end
