(* ===== verification/Resources_Plan.thy ===== *)
theory Resources_Plan
  imports Resources_Registry
begin

text \<open>
  Staging, validating and committing managed resources (\<open>src/resources/plan.go\<close>).

  A plan and its registry are one state, the record \<open>Planned\<close>; staging runs on a registry and returns the plan. The
  directory of a plan is \<open>None\<close> when it is the managed root. The context, the local files outside the managed
  directory, the transport of each resource and the clock are fields of \<open>stage_env\<close>; the identifiers that
  \<open>newCommitID\<close> draws are arguments.
\<close>

section \<open>State\<close>

record Plan =
  pl_stageID :: string
  pl_directory :: "string option"
  pl_transactionDir :: string
  pl_maxBytes :: int
  pl_paths :: "(string \<times> path) list"
  pl_resources :: "(string \<times> resourceState) list"
  pl_base :: stateDocument
  pl_changed :: bool
  pl_validated :: bool
  pl_committed :: bool
  pl_commitID :: string
  pl_rolledBack :: bool
  pl_finalized :: bool
  pl_closed :: bool

record Planned = Registry +
  pd_plan :: Plan

record stage_env =
  sg_ctxErr :: "nat \<Rightarrow> go_error option"
  sg_local :: "string \<Rightarrow> node option"
  sg_transport :: "string \<Rightarrow> transport"
  sg_capture :: bool
  sg_routed :: "string \<Rightarrow> go_error option"
  sg_fetchCtx :: "string \<Rightarrow> ctx"
  sg_now :: int

record stagedBytes =
  sb_body :: bytes
  sb_ETag :: string
  sb_LastModified :: string
  sb_code :: int
  sb_diagnostic :: string

record preparedResource =
  pp_resource :: Resource
  pp_state :: resourceState
  pp_body :: "bytes option" \<comment> \<open>\<open>None\<close>: the bytes are in the managed file\<close>

abbreviation ErrPlanUnvalidated :: go_error where
  "ErrPlanUnvalidated \<equiv> Errorf ''resource plan has not passed candidate configuration validation'' []"

section \<open>Staging\<close>

definition isRemote :: "string \<Rightarrow> bool" where
  "isRemote source \<longleftrightarrow> strings_Contains source ''://''"

definition readLocal :: "(string \<Rightarrow> node option) \<Rightarrow> string \<Rightarrow> int \<Rightarrow> go_error + bytes" where
  "readLocal local p maxBytes =
     (case local p of
        None \<Rightarrow> Inl (Wrapf ''read local resource: %w'' [] not_exist)
      | Some Irregular \<Rightarrow> Inl (Errorf ''local resource source must be a regular non-symlink file'' [])
      | Some (Regular data) \<Rightarrow>
          if data = [] \<or> int (length data) > maxBytes then Inl (Errorf ''local resource exceeds size limit or is empty'' []) else Inr data)"

definition boundedValidator :: "string \<Rightarrow> string" where
  "boundedValidator value = (if length value > 4096 then '''' else value)"

definition zeroState :: resourceState where
  "zeroState = \<lparr> st_SHA256 = '''', st_SourceHash = '''', st_ETag = '''', st_LastModified = '''', st_Kind = '''', st_Format = '''',
     st_RuleType = '''', st_LastCheckedUnix = 0, st_LastSuccessUnix = 0 \<rparr>"

definition baseState :: "stateDocument \<Rightarrow> string \<Rightarrow> resourceState" where
  "baseState base ident = (case map_of (doc_Resources base) ident of None \<Rightarrow> zeroState | Some state \<Rightarrow> state)"

text \<open>\<open>previousDirectory != ""\<close>\<close>

definition hasPrevious :: "stateDocument \<Rightarrow> bool" where
  "hasPrevious base \<longleftrightarrow> doc_Resources base \<noteq> []"

text \<open>The stored file, if it has the recorded digest; reading errors count as absent.\<close>

definition readStored :: "externals \<Rightarrow> int \<Rightarrow> Resource \<Rightarrow> string \<Rightarrow> bytes option home_io" where
  "readStored ext maxBytes resource sha =
     catch_io (bind_io (readManaged (InHome (filename ext resource)) maxBytes) (\<lambda>body.
         return_io (if digest ext body = sha then Some body else None)))
       (\<lambda>_. return_io None)"

definition cacheUsable :: "externals \<Rightarrow> int \<Rightarrow> stateDocument \<Rightarrow> Resource \<Rightarrow> bool home_io" where
  "cacheUsable ext maxBytes base resource =
     (let old = baseState base (rs_ID resource) in
      if hasPrevious base \<and> st_SourceHash old = digest ext (rs_URL resource) \<and> st_SHA256 old \<noteq> '''' \<and> resourceStateMatches resource old
      then bind_io (readStored ext maxBytes resource (st_SHA256 old)) (\<lambda>cached.
        return_io (case cached of None \<Rightarrow> False | Some body \<Rightarrow> valid_bytes ext resource body \<and> pinMatches resource (st_SHA256 old)))
      else return_io False)"

definition notModifiedBody ::
  "externals \<Rightarrow> int \<Rightarrow> stateDocument \<Rightarrow> Resource \<Rightarrow> string \<Rightarrow> string \<Rightarrow> Response \<Rightarrow> (fetch_error + stagedBytes) home_io" where
  "notModifiedBody ext maxBytes base resource oldETag oldLastModified response =
     (let old = baseState base (rs_ID resource);
          unverified = Inl (Plain (Errorf ''conditional response has no verified cached resource'' []))
      in
      if \<not> hasPrevious base \<or> st_SourceHash old \<noteq> digest ext (rs_URL resource) \<or> st_SHA256 old = '''' then return_io unverified
      else bind_io (readStored ext maxBytes resource (st_SHA256 old)) (\<lambda>cached.
        return_io
          (case cached of
             None \<Rightarrow> unverified
           | Some body \<Rightarrow>
               if \<not> pinMatches resource (st_SHA256 old) then Inl (Plain ErrPinMismatch)
               else Inr \<lparr> sb_body = body,
                      sb_ETag = (if rs_ETag response \<noteq> '''' then rs_ETag response else oldETag),
                      sb_LastModified = (if rs_LastModified response \<noteq> '''' then rs_LastModified response else oldLastModified),
                      sb_code = rs_StatusCode response, sb_diagnostic = rs_DiagnosticBody response \<rparr>)))"

definition stagedBody ::
  "externals \<Rightarrow> stage_env \<Rightarrow> string \<Rightarrow> int \<Rightarrow> stateDocument \<Rightarrow> Resource \<Rightarrow> (fetch_error + stagedBytes) home_io" where
  "stagedBody ext env route maxBytes base resource =
     (if \<not> isRemote (rs_URL resource) then
        return_io (case readLocal (sg_local env) (rs_URL resource) maxBytes of
          Inl err \<Rightarrow> Inl (Plain err)
        | Inr body \<Rightarrow> Inr \<lparr> sb_body = body, sb_ETag = '''', sb_LastModified = '''', sb_code = 0, sb_diagnostic = '''' \<rparr>)
      else
        bind_io (cacheUsable ext maxBytes base resource) (\<lambda>usable.
          let ident = rs_ID resource;
              old = baseState base ident;
              etag = (if usable then st_ETag old else '''');
              lastModified = (if usable then st_LastModified old else '''');
              request = \<lparr> rq_URL = rs_URL resource, rq_Route = route, rq_ETag = etag, rq_LastModified = lastModified, rq_MaxBytes = maxBytes,
                rq_AllowHTTP = False, rq_UserAgent = '''', rq_CaptureErrorBody = False \<rparr>
          in
          case fst (Fetch (sg_transport env ident) (sg_capture env) (sg_routed env) (sg_fetchCtx env ident) request) of
            Inl err \<Rightarrow> return_io (Inl err)
          | Inr response \<Rightarrow>
              if rs_StatusCode response = 304 then notModifiedBody ext maxBytes base resource etag lastModified response
              else return_io (Inr \<lparr> sb_body = rs_Body response, sb_ETag = rs_ETag response, sb_LastModified = rs_LastModified response,
                sb_code = rs_StatusCode response, sb_diagnostic = rs_DiagnosticBody response \<rparr>)))"

definition prepareCommittedResource :: "externals \<Rightarrow> int \<Rightarrow> stateDocument \<Rightarrow> Resource \<Rightarrow> preparedResource home_io" where
  "prepareCommittedResource ext maxBytes base resource =
     (let state = baseState base (rs_ID resource) in
      if \<not> hasPrevious base \<or> st_SHA256 state = '''' \<or> st_SourceHash state \<noteq> digest ext (rs_URL resource) \<or> \<not> resourceStateMatches resource state
      then fail_io (Errorf ''no committed source-compatible version'' [])
      else
        bind_io (readStored ext maxBytes resource (st_SHA256 state)) (\<lambda>cached.
          case cached of
            None \<Rightarrow> fail_io (Errorf ''committed version is missing or changed'' [])
          | Some body \<Rightarrow>
              then_io (check_io (wrap_error ''committed version is invalid: %w'' [] (Resource_Validate (x_yaml ext) (x_regexp ext) resource body)))
             (then_io (check_io (fail_if (\<not> pinMatches resource (st_SHA256 state)) ErrPinMismatch))
                (return_io \<lparr> pp_resource = resource, pp_state = state, pp_body = None \<rparr>))))"

text \<open>An error with the captured response beside it.\<close>

definition withResponse :: "stagedBytes \<Rightarrow> go_error \<Rightarrow> fetch_error" where
  "withResponse staged err =
     (if sb_diagnostic staged \<noteq> '''' then Joined err \<lparr> st_Code = sb_code staged, st_ResponseBody = sb_diagnostic staged \<rparr> else Plain err)"

text \<open>The bytes of a due resource, checked; the managed file is used when it has them already.\<close>

definition acceptBody :: "externals \<Rightarrow> stage_env \<Rightarrow> int \<Rightarrow> stateDocument \<Rightarrow> Resource \<Rightarrow> stagedBytes \<Rightarrow> (fetch_error + preparedResource) home_io" where
  "acceptBody ext env maxBytes base resource staged =
     (let body = sb_body staged; checksum = digest ext body; previous = baseState base (rs_ID resource) in
      case Resource_Validate (x_yaml ext) (x_regexp ext) resource body of
        Some err \<Rightarrow> return_io (Inl (withResponse staged err))
      | None \<Rightarrow>
          if \<not> pinMatches resource checksum then return_io (Inl (withResponse staged ErrPinMismatch))
          else
            let state = \<lparr> st_SHA256 = checksum, st_SourceHash = digest ext (rs_URL resource), st_ETag = boundedValidator (sb_ETag staged),
                  st_LastModified = boundedValidator (sb_LastModified staged), st_Kind = rs_Kind resource, st_Format = rs_Format resource,
                  st_RuleType = rs_RuleType resource, st_LastCheckedUnix = sg_now env, st_LastSuccessUnix = sg_now env \<rparr>
            in
            bind_io (if hasPrevious base \<and> st_SHA256 previous = checksum \<and> resourceStateMatches resource previous
                     then readStored ext maxBytes resource checksum else return_io None) (\<lambda>cached.
              return_io (Inr \<lparr> pp_resource = resource, pp_state = state, pp_body = (if cached = None then Some body else None) \<rparr>)))"

definition refreshResource ::
  "externals \<Rightarrow> stage_env \<Rightarrow> string \<Rightarrow> int \<Rightarrow> stateDocument \<Rightarrow> Resource \<Rightarrow> ('z, go_error + preparedResource) reg_io" where
  "refreshResource ext env route maxBytes base resource =
     bind_io (on_home (bind_io (stagedBody ext env route maxBytes base resource) (\<lambda>r.
         case r of Inl err \<Rightarrow> return_io (Inl err) | Inr staged \<Rightarrow> acceptBody ext env maxBytes base resource staged))) (\<lambda>r.
       case r of
         Inl err \<Rightarrow> bind_io (registry_recordFailure (rs_ID resource) err) (\<lambda>failure. return_io (Inl failure))
       | Inr item \<Rightarrow> then_io (modify_io (clearFailure (rs_ID resource))) (return_io (Inr item)))"

fun joinErrors :: "go_error \<Rightarrow> go_error list \<Rightarrow> go_error" where
  "joinErrors e [] = e"
| "joinErrors e (e' # es) = Joined_Errors e (joinErrors e' es)"

text \<open>The loop over the resources of the snapshot; \<open>k\<close> numbers the calls of \<open>ctx.Err\<close>.\<close>

fun prepareResources ::
  "externals \<Rightarrow> stage_env \<Rightarrow> string \<Rightarrow> int \<Rightarrow> stateDocument \<Rightarrow> string list \<Rightarrow> nat \<Rightarrow> (string \<times> preparedResource) list \<Rightarrow> go_error list
   \<Rightarrow> Resource list \<Rightarrow> ('z, (string \<times> preparedResource) list) reg_io" where
  "prepareResources ext env route maxBytes base due k prepared failures [] =
     (case failures of [] \<Rightarrow> return_io prepared | e # es \<Rightarrow> fail_io (joinErrors e es))"
| "prepareResources ext env route maxBytes base due k prepared failures (resource # rest) =
     (if \<not> rs_Enabled resource then prepareResources ext env route maxBytes base due k prepared failures rest
      else
        then_io (check_io (sg_ctxErr env k))
          (if rs_ID resource \<notin> set due then
             bind_io (catch_io (on_home (prepareCommittedResource ext maxBytes base resource)) (\<lambda>err.
                 fail_io (resourceFailure (rs_ID resource) (Wrapf ''is not due and has no verified active version: %w'' [] err)))) (\<lambda>item.
               prepareResources ext env route maxBytes base due (Suc k) (prepared @ [(rs_ID resource, item)]) failures rest)
           else
             bind_io (refreshResource ext env route maxBytes base resource) (\<lambda>r.
               case r of
                 Inl failure \<Rightarrow> prepareResources ext env route maxBytes base due (Suc k) prepared (failures @ [failure]) rest
               | Inr item \<Rightarrow> prepareResources ext env route maxBytes base due (Suc k) (prepared @ [(rs_ID resource, item)]) failures rest)))"

definition sameResourceGeneration :: "(string \<times> preparedResource) list \<Rightarrow> (string \<times> resourceState) list \<Rightarrow> bool" where
  "sameResourceGeneration next active \<longleftrightarrow>
     length next = length active
     \<and> list_all (\<lambda>(ident, item). case map_of active ident of
          None \<Rightarrow> False
        | Some previous \<Rightarrow> st_SHA256 previous = st_SHA256 (pp_state item) \<and> sameResourceState previous (pp_state item)) next"

definition stageSnapshot :: "url_parser \<Rightarrow> externals \<Rightarrow> Snapshot \<Rightarrow> ('z, int \<times> stateDocument) reg_io" where
  "stageSnapshot url_Parse ext snapshot =
     then_io (check_io (registry_validateSnapshot url_Parse ext snapshot))
    (bind_io (currentState ext) (\<lambda>base.
       if doc_Version base \<noteq> 2 then fail_io (Errorf ''resources: legacy manifest requires migration'' [])
       else then_io (on_home ensureRoot) (bind_io (read_io rg_maxBytes) (\<lambda>maxBytes. return_io (maxBytes, base)))))"

definition stageItem :: "externals \<Rightarrow> int \<Rightarrow> string \<Rightarrow> string \<times> preparedResource \<Rightarrow> unit home_io" where
  "stageItem ext maxBytes stageDir entry =
     (case entry of (ident, item) \<Rightarrow>
        bind_io (case pp_body item of
                   Some body \<Rightarrow> return_io body
                 | None \<Rightarrow>
                     let changed = Errorf ''resource %q committed copy changed while staging'' [ident] in
                     bind_io (catch_io (readManaged (InHome (filename ext (pp_resource item))) maxBytes) (\<lambda>_. fail_io changed)) (\<lambda>body.
                       then_io (check_io (fail_if (digest ext body \<noteq> st_SHA256 (pp_state item)) changed)) (return_io body))) (\<lambda>body.
          wrap_io ''resource %q: %w'' [ident] (writeStaged (InDir stageDir (filename ext (pp_resource item))) body)))"

definition planOf :: "externals \<Rightarrow> string \<Rightarrow> string option \<Rightarrow> int \<Rightarrow> stateDocument \<Rightarrow> bool \<Rightarrow> (string \<times> preparedResource) list \<Rightarrow> Plan" where
  "planOf ext stageID directory maxBytes base changed prepared =
     \<lparr> pl_stageID = stageID, pl_directory = directory, pl_transactionDir = '''', pl_maxBytes = maxBytes,
       pl_paths = map (\<lambda>(ident, item). (ident, case directory of None \<Rightarrow> InHome (filename ext (pp_resource item))
                                               | Some dir \<Rightarrow> InDir dir (filename ext (pp_resource item)))) prepared,
       pl_resources = map (\<lambda>(ident, item). (ident, pp_state item)) prepared, pl_base = base, pl_changed = changed,
       pl_validated = False, pl_committed = False, pl_commitID = '''', pl_rolledBack = False, pl_finalized = False, pl_closed = False \<rparr>"

definition stageDue :: "url_parser \<Rightarrow> externals \<Rightarrow> stage_env \<Rightarrow> string \<Rightarrow> Snapshot \<Rightarrow> string \<Rightarrow> string list \<Rightarrow> ('z, Plan) reg_io" where
  "stageDue url_Parse ext env stageIdent snapshot route due =
     then_io (check_io (sg_ctxErr env 0))
    (bind_io (stageSnapshot url_Parse ext snapshot) (\<lambda>(maxBytes, base).
       bind_io (prepareResources ext env route maxBytes base due 1 [] [] (c_Resources snapshot)) (\<lambda>prepared.
         if sameResourceGeneration prepared (doc_Resources base) then return_io (planOf ext '''' None maxBytes base False prepared)
         else
           bind_io (wrap_io ''resources: create staged resource directory: %w'' [] (on_home (makePrivateDir stageIdent stageDirPrefix))) (\<lambda>stageDir.
             then_io (catch_io (on_home (each_io (stageItem ext maxBytes stageDir) prepared))
                 (\<lambda>err. then_io (try_io (on_home (os_RemoveAll stageDir))) (fail_io err)))
               (return_io (planOf ext stageDir (Some stageDir) maxBytes base True prepared))))))"

definition StageDue :: "url_parser \<Rightarrow> externals \<Rightarrow> stage_env \<Rightarrow> string \<Rightarrow> Snapshot \<Rightarrow> string \<Rightarrow> string list \<Rightarrow> ('z, Plan) reg_io" where
  "StageDue url_Parse ext env stageIdent snapshot route dueIDs =
     then_io (check_io (first_error (map (\<lambda>ident. fail_if (\<not> ValidStableID ident) (Errorf ''resources: invalid due resource ID %q'' [ident])) dueIDs)))
    (then_io (check_io (first_error (map (\<lambda>ident.
         fail_if (case find (\<lambda>r. rs_ID r = ident) (rev (c_Resources snapshot)) of None \<Rightarrow> True | Some resource \<Rightarrow> \<not> rs_Enabled resource)
           (Errorf ''resources: due resource %q is not enabled in snapshot'' [ident])) dueIDs)))
       (stageDue url_Parse ext env stageIdent snapshot route dueIDs))"

definition Stage :: "url_parser \<Rightarrow> externals \<Rightarrow> stage_env \<Rightarrow> string \<Rightarrow> Snapshot \<Rightarrow> string \<Rightarrow> ('z, Plan) reg_io" where
  "Stage url_Parse ext env stageIdent snapshot route =
     StageDue url_Parse ext env stageIdent snapshot route (map rs_ID (filter rs_Enabled (c_Resources snapshot)))"

section \<open>The life of a plan\<close>

definition stagedHere :: "string option \<Rightarrow> path \<Rightarrow> bool" where
  "stagedHere directory p = (case (directory, p) of (None, InHome _) \<Rightarrow> True | (Some dir, InDir d _) \<Rightarrow> d = dir | _ \<Rightarrow> False)"

definition verifyStagedFile :: "externals \<Rightarrow> Plan \<Rightarrow> string \<times> path \<Rightarrow> unit home_io" where
  "verifyStagedFile ext p entry =
     (case entry of (ident, file) \<Rightarrow>
        then_io (check_io (fail_if (\<not> stagedHere (pl_directory p) file) (Errorf ''resources: invalid staged path for %q'' [ident])))
       (bind_io (wrap_io ''resource %q staged file is unsafe: %w'' [ident] (readManaged file (pl_maxBytes p))) (\<lambda>data.
          check_io (fail_if (case map_of (pl_resources p) ident of None \<Rightarrow> True | Some state \<Rightarrow> digest ext data \<noteq> st_SHA256 state)
            (Errorf ''resource %q changed after staging'' [ident])))))"

definition verifyStagedFiles :: "externals \<Rightarrow> Plan \<Rightarrow> unit home_io" where
  "verifyStagedFiles ext p =
     then_io (check_io (fail_if (length (pl_paths p) \<noteq> length (pl_resources p)) (Errorf ''resources: staged generation is incomplete'' [])))
    (then_io (case pl_directory p of
                None \<Rightarrow> wrap_io ''resources: managed root is unsafe: %w'' [] ensureRoot
              | Some dir \<Rightarrow> bind_io (read_io (verifyRealDirectory dir)) (\<lambda>r.
                  check_io (wrap_error ''resources: staged resource directory is unsafe: %w'' [] r)))
       (each_io (verifyStagedFile ext p) (pl_paths p)))"

definition upd_plan :: "(Plan \<Rightarrow> Plan) \<Rightarrow> 'z Planned_scheme \<Rightarrow> 'z Planned_scheme" where
  "upd_plan f w = w\<lparr> pd_plan := f (pd_plan w) \<rparr>"

definition on_plan :: "(Plan \<Rightarrow> ('z Planned_scheme, 'a) io) \<Rightarrow> ('z Planned_scheme, 'a) io" where
  "on_plan f = bind_io (read_io pd_plan) f"

text \<open>\<open>validator\<close> is the callback with the whole generated configuration.\<close>

definition Plan_Validate :: "externals \<Rightarrow> (string option \<Rightarrow> (string \<times> path) list \<Rightarrow> go_error option) \<Rightarrow> ('z Planned_scheme, unit) io" where
  "Plan_Validate ext validator =
     on_plan (\<lambda>p.
       if pl_closed p \<or> pl_committed p \<or> pl_rolledBack p then fail_io (Errorf ''resources: plan is no longer pending validation'' [])
       else
         then_io (catch_io
           (then_io (on_home (verifyStagedFiles ext p))
           (then_io (check_io (wrap_error ''resources: candidate Mihomo configuration validation failed: %w'' [] (validator (pl_directory p) (pl_paths p))))
              (on_home (verifyStagedFiles ext p))))
           (\<lambda>err. then_io (modify_io (upd_plan (pl_validated_update (\<lambda>_. False)))) (fail_io err)))
         (modify_io (upd_plan (pl_validated_update (\<lambda>_. True)))))"

definition ValidateResources :: "externals \<Rightarrow> ('z Planned_scheme, unit) io" where
  "ValidateResources ext = Plan_Validate ext (\<lambda>_ _. None)"

definition planDocument :: "string \<Rightarrow> Plan \<Rightarrow> stateDocument" where
  "planDocument commitID p = \<lparr> doc_Version = 2, doc_Generation = '''', doc_CommitID = commitID, doc_Resources = pl_resources p \<rparr>"

definition stablePaths :: "externals \<Rightarrow> Plan \<Rightarrow> (string \<times> path) list" where
  "stablePaths ext p = map (\<lambda>(ident, state). (ident, InHome (resourceFilename ext ident state))) (pl_resources p)"

text \<open>The promotion of the staged files over the manifest the plan is based on.\<close>

definition commitPlan :: "externals \<Rightarrow> string \<Rightarrow> string \<Rightarrow> Plan \<Rightarrow> stateDocument \<Rightarrow> ('z Planned_scheme, (string \<times> path) list) io" where
  "commitPlan ext commitID transactionIdent p current =
     (if doc_Version current \<noteq> doc_Version (pl_base p) \<or> doc_CommitID current \<noteq> doc_CommitID (pl_base p)
      then fail_io (Errorf ''resources: active manifest changed while candidate was being validated'' [])
      else
        bind_io (read_io rg_maxBytes) (\<lambda>maxBytes.
        bind_io (on_home (if pl_changed p then promote ext maxBytes transactionIdent current (planDocument commitID p) (pl_paths p)
                          else promoteMetadata ext maxBytes transactionIdent current (planDocument commitID p))) (\<lambda>dir.
          then_io (modify_io (\<lambda>w. w\<lparr> rg_active := planDocument commitID p \<rparr>))
         (then_io (modify_io (upd_plan (\<lambda>q. q\<lparr> pl_transactionDir := dir, pl_commitID := commitID, pl_committed := True,
              pl_paths := stablePaths ext p \<rparr>)))
            (return_io (stablePaths ext p))))))"

definition Plan_Commit :: "externals \<Rightarrow> string \<Rightarrow> string \<Rightarrow> ('z Planned_scheme, (string \<times> path) list) io" where
  "Plan_Commit ext commitID transactionIdent =
     on_plan (\<lambda>p.
       if pl_closed p \<or> pl_committed p \<or> pl_rolledBack p then fail_io (Errorf ''resources: plan is no longer pending commit'' [])
       else if \<not> pl_validated p then fail_io ErrPlanUnvalidated
       else
         then_io (on_home (verifyStagedFiles ext p))
        (then_io (on_home (wrap_io ''resources: inspect pending transaction: %w'' [] (step_io (\<lambda>h. h) os_error)))
        (bind_io (read_io (\<lambda>w. h_journal (rg_home w))) (\<lambda>journal.
           if journal \<noteq> Absent then fail_io (Errorf ''resources: another resource transaction awaits finalization'' [])
           else bind_io (on_home (loadStateFile ext)) (commitPlan ext commitID transactionIdent p)))))"

text \<open>The staged directory of a plan is one of this package.\<close>

definition checkStageDir :: "Plan \<Rightarrow> go_error option" where
  "checkStageDir p =
     fail_if (pl_directory p \<noteq> Some (pl_stageID p) \<or> \<not> validPrivateDir (pl_stageID p)) (Errorf ''resources: staged directory is unsafe'' [])"

text \<open>The journal of the transaction, if it belongs to the plan.\<close>

definition planTransaction :: "externals \<Rightarrow> Plan \<Rightarrow> transactionJournal home_io" where
  "planTransaction ext p =
     bind_io (readTransaction ext) (\<lambda>(journal, dir).
       if doc_CommitID (tj_Candidate journal) \<noteq> pl_commitID p \<or> dir \<noteq> pl_transactionDir p
       then fail_io (Errorf ''resources: transaction does not belong to this plan'' [])
       else return_io journal)"

definition removeStaged :: "Plan \<Rightarrow> unit home_io" where
  "removeStaged p =
     (if pl_stageID p = '''' then return_io ()
      else then_io (check_io (checkStageDir p))
        (bind_io (read_io (verifyRealDirectory (pl_stageID p))) (\<lambda>r.
           then_io (check_io (wrap_error ''resources: staged directory is unsafe: %w'' [] r))
             (wrap_io ''resources: remove staged resources: %w'' [] (os_RemoveAll (pl_stageID p))))))"

definition finalizePlan :: "externals \<Rightarrow> Plan \<Rightarrow> unit home_io" where
  "finalizePlan ext p =
     (if pl_transactionDir p = '''' then return_io ()
      else then_io (planTransaction ext p) (finalizeTransaction ext (pl_transactionDir p)))"

definition restorePlan :: "externals \<Rightarrow> Plan \<Rightarrow> unit home_io" where
  "restorePlan ext p =
     (if pl_transactionDir p = '''' then return_io ()
      else bind_io (planTransaction ext p) (restoreTransaction ext (pl_transactionDir p)))"

definition Plan_Finalize :: "externals \<Rightarrow> ('z Planned_scheme, unit) io" where
  "Plan_Finalize ext =
     on_plan (\<lambda>p.
       if pl_finalized p then return_io ()
       else if \<not> pl_committed p \<or> pl_rolledBack p then fail_io (Errorf ''resources: plan is not an unrolled committed plan'' [])
       else
         bind_io (on_home (loadStateFile ext)) (\<lambda>current.
           if doc_Version current \<noteq> 2 \<or> doc_CommitID current \<noteq> pl_commitID p
           then fail_io (Errorf ''resources: cannot finalize after another manifest was committed'' [])
           else
             then_io (on_home (removeStaged p))
            (then_io (on_home (finalizePlan ext p))
               (modify_io (upd_plan (\<lambda>q. q\<lparr> pl_finalized := True, pl_closed := True \<rparr>))))))"

definition Plan_Rollback :: "externals \<Rightarrow> ('z Planned_scheme, unit) io" where
  "Plan_Rollback ext =
     on_plan (\<lambda>p.
       if \<not> pl_committed p \<or> pl_rolledBack p \<or> pl_finalized p then fail_io (Errorf ''resources: plan is not an unfinalized committed plan'' [])
       else
         bind_io (on_home (loadStateFile ext)) (\<lambda>current.
           if doc_Version current \<noteq> 2 \<or> doc_CommitID current \<noteq> pl_commitID p
           then fail_io (Errorf ''resources: cannot roll back after another manifest was committed'' [])
           else
             then_io (on_home (restorePlan ext p))
            (then_io (modify_io (\<lambda>w. w\<lparr> rg_active := pl_base p \<rparr>))
               (modify_io (upd_plan (\<lambda>q. q\<lparr> pl_rolledBack := True \<rparr>))))))"

definition Plan_Abort :: "('z Planned_scheme, unit) io" where
  "Plan_Abort =
     on_plan (\<lambda>p.
       if pl_closed p then return_io ()
       else if pl_committed p \<and> \<not> pl_rolledBack p then fail_io (Errorf ''resources: committed plan must be finalized or rolled back'' [])
       else
         then_io (on_home (if pl_stageID p = '''' then return_io ()
            else then_io (check_io (checkStageDir p))
              (bind_io (read_io (verifyRealDirectory (pl_stageID p))) (\<lambda>r.
                 case r of
                   None \<Rightarrow> wrap_io ''resources: remove staged resources: %w'' [] (os_RemoveAll (pl_stageID p))
                 | Some err \<Rightarrow> if err = not_exist then return_io () else fail_io (Wrapf ''resources: staged directory is unsafe: %w'' [] err)))))
           (modify_io (upd_plan (pl_closed_update (\<lambda>_. True)))))"

end
