(* ===== verification/Resources_Staging.thy ===== *)
theory Resources_Staging
  imports Resources_Plan
begin

text \<open>
  What staging produces: a plan whose entries satisfy the checks of the manifest and of the resolver, for exactly the
  enabled resources of the configuration, over a registry whose committed files are untouched.
\<close>

section \<open>Programs that change nothing\<close>

lemma wp_on_home:
  "wp m (\<lambda>x h. Q x (r\<lparr> rg_home := h \<rparr>)) (\<lambda>e h. R e (r\<lparr> rg_home := h \<rparr>)) (\<lambda>h. C (r\<lparr> rg_home := h \<rparr>)) (rg_home r) \<Longrightarrow> wp (on_home m) Q R C r"
  by (fastforce simp: wp_def on_home_def split: prod.splits outcome.splits)

lemma rg_home_same [simp]: "r\<lparr> rg_home := rg_home r \<rparr> = (r :: 'z Registry_scheme)"
  by (cases r) simp

text \<open>\<open>reads m P\<close>: the state stays the same, and a result satisfies \<open>P\<close>.\<close>

definition reads :: "('s, 'a) io \<Rightarrow> ('a \<Rightarrow> bool) \<Rightarrow> bool" where
  "reads m P \<longleftrightarrow> (\<forall>h. wp m (\<lambda>x g. P x \<and> g = h) (\<lambda>_ g. g = h) (\<lambda>g. g = h) h)"

lemma reads_wp: "reads m P \<Longrightarrow> (\<And>x. P x \<Longrightarrow> Q x h) \<Longrightarrow> (\<And>e. R e h) \<Longrightarrow> C h \<Longrightarrow> wp m Q R C h"
  unfolding reads_def by (erule allE [of _ h], erule wp_mono) auto

lemma reads_return: "P x \<Longrightarrow> reads (return_io x) P"
  by (simp add: reads_def)

lemma reads_fail: "reads (fail_io e) P"
  by (simp add: reads_def)

lemma reads_check: "(r = None \<Longrightarrow> P ()) \<Longrightarrow> reads (check_io r) P"
  by (simp add: reads_def split: option.split)

lemma reads_if: "(c \<Longrightarrow> reads m P) \<Longrightarrow> (\<not> c \<Longrightarrow> reads n P) \<Longrightarrow> reads (if c then m else n) P"
  by simp

lemma reads_any: "reads m P \<Longrightarrow> reads m (\<lambda>_. True)"
  unfolding reads_def by (auto elim: wp_mono)

lemma reads_bind:
  assumes "reads m P" and "\<And>x. P x \<Longrightarrow> reads (f x) P'"
  shows "reads (bind_io m f) P'"
  unfolding reads_def
proof
  fix h show "wp (bind_io m f) (\<lambda>x g. P' x \<and> g = h) (\<lambda>_ g. g = h) (\<lambda>g. g = h) h"
    by (intro wp_bind reads_wp [OF assms(1)] reads_wp [OF assms(2)]) simp_all
qed

lemma reads_then: "reads m P \<Longrightarrow> (\<And>x. P x \<Longrightarrow> reads n P') \<Longrightarrow> reads (then_io m n) P'"
  unfolding then_io_def by (rule reads_bind)

lemma reads_catch:
  assumes "reads m P" and "\<And>e. reads (hnd e) P"
  shows "reads (catch_io m hnd) P"
  unfolding reads_def
proof
  fix h show "wp (catch_io m hnd) (\<lambda>x g. P x \<and> g = h) (\<lambda>_ g. g = h) (\<lambda>g. g = h) h"
    by (intro wp_catch reads_wp [OF assms(1)] reads_wp [OF assms(2)]) simp_all
qed

lemma reads_wrap: "reads m P \<Longrightarrow> reads (wrap_io fmt args m) P"
  unfolding wrap_io_def by (intro reads_catch reads_fail)

lemma reads_on_home: "reads m P \<Longrightarrow> reads (on_home m) P"
  by (subst reads_def, intro allI wp_on_home) (rule reads_wp, simp_all)

lemma reads_readManaged: "reads (readManaged p maxBytes) (readable maxBytes)"
  unfolding reads_def by (auto intro: wp_readManaged)

lemma reads_readStored: "reads (readStored ext maxBytes resource sha) (\<lambda>c. \<forall>body. c = Some body \<longrightarrow> digest ext body = sha)"
  unfolding readStored_def by (intro reads_catch reads_bind [OF reads_readManaged] reads_return) auto

lemma reads_cacheUsable: "reads (cacheUsable ext maxBytes base resource) (\<lambda>_. True)"
  unfolding cacheUsable_def Let_def
  by (intro reads_if reads_bind [OF reads_readStored] reads_return TrueI)

lemma reads_stagedBody: "reads (stagedBody ext env route maxBytes base resource) (\<lambda>_. True)"
proof -
  have nm: "reads (notModifiedBody ext maxBytes base resource etag lastModified response) (\<lambda>_. True)" for etag lastModified response
    unfolding notModifiedBody_def Let_def
    by (intro reads_if reads_return reads_bind [OF reads_readStored] TrueI)
  show ?thesis
    unfolding stagedBody_def Let_def
    by (intro reads_if reads_return reads_bind [OF reads_cacheUsable] TrueI) (auto intro: nm reads_return split: sum.split)
qed

section \<open>Entries of a plan\<close>

text \<open>The digest is 64 hexadecimal characters.\<close>

definition ext_ok :: "externals \<Rightarrow> bool" where
  "ext_ok ext \<longleftrightarrow> (\<forall>body. length (digest ext body) = 64 \<and> hex_DecodeString_ok (digest ext body))"

definition item_ok :: "externals \<Rightarrow> string \<times> preparedResource \<Rightarrow> bool" where
  "item_ok ext entry = (case entry of (ident, item) \<Rightarrow>
     ident = rs_ID (pp_resource item) \<and> validateEntry (ident, pp_state item) = None
     \<and> resourceStateMatches (pp_resource item) (pp_state item)
     \<and> st_SourceHash (pp_state item) = digest ext (rs_URL (pp_resource item)) \<and> pinMatches (pp_resource item) (st_SHA256 (pp_state item)))"

lemma matches_iff:
  "resourceStateMatches r st \<longleftrightarrow> st_Kind st = rs_Kind r \<and> st_Format st = rs_Format r \<and> st_RuleType st = rs_RuleType r"
  by (auto simp: resourceStateMatches_def sameResourceState_def)

lemma ValidateDeclaration_cong:
  "rs_ID r = rs_ID r' \<Longrightarrow> rs_Kind r = rs_Kind r' \<Longrightarrow> rs_Format r = rs_Format r' \<Longrightarrow> rs_RuleType r = rs_RuleType r'
   \<Longrightarrow> ValidateDeclaration r = ValidateDeclaration r'"
  unfolding ValidateDeclaration_def by (simp only:)

lemma filename_matches: "resourceStateMatches r st \<Longrightarrow> resourceFilename ext (rs_ID r) st = filename ext r"
  by (simp add: matches_iff resourceFilename_def filename_def ManagedFilename_def declared_def)

lemma validateStateDocument_entry:
  "validateStateDocument ext base = None \<Longrightarrow> (ident, st) \<in> set (doc_Resources base) \<Longrightarrow> validateEntry (ident, st) = None"
  by (simp add: validateStateDocument_def list_all_iff)

lemma baseState_entry:
  assumes "st_SHA256 (baseState base ident) \<noteq> ''''"
  shows "(ident, baseState base ident) \<in> set (doc_Resources base)"
  using assms by (auto simp: baseState_def zeroState_def split: option.splits dest: map_of_SomeD)

lemma reads_prepareCommitted:
  assumes "validateStateDocument ext base = None"
  shows "reads (prepareCommittedResource ext maxBytes base resource) (\<lambda>item. pp_resource item = resource \<and> item_ok ext (rs_ID resource, item))"
proof -
  let ?st = "baseState base (rs_ID resource)"
  have pin: "reads (then_io (check_io (fail_if (\<not> pinMatches resource (st_SHA256 ?st)) ErrPinMismatch))
        (return_io \<lparr> pp_resource = resource, pp_state = ?st, pp_body = None \<rparr>))
      (\<lambda>item. pp_resource item = resource \<and> item_ok ext (rs_ID resource, item))"
    if "st_SHA256 ?st \<noteq> ''''" "st_SourceHash ?st = digest ext (rs_URL resource)" "resourceStateMatches resource ?st"
    using that validateStateDocument_entry [OF assms baseState_entry [OF that(1)]]
    by (intro reads_then [where P = "\<lambda>_. pinMatches resource (st_SHA256 ?st)"] reads_check reads_return) (simp_all add: item_ok_def)
  have ok: "reads (then_io (check_io r) m) P" if "reads m P" for r m P
    by (rule reads_then [where P = "\<lambda>_. True"]) (simp_all add: reads_check that)
  show ?thesis
    unfolding prepareCommittedResource_def Let_def
    by (intro reads_if reads_fail reads_bind [OF reads_readStored]) (auto intro: ok pin reads_fail split: option.split)
qed

lemma reads_acceptBody:
  assumes "ext_ok ext" and "ValidateDeclaration resource = None"
  shows "reads (acceptBody ext env maxBytes base resource staged)
    (\<lambda>r. \<forall>item. r = Inr item \<longrightarrow> pp_resource item = resource \<and> item_ok ext (rs_ID resource, item))"
proof -
  let ?sum = "digest ext (sb_body staged)"
  let ?st = "\<lparr> st_SHA256 = ?sum, st_SourceHash = digest ext (rs_URL resource), st_ETag = boundedValidator (sb_ETag staged),
      st_LastModified = boundedValidator (sb_LastModified staged), st_Kind = rs_Kind resource, st_Format = rs_Format resource,
      st_RuleType = rs_RuleType resource, st_LastCheckedUnix = sg_now env, st_LastSuccessUnix = sg_now env \<rparr>"
  have "ValidateDeclaration (declared (rs_ID resource) ?st) = ValidateDeclaration resource"
    by (rule ValidateDeclaration_cong) (simp_all add: declared_def)
  with assms have "validateEntry (rs_ID resource, ?st) = None"
    by (simp add: validateEntry_def ext_ok_def boundedValidator_def ValidateDeclaration_iff)
  then have ok: "item_ok ext (rs_ID resource, \<lparr> pp_resource = resource, pp_state = ?st, pp_body = b \<rparr>)" if "pinMatches resource ?sum" for b
    using that by (simp add: item_ok_def matches_iff)
  have stored: "reads (if c then readStored ext maxBytes resource ?sum else return_io None) (\<lambda>_. True)" for c
    by (intro reads_if reads_any [OF reads_readStored] reads_return TrueI)
  show ?thesis
    unfolding acceptBody_def Let_def
    by (cases "Resource_Validate (x_yaml ext) (x_regexp ext) resource (sb_body staged)"; cases "pinMatches resource ?sum")
      (simp_all add: reads_return reads_bind [OF stored] ok)
qed

section \<open>Staging\<close>

text \<open>Staging changes the recorded failures and nothing else until it writes the staged files.\<close>

definition reg_kept :: "'z Registry_scheme \<Rightarrow> 'z Registry_scheme \<Rightarrow> bool" where
  "reg_kept r r' \<longleftrightarrow> rg_home r' = rg_home r \<and> rg_active r' = rg_active r \<and> rg_maxBytes r' = rg_maxBytes r"

lemma reg_kept_simps [simp]:
  "reg_kept r r" "reg_kept r (clearFailure ident r') = reg_kept r r'" "reg_kept r (r'\<lparr> rg_failures := fs \<rparr>) = reg_kept r r'"
  by (simp_all add: reg_kept_def clearFailure_def)

lemma reg_kept_trans: "reg_kept r r' \<Longrightarrow> reg_kept r' r'' \<Longrightarrow> reg_kept r r''"
  by (simp add: reg_kept_def)

lemma wp_refreshResource:
  assumes "ext_ok ext" and "ValidateDeclaration resource = None"
  shows "wp (refreshResource ext env route maxBytes base resource)
    (\<lambda>x r'. reg_kept r r' \<and> (\<forall>item. x = Inr item \<longrightarrow> pp_resource item = resource \<and> item_ok ext (rs_ID resource, item)))
    (\<lambda>_. reg_kept r) (reg_kept r) r"
proof -
  have "reads (bind_io (stagedBody ext env route maxBytes base resource) (\<lambda>r.
      case r of Inl err \<Rightarrow> return_io (Inl err) | Inr staged \<Rightarrow> acceptBody ext env maxBytes base resource staged))
    (\<lambda>r. \<forall>item. r = Inr item \<longrightarrow> pp_resource item = resource \<and> item_ok ext (rs_ID resource, item))"
    by (rule reads_bind [OF reads_stagedBody]) (auto intro: reads_return reads_acceptBody [OF assms] split: sum.split)
  note staged = reads_on_home [OF this]
  show ?thesis
    unfolding refreshResource_def registry_recordFailure_def
  proof (rule wp_bind, rule reads_wp [OF staged])
    fix x :: "fetch_error + preparedResource"
    assume x: "\<forall>item. x = Inr item \<longrightarrow> pp_resource item = resource \<and> item_ok ext (rs_ID resource, item)"
    show "wp (case x of
         Inl err \<Rightarrow> bind_io (then_io (modify_io (\<lambda>r. r\<lparr> rg_failures := AList.update (rs_ID resource) (failureMessage err) (rg_failures r) \<rparr>))
             (return_io (resourceFailure (rs_ID resource) (go_error_of err)))) (\<lambda>failure. return_io (Inl failure))
       | Inr item \<Rightarrow> then_io (modify_io (clearFailure (rs_ID resource))) (return_io (Inr item)))
      (\<lambda>x r'. reg_kept r r' \<and> (\<forall>item. x = Inr item \<longrightarrow> pp_resource item = resource \<and> item_ok ext (rs_ID resource, item)))
      (\<lambda>_. reg_kept r) (reg_kept r) r"
    proof (cases x)
      case (Inl err)
      show ?thesis unfolding Inl sum.case by (intro wp_bind wp_then) simp
    next
      case (Inr item)
      then have "pp_resource item = resource \<and> item_ok ext (rs_ID resource, item)" using x by blast
      then show ?thesis unfolding Inr sum.case by (intro wp_then) simp
    qed
  qed simp_all
qed

lemma wp_prepareResources:
  assumes "ext_ok ext" and "validateStateDocument ext base = None"
    and "\<forall>resource \<in> set rs. ValidateDeclaration resource = None" and "list_all (item_ok ext) prepared"
  shows "wp (prepareResources ext env route maxBytes base due k prepared failures rs)
    (\<lambda>ps r'. reg_kept r r' \<and> failures = [] \<and> list_all (item_ok ext) ps
       \<and> map (\<lambda>e. pp_resource (snd e)) ps = map (\<lambda>e. pp_resource (snd e)) prepared @ filter rs_Enabled rs)
    (\<lambda>_. reg_kept r) (reg_kept r) r"
  using assms(3,4)
proof (induction rs arbitrary: k prepared failures r)
  case Nil
  then show ?case by (auto split: list.split)
next
  case (Cons resource rs)
  have IH: "wp (prepareResources ext env route maxBytes base due k' ps fs rs)
      (\<lambda>ps' r'. reg_kept r r' \<and> failures = [] \<and> list_all (item_ok ext) ps'
         \<and> map (\<lambda>e. pp_resource (snd e)) ps' = map (\<lambda>e. pp_resource (snd e)) prepared @ resource # filter rs_Enabled rs)
      (\<lambda>_. reg_kept r) (reg_kept r) r'"
    if "reg_kept r r'" "list_all (item_ok ext) ps" "fs \<noteq> [] \<or> fs = failures \<and> map (\<lambda>e. pp_resource (snd e)) ps = map (\<lambda>e. pp_resource (snd e)) prepared @ [resource]"
    for k' ps fs r'
    using Cons.prems(1) that by (intro wp_mono [OF Cons.IH [of ps k' fs r']]) (auto intro: reg_kept_trans)
  show ?case
  proof (cases "rs_Enabled resource")
    case False
    with Cons.IH [OF _ Cons.prems(2)] Cons.prems(1) show ?thesis by simp
  next
    case enabled: True
    have committed: "wp (bind_io (catch_io (on_home (prepareCommittedResource ext maxBytes base resource)) (\<lambda>err.
          fail_io (resourceFailure (rs_ID resource) (Wrapf ''is not due and has no verified active version: %w'' [] err)))) (\<lambda>item.
        prepareResources ext env route maxBytes base due (Suc k) (prepared @ [(rs_ID resource, item)]) failures rs))
      (\<lambda>ps' r'. reg_kept r r' \<and> failures = [] \<and> list_all (item_ok ext) ps'
         \<and> map (\<lambda>e. pp_resource (snd e)) ps' = map (\<lambda>e. pp_resource (snd e)) prepared @ resource # filter rs_Enabled rs)
      (\<lambda>_. reg_kept r) (reg_kept r) r"
      using Cons.prems(2)
      by (intro wp_bind wp_catch reads_wp [OF reads_on_home [OF reads_prepareCommitted [OF assms(2)]]] IH) auto
    have due: "wp (bind_io (refreshResource ext env route maxBytes base resource) (\<lambda>x.
        case x of
          Inl failure \<Rightarrow> prepareResources ext env route maxBytes base due (Suc k) prepared (failures @ [failure]) rs
        | Inr item \<Rightarrow> prepareResources ext env route maxBytes base due (Suc k) (prepared @ [(rs_ID resource, item)]) failures rs))
      (\<lambda>ps' r'. reg_kept r r' \<and> failures = [] \<and> list_all (item_ok ext) ps'
         \<and> map (\<lambda>e. pp_resource (snd e)) ps' = map (\<lambda>e. pp_resource (snd e)) prepared @ resource # filter rs_Enabled rs)
      (\<lambda>_. reg_kept r) (reg_kept r) r"
    proof (rule wp_bind, rule wp_mono [OF wp_refreshResource [OF assms(1)]])
      show "ValidateDeclaration resource = None" using Cons.prems(1) by simp
      fix x :: "go_error + preparedResource" and r'
      assume x: "reg_kept r r' \<and> (\<forall>item. x = Inr item \<longrightarrow> pp_resource item = resource \<and> item_ok ext (rs_ID resource, item))"
      then show "wp (case x of
          Inl failure \<Rightarrow> prepareResources ext env route maxBytes base due (Suc k) prepared (failures @ [failure]) rs
        | Inr item \<Rightarrow> prepareResources ext env route maxBytes base due (Suc k) (prepared @ [(rs_ID resource, item)]) failures rs)
      (\<lambda>ps' r'. reg_kept r r' \<and> failures = [] \<and> list_all (item_ok ext) ps'
         \<and> map (\<lambda>e. pp_resource (snd e)) ps' = map (\<lambda>e. pp_resource (snd e)) prepared @ resource # filter rs_Enabled rs)
      (\<lambda>_. reg_kept r) (reg_kept r) r'"
        using Cons.prems(2) by (cases x) (simp_all add: IH)
    qed simp_all
    from enabled committed due show ?thesis
      unfolding prepareResources.simps by (auto intro!: wp_then split: option.split)
  qed
qed

text \<open>The committed files and documents of the managed directory.\<close>

definition home_same :: "Home \<Rightarrow> Home \<Rightarrow> bool" where
  "home_same h h' \<longleftrightarrow> h_root h' = h_root h \<and> h_journal h' = h_journal h \<and> h_state h' = h_state h
     \<and> (\<forall>n. h_files h' (InHome n) = h_files h (InHome n))"

definition reg_same :: "'z Registry_scheme \<Rightarrow> 'z Registry_scheme \<Rightarrow> bool" where
  "reg_same r r' \<longleftrightarrow> home_same (rg_home r) (rg_home r') \<and> rg_active r' = rg_active r \<and> rg_maxBytes r' = rg_maxBytes r"

lemma reg_kept_same: "reg_kept r r' \<Longrightarrow> reg_same r r'"
  by (simp add: reg_kept_def reg_same_def home_same_def)

text \<open>A plan for the enabled resources of a snapshot, before it is committed.\<close>

definition plan_for :: "externals \<Rightarrow> Snapshot \<Rightarrow> 'z Registry_scheme \<Rightarrow> Plan \<Rightarrow> bool" where
  "plan_for ext snapshot r p \<longleftrightarrow>
     (\<exists>prepared dir.
        map (\<lambda>e. pp_resource (snd e)) prepared = filter rs_Enabled (c_Resources snapshot) \<and> list_all (item_ok ext) prepared
        \<and> (p = planOf ext dir (Some dir) (rg_maxBytes r) (rg_active r) True prepared \<and> prefix stageDirPrefix dir
           \<or> p = planOf ext '''' None (rg_maxBytes r) (rg_active r) False prepared
             \<and> sameResourceGeneration prepared (doc_Resources (rg_active r))))"

text \<open>A registry in step with its directory, as \<open>NewRegistry\<close> leaves it.\<close>

definition registry_ok :: "externals \<Rightarrow> 'z Registry_scheme \<Rightarrow> bool" where
  "registry_ok ext r \<longleftrightarrow>
     stateOf ext (rg_home r) = Inr (rg_active r) \<and> h_journal (rg_home r) = Absent \<and> h_root (rg_home r) \<and> 0 < rg_maxBytes r
     \<and> doc_Version (rg_active r) = 2 \<and> distinct (map fst (doc_Resources (rg_active r)))"

lemma wp_stageItem:
  "home_same h g \<Longrightarrow> wp (stageItem ext maxBytes dir entry) (\<lambda>_. home_same h) (\<lambda>_. home_same h) (home_same h) g"
proof -
  assume g: "home_same h g"
  have staged: "wp (wrap_io ''resource %q: %w'' [ident] (writeStaged (InDir dir name) body)) (\<lambda>_. home_same h) (\<lambda>_. home_same h) (home_same h) g"
    for ident name body
    unfolding writeStaged_def using g
    by (auto intro!: wp_wrap wp_bind simp: home_same_def split: option.split node.split)
  show ?thesis
    unfolding stageItem_def Let_def using g
    by (cases entry) (auto intro!: wp_bind wp_then wp_catch staged wp_readManaged simp: fail_if_def split: option.split)
qed

lemma wp_currentState:
  assumes "registry_ok ext r" and "Q (rg_active r) r" and "\<And>e. R e r" and "C r"
  shows "wp (currentState ext) Q R C r"
  unfolding currentState_def using assms
  by (intro wp_bind wp_on_home wp_loadStateFile) (auto intro!: wp_bind simp: registry_ok_def)

lemma wp_stageFiles:
  assumes "reg_same r r'" and "\<And>r''. reg_same r r'' \<Longrightarrow> Q (planOf ext (stageDirPrefix @ ident) (Some (stageDirPrefix @ ident)) maxBytes base True prepared) r''"
  shows "wp (bind_io (wrap_io ''resources: create staged resource directory: %w'' [] (on_home (makePrivateDir ident stageDirPrefix))) (\<lambda>stageDir.
        then_io (catch_io (on_home (each_io (stageItem ext maxBytes stageDir) prepared))
            (\<lambda>err. then_io (try_io (on_home (os_RemoveAll stageDir))) (fail_io err)))
          (return_io (planOf ext stageDir (Some stageDir) maxBytes base True prepared))))
      Q (\<lambda>_. reg_same r) (reg_same r) r'"
proof -
  have rm: "wp (then_io (try_io (on_home (os_RemoveAll dir))) (fail_io err)) Q' (\<lambda>_. reg_same r) (reg_same r) r''"
    if "reg_same r r''" for err Q' r'' dir
    using that unfolding os_RemoveAll_def by (auto intro!: wp_then wp_try wp_on_home simp: reg_same_def home_same_def)
  have items: "wp (on_home (each_io (stageItem ext maxBytes dir) prepared)) (\<lambda>_. reg_same r) (\<lambda>_. reg_same r) (reg_same r) r''"
    if "reg_same r r''" for r'' dir
  proof (rule wp_on_home, rule wp_each [where I = "\<lambda>_ _ h. reg_same r (r''\<lparr> rg_home := h \<rparr>)"])
    show "wp (stageItem ext maxBytes dir x) (\<lambda>_ h. reg_same r (r''\<lparr> rg_home := h \<rparr>)) (\<lambda>_ h. reg_same r (r''\<lparr> rg_home := h \<rparr>))
        (\<lambda>h. reg_same r (r''\<lparr> rg_home := h \<rparr>)) h" if "reg_same r (r''\<lparr> rg_home := h \<rparr>)" for x h
      using that by (intro wp_mono [OF wp_stageItem [of "rg_home r" h]]) (simp_all add: reg_same_def)
  qed (simp_all add: that)
  have run: "wp (then_io (catch_io (on_home (each_io (stageItem ext maxBytes dir) prepared))
          (\<lambda>err. then_io (try_io (on_home (os_RemoveAll dir))) (fail_io err)))
        (return_io (planOf ext dir (Some dir) maxBytes base True prepared))) Q (\<lambda>_. reg_same r) (reg_same r) r''"
    if "reg_same r r''" "dir = stageDirPrefix @ ident" for r'' dir
    by (rule wp_then, rule wp_catch, rule wp_mono [OF items [OF that(1)]]) (use that(2) assms(2) rm in auto)
  have "wp (makePrivateDir ident stageDirPrefix) (\<lambda>dir h. dir = stageDirPrefix @ ident \<and> reg_same r (r'\<lparr> rg_home := h \<rparr>))
      (\<lambda>_ h. reg_same r (r'\<lparr> rg_home := h \<rparr>)) (\<lambda>h. reg_same r (r'\<lparr> rg_home := h \<rparr>)) (rg_home r')"
    using assms(1) unfolding makePrivateDir_def by (auto intro!: wp_bind wp_then simp: reg_same_def home_same_def)
  then show ?thesis
    by (intro wp_bind wp_wrap wp_on_home) (erule wp_mono, auto intro: run)
qed

lemma wp_StageDue:
  assumes "ext_ok ext" and "registry_ok ext r"
  shows "wp (StageDue url_Parse ext env stageIdent snapshot route due)
    (\<lambda>p r'. reg_same r r' \<and> plan_for ext snapshot r p \<and> registry_validateSnapshot url_Parse ext snapshot = None)
    (\<lambda>_. reg_same r) (reg_same r) r" (is "wp _ ?P _ _ r")
proof -
  have here: "reg_same r r" by (simp add: reg_same_def home_same_def)
  have valid: "validateStateDocument ext (rg_active r) = None"
    using assms(2) stateOf_valid(1) by (auto simp: registry_ok_def)
  have prepare: "wp (bind_io (prepareResources ext env route (rg_maxBytes r) (rg_active r) due 1 [] [] (c_Resources snapshot)) (\<lambda>prepared.
       if sameResourceGeneration prepared (doc_Resources (rg_active r)) then return_io (planOf ext '''' None (rg_maxBytes r) (rg_active r) False prepared)
       else
         bind_io (wrap_io ''resources: create staged resource directory: %w'' [] (on_home (makePrivateDir stageIdent stageDirPrefix))) (\<lambda>stageDir.
           then_io (catch_io (on_home (each_io (stageItem ext (rg_maxBytes r) stageDir) prepared))
               (\<lambda>err. then_io (try_io (on_home (os_RemoveAll stageDir))) (fail_io err)))
             (return_io (planOf ext stageDir (Some stageDir) (rg_maxBytes r) (rg_active r) True prepared)))))
      ?P (\<lambda>_. reg_same r) (reg_same r) r"
    if snap: "registry_validateSnapshot url_Parse ext snapshot = None"
  proof (rule wp_bind, rule wp_mono [OF wp_prepareResources [OF assms(1) valid]])
    show "\<forall>resource \<in> set (c_Resources snapshot). ValidateDeclaration resource = None"
      using snap by (simp add: registry_validateSnapshot_def checkDeclarations_None_iff list_all_iff declared_ok_def)
    fix prepared r'
    assume "reg_kept r r' \<and> [] = [] \<and> list_all (item_ok ext) prepared
      \<and> map (\<lambda>e. pp_resource (snd e)) prepared = map (\<lambda>e. pp_resource (snd e)) [] @ filter rs_Enabled (c_Resources snapshot)"
    then have p: "reg_same r r'" "list_all (item_ok ext) prepared"
        "map (\<lambda>e. pp_resource (snd e)) prepared = filter rs_Enabled (c_Resources snapshot)"
      by (simp_all add: reg_kept_same)
    have changed: "plan_for ext snapshot r (planOf ext (stageDirPrefix @ stageIdent) (Some (stageDirPrefix @ stageIdent)) (rg_maxBytes r) (rg_active r) True prepared)"
      unfolding plan_for_def using p(2,3) by (intro exI [of _ prepared] exI [of _ "stageDirPrefix @ stageIdent"]) simp
    have same: "plan_for ext snapshot r (planOf ext '''' None (rg_maxBytes r) (rg_active r) False prepared)"
      if "sameResourceGeneration prepared (doc_Resources (rg_active r))"
      unfolding plan_for_def using p(2,3) that by (intro exI [of _ prepared] exI [of _ "''''"]) simp
    show "wp (if sameResourceGeneration prepared (doc_Resources (rg_active r)) then return_io (planOf ext '''' None (rg_maxBytes r) (rg_active r) False prepared)
       else
         bind_io (wrap_io ''resources: create staged resource directory: %w'' [] (on_home (makePrivateDir stageIdent stageDirPrefix))) (\<lambda>stageDir.
           then_io (catch_io (on_home (each_io (stageItem ext (rg_maxBytes r) stageDir) prepared))
               (\<lambda>err. then_io (try_io (on_home (os_RemoveAll stageDir))) (fail_io err)))
             (return_io (planOf ext stageDir (Some stageDir) (rg_maxBytes r) (rg_active r) True prepared))))
      ?P (\<lambda>_. reg_same r) (reg_same r) r'"
      using p(1) snap same changed by (auto intro!: wp_stageFiles)
  qed (auto simp: reg_kept_same)
  have snapshot: "wp (stageSnapshot url_Parse ext snapshot)
      (\<lambda>(maxBytes, base) r'. r' = r \<and> maxBytes = rg_maxBytes r \<and> base = rg_active r \<and> registry_validateSnapshot url_Parse ext snapshot = None)
      (\<lambda>_ r'. r' = r) (\<lambda>r'. r' = r) r"
    unfolding stageSnapshot_def ensureRoot_def
    by (auto intro!: wp_then wp_bind wp_on_home wp_currentState [OF assms(2)] simp: fail_if_def split: option.split)
  have "wp (stageDue url_Parse ext env stageIdent snapshot route due) ?P (\<lambda>_. reg_same r) (reg_same r) r"
    unfolding stageDue_def
  proof (rule wp_then, cases "sg_ctxErr env 0", simp_all only: wp_check option.case here, rule wp_bind, rule wp_mono [OF snapshot], clarify)
    assume "registry_validateSnapshot url_Parse ext snapshot = None"
    from prepare [OF this] show "wp (bind_io (prepareResources ext env route (rg_maxBytes r) (rg_active r) due 1 [] [] (c_Resources snapshot)) (\<lambda>prepared.
       if sameResourceGeneration prepared (doc_Resources (rg_active r)) then return_io (planOf ext '''' None (rg_maxBytes r) (rg_active r) False prepared)
       else
         bind_io (wrap_io ''resources: create staged resource directory: %w'' [] (on_home (makePrivateDir stageIdent stageDirPrefix))) (\<lambda>stageDir.
           then_io (catch_io (on_home (each_io (stageItem ext (rg_maxBytes r) stageDir) prepared))
               (\<lambda>err. then_io (try_io (on_home (os_RemoveAll stageDir))) (fail_io err)))
             (return_io (planOf ext stageDir (Some stageDir) (rg_maxBytes r) (rg_active r) True prepared)))))
      ?P (\<lambda>_. reg_same r) (reg_same r) r" .
  qed (simp_all add: here)
  with here show ?thesis
    unfolding StageDue_def by (intro wp_then) (simp split: option.split, intro allI impI conjI wp_then, simp split: option.split)
qed

end
