(* ===== verification/Resources_Commit.thy ===== *)
theory Resources_Commit
  imports Resources_Staging
begin

text \<open>
  Committing a plan: the commit is undone by the recovery at the next start until it is finalized, finalizing it is
  atomic, rolling it back restores the manifest and the files of before, and a committed plan serves exactly the
  enabled resources of the configuration it was staged for.
\<close>

section \<open>The managed root\<close>

text \<open>No program of the package changes whether the managed root is safe.\<close>

definition roots :: "'a home_io \<Rightarrow> bool" where
  "roots m \<longleftrightarrow> (\<forall>fs h. h_root (snd (snd (m fs h))) = h_root h)"

named_theorems root_intros

lemma roots_basic [root_intros]:
  "roots (return_io x)" "roots (fail_io e)" "roots (read_io f)" "roots (check_io r)"
  by (simp_all add: roots_def return_io_def fail_io_def read_io_def check_io_def split: option.split)

lemma roots_step [root_intros]: "(\<And>h. h_root (f h) = h_root h) \<Longrightarrow> roots (step_io f e)"
proof (unfold roots_def, intro allI)
  fix fs h assume "\<And>h. h_root (f h) = h_root h"
  then show "h_root (snd (snd (step_io f e fs h))) = h_root h" by (cases "(f, e, fs, h)" rule: step_io.cases) simp_all
qed

lemma roots_bind [root_intros]:
  assumes "roots m" and "\<And>x. roots (f x)"
  shows "roots (bind_io m f)"
  unfolding roots_def
proof (intro allI)
  fix fs h
  obtain y fs' h' where run: "m fs h = (y, fs', h')" by (cases "m fs h")
  then have "h_root h' = h_root h" using assms(1) by (metis roots_def snd_conv)
  moreover have "h_root (snd (snd (f x fs' h'))) = h_root h'" for x using assms(2) by (simp add: roots_def)
  ultimately show "h_root (snd (snd ((bind_io m f) fs h))) = h_root h" using run by (cases y) (simp_all add: bind_io_def)
qed

lemma roots_then [root_intros]: "roots m \<Longrightarrow> roots n \<Longrightarrow> roots (then_io m n)"
  by (simp add: then_io_def roots_bind)

lemma roots_catch [root_intros]:
  assumes "roots m" and "\<And>e. roots (hnd e)"
  shows "roots (catch_io m hnd)"
  unfolding roots_def
proof (intro allI)
  fix fs h
  obtain y fs' h' where run: "m fs h = (y, fs', h')" by (cases "m fs h")
  then have "h_root h' = h_root h" using assms(1) by (metis roots_def snd_conv)
  moreover have "h_root (snd (snd (hnd e fs' h'))) = h_root h'" for e using assms(2) by (simp add: roots_def)
  ultimately show "h_root (snd (snd ((catch_io m hnd) fs h))) = h_root h" using run by (cases y) (simp_all add: catch_io_def)
qed

lemma roots_wrap [root_intros]: "roots m \<Longrightarrow> roots (wrap_io fmt args m)"
  by (simp add: wrap_io_def root_intros)

lemma roots_try [root_intros]: "roots m \<Longrightarrow> roots (try_io m)"
  by (simp add: try_io_def root_intros)

lemma roots_each [root_intros]: "(\<And>x. roots (m x)) \<Longrightarrow> roots (each_io m xs)"
  by (induction xs) (simp_all add: root_intros)

lemma roots_if [root_intros]: "roots m \<Longrightarrow> roots n \<Longrightarrow> roots (if c then m else n)"
  by simp

lemma roots_options [root_intros]:
  "roots m \<Longrightarrow> (\<And>x. roots (f x)) \<Longrightarrow> roots (case o' of None \<Rightarrow> m | Some x \<Rightarrow> f x)"
  "(\<And>x. roots (g x)) \<Longrightarrow> (\<And>x. roots (g' x)) \<Longrightarrow> roots (case s of Inl x \<Rightarrow> g x | Inr x \<Rightarrow> g' x)"
  "(\<And>x y. roots (k x y)) \<Longrightarrow> roots (case p of (x, y) \<Rightarrow> k x y)"
  "roots m \<Longrightarrow> (\<And>x. roots (f' x)) \<Longrightarrow> roots (case n of Irregular \<Rightarrow> m | Regular x \<Rightarrow> f' x)"
  by (simp_all split: option.split sum.split prod.split node.split)

lemma roots_files [root_intros]:
  "roots (readManaged p maxBytes)" "roots (writeStaged p body)" "roots (writeManagedAtomic p body)" "roots (removeManaged p)"
  "roots (os_Remove p)" "roots (os_RemoveAll dir)" "roots (makePrivateDir ident pfx)" "roots (loadStateFile ext)" "roots ensureRoot"
  "roots (writeStateAtomic document)" "roots (writeJSONAtomic journal)" "roots syncDirectory" "roots (verifyManifestFile ext maxBytes entry)"
  by (auto simp: readManaged_def writeStaged_def writeManagedAtomic_def removeManaged_def os_Remove_def os_RemoveAll_def makePrivateDir_def
      loadStateFile_def ensureRoot_def writeStateAtomic_def writeJSONAtomic_def syncDirectory_def verifyManifestFile_def Let_def
      intro!: root_intros split: option.split node.split sum.split)

lemma roots_transaction [root_intros]:
  "roots (readTransaction ext)" "roots (restoreFile ext dir maxBytes file)" "roots removeJournal" "roots (verifyManifestFiles ext document maxBytes)"
  by (auto simp: readTransaction_def restoreFile_def removeJournal_def verifyManifestFiles_def Let_def
      intro!: root_intros split: option.split doc_file.split)

lemma roots_restore [root_intros]: "roots (restoreTransaction ext dir journal)"
  unfolding restoreTransaction_def by (intro root_intros)

lemma roots_failPromotion [root_intros]: "roots (failPromotion ext dir cause)" "roots (discardDir dir err)"
  unfolding failPromotion_def discardDir_def by (intro root_intros)+

lemma roots_journalFiles [root_intros]: "roots (journalFiles ext pm index files names)"
proof (induction names arbitrary: index files)
  case (Cons name names)
  have "roots (backupFile ext pm index name)" unfolding backupFile_def Let_def by (intro root_intros)
  moreover have "roots (checkStaged ext pm f)" for f unfolding checkStaged_def Let_def by (intro root_intros)
  ultimately show ?case by (simp add: root_intros Cons.IH)
qed (simp add: root_intros)

lemma roots_promote: "roots (promote ext maxBytes ident previous candidate staged)"
  unfolding promote_def promoteWith_def prepareJournal_def promoteFiles_def promoteFile_def by (intro root_intros)

lemma roots_promoteMetadata: "roots (promoteMetadata ext maxBytes ident previous candidate)"
  unfolding promoteMetadata_def Let_def by (intro root_intros)

lemma roots_wp:
  assumes "roots m" and "wp m Q R C h"
  shows "wp m (\<lambda>x g. Q x g \<and> h_root g = h_root h) (\<lambda>e g. R e g \<and> h_root g = h_root h) (\<lambda>g. C g \<and> h_root g = h_root h) h"
  unfolding wp_def
proof
  fix fs
  from assms(1) have "h_root (snd (snd (m fs h))) = h_root h" by (simp add: roots_def)
  with assms(2) [unfolded wp_def, rule_format, of fs]
  show "case m fs h of (Ret x, _, g) \<Rightarrow> Q x g \<and> h_root g = h_root h | (Err e, _, g) \<Rightarrow> R e g \<and> h_root g = h_root h
    | (Crash, _, g) \<Rightarrow> C g \<and> h_root g = h_root h"
    by (auto split: prod.splits outcome.splits)
qed

section \<open>A metadata-only promotion\<close>

definition metadataJournal :: "int \<Rightarrow> string \<Rightarrow> stateDocument \<Rightarrow> stateDocument \<Rightarrow> transactionJournal" where
  "metadataJournal maxBytes dir previous candidate =
     \<lparr> tj_Version = 1, tj_Phase = ''promoting'', tj_BackupDir = dir, tj_MaxBytes = maxBytes,
       tj_Previous = previous, tj_Candidate = candidate, tj_MetadataOnly = True, tj_Files = [] \<rparr>"

text \<open>When the manifests name the same bytes, the files of one are the files of the other.\<close>

lemma sameEntry_present:
  assumes "validateJournal ext (metadataJournal maxBytes dir previous candidate) = None"
    and "distinct (map fst (doc_Resources previous))" and "distinct (map fst (doc_Resources candidate))"
    and "\<forall>entry \<in> set (doc_Resources previous). entry_present ext maxBytes h entry"
    and "entry \<in> set (doc_Resources candidate)"
  shows "entry_present ext maxBytes h entry"
proof -
  obtain ident state where entry: "entry = (ident, state)" by (cases entry)
  from assms(1) obtain ps cs where ps: "manifestNames ext previous = Inr ps" and cs: "manifestNames ext candidate = Inr cs"
    and len: "length ps = length cs" and same: "list_all (sameEntry (metadataJournal maxBytes dir previous candidate) cs) ps"
    by (cases "manifestNames ext previous"; cases "manifestNames ext candidate")
      (auto simp: validateJournal_def metadataJournal_def validateStateDocument_def fail_if_def Let_def split: if_splits option.splits)
  note P = manifestNames_Inr [OF ps] and N = manifestNames_Inr [OF cs]
  let ?name = "resourceFilename ext ident state"
  have "fst ` set ps \<subseteq> fst ` set cs"
    using same by (force simp: list_all_iff sameEntry_def split: option.splits dest: map_of_SomeD)
  moreover have "card (fst ` set ps) = card (fst ` set cs)"
    using P(2) N(2) len by (metis distinct_card length_map list.set_map)
  ultimately have names: "fst ` set ps = fst ` set cs" by (simp add: card_subset_eq)
  have cand: "(?name, ident) \<in> set cs" using assms(5) N(1) entry by force
  then have "?name \<in> fst ` set ps" using names by force
  then obtain prior where prior: "(?name, prior) \<in> set ps" by auto
  have "map_of cs ?name = Some ident" using cand N(2) by (simp add: map_of_is_SomeI)
  with same prior have "prior = ident"
    and bytes: "st_SHA256 (the (map_of (doc_Resources previous) ident)) = st_SHA256 (the (map_of (doc_Resources candidate) ident))"
      "sameResourceState (the (map_of (doc_Resources previous) ident)) (the (map_of (doc_Resources candidate) ident))"
    by (auto simp: list_all_iff sameEntry_def metadataJournal_def Let_def)
  with prior P(1) obtain old where old: "(ident, old) \<in> set (doc_Resources previous)" by auto
  with bytes assms(2,3,5) entry have eq: "st_SHA256 old = st_SHA256 state" "sameResourceState old state"
    by (simp_all add: map_of_is_SomeI)
  then have "declared ident old = declared ident state" by (simp add: declared_def sameResourceState_def)
  with assms(4) old eq(1) show ?thesis unfolding entry by (force simp: entry_present_def resourceFilename_def)
qed

lemma pending_metadata:
  assumes "validateJournal ext (metadataJournal maxBytes dir previous candidate) = None" and "dir \<in> set (h_dirs h)" and "h_state h \<noteq> Unsafe"
    and "h_journal h = Doc (metadataJournal maxBytes dir previous candidate)" and "\<forall>n. h_files h (InHome n) = F n"
  shows "pending ext (metadataJournal maxBytes dir previous candidate) F h"
  using assms by (simp add: pending_def metadataJournal_def)

text \<open>However it ends, the directory is as before, or the transaction is pending, or it has been rolled back.\<close>

definition undoable :: "externals \<Rightarrow> transactionJournal \<Rightarrow> Home \<Rightarrow> Home \<Rightarrow> bool" where
  "undoable ext journal h0 h \<longleftrightarrow>
     h_journal h = Absent \<and> h_state h = h_state h0 \<and> (\<forall>n. h_files h (InHome n) = h_files h0 (InHome n))
     \<or> pending ext journal (\<lambda>n. h_files h0 (InHome n)) h \<or> restored journal (\<lambda>n. h_files h0 (InHome n)) h"

lemma wp_promoteMetadata:
  assumes "h_journal h = Absent" and "stateOf ext h = Inr previous"
    and "distinct (map fst (doc_Resources previous))" and "distinct (map fst (doc_Resources candidate))"
    and journal_def: "journal = metadataJournal maxBytes (transactionDirPrefix @ ident) previous candidate"
  shows "wp (promoteMetadata ext maxBytes ident previous candidate)
    (\<lambda>dir g. dir = tj_BackupDir journal \<and> pending ext journal (\<lambda>n. h_files h (InHome n)) g \<and> installed ext journal (\<lambda>n. h_files h (InHome n)) g)
    (\<lambda>_. undoable ext journal h) (undoable ext journal h) h"
    (is "wp _ ?Q ?R ?C h")
proof -
  let ?dir = "transactionDirPrefix @ ident" and ?F = "\<lambda>n. h_files h (InHome n)"
  let ?made = "h\<lparr> h_dirs := ?dir # h_dirs h \<rparr>"
  have here: "undoable ext journal h h" and made: "undoable ext journal h ?made" using assms(1) by (simp_all add: undoable_def)
  have safe: "h_state h \<noteq> Unsafe" using assms(2) stateOf_valid(2) by auto
  have discard: "wp (discardDir ?dir err) Q ?R ?C g" if "h_journal g = Absent" "h_state g = h_state h" "\<forall>n. h_files g (InHome n) = ?F n" for err g Q
    unfolding discardDir_def using that
    by (auto intro!: wp_then wp_try wp_RemoveAll [where P = "undoable ext journal h"] simp: undoable_def outside_same_def)
  have run: "wp (then_io (catch_io (writeJSONAtomic journal) (\<lambda>err.
          bind_io (read_io h_journal) (\<lambda>j. if j = Absent then discardDir ?dir err else fail_io err)))
      (then_io (catch_io (writeStateAtomic candidate) (failPromotion ext ?dir)) (return_io ?dir))) ?Q ?R ?C ?made"
    if valid: "validateJournal ext journal = None" and present: "\<forall>entry \<in> set (doc_Resources previous). entry_present ext maxBytes h entry"
  proof -
    let ?written = "?made\<lparr> h_journal := Doc journal \<rparr>"
    have pend: "pending ext journal ?F ?written"
      unfolding journal_def using safe by (intro pending_metadata valid [unfolded journal_def]) simp_all
    have pend': "pending ext journal ?F (?written\<lparr> h_state := Doc candidate \<rparr>)" by (rule pending_state [OF pend])
    have undo: "undoable ext journal h g" if "pending ext journal ?F g \<or> restored journal ?F g" for g
      using that by (auto simp: undoable_def)
    have inst: "installed ext journal ?F (?written\<lparr> h_state := Doc candidate \<rparr>)"
      using sameEntry_present [OF valid [unfolded journal_def] assms(3,4) present]
      by (auto simp: installed_def journal_def metadataJournal_def entry_present_def)
    have fail: "wp (failPromotion ext ?dir err) Q ?R ?C g" if "pending ext journal ?F g" for err g Q
      by (rule wp_mono [OF wp_failPromotion [OF that]], assumption) (use undo in auto)
    have state: "wp (then_io (catch_io (writeStateAtomic candidate) (failPromotion ext ?dir)) (return_io ?dir)) ?Q ?R ?C ?written"
      using pend pend' inst undo fail
      by (intro wp_then wp_catch wp_writeStateAtomic) (simp_all add: journal_def metadataJournal_def)
    show ?thesis
    proof (rule wp_then, rule wp_catch, rule wp_writeJSONAtomic)
      have "undoable ext journal h ?written" using undo pend by blast
      then show "wp (bind_io (read_io h_journal) (\<lambda>j. if j = Absent then discardDir ?dir e else fail_io e)) (\<lambda>_. wp (then_io
          (catch_io (writeStateAtomic candidate) (failPromotion ext ?dir)) (return_io ?dir)) ?Q ?R ?C) ?R ?C ?made"
        "wp (bind_io (read_io h_journal) (\<lambda>j. if j = Absent then discardDir ?dir e else fail_io e)) (\<lambda>_. wp (then_io
          (catch_io (writeStateAtomic candidate) (failPromotion ext ?dir)) (return_io ?dir)) ?Q ?R ?C) ?R ?C ?written" for e
        using assms(1) by (auto intro!: wp_bind discard)
    qed (use state made pend undo in auto)
  qed
  have check: "wp (then_io (catch_io (check_io (validateJournal ext journal)) (discardDir ?dir)) m) ?Q ?R ?C ?made"
    if "validateJournal ext journal = None \<Longrightarrow> wp m ?Q ?R ?C ?made" for m :: "string home_io"
    using that assms(1) by (intro wp_then wp_catch) (auto intro!: discard split: option.split)
  have "wp (bind_io (makePrivateDir ident transactionDirPrefix) (\<lambda>dir.
       let journal = metadataJournal maxBytes dir previous candidate in
       then_io (catch_io (check_io (validateJournal ext journal)) (discardDir dir))
      (then_io (catch_io (writeJSONAtomic journal) (\<lambda>err.
          bind_io (read_io h_journal) (\<lambda>j. if j = Absent then discardDir dir err else fail_io err)))
      (then_io (catch_io (writeStateAtomic candidate) (failPromotion ext dir)) (return_io dir))))) ?Q ?R ?C h"
    if present: "\<forall>entry \<in> set (doc_Resources previous). entry_present ext maxBytes h entry"
    using here made check [OF run [OF _ present]] unfolding makePrivateDir_def
    by (intro wp_bind) (auto intro!: wp_then simp: Let_def journal_def [symmetric])
  then show ?thesis
    unfolding promoteMetadata_def metadataJournal_def [symmetric] using here by (intro wp_then wp_verifyManifestFiles) simp_all
qed

section \<open>Committing a plan\<close>

text \<open>A restart recovers this manifest and these files.\<close>

definition recovers_to :: "externals \<Rightarrow> stateDocument \<Rightarrow> (string \<Rightarrow> node option) \<Rightarrow> Home \<Rightarrow> bool" where
  "recovers_to ext document F h \<longleftrightarrow>
     (\<exists>h''. recoverTransaction ext [] h = (Ret (), [], h'') \<and> h_journal h'' = Absent \<and> stateOf ext h'' = Inr document
        \<and> (\<forall>n. h_files h'' (InHome n) = F n))"

lemma recovers_settled:
  assumes "h_journal h = Absent" and "stateOf ext h = Inr document" and "\<forall>n. h_files h (InHome n) = F n"
  shows "recovers_to ext document F h"
  using assms by (simp add: recovers_to_def recoverTransaction_def bind_io_def read_io_def return_io_def)

lemma restored_recovers:
  assumes "restored journal F h" and "validateStateDocument ext (tj_Previous journal) = None"
  shows "recovers_to ext (tj_Previous journal) F h"
  using assms by (intro recovers_settled) (simp_all add: restored_def stateOf_def)

lemma pending_recovers:
  assumes "pending ext journal F h"
  shows "recovers_to ext (tj_Previous journal) F h"
proof -
  have valid: "validateStateDocument ext (tj_Previous journal) = None"
    using assms validateJournal_candidate(3) by (simp add: pending_def)
  from runs_result [OF runs_recover_pending [OF assms]] valid show ?thesis
    by (auto simp: recovers_to_def restored_def stateOf_def)
qed

text \<open>The same, on the state itself: nothing happened, or a transaction is pending that the recovery undoes. Removing a
  staged directory keeps it.\<close>

definition undone :: "externals \<Rightarrow> stateDocument \<Rightarrow> (string \<Rightarrow> node option) \<Rightarrow> Home \<Rightarrow> bool" where
  "undone ext document F h \<longleftrightarrow>
     h_journal h = Absent \<and> stateOf ext h = Inr document \<and> (\<forall>n. h_files h (InHome n) = F n)
     \<or> (\<exists>journal. pending ext journal F h \<and> tj_Previous journal = document)"

lemma undone_settled:
  "h_journal h = Absent \<Longrightarrow> stateOf ext h = Inr document \<Longrightarrow> \<forall>n. h_files h (InHome n) = F n \<Longrightarrow> undone ext document F h"
  by (simp add: undone_def)

lemma undone_recovers: "undone ext document F h \<Longrightarrow> recovers_to ext document F h"
  unfolding undone_def using pending_recovers recovers_settled by blast

lemma undone_transaction:
  assumes "pending ext journal F h \<or> restored journal F h" and "tj_Previous journal = document" and "validateStateDocument ext document = None"
  shows "undone ext document F h"
  using assms by (auto simp: undone_def restored_def stateOf_def)

lemma undoable_undone:
  assumes "undoable ext journal h0 h" and "stateOf ext h0 = Inr (tj_Previous journal)"
  shows "undone ext (tj_Previous journal) (\<lambda>n. h_files h0 (InHome n)) h"
proof -
  have "validateStateDocument ext (tj_Previous journal) = None" using assms(2) stateOf_valid(1) by blast
  with undone_transaction [of ext journal "\<lambda>n. h_files h0 (InHome n)" h, OF _ refl] assms show ?thesis
    by (auto simp: undoable_def stateOf_def intro: undone_settled)
qed

lemma finished_recovers:
  assumes "validateJournal ext journal = None" and "tj_Phase journal = ''promoting''"
    and "accepted ext journal F h \<or> finished ext journal F h"
  shows "recovers_to ext (tj_Candidate journal) F h"
proof -
  have settled: "h_journal g = Absent \<and> stateOf ext g = Inr (tj_Candidate journal) \<and> (\<forall>n. h_files g (InHome n) = F n)" if "finished ext journal F g" for g
    using that validateJournal_candidate(1) [OF assms(1)] by (simp add: finished_def installed_def stateOf_def)
  from assms(3) show ?thesis
  proof
    assume "accepted ext journal F h"
    from runs_result [OF runs_recover_accepted [OF assms(1,2) this]] settled show ?thesis by (auto simp: recovers_to_def)
  next
    assume "finished ext journal F h"
    with settled show ?thesis by (intro recovers_settled) simp_all
  qed
qed

definition commit_pre :: "externals \<Rightarrow> Snapshot \<Rightarrow> string \<Rightarrow> string \<Rightarrow> 'z Planned_scheme \<Rightarrow> bool" where
  "commit_pre ext snapshot commitID ident w \<longleftrightarrow>
     registry_ok ext w \<and> (\<exists>p v. plan_for ext snapshot w p \<and> pd_plan w = p\<lparr> pl_validated := v \<rparr>) \<and> distinct (map rs_ID (c_Resources snapshot))
     \<and> length ident = 32 \<and> hex_DecodeString_ok ident \<and> length commitID = 32 \<and> hex_DecodeString_ok commitID
     \<and> length (doc_Resources (rg_active w)) + length (c_Resources snapshot) \<le> 16 ^ 8"

definition committed_plan :: "externals \<Rightarrow> 'z Planned_scheme \<Rightarrow> string \<Rightarrow> transactionJournal \<Rightarrow> (string \<Rightarrow> node option) \<Rightarrow> 'z Planned_scheme \<Rightarrow> bool" where
  "committed_plan ext w0 commitID journal F w \<longleftrightarrow>
     pending ext journal (\<lambda>n. h_files (rg_home w0) (InHome n)) (rg_home w) \<and> installed ext journal F (rg_home w)
     \<and> tj_Previous journal = rg_active w0 \<and> tj_Candidate journal = rg_active w \<and> tj_MaxBytes journal = rg_maxBytes w0
     \<and> rg_active w = planDocument commitID (pd_plan w0) \<and> rg_maxBytes w = rg_maxBytes w0 \<and> h_root (rg_home w)
     \<and> tj_BackupDir journal \<noteq> ''''
     \<and> pd_plan w = (pd_plan w0)\<lparr> pl_transactionDir := tj_BackupDir journal, pl_commitID := commitID, pl_committed := True,
         pl_paths := stablePaths ext (pd_plan w0) \<rparr>"

lemma plan_for_fields:
  assumes "plan_for ext snapshot w p"
  shows "pl_base p = rg_active w" and "pl_maxBytes p = rg_maxBytes w"
    and "map fst (pl_resources p) = map rs_ID (filter rs_Enabled (c_Resources snapshot))"
    and "list_all (\<lambda>entry. validateEntry entry = None) (pl_resources p)"
    and "pl_changed p \<Longrightarrow> length ident = 32 \<Longrightarrow> staged_apart ident (pl_paths p)"
proof -
  from assms obtain prepared dir where p: "map (\<lambda>e. pp_resource (snd e)) prepared = filter rs_Enabled (c_Resources snapshot)"
    "list_all (item_ok ext) prepared"
    and cases: "p = planOf ext dir (Some dir) (rg_maxBytes w) (rg_active w) True prepared \<and> prefix stageDirPrefix dir
      \<or> p = planOf ext '''' None (rg_maxBytes w) (rg_active w) False prepared"
    by (auto simp: plan_for_def)
  from cases show "pl_base p = rg_active w" "pl_maxBytes p = rg_maxBytes w" by (auto simp: planOf_def)
  have res: "pl_resources p = map (\<lambda>(ident, item). (ident, pp_state item)) prepared" using cases by (auto simp: planOf_def)
  have "map fst prepared = map rs_ID (map (\<lambda>e. pp_resource (snd e)) prepared)"
    using p(2) by (auto simp: list_all_iff item_ok_def)
  with p(1) show "map fst (pl_resources p) = map rs_ID (filter rs_Enabled (c_Resources snapshot))" by (simp add: res o_def case_prod_beta)
  show "list_all (\<lambda>entry. validateEntry entry = None) (pl_resources p)" using p(2) by (auto simp: res list_all_iff item_ok_def)
  have "\<not> prefix stageDirPrefix (transactionDirPrefix @ ident)" by (simp add: transactionDirPrefix_def stageDirPrefix_def)
  then show "staged_apart ident (pl_paths p)" if "pl_changed p"
    using cases that by (auto simp: planOf_def staged_apart_def list_all_iff)
qed

lemma planDocument_valid:
  assumes "list_all (\<lambda>entry. validateEntry entry = None) (pl_resources p)" and "length commitID = 32" and "hex_DecodeString_ok commitID"
    and "manifestNames ext (planDocument commitID p) = Inr names"
  shows "validateStateDocument ext (planDocument commitID p) = None"
  using assms by (auto simp: validateStateDocument_def planDocument_def list_all_iff)

lemma promote_refuses:
  assumes "manifestNames ext candidate = Inl err"
  shows "wp (promote ext maxBytes ident previous candidate staged) Q (\<lambda>_ g. g = h) (\<lambda>_. False) h"
  unfolding promote_def ensureRoot_def using assms
  by (auto intro!: wp_then wp_bind simp: fail_if_def split: option.split sum.split)

lemma wp_verifyStagedFiles:
  assumes "Q () h" and "\<And>e. R e h" and "C h"
  shows "wp (verifyStagedFiles ext p) Q R C h"
proof -
  have each: "wp (each_io (verifyStagedFile ext p) (pl_paths p)) Q R C h"
  proof (rule wp_each [where I = "\<lambda>_ _ g. g = h"])
    fix dn x todo g assume "g = h"
    then show "wp (verifyStagedFile ext p x) (\<lambda>_ g. g = h) R C g"
      unfolding verifyStagedFile_def using assms(2,3)
      by (cases x) (auto intro!: wp_then wp_bind wp_wrap wp_readManaged simp: fail_if_def split: option.split)
  qed (use assms in auto)
  show ?thesis
    unfolding verifyStagedFiles_def ensureRoot_def using assms each
    by (auto intro!: wp_then wp_bind wp_wrap simp: fail_if_def split: option.split)
qed

text \<open>The promotion of a plan, whether its files changed or only the metadata.\<close>

lemma wp_if: "(c \<Longrightarrow> wp m Q R C h) \<Longrightarrow> (\<not> c \<Longrightarrow> wp n Q R C h) \<Longrightarrow> wp (if c then m else n) Q R C h"
  by simp

lemma wp_promotePlan:
  assumes "commit_pre ext snapshot commitID ident w"
  defines "p \<equiv> pd_plan w"
  shows "wp (if pl_changed p then promote ext (rg_maxBytes w) ident (rg_active w) (planDocument commitID p) (pl_paths p)
             else promoteMetadata ext (rg_maxBytes w) ident (rg_active w) (planDocument commitID p))
    (\<lambda>dir g. \<exists>journal F. dir = tj_BackupDir journal \<and> dir \<noteq> '''' \<and> pending ext journal (\<lambda>n. h_files (rg_home w) (InHome n)) g
       \<and> installed ext journal F g \<and> tj_Previous journal = rg_active w \<and> tj_Candidate journal = planDocument commitID p
       \<and> tj_MaxBytes journal = rg_maxBytes w \<and> h_root g)
    (\<lambda>_. undone ext (rg_active w) (\<lambda>n. h_files (rg_home w) (InHome n)))
    (undone ext (rg_active w) (\<lambda>n. h_files (rg_home w) (InHome n))) (rg_home w)"
    (is "wp _ ?Q ?R ?C _")
proof -
  let ?h = "rg_home w" and ?doc = "planDocument commitID p"
  note pre = assms(1) [unfolded commit_pre_def registry_ok_def]
  obtain p0 v where p0: "plan_for ext snapshot w p0" and p: "p = p0\<lparr> pl_validated := v \<rparr>" using pre by (auto simp: p_def)
  note P = plan_for_fields [OF p0]
  have doc: "doc_Resources ?doc = pl_resources p0" by (simp add: planDocument_def p)
  have "distinct (map rs_ID (filter rs_Enabled (c_Resources snapshot)))" using pre by (simp add: distinct_map_filter)
  with P(3) doc have ids: "distinct (map fst (doc_Resources ?doc))" by simp
  have here: "undone ext (rg_active w) (\<lambda>n. h_files ?h (InHome n)) ?h" using pre by (intro undone_settled) simp_all
  have root: "h_root ?h" using pre by simp
  show ?thesis
  proof (cases "pl_changed p")
    case False
    define journal where "journal = metadataJournal (rg_maxBytes w) (transactionDirPrefix @ ident) (rg_active w) ?doc"
    have j: "tj_Previous journal = rg_active w" "tj_Candidate journal = ?doc" "tj_MaxBytes journal = rg_maxBytes w" "tj_BackupDir journal \<noteq> ''''"
      by (simp_all add: journal_def metadataJournal_def transactionDirPrefix_def)
    have "wp (promoteMetadata ext (rg_maxBytes w) ident (rg_active w) ?doc) ?Q ?R ?C ?h"
      using pre ids j root undoable_undone [of ext journal ?h]
      by (intro wp_mono [OF roots_wp [OF roots_promoteMetadata wp_promoteMetadata [of ?h ext "rg_active w" ?doc journal]]])
        (auto simp: journal_def)
    with False show ?thesis by simp
  next
    case changed: True
    have "wp (promote ext (rg_maxBytes w) ident (rg_active w) ?doc (pl_paths p)) ?Q ?R ?C ?h"
    proof (cases "manifestNames ext ?doc")
      case (Inl err)
      show ?thesis by (rule wp_mono [OF promote_refuses [OF Inl]], assumption) (use here in auto)
    next
      case (Inr names)
      let ?pm = "promotionOf ext (rg_maxBytes w) ident (rg_active w) ?doc (pl_paths p)"
      have "validateStateDocument ext ?doc = None"
        using planDocument_valid [of p commitID ext names] P(4) pre Inr by (simp add: p)
      moreover have "staged_apart ident (pl_paths p)" using P(5) changed pre by (simp add: p)
      moreover have "length (doc_Resources ?doc) \<le> length (c_Resources snapshot)"
        using P(3) doc by (metis length_filter_le length_map)
      ultimately have ok: "promotion_pre ext (rg_maxBytes w) ident (rg_active w) ?doc (pl_paths p) ?h"
        using pre by (simp add: promotion_pre_def)
      have rec: "undone ext (rg_active w) (\<lambda>n. h_files ?h (InHome n)) g" if "recoverable ext ?pm ?h g" for g
        using that pre stateOf_valid(1) [of ext ?h "rg_active w"] undone_transaction [of ext "journalFor ?pm" "\<lambda>n. h_files ?h (InHome n)" g "rg_active w"]
        by (auto simp: recoverable_def outside_same_def stateOf_def promotionOf_def intro: undone_settled)
      have j: "tj_Previous (journalFor ?pm) = rg_active w" "tj_Candidate (journalFor ?pm) = ?doc"
          "tj_MaxBytes (journalFor ?pm) = rg_maxBytes w" "tj_BackupDir (journalFor ?pm) = transactionDirPrefix @ ident"
        by (simp_all add: promotionOf_def)
      show ?thesis
      proof (rule wp_mono [OF roots_wp [OF roots_promote wp_promote [OF ok]]])
        fix dir g
        assume "(promotion_ok ext ?pm \<and> stagedNames ext ?doc [] (pl_paths p) = Inr (pm_nameToPath ?pm) \<and> dir = transactionDirPrefix @ ident
          \<and> pending ext (journalFor ?pm) (\<lambda>n. h_files ?h (InHome n)) g \<and> committed ext ?pm ?h g) \<and> h_root g = h_root ?h"
        then show "?Q dir g"
          using j root committed_installed [of ext ?pm ?h g] transactionDirPrefix_def
          by (intro exI [of _ "journalFor ?pm"] exI [of _ "\<lambda>n. h_files g (InHome n)"]) auto
      qed (use rec in auto)
    qed
    with changed show ?thesis by simp
  qed
qed

lemma wp_Plan_Commit:
  assumes "commit_pre ext snapshot commitID ident w"
  shows "wp (Plan_Commit ext commitID ident)
    (\<lambda>paths w'. paths = stablePaths ext (pd_plan w) \<and> (\<exists>journal F. committed_plan ext w commitID journal F w'))
    (\<lambda>_ w'. undone ext (rg_active w) (\<lambda>n. h_files (rg_home w) (InHome n)) (rg_home w') \<and> pd_plan w' = pd_plan w \<and> rg_active w' = rg_active w)
    (\<lambda>w'. undone ext (rg_active w) (\<lambda>n. h_files (rg_home w) (InHome n)) (rg_home w')) w"
    (is "wp _ ?Q ?R ?C w")
proof -
  let ?p = "pd_plan w"
  have pre: "stateOf ext (rg_home w) = Inr (rg_active w)" "h_journal (rg_home w) = Absent"
    using assms by (simp_all add: commit_pre_def registry_ok_def)
  have base: "pl_base ?p = rg_active w" using assms plan_for_fields(1) by (auto simp: commit_pre_def)
  have here: "undone ext (rg_active w) (\<lambda>n. h_files (rg_home w) (InHome n)) (rg_home w)" using pre by (intro undone_settled) simp_all
  have run: "wp (commitPlan ext commitID ident ?p (rg_active w)) ?Q ?R ?C w"
    unfolding commitPlan_def base simp_thms if_False
  proof (rule wp_bind, unfold wp_read, rule wp_bind, rule wp_on_home, rule wp_mono [OF wp_promotePlan [OF assms]])
    fix dir h
    assume "\<exists>journal F. dir = tj_BackupDir journal \<and> dir \<noteq> '''' \<and> pending ext journal (\<lambda>n. h_files (rg_home w) (InHome n)) h
       \<and> installed ext journal F h \<and> tj_Previous journal = rg_active w \<and> tj_Candidate journal = planDocument commitID ?p
       \<and> tj_MaxBytes journal = rg_maxBytes w \<and> h_root h"
    then obtain journal F where "dir = tj_BackupDir journal" "dir \<noteq> ''''" "pending ext journal (\<lambda>n. h_files (rg_home w) (InHome n)) h"
       "installed ext journal F h" "tj_Previous journal = rg_active w" "tj_Candidate journal = planDocument commitID ?p"
       "tj_MaxBytes journal = rg_maxBytes w" "h_root h" by blast
    then have "committed_plan ext w commitID journal F (w\<lparr> rg_home := h, rg_active := planDocument commitID ?p,
        pd_plan := ?p\<lparr> pl_transactionDir := dir, pl_commitID := commitID, pl_committed := True, pl_paths := stablePaths ext ?p \<rparr> \<rparr>)"
      by (simp add: committed_plan_def)
    then show "wp (then_io (modify_io (\<lambda>w. w\<lparr> rg_active := planDocument commitID ?p \<rparr>))
         (then_io (modify_io (upd_plan (\<lambda>q. q\<lparr> pl_transactionDir := dir, pl_commitID := commitID, pl_committed := True,
              pl_paths := stablePaths ext ?p \<rparr>)))
            (return_io (stablePaths ext ?p)))) ?Q ?R ?C (w\<lparr> rg_home := h \<rparr>)"
      by - (rule wp_then, unfold wp_modify, rule wp_then, unfold wp_modify wp_return, auto simp: upd_plan_def)
  qed simp_all
  have load: "wp (on_home (loadStateFile ext)) (\<lambda>document w'. document = rg_active w \<and> w' = w) (\<lambda>_ w'. w' = w) (\<lambda>w'. w' = w) w"
    using pre by (intro wp_on_home wp_loadStateFile) simp_all
  have verify: "wp (on_home (verifyStagedFiles ext ?p)) (\<lambda>_ w'. w' = w) (\<lambda>_ w'. w' = w) (\<lambda>w'. w' = w) w"
    by (intro wp_on_home wp_verifyStagedFiles) simp_all
  have body: "wp (bind_io (on_home (loadStateFile ext)) (commitPlan ext commitID ident ?p)) ?Q ?R ?C w"
    by (rule wp_bind, rule wp_mono [OF load]) (use here run in auto)
  have inspect: "wp (then_io (on_home (wrap_io ''resources: inspect pending transaction: %w'' [] (step_io (\<lambda>h. h) os_error)))
        (bind_io (read_io (\<lambda>w. h_journal (rg_home w))) (\<lambda>journal.
           if journal \<noteq> Absent then fail_io (Errorf ''resources: another resource transaction awaits finalization'' [])
           else bind_io (on_home (loadStateFile ext)) (commitPlan ext commitID ident ?p)))) ?Q ?R ?C w"
    by (rule wp_then, rule wp_on_home, rule wp_wrap, unfold wp_step, intro conjI wp_bind)
      (use here pre(2) body in simp_all)
  show ?thesis
    unfolding Plan_Commit_def on_plan_def
    by (rule wp_bind, unfold wp_read, intro wp_if wp_then, simp_all only: wp_fail here simp_thms)
      (rule wp_mono [OF verify], use here inspect in auto)
qed

section \<open>Finalizing and rolling back\<close>

text \<open>While a finalization is not complete, the transaction is pending, accepted or finished.\<close>

definition undecided :: "externals \<Rightarrow> transactionJournal \<Rightarrow> (string \<Rightarrow> node option) \<Rightarrow> (string \<Rightarrow> node option) \<Rightarrow> Home \<Rightarrow> bool" where
  "undecided ext journal F0 F h \<longleftrightarrow>
     pending ext journal F0 h \<and> installed ext journal F h \<or> accepted ext journal F h \<or> finished ext journal F h"

lemma undecided_recovers:
  assumes "undecided ext journal F0 F h" and "validateJournal ext journal = None" and "tj_Phase journal = ''promoting''"
  shows "recovers_to ext (tj_Previous journal) F0 h \<or> recovers_to ext (tj_Candidate journal) F h"
  using assms pending_recovers finished_recovers [OF assms(2,3)] by (auto simp: undecided_def)

lemma committed_planD:
  assumes "committed_plan ext w0 commitID journal F w"
  shows "validateJournal ext journal = None" and "tj_Phase journal = ''promoting''" and "stateOf ext (rg_home w) = Inr (rg_active w)"
    and "doc_Version (rg_active w) = 2" and "doc_CommitID (rg_active w) = commitID"
proof -
  show j: "validateJournal ext journal = None" "tj_Phase journal = ''promoting''" using assms by (simp_all add: committed_plan_def pending_def)
  show "stateOf ext (rg_home w) = Inr (rg_active w)"
    using assms validateJournal_candidate(1) [OF j(1)] by (simp add: committed_plan_def installed_def stateOf_def)
  show "doc_Version (rg_active w) = 2" "doc_CommitID (rg_active w) = commitID" using assms by (simp_all add: committed_plan_def planDocument_def)
qed

lemma wp_RemoveOther:
  assumes "pending ext journal F0 h" and "installed ext journal F h" and "dir \<noteq> tj_BackupDir journal"
  shows "wp (os_RemoveAll dir) (\<lambda>_ g. pending ext journal F0 g \<and> installed ext journal F g)
    (\<lambda>_ g. pending ext journal F0 g \<and> installed ext journal F g) (\<lambda>g. pending ext journal F0 g \<and> installed ext journal F g) h"
proof -
  have same: "outside_same dir h (h\<lparr> h_dirs := ds, h_files := (\<lambda>p. case p of InDir d n \<Rightarrow> if d = dir then None else h_files h p | InHome n \<Rightarrow> h_files h p) \<rparr>)"
    for ds by (simp add: outside_same_def)
  have "pending ext journal F0 (h\<lparr> h_dirs := removeAll dir (h_dirs h),
      h_files := (\<lambda>p. case p of InDir d n \<Rightarrow> if d = dir then None else h_files h p | InHome n \<Rightarrow> h_files h p) \<rparr>)"
    using assms(1,3) by (auto simp: pending_def file_ok_def)
  with assms(1,2) installed_outside [OF assms(2) same] show ?thesis unfolding os_RemoveAll_def by simp
qed

lemma backup_not_stage:
  assumes "validateJournal ext journal = None" and "prefix stageDirPrefix dir"
  shows "dir \<noteq> tj_BackupDir journal"
proof -
  have "prefix transactionDirPrefix (tj_BackupDir journal)"
    using assms(1) by (auto simp: validateJournal_def strings_HasPrefix_def split: if_splits)
  with assms(2) show ?thesis
    by (cases "tj_BackupDir journal") (auto simp: transactionDirPrefix_def stageDirPrefix_def prefix_def)
qed

lemma wp_Plan_Finalize:
  assumes "committed_plan ext w0 commitID journal F w" and "commit_pre ext snapshot commitID ident w0"
  defines "F0 \<equiv> \<lambda>n. h_files (rg_home w0) (InHome n)"
  shows "wp (Plan_Finalize ext)
    (\<lambda>_ w'. finished ext journal F (rg_home w') \<and> rg_active w' = rg_active w)
    (\<lambda>_ w'. undecided ext journal F0 F (rg_home w') \<and> pd_plan w' = pd_plan w)
    (\<lambda>w'. undecided ext journal F0 F (rg_home w')) w"
    (is "wp _ ?Q ?R ?C w")
proof -
  let ?p = "pd_plan w"
  note D = committed_planD [OF assms(1)]
  have pend: "pending ext journal F0 (rg_home w)" and inst: "installed ext journal F (rg_home w)"
    and dir: "pl_transactionDir ?p = tj_BackupDir journal" "tj_BackupDir journal \<noteq> ''''" "pl_commitID ?p = commitID"
    and cand: "doc_CommitID (tj_Candidate journal) = commitID"
    using assms(1) D(5) by (simp_all add: committed_plan_def F0_def)
  have flags: "\<not> pl_finalized ?p" "pl_committed ?p" "\<not> pl_rolledBack ?p" and stage: "pl_stageID ?p = '''' \<or> prefix stageDirPrefix (pl_stageID ?p)"
    using assms(1,2) by (auto simp: committed_plan_def commit_pre_def plan_for_def planOf_def)
  have und: "undecided ext journal F0 F h" if "pending ext journal F0 h \<and> installed ext journal F h" for h using that by (simp add: undecided_def)
  have fin: "wp (finalizeTransaction ext (tj_BackupDir journal)) (\<lambda>_. finished ext journal F)
      (\<lambda>_. undecided ext journal F0 F) (undecided ext journal F0 F) h" if h: "pending ext journal F0 h \<and> installed ext journal F h" for h
    by (rule wp_mono [OF wp_finalizeTransaction [of ext journal F0 h F]]) (use h in \<open>auto simp: undecided_def\<close>)
  have tail: "wp (then_io (on_home (finalizePlan ext ?p)) (modify_io (upd_plan (\<lambda>q. q\<lparr> pl_finalized := True, pl_closed := True \<rparr>)))) ?Q ?R ?C
      (w\<lparr> rg_home := h \<rparr>)"
    if h: "pending ext journal F0 h \<and> installed ext journal F h" for h
  proof -
    have "wp (finalizePlan ext ?p) (\<lambda>_. finished ext journal F) (\<lambda>_. undecided ext journal F0 F) (undecided ext journal F0 F) h"
      unfolding finalizePlan_def planTransaction_def using h und fin dir cand
      by (intro wp_if wp_then wp_bind wp_readTransaction [of ext journal F0]) simp_all
    from wp_mono [OF this] show ?thesis
      by (intro wp_then wp_on_home) (simp add: upd_plan_def)
  qed
  have clear: "wp (removeStaged ?p)
      (\<lambda>_ h. pending ext journal F0 h \<and> installed ext journal F h) (\<lambda>_. undecided ext journal F0 F) (undecided ext journal F0 F) (rg_home w)"
  proof (cases "pl_stageID ?p = ''''")
    case False
    with stage have "pl_stageID ?p \<noteq> tj_BackupDir journal" using backup_not_stage [OF D(1)] by blast
    from wp_RemoveOther [OF pend inst this]
    have "wp (os_RemoveAll (pl_stageID ?p)) (\<lambda>_ h. pending ext journal F0 h \<and> installed ext journal F h)
        (\<lambda>_. undecided ext journal F0 F) (undecided ext journal F0 F) (rg_home w)"
      by (rule wp_mono) (auto simp: und)
    with False show ?thesis
      unfolding removeStaged_def using und pend inst by (auto intro!: wp_then wp_bind wp_wrap split: option.split)
  qed (use pend inst in \<open>simp add: removeStaged_def\<close>)
  have load: "wp (on_home (loadStateFile ext)) (\<lambda>document w'. document = rg_active w \<and> w' = w) (\<lambda>_ w'. w' = w) (\<lambda>w'. w' = w) w"
    using D(3) by (intro wp_on_home wp_loadStateFile) simp_all
  have body: "wp (then_io (on_home (removeStaged ?p)) (then_io (on_home (finalizePlan ext ?p))
      (modify_io (upd_plan (\<lambda>q. q\<lparr> pl_finalized := True, pl_closed := True \<rparr>))))) ?Q ?R ?C w"
    by (rule wp_then, rule wp_on_home, rule wp_mono [OF clear]) (auto intro: tail)
  have cur: "wp (bind_io (on_home (loadStateFile ext)) (\<lambda>current.
      if doc_Version current \<noteq> 2 \<or> doc_CommitID current \<noteq> pl_commitID ?p
      then fail_io (Errorf ''resources: cannot finalize after another manifest was committed'' [])
      else then_io (on_home (removeStaged ?p)) (then_io (on_home (finalizePlan ext ?p))
        (modify_io (upd_plan (\<lambda>q. q\<lparr> pl_finalized := True, pl_closed := True \<rparr>)))))) ?Q ?R ?C w"
    by (rule wp_bind, rule wp_mono [OF load]) (use D(4,5) dir(3) body und pend inst in auto)
  show ?thesis
    unfolding Plan_Finalize_def on_plan_def
    by (rule wp_bind, simp only: wp_read flags cur simp_thms if_False)
qed

text \<open>A restore that returns has written the previous manifest and removed the journal, whatever state it started in.\<close>

lemma wp_restore_any:
  "wp (restoreTransaction ext dir journal) (\<lambda>_ g. h_journal g = Absent \<and> h_state g = Doc (tj_Previous journal)) (\<lambda>_ _. True) (\<lambda>_. True) h"
proof -
  have "wp (then_io syncDirectory (then_io (writeStateAtomic (tj_Previous journal)) (then_io removeJournal
      (then_io syncDirectory (os_RemoveAll dir))))) (\<lambda>_ g. h_journal g = Absent \<and> h_state g = Doc (tj_Previous journal)) (\<lambda>_ _. True) (\<lambda>_. True) g" for g
    unfolding syncDirectory_def removeJournal_def os_RemoveAll_def by (auto intro!: wp_then wp_writeStateAtomic)
  moreover have "wp m (\<lambda>_ _. True) (\<lambda>_ _. True) (\<lambda>_. True) g" for m :: "unit home_io" and g
    by (auto simp: wp_def split: prod.split outcome.split)
  ultimately show ?thesis
    unfolding restoreTransaction_def by (intro wp_then) (rule wp_mono, assumption, simp_all)
qed

lemma wp_readTransaction_any:
  assumes "\<And>journal. h_journal h = Doc journal \<Longrightarrow> Q (journal, tj_BackupDir journal) h" and "\<And>e. R e h" and "C h"
  shows "wp (readTransaction ext) Q R C h"
  unfolding readTransaction_def using assms
  by (auto intro!: wp_bind wp_then split: doc_file.split option.split)

lemma wp_Plan_Rollback:
  assumes "committed_plan ext w0 commitID journal F w" and "commit_pre ext snapshot commitID ident w0"
  defines "F0 \<equiv> \<lambda>n. h_files (rg_home w0) (InHome n)"
  shows "wp (Plan_Rollback ext)
    (\<lambda>_ w'. restored journal F0 (rg_home w') \<and> rg_active w' = rg_active w0 \<and> pd_plan w' = (pd_plan w)\<lparr> pl_rolledBack := True \<rparr>)
    (\<lambda>_ w'. pending ext journal F0 (rg_home w') \<or> restored journal F0 (rg_home w'))
    (\<lambda>w'. pending ext journal F0 (rg_home w') \<or> restored journal F0 (rg_home w')) w"
    (is "wp _ ?Q ?R ?C w")
proof -
  let ?p = "pd_plan w"
  note D = committed_planD [OF assms(1)]
  have pend: "pending ext journal F0 (rg_home w)"
    and dir: "pl_transactionDir ?p = tj_BackupDir journal" "tj_BackupDir journal \<noteq> ''''" "pl_commitID ?p = commitID"
    and cand: "doc_CommitID (tj_Candidate journal) = commitID"
    using assms(1) D(5) by (simp_all add: committed_plan_def F0_def)
  have flags: "\<not> pl_finalized ?p" "pl_committed ?p" "\<not> pl_rolledBack ?p" and base: "pl_base ?p = rg_active w0"
    using assms(1,2) by (auto simp: committed_plan_def commit_pre_def plan_for_def planOf_def)
  have restore: "wp (restorePlan ext ?p) (\<lambda>_. restored journal F0) (\<lambda>_ h. pending ext journal F0 h \<or> restored journal F0 h)
      (\<lambda>h. pending ext journal F0 h \<or> restored journal F0 h) (rg_home w)"
    unfolding restorePlan_def planTransaction_def using pend dir cand wp_restoreTransaction [OF pend]
    by (intro wp_if wp_bind wp_readTransaction [OF pend]) simp_all
  have body: "wp (then_io (on_home (restorePlan ext ?p)) (then_io (modify_io (\<lambda>w. w\<lparr> rg_active := pl_base ?p \<rparr>))
      (modify_io (upd_plan (\<lambda>q. q\<lparr> pl_rolledBack := True \<rparr>))))) ?Q ?R ?C w"
    by (rule wp_then, rule wp_on_home, rule wp_mono [OF restore]) (auto intro!: wp_then simp: upd_plan_def base)
  have load: "wp (on_home (loadStateFile ext)) (\<lambda>document w'. document = rg_active w \<and> w' = w) (\<lambda>_ w'. w' = w) (\<lambda>w'. w' = w) w"
    using D(3) by (intro wp_on_home wp_loadStateFile) simp_all
  have cur: "wp (bind_io (on_home (loadStateFile ext)) (\<lambda>current.
      if doc_Version current \<noteq> 2 \<or> doc_CommitID current \<noteq> pl_commitID ?p
      then fail_io (Errorf ''resources: cannot roll back after another manifest was committed'' [])
      else then_io (on_home (restorePlan ext ?p)) (then_io (modify_io (\<lambda>w. w\<lparr> rg_active := pl_base ?p \<rparr>))
        (modify_io (upd_plan (\<lambda>q. q\<lparr> pl_rolledBack := True \<rparr>)))))) ?Q ?R ?C w"
    by (rule wp_bind, rule wp_mono [OF load]) (use D(4,5) dir(3) body pend in auto)
  show ?thesis
    unfolding Plan_Rollback_def on_plan_def
    by (rule wp_bind, simp only: wp_read flags cur simp_thms if_False)
qed

text \<open>After a finalization that failed, a rollback that returns has restored the manifest of before.\<close>

lemma wp_Plan_Rollback_refused:
  assumes "undecided ext journal F0 F (rg_home w)" and "pl_transactionDir (pd_plan w) \<noteq> ''''"
  shows "wp (Plan_Rollback ext) (\<lambda>_ w'. h_journal (rg_home w') = Absent \<and> h_state (rg_home w') = Doc (tj_Previous journal)
      \<and> pl_stageID (pd_plan w') = pl_stageID (pd_plan w)) (\<lambda>_ _. True) (\<lambda>_. True) w"
proof -
  have any: "wp (planTransaction ext p) (\<lambda>j h. tj_Previous j = tj_Previous journal) (\<lambda>_ _. True) (\<lambda>_. True) h"
    if "undecided ext journal F0 F h" for p h
    unfolding planTransaction_def
    by (intro wp_bind wp_readTransaction_any) (use that in \<open>auto simp: undecided_def pending_def accepted_def finished_def\<close>)
  have r: "wp (restorePlan ext (pd_plan w)) (\<lambda>_ g. h_journal g = Absent \<and> h_state g = Doc (tj_Previous journal)) (\<lambda>_ _. True) (\<lambda>_. True) (rg_home w)"
    unfolding restorePlan_def using assms(2)
    by (intro wp_if wp_bind) (simp, rule wp_mono [OF any [OF assms(1)]], metis wp_restore_any, simp_all)
  have load: "wp (on_home (loadStateFile ext)) (\<lambda>_ w'. w' = w) (\<lambda>_ _. True) (\<lambda>_. True) w"
    by (intro wp_on_home wp_loadStateFile) simp_all
  have body: "wp (then_io (on_home (restorePlan ext (pd_plan w))) (then_io (modify_io (\<lambda>w. w\<lparr> rg_active := pl_base p \<rparr>))
      (modify_io (upd_plan (\<lambda>q. q\<lparr> pl_rolledBack := True \<rparr>)))))
      (\<lambda>_ w'. h_journal (rg_home w') = Absent \<and> h_state (rg_home w') = Doc (tj_Previous journal)
      \<and> pl_stageID (pd_plan w') = pl_stageID (pd_plan w)) (\<lambda>_ _. True) (\<lambda>_. True) w" for p
    by (rule wp_then, rule wp_on_home, rule wp_mono [OF r]) (auto intro!: wp_then simp: upd_plan_def)
  show ?thesis
    unfolding Plan_Rollback_def on_plan_def
    by (rule wp_bind, unfold wp_read, intro wp_if, simp, rule wp_bind, rule wp_mono [OF load]) (use body in auto)
qed

section \<open>Resolving the committed files\<close>

lemma runs_on_home: "runs m (\<lambda>x h. Q x (r\<lparr> rg_home := h \<rparr>)) (rg_home r) \<Longrightarrow> runs (on_home m) Q r"
  by (auto simp: runs_def on_home_def)

lemma runs_loadStateFile: "stateOf ext h = Inr document \<Longrightarrow> Q document h \<Longrightarrow> runs (loadStateFile ext) Q h"
  unfolding loadStateFile_def by (auto intro!: runs_then runs_bind)

lemma Resource_Validate_declared:
  "resourceStateMatches r st \<Longrightarrow> Resource_Validate ym rx (declared (rs_ID r) st) body = Resource_Validate ym rx r body"
proof -
  assume m: "resourceStateMatches r st"
  let ?d = "declared (rs_ID r) st"
  have eq: "rs_ID ?d = rs_ID r" "rs_Kind ?d = rs_Kind r" "rs_Format ?d = rs_Format r" "rs_RuleType ?d = rs_RuleType r"
    using m by (simp_all add: matches_iff declared_def)
  have "ValidateDeclaration ?d = ValidateDeclaration r" by (rule ValidateDeclaration_cong) (simp_all only: eq)
  moreover have "scanRules rx ?d n ls = scanRules rx r n ls" for n ls
    by (induction ls arbitrary: n) (simp_all add: eq Let_def split: option.split)
  ultimately show ?thesis unfolding Resource_Validate_def validateRules_def by (simp only: eq)
qed

text \<open>The registry has the file of a resource, with the bytes and the source the manifest records.\<close>

definition served :: "externals \<Rightarrow> Registry \<Rightarrow> Home \<Rightarrow> Resource \<Rightarrow> bool" where
  "served ext r h resource \<longleftrightarrow>
     (\<exists>st. map_of (doc_Resources (rg_active r)) (rs_ID resource) = Some st \<and> resourceStateMatches resource st
        \<and> st_SourceHash st = digest ext (rs_URL resource) \<and> pinMatches resource (st_SHA256 st) \<and> entry_present ext (rg_maxBytes r) h (rs_ID resource, st))"

lemma runs_resolveResource:
  assumes "served ext r h resource"
  shows "runs (resolveResource ext r resource) (\<lambda>x h'. x = (rs_ID resource, InHome (filename ext resource)) \<and> h' = h) h"
proof -
  from assms obtain st body where st: "map_of (doc_Resources (rg_active r)) (rs_ID resource) = Some st" "resourceStateMatches resource st"
      "st_SourceHash st = digest ext (rs_URL resource)" "pinMatches resource (st_SHA256 st)"
    and body: "h_files h (InHome (filename ext resource)) = Some (Regular body)" "readable (rg_maxBytes r) body"
      "digest ext body = st_SHA256 st" "valid_bytes ext resource body"
    by (auto simp: served_def entry_present_def filename_matches Resource_Validate_declared)
  show ?thesis
    unfolding resolveResource_def Let_def
    by (rule runs_bind, rule runs_wrap, rule runs_readManaged [OF body(1,2)]) (use st body in \<open>auto intro!: runs_then\<close>)
qed

lemma AList_update_new: "k \<notin> fst ` set al \<Longrightarrow> AList.update k v al = al @ [(k, v)]"
  by (induction al) auto

lemma runs_resolveResources:
  assumes "\<forall>resource \<in> set rs. rs_Enabled resource \<longrightarrow> served ext r h resource" and "distinct (map rs_ID rs)"
    and "fst ` set paths \<inter> rs_ID ` set rs = {}"
  shows "runs (resolveResources ext r paths rs)
    (\<lambda>ps h'. ps = paths @ map (\<lambda>resource. (rs_ID resource, InHome (filename ext resource))) (filter rs_Enabled rs) \<and> h' = h) h"
  using assms
proof (induction rs arbitrary: paths)
  case (Cons resource rs)
  show ?case
  proof (cases "rs_Enabled resource")
    case True
    have new: "AList.update (rs_ID resource) (InHome (filename ext resource)) paths = paths @ [(rs_ID resource, InHome (filename ext resource))]"
      using Cons.prems(3) by (intro AList_update_new) auto
    have "runs (resolveResources ext r (paths @ [(rs_ID resource, InHome (filename ext resource))]) rs)
        (\<lambda>ps h'. ps = paths @ (rs_ID resource, InHome (filename ext resource)) # map (\<lambda>resource. (rs_ID resource, InHome (filename ext resource))) (filter rs_Enabled rs)
          \<and> h' = h) h"
      using Cons.IH [of "paths @ [(rs_ID resource, InHome (filename ext resource))]"] Cons.prems by auto
    with True Cons.prems(1) new show ?thesis
      by (simp, intro runs_bind runs_mono [OF runs_resolveResource]) auto
  next
    case False
    then show ?thesis using Cons by simp
  qed
qed simp

lemma PathsWithHome_committed:
  assumes "committed_plan ext w0 commitID journal F w" and "commit_pre ext snapshot commitID ident w0"
    and "registry_validateSnapshot url_Parse ext snapshot = None"
  shows "PathsWithHome url_Parse ext snapshot [] w = (Ret (stablePaths ext (pd_plan w0)), [], w)"
proof -
  note D = committed_planD [OF assms(1)]
  from assms(2) obtain prepared p0 v where
      p: "map (\<lambda>e. pp_resource (snd e)) prepared = filter rs_Enabled (c_Resources snapshot)" "list_all (item_ok ext) prepared"
    and res: "pl_resources (pd_plan w0) = map (\<lambda>(ident, item). (ident, pp_state item)) prepared"
    by (auto simp: commit_pre_def plan_for_def planOf_def)
  have active: "doc_Resources (rg_active w) = map (\<lambda>(ident, item). (ident, pp_state item)) prepared"
    using assms(1) res by (simp add: committed_plan_def planDocument_def)
  have fst: "map fst prepared = map rs_ID (filter rs_Enabled (c_Resources snapshot))"
  proof -
    have "map fst prepared = map rs_ID (map (\<lambda>e. pp_resource (snd e)) prepared)" using p(2) by (auto simp: list_all_iff item_ok_def)
    then show ?thesis by (simp only: p(1))
  qed
  have ids: "distinct (map rs_ID (c_Resources snapshot))" using assms(2) by (simp add: commit_pre_def)
  then have dist: "distinct (map fst (doc_Resources (rg_active w)))"
    using fst by (simp add: active o_def case_prod_beta distinct_map_filter)
  have paths: "stablePaths ext (pd_plan w0) = map (\<lambda>resource. (rs_ID resource, InHome (filename ext resource))) (filter rs_Enabled (c_Resources snapshot))"
  proof -
    have "stablePaths ext (pd_plan w0) = map (\<lambda>e. (rs_ID (pp_resource (snd e)), InHome (filename ext (pp_resource (snd e))))) prepared"
      unfolding stablePaths_def res using p(2) by (auto simp: list_all_iff item_ok_def filename_matches)
    then show ?thesis by (simp flip: p(1) add: o_def)
  qed
  have serves: "served ext (Registry.truncate w) (rg_home w) resource" if "resource \<in> set (c_Resources snapshot)" "rs_Enabled resource" for resource
  proof -
    have "resource \<in> set (map (\<lambda>e. pp_resource (snd e)) prepared)" using that p(1) by simp
    then obtain ident item where item: "(ident, item) \<in> set prepared" "pp_resource item = resource" by auto
    with p(2) have ok: "item_ok ext (ident, item)" by (auto simp: list_all_iff)
    then have ident: "ident = rs_ID resource" using item by (simp add: item_ok_def)
    have entry: "(ident, pp_state item) \<in> set (doc_Resources (rg_active w))" using item active by force
    then have "map_of (doc_Resources (rg_active w)) ident = Some (pp_state item)" using dist by (rule map_of_is_SomeI [rotated])
    moreover have "entry_present ext (rg_maxBytes w) (rg_home w) (ident, pp_state item)"
      using entry assms(1) by (auto simp: committed_plan_def installed_def)
    ultimately show ?thesis
      using ok item(2) unfolding served_def ident item_ok_def by (intro exI [of _ "pp_state item"]) (simp add: Registry.truncate_def)
  qed
  have cur: "runs (currentState ext) (\<lambda>_ w'. w' = w) w"
    unfolding currentState_def using D(3) by (intro runs_bind runs_on_home runs_loadStateFile) (auto intro!: runs_bind)
  have run: "runs (pathsLocked ext snapshot) (\<lambda>ps w'. ps = stablePaths ext (pd_plan w0) \<and> w' = w) w"
  proof -
    have root: "runs (on_home ensureRoot) (\<lambda>_ w'. w' = w) w"
      unfolding ensureRoot_def using assms(1) by (intro runs_on_home runs_bind) (simp add: committed_plan_def fail_if_def)
    have "runs (on_home (resolveResources ext (Registry.truncate w) [] (c_Resources snapshot))) (\<lambda>ps w'. ps = stablePaths ext (pd_plan w0) \<and> w' = w) w"
      using serves ids by (intro runs_on_home runs_mono [OF runs_resolveResources]) (auto simp: paths)
    moreover have "\<not> hasEnabledResources snapshot \<and> stablePaths ext (pd_plan w0) = []" if "doc_Resources (rg_active w) = []"
    proof -
      have "filter rs_Enabled (c_Resources snapshot) = []" using that active p(1) by simp
      then show ?thesis by (auto simp: paths hasEnabledResources_def list_ex_iff filter_empty_conv)
    qed
    ultimately have "runs (bind_io (read_io Registry.truncate) (\<lambda>r.
        if doc_Resources (rg_active r) = [] then
          (if hasEnabledResources snapshot then fail_io (Errorf ''resources: no committed resource files'' []) else return_io [])
        else on_home (resolveResources ext r [] (c_Resources snapshot)))) (\<lambda>ps w'. ps = stablePaths ext (pd_plan w0) \<and> w' = w) w"
      by (intro runs_bind) (auto simp: Registry.truncate_def)
    then show ?thesis unfolding pathsLocked_def by (intro runs_then runs_mono [OF root]) simp
  qed
  have "runs (PathsWithHome url_Parse ext snapshot) (\<lambda>ps w'. ps = stablePaths ext (pd_plan w0) \<and> w' = w) w"
    unfolding PathsWithHome_def using assms(3) by (intro runs_then) (simp, intro runs_then runs_mono [OF cur], simp add: run)
  then show ?thesis by (auto simp: runs_def)
qed

section \<open>Properties\<close>

text \<open>Validating and committing a staged plan.\<close>

definition plan_world :: "Registry \<Rightarrow> Plan \<Rightarrow> Planned" where
  "plan_world r p = Registry.extend r \<lparr> pd_plan = p \<rparr>"

definition commit_staged ::
  "externals \<Rightarrow> (string option \<Rightarrow> (string \<times> path) list \<Rightarrow> go_error option) \<Rightarrow> string \<Rightarrow> string \<Rightarrow> (Planned, (string \<times> path) list) io" where
  "commit_staged ext validator commitID ident = then_io (Plan_Validate ext validator) (Plan_Commit ext commitID ident)"

lemma wp_Plan_Validate:
  assumes "\<not> pl_closed (pd_plan w)" and "\<not> pl_committed (pd_plan w)" and "\<not> pl_rolledBack (pd_plan w)"
  shows "wp (Plan_Validate ext validator) (\<lambda>_ w'. w' = upd_plan (pl_validated_update (\<lambda>_. True)) w)
    (\<lambda>_ w'. rg_home w' = rg_home w \<and> pl_stageID (pd_plan w') = pl_stageID (pd_plan w)) (\<lambda>w'. rg_home w' = rg_home w) w"
  unfolding Plan_Validate_def on_plan_def using assms
  by (intro wp_bind)
    (auto intro!: wp_then wp_catch wp_on_home wp_verifyStagedFiles simp: upd_plan_def split: option.split)

lemma plan_for_cong: "rg_active r' = rg_active r \<Longrightarrow> rg_maxBytes r' = rg_maxBytes r \<Longrightarrow> plan_for ext snapshot r' p = plan_for ext snapshot r p"
  for r :: "'a Registry_scheme" and r' :: "'b Registry_scheme"
  by (simp add: plan_for_def)

lemma staged_commit_pre:
  assumes "registry_ok ext r" and "reg_same r r'" and "plan_for ext snapshot r p" and "registry_validateSnapshot url_Parse ext snapshot = None"
    and "length ident = 32" and "hex_DecodeString_ok ident" and "length commitID = 32" and "hex_DecodeString_ok commitID"
    and "length (doc_Resources (rg_active r)) + length (c_Resources snapshot) \<le> 16 ^ 8"
  shows "commit_pre ext snapshot commitID ident (upd_plan (pl_validated_update (\<lambda>_. v)) (plan_world r' p))"
proof -
  let ?w = "upd_plan (pl_validated_update (\<lambda>_. v)) (plan_world r' p)"
  have w: "rg_home ?w = rg_home r'" "rg_active ?w = rg_active r" "rg_maxBytes ?w = rg_maxBytes r" "pd_plan ?w = p\<lparr> pl_validated := v \<rparr>"
    using assms(2) by (simp_all add: upd_plan_def plan_world_def Registry.extend_def reg_same_def)
  have "registry_ok ext ?w"
    using assms(1,2) w by (auto simp: registry_ok_def reg_same_def home_same_def stateOf_def)
  moreover have "plan_for ext snapshot ?w p" using assms(3) w(2,3) by (simp add: plan_for_cong [of ?w r])
  moreover have "distinct (map rs_ID (c_Resources snapshot))"
    using assms(4) by (simp add: registry_validateSnapshot_def checkDeclarations_None_iff)
  moreover have "length (doc_Resources (rg_active ?w)) + length (c_Resources snapshot) \<le> 16 ^ 8" using assms(9) w(2) by simp
  ultimately show ?thesis using assms(5-8) w(4) unfolding commit_pre_def by (intro conjI exI [of _ p] exI [of _ v])
qed

lemma wp_commit_staged:
  assumes "registry_ok ext r" and "reg_same r r'" and "plan_for ext snapshot r p" and "registry_validateSnapshot url_Parse ext snapshot = None"
    and "length ident = 32" and "hex_DecodeString_ok ident" and "length commitID = 32" and "hex_DecodeString_ok commitID"
    and "length (doc_Resources (rg_active r)) + length (c_Resources snapshot) \<le> 16 ^ 8"
  shows "wp (commit_staged ext validator commitID ident)
    (\<lambda>paths w'. PathsWithHome url_Parse ext snapshot [] w' = (Ret paths, [], w')
       \<and> map fst paths = map rs_ID (filter rs_Enabled (c_Resources snapshot))
       \<and> (\<exists>journal F w0. committed_plan ext w0 commitID journal F w' \<and> commit_pre ext snapshot commitID ident w0
            \<and> rg_active w0 = rg_active r \<and> home_same (rg_home r) (rg_home w0)))
    (\<lambda>_ w'. recovers_to ext (rg_active r) (\<lambda>n. h_files (rg_home r) (InHome n)) (rg_home w'))
    (\<lambda>w'. recovers_to ext (rg_active r) (\<lambda>n. h_files (rg_home r) (InHome n)) (rg_home w')) (plan_world r' p)"
    (is "wp _ ?Q ?R ?C _")
proof -
  let ?w = "upd_plan (pl_validated_update (\<lambda>_. True)) (plan_world r' p)"
  note pre = staged_commit_pre [OF assms, of True]
  have w: "rg_home (plan_world r' p) = rg_home r'" "rg_home ?w = rg_home r'" "rg_active ?w = rg_active r"
    using assms(2) by (simp_all add: upd_plan_def plan_world_def Registry.extend_def reg_same_def)
  have files: "(\<lambda>n. h_files (rg_home r') (InHome n)) = (\<lambda>n. h_files (rg_home r) (InHome n))" using assms(2) by (simp add: reg_same_def home_same_def)
  have here: "recovers_to ext (rg_active r) (\<lambda>n. h_files (rg_home r) (InHome n)) (rg_home r')"
    using assms(1,2) by (intro recovers_settled) (auto simp: registry_ok_def reg_same_def home_same_def stateOf_def)
  have flags: "\<not> pl_closed (pd_plan (plan_world r' p))" "\<not> pl_committed (pd_plan (plan_world r' p))" "\<not> pl_rolledBack (pd_plan (plan_world r' p))"
    using assms(3) by (auto simp: plan_world_def Registry.extend_def plan_for_def planOf_def)
  have same: "home_same (rg_home r) (rg_home ?w)" using assms(2) w(2) by (simp add: reg_same_def)
  have "wp (Plan_Commit ext commitID ident) ?Q ?R ?C ?w"
  proof (rule wp_mono [OF wp_Plan_Commit [OF pre]])
    fix paths w' assume "paths = stablePaths ext (pd_plan ?w) \<and> (\<exists>journal F. committed_plan ext ?w commitID journal F w')"
    then obtain journal F where c: "paths = stablePaths ext (pd_plan ?w)" "committed_plan ext ?w commitID journal F w'" by blast
    have "map fst paths = map rs_ID (filter rs_Enabled (c_Resources snapshot))"
      using c(1) plan_for_fields(3) [OF assms(3)]
      by (simp add: stablePaths_def upd_plan_def plan_world_def Registry.extend_def comp_def case_prod_beta)
    with PathsWithHome_committed [OF c(2) pre assms(4)] c pre same w(3) show "?Q paths w'" by blast
  qed (use w files undone_recovers in auto)
  then show ?thesis
    unfolding commit_staged_def by (intro wp_then wp_mono [OF wp_Plan_Validate [OF flags]]) (use here w in auto)
qed


section \<open>A concrete refresh\<close>

text \<open>The manifest of before serves a GeoIP database; the configuration wants a local rule file instead.\<close>

definition exLocal :: url_parser where
  "exLocal raw = Some \<lparr> u_Scheme = '''', u_Opaque = '''', u_User = False, u_Host = '''', u_Hostname = '''', u_Port = '''', u_Path = raw, u_Fragment = '''' \<rparr>"

definition exEnv :: stage_env where
  "exEnv = \<lparr> sg_ctxErr = (\<lambda>_. None), sg_local = (\<lambda>p. if p = ''/ads.txt'' then Some (Regular ''a.example'') else None),
     sg_transport = (\<lambda>_. \<lparr> tr_net = (\<lambda>_. None), tr_parse = exLocal, tr_resolve = (\<lambda>_ u. u), tr_printable = (\<lambda>s. s), tr_validUTF8 = (\<lambda>_. True),
       tr_timedOut = False \<rparr>),
     sg_capture = False, sg_routed = (\<lambda>_. None), sg_fetchCtx = (\<lambda>_ _. None), sg_now = 7 \<rparr>"

definition exServed :: Registry where
  "exServed = \<lparr> rg_home = exHome, rg_maxBytes = 100, rg_active = exDoc (CHR ''b''), rg_failures = [] \<rparr>"

definition exStaged :: "Plan outcome \<times> fault list \<times> Registry" where
  "exStaged = StageDue exLocal exExt exEnv (replicate 32 (CHR ''1'')) exFilters '''' [''ads''] [] exServed"

definition exPlan :: Plan where
  "exPlan = (case fst exStaged of Ret p \<Rightarrow> p | _ \<Rightarrow> planOf exExt '''' None 0 (exDoc (CHR ''b'')) False [])"

abbreviation exCommit :: "fault list \<Rightarrow> (string \<times> path) list outcome \<times> fault list \<times> Planned" where
  "exCommit faults \<equiv> commit_staged exExt (\<lambda>_ _. None) (replicate 32 (CHR ''2'')) (replicate 32 (CHR ''3'')) faults (plan_world (snd (snd exStaged)) exPlan)"

lemma exServed_ok: "ext_ok exExt" "registry_ok exExt exServed"
proof -
  have "hex_DecodeString_ok (replicate 64 (CHR ''a''))" "hex_DecodeString_ok (replicate 64 (CHR ''b''))" by code_simp+
  then show "ext_ok exExt" by (simp add: ext_ok_def digest_def exExt_def del: replicate.simps)
  have "stateOf exExt (rg_home exServed) = Inr (rg_active exServed)" by code_simp
  then show "registry_ok exExt exServed" by (simp add: registry_ok_def) (simp add: exServed_def exHome_def exDoc_def)
qed

lemma exStaged_Ret: "fst exStaged = Ret exPlan"
  by code_simp


end
