(* ===== verification/Subscriptions_Activation.thy ===== *)
theory Subscriptions_Activation
  imports Subscriptions_Safety
begin

text \<open>
  Activating a subscription together with a commit of managed resources. The subscription store and the resource
  registry are two durable states; the pending marker of the store ties them, so that after any failure or crash the
  next start shows either both as before or both new.
\<close>

section \<open>The active identity\<close>

definition identity_of :: "activeMarker json_file \<Rightarrow> string \<times> string \<times> string" where
  "identity_of f = (case f of Json m \<Rightarrow> (am_ID m, am_ProfileHash m, am_CandidateHash m) | _ \<Rightarrow> ('''', '''', ''''))"

lemma identity_of_marker: "(ident = '''' \<Longrightarrow> p = '''' \<and> c = '''') \<Longrightarrow> identity_of (marker ident p c) = (ident, p, c)"
  by (simp add: identity_of_def marker_def)

lemma store_at_identity:
  assumes "store_at sha url_Parse a p s"
  shows "appliedIdentity s = identity_of a"
  using assms by (simp add: store_at_def store_ok_def mem_ok_def marked_def identity_of_def)

lemma applied_identity_ok:
  assumes "store_ok sha url_Parse s"
  shows "identity_ok sha s (ss_activeID s) (ss_activeProfileHash s) (ss_activeCandidateHash s)"
    and "ss_activeID s = '''' \<Longrightarrow> ss_activeProfileHash s = '''' \<and> ss_activeCandidateHash s = ''''"
proof -
  have disk: "disk_ok sha url_Parse s" and id: "appliedIdentity s = marked s" using assms by (simp_all add: store_ok_def mem_ok_def)
  show "ss_activeID s = '''' \<Longrightarrow> ss_activeProfileHash s = '''' \<and> ss_activeCandidateHash s = ''''"
    using id disk by (auto simp: appliedIdentity_def marked_def disk_ok_def marker_ok_def split: json_file.splits if_splits)
  show "identity_ok sha s (ss_activeID s) (ss_activeProfileHash s) (ss_activeCandidateHash s)"
  proof (cases "ss_activeID s = ''''")
    case False
    with id obtain m where m: "ss_active s = Json m" "am_ID m = ss_activeID s" "am_ProfileHash m = ss_activeProfileHash s"
      "am_CandidateHash m = ss_activeCandidateHash s"
      by (auto simp: marked_def appliedIdentity_def split: json_file.splits)
    with disk False have d: "map_of (ss_dirs s) (ss_activeID s) \<noteq> None"
      and pair: "pair_ok sha (files_of s (ss_activeID s)) (ss_activeProfileHash s) (ss_activeCandidateHash s)"
      by (auto simp: disk_ok_def marker_ok_def)
    from disk_record [OF disk d] have "validID (ss_activeID s)" by (metis settings_ok_validID)
    with d pair show ?thesis by (simp add: identity_ok_def)
  qed (simp add: identity_ok_def)
qed

lemma identity_ok_dirs: "ss_dirs g = ss_dirs s \<Longrightarrow> identity_ok sha g i p c = identity_ok sha s i p c"
proof -
  assume d: "ss_dirs g = ss_dirs s"
  then have "dirOf g = dirOf s" by (simp add: dirOf_def fun_eq_iff)
  with d show ?thesis by (simp add: identity_ok_def)
qed

lemma wp_on_runtime:
  "wp m (\<lambda>x w. Q x (sv\<lparr> sv_runtime := w \<rparr>)) (\<lambda>e w. R e (sv\<lparr> sv_runtime := w \<rparr>)) (\<lambda>w. C (sv\<lparr> sv_runtime := w \<rparr>)) (sv_runtime sv)
   \<Longrightarrow> wp (on_runtime m) Q R C sv"
  by (fastforce simp: wp_def on_runtime_def split: prod.splits outcome.splits)

section \<open>The contract of the resources\<close>

text \<open>
  What an activation relies on: \<open>durable w\<close> is the commit the registry reports after a restart. \<open>Apply\<close> stages the
  new commit and leaves the old one durable; \<open>Finalize\<close> makes the new one durable, and a crash in it leaves one of the
  two; \<open>Restore\<close> that returns has made the old commit durable again.
\<close>

locale resource_commit =
  fixes apply_runtime :: "bytes \<Rightarrow> ('w, unit) io" and restore_runtime :: "bytes option \<Rightarrow> ('w, unit) io" and finalize :: "('w, unit) io"
    and pendingCommit :: "'w \<Rightarrow> string" and durable :: "'w \<Rightarrow> string option"
    and ready :: "'w \<Rightarrow> bool" and staged :: "'w \<Rightarrow> bool" and refused :: "'w \<Rightarrow> bool"
    and oldCommit :: string and newCommit :: string
  assumes ready_durable: "ready w \<Longrightarrow> durable w = Some oldCommit"
    and staged_durable: "staged w \<Longrightarrow> durable w = Some oldCommit"
    and staged_commit: "staged w \<Longrightarrow> pendingCommit w = newCommit"
    and commit_valid: "validResourceCommitID newCommit"
    and commit_new: "oldCommit \<noteq> newCommit"
    and apply_wp: "ready w \<Longrightarrow> wp (apply_runtime p) (\<lambda>_. staged) (\<lambda>_ w. durable w = Some oldCommit) (\<lambda>w. durable w = Some oldCommit) w"
    and restore_staged: "staged w \<Longrightarrow> wp (restore_runtime q) (\<lambda>_ w. durable w = Some oldCommit) (\<lambda>_ w. durable w = Some oldCommit) (\<lambda>w. durable w = Some oldCommit) w"
    and finalize_wp: "staged w \<Longrightarrow> wp finalize (\<lambda>_ w. durable w = Some newCommit) (\<lambda>_. refused) (\<lambda>_. True) w"
    and restore_refused: "refused w \<Longrightarrow> wp (restore_runtime q) (\<lambda>_ w. durable w = Some oldCommit) (\<lambda>_ _. True) (\<lambda>_. True) w"
begin

definition env_of :: "(nat \<Rightarrow> go_error option) \<Rightarrow> 'w activate_env" where
  "env_of ctxErr = \<lparr> ae_ctxErr = ctxErr, ae_Apply = apply_runtime, ae_Restore = restore_runtime, ae_Finalize = Some finalize,
     ae_PendingResourceCommit = Some pendingCommit \<rparr>"

text \<open>After a restart the store and the resources are both old or both new.\<close>

definition settled :: "(bytes \<Rightarrow> string) \<Rightarrow> url_parser \<Rightarrow> string \<times> string \<times> string \<Rightarrow> string \<times> string \<times> string \<Rightarrow> 'w Service \<Rightarrow> bool" where
  "settled sha url_Parse old new sv \<longleftrightarrow>
     disk_ok sha url_Parse (sv_store sv) \<and> pending_ok sha (sv_store sv)
     \<and> (\<forall>c. durable (sv_runtime sv) = Some c \<longrightarrow> identity_of (recoveredMarker c (sv_store sv)) = (if c = newCommit then new else old))"

definition pend :: "string \<times> string \<times> string \<Rightarrow> bool \<Rightarrow> pendingActivation json_file" where
  "pend old b = Json \<lparr> pa_ID = fst old, pa_ProfileHash = fst (snd old), pa_CandidateHash = snd (snd old),
     pa_ResourceCommitID = newCommit, pa_Accepted = b \<rparr>"

text \<open>The identity active before, on the directories the activation does not change.\<close>

definition fallback :: "(bytes \<Rightarrow> string) \<Rightarrow> string \<times> string \<times> string \<Rightarrow> subStore \<Rightarrow> bool" where
  "fallback sha old s \<longleftrightarrow> identity_ok sha s (fst old) (fst (snd old)) (snd (snd old)) \<and> (fst old = '''' \<longrightarrow> old = ('''', '''', ''''))"

lemma fallback_dirs: "ss_dirs g = ss_dirs s \<Longrightarrow> fallback sha old g = fallback sha old s"
  using identity_ok_dirs [of g s] by (simp add: fallback_def)

lemma validPending_pend:
  assumes "fallback sha old s"
  shows "validPending \<lparr> pa_ID = fst old, pa_ProfileHash = fst (snd old), pa_CandidateHash = snd (snd old), pa_ResourceCommitID = newCommit, pa_Accepted = b \<rparr>"
proof (cases "fst old = ''''")
  case True
  with assms have "old = ('''', '''', '''')" by (simp add: fallback_def)
  with commit_valid show ?thesis by (simp add: validPending_def validOptionalHash_iff)
next
  case False
  with assms commit_valid show ?thesis
    by (simp add: fallback_def identity_ok_def validPending_def pair_ok_def validOptionalHash_iff)
qed

lemma settled_before:
  assumes "disk_at sha url_Parse a Missing (sv_store sv)" and "identity_of a = old" and "durable (sv_runtime sv) = Some oldCommit \<or> old = new"
  shows "settled sha url_Parse old new sv"
  using assms commit_new by (auto simp: settled_def disk_at_def pending_ok_def recoveredMarker_def)

lemma settled_after:
  assumes "disk_at sha url_Parse b Missing (sv_store sv)" and "identity_of b = new" and "durable (sv_runtime sv) = Some newCommit"
  shows "settled sha url_Parse old new sv"
  using assms by (auto simp: settled_def disk_at_def pending_ok_def recoveredMarker_def)

lemma settled_pending:
  assumes "disk_at sha url_Parse c (pend old b) (sv_store sv)" and "fallback sha old (sv_store sv)"
    and "identity_of c = new \<and> (b \<longrightarrow> durable (sv_runtime sv) = Some newCommit) \<or> identity_of c = old \<and> \<not> b \<and> durable (sv_runtime sv) = Some oldCommit"
  shows "settled sha url_Parse old new sv"
proof -
  have "pending_ok sha (sv_store sv)"
    using assms(1,2) validPending_pend [OF assms(2)] by (simp add: pending_ok_def disk_at_def pend_def fallback_def)
  moreover have "identity_of (marker (fst old) (fst (snd old)) (snd (snd old))) = old"
    using assms(2) by (subst identity_of_marker) (auto simp: fallback_def)
  ultimately show ?thesis
    using assms(1,3) commit_new by (auto simp: settled_def disk_at_def recoveredMarker_def pend_def)
qed

section \<open>The activation\<close>

definition before :: "(bytes \<Rightarrow> string) \<Rightarrow> url_parser \<Rightarrow> string \<times> string \<times> string \<Rightarrow> activeMarker json_file \<Rightarrow> subStore \<Rightarrow> bool" where
  "before sha url_Parse old a s \<longleftrightarrow> store_at sha url_Parse a Missing s \<and> identity_of a = old \<and> fallback sha old s"

definition marked_new :: "(bytes \<Rightarrow> string) \<Rightarrow> url_parser \<Rightarrow> string \<times> string \<times> string \<Rightarrow> activeMarker json_file \<Rightarrow> subStore \<Rightarrow> bool" where
  "marked_new sha url_Parse old b s \<longleftrightarrow> store_at sha url_Parse b (pend old False) s \<and> fallback sha old s"

lemma new_nonempty [simp]: "newCommit \<noteq> ''''"
  using commit_valid by (auto simp: validResourceCommitID_def)

lemma new_eq: "(newCommit = '''') = False"
  by simp

lemma wp_markPending:
  assumes "ss_pending s = Missing"
  shows "wp (markActivationPending (fst old) (fst (snd old)) (snd (snd old)) newCommit) (\<lambda>_ g. g = s\<lparr> ss_pending := pend old False \<rparr>) (\<lambda>_ g. g = s)
    (\<lambda>g. g = s \<or> g = s\<lparr> ss_pending := pend old False \<rparr>) s"
  using assms commit_valid unfolding markActivationPending_def pend_def by (auto intro!: wp_bind)

lemma wp_restoreRuntime:
  assumes "wp (restore_runtime q) Q R C (sv_runtime sv)"
    and "\<And>w. Q () w \<Longrightarrow> Q' () (sv\<lparr> sv_runtime := w \<rparr>)" and "\<And>w e e'. R e w \<Longrightarrow> R' e' (sv\<lparr> sv_runtime := w \<rparr>)" and "\<And>w. C w \<Longrightarrow> C' (sv\<lparr> sv_runtime := w \<rparr>)"
  shows "wp (restoreRuntime (env_of ctxErr) q report) Q' R' C' sv"
  unfolding restoreRuntime_def env_of_def
  by (intro wp_catch wp_on_runtime) (simp, rule wp_mono [OF assms(1)], auto simp: assms(2-4))

lemma wp_clear:
  "(Q () (s\<lparr> ss_pending := Missing \<rparr>)) \<Longrightarrow> (\<And>e. R e s) \<Longrightarrow> C s \<Longrightarrow> C (s\<lparr> ss_pending := Missing \<rparr>) \<Longrightarrow> wp clearActivationPending Q R C s"
  unfolding clearActivationPending_def by simp

text \<open>Taking a pending activation back, once the runtime and the marker are the old ones.\<close>

lemma wp_withdraw:
  assumes "disk_at sha url_Parse a (pend old False) (sv_store sv)" and "identity_of a = old" and "fallback sha old (sv_store sv)"
    and "durable (sv_runtime sv) = Some oldCommit"
  shows "wp (then_io (catch_io (on_store clearActivationPending) (\<lambda>err. fail_io (f err))) (fail_io e)) Q
    (\<lambda>_. settled sha url_Parse old new) (settled sha url_Parse old new) sv"
proof -
  have here: "settled sha url_Parse old new sv" by (rule settled_pending [OF assms(1,3)]) (simp add: assms)
  moreover have "settled sha url_Parse old new (sv\<lparr> sv_store := sv_store sv\<lparr> ss_pending := Missing \<rparr> \<rparr>)"
    by (rule settled_before [of _ _ a]) (use disk_at_pending [OF assms(1)] assms in simp_all)
  ultimately show ?thesis by (intro wp_then wp_catch wp_on_store wp_clear) simp_all
qed

lemma wp_setMarker:
  assumes at: "store_at sha url_Parse a (pend old False) (sv_store sv)" and id: "identity_of a = old" and fb: "fallback sha old (sv_store sv)"
    and st: "staged (sv_runtime sv)" and new: "new = identity_of (marker ident p c)"
  shows "wp (catch_io (on_store (setApplied sha ident p c)) (\<lambda>_.
           then_io (restoreRuntime (env_of ctxErr) previousProfile rep)
          (then_io (catch_io (on_store clearActivationPending) (\<lambda>err. fail_io (f err))) (fail_io e))))
    (\<lambda>_ sv'. marked_new sha url_Parse old (marker ident p c) (sv_store sv') \<and> staged (sv_runtime sv'))
    (\<lambda>_. settled sha url_Parse old new) (settled sha url_Parse old new) sv" (is "wp _ ?Q ?R ?C _")
proof (intro wp_catch wp_on_store, rule wp_mono [OF moves_setApplied [OF at, unfolded moves_marker_def]])
  show "?Q x (sv\<lparr> sv_store := g \<rparr>)"
    if "store_at sha url_Parse (marker ident p c) (pend old False) g \<and> ss_dirs g = ss_dirs (sv_store sv)" for x g
    using that fb st fallback_dirs [of g "sv_store sv"] by (simp add: marked_new_def)
  show "?C (sv\<lparr> sv_store := g \<rparr>)"
    if "(disk_at sha url_Parse a (pend old False) g \<or> disk_at sha url_Parse (marker ident p c) (pend old False) g) \<and> ss_dirs g = ss_dirs (sv_store sv)" for g
  proof -
    have "fallback sha old g" "durable (sv_runtime sv) = Some oldCommit"
      using that fb fallback_dirs [of g "sv_store sv"] staged_durable [OF st] by simp_all
    with that settled_pending [of sha url_Parse a old False "sv\<lparr> sv_store := g \<rparr>" new]
      settled_pending [of sha url_Parse "marker ident p c" old False "sv\<lparr> sv_store := g \<rparr>" new] id new show ?thesis by auto
  qed
  show "wp (then_io (restoreRuntime (env_of ctxErr) previousProfile rep)
      (then_io (catch_io (on_store clearActivationPending) (\<lambda>err. fail_io (f err))) (fail_io e))) ?Q ?R ?C (sv\<lparr> sv_store := g \<rparr>)"
    if "g = sv_store sv" for err g
  proof (rule wp_then, rule wp_restoreRuntime [OF restore_staged])
    show "staged (sv_runtime (sv\<lparr> sv_store := g \<rparr>))" using st by simp
  next
    fix w assume w: "durable w = Some oldCommit"
    show "wp (then_io (catch_io (on_store clearActivationPending) (\<lambda>err. fail_io (f err))) (fail_io e)) ?Q ?R ?C (sv\<lparr> sv_store := g, sv_runtime := w \<rparr>)"
      by (rule wp_withdraw) (use that disk_at_store [OF at] id fb w in simp_all)
  qed (rule settled_pending [where c = a and b = False], use that disk_at_store [OF at] id fb in simp_all)+
qed

lemma wp_commitActivation:
  assumes "before sha url_Parse old a (sv_store sv)" and st: "staged (sv_runtime sv)" and new: "new = identity_of (marker ident (pr_Hash r) (pr_CandidateHash r))"
  shows "wp (commitActivation sha (env_of ctxErr) ident r old previousProfile newCommit)
    (\<lambda>_ sv'. marked_new sha url_Parse old (marker ident (pr_Hash r) (pr_CandidateHash r)) (sv_store sv') \<and> staged (sv_runtime sv'))
    (\<lambda>_. settled sha url_Parse old new) (settled sha url_Parse old new) sv" (is "wp _ ?Q ?R ?C _")
proof -
  let ?s = "sv_store sv"
  have at: "store_at sha url_Parse a Missing ?s" and id: "identity_of a = old" and fb: "fallback sha old ?s"
    using assms(1) by (simp_all add: before_def)
  have at': "store_at sha url_Parse a (pend old False) (?s\<lparr> ss_pending := pend old False \<rparr>)" using store_at_pending [OF at] .
  have fb': "fallback sha old (?s\<lparr> ss_pending := pend old False \<rparr>)" using fb fallback_dirs [of "?s\<lparr> ss_pending := pend old False \<rparr>" ?s] by simp
  have keep: "settled sha url_Parse old new (sv\<lparr> sv_store := ?s, sv_runtime := w \<rparr>)" if "durable w = Some oldCommit" for w
    by (rule settled_before [of _ _ a]) (use disk_at_store [OF at] id that in simp_all)
  have same: "sv\<lparr> sv_store := ?s \<rparr> = sv\<lparr> sv_store := ?s, sv_runtime := sv_runtime sv \<rparr>" by simp
  show ?thesis
    unfolding commitActivation_def Let_def case_prod_beta new_eq if_False
  proof (intro wp_then wp_catch wp_on_store, rule wp_mono [OF wp_markPending])
    show "ss_pending ?s = Missing" using at by (simp add: store_at_def)
  next
    fix x g assume g: "g = ?s\<lparr> ss_pending := pend old False \<rparr>"
    show "wp (catch_io (on_store (setApplied sha ident (pr_Hash r) (pr_CandidateHash r))) (\<lambda>_.
           then_io (restoreRuntime (env_of ctxErr) previousProfile (\<lambda>_. Joined_Errors ErrStore ErrRestore))
          (then_io (catch_io (on_store clearActivationPending) (\<lambda>err. fail_io (Joined_Errors ErrStore err)))
             (fail_io ErrStore)))) ?Q ?R ?C (sv\<lparr> sv_store := g \<rparr>)"
      by (rule wp_setMarker [OF _ id _ _ new]) (use g at' fb' st in simp_all)
  next
    fix err g assume g: "g = ?s"
    show "wp (then_io (restoreRuntime (env_of ctxErr) previousProfile (\<lambda>err. Joined_Errors (Joined_Errors ErrStore ErrRestore) err)) (fail_io ErrStore))
      (\<lambda>_. wp (catch_io (on_store (setApplied sha ident (pr_Hash r) (pr_CandidateHash r))) (\<lambda>_.
           then_io (restoreRuntime (env_of ctxErr) previousProfile (\<lambda>_. Joined_Errors ErrStore ErrRestore))
          (then_io (catch_io (on_store clearActivationPending) (\<lambda>err. fail_io (Joined_Errors ErrStore err)))
             (fail_io ErrStore)))) ?Q ?R ?C) ?R ?C (sv\<lparr> sv_store := g \<rparr>)"
      by (intro wp_then wp_restoreRuntime [OF restore_staged]) (use g keep st in simp_all)
  next
    fix g assume g: "g = ?s \<or> g = ?s\<lparr> ss_pending := pend old False \<rparr>"
    have "settled sha url_Parse old new (sv\<lparr> sv_store := ?s\<lparr> ss_pending := pend old False \<rparr> \<rparr>)"
      by (rule settled_pending [where c = a and b = False]) (use disk_at_store [OF at'] fb' id staged_durable [OF st] in simp_all)
    with g keep [of "sv_runtime sv"] same st staged_durable show "settled sha url_Parse old new (sv\<lparr> sv_store := g \<rparr>)" by auto
  qed
qed

text \<open>Moving the marker back after a refused acceptance.\<close>

lemma wp_unmark:
  assumes at: "marked_new sha url_Parse old b (sv_store sv)" and new: "identity_of b = new" and dur: "durable (sv_runtime sv) = Some oldCommit"
  shows "wp (then_io (then_io (catch_io (on_store (restoreApplied sha (fst old) (fst (snd old)) (snd (snd old)))) (\<lambda>_. fail_io e1))
       (catch_io (on_store clearActivationPending) (\<lambda>_. fail_io e2))) (fail_io e3)) Q
    (\<lambda>_. settled sha url_Parse old new) (settled sha url_Parse old new) sv"
proof -
  let ?a = "marker (fst old) (fst (snd old)) (snd (snd old))"
  have st: "store_at sha url_Parse b (pend old False) (sv_store sv)" and fb: "fallback sha old (sv_store sv)"
    using at by (simp_all add: marked_new_def)
  have id: "identity_of ?a = old" using fb by (subst identity_of_marker) (auto simp: fallback_def)
  have moves: "moves_marker sha url_Parse b ?a (pend old False) (restoreApplied sha (fst old) (fst (snd old)) (snd (snd old))) (sv_store sv)"
    by (rule moves_restoreApplied [OF st]) (use fb in \<open>auto simp: fallback_def\<close>)
  have marked: "settled sha url_Parse old new (sv\<lparr> sv_store := g \<rparr>)"
    if "disk_at sha url_Parse b (pend old False) g \<or> disk_at sha url_Parse ?a (pend old False) g" "ss_dirs g = ss_dirs (sv_store sv)" for g
    using that fb fallback_dirs [of g "sv_store sv"] settled_pending [of sha url_Parse b old False "sv\<lparr> sv_store := g \<rparr>" new]
      settled_pending [of sha url_Parse ?a old False "sv\<lparr> sv_store := g \<rparr>" new] id new dur by auto
  have cleared: "settled sha url_Parse old new (sv\<lparr> sv_store := g\<lparr> ss_pending := Missing \<rparr> \<rparr>)" if "disk_at sha url_Parse ?a (pend old False) g" for g
    by (rule settled_before [of _ _ ?a]) (use disk_at_pending [OF that] id dur in simp_all)
  show ?thesis
  proof (rule wp_then, rule wp_then, rule wp_catch, rule wp_on_store, rule wp_mono [OF moves [unfolded moves_marker_def]])
    fix x g assume g: "store_at sha url_Parse ?a (pend old False) g \<and> ss_dirs g = ss_dirs (sv_store sv)"
    then have "disk_at sha url_Parse ?a (pend old False) g" using disk_at_store by blast
    with g show "wp (catch_io (on_store clearActivationPending) (\<lambda>_. fail_io e2)) (\<lambda>_. wp (fail_io e3) Q (\<lambda>_. settled sha url_Parse old new) (settled sha url_Parse old new))
      (\<lambda>_. settled sha url_Parse old new) (settled sha url_Parse old new) (sv\<lparr> sv_store := g \<rparr>)"
      by (intro wp_catch wp_on_store wp_clear) (use marked cleared in simp_all)
  next
    show "wp (fail_io e1) (\<lambda>_. wp (catch_io (on_store clearActivationPending) (\<lambda>_. fail_io e2)) (\<lambda>_. wp (fail_io e3) Q (\<lambda>_. settled sha url_Parse old new) (settled sha url_Parse old new))
      (\<lambda>_. settled sha url_Parse old new) (settled sha url_Parse old new)) (\<lambda>_. settled sha url_Parse old new) (settled sha url_Parse old new) (sv\<lparr> sv_store := g \<rparr>)"
      if "g = sv_store sv" for err g
      using marked [of g] that disk_at_store [OF st] by simp
  qed (use marked in auto)
qed

lemma wp_finalizeActivation:
  assumes at: "marked_new sha url_Parse old b (sv_store sv)" and new: "identity_of b = new" and st: "staged (sv_runtime sv)"
  shows "wp (finalizeActivation sha (env_of ctxErr) old previousProfile False newCommit)
    (\<lambda>_ sv'. marked_new sha url_Parse old b (sv_store sv') \<and> durable (sv_runtime sv') = Some newCommit)
    (\<lambda>_. settled sha url_Parse old new) (settled sha url_Parse old new) sv" (is "wp _ ?Q ?R ?C _")
proof -
  have any: "settled sha url_Parse old new (sv\<lparr> sv_runtime := w \<rparr>)" for w
    by (rule settled_pending [where c = b and b = False]) (use at new disk_at_store in \<open>auto simp: marked_new_def\<close>)
  have fin: "ae_Finalize (env_of ctxErr) = Some finalize" by (simp add: env_of_def)
  show ?thesis
    unfolding finalizeActivation_def Let_def case_prod_beta fin option.case new_eq if_False
  proof (rule wp_catch, rule wp_on_runtime, rule wp_mono [OF finalize_wp [OF st]])
    fix err w assume w: "refused w"
    show "wp (then_io (restoreRuntime (env_of ctxErr) previousProfile (\<lambda>_. Joined_Errors (Joined_Errors ErrActivation ErrRestore) (ActivationError ActivationRollback '''' None)))
        (then_io (then_io (catch_io (on_store (restoreApplied sha (fst old) (fst (snd old)) (snd (snd old))))
              (\<lambda>_. fail_io (Joined_Errors (Joined_Errors ErrActivation ErrStore) (ActivationError ActivationRollback '''' None))))
            (catch_io (on_store clearActivationPending)
              (\<lambda>_. fail_io (Joined_Errors (Joined_Errors ErrActivation ErrStore) (ActivationError ActivationStateCommit '''' None)))))
          (fail_io (Joined_Errors ErrActivation (ActivationError ActivationStateCommit '''' None))))) ?Q ?R ?C (sv\<lparr> sv_runtime := w \<rparr>)"
    proof (rule wp_then, rule wp_restoreRuntime [OF restore_refused])
      show "refused (sv_runtime (sv\<lparr> sv_runtime := w \<rparr>))" using w by simp
    next
      fix w' assume "durable w' = Some oldCommit"
      then show "wp (then_io (then_io (catch_io (on_store (restoreApplied sha (fst old) (fst (snd old)) (snd (snd old))))
              (\<lambda>_. fail_io (Joined_Errors (Joined_Errors ErrActivation ErrStore) (ActivationError ActivationRollback '''' None))))
            (catch_io (on_store clearActivationPending)
              (\<lambda>_. fail_io (Joined_Errors (Joined_Errors ErrActivation ErrStore) (ActivationError ActivationStateCommit '''' None)))))
          (fail_io (Joined_Errors ErrActivation (ActivationError ActivationStateCommit '''' None)))) ?Q ?R ?C (sv\<lparr> sv_runtime := w, sv_runtime := w' \<rparr>)"
        by (intro wp_unmark) (use at new in simp_all)
    qed (use any in simp_all)
  qed (use any at in simp_all)
qed

lemma wp_acceptActivation:
  assumes at: "marked_new sha url_Parse old b (sv_store sv)" and new: "identity_of b = new" and dur: "durable (sv_runtime sv) = Some newCommit"
  shows "wp acceptActivation (\<lambda>_ sv'. store_at sha url_Parse b Missing (sv_store sv') \<and> durable (sv_runtime sv') = Some newCommit)
    (\<lambda>_. settled sha url_Parse old new) (settled sha url_Parse old new) sv"
proof -
  let ?s = "sv_store sv"
  have st: "store_at sha url_Parse b (pend old False) ?s" and fb: "fallback sha old ?s" using at by (simp_all add: marked_new_def)
  have load: "ss_pending ?s = pend old False" using st by (simp add: store_at_def)
  have fb': "fallback sha old (?s\<lparr> ss_pending := pend old x \<rparr>)" for x using fb fallback_dirs [of "?s\<lparr> ss_pending := pend old x \<rparr>" ?s] by simp
  have pending: "settled sha url_Parse old new (sv\<lparr> sv_store := ?s\<lparr> ss_pending := pend old x \<rparr> \<rparr>)" for x
    by (rule settled_pending [where c = b and b = x])
      (use disk_at_store [OF store_at_pending [OF st, of "pend old x"]] fb' [of x] new dur in simp_all)
  have here: "settled sha url_Parse old new sv"
    by (rule settled_pending [where c = b and b = False]) (use disk_at_store [OF st] fb new dur in simp_all)
  have clear: "settled sha url_Parse old new (sv\<lparr> sv_store := ?s\<lparr> ss_pending := Missing \<rparr> \<rparr>)"
    by (rule settled_after [of _ _ b]) (use disk_at_store [OF store_at_pending [OF st, of Missing]] new dur in simp_all)
  have mark: "wp markActivationAccepted (\<lambda>_ g. g = ?s\<lparr> ss_pending := pend old True \<rparr>) (\<lambda>_ g. g = ?s) (\<lambda>g. g = ?s \<or> g = ?s\<lparr> ss_pending := pend old True \<rparr>) ?s"
    unfolding markActivationAccepted_def loadPendingActivation_def
    using load validPending_pend [OF fb] by (intro wp_bind) (simp add: pend_def)
  show ?thesis
    unfolding acceptActivation_def
  proof (rule wp_then, rule wp_catch, rule wp_on_store, rule wp_mono [OF mark])
    fix x g assume "g = ?s\<lparr> ss_pending := pend old True \<rparr>"
    then show "wp (catch_io (on_store clearActivationPending) (\<lambda>err. fail_io (Joined_Errors ErrActivationCleanupPending err)))
      (\<lambda>_ sv'. store_at sha url_Parse b Missing (sv_store sv') \<and> durable (sv_runtime sv') = Some newCommit)
      (\<lambda>_. settled sha url_Parse old new) (settled sha url_Parse old new) (sv\<lparr> sv_store := g \<rparr>)"
      by (intro wp_catch wp_on_store wp_clear) (use pending [of True] clear store_at_pending [OF st, of Missing] dur in simp_all)
  qed (use here pending in auto)
qed

lemma record_identity:
  assumes "store_at sha url_Parse a p s" and "recordSnapshot sha s ident = Inr (r, profile, candidate)"
  shows "map_of (ss_records s) ident = Some r"
    and "isActive s ident \<Longrightarrow> pr_AppliedProfileHash r = pr_Hash r \<Longrightarrow> pr_AppliedCandidateHash r = pr_CandidateHash r
      \<Longrightarrow> identity_of a = (ident, pr_Hash r, pr_CandidateHash r)"
proof -
  show r: "map_of (ss_records s) ident = Some r"
    using assms(2) by (auto simp: recordSnapshot_def split: option.splits if_splits)
  assume "isActive s ident" "pr_AppliedProfileHash r = pr_Hash r" "pr_AppliedCandidateHash r = pr_CandidateHash r"
  moreover have "mem_record_ok url_Parse s ident r" using r assms(1) by (simp add: store_at_def store_ok_def mem_ok_def)
  ultimately have "appliedIdentity s = (ident, pr_Hash r, pr_CandidateHash r)" by (simp add: mem_record_ok_def isActive_def appliedIdentity_def)
  with store_at_identity [OF assms(1)] show "identity_of a = (ident, pr_Hash r, pr_CandidateHash r)" by simp
qed

text \<open>Activating again what is active: the resources are finalized, the store stays.\<close>

lemma wp_reactivate:
  assumes at: "store_at sha url_Parse a Missing (sv_store sv)" and id: "identity_of a = old" "old = new" and st: "staged (sv_runtime sv)"
  shows "wp (finalizeActivation sha (env_of ctxErr) previous previousProfile True '''')
    (\<lambda>_ sv'. settled sha url_Parse old new sv' \<and> durable (sv_runtime sv') = Some newCommit)
    (\<lambda>_. settled sha url_Parse old new) (settled sha url_Parse old new) sv"
proof -
  have any: "settled sha url_Parse old new (sv\<lparr> sv_runtime := w \<rparr>)" for w
    by (rule settled_before [of _ _ a]) (use disk_at_store [OF at] id in simp_all)
  have fin: "ae_Finalize (env_of ctxErr) = Some finalize" by (simp add: env_of_def)
  show ?thesis
    unfolding finalizeActivation_def Let_def case_prod_beta fin option.case if_True
  proof (rule wp_catch, rule wp_on_runtime, rule wp_mono [OF finalize_wp [OF st]])
    fix err w assume "refused w"
    then show "wp (then_io (restoreRuntime (env_of ctxErr) previousProfile (\<lambda>_. Joined_Errors (Joined_Errors ErrActivation ErrRestore) (ActivationError ActivationRollback '''' None)))
        (then_io (return_io ()) (fail_io (Joined_Errors ErrActivation (ActivationError ActivationStateCommit '''' None)))))
      (\<lambda>_ sv'. settled sha url_Parse old new sv' \<and> durable (sv_runtime sv') = Some newCommit)
      (\<lambda>_. settled sha url_Parse old new) (settled sha url_Parse old new) (sv\<lparr> sv_runtime := w \<rparr>)"
      by (intro wp_then wp_restoreRuntime [OF restore_refused]) (use any in simp_all)
  qed (use any in simp_all)
qed

lemma wp_completeActivation:
  assumes bef: "before sha url_Parse old a (sv_store sv)" and st: "staged (sv_runtime sv)"
    and rec: "recordSnapshot sha (sv_store sv) ident = Inr (r, profile, candidate)" and valid: "validID ident"
  shows "wp (completeActivation sha (env_of ctxErr) ident r old previousProfile)
    (\<lambda>_ sv'. settled sha url_Parse old (ident, pr_Hash r, pr_CandidateHash r) sv' \<and> durable (sv_runtime sv') = Some newCommit)
    (\<lambda>_. settled sha url_Parse old (ident, pr_Hash r, pr_CandidateHash r)) (settled sha url_Parse old (ident, pr_Hash r, pr_CandidateHash r)) sv"
    (is "wp _ ?Q ?R ?C _")
proof -
  let ?b = "marker ident (pr_Hash r) (pr_CandidateHash r)"
  have at: "store_at sha url_Parse a Missing (sv_store sv)" and id: "identity_of a = old" using bef by (simp_all add: before_def)
  have new: "identity_of ?b = (ident, pr_Hash r, pr_CandidateHash r)" using validID_nonempty [OF valid] by (subst identity_of_marker) auto
  have pc: "(case ae_PendingResourceCommit (env_of ctxErr) of None \<Rightarrow> '''' | Some f \<Rightarrow> f (sv_runtime sv)) = newCommit"
    using staged_commit [OF st] by (simp add: env_of_def)
  show ?thesis
  proof (cases "isActive (sv_store sv) ident \<and> pr_AppliedProfileHash r = pr_Hash r \<and> pr_AppliedCandidateHash r = pr_CandidateHash r")
    case True
    with record_identity(2) [OF at rec] id have "old = (ident, pr_Hash r, pr_CandidateHash r)" by simp
    from wp_reactivate [OF at id this st, of ctxErr old previousProfile] show ?thesis
      unfolding completeActivation_def
      by (intro wp_bind) (simp only: wp_read True simp_thms prod.case if_True Let_def, rule wp_then, simp, rule wp_then, erule wp_mono,
          simp_all add: wp_then)
  next
    case False
    have finish: "wp (on_store cleanupApplied) ?Q ?R ?C sv'" if "store_at sha url_Parse ?b Missing (sv_store sv')" "durable (sv_runtime sv') = Some newCommit" for sv'
      by (intro wp_on_store, rule wp_mono [OF keeps_cleanupApplied [OF that(1), unfolded keeps_def]])
        (use that(2) new disk_at_store in \<open>auto intro!: settled_after [of _ _ ?b]\<close>)
    have "wp (then_io (commitActivation sha (env_of ctxErr) ident r old previousProfile newCommit)
        (then_io (finalizeActivation sha (env_of ctxErr) old previousProfile False newCommit)
        (then_io acceptActivation (on_store cleanupApplied)))) ?Q ?R ?C sv"
    proof (rule wp_then, rule wp_mono [OF wp_commitActivation [OF bef st new [symmetric]]])
      fix x :: unit and sv1 :: "'w Service" assume s1: "marked_new sha url_Parse old ?b (sv_store sv1) \<and> staged (sv_runtime sv1)"
      show "wp (then_io (finalizeActivation sha (env_of ctxErr) old previousProfile False newCommit)
        (then_io acceptActivation (on_store cleanupApplied))) ?Q ?R ?C sv1"
      proof (rule wp_then, rule wp_mono [OF wp_finalizeActivation [OF _ new]])
        fix x :: unit and sv2 :: "'w Service" assume s2: "marked_new sha url_Parse old ?b (sv_store sv2) \<and> durable (sv_runtime sv2) = Some newCommit"
        show "wp (then_io acceptActivation (on_store cleanupApplied)) ?Q ?R ?C sv2"
          by (rule wp_then, rule wp_mono [OF wp_acceptActivation [OF _ new]]) (use s2 finish in auto)
      qed (use s1 in auto)
    qed auto
    then show ?thesis
      unfolding completeActivation_def
      by (intro wp_bind) (simp only: wp_read False pc simp_thms prod.case if_False Let_def new_eq)
  qed
qed

lemma wp_Activate:
  assumes at: "store_at sha url_Parse a Missing (sv_store sv)" and rd: "ready (sv_runtime sv)"
    and r: "map_of (ss_records (sv_store sv)) ident = Some r" and old: "old = appliedIdentity (sv_store sv)"
  shows "wp (Activate sha (env_of ctxErr) ident)
    (\<lambda>_ sv'. settled sha url_Parse old (ident, pr_Hash r, pr_CandidateHash r) sv' \<and> durable (sv_runtime sv') = Some newCommit)
    (\<lambda>_. settled sha url_Parse old (ident, pr_Hash r, pr_CandidateHash r)) (settled sha url_Parse old (ident, pr_Hash r, pr_CandidateHash r)) sv"
    (is "wp _ ?Q ?R ?C _")
proof -
  let ?s = "sv_store sv"
  have id: "identity_of a = old" using store_at_identity [OF at] old by simp
  have ok: "store_ok sha url_Parse ?s" using at by (simp add: store_at_def)
  have bef: "before sha url_Parse old a ?s"
    using at id applied_identity_ok [OF ok] old by (auto simp: before_def fallback_def appliedIdentity_def)
  have keep: "settled sha url_Parse old (ident, pr_Hash r, pr_CandidateHash r) (sv\<lparr> sv_runtime := w \<rparr>)" if "durable w = Some oldCommit" for w
    by (rule settled_before [of _ _ a]) (use disk_at_store [OF at] id that in simp_all)
  have here: "?C sv" using keep [OF ready_durable [OF rd]] by simp
  have pend: "ss_pending ?s = Missing" using at by (simp add: store_at_def)
  have retry: "wp retryAcceptedActivationCleanup (\<lambda>_ g. g = ?s) (\<lambda>_ g. g = ?s) (\<lambda>g. g = ?s) ?s"
    unfolding retryAcceptedActivationCleanup_def loadPendingActivation_def by (intro wp_bind) (simp add: pend)
  have app: "wp (applyProfile (env_of ctxErr) profile) (\<lambda>_ sv'. sv_store sv' = ?s \<and> staged (sv_runtime sv')) ?R ?C sv" for profile
    unfolding applyProfile_def
    by (rule wp_catch, rule wp_on_runtime, simp add: env_of_def, rule wp_mono [OF apply_wp [OF rd]]) (use keep in \<open>auto split: option.split\<close>)
  have complete: "wp (then_io (applyProfile (env_of ctxErr) profile) (completeActivation sha (env_of ctxErr) ident r old previousProfile)) ?Q ?R ?C sv"
    if "recordSnapshot sha ?s ident = Inr (r, profile, candidate)" "validID ident" for profile candidate previousProfile
    by (rule wp_then, rule wp_mono [OF app]) (use bef that in \<open>auto intro!: wp_completeActivation\<close>)
  have body: "wp (activateSnapshot sha (env_of ctxErr) ident (recordSnapshot sha ?s ident) old active) ?Q ?R ?C sv" if v: "validID ident" for active
  proof (cases "recordSnapshot sha ?s ident")
    case (Inr x)
    obtain r' profile candidate where x: "x = (r', profile, candidate)" by (rule prod_cases3)
    with record_identity(1) [OF at] Inr r have rec: "recordSnapshot sha ?s ident = Inr (r, profile, candidate)" and "r' = r" by auto
    with complete [OF rec v] here show ?thesis unfolding activateSnapshot_def rec sum.case prod.case
      by (auto intro!: wp_then [of "check_io _"] simp del: split_paired_All split: option.split)
  qed (use here in \<open>simp add: activateSnapshot_def\<close>)
  show ?thesis
  proof (cases "validID ident")
    case True
    then have act: "Activate sha (env_of ctxErr) ident = then_io (catch_io (on_store retryAcceptedActivationCleanup)
          (\<lambda>err. fail_io (Joined_Errors ErrActivationCleanupPending err)))
       (bind_io (read_io (\<lambda>sv. (recordSnapshot sha (sv_store sv) ident, appliedIdentity (sv_store sv), ActiveProfile sha (sv_store sv))))
          (\<lambda>(snapshot, previous, active). activateSnapshot sha (env_of ctxErr) ident snapshot previous active))"
      by (simp add: Activate_def)
    show ?thesis
      unfolding act
      by (rule wp_then, rule wp_catch, rule wp_on_store, rule wp_mono [OF retry], rule wp_bind)
        (use here body [OF True] old in simp_all)
  qed (use here in \<open>simp add: Activate_def\<close>)
qed

end

end
