(* ===== verification/Core_Snapshot.thy ===== *)
theory Core_Snapshot
  imports Config_Types Monitor_Policy
begin

text \<open>
  The snapshot that the application publishes to its user interfaces (\<open>src/core/snapshot.go\<close>). A snapshot is a value
  in HOL, so that \<open>CloneSnapshot\<close>, which copies every slice, is the identity and has no counterpart.
\<close>

definition MaxDiagnostics :: nat where "MaxDiagnostics = 200"
definition MaxFinishedJobs :: nat where "MaxFinishedJobs = 32"

record GroupSnapshot =
  grp_ID :: string
  grp_Label :: string
  grp_Type :: string
  grp_Selected :: string
  grp_Proxies :: "string list"
  grp_AutomationEnabled :: bool
  grp_ManualOverride :: bool

record ProxySnapshot =
  prx_ID :: string
  prx_Label :: string
  prx_GroupID :: string
  prx_LatencyMillis :: int
  prx_FinishedAt :: int
  prx_Outcome :: string
  prx_MihomoMillis :: int
  prx_MedianMillis :: int
  prx_JitterMillis :: int
  prx_Samples :: int
  prx_Failures :: int
  prx_StreamSamples :: int
  prx_StreamCompleted :: int
  prx_StreamKBps :: int

record UsageSnapshot =
  usg_UploadedBytes :: nat
  usg_DownloadedBytes :: nat
  usg_TotalBytes :: nat
  usg_ExpiresAt :: int

record SubscriptionSnapshot =
  subs_ID :: string
  subs_Name :: string
  subs_SourceHost :: string
  subs_HashPrefix :: string
  subs_AppliedHashPrefix :: string
  subs_Route :: string
  subs_RefreshIntervalSeconds :: nat
  subs_TimeoutSeconds :: nat
  subs_AllowHTTP :: bool
  subs_AllowInvalidTLS :: bool
  subs_Enabled :: bool
  subs_Active :: bool
  subs_PendingActivation :: bool
  subs_LastCheck :: int
  subs_LastSuccess :: int
  subs_NextDue :: int
  subs_LastFailure :: string
  subs_Usage :: "UsageSnapshot option"

record ResourceSnapshot =
  rsrc_ID :: string
  rsrc_Kind :: string
  rsrc_Format :: string
  rsrc_RuleType :: string
  rsrc_SourceHost :: string
  rsrc_HashPrefix :: string
  rsrc_Destination :: string
  rsrc_Validated :: bool
  rsrc_Enabled :: bool
  rsrc_LastResult :: string
  rsrc_LastCheck :: int
  rsrc_LastSuccess :: int
  rsrc_NextDue :: int

record FilterSnapshot =
  flt_ID :: string
  flt_ResourceID :: string
  flt_Format :: string
  flt_Target :: string
  flt_SourceHost :: string
  flt_HashPrefix :: string
  flt_Destination :: string
  flt_LastFailure :: string
  flt_Enabled :: bool
  flt_Validated :: bool
  flt_LastSuccess :: int
  flt_NextDue :: int

record BinarySnapshot =
  bin_Desired :: string
  bin_ObservedVersion :: string
  bin_LastCompatibilityFailure :: string
  bin_Capabilities :: "string list"

record ConfigOverride =
  co_Key :: string
  co_Change :: string

definition ConfigOverrideKeys :: "string list" where
  "ConfigOverrideKeys =
     [''mixed-port'', ''port'', ''socks-port'', ''external-controller'', ''secret'', ''allow-lan'', ''bind-address'',
      ''dns.listen'', ''external-controller-unix'', ''external-controller-tls'', ''external-controller-cors'', ''external-ui'', ''dns.nameserver-policy'',
      ''rule-providers'', ''proxy-groups'', ''rules'',
      ''tun'', ''dns.enable'', ''dns.enhanced-mode'', ''dns.fake-ip-range'', ''dns.fake-ip-range6'', ''dns.fake-ip-filter'',
      ''mode'', ''listeners'']"

definition ConfigOverride_Valid :: "ConfigOverride \<Rightarrow> bool" where
  "ConfigOverride_Valid item \<longleftrightarrow>
     (if co_Change item \<noteq> ''added'' \<and> co_Change item \<noteq> ''replaced'' \<and> co_Change item \<noteq> ''removed'' then False
      else co_Key item \<in> set ConfigOverrideKeys)"

record MonitorSnapshot =
  mon_Enabled :: bool
  mon_TestURL :: string
  mon_SwitchPolicy :: string
  mon_StreamURLConfigured :: bool
  mon_StreamIntervalSeconds :: int
  mon_URLTestIntervalSeconds :: int
  mon_URLTestToleranceMillis :: int
  mon_IntervalSeconds :: int
  mon_TimeoutMillis :: int
  mon_Concurrency :: int
  mon_ThresholdMillis :: int
  mon_AlertThresholdMillis :: int
  mon_ConsecutiveBadSamples :: int
  mon_WindowSize :: int
  mon_MinCandidateSamples :: int
  mon_MaxFailures :: int
  mon_MinImprovementMillis :: int
  mon_CooldownSeconds :: int
  mon_JitterMillis :: int
  mon_AutoFastest :: bool

record ResolverSetSnapshot =
  rset_ID :: string
  rset_Endpoints :: "string list"
  rset_DNSCrypt :: bool

record DNSRouteSnapshot =
  rte_Suffix :: string
  rte_GeoSite :: string
  rte_Resource :: string
  rte_ResolverSet :: string

record DNSSnapshot =
  dnss_Listen :: string
  dnss_ResolverSets :: "ResolverSetSnapshot list"
  dnss_Routes :: "DNSRouteSnapshot list"

record SystemProxySnapshot =
  spx_Enabled :: bool
  spx_Active :: bool

record TunSnapshot =
  tuns_Enabled :: bool
  tuns_Active :: bool
  tuns_Stack :: string
  tuns_DNSMode :: string
  tuns_Privilege :: string
  tuns_PrivilegedPath :: string
  tuns_Device :: string
  tuns_LastFailure :: string
  tuns_Leftover :: bool

definition TunPrivileges :: "string list" where
  "TunPrivileges = [''ready'', ''missing'', ''stale'', ''nosuid'', ''no-agent'', ''unsupported-platform'']"

record ProbeSnapshot =
  prb_ProxyID :: string
  prb_FinishedAt :: int
  prb_LatencyMillis :: int
  prb_Outcome :: string

record StreamProbeSnapshot =
  strm_ProxyID :: string
  strm_FinishedAt :: int
  strm_Outcome :: string
  strm_KBps :: int

record SwitchSnapshot =
  swi_GroupID :: string
  swi_OldID :: string
  swi_NewID :: string
  swi_Reason :: string
  swi_At :: int
  swi_Evidence :: "ProbeSnapshot list"
  swi_StreamEvidence :: "StreamProbeSnapshot list"

record JobSnapshot =
  job_ID :: string
  job_Kind :: string
  job_State :: string

record ErrorSnapshot =
  errs_File :: string
  errs_Key :: string
  errs_Kind :: string
  errs_SourceID :: string
  errs_Message :: string

record DiagnosticSnapshot =
  diag_At :: int
  diag_Severity :: string
  diag_Kind :: string
  diag_SourceID :: string
  diag_Message :: string

record CoreSnapshot =
  snap_Revision :: nat
  snap_ActiveSource :: string
  snap_ServiceRunning :: bool
  snap_ConfigOverrides :: "ConfigOverride list"
  snap_Groups :: "GroupSnapshot list"
  snap_Proxies :: "ProxySnapshot list"
  snap_Subscriptions :: "SubscriptionSnapshot list"
  snap_Resources :: "ResourceSnapshot list"
  snap_Filters :: "FilterSnapshot list"
  snap_Binary :: BinarySnapshot
  snap_Monitor :: MonitorSnapshot
  snap_DNS :: DNSSnapshot
  snap_SystemProxy :: SystemProxySnapshot
  snap_MixedPort :: int
  snap_ProxyMode :: string
  snap_Tun :: TunSnapshot
  snap_Jobs :: "JobSnapshot list"
  snap_FinishedJobs :: "JobSnapshot list"
  snap_Switches :: "SwitchSnapshot list"
  snap_Errors :: "ErrorSnapshot list"
  snap_Diagnostics :: "DiagnosticSnapshot list"

text \<open>The source of a diagnostic as it is shown: the label of a node for a stream probe.\<close>

definition DiagnosticSource :: "ProxySnapshot list \<Rightarrow> DiagnosticSnapshot \<Rightarrow> string" where
  "DiagnosticSource proxies diagnostic =
     (if diag_Kind diagnostic \<noteq> ''stream_probe'' then diag_SourceID diagnostic
      else case find (\<lambda>proxy. prx_ID proxy = diag_SourceID diagnostic \<and> prx_Label proxy \<noteq> '''') proxies of
             Some proxy \<Rightarrow> prx_Label proxy
           | None \<Rightarrow> if length (diag_SourceID diagnostic) > 8 then take 8 (diag_SourceID diagnostic) else diag_SourceID diagnostic)"

definition ManualGrantCommand :: "TunSnapshot \<Rightarrow> string" where
  "ManualGrantCommand t =
     (if tuns_Privilege t \<noteq> ''no-agent'' \<or> tuns_PrivilegedPath t = '''' then ''''
      else ''sudo setcap cap_net_admin+ep '' @ tuns_PrivilegedPath t)"

end
