(* ===== verification/App_Lifecycle.thy ===== *)
theory App_Lifecycle
  imports Resources_Commit Subscriptions_Activation Core_Snapshot
begin

text \<open>
  The runtime of the application (\<open>src/app/lifecycle.go\<close>, with the callbacks of \<open>src/app/service.go\<close> that the
  subscription service calls): applying a rendered configuration to Mihomo, taking it back when a step fails, and
  doing so together with a plan of managed resources.

  The state extends that of a plan by the fields of \<open>runtimeService\<close> and by what it controls: the configuration files, the
  Mihomo process with its groups and mode, and the proxy setting of the desktop. Rendering and inspecting
  configurations (\<open>src/mihomo\<close>) are arguments, as are the selected binary and the settings, which do not change during
  an operation. What is published to the user interface and the monitor of the running process are left out.
\<close>

section \<open>State\<close>

record Capability =
  cap_Path :: string
  cap_Version :: string
  cap_SupportsGeoIPDat :: bool
  cap_SupportsGeoSiteDat :: bool
  cap_SupportsMMDB :: bool
  cap_SupportsTUN :: bool
  cap_SupportsPinnedListener :: bool

record Group =
  gr_Name :: string
  gr_Type :: string
  gr_Proxies :: "string list"
  gr_Selected :: string

text \<open>The data directory of Mihomo: none yet, the managed root, or a staged directory.\<close>

datatype data_home = NoHome | Root | Staged string

record runtimeBackup =
  bk_generated :: bytes
  bk_cap :: Capability
  bk_home :: data_home
  bk_running :: bool
  bk_proxyActive :: bool
  bk_selected :: "(string \<times> string) list"
  bk_resourcePlan :: bool \<comment> \<open>whether the plan of the state belongs to the activation\<close>
  bk_overrides :: "ConfigOverride list"
  bk_pendingOverrides :: "ConfigOverride list"
  bk_localProfile :: "bytes option"
  bk_generatedPath :: string
  bk_durable :: "bytes option" \<comment> \<open>\<open>durableConfig\<close> if \<open>durableExisted\<close>\<close>

record Runtime = Planned +
  rt_generated :: bytes
  rt_cap :: Capability
  rt_resourceHome :: data_home
  rt_controller :: bool
  rt_proxyActive :: bool
  rt_groups :: "(string \<times> Group) list"
  rt_automation :: "string list"
  rt_configOverrides :: "ConfigOverride list"
  rt_configReportPending :: bool
  rt_localProfile :: "bytes option"
  rt_generatedPath :: string
  rt_forceRestart :: bool
  rt_activationBackup :: "runtimeBackup option"
  rt_tunActive :: bool
  rt_tunFailure :: string
  rt_tunLeftover :: bool
  rt_compatibilityFailure :: string
  rt_mixedPort :: int
  rt_resourceDirty :: bool
  rt_files :: "string \<Rightarrow> bytes option" \<comment> \<open>configuration files by path\<close>
  rt_process :: "(Capability \<times> data_home \<times> string) option" \<comment> \<open>the running Mihomo\<close>
  rt_mihomoGroups :: "Group list"
  rt_mode :: string
  rt_desktopProxy :: bool

type_synonym 'a app_io = "(Runtime, 'a) io"

text \<open>\<open>le_render\<close> stands for \<open>renderWithHome\<close>, \<open>le_validate\<close> for \<open>mihomo.ValidateInHome\<close>, \<open>le_monitor\<close> for the start of the
  monitor with the groups.\<close>

record life_env =
  le_settings :: Snapshot
  le_capability :: "go_error + Capability" \<comment> \<open>\<open>runtimeCapability\<close>\<close>
  le_tunPath :: string
  le_defaultPath :: string \<comment> \<open>\<open>generated.yaml\<close> in the state directory\<close>
  le_render :: "bytes \<Rightarrow> data_home \<Rightarrow> (string \<times> path) list \<Rightarrow> Capability \<Rightarrow> go_error + bytes"
  le_validate :: "bytes \<Rightarrow> Capability \<Rightarrow> data_home \<Rightarrow> go_error option"
  le_explain :: "bytes \<Rightarrow> bytes \<Rightarrow> go_error + ConfigOverride list"
  le_modeChange :: "bytes \<Rightarrow> bytes \<Rightarrow> (string \<times> string) option"
  le_mixedPort :: "bytes \<Rightarrow> go_error + int"
  le_streamPort :: "bytes \<Rightarrow> go_error + int"
  le_profileGroups :: "bytes \<Rightarrow> Group list"
  le_opaqueID :: "string \<Rightarrow> string"
  le_monitor :: "(string \<times> Group) list \<Rightarrow> go_error option"
  le_unsupportedProxy :: "go_error \<Rightarrow> bool"
  le_deviceExists :: bool
  le_ctxErr :: "go_error option"

section \<open>Errors\<close>

abbreviation ActivationConfigValidation :: string where "ActivationConfigValidation \<equiv> ''config_validation''"
abbreviation ActivationProcessStart :: string where "ActivationProcessStart \<equiv> ''process_start''"
abbreviation ActivationMixedPort :: string where "ActivationMixedPort \<equiv> ''mixed_port''"
abbreviation ActivationStreamProbePort :: string where "ActivationStreamProbePort \<equiv> ''stream_probe_port''"
abbreviation ActivationControllerReadiness :: string where "ActivationControllerReadiness \<equiv> ''controller_readiness''"
abbreviation ActivationSystemProxy :: string where "ActivationSystemProxy \<equiv> ''system_proxy''"
abbreviation ActivationSystemProxyUnsupported :: string where "ActivationSystemProxyUnsupported \<equiv> ''system_proxy_unsupported''"
abbreviation ActivationTunStart :: string where "ActivationTunStart \<equiv> ''tun_start''"

fun errors_Is :: "go_error \<Rightarrow> go_error \<Rightarrow> bool" where
  "errors_Is target (Errorf fmt args) \<longleftrightarrow> Errorf fmt args = target"
| "errors_Is target (Wrapf fmt args e) \<longleftrightarrow> Wrapf fmt args e = target \<or> errors_Is target e"
| "errors_Is target (Joined_Errors a b) \<longleftrightarrow> Joined_Errors a b = target \<or> errors_Is target a \<or> errors_Is target b"
| "errors_Is target (ActivationError stage ident cause) \<longleftrightarrow>
     ActivationError stage ident cause = target \<or> (case cause of None \<Rightarrow> False | Some e \<Rightarrow> errors_Is target e)"

text \<open>\<open>errors.As\<close> for \<open>ResourceFailure\<close>, which \<open>resourceFailure\<close> writes with this format.\<close>

fun errors_As_resource :: "go_error \<Rightarrow> string option" where
  "errors_As_resource (Errorf _ _) = None"
| "errors_As_resource (Wrapf fmt args e) =
     (if fmt = ''resource %q: %v'' then (case args of ident # _ \<Rightarrow> Some ident | [] \<Rightarrow> None) else errors_As_resource e)"
| "errors_As_resource (Joined_Errors a b) =
     (case errors_As_resource a of Some ident \<Rightarrow> Some ident | None \<Rightarrow> errors_As_resource b)"
| "errors_As_resource (ActivationError _ _ cause) = (case cause of None \<Rightarrow> None | Some e \<Rightarrow> errors_As_resource e)"

definition activationResourceError :: "go_error \<Rightarrow> go_error" where
  "activationResourceError err =
     (if PublicActivation err \<noteq> None \<or> errors_Is ctx_Canceled err \<or> errors_Is ctx_DeadlineExceeded err then err
      else case errors_As_resource err of
             Some ident \<Rightarrow> WrapActivationResource ActivationResources ident (Some err)
           | None \<Rightarrow> WrapActivation ActivationResources (Some err))"

definition systemProxyActivation :: "life_env \<Rightarrow> go_error \<Rightarrow> go_error" where
  "systemProxyActivation env err =
     (if le_unsupportedProxy env err then WrapActivation ActivationSystemProxyUnsupported (Some err)
      else WrapActivation ActivationSystemProxy (Some err))"

text \<open>\<open>errors.Join\<close> leaves out nil errors and is nil without others.\<close>

definition errors_Join :: "go_error option list \<Rightarrow> go_error option" where
  "errors_Join errs = (case [e. Some e \<leftarrow> errs] of [] \<Rightarrow> None | e # es \<Rightarrow> Some (joinErrors e es))"

text \<open>An error that is reported later.\<close>

definition attempt :: "(go_error \<Rightarrow> go_error) \<Rightarrow> ('s, unit) io \<Rightarrow> ('s, go_error option) io" where
  "attempt report m = catch_io (then_io m (return_io None)) (\<lambda>err. return_io (Some (report err)))"

definition on_error :: "(go_error \<Rightarrow> go_error) \<Rightarrow> ('s, 'a) io \<Rightarrow> ('s, 'a) io" where
  "on_error report m = catch_io m (\<lambda>err. fail_io (report err))"

section \<open>Mihomo, the desktop and the files\<close>

text \<open>\<open>config.Write\<close> replaces a file by a rename, which is its last step that can fail.\<close>

definition config_Write :: "string \<Rightarrow> bytes \<Rightarrow> unit app_io" where
  "config_Write p data = atomic_io (\<lambda>w. w\<lparr> rt_files := (rt_files w)(p := Some data) \<rparr>) os_error"

definition removeFileAt :: "string \<Rightarrow> unit app_io" where
  "removeFileAt p =
     bind_io (read_io (\<lambda>w. rt_files w p)) (\<lambda>old.
       if old = None then return_io () else step_io (\<lambda>w. w\<lparr> rt_files := (rt_files w)(p := None) \<rparr>) os_error)"

definition process_Start :: "Capability \<Rightarrow> data_home \<Rightarrow> string \<Rightarrow> Group list \<Rightarrow> unit app_io" where
  "process_Start cap home p groups =
     (if cap_Path cap = '''' then fail_io (Errorf ''start mihomo: empty binary path'' [])
      else if p = '''' then fail_io (Errorf ''start mihomo: empty config path'' [])
      else
        bind_io (read_io rt_process) (\<lambda>running.
          if running \<noteq> None then fail_io (Errorf ''start mihomo: already running'' [])
          else wrap_io ''start mihomo: %w'' []
            (atomic_io (\<lambda>w. w\<lparr> rt_process := Some (cap, home, p), rt_mihomoGroups := groups \<rparr>) os_error)))"

definition process_Stop :: "unit app_io" where
  "process_Stop =
     bind_io (read_io rt_process) (\<lambda>running.
       if running = None then return_io () else step_io (\<lambda>w. w\<lparr> rt_process := None, rt_mihomoGroups := [] \<rparr>) os_error)"

definition proxy_Restore :: "unit app_io" where
  "proxy_Restore = step_io (\<lambda>w. w\<lparr> rt_desktopProxy := False \<rparr>) os_error"

definition applySystemProxy :: "unit app_io" where
  "applySystemProxy = step_io (\<lambda>w. w\<lparr> rt_desktopProxy := True \<rparr>) os_error"

definition controller_SetMode :: "string \<Rightarrow> unit app_io" where
  "controller_SetMode mode = step_io (\<lambda>w. w\<lparr> rt_mode := mode \<rparr>) os_error"

definition controller_Select :: "string \<Rightarrow> string \<Rightarrow> unit app_io" where
  "controller_Select name proxy =
     step_io (\<lambda>w. w\<lparr> rt_mihomoGroups := map (\<lambda>g. if gr_Name g = name then g\<lparr> gr_Selected := proxy \<rparr> else g) (rt_mihomoGroups w) \<rparr>) os_error"

text \<open>A call that only asks.\<close>

definition ask :: "unit app_io" where
  "ask = step_io (\<lambda>w. w) os_error"

section \<open>Groups\<close>

definition StreamProbeName :: string where
  "StreamProbeName = ''clashpulse-stream-probe''"

definition selectorType :: "string \<Rightarrow> bool" where
  "selectorType groupType \<longleftrightarrow> groupType = ''Selector'' \<or> groupType = ''select''"

definition probeEnabled :: "string \<Rightarrow> bool \<Rightarrow> bool" where
  "probeEnabled groupType monitoring \<longleftrightarrow> monitoring \<and> selectorType groupType"

definition automationEnabled :: "string \<Rightarrow> bool \<Rightarrow> bool \<Rightarrow> bool" where
  "automationEnabled groupType monitoring optedIn \<longleftrightarrow> probeEnabled groupType monitoring \<and> optedIn"

text \<open>The loop over the groups of the controller: the managed ones, and the error that ends it.\<close>

fun managedGroups :: "(string \<Rightarrow> string) \<Rightarrow> string list \<Rightarrow> (string \<times> Group) list \<Rightarrow> Group list \<Rightarrow> (string \<times> Group) list \<times> go_error option" where
  "managedGroups opaque automation acc [] = (acc, None)"
| "managedGroups opaque automation acc (grp # grps) =
     (let ident = opaque (gr_Name grp) in
      if gr_Name grp = StreamProbeName then managedGroups opaque automation acc grps
      else if \<not> (selectorType (gr_Type grp) \<or> gr_Type grp = ''url-test'' \<or> gr_Type grp = ''URLTest'')
      then managedGroups opaque automation acc grps
      else if ident \<in> set automation \<and> \<not> selectorType (gr_Type grp)
      then (acc, Some (Errorf ''clashpulse: automation group %q is not a managed select group'' [ident]))
      else managedGroups opaque automation
        (AList.update ident (grp\<lparr> gr_Proxies := filter (\<lambda>name. name \<noteq> StreamProbeName) (gr_Proxies grp) \<rparr>) acc) grps)"

definition refreshGroups :: "life_env \<Rightarrow> unit app_io" where
  "refreshGroups env =
     then_io ask
    (bind_io (read_io (\<lambda>w. (managedGroups (le_opaqueID env) (rt_automation w) [] (rt_mihomoGroups w), rt_automation w))) (\<lambda>((groups, err), automation).
       then_io (modify_io (\<lambda>w. w\<lparr> rt_groups := groups \<rparr>))
      (then_io (check_io err)
      (then_io (check_io (first_error (map (\<lambda>ident. fail_if (map_of groups ident = None)
           (Errorf ''clashpulse: automation group %q is unavailable in the active profile'' [ident])) automation)))
         (check_io (le_monitor env groups))))))"

definition selectedGroups :: "(string \<times> Group) list \<Rightarrow> (string \<times> string) list" where
  "selectedGroups groups = map (\<lambda>(_, g). (gr_Name g, gr_Selected g)) (filter (\<lambda>(_, g). selectorType (gr_Type g)) groups)"

text \<open>Whether the selection of a group is to be put back.\<close>

definition reselect :: "(string \<Rightarrow> string) \<Rightarrow> (string \<times> Group) list \<Rightarrow> string \<times> string \<Rightarrow> bool" where
  "reselect opaque groups entry = (case entry of (name, proxy) \<Rightarrow>
     case map_of groups (opaque name) of
       None \<Rightarrow> False
     | Some g \<Rightarrow> selectorType (gr_Type g) \<and> gr_Selected g \<noteq> proxy \<and> proxy \<in> set (gr_Proxies g))"

definition restoreSelections :: "life_env \<Rightarrow> (string \<times> string) list \<Rightarrow> unit app_io" where
  "restoreSelections env selected =
     bind_io (read_io (\<lambda>w. (rt_controller w, rt_groups w))) (\<lambda>(controller, groups).
       if selected = [] \<or> \<not> controller then return_io ()
       else
         let due = filter (reselect (le_opaqueID env) groups) (sort_key fst selected) in
         then_io (each_io (\<lambda>(name, proxy). controller_Select name proxy) due)
           (if due = [] then return_io () else refreshGroups env))"

section \<open>Starting and stopping\<close>

definition tunCapability :: "life_env \<Rightarrow> Capability \<Rightarrow> bool" where
  "tunCapability env cap \<longleftrightarrow> le_tunPath env \<noteq> '''' \<and> cap_Path cap = le_tunPath env"

definition stopStartedProcess :: "go_error \<Rightarrow> unit app_io" where
  "stopStartedProcess cause =
     then_io (on_error (\<lambda>err. WrapActivation ActivationRollback (Some (Joined_Errors cause err))) process_Stop) (fail_io cause)"

text \<open>Once the process runs: the controller answers within its time, then the groups are read.\<close>

definition awaitController :: "life_env \<Rightarrow> Capability \<Rightarrow> int \<Rightarrow> unit app_io" where
  "awaitController env cap port =
     (let failed = (\<lambda>err. stopStartedProcess (WrapActivation ActivationControllerReadiness (Some err))) in
      then_io (catch_io ask failed) \<comment> \<open>\<open>newController\<close>\<close>
     (then_io (catch_io ask failed) \<comment> \<open>the loop until the controller is ready\<close>
     (then_io (modify_io (\<lambda>w. w\<lparr> rt_controller := True, rt_mixedPort := port \<rparr>))
     (then_io (catch_io (refreshGroups env) (\<lambda>err. then_io (modify_io (\<lambda>w. w\<lparr> rt_controller := False \<rparr>)) (failed err)))
        (if tunCapability env cap then
           bind_io (attempt (\<lambda>err. err) ask) (\<lambda>err. \<comment> \<open>\<open>confirmTun\<close>\<close>
             modify_io (\<lambda>w. if err = None then w\<lparr> rt_tunActive := True, rt_tunFailure := '''' \<rparr> else w\<lparr> rt_tunActive := False \<rparr>))
         else return_io ())))))"

definition startProcess :: "life_env \<Rightarrow> Capability \<Rightarrow> data_home \<Rightarrow> string \<Rightarrow> unit app_io" where
  "startProcess env cap home p =
     (if home \<noteq> Root then fail_io (WrapActivation ActivationResources (Some (Errorf ''clashpulse: invalid managed data home'' [])))
      else
        bind_io (read_io (\<lambda>w. rt_files w p)) (\<lambda>content.
          case content of
            None \<Rightarrow> fail_io (WrapActivation ActivationProcessStart (Some not_exist))
          | Some generated \<Rightarrow>
              (case (le_mixedPort env generated, le_streamPort env generated) of
                 (Inl err, _) \<Rightarrow> fail_io (WrapActivation ActivationProcessStart (Some err))
               | (_, Inl err) \<Rightarrow> fail_io (WrapActivation ActivationProcessStart (Some err))
               | (Inr port, Inr streamPort) \<Rightarrow>
                   then_io (on_error (\<lambda>err. WrapActivation ActivationMixedPort (Some err)) ask) \<comment> \<open>the port is free\<close>
                  (then_io (if streamPort > 0 then on_error (\<lambda>err. WrapActivation ActivationStreamProbePort (Some err)) ask else return_io ())
                  (then_io (on_error (\<lambda>err. WrapActivation ActivationProcessStart (Some err)) ask) \<comment> \<open>\<open>clearControllerEndpoint\<close>\<close>
                  (then_io (on_error (\<lambda>err. WrapActivation ActivationProcessStart (Some err))
                      (process_Start cap home p (le_profileGroups env generated)))
                     (awaitController env cap port)))))))"

definition stopMonitorAndProcess :: "unit app_io" where
  "stopMonitorAndProcess =
     then_io (modify_io (\<lambda>w. w\<lparr> rt_tunActive := False, rt_controller := False \<rparr>))
    (then_io process_Stop (modify_io (\<lambda>w. w\<lparr> rt_groups := [] \<rparr>)))"

definition app_stop :: "unit app_io" where
  "app_stop =
     then_io proxy_Restore (then_io (modify_io (\<lambda>w. w\<lparr> rt_proxyActive := False \<rparr>)) stopMonitorAndProcess)"

definition configPath :: "life_env \<Rightarrow> Runtime \<Rightarrow> string" where
  "configPath env w = (if rt_generatedPath w \<noteq> '''' then rt_generatedPath w else le_defaultPath env)"

section \<open>Applying a configuration\<close>

definition overrideSnapshots :: "life_env \<Rightarrow> bytes \<Rightarrow> bytes \<Rightarrow> go_error + ConfigOverride list" where
  "overrideSnapshots env profile candidate =
     (case le_explain env profile candidate of
        Inl err \<Rightarrow> Inl (WrapActivation ActivationConfigValidation (Some err))
      | Inr items \<Rightarrow> Inr items)"

definition lift_result :: "go_error + 'a \<Rightarrow> ('s, 'a) io" where
  "lift_result r = (case r of Inl err \<Rightarrow> fail_io err | Inr x \<Rightarrow> return_io x)"

definition commitOverrideReport :: "ConfigOverride list \<Rightarrow> unit app_io" where
  "commitOverrideReport report = modify_io (\<lambda>w. w\<lparr> rt_configOverrides := report, rt_configReportPending := False \<rparr>)"

text \<open>The candidate is written to a temporary file, which is checked and removed.\<close>

definition validateWithHome :: "life_env \<Rightarrow> bytes \<Rightarrow> Capability \<Rightarrow> data_home \<Rightarrow> unit app_io" where
  "validateWithHome env candidate cap home =
     then_io (on_error (\<lambda>err. WrapActivation ActivationStateCommit (Some err)) ask)
       (on_error (\<lambda>err. WrapActivation ActivationConfigValidation (Some err)) (check_io (le_validate env candidate cap home)))"

text \<open>\<open>validatedCandidate\<close> as the callback of a plan. A temporary file that cannot be written is not told apart from a
  configuration that is refused.\<close>

definition candidateValidator :: "life_env \<Rightarrow> bytes \<Rightarrow> Capability \<Rightarrow> string option \<Rightarrow> (string \<times> path) list \<Rightarrow> go_error option" where
  "candidateValidator env profile cap dir paths =
     (let home = (case dir of None \<Rightarrow> Root | Some d \<Rightarrow> Staged d) in
      case le_render env profile home paths cap of
        Inl err \<Rightarrow> Some err
      | Inr candidate \<Rightarrow>
          (case le_validate env candidate cap home of
             None \<Rightarrow> None
           | Some err \<Rightarrow> Some (WrapActivation ActivationConfigValidation (Some err))))"

definition restoreDurable :: "life_env \<Rightarrow> runtimeBackup \<Rightarrow> unit app_io" where
  "restoreDurable env backup =
     (if bk_generatedPath backup = '''' then return_io ()
      else case bk_durable backup of
             Some data \<Rightarrow> config_Write (le_defaultPath env) data
           | None \<Rightarrow> removeFileAt (le_defaultPath env))"

definition activationCandidatePath :: "life_env \<Rightarrow> Runtime \<Rightarrow> string" where
  "activationCandidatePath env w = (if rt_localProfile w \<noteq> None then le_defaultPath env else configPath env w)"

definition restorePrevious ::
  "life_env \<Rightarrow> bytes \<Rightarrow> Capability \<Rightarrow> data_home \<Rightarrow> string \<Rightarrow> bool \<Rightarrow> (string \<times> string) list \<Rightarrow> bool app_io" where
  "restorePrevious env candidate cap home p enableProxy selected =
     (if candidate = '''' \<or> cap_Path cap = '''' then return_io False
      else
        catch_io (then_io (config_Write p candidate)
           (then_io (startProcess env cap home p)
           (then_io (modify_io (\<lambda>w. w\<lparr> rt_generated := candidate, rt_cap := cap, rt_resourceHome := home \<rparr>))
           (bind_io (attempt (\<lambda>err. err) (restoreSelections env selected)) (\<lambda>selections.
            bind_io (if enableProxy then attempt (\<lambda>err. err) (then_io applySystemProxy (modify_io (\<lambda>w. w\<lparr> rt_proxyActive := True \<rparr>)))
                     else return_io None) (\<lambda>proxy.
              return_io (selections = None \<and> proxy = None)))))))
          (\<lambda>_. return_io False))"

text \<open>What the restart of Mihomo replaces.\<close>

record prior =
  pv_config :: bytes
  pv_cap :: Capability
  pv_home :: data_home
  pv_path :: string
  pv_running :: bool
  pv_proxy :: bool
  pv_selected :: "(string \<times> string) list"
  pv_reportPending :: bool

definition priorOf :: "life_env \<Rightarrow> Runtime \<Rightarrow> prior" where
  "priorOf env w = \<lparr> pv_config = rt_generated w, pv_cap = rt_cap w, pv_home = rt_resourceHome w, pv_path = configPath env w,
     pv_running = rt_controller w, pv_proxy = rt_proxyActive w, pv_selected = selectedGroups (rt_groups w),
     pv_reportPending = rt_configReportPending w \<rparr>"

definition restorePrior :: "life_env \<Rightarrow> prior \<Rightarrow> unit app_io" where
  "restorePrior env old =
     bind_io (restorePrevious env (pv_config old) (pv_cap old) (pv_home old) (pv_path old) (pv_proxy old) (pv_selected old)) (\<lambda>ok.
       if ok then modify_io (\<lambda>w. w\<lparr> rt_configReportPending := pv_reportPending old \<rparr>) else return_io ())"

text \<open>Taking back a candidate that was started, or only written.\<close>

definition rewritePrior :: "life_env \<Rightarrow> prior \<Rightarrow> string \<Rightarrow> unit app_io" where
  "rewritePrior env old activePath =
     (if pv_running old then restorePrior env old
      else if pv_config old \<noteq> '''' \<and> activePath = pv_path old then try_io (config_Write activePath (pv_config old))
      else return_io ())"

definition abandon :: "life_env \<Rightarrow> prior \<Rightarrow> string \<Rightarrow> unit app_io" where
  "abandon env old activePath = then_io (try_io stopMonitorAndProcess) (rewritePrior env old activePath)"

definition enableProxy :: "life_env \<Rightarrow> prior \<Rightarrow> string \<Rightarrow> unit app_io" where
  "enableProxy env old activePath =
     (if \<not> sp_Enabled (ap_SystemProxy (c_App (le_settings env))) then return_io ()
      else
        then_io (catch_io applySystemProxy (\<lambda>err.
            bind_io (attempt (\<lambda>e. e) proxy_Restore) (\<lambda>restoreErr.
              case restoreErr of
                Some e \<Rightarrow>
                  then_io (modify_io (\<lambda>w. w\<lparr> rt_proxyActive := True \<rparr>)) (fail_io (WrapActivation ActivationRollback (Some (Joined_Errors err e))))
              | None \<Rightarrow> then_io (abandon env old activePath) (fail_io (systemProxyActivation env err)))))
          (modify_io (\<lambda>w. w\<lparr> rt_proxyActive := True \<rparr>)))"

definition confirmTunnel :: "life_env \<Rightarrow> Capability \<Rightarrow> prior \<Rightarrow> string \<Rightarrow> unit app_io" where
  "confirmTunnel env cap old activePath =
     bind_io (read_io (\<lambda>w. (rt_tunActive w, rt_proxyActive w))) (\<lambda>(tunActive, proxyActive).
       if \<not> tunCapability env cap \<or> tunActive then return_io ()
       else
         let cause = WrapActivation ActivationTunStart (Some (Errorf ''clashpulse: Mihomo reported tun.enable false'' [])) in
         then_io (modify_io (\<lambda>w. w\<lparr> rt_tunFailure := stage_Message ActivationTunStart \<rparr>))
        (then_io (if proxyActive
                  then then_io (on_error (\<lambda>err. WrapActivation ActivationRollback (Some (Joined_Errors cause err))) proxy_Restore)
                    (modify_io (\<lambda>w. w\<lparr> rt_proxyActive := False \<rparr>))
                  else return_io ())
        (then_io (abandon env old activePath) (fail_io cause))))"

text \<open>Stopping what runs, then starting the candidate.\<close>

definition stopRunning :: "life_env \<Rightarrow> prior \<Rightarrow> unit app_io" where
  "stopRunning env old =
     (if \<not> pv_running old then modify_io (\<lambda>w. w\<lparr> rt_tunLeftover := le_deviceExists env \<rparr>)
      else
        then_io (catch_io proxy_Restore (\<lambda>err.
            then_io (modify_io (\<lambda>w. w\<lparr> rt_configReportPending := pv_reportPending old \<rparr>)) (fail_io (systemProxyActivation env err))))
       (then_io (modify_io (\<lambda>w. w\<lparr> rt_proxyActive := False \<rparr>))
          (on_error (\<lambda>err. WrapActivation ActivationRollback (Some err)) stopMonitorAndProcess)))"

definition restartWith :: "life_env \<Rightarrow> bytes \<Rightarrow> Capability \<Rightarrow> data_home \<Rightarrow> string \<Rightarrow> unit app_io" where
  "restartWith env candidate cap home activePath =
     bind_io (read_io (priorOf env)) (\<lambda>old.
       then_io (modify_io (\<lambda>w. w\<lparr> rt_configReportPending := True \<rparr>))
      (then_io (stopRunning env old)
      (then_io (catch_io (config_Write activePath candidate) (\<lambda>err.
          then_io (if pv_running old then restorePrior env old else return_io ()) (fail_io (WrapActivation ActivationStateCommit (Some err)))))
      (then_io (catch_io (startProcess env cap home activePath) (\<lambda>err. then_io (rewritePrior env old activePath) (fail_io err)))
      (then_io (if \<not> pv_running old then return_io ()
                else catch_io (restoreSelections env (pv_selected old)) (\<lambda>err.
                  then_io (try_io stopMonitorAndProcess)
                 (then_io (restorePrior env old) (fail_io (WrapActivation ActivationControllerReadiness (Some err))))))
      (then_io (modify_io (\<lambda>w. w\<lparr> rt_generated := candidate, rt_cap := cap, rt_resourceHome := home \<rparr>))
      (then_io (enableProxy env old activePath)
      (then_io (confirmTunnel env cap old activePath)
         (modify_io (\<lambda>w. w\<lparr> rt_compatibilityFailure := '''' \<rparr>))))))))))"

text \<open>A change of the mode alone is made in the running Mihomo; if that fails, it is restarted.\<close>

definition switchMode :: "life_env \<Rightarrow> bytes \<Rightarrow> string \<Rightarrow> string \<times> string \<Rightarrow> unit app_io" where
  "switchMode env candidate activePath modes = (case modes of (old, new) \<Rightarrow>
     then_io (catch_io (config_Write activePath candidate) (\<lambda>err.
         then_io (try_io (controller_SetMode (if old = '''' then ''rule'' else old))) (fail_io (WrapActivation ActivationStateCommit (Some err)))))
       (modify_io (\<lambda>w. w\<lparr> rt_generated := candidate, rt_compatibilityFailure := '''' \<rparr>)))"

definition applyValid :: "life_env \<Rightarrow> bytes \<Rightarrow> Capability \<Rightarrow> data_home \<Rightarrow> string \<Rightarrow> unit app_io" where
  "applyValid env candidate cap home activePath =
     bind_io (read_io (\<lambda>w. (\<not> rt_forceRestart w \<and> activePath = configPath env w \<and> rt_controller w \<and> cap = rt_cap w \<and> home = rt_resourceHome w,
         rt_generated w))) (\<lambda>(live, generated).
       if live \<and> candidate = generated then modify_io (\<lambda>w. w\<lparr> rt_compatibilityFailure := '''' \<rparr>)
       else case le_modeChange env generated candidate of
              Some (old, new) \<Rightarrow>
                if \<not> live then restartWith env candidate cap home activePath
                else bind_io (attempt (\<lambda>err. err) (controller_SetMode new)) (\<lambda>err.
                  if err = None then switchMode env candidate activePath (old, new) else restartWith env candidate cap home activePath)
            | None \<Rightarrow> restartWith env candidate cap home activePath)"

definition applyCandidateAt :: "life_env \<Rightarrow> bytes \<Rightarrow> Capability \<Rightarrow> data_home \<Rightarrow> string \<Rightarrow> runtimeBackup option \<Rightarrow> unit app_io" where
  "applyCandidateAt env candidate cap home activePath backup =
     bind_io (read_io (configPath env)) (\<lambda>oldPath.
       catch_io (then_io (validateWithHome env candidate cap home) (applyValid env candidate cap home activePath)) (\<lambda>result.
         case backup of
           Some b \<Rightarrow>
             if activePath = oldPath then fail_io result
             else
               then_io (on_error (\<lambda>err. WrapActivation ActivationRollback (Some (Joined_Errors result err))) (restoreDurable env b)) (fail_io result)
         | None \<Rightarrow> fail_io result))"

definition applyCandidate :: "life_env \<Rightarrow> bytes \<Rightarrow> Capability \<Rightarrow> data_home \<Rightarrow> unit app_io" where
  "applyCandidate env candidate cap home =
     bind_io (read_io (configPath env)) (\<lambda>p. applyCandidateAt env candidate cap home p None)"

section \<open>Applying resources and a configuration together\<close>

text \<open>The registry, the random identifiers and the surroundings of a plan.\<close>

record plan_env =
  pe_url_Parse :: url_parser
  pe_ext :: externals
  pe_stage :: stage_env
  pe_stageID :: string
  pe_commitID :: string
  pe_transactionID :: string

definition backupOf :: "bool \<Rightarrow> ConfigOverride list \<Rightarrow> Runtime \<Rightarrow> runtimeBackup" where
  "backupOf plan pendingOverrides w =
     \<lparr> bk_generated = rt_generated w, bk_cap = rt_cap w, bk_home = rt_resourceHome w, bk_running = rt_controller w,
       bk_proxyActive = rt_proxyActive w, bk_selected = selectedGroups (rt_groups w), bk_resourcePlan = plan,
       bk_overrides = rt_configOverrides w, bk_pendingOverrides = pendingOverrides, bk_localProfile = None, bk_generatedPath = '''',
       bk_durable = None \<rparr>"

definition captureLocalActivation :: "life_env \<Rightarrow> runtimeBackup \<Rightarrow> runtimeBackup app_io" where
  "captureLocalActivation env backup =
     bind_io (read_io (\<lambda>w. (rt_localProfile w, rt_generatedPath w, rt_files w (le_defaultPath env)))) (\<lambda>(local, p, durable).
       if local = None then return_io backup
       else then_io (on_error (\<lambda>err. WrapActivation ActivationStateCommit (Some err)) ask)
         (return_io (backup\<lparr> bk_localProfile := local, bk_generatedPath := p, bk_durable := durable \<rparr>)))"

definition setBackup :: "runtimeBackup option \<Rightarrow> unit app_io" where
  "setBackup backup = modify_io (\<lambda>w. w\<lparr> rt_activationBackup := backup \<rparr>)"

definition applyActivationCandidate :: "life_env \<Rightarrow> bytes \<Rightarrow> bytes \<Rightarrow> Capability \<Rightarrow> data_home \<Rightarrow> unit app_io" where
  "applyActivationCandidate env profile candidate cap home =
     bind_io (lift_result (overrideSnapshots env profile candidate)) (\<lambda>report.
     bind_io (read_io (\<lambda>w. (backupOf False report w, activationCandidatePath env w))) (\<lambda>(backup0, p).
     bind_io (catch_io (captureLocalActivation env backup0) (\<lambda>err. then_io (setBackup None) (fail_io err))) (\<lambda>backup.
       then_io (setBackup (Some backup))
         (catch_io (applyCandidateAt env candidate cap home p (Some backup)) (\<lambda>err. then_io (setBackup None) (fail_io err))))))"

text \<open>Putting the runtime of before back, step by step: errors in \<open>cleanup\<close> are kept and the work goes on, others end it.\<close>

definition rollbackFailed :: "go_error option \<Rightarrow> go_error option list \<Rightarrow> go_error option \<Rightarrow> go_error" where
  "rollbackFailed cause cleanup err = WrapActivation ActivationRollback (errors_Join (cause # cleanup @ [err]))"

definition stopCandidate :: "go_error option \<Rightarrow> go_error option app_io" where
  "stopCandidate cause =
     bind_io (read_io rt_controller) (\<lambda>running.
     bind_io (if \<not> running then return_io None
              else attempt (Wrapf ''clashpulse: disable candidate system proxy: %w'' [])
                (then_io proxy_Restore (modify_io (\<lambda>w. w\<lparr> rt_proxyActive := False \<rparr>)))) (\<lambda>cleanup.
       then_io (if \<not> running then return_io ()
                else on_error (\<lambda>err. rollbackFailed cause [cleanup] (Some (Wrapf ''clashpulse: stop candidate before resource rollback: %w'' [] err)))
                  stopMonitorAndProcess)
      (then_io (on_error (\<lambda>err. rollbackFailed cause [cleanup] (Some (Wrapf ''clashpulse: wait for stopped Mihomo: %w'' [] err))) process_Stop)
         (return_io cleanup))))"

definition noCapability :: Capability where
  "noCapability = \<lparr> cap_Path = '''', cap_Version = '''', cap_SupportsGeoIPDat = False, cap_SupportsGeoSiteDat = False, cap_SupportsMMDB = False,
     cap_SupportsTUN = False, cap_SupportsPinnedListener = False \<rparr>"

definition restartPrior :: "life_env \<Rightarrow> runtimeBackup \<Rightarrow> (go_error option \<Rightarrow> go_error) \<Rightarrow> go_error option list app_io" where
  "restartPrior env backup failed =
     bind_io (read_io (configPath env)) (\<lambda>p.
     if bk_running backup then
       then_io (on_error (\<lambda>err. failed (Some (Wrapf ''clashpulse: restore generated configuration: %w'' [] err))) (config_Write p (bk_generated backup)))
      (then_io (on_error (\<lambda>err. failed (Some (Wrapf ''clashpulse: restart previous Mihomo: %w'' [] err))) (startProcess env (bk_cap backup) (bk_home backup) p))
      (then_io (modify_io (\<lambda>w. w\<lparr> rt_generated := bk_generated backup, rt_cap := bk_cap backup, rt_resourceHome := bk_home backup \<rparr>))
      (bind_io (attempt (Wrapf ''clashpulse: restore proxy selection: %w'' []) (restoreSelections env (bk_selected backup))) (\<lambda>selections.
       bind_io (read_io rt_proxyActive) (\<lambda>active.
       bind_io
         (if bk_proxyActive backup \<and> \<not> active
          then attempt (Wrapf ''clashpulse: restore system proxy: %w'' []) (then_io applySystemProxy (modify_io (\<lambda>w. w\<lparr> rt_proxyActive := True \<rparr>)))
          else if \<not> bk_proxyActive backup \<and> active
          then attempt (Wrapf ''clashpulse: clear system proxy: %w'' []) (then_io proxy_Restore (modify_io (\<lambda>w. w\<lparr> rt_proxyActive := False \<rparr>)))
          else return_io None) (\<lambda>proxy.
         return_io [selections, proxy]))))))
     else if bk_generated backup \<noteq> '''' then
       then_io (on_error (\<lambda>err. failed (Some (Wrapf ''clashpulse: restore generated configuration: %w'' [] err))) (config_Write p (bk_generated backup)))
      (then_io (modify_io (\<lambda>w. w\<lparr> rt_generated := bk_generated backup, rt_cap := bk_cap backup, rt_resourceHome := bk_home backup \<rparr>)) (return_io []))
     else
       then_io (on_error (\<lambda>err. failed (Some err)) (removeFileAt p))
      (then_io (modify_io (\<lambda>w. w\<lparr> rt_generated := '''', rt_cap := noCapability, rt_resourceHome := NoHome \<rparr>)) (return_io [])))"

text \<open>The plan is closed and the runtime of before is started.\<close>

definition finishRestore :: "life_env \<Rightarrow> runtimeBackup \<Rightarrow> go_error option \<Rightarrow> go_error option \<Rightarrow> unit app_io" where
  "finishRestore env backup cause c1 =
     bind_io (attempt (Wrapf ''clashpulse: remove staged resources: %w'' []) Plan_Abort) (\<lambda>c2.
     bind_io (restartPrior env backup (rollbackFailed cause [c1, c2])) (\<lambda>cs.
       let cleanup = c1 # c2 # cs in
       if errors_Join cleanup \<noteq> None then fail_io (rollbackFailed cause cleanup None)
       else then_io (commitOverrideReport (bk_overrides backup)) (check_io cause)))"

definition restoreResourceRuntime :: "plan_env \<Rightarrow> life_env \<Rightarrow> runtimeBackup \<Rightarrow> go_error option \<Rightarrow> bool \<Rightarrow> unit app_io" where
  "restoreResourceRuntime pe env backup cause rollback =
     bind_io (stopCandidate cause) (\<lambda>c1.
       then_io (on_error (\<lambda>err. rollbackFailed cause [c1] (Some (Wrapf ''clashpulse: restore prior generated configuration: %w'' [] err))) (restoreDurable env backup))
      (then_io (if \<not> rollback then return_io ()
                else on_error (\<lambda>err. rollbackFailed cause [c1] (Some (Wrapf ''clashpulse: restore resource files: %w'' [] err))) (Plan_Rollback (pe_ext pe)))
         (finishRestore env backup cause c1)))"

text \<open>A staged plan that passed the check of the whole configuration.\<close>

definition stagePlan :: "plan_env \<Rightarrow> life_env \<Rightarrow> bytes \<Rightarrow> Capability \<Rightarrow> unit app_io" where
  "stagePlan pe env profile cap =
     bind_io (Stage (pe_url_Parse pe) (pe_ext pe) (pe_stage pe) (pe_stageID pe) (le_settings env) ''auto'') (\<lambda>p.
       then_io (modify_io (\<lambda>w. w\<lparr> pd_plan := p \<rparr>))
         (catch_io (Plan_Validate (pe_ext pe) (candidateValidator env profile cap)) (\<lambda>err. then_io (try_io Plan_Abort) (fail_io err))))"

definition commitStaged :: "plan_env \<Rightarrow> unit app_io" where
  "commitStaged pe = bind_io (Plan_Commit (pe_ext pe) (pe_commitID pe) (pe_transactionID pe)) (\<lambda>_. return_io ())"

definition resolvePaths :: "plan_env \<Rightarrow> life_env \<Rightarrow> (string \<times> path) list app_io" where
  "resolvePaths pe env = PathsWithHome (pe_url_Parse pe) (pe_ext pe) (le_settings env)"

definition renderCommitted :: "plan_env \<Rightarrow> life_env \<Rightarrow> bytes \<Rightarrow> Capability \<Rightarrow> bytes app_io" where
  "renderCommitted pe env profile cap = bind_io (resolvePaths pe env) (\<lambda>paths. lift_result (le_render env profile Root paths cap))"

text \<open>The managed files stay as they are; only their metadata is committed.\<close>

definition applyUnchanged :: "plan_env \<Rightarrow> life_env \<Rightarrow> bytes \<Rightarrow> Capability \<Rightarrow> bool \<Rightarrow> runtimeBackup \<Rightarrow> unit app_io" where
  "applyUnchanged pe env profile cap activation backup =
     (let restore = (\<lambda>err. restoreResourceRuntime pe env backup (Some err) True) in
      then_io (catch_io (commitStaged pe) (\<lambda>err. then_io (try_io Plan_Abort) (fail_io err)))
        (if \<not> activation \<and> bk_running backup then Plan_Finalize (pe_ext pe)
         else if activation then
           then_io (catch_io (bind_io (renderCommitted pe env profile cap) (\<lambda>candidate. applyActivationCandidate env profile candidate cap Root)) restore)
             (modify_io (\<lambda>w. w\<lparr> rt_activationBackup := map_option (bk_resourcePlan_update (\<lambda>_. True)) (rt_activationBackup w) \<rparr>))
         else
           catch_io (bind_io (renderCommitted pe env profile cap) (\<lambda>candidate.
               bind_io (lift_result (overrideSnapshots env profile candidate)) (\<lambda>report.
                 then_io (applyCandidate env candidate cap Root)
                (then_io (Plan_Finalize (pe_ext pe)) (commitOverrideReport report))))) restore))"

text \<open>Mihomo is stopped before its files are replaced.\<close>

definition stopForPlan :: "plan_env \<Rightarrow> life_env \<Rightarrow> runtimeBackup \<Rightarrow> unit app_io" where
  "stopForPlan pe env backup =
     (if \<not> bk_running backup then return_io ()
      else
        then_io (catch_io proxy_Restore (\<lambda>err. then_io (try_io Plan_Abort) (fail_io err)))
       (then_io (modify_io (\<lambda>w. w\<lparr> rt_proxyActive := False \<rparr>))
          (catch_io stopMonitorAndProcess (\<lambda>err. restoreResourceRuntime pe env backup (Some err) False))))"

definition startCommitted :: "plan_env \<Rightarrow> life_env \<Rightarrow> bytes \<Rightarrow> Capability \<Rightarrow> bool \<Rightarrow> runtimeBackup \<Rightarrow> ConfigOverride list app_io" where
  "startCommitted pe env profile cap activation backup =
     bind_io (renderCommitted pe env profile cap) (\<lambda>candidate.
     bind_io (lift_result (overrideSnapshots env profile candidate)) (\<lambda>report.
       then_io (if activation then bind_io (read_io (activationCandidatePath env)) (\<lambda>p. applyCandidateAt env candidate cap Root p (Some backup))
                else applyCandidate env candidate cap Root)
      (then_io (if bk_running backup then restoreSelections env (bk_selected backup) else return_io ()) (return_io report))))"

definition applyChanged :: "plan_env \<Rightarrow> life_env \<Rightarrow> bytes \<Rightarrow> Capability \<Rightarrow> bool \<Rightarrow> runtimeBackup \<Rightarrow> unit app_io" where
  "applyChanged pe env profile cap activation backup =
     (let restore = (\<lambda>err. restoreResourceRuntime pe env backup (Some err)) in
      then_io (stopForPlan pe env backup)
     (then_io (catch_io (commitStaged pe) (\<lambda>err. then_io (try_io Plan_Abort) (restore err False)))
     (bind_io (catch_io (startCommitted pe env profile cap activation backup) (\<lambda>err. then_io (restore err True) (return_io []))) (\<lambda>report.
        if activation then setBackup (Some (backup\<lparr> bk_pendingOverrides := report \<rparr>))
        else then_io (catch_io (Plan_Finalize (pe_ext pe)) (\<lambda>err. restore err True)) (commitOverrideReport report)))))"

definition applyResourcePlan :: "plan_env \<Rightarrow> life_env \<Rightarrow> bytes \<Rightarrow> Capability \<Rightarrow> bool \<Rightarrow> unit app_io" where
  "applyResourcePlan pe env profile cap activation =
     bind_io (read_io (backupOf True [])) (\<lambda>backup0.
     bind_io (if \<not> activation then return_io backup0
              else catch_io (captureLocalActivation env backup0) (\<lambda>err. then_io (try_io Plan_Abort) (fail_io err))) (\<lambda>backup.
       finally_io
         (then_io (catch_io (check_io (le_ctxErr env)) (\<lambda>err. then_io (try_io Plan_Abort) (fail_io err)))
           (bind_io (read_io (\<lambda>w. pl_changed (pd_plan w))) (\<lambda>changed.
              if changed then applyChanged pe env profile cap activation backup else applyUnchanged pe env profile cap activation backup)))
         (modify_io (\<lambda>w. w\<lparr> rt_resourceDirty := True \<rparr>))))"

definition applyGenerated :: "plan_env \<Rightarrow> life_env \<Rightarrow> bytes \<Rightarrow> unit app_io" where
  "applyGenerated pe env profile =
     (case le_capability env of
        Inl err \<Rightarrow> fail_io (WrapActivation ActivationBinary (Some err))
      | Inr cap \<Rightarrow>
          bind_io (catch_io (bind_io (resolvePaths pe env) (\<lambda>paths. return_io (Some paths))) (\<lambda>_. return_io None)) (\<lambda>paths.
            case paths of
              Some paths \<Rightarrow>
                bind_io (lift_result (le_render env profile Root paths cap)) (\<lambda>candidate. applyActivationCandidate env profile candidate cap Root)
            | None \<Rightarrow>
                on_error activationResourceError (then_io (stagePlan pe env profile cap) (applyResourcePlan pe env profile cap True))))"

definition startWith :: "plan_env \<Rightarrow> life_env \<Rightarrow> bytes \<Rightarrow> Capability \<Rightarrow> unit app_io" where
  "startWith pe env profile cap =
     bind_io (catch_io (bind_io (resolvePaths pe env) (\<lambda>paths. return_io (Some paths))) (\<lambda>_. return_io None)) (\<lambda>paths.
       case paths of
         Some paths \<Rightarrow>
           bind_io (lift_result (le_render env profile Root paths cap)) (\<lambda>candidate.
           bind_io (lift_result (overrideSnapshots env profile candidate)) (\<lambda>report.
             then_io (applyCandidate env candidate cap Root) (commitOverrideReport report)))
       | None \<Rightarrow>
           on_error activationResourceError (then_io (stagePlan pe env profile cap) (applyResourcePlan pe env profile cap False)))"

section \<open>Taking an activation back\<close>

definition restoreWithout :: "life_env \<Rightarrow> runtimeBackup \<Rightarrow> bytes option \<Rightarrow> unit app_io" where
  "restoreWithout env backup previousProfile =
     (if \<not> bk_running backup then
        then_io app_stop
       (bind_io (read_io (configPath env)) (\<lambda>p.
          then_io
            (if previousProfile = None \<or> previousProfile = Some '''' then
               then_io (removeFileAt p) (modify_io (\<lambda>w. w\<lparr> rt_generated := '''', rt_cap := noCapability, rt_resourceHome := NoHome \<rparr>))
             else
               then_io (config_Write p (bk_generated backup))
                 (modify_io (\<lambda>w. w\<lparr> rt_generated := bk_generated backup, rt_cap := bk_cap backup, rt_resourceHome := bk_home backup \<rparr>)))
            (commitOverrideReport (bk_overrides backup))))
      else
        then_io (applyCandidate env (bk_generated backup) (bk_cap backup) (bk_home backup))
       (then_io (restoreSelections env (bk_selected backup))
       (bind_io (read_io rt_proxyActive) (\<lambda>active.
          then_io
            (if bk_proxyActive backup \<and> \<not> active then then_io applySystemProxy (modify_io (\<lambda>w. w\<lparr> rt_proxyActive := True \<rparr>))
             else if \<not> bk_proxyActive backup \<and> active then then_io proxy_Restore (modify_io (\<lambda>w. w\<lparr> rt_proxyActive := False \<rparr>))
             else return_io ())
            (commitOverrideReport (bk_overrides backup))))))"

definition restoreActivation :: "plan_env \<Rightarrow> life_env \<Rightarrow> bytes option \<Rightarrow> unit app_io" where
  "restoreActivation pe env previousProfile =
     bind_io (read_io rt_activationBackup) (\<lambda>captured.
       then_io (setBackup None)
         (case captured of
            None \<Rightarrow> fail_io (Errorf ''clashpulse: no prior runtime was captured'' [])
          | Some backup \<Rightarrow>
              if bk_resourcePlan backup then
                then_io (modify_io (\<lambda>w. w\<lparr> rt_resourceDirty := True \<rparr>)) (restoreResourceRuntime pe env backup None True)
              else
                then_io (restoreWithout env backup previousProfile)
                  (if bk_generatedPath backup = '''' then return_io ()
                   else on_error (\<lambda>err. WrapActivation ActivationRollback (Some err)) (restoreDurable env backup))))"

section \<open>The callbacks of the subscription service\<close>

definition finalizeCallback :: "plan_env \<Rightarrow> unit app_io" where
  "finalizeCallback pe =
     bind_io (read_io rt_activationBackup) (\<lambda>captured.
       case captured of
         None \<Rightarrow> return_io ()
       | Some backup \<Rightarrow>
           then_io (if bk_resourcePlan backup then Plan_Finalize (pe_ext pe) else return_io ())
             (modify_io (\<lambda>w. w\<lparr> rt_configOverrides := bk_pendingOverrides backup, rt_configReportPending := False \<rparr>)))"

definition pendingResourceCommit :: "Runtime \<Rightarrow> string" where
  "pendingResourceCommit w =
     (case rt_activationBackup w of
        None \<Rightarrow> ''''
      | Some backup \<Rightarrow> if bk_resourcePlan backup then CommitID w else '''')"

definition renderProfile :: "plan_env \<Rightarrow> life_env \<Rightarrow> Capability \<Rightarrow> bytes \<Rightarrow> bytes app_io" where
  "renderProfile pe env cap profile =
     bind_io (catch_io (bind_io (resolvePaths pe env) (\<lambda>paths. return_io (Some paths))) (\<lambda>_. return_io None)) (\<lambda>paths.
       case paths of
         Some paths \<Rightarrow> lift_result (le_render env profile Root paths cap)
       | None \<Rightarrow>
           bind_io (read_io rt_controller) (\<lambda>running.
             if running then fail_io (Errorf ''clashpulse: managed resources are unavailable while Mihomo is running'' [])
             else
               bind_io (Stage (pe_url_Parse pe) (pe_ext pe) (pe_stage pe) (pe_stageID pe) (le_settings env) ''auto'') (\<lambda>p.
                 then_io (modify_io (\<lambda>w. w\<lparr> pd_plan := p \<rparr>))
                   (finally_io
                      (then_io (Plan_Validate (pe_ext pe) (candidateValidator env profile cap))
                      (then_io (commitStaged pe)
                         (catch_io
                            (bind_io (renderCommitted pe env profile cap) (\<lambda>candidate.
                               then_io (validateWithHome env candidate cap Root)
                              (then_io (Plan_Finalize (pe_ext pe))
                              (then_io (modify_io (\<lambda>w. w\<lparr> rt_resourceDirty := True \<rparr>)) (return_io candidate)))))
                            (\<lambda>cause. bind_io (attempt (\<lambda>err. err) (Plan_Rollback (pe_ext pe))) (\<lambda>err.
                               fail_io (the (errors_Join [Some cause, err])))))))
                      (try_io Plan_Abort)))))"

end
