(* ===== verification/App_Activation.thy ===== *)
theory App_Activation
  imports App_Lifecycle
begin

text \<open>
  The activation of a subscription whose configuration needs resources that are not committed yet: the application
  stages, validates and commits a plan, restarts Mihomo, and the subscription service moves its marker. After any
  failure or crash the next start shows the old subscription with the old resources or the new one with the new ones.
\<close>

section \<open>Programs that leave a part of the state alone\<close>

named_theorems stays_intros

definition stays :: "('s \<Rightarrow> 'v) \<Rightarrow> ('s, 'a) io \<Rightarrow> bool" where
  "stays f m \<longleftrightarrow> (\<forall>w. wp m (\<lambda>_ g. f g = f w) (\<lambda>_ g. f g = f w) (\<lambda>g. f g = f w) w)"

lemma stays_wp:
  assumes "stays f m" and "\<And>x g. f g = f w \<Longrightarrow> Q x g" and "\<And>e g. f g = f w \<Longrightarrow> R e g" and "\<And>g. f g = f w \<Longrightarrow> C g"
  shows "wp m Q R C w"
  by (rule wp_mono [OF assms(1) [unfolded stays_def, rule_format]]) (simp_all add: assms(2-4))

lemma stays_basic [stays_intros]:
  "stays f (return_io x)" "stays f (fail_io e)" "stays f (read_io g)" "stays f (check_io r)"
  by (simp_all add: stays_def split: option.split)

lemma stays_steps [stays_intros]:
  assumes "\<And>w. f (g w) = f w"
  shows "stays f (modify_io g)" "stays f (step_io g e)" "stays f (atomic_io g e)"
  using assms by (simp_all add: stays_def)

lemma stays_bind [stays_intros]:
  assumes "stays f m" and "\<And>x. stays f (n x)"
  shows "stays f (bind_io m n)"
  unfolding stays_def
  by (intro allI wp_bind, rule stays_wp [OF assms(1)]) (simp_all, rule stays_wp [OF assms(2)], simp_all)

lemma stays_then [stays_intros]: "stays f m \<Longrightarrow> stays f n \<Longrightarrow> stays f (then_io m n)"
  unfolding then_io_def by (rule stays_bind)

lemma stays_catch [stays_intros]:
  assumes "stays f m" and "\<And>e. stays f (hnd e)"
  shows "stays f (catch_io m hnd)"
  unfolding stays_def
  by (intro allI wp_catch, rule stays_wp [OF assms(1)]) (simp_all, rule stays_wp [OF assms(2)], simp_all)

lemma stays_if [stays_intros]: "(c \<Longrightarrow> stays f m) \<Longrightarrow> (\<not> c \<Longrightarrow> stays f n) \<Longrightarrow> stays f (if c then m else n)"
  by simp

lemma stays_option [stays_intros]: "stays f m \<Longrightarrow> (\<And>x. stays f (n x)) \<Longrightarrow> stays f (case opt of None \<Rightarrow> m | Some x \<Rightarrow> n x)"
  by (simp split: option.split)

lemma stays_sum [stays_intros]: "(\<And>x. stays f (m x)) \<Longrightarrow> (\<And>y. stays f (n y)) \<Longrightarrow> stays f (case r of Inl x \<Rightarrow> m x | Inr y \<Rightarrow> n y)"
  by (simp split: sum.split)

lemma stays_prod [stays_intros]: "(\<And>a b. stays f (m a b)) \<Longrightarrow> stays f (case p of (a, b) \<Rightarrow> m a b)"
  by (simp split: prod.split)

lemma stays_prod2 [stays_intros]: "(\<And>a b. stays f (m a b c)) \<Longrightarrow> stays f ((case p of (a, b) \<Rightarrow> m a b) c)"
  by (simp split: prod.split)

lemma stays_derived [stays_intros]:
  "stays f m \<Longrightarrow> stays f (wrap_io fmt args m)" "stays f u \<Longrightarrow> stays f (try_io u)" "stays f u \<Longrightarrow> stays f (attempt report u)"
  "stays f m \<Longrightarrow> stays f (on_error report m)" "stays f (lift_result r)"
  unfolding wrap_io_def try_io_def attempt_def on_error_def lift_result_def by (intro stays_intros; assumption)+

lemma stays_each [stays_intros]: "(\<And>x. stays f (m x)) \<Longrightarrow> stays f (each_io m xs)"
  by (induction xs) (auto intro: stays_intros)

lemma stays_weaken:
  assumes "stays f m" and "\<And>w g. f g = f w \<Longrightarrow> f' g = f' w"
  shows "stays f' m"
  unfolding stays_def by (intro allI, rule stays_wp [OF assms(1)]; erule assms(2))

section \<open>The runtime leaves the resources alone\<close>

abbreviation planned :: "Runtime \<Rightarrow> Planned" where
  "planned \<equiv> Planned.truncate"

definition captured :: "Runtime \<Rightarrow> Planned \<times> runtimeBackup option" where
  "captured w = (planned w, rt_activationBackup w)"

lemma planned_fields:
  assumes "planned g = planned w"
  shows "rg_home g = rg_home w" "rg_active g = rg_active w" "rg_maxBytes g = rg_maxBytes w" "pd_plan g = pd_plan w"
  using assms by (simp_all add: Planned.defs)

lemma captured_stays: "stays captured m \<Longrightarrow> stays planned m"
  by (erule stays_weaken) (simp add: captured_def)

lemma captured_updates [simp]:
  "captured (rt_files_update x w) = captured w" "captured (rt_process_update p w) = captured w" "captured (rt_mihomoGroups_update gs w) = captured w"
  "captured (rt_desktopProxy_update b w) = captured w" "captured (rt_mode_update md w) = captured w" "captured (rt_groups_update grs w) = captured w"
  "captured (rt_controller_update c w) = captured w" "captured (rt_mixedPort_update k w) = captured w" "captured (rt_tunActive_update c w) = captured w"
  "captured (rt_tunFailure_update s w) = captured w" "captured (rt_tunLeftover_update c w) = captured w" "captured (rt_proxyActive_update c w) = captured w"
  "captured (rt_generated_update s w) = captured w" "captured (rt_cap_update cp w) = captured w" "captured (rt_resourceHome_update hm w) = captured w"
  "captured (rt_configOverrides_update os w) = captured w" "captured (rt_configReportPending_update c w) = captured w"
  "captured (rt_compatibilityFailure_update s w) = captured w" "captured (rt_resourceDirty_update c w) = captured w"
  by (simp_all add: captured_def Planned.defs)

lemma stays_world [stays_intros]:
  "stays captured (config_Write p data)" "stays captured (removeFileAt p)" "stays captured (process_Start cap home p groups)" "stays captured process_Stop"
  "stays captured proxy_Restore" "stays captured applySystemProxy" "stays captured (controller_SetMode mode)" "stays captured (controller_Select name proxy)"
  "stays captured ask"
  unfolding config_Write_def removeFileAt_def process_Start_def process_Stop_def proxy_Restore_def applySystemProxy_def controller_SetMode_def
    controller_Select_def ask_def
  by (intro stays_intros; simp)+

lemma stays_groups [stays_intros]: "stays captured (refreshGroups env)" "stays captured (restoreSelections env selected)"
proof -
  show refresh: "stays captured (refreshGroups env)" for env
    unfolding refreshGroups_def by (intro stays_intros) simp
  show "stays captured (restoreSelections env selected)"
    unfolding restoreSelections_def Let_def by (intro stays_intros refresh)
qed

lemma stays_start [stays_intros]:
  "stays captured (stopStartedProcess cause)" "stays captured (awaitController env cap port)" "stays captured (startProcess env cap home p)"
  "stays captured stopMonitorAndProcess" "stays captured app_stop"
proof -
  show stop: "stays captured (stopStartedProcess cause)" for cause unfolding stopStartedProcess_def by (intro stays_intros)
  show await: "stays captured (awaitController env cap port)" for env cap port
    unfolding awaitController_def Let_def by (intro stays_intros stop) simp_all
  show "stays captured (startProcess env cap home p)"
    unfolding startProcess_def by (intro stays_intros await)
  show sm: "stays captured stopMonitorAndProcess" unfolding stopMonitorAndProcess_def by (intro stays_intros) simp_all
  show "stays captured app_stop" unfolding app_stop_def by (intro stays_intros sm) simp
qed

lemma stays_apply [stays_intros]:
  "stays captured (commitOverrideReport report)" "stays captured (validateWithHome env candidate cap home)" "stays captured (restoreDurable env backup)"
  "stays captured (restorePrevious env candidate cap home p on selected)" "stays captured (restorePrior env old)" "stays captured (rewritePrior env old p)"
  "stays captured (abandon env old p)" "stays captured (enableProxy env old p)" "stays captured (confirmTunnel env cap old p)"
  "stays captured (stopRunning env old)" "stays captured (restartWith env candidate cap home p)" "stays captured (switchMode env candidate p modes)"
  "stays captured (applyValid env candidate cap home p)" "stays captured (applyCandidateAt env candidate cap home p bk)"
  "stays captured (applyCandidate env candidate cap home)"
  unfolding commitOverrideReport_def validateWithHome_def restoreDurable_def restorePrevious_def restorePrior_def rewritePrior_def abandon_def
    enableProxy_def confirmTunnel_def stopRunning_def restartWith_def switchMode_def applyValid_def applyCandidateAt_def applyCandidate_def Let_def
  by (intro stays_intros; simp)+

lemma reads_stays: "reads m P \<Longrightarrow> stays f m"
  unfolding stays_def by (intro allI) (erule reads_wp, simp_all)

lemma reads_True: "reads (read_io g) (\<lambda>_. True)" "reads (step_io (\<lambda>h. h) e) (\<lambda>_. True)" "reads (check_io r) (\<lambda>_. True)"
  by (simp_all add: reads_def split: option.split)

lemma reads_loadStateFile: "reads (loadStateFile ext) (\<lambda>_. True)"
  unfolding reads_def by (auto intro: wp_loadStateFile)

lemma reads_resolveResource: "reads (resolveResource ext r resource) (\<lambda>_. True)"
  unfolding resolveResource_def Let_def
  by (auto intro!: reads_bind [OF reads_wrap [OF reads_readManaged]] reads_then [OF reads_True(3)] reads_if reads_fail reads_return)

lemma reads_resolveResources: "reads (resolveResources ext r paths resources) (\<lambda>_. True)"
  by (induction resources arbitrary: paths)
    (auto intro!: reads_return reads_bind [OF reads_resolveResource] split: prod.split)

lemma reads_PathsWithHome: "reads (PathsWithHome url_Parse ext snapshot) (\<lambda>_. True)"
  unfolding PathsWithHome_def currentState_def pathsLocked_def ensureRoot_def
  by (intro reads_then [OF reads_True(3)] reads_then [where P = "\<lambda>_. True"] reads_bind [where P = "\<lambda>_. True"] reads_if reads_on_home reads_loadStateFile
      reads_True reads_fail reads_return TrueI reads_resolveResources)

lemma stays_resolvePaths [stays_intros]: "stays captured (resolvePaths pe env)"
  unfolding resolvePaths_def by (rule reads_stays [OF reads_PathsWithHome])

section \<open>Taking back\<close>

definition stage_ok :: "Plan \<Rightarrow> bool" where
  "stage_ok p \<longleftrightarrow> pl_stageID p = '''' \<or> prefix stageDirPrefix (pl_stageID p)"

abbreviation as_before :: "externals \<Rightarrow> stateDocument \<Rightarrow> (string \<Rightarrow> node option) \<Rightarrow> 'z Planned_scheme \<Rightarrow> bool" where
  "as_before ext document F w \<equiv> undone ext document F (rg_home w)"

lemma undone_RemoveAll:
  assumes "undone ext document F h" and "prefix stageDirPrefix dir"
  shows "wp (os_RemoveAll dir) (\<lambda>_. undone ext document F) (\<lambda>_. undone ext document F) (undone ext document F) h"
proof -
  let ?g = "h\<lparr> h_dirs := removeAll dir (h_dirs h),
      h_files := (\<lambda>p. case p of InDir d n \<Rightarrow> if d = dir then None else h_files h p | InHome n \<Rightarrow> h_files h p) \<rparr>"
  have "undone ext document F ?g"
    using assms(1) unfolding undone_def
  proof (elim disjE exE conjE)
    fix journal assume p: "pending ext journal F h" and j: "tj_Previous journal = document"
    then have "validateJournal ext journal = None" by (simp add: pending_def)
    from backup_not_stage [OF this assms(2)] p have "pending ext journal F ?g" by (auto simp: pending_def file_ok_def)
    with j show "h_journal ?g = Absent \<and> stateOf ext ?g = Inr document \<and> (\<forall>n. h_files ?g (InHome n) = F n)
      \<or> (\<exists>journal. pending ext journal F ?g \<and> tj_Previous journal = document)" by blast
  qed (simp add: stateOf_def)
  with assms(1) show ?thesis by (simp add: os_RemoveAll_def)
qed

lemma wp_Plan_Abort:
  assumes "as_before ext document F w" and "stage_ok (pd_plan w)"
  shows "wp Plan_Abort (\<lambda>_ g. as_before ext document F g \<and> stage_ok (pd_plan g)) (\<lambda>_ g. as_before ext document F g \<and> stage_ok (pd_plan g))
    (as_before ext document F) w"
proof -
  let ?p = "pd_plan w"
  have "wp (if pl_stageID ?p = '''' then return_io ()
            else then_io (check_io (checkStageDir ?p))
              (bind_io (read_io (verifyRealDirectory (pl_stageID ?p))) (\<lambda>r.
                 case r of
                   None \<Rightarrow> wrap_io ''resources: remove staged resources: %w'' [] (os_RemoveAll (pl_stageID ?p))
                 | Some err \<Rightarrow> if err = not_exist then return_io () else fail_io (Wrapf ''resources: staged directory is unsafe: %w'' [] err))))
    (\<lambda>_. undone ext document F) (\<lambda>_. undone ext document F) (undone ext document F) (rg_home w)"
    using assms undone_RemoveAll [OF assms(1), of "pl_stageID ?p"]
    by (auto intro!: wp_then wp_bind wp_wrap simp: stage_ok_def split: option.split)
  then have "wp (then_io (on_home (if pl_stageID ?p = '''' then return_io ()
            else then_io (check_io (checkStageDir ?p))
              (bind_io (read_io (verifyRealDirectory (pl_stageID ?p))) (\<lambda>r.
                 case r of
                   None \<Rightarrow> wrap_io ''resources: remove staged resources: %w'' [] (os_RemoveAll (pl_stageID ?p))
                 | Some err \<Rightarrow> if err = not_exist then return_io () else fail_io (Wrapf ''resources: staged directory is unsafe: %w'' [] err)))))
      (modify_io (upd_plan (pl_closed_update (\<lambda>_. True)))))
    (\<lambda>_ g. as_before ext document F g \<and> stage_ok (pd_plan g)) (\<lambda>_ g. as_before ext document F g \<and> stage_ok (pd_plan g)) (as_before ext document F) w"
    by (intro wp_then wp_on_home) (erule wp_mono, use assms(2) in \<open>simp_all add: upd_plan_def stage_ok_def\<close>)
  with assms show ?thesis
    unfolding Plan_Abort_def on_plan_def by (intro wp_bind) simp
qed

lemma stays_capture [stays_intros]:
  "stays captured (captureLocalActivation env backup)" "stays captured (stopCandidate cause)" "stays captured (restartPrior env backup failed)"
  "stays captured (renderCommitted pe env profile cap)" "stays captured (startCommitted pe env profile cap activation backup)"
  unfolding captureLocalActivation_def stopCandidate_def restartPrior_def renderCommitted_def startCommitted_def
  by (intro stays_intros; simp)+

lemma wp_attempt: "wp m (\<lambda>_. Q None) (\<lambda>e. Q (Some (report e))) C w \<Longrightarrow> wp (attempt report m) Q R C w"
  unfolding attempt_def by (intro wp_catch wp_then) (erule wp_mono, simp_all)

lemma wp_on_error: "wp m Q (\<lambda>e. R (report e)) C w \<Longrightarrow> wp (on_error report m) Q R C w"
  unfolding on_error_def by (intro wp_catch) (erule wp_mono, simp_all)

lemma wp_finishRestore:
  assumes "as_before ext document F w" and "stage_ok (pd_plan w)"
  shows "wp (finishRestore env backup cause c1)
    (\<lambda>_ g. cause = None \<and> as_before ext document F g) (\<lambda>_. as_before ext document F) (as_before ext document F) w"
    (is "wp _ ?Q ?R ?C w")
proof -
  have "wp (bind_io (restartPrior env backup (rollbackFailed cause [c1, c2])) (\<lambda>cs.
       let cleanup = c1 # c2 # cs in
       if errors_Join cleanup \<noteq> None then fail_io (rollbackFailed cause cleanup None)
       else then_io (commitOverrideReport (bk_overrides backup)) (check_io cause))) ?Q ?R ?C g" if "?C g" for c2 g
  proof (rule wp_bind, rule stays_wp [OF captured_stays [OF stays_capture(3)]])
    fix cs k assume k: "planned k = planned g"
    then have "?C k" using that planned_fields(1) [OF k] by simp
    then show "wp (let cleanup = c1 # c2 # cs in
       if errors_Join cleanup \<noteq> None then fail_io (rollbackFailed cause cleanup None)
       else then_io (commitOverrideReport (bk_overrides backup)) (check_io cause)) ?Q ?R ?C k"
      unfolding Let_def by (auto intro!: wp_then simp: commitOverrideReport_def split: option.split)
  qed (drule planned_fields(1), use that in simp)+
  then show ?thesis
    unfolding finishRestore_def by (intro wp_bind wp_attempt, intro wp_mono [OF wp_Plan_Abort [OF assms]]) auto
qed

lemma wp_restoreResourceRuntime:
  assumes "\<And>c1 report g. planned g = planned w
      \<Longrightarrow> wp (then_io (if \<not> rollback then return_io () else on_error report (Plan_Rollback (pe_ext pe))) (finishRestore env backup cause c1)) Q R C g"
    and "\<And>e g. planned g = planned w \<Longrightarrow> R e g" and "\<And>g. planned g = planned w \<Longrightarrow> C g"
  shows "wp (restoreResourceRuntime pe env backup cause rollback) Q R C w"
  unfolding restoreResourceRuntime_def
proof (rule wp_bind, rule stays_wp [OF captured_stays [OF stays_capture(2)]])
  fix c1 g assume g: "planned g = planned w"
  have "stays captured (on_error report (restoreDurable env backup))" for report by (intro stays_intros)
  note durable = captured_stays [OF this]
  show "wp (then_io (on_error (\<lambda>err. rollbackFailed cause [c1] (Some (Wrapf ''clashpulse: restore prior generated configuration: %w'' [] err))) (restoreDurable env backup))
      (then_io (if \<not> rollback then return_io ()
                else on_error (\<lambda>err. rollbackFailed cause [c1] (Some (Wrapf ''clashpulse: restore resource files: %w'' [] err))) (Plan_Rollback (pe_ext pe)))
         (finishRestore env backup cause c1))) Q R C g"
    by (rule wp_then, rule stays_wp [OF durable]; rule assms; simp add: g)
qed (use assms(2,3) in auto)

lemma wp_restore_plain:
  assumes "as_before ext document F w" and "stage_ok (pd_plan w)"
  shows "wp (restoreResourceRuntime pe env backup cause False)
    (\<lambda>_ g. cause = None \<and> as_before ext document F g) (\<lambda>_. as_before ext document F) (as_before ext document F) w"
proof (rule wp_restoreResourceRuntime)
  fix c1 report g assume g: "planned g = planned w"
  have "as_before ext document F g" "stage_ok (pd_plan g)" using assms planned_fields [OF g] by simp_all
  from wp_finishRestore [OF this] show "wp (then_io (if \<not> False then return_io () else on_error report (Plan_Rollback (pe_ext pe))) (finishRestore env backup cause c1))
    (\<lambda>_ g. cause = None \<and> as_before ext document F g) (\<lambda>_. as_before ext document F) (as_before ext document F) g"
    by (intro wp_then) simp
qed (drule planned_fields(1), use assms in simp)+

lemma committed_planned:
  assumes "planned g = planned w"
  shows "committed_plan ext w0 commitID journal F g = committed_plan ext w0 commitID journal F w"
  using planned_fields [OF assms] by (simp add: committed_plan_def)

lemma committed_stage_ok:
  assumes "committed_plan ext w0 commitID journal F w" and "commit_pre ext snapshot commitID ident w0"
  shows "stage_ok (pd_plan w)"
  using assms by (auto simp: committed_plan_def commit_pre_def plan_for_def planOf_def stage_ok_def)

lemma committed_before:
  assumes "committed_plan ext w0 commitID journal F w"
  shows "as_before ext (rg_active w0) (\<lambda>n. h_files (rg_home w0) (InHome n)) w"
  using assms by (auto simp: committed_plan_def undone_def)

lemma wp_restore_committed:
  assumes com: "committed_plan (pe_ext pe) w0 commitID journal F w" and pre: "commit_pre (pe_ext pe) snapshot commitID ident w0"
  defines "F0 \<equiv> \<lambda>n. h_files (rg_home w0) (InHome n)"
  shows "wp (restoreResourceRuntime pe env backup cause True)
    (\<lambda>_ g. cause = None \<and> as_before (pe_ext pe) (rg_active w0) F0 g) (\<lambda>_. as_before (pe_ext pe) (rg_active w0) F0) (as_before (pe_ext pe) (rg_active w0) F0) w"
proof (rule wp_restoreResourceRuntime)
  let ?ok = "as_before (pe_ext pe) (rg_active w0) F0"
  have valid: "validateStateDocument (pe_ext pe) (rg_active w0) = None"
    using pre stateOf_valid(1) by (auto simp: commit_pre_def registry_ok_def)
  have prev: "tj_Previous journal = rg_active w0" using com by (simp add: committed_plan_def)
  fix c1 report g assume g: "planned g = planned w"
  from com have com': "committed_plan (pe_ext pe) w0 commitID journal F g" by (simp add: committed_planned [OF g])
  have after: "?ok k" if "pending (pe_ext pe) journal F0 (rg_home k) \<or> restored journal F0 (rg_home k)" for k
    by (rule undone_transaction [OF that prev valid])
  have "wp (Plan_Rollback (pe_ext pe)) (\<lambda>_ k. ?ok k \<and> stage_ok (pd_plan k)) (\<lambda>_. ?ok) ?ok g"
    by (rule wp_mono [OF wp_Plan_Rollback [OF com' pre]])
      (use after committed_stage_ok [OF com' pre] in \<open>auto simp: F0_def stage_ok_def\<close>)
  then show "wp (then_io (if \<not> True then return_io () else on_error report (Plan_Rollback (pe_ext pe))) (finishRestore env backup cause c1))
    (\<lambda>_ g. cause = None \<and> ?ok g) (\<lambda>_. ?ok) ?ok g"
    by (intro wp_then) (simp, rule wp_on_error, erule wp_mono, auto intro: wp_finishRestore)
qed (drule planned_fields(1), use committed_before [OF com] in \<open>simp add: F0_def\<close>)+

section \<open>Applying a plan\<close>

abbreviation commit_ready :: "plan_env \<Rightarrow> life_env \<Rightarrow> 'z Planned_scheme \<Rightarrow> bool" where
  "commit_ready pe env w \<equiv> commit_pre (pe_ext pe) (le_settings env) (pe_commitID pe) (pe_transactionID pe) w"

abbreviation home_files :: "'z Planned_scheme \<Rightarrow> string \<Rightarrow> node option" where
  "home_files w \<equiv> \<lambda>n. h_files (rg_home w) (InHome n)"

abbreviation before_commit :: "plan_env \<Rightarrow> 'z Planned_scheme \<Rightarrow> 'z Planned_scheme \<Rightarrow> bool" where
  "before_commit pe w0 g \<equiv> as_before (pe_ext pe) (rg_active w0) (home_files w0) g"

definition plan_applied :: "plan_env \<Rightarrow> life_env \<Rightarrow> stateDocument \<Rightarrow> (string \<Rightarrow> node option) \<Rightarrow> Runtime \<Rightarrow> bool" where
  "plan_applied pe env document F0 w \<longleftrightarrow>
     (\<exists>w0 journal F. committed_plan (pe_ext pe) w0 (pe_commitID pe) journal F w \<and> commit_ready pe env w0
        \<and> rg_active w0 = document \<and> home_files w0 = F0)
     \<and> (\<exists>backup. rt_activationBackup w = Some backup \<and> bk_resourcePlan backup)"

lemma commit_planned:
  assumes "planned g = planned w"
  shows "commit_ready pe env g = commit_ready pe env w"
  using planned_fields [OF assms] by (simp add: commit_pre_def registry_ok_def plan_for_def)

lemma commit_readyD:
  assumes "commit_ready pe env w"
  shows "before_commit pe w w" and "stage_ok (pd_plan w)"
  using assms by (auto simp: commit_pre_def registry_ok_def undone_def plan_for_def planOf_def stage_ok_def)

lemma before_planned: "planned g = planned w \<Longrightarrow> as_before ext document F w \<Longrightarrow> as_before ext document F g"
  by (drule planned_fields(1)) simp

lemma wp_abort_then:
  assumes "as_before ext document F w" and "stage_ok (pd_plan w)"
    and "\<And>g. as_before ext document F g \<Longrightarrow> stage_ok (pd_plan g) \<Longrightarrow> wp m Q R C g" and "\<And>g. as_before ext document F g \<Longrightarrow> C g"
  shows "wp (then_io (try_io Plan_Abort) m) Q R C w"
  by (intro wp_then wp_try, rule wp_mono [OF wp_Plan_Abort [OF assms(1,2)]]) (use assms(3,4) in auto)

lemma wp_abort_fail:
  assumes "as_before ext document F w" and "stage_ok (pd_plan w)"
  shows "wp (then_io (try_io Plan_Abort) (fail_io e)) Q (\<lambda>_. as_before ext document F) (as_before ext document F) w"
  by (rule wp_abort_then [OF assms]) simp_all

lemma wp_commitStaged:
  assumes "commit_ready pe env w"
  shows "wp (commitStaged pe) (\<lambda>_ g. \<exists>journal F. committed_plan (pe_ext pe) w (pe_commitID pe) journal F g)
    (\<lambda>_ g. before_commit pe w g \<and> stage_ok (pd_plan g)) (before_commit pe w) w"
  unfolding commitStaged_def
  by (intro wp_bind, rule wp_mono [OF wp_Plan_Commit [OF assms]]) (use commit_readyD(2) [OF assms] in auto)

lemma wp_stopForPlan:
  assumes "commit_ready pe env w"
  shows "wp (stopForPlan pe env backup) (\<lambda>_ g. planned g = planned w) (\<lambda>_. before_commit pe w) (before_commit pe w) w"
proof (cases "bk_running backup")
  case True
  let ?ok = "before_commit pe w"
  note here = commit_readyD [OF assms]
  have same: "?ok g" "stage_ok (pd_plan g)" if "planned g = planned w" for g
    using here before_planned [OF that here(1)] planned_fields(4) [OF that] by simp_all
  have px: "stays planned proxy_Restore" and sm: "stays planned stopMonitorAndProcess" by (intro captured_stays stays_intros)+
  have stop: "wp (catch_io stopMonitorAndProcess (\<lambda>err. restoreResourceRuntime pe env backup (Some err) False)) (\<lambda>_ g. planned g = planned w) (\<lambda>_. ?ok) ?ok g"
    if "planned g = planned w" for g
  proof (rule wp_catch, rule stays_wp [OF sm])
    fix e k assume "planned k = planned g"
    with that have k: "planned k = planned w" by simp
    show "wp (restoreResourceRuntime pe env backup (Some e) False) (\<lambda>_ g. planned g = planned w) (\<lambda>_. ?ok) ?ok k"
      by (rule wp_mono [OF wp_restore_plain [OF same [OF k]]]) simp_all
  qed (use that same in auto)
  have "wp (then_io (catch_io proxy_Restore (\<lambda>err. then_io (try_io Plan_Abort) (fail_io err)))
       (then_io (modify_io (\<lambda>w. w\<lparr> rt_proxyActive := False \<rparr>))
          (catch_io stopMonitorAndProcess (\<lambda>err. restoreResourceRuntime pe env backup (Some err) False)))) (\<lambda>_ g. planned g = planned w) (\<lambda>_. ?ok) ?ok w"
  proof (rule wp_then, rule wp_catch, rule stays_wp [OF px])
    fix k assume k: "planned k = planned w"
    have "planned (k\<lparr> rt_proxyActive := False \<rparr>) = planned k" by (simp add: Planned.defs)
    with stop [of "k\<lparr> rt_proxyActive := False \<rparr>"] k
    show "wp (then_io (modify_io (\<lambda>w. w\<lparr> rt_proxyActive := False \<rparr>))
          (catch_io stopMonitorAndProcess (\<lambda>err. restoreResourceRuntime pe env backup (Some err) False))) (\<lambda>_ g. planned g = planned w) (\<lambda>_. ?ok) ?ok k"
      by (intro wp_then) simp
  qed (use same in \<open>auto intro: wp_abort_fail\<close>)
  with True show ?thesis by (simp add: stopForPlan_def)
qed (simp add: stopForPlan_def)

text \<open>A step of the runtime over a committed plan; when it fails, the plan is rolled back.\<close>

lemma wp_over_commit:
  assumes com: "committed_plan (pe_ext pe) w0 (pe_commitID pe) journal F w" and pre: "commit_ready pe env w0"
    and m: "wp m Q (\<lambda>_ g. planned g = planned w) (\<lambda>g. planned g = planned w) w"
  shows "wp (catch_io m (\<lambda>err. then_io (restoreResourceRuntime pe env backup (Some err) True) n)) Q (\<lambda>_. before_commit pe w0) (before_commit pe w0) w"
proof (rule wp_catch, rule wp_mono [OF m])
  fix e g assume g: "planned g = planned w"
  have "committed_plan (pe_ext pe) w0 (pe_commitID pe) journal F g" using com by (simp add: committed_planned [OF g])
  then show "wp (then_io (restoreResourceRuntime pe env backup (Some e) True) n) Q (\<lambda>_. before_commit pe w0) (before_commit pe w0) g"
    by (intro wp_then, intro wp_mono [OF wp_restore_committed [OF _ pre]]) simp_all
qed (use before_planned committed_before [OF com] in blast)+

lemma wp_applyChanged:
  assumes pre: "commit_ready pe env w" and plan: "bk_resourcePlan backup"
  shows "wp (applyChanged pe env profile cap True backup) (\<lambda>_. plan_applied pe env (rg_active w) (home_files w))
    (\<lambda>_. before_commit pe w) (before_commit pe w) w"
    (is "wp _ ?Q ?R ?C w")
proof -
  have start: "wp (startCommitted pe env profile cap True backup) (\<lambda>_ k. planned k = planned g) (\<lambda>_ k. planned k = planned g) (\<lambda>k. planned k = planned g) g" for g
    by (rule stays_wp [OF captured_stays [OF stays_capture(5)]])
  have finish: "wp (bind_io (catch_io (startCommitted pe env profile cap True backup)
        (\<lambda>err. then_io (restoreResourceRuntime pe env backup (Some err) True) (return_io [])))
      (\<lambda>report. setBackup (Some (backup\<lparr> bk_pendingOverrides := report \<rparr>)))) ?Q ?R ?C g"
    if com: "committed_plan (pe_ext pe) w0 (pe_commitID pe) journal F g" and pre0: "commit_ready pe env w0"
      and w0: "rg_active w0 = rg_active w" "home_files w0 = home_files w" for g w0 journal F
  proof (rule wp_bind, rule wp_mono [OF wp_over_commit [OF com pre0 start]])
    fix report k assume k: "planned k = planned g"
    have "planned (k\<lparr> rt_activationBackup := Some (backup\<lparr> bk_pendingOverrides := report \<rparr>) \<rparr>) = planned g" using k by (simp add: Planned.defs)
    from committed_planned [OF this] com pre0 w0 plan
    show "wp (setBackup (Some (backup\<lparr> bk_pendingOverrides := report \<rparr>))) ?Q ?R ?C k"
      unfolding setBackup_def plan_applied_def by auto
  qed (use w0 in auto)
  have commit: "wp (then_io (catch_io (commitStaged pe) (\<lambda>err. then_io (try_io Plan_Abort) (restoreResourceRuntime pe env backup (Some err) False)))
      (bind_io (catch_io (startCommitted pe env profile cap True backup)
        (\<lambda>err. then_io (restoreResourceRuntime pe env backup (Some err) True) (return_io [])))
      (\<lambda>report. setBackup (Some (backup\<lparr> bk_pendingOverrides := report \<rparr>))))) ?Q ?R ?C g" if g: "planned g = planned w" for g
  proof -
    have pre': "commit_ready pe env g" using pre by (simp add: commit_planned [OF g])
    have w: "rg_active g = rg_active w" "home_files g = home_files w" using planned_fields [OF g] by simp_all
    show ?thesis
    proof (rule wp_then, rule wp_catch, rule wp_mono [OF wp_commitStaged [OF pre']])
      fix e k assume "before_commit pe g k \<and> stage_ok (pd_plan k)"
      with w have k: "before_commit pe w k" "stage_ok (pd_plan k)" by simp_all
      show "wp (then_io (try_io Plan_Abort) (restoreResourceRuntime pe env backup (Some e) False))
        (\<lambda>_. wp (bind_io (catch_io (startCommitted pe env profile cap True backup)
          (\<lambda>err. then_io (restoreResourceRuntime pe env backup (Some err) True) (return_io [])))
          (\<lambda>report. setBackup (Some (backup\<lparr> bk_pendingOverrides := report \<rparr>)))) ?Q ?R ?C) ?R ?C k"
        by (rule wp_abort_then [OF k], rule wp_mono [OF wp_restore_plain]) auto
    qed (use finish [OF _ pre' w] w in auto)
  qed
  show ?thesis
    unfolding applyChanged_def Let_def if_True
    by (rule wp_then, rule wp_mono [OF wp_stopForPlan [OF pre]]) (use commit in auto)
qed

lemma wp_applyActivationCandidate:
  "wp (applyActivationCandidate env profile candidate cap home) (\<lambda>_ g. planned g = planned w \<and> rt_activationBackup g \<noteq> None)
    (\<lambda>_ g. planned g = planned w) (\<lambda>g. planned g = planned w) w" (is "wp _ ?Q ?R ?C w")
proof -
  have set: "planned (g\<lparr> rt_activationBackup := b \<rparr>) = planned g" for g b by (simp add: Planned.defs)
  have app: "wp (then_io (setBackup (Some backup))
      (catch_io (applyCandidateAt env candidate cap home p (Some backup)) (\<lambda>err. then_io (setBackup None) (fail_io err)))) ?Q ?R ?C g"
    if "planned g = planned w" for backup p g
    unfolding setBackup_def
    by (rule wp_then, simp only: wp_modify, rule wp_catch, rule stays_wp [OF stays_apply(14)])
      (use that set in \<open>auto intro!: wp_then simp: captured_def\<close>)
  have capture: "wp (catch_io (captureLocalActivation env backup) (\<lambda>err. then_io (setBackup None) (fail_io err))) (\<lambda>_ g. planned g = planned w) ?R ?C w" for backup
    unfolding setBackup_def
    by (rule wp_catch, rule stays_wp [OF captured_stays [OF stays_capture(1)]]) (use set in \<open>auto intro!: wp_then\<close>)
  show ?thesis
    unfolding applyActivationCandidate_def lift_result_def
  proof (rule wp_bind, cases "overrideSnapshots env profile candidate")
    case (Inr report)
    have "wp (bind_io (read_io (\<lambda>w. (backupOf False report w, activationCandidatePath env w))) (\<lambda>(backup0, p).
       bind_io (catch_io (captureLocalActivation env backup0) (\<lambda>err. then_io (setBackup None) (fail_io err))) (\<lambda>backup.
       then_io (setBackup (Some backup))
         (catch_io (applyCandidateAt env candidate cap home p (Some backup)) (\<lambda>err. then_io (setBackup None) (fail_io err)))))) ?Q ?R ?C w"
      by (rule wp_bind, simp only: wp_read prod.case, rule wp_bind, rule wp_mono [OF capture]) (erule app, simp_all)
    with Inr show "wp (case overrideSnapshots env profile candidate of Inl err \<Rightarrow> fail_io err | Inr x \<Rightarrow> return_io x)
      (\<lambda>report. wp (bind_io (read_io (\<lambda>w. (backupOf False report w, activationCandidatePath env w))) (\<lambda>(backup0, p).
       bind_io (catch_io (captureLocalActivation env backup0) (\<lambda>err. then_io (setBackup None) (fail_io err))) (\<lambda>backup.
       then_io (setBackup (Some backup))
         (catch_io (applyCandidateAt env candidate cap home p (Some backup)) (\<lambda>err. then_io (setBackup None) (fail_io err)))))) ?Q ?R ?C) ?R ?C w"
      by simp
  qed simp
qed

lemma then_fail_id: "catch_io m (\<lambda>err. then_io (k err) (return_io ())) = catch_io m k"
  by (auto simp: fun_eq_iff catch_io_def then_io_def bind_io_def return_io_def split: prod.split outcome.split)

lemma wp_applyUnchanged:
  assumes pre: "commit_ready pe env w"
  shows "wp (applyUnchanged pe env profile cap True backup) (\<lambda>_. plan_applied pe env (rg_active w) (home_files w))
    (\<lambda>_. before_commit pe w) (before_commit pe w) w"
    (is "wp _ ?Q ?R ?C w")
proof -
  let ?run = "bind_io (renderCommitted pe env profile cap) (\<lambda>candidate. applyActivationCandidate env profile candidate cap Root)"
  have run: "wp ?run (\<lambda>_ k. planned k = planned g \<and> rt_activationBackup k \<noteq> None) (\<lambda>_ k. planned k = planned g) (\<lambda>k. planned k = planned g) g" for g
  proof (rule wp_bind, rule stays_wp [OF captured_stays [OF stays_capture(4)]])
    show "wp (applyActivationCandidate env profile candidate cap Root) (\<lambda>_ k. planned k = planned g \<and> rt_activationBackup k \<noteq> None)
      (\<lambda>_ k. planned k = planned g) (\<lambda>k. planned k = planned g) k" if "planned k = planned g" for candidate k
      using wp_applyActivationCandidate [of env profile candidate cap Root k] that by simp
  qed
  have finish: "wp (then_io (catch_io ?run (\<lambda>err. restoreResourceRuntime pe env backup (Some err) True))
      (modify_io (\<lambda>w. w\<lparr> rt_activationBackup := map_option (bk_resourcePlan_update (\<lambda>_. True)) (rt_activationBackup w) \<rparr>))) ?Q ?R ?C g"
    if com: "committed_plan (pe_ext pe) w (pe_commitID pe) journal F g" for g journal F
  proof (rule wp_then, subst then_fail_id [symmetric], rule wp_mono [OF wp_over_commit [OF com pre run]])
    fix x k assume k: "planned k = planned g \<and> rt_activationBackup k \<noteq> None"
    have "planned (k\<lparr> rt_activationBackup := map_option (bk_resourcePlan_update (\<lambda>_. True)) (rt_activationBackup k) \<rparr>) = planned g"
      using k by (simp add: Planned.defs)
    from committed_planned [OF this] com pre k
    show "wp (modify_io (\<lambda>w. w\<lparr> rt_activationBackup := map_option (bk_resourcePlan_update (\<lambda>_. True)) (rt_activationBackup w) \<rparr>)) ?Q ?R ?C k"
      unfolding plan_applied_def by auto
  qed simp_all
  show ?thesis
    unfolding applyUnchanged_def Let_def simp_thms if_True if_False
    by (rule wp_then, rule wp_catch, rule wp_mono [OF wp_commitStaged [OF pre]]) (use finish in \<open>auto intro: wp_abort_fail\<close>)
qed

lemma wp_finally_modify:
  assumes "wp m (\<lambda>x g. Q x (f g)) (\<lambda>e g. R e (f g)) C w"
  shows "wp (finally_io m (modify_io f)) Q R C w"
  unfolding finally_io_def by (rule wp_bind, rule wp_catch, rule wp_mono [OF assms]) (auto intro!: wp_then wp_try)

lemma wp_captureLocal:
  "wp (captureLocalActivation env backup) (\<lambda>b g. planned g = planned w \<and> bk_resourcePlan b = bk_resourcePlan backup)
    (\<lambda>_ g. planned g = planned w) (\<lambda>g. planned g = planned w) w"
  unfolding captureLocalActivation_def ask_def
  by (rule wp_bind, simp only: wp_read prod.case) (auto intro!: wp_then wp_on_error)

lemma plan_applied_planned:
  assumes "planned g = planned w" and "rt_activationBackup g = rt_activationBackup w"
  shows "plan_applied pe env document F0 g = plan_applied pe env document F0 w"
  using assms(2) committed_planned [OF assms(1)] by (simp add: plan_applied_def)

lemma wp_applyResourcePlan:
  assumes pre: "commit_ready pe env w"
  shows "wp (applyResourcePlan pe env profile cap True) (\<lambda>_. plan_applied pe env (rg_active w) (home_files w))
    (\<lambda>_. before_commit pe w) (before_commit pe w) w"
    (is "wp _ ?Q ?R ?C w")
proof -
  note here = commit_readyD [OF pre]
  have abort: "wp (then_io (try_io Plan_Abort) (fail_io err)) Q ?R ?C g" if "planned g = planned w" for err Q g
    by (rule wp_abort_fail) (use before_planned [OF that here(1)] here(2) planned_fields(4) [OF that] in simp_all)
  have run: "wp (if changed then applyChanged pe env profile cap True backup else applyUnchanged pe env profile cap True backup) ?Q ?R ?C g"
    if g: "planned g = planned w" and "bk_resourcePlan backup" for changed backup g
  proof -
    have "commit_ready pe env g" using pre by (simp add: commit_planned [OF g])
    moreover have "rg_active g = rg_active w" "home_files g = home_files w" using planned_fields [OF g] by simp_all
    ultimately show ?thesis using wp_applyChanged [of pe env g backup profile cap] wp_applyUnchanged [of pe env g profile cap backup] that(2) by simp
  qed
  have dirty: "wp (finally_io m (modify_io (\<lambda>w. w\<lparr> rt_resourceDirty := True \<rparr>))) ?Q ?R ?C g" if "wp m ?Q ?R ?C g" for m :: "unit app_io" and g
  proof (rule wp_finally_modify, rule wp_mono [OF that])
    show "?Q x (k\<lparr> rt_resourceDirty := True \<rparr>)" if "?Q x k" for x k
      using that plan_applied_planned [of "k\<lparr> rt_resourceDirty := True \<rparr>" k] by (simp add: Planned.defs)
  qed simp_all
  have body: "wp (finally_io
         (then_io (catch_io (check_io (le_ctxErr env)) (\<lambda>err. then_io (try_io Plan_Abort) (fail_io err)))
           (bind_io (read_io (\<lambda>w. pl_changed (pd_plan w))) (\<lambda>changed.
              if changed then applyChanged pe env profile cap True backup else applyUnchanged pe env profile cap True backup)))
         (modify_io (\<lambda>w. w\<lparr> rt_resourceDirty := True \<rparr>))) ?Q ?R ?C g"
    if "planned g = planned w" and "bk_resourcePlan backup" for backup g
    by (rule dirty, rule wp_then, rule wp_catch, simp only: wp_check)
      (cases "le_ctxErr env", simp_all only: option.case, rule wp_bind, simp only: wp_read, rule run, use that abort in simp_all)
  have backup: "bk_resourcePlan (backupOf True [] w)" by (simp add: backupOf_def)
  show ?thesis
    unfolding applyResourcePlan_def simp_thms if_False
  proof (rule wp_bind, unfold wp_read, rule wp_bind, rule wp_catch, rule wp_mono [OF wp_captureLocal])
    fix b :: runtimeBackup and g assume "planned g = planned w \<and> bk_resourcePlan b = bk_resourcePlan (backupOf True [] w)"
    with body backup show "wp (finally_io
         (then_io (catch_io (check_io (le_ctxErr env)) (\<lambda>err. then_io (try_io Plan_Abort) (fail_io err)))
           (bind_io (read_io (\<lambda>w. pl_changed (pd_plan w))) (\<lambda>changed.
              if changed then applyChanged pe env profile cap True b else applyUnchanged pe env profile cap True b)))
         (modify_io (\<lambda>w. w\<lparr> rt_resourceDirty := True \<rparr>))) ?Q ?R ?C g" by simp
  qed (use abort before_planned [OF _ here(1)] in auto)
qed

section \<open>The callbacks\<close>

definition plan_env_ok :: "plan_env \<Rightarrow> life_env \<Rightarrow> stateDocument \<Rightarrow> bool" where
  "plan_env_ok pe env document \<longleftrightarrow>
     ext_ok (pe_ext pe) \<and> length (pe_transactionID pe) = 32 \<and> hex_DecodeString_ok (pe_transactionID pe)
     \<and> length (pe_commitID pe) = 32 \<and> hex_DecodeString_ok (pe_commitID pe)
     \<and> length (doc_Resources document) + length (c_Resources (le_settings env)) \<le> 16 ^ 8"

text \<open>The committed resources do not serve the configuration, so that a plan is needed.\<close>

definition app_ready :: "plan_env \<Rightarrow> life_env \<Rightarrow> stateDocument \<Rightarrow> (string \<Rightarrow> node option) \<Rightarrow> Runtime \<Rightarrow> bool" where
  "app_ready pe env document F0 w \<longleftrightarrow>
     registry_ok (pe_ext pe) w \<and> rg_active w = document \<and> home_files w = F0 \<and> (\<forall>fs paths. fst (resolvePaths pe env fs w) \<noteq> Ret paths)"

lemma app_ready_before: "app_ready pe env document F0 w \<Longrightarrow> as_before (pe_ext pe) document F0 w"
  by (auto simp: app_ready_def registry_ok_def undone_def)

lemma reg_same_before:
  "as_before ext document F w \<Longrightarrow> h_journal (rg_home w) = Absent \<Longrightarrow> reg_same w g \<Longrightarrow> as_before ext document F g"
  by (auto simp: undone_def reg_same_def home_same_def stateOf_def pending_def)

lemma wp_stagePlan:
  assumes ok: "plan_env_ok pe env document" and rd: "app_ready pe env document F0 w"
  shows "wp (stagePlan pe env profile cap) (\<lambda>_ g. commit_ready pe env g \<and> rg_active g = document \<and> home_files g = F0)
    (\<lambda>_. as_before (pe_ext pe) document F0) (as_before (pe_ext pe) document F0) w"
    (is "wp _ ?Q ?R ?C w")
proof -
  have reg: "registry_ok (pe_ext pe) w" and ext: "ext_ok (pe_ext pe)" and w: "rg_active w = document" "home_files w = F0"
    using ok rd by (simp_all add: plan_env_ok_def app_ready_def)
  have absent: "h_journal (rg_home w) = Absent" using reg by (simp add: registry_ok_def)
  have before: "?C g" if "reg_same w g" for g
    by (rule reg_same_before [OF app_ready_before [OF rd] absent that])
  have validate: "wp (catch_io (Plan_Validate (pe_ext pe) (candidateValidator env profile cap)) (\<lambda>err. then_io (try_io Plan_Abort) (fail_io err))) ?Q ?R ?C (g\<lparr> pd_plan := p \<rparr>)"
    if same: "reg_same w g" and plan: "plan_for (pe_ext pe) (le_settings env) w p"
      and snap: "registry_validateSnapshot (pe_url_Parse pe) (pe_ext pe) (le_settings env) = None" for g p
  proof -
    let ?g = "g\<lparr> pd_plan := p \<rparr>" and ?v = "upd_plan (pl_validated_update (\<lambda>_. True)) (g\<lparr> pd_plan := p \<rparr>)"
    have flags: "\<not> pl_closed (pd_plan ?g)" "\<not> pl_committed (pd_plan ?g)" "\<not> pl_rolledBack (pd_plan ?g)" and stage: "stage_ok p"
      using plan by (auto simp: plan_for_def planOf_def stage_ok_def)
    have fields: "rg_home ?v = rg_home g" "rg_active ?v = rg_active w" "rg_maxBytes ?v = rg_maxBytes w" "pd_plan ?v = p\<lparr> pl_validated := True \<rparr>"
      using same by (simp_all add: upd_plan_def reg_same_def)
    have "registry_ok (pe_ext pe) ?v" using reg same fields by (auto simp: registry_ok_def reg_same_def home_same_def stateOf_def)
    moreover have "plan_for (pe_ext pe) (le_settings env) ?v p" using plan fields by (simp add: plan_for_cong [of ?v w])
    moreover have "distinct (map rs_ID (c_Resources (le_settings env)))" using snap by (simp add: registry_validateSnapshot_def checkDeclarations_None_iff)
    moreover have "length (doc_Resources (rg_active ?v)) + length (c_Resources (le_settings env)) \<le> 16 ^ 8" using ok w fields by (simp add: plan_env_ok_def)
    ultimately have "commit_ready pe env ?v"
      using ok fields(4) unfolding commit_pre_def plan_env_ok_def by (intro conjI exI [of _ p] exI [of _ True]) simp_all
    moreover have "rg_active ?v = document" "home_files ?v = F0" using w same fields by (simp_all add: reg_same_def home_same_def fun_eq_iff)
    ultimately have done_ok: "?Q () ?v" by simp
    have home: "?C k" if "rg_home k = rg_home ?g" for k using before [OF same] that by simp
    show ?thesis
    proof (rule wp_catch, rule wp_mono [OF wp_Plan_Validate [OF flags]])
      fix e and k :: Runtime assume "rg_home k = rg_home ?g \<and> pl_stageID (pd_plan k) = pl_stageID (pd_plan ?g)"
      with home stage show "wp (then_io (try_io Plan_Abort) (fail_io e)) ?Q ?R ?C k"
        by (intro wp_abort_fail) (simp_all add: stage_ok_def)
    qed (use done_ok home in auto)
  qed
  show ?thesis
    unfolding stagePlan_def Stage_def
  proof (rule wp_bind, rule wp_mono [OF wp_StageDue [OF ext reg]])
    fix p g assume "reg_same w g \<and> plan_for (pe_ext pe) (le_settings env) w p
      \<and> registry_validateSnapshot (pe_url_Parse pe) (pe_ext pe) (le_settings env) = None"
    with validate show "wp (then_io (modify_io (\<lambda>w. w\<lparr> pd_plan := p \<rparr>))
         (catch_io (Plan_Validate (pe_ext pe) (candidateValidator env profile cap)) (\<lambda>err. then_io (try_io Plan_Abort) (fail_io err)))) ?Q ?R ?C g"
      by (intro wp_then) simp
  qed (use before in auto)
qed

lemma wp_applyGenerated:
  assumes ok: "plan_env_ok pe env document" and rd: "app_ready pe env document F0 w"
  shows "wp (applyGenerated pe env profile) (\<lambda>_. plan_applied pe env document F0)
    (\<lambda>_. as_before (pe_ext pe) document F0) (as_before (pe_ext pe) document F0) w"
    (is "wp _ ?Q ?R ?C w")
proof (cases "le_capability env")
  case (Inr cap)
  have here: "?C w" by (rule app_ready_before [OF rd])
  have "wp (resolvePaths pe env) (\<lambda>_ _. False) (\<lambda>_ g. g = w) (\<lambda>g. g = w) w"
    unfolding wp_def
  proof
    fix fs
    obtain x fs' g where run: "resolvePaths pe env fs w = (x, fs', g)" by (rule prod_cases3)
    have "wp (resolvePaths pe env) (\<lambda>_ g. g = w) (\<lambda>_ g. g = w) (\<lambda>g. g = w) w"
      unfolding resolvePaths_def by (rule reads_wp [OF reads_PathsWithHome]) simp_all
    from wp_result [OF this run] rd run have "x \<noteq> Ret p" "x = Crash \<or> (\<exists>e. x = Err e) \<longrightarrow> g = w" for p
      by (auto simp: app_ready_def dest: spec [of _ fs] split: outcome.splits)
    with run show "case resolvePaths pe env fs w of (Ret x, _, h') \<Rightarrow> False | (Err e, _, h') \<Rightarrow> h' = w | (Crash, _, h') \<Rightarrow> h' = w"
      by (cases x) auto
  qed
  then have unresolved: "wp (catch_io (bind_io (resolvePaths pe env) (\<lambda>paths. return_io (Some paths))) (\<lambda>_. return_io None))
      (\<lambda>paths g. paths = None \<and> g = w) ?R ?C w"
    by (intro wp_catch wp_bind) (erule wp_mono, use here in auto)
  have plan: "wp (on_error activationResourceError (then_io (stagePlan pe env profile cap) (applyResourcePlan pe env profile cap True))) ?Q ?R ?C w"
  proof (rule wp_on_error, rule wp_then, rule wp_mono [OF wp_stagePlan [OF ok rd]])
    fix x :: unit and g :: Runtime assume "commit_ready pe env g \<and> rg_active g = document \<and> home_files g = F0"
    then show "wp (applyResourcePlan pe env profile cap True) ?Q (\<lambda>e. ?R (activationResourceError e)) ?C g"
      using wp_applyResourcePlan [of pe env g profile cap] by auto
  qed auto
  show ?thesis
    unfolding applyGenerated_def Inr sum.case
    by (rule wp_bind, rule wp_mono [OF unresolved]) (use plan in auto)
qed (use app_ready_before [OF rd] in \<open>simp add: applyGenerated_def\<close>)

section \<open>The commit after a restart\<close>

definition durableCommit :: "externals \<Rightarrow> 'z Registry_scheme \<Rightarrow> string option" where
  "durableCommit ext w =
     (case recoverTransaction ext [] (rg_home w) of
        (Ret _, _, h) \<Rightarrow> (case stateOf ext h of Inr document \<Rightarrow> Some (doc_CommitID document) | Inl _ \<Rightarrow> None)
      | _ \<Rightarrow> None)"

lemma durable_recovers: "recovers_to ext document F (rg_home w) \<Longrightarrow> durableCommit ext w = Some (doc_CommitID document)"
  by (auto simp: recovers_to_def durableCommit_def)

lemma durable_before: "as_before ext document F w \<Longrightarrow> durableCommit ext w = Some (doc_CommitID document)"
  by (rule durable_recovers [OF undone_recovers])

lemma wp_with_stays:
  assumes "wp m Q R C w" and "stays f m"
  shows "wp m (\<lambda>x g. Q x g \<and> f g = f w) (\<lambda>e g. R e g \<and> f g = f w) (\<lambda>g. C g \<and> f g = f w) w"
  unfolding wp_def
proof
  fix fs
  obtain x fs' g where run: "m fs w = (x, fs', g)" by (rule prod_cases3)
  from wp_result [OF assms(1) run] wp_result [OF assms(2) [unfolded stays_def, rule_format] run]
  show "case m fs w of (Ret x, _, h') \<Rightarrow> Q x h' \<and> f h' = f w | (Err e, _, h') \<Rightarrow> R e h' \<and> f h' = f w | (Crash, _, h') \<Rightarrow> C h' \<and> f h' = f w"
    unfolding run by (cases x) simp_all
qed

lemma stays_on_home: "stays rt_activationBackup (on_home m)"
  unfolding stays_def wp_def on_home_def by (auto split: prod.split outcome.split)

lemma stays_Finalize: "stays rt_activationBackup (Plan_Finalize ext)"
  unfolding Plan_Finalize_def on_plan_def by (intro stays_intros stays_on_home) (simp add: upd_plan_def)

definition finalize_refused :: "plan_env \<Rightarrow> stateDocument \<Rightarrow> (string \<Rightarrow> node option) \<Rightarrow> Runtime \<Rightarrow> bool" where
  "finalize_refused pe document F0 w \<longleftrightarrow>
     (\<exists>journal F. undecided (pe_ext pe) journal F0 F (rg_home w) \<and> tj_Previous journal = document)
     \<and> pl_transactionDir (pd_plan w) \<noteq> '''' \<and> stage_ok (pd_plan w) \<and> validateStateDocument (pe_ext pe) document = None
     \<and> (\<exists>backup. rt_activationBackup w = Some backup \<and> bk_resourcePlan backup)"

lemma wp_finalizeCallback:
  assumes "plan_applied pe env document F0 w"
  shows "wp (finalizeCallback pe) (\<lambda>_ g. durableCommit (pe_ext pe) g = Some (pe_commitID pe)) (\<lambda>_. finalize_refused pe document F0) (\<lambda>_. True) w"
proof -
  let ?ext = "pe_ext pe"
  obtain w0 journal F backup where com: "committed_plan ?ext w0 (pe_commitID pe) journal F w" and pre: "commit_ready pe env w0"
    and w0: "rg_active w0 = document" "home_files w0 = F0" and bk: "rt_activationBackup w = Some backup" "bk_resourcePlan backup"
    using assms by (auto simp: plan_applied_def)
  note D = committed_planD [OF com]
  have prev: "tj_Previous journal = document" and dir: "pl_transactionDir (pd_plan w) \<noteq> ''''" and cand: "doc_CommitID (tj_Candidate journal) = pe_commitID pe"
    using com w0 D(5) by (simp_all add: committed_plan_def)
  have valid: "validateStateDocument ?ext document = None" using pre w0 stateOf_valid(1) by (auto simp: commit_pre_def registry_ok_def)
  have new: "durableCommit ?ext g = Some (pe_commitID pe)" if "finished ?ext journal F (rg_home g)" for g :: Runtime
    using durable_recovers [OF finished_recovers [OF D(1,2) disjI2 [OF that]]] cand by simp
  have keep: "durableCommit ?ext (g\<lparr> rt_configOverrides := os, rt_configReportPending := b \<rparr>) = durableCommit ?ext g" for g os b by (simp add: durableCommit_def)
  have fin: "wp (Plan_Finalize ?ext) (\<lambda>_ g. durableCommit ?ext g = Some (pe_commitID pe)) (\<lambda>_. finalize_refused pe document F0) (\<lambda>_. True) w"
    by (rule wp_mono [OF wp_with_stays [OF wp_Plan_Finalize [OF com pre] stays_Finalize]])
      (use new prev dir bk w0 valid committed_stage_ok [OF com pre] in \<open>auto simp: finalize_refused_def\<close>)
  show ?thesis
    unfolding finalizeCallback_def
    by (rule wp_bind, simp only: wp_read bk option.case if_True, rule wp_then, rule wp_mono [OF fin]) (simp_all add: keep)
qed

lemma wp_restoreActivation:
  assumes bk: "rt_activationBackup w = Some backup" "bk_resourcePlan backup"
    and run: "\<And>g. planned g = planned w \<Longrightarrow> wp (restoreResourceRuntime pe env backup None True) Q R C g"
  shows "wp (restoreActivation pe env previousProfile) Q R C w"
proof -
  have "planned (w\<lparr> rt_activationBackup := None, rt_resourceDirty := True \<rparr>) = planned w" by (simp add: Planned.defs)
  from run [OF this] bk show ?thesis
    unfolding restoreActivation_def setBackup_def by (intro wp_bind) (auto intro!: wp_then)
qed

lemma wp_restore_applied:
  assumes "plan_applied pe env document F0 w"
  shows "wp (restoreActivation pe env previousProfile) (\<lambda>_. as_before (pe_ext pe) document F0) (\<lambda>_. as_before (pe_ext pe) document F0) (as_before (pe_ext pe) document F0) w"
proof -
  obtain w0 journal F backup where com: "committed_plan (pe_ext pe) w0 (pe_commitID pe) journal F w" and pre: "commit_ready pe env w0"
    and w0: "rg_active w0 = document" "home_files w0 = F0" and bk: "rt_activationBackup w = Some backup" "bk_resourcePlan backup"
    using assms by (auto simp: plan_applied_def)
  show ?thesis
  proof (rule wp_restoreActivation [OF bk])
    fix g assume g: "planned g = planned w"
    have "committed_plan (pe_ext pe) w0 (pe_commitID pe) journal F g" using com by (simp add: committed_planned [OF g])
    from wp_restore_committed [OF this pre, of env backup None] w0
    show "wp (restoreResourceRuntime pe env backup None True) (\<lambda>_. as_before (pe_ext pe) document F0) (\<lambda>_. as_before (pe_ext pe) document F0) (as_before (pe_ext pe) document F0) g"
      by simp
  qed
qed

lemma wp_restore_refused:
  assumes "finalize_refused pe document F0 w"
  shows "wp (restoreActivation pe env previousProfile) (\<lambda>_ g. durableCommit (pe_ext pe) g = Some (doc_CommitID document)) (\<lambda>_ _. True) (\<lambda>_. True) w"
    (is "wp _ ?Q _ _ w")
proof -
  obtain journal F backup where und: "undecided (pe_ext pe) journal F0 F (rg_home w)" and prev: "tj_Previous journal = document"
    and dir: "pl_transactionDir (pd_plan w) \<noteq> ''''" and stage: "stage_ok (pd_plan w)" and valid: "validateStateDocument (pe_ext pe) document = None"
    and bk: "rt_activationBackup w = Some backup" "bk_resourcePlan backup"
    using assms by (auto simp: finalize_refused_def)
  show ?thesis
  proof (rule wp_restoreActivation [OF bk], rule wp_restoreResourceRuntime)
    fix g k :: Runtime and c1 report assume "planned g = planned w" "planned k = planned g"
    then have k: "planned k = planned w" by simp
    have und': "undecided (pe_ext pe) journal F0 F (rg_home k)" and dir': "pl_transactionDir (pd_plan k) \<noteq> ''''" and stage': "stage_ok (pd_plan k)"
      using und dir stage planned_fields [OF k] by simp_all
    show "wp (then_io (if \<not> True then return_io () else on_error report (Plan_Rollback (pe_ext pe))) (finishRestore env backup None c1)) ?Q (\<lambda>_ _. True) (\<lambda>_. True) k"
      unfolding simp_thms if_False
    proof (rule wp_then, rule wp_on_error, rule wp_mono [OF wp_Plan_Rollback_refused [OF und' dir']])
      fix x :: unit and l :: Runtime assume l: "h_journal (rg_home l) = Absent \<and> h_state (rg_home l) = Doc (tj_Previous journal) \<and> pl_stageID (pd_plan l) = pl_stageID (pd_plan k)"
      then have "as_before (pe_ext pe) document (home_files l) l" using prev valid by (simp add: undone_def stateOf_def)
      moreover have "stage_ok (pd_plan l)" using l stage' by (simp add: stage_ok_def)
      ultimately show "wp (finishRestore env backup None c1) ?Q (\<lambda>_ _. True) (\<lambda>_. True) l"
        by (intro wp_mono [OF wp_finishRestore]) (auto dest: durable_before)
    qed simp_all
  qed simp_all
qed

section \<open>The activation as a whole\<close>

definition activation_ok :: "plan_env \<Rightarrow> life_env \<Rightarrow> stateDocument \<Rightarrow> bool" where
  "activation_ok pe env document \<longleftrightarrow> plan_env_ok pe env document \<and> doc_CommitID document \<noteq> pe_commitID pe"

lemma plan_applied_commit:
  assumes "plan_applied pe env document F0 w"
  shows "pendingResourceCommit w = pe_commitID pe" and "as_before (pe_ext pe) document F0 w"
  using assms committed_planD(5) committed_before by (auto simp: plan_applied_def pendingResourceCommit_def CommitID_def)

interpretation app: resource_commit "applyGenerated pe env" "restoreActivation pe env" "finalizeCallback pe" pendingResourceCommit "durableCommit (pe_ext pe)"
  "\<lambda>w. activation_ok pe env document \<and> app_ready pe env document F0 w"
  "\<lambda>w. activation_ok pe env document \<and> plan_applied pe env document F0 w"
  "\<lambda>w. activation_ok pe env document \<and> finalize_refused pe document F0 w"
  "if activation_ok pe env document then doc_CommitID document else ''''"
  "if activation_ok pe env document then pe_commitID pe else replicate 32 (CHR ''0'')" for pe env document F0
proof unfold_locales
  let ?ok = "activation_ok pe env document"
  let ?new = "if ?ok then pe_commitID pe else replicate 32 (CHR ''0'')"
  show "validResourceCommitID ?new"
  proof (cases ?ok)
    case False
    moreover have "hex_DecodeString_ok (replicate 32 (CHR ''0''))" by code_simp
    ultimately show ?thesis by (simp add: validResourceCommitID_def)
  qed (simp add: validResourceCommitID_def activation_ok_def plan_env_ok_def)
  show "(if ?ok then doc_CommitID document else '''') \<noteq> ?new" by (simp add: activation_ok_def)
  fix w p q
  {
    assume w: "?ok \<and> app_ready pe env document F0 w"
    then show "durableCommit (pe_ext pe) w = Some (if ?ok then doc_CommitID document else '''')"
      using durable_before [OF app_ready_before [of pe env document F0 w]] by simp
    from w have "plan_env_ok pe env document" by (simp add: activation_ok_def)
    note applied = wp_applyGenerated [OF this conjunct2 [OF w], of p]
    show "wp (applyGenerated pe env p) (\<lambda>_ w. ?ok \<and> plan_applied pe env document F0 w)
      (\<lambda>_ w. durableCommit (pe_ext pe) w = Some (if ?ok then doc_CommitID document else ''''))
      (\<lambda>w. durableCommit (pe_ext pe) w = Some (if ?ok then doc_CommitID document else '''')) w"
      by (rule wp_mono [OF applied]) (use w in \<open>auto dest: durable_before\<close>)
  next
    assume w: "?ok \<and> plan_applied pe env document F0 w"
    then show "durableCommit (pe_ext pe) w = Some (if ?ok then doc_CommitID document else '''')"
      using durable_before [OF plan_applied_commit(2) [of pe env document F0 w]] by simp
    from w show "pendingResourceCommit w = ?new" using plan_applied_commit(1) [of pe env document F0 w] by simp
    show "wp (restoreActivation pe env q) (\<lambda>_ w. durableCommit (pe_ext pe) w = Some (if ?ok then doc_CommitID document else ''''))
      (\<lambda>_ w. durableCommit (pe_ext pe) w = Some (if ?ok then doc_CommitID document else ''''))
      (\<lambda>w. durableCommit (pe_ext pe) w = Some (if ?ok then doc_CommitID document else '''')) w"
      by (rule wp_mono [OF wp_restore_applied]) (use w in \<open>auto dest: durable_before\<close>)
    show "wp (finalizeCallback pe) (\<lambda>_ w. durableCommit (pe_ext pe) w = Some ?new) (\<lambda>_ w. ?ok \<and> finalize_refused pe document F0 w) (\<lambda>_. True) w"
      by (rule wp_mono [OF wp_finalizeCallback]) (use w in auto)
  next
    assume w: "?ok \<and> finalize_refused pe document F0 w"
    show "wp (restoreActivation pe env q) (\<lambda>_ w. durableCommit (pe_ext pe) w = Some (if ?ok then doc_CommitID document else '''')) (\<lambda>_ _. True) (\<lambda>_. True) w"
      by (rule wp_mono [OF wp_restore_refused]) (use w in auto)
  }
qed

definition appCallbacks :: "plan_env \<Rightarrow> life_env \<Rightarrow> (nat \<Rightarrow> go_error option) \<Rightarrow> Runtime activate_env" where
  "appCallbacks pe env ctxErr = \<lparr> ae_ctxErr = ctxErr, ae_Apply = applyGenerated pe env, ae_Restore = restoreActivation pe env,
     ae_Finalize = Some (finalizeCallback pe), ae_PendingResourceCommit = Some pendingResourceCommit \<rparr>"

text \<open>
  C3. Activating a subscription together with resources. The application stages, validates and commits the resources the
  configuration needs, restarts Mihomo and moves the marker of the active subscription. However this fails and wherever
  the process dies: if the next start recovers the resources at some commit, then it opens the subscription store with
  the new subscription active if that is the new commit, and with the old one otherwise. An activation that
  succeeds has made the new commit durable.
\<close>

theorem activation_atomic:
  assumes ok: "activation_ok pe env document" and rd: "app_ready pe env document F0 (sv_runtime sv)"
    and store: "store_ok sha url_Parse (sv_store sv)" and pend: "ss_pending (sv_store sv) = Missing"
    and r: "map_of (ss_records (sv_store sv)) ident = Some r"
    and run: "Activate sha (appCallbacks pe env ctxErr) ident faults sv = (x, faults', sv')"
  shows "(\<forall>c. durableCommit (pe_ext pe) (sv_runtime sv') = Some c \<longrightarrow>
      (\<exists>s. restart sha url_Parse c [] (sv_store sv') = (Ret (), [], s)
         \<and> appliedIdentity s = (if c = pe_commitID pe then (ident, pr_Hash r, pr_CandidateHash r) else appliedIdentity (sv_store sv))))
    \<and> (x = Ret () \<longrightarrow> durableCommit (pe_ext pe) (sv_runtime sv') = Some (pe_commitID pe))"
proof -
  let ?new = "(ident, pr_Hash r, pr_CandidateHash r)" and ?old = "appliedIdentity (sv_store sv)"
  have env: "appCallbacks pe env ctxErr = app.env_of pe env ctxErr" by (simp add: appCallbacks_def app.env_of_def)
  have at: "store_at sha url_Parse (ss_active (sv_store sv)) Missing (sv_store sv)" using store pend by (simp add: store_at_def)
  have "activation_ok pe env document \<and> app_ready pe env document F0 (sv_runtime sv)" using ok rd by simp
  from wp_result [OF app.wp_Activate [OF at this r refl, of ctxErr] run [unfolded env]] ok
  have settled: "app.settled pe env document sha url_Parse ?old ?new sv'" and new: "x = Ret () \<longrightarrow> durableCommit (pe_ext pe) (sv_runtime sv') = Some (pe_commitID pe)"
    by (cases x; simp)+
  note settled = settled [unfolded app.settled_def]
  have "\<exists>s. restart sha url_Parse c [] (sv_store sv') = (Ret (), [], s) \<and> appliedIdentity s = (if c = pe_commitID pe then ?new else ?old)"
    if "durableCommit (pe_ext pe) (sv_runtime sv') = Some c" for c
  proof -
    from settled that ok have disk: "disk_ok sha url_Parse (sv_store sv')" "pending_ok sha (sv_store sv')"
      and id: "identity_of (recoveredMarker c (sv_store sv')) = (if c = pe_commitID pe then ?new else ?old)"
      by simp_all
    from runs_result [OF runs_restart [OF disk, of c]] obtain s where s: "restart sha url_Parse c [] (sv_store sv') = (Ret (), [], s)"
      and "store_at sha url_Parse (recoveredMarker c (sv_store sv')) Missing s" by auto
    with store_at_identity [of sha url_Parse "recoveredMarker c (sv_store sv')" Missing s] id show ?thesis by auto
  qed
  with new show ?thesis by blast
qed

section \<open>An example\<close>

text \<open>A resource that is not in the committed state has no path.\<close>

lemma reads_resolve_missing:
  assumes "map_of (doc_Resources (rg_active r)) (rs_ID resource) = None"
  shows "reads (resolveResource ext r resource) (\<lambda>_. False)"
  unfolding resolveResource_def Let_def
  by (rule reads_bind [OF reads_wrap [OF reads_readManaged]], rule reads_then [OF reads_True(3)], rule reads_then [OF reads_True(3)], rule reads_then [OF reads_check [where P = "\<lambda>_. False"]])
    (use assms in \<open>simp_all add: fail_if_def\<close>)

lemma reads_resolve_none:
  assumes "resource \<in> set resources" and "rs_Enabled resource" and "map_of (doc_Resources (rg_active r)) (rs_ID resource) = None"
  shows "reads (resolveResources ext r paths resources) (\<lambda>_. False)"
  using assms(1)
proof (induction resources arbitrary: paths)
  case (Cons first rest)
  show ?case
  proof (cases "resource = first")
    case True
    then show ?thesis using assms reads_resolve_missing by (auto intro!: reads_bind [where P = "\<lambda>_. False"])
  next
    case False
    then show ?thesis using Cons by (auto intro!: reads_bind [OF reads_resolveResource] split: prod.split)
  qed
qed simp

lemma wp_PathsWithHome_missing:
  assumes reg: "registry_ok ext w" and res: "resource \<in> set (c_Resources snapshot)" "rs_Enabled resource"
    and missing: "map_of (doc_Resources (rg_active w)) (rs_ID resource) = None"
  shows "wp (PathsWithHome url_Parse ext snapshot) (\<lambda>_ _. False) (\<lambda>_ _. True) (\<lambda>_. True) w"
proof -
  have no: "reads (resolveResources ext (Registry.truncate w) [] (c_Resources snapshot)) (\<lambda>_. False)"
    by (rule reads_resolve_none [OF res]) (simp add: missing Registry.defs)
  have "wp (pathsLocked ext snapshot) (\<lambda>_ _. False) (\<lambda>_ _. True) (\<lambda>_. True) w"
    unfolding pathsLocked_def ensureRoot_def
  proof (rule wp_then, rule reads_wp [OF reads_on_home [where P = "\<lambda>_. True"]], goal_cases)
    case 2
    have "hasEnabledResources snapshot" using res by (auto simp: hasEnabledResources_def list_ex_iff)
    then show ?case by (intro wp_bind) (auto intro!: reads_wp [OF reads_on_home [OF no]])
  qed (auto intro!: reads_bind [OF reads_True(1)] reads_bind reads_True reads_if reads_fail reads_return reads_then)
  with reg show ?thesis
    unfolding PathsWithHome_def by (intro wp_then reads_wp [OF reads_True(3)] wp_currentState) auto
qed

text \<open>A service whose active subscription is applied anew while the configuration asks for a list that was never fetched.\<close>

definition exCap :: Capability where
  "exCap = noCapability\<lparr> cap_Path := ''/mihomo'' \<rparr>"

definition exRuntime :: Runtime where
  "exRuntime = Planned.extend (plan_world exServed (planOf exExt '''' None 0 (exDoc (CHR ''b'')) False []))
     \<lparr> rt_generated = ''old'', rt_cap = exCap, rt_resourceHome = Root, rt_controller = True, rt_proxyActive = False, rt_groups = [],
       rt_automation = [], rt_configOverrides = [], rt_configReportPending = False, rt_localProfile = None, rt_generatedPath = '''',
       rt_forceRestart = False, rt_activationBackup = None, rt_tunActive = False, rt_tunFailure = '''', rt_tunLeftover = False,
       rt_compatibilityFailure = '''', rt_mixedPort = 0, rt_resourceDirty = False,
       rt_files = (\<lambda>p. if p = ''generated.yaml'' then Some ''old'' else None), rt_process = Some (exCap, Root, ''generated.yaml''),
       rt_mihomoGroups = [], rt_mode = ''rule'', rt_desktopProxy = False \<rparr>"

definition exLife :: life_env where
  "exLife = \<lparr> le_settings = exFilters, le_capability = Inr exCap, le_tunPath = '''', le_defaultPath = ''generated.yaml'',
     le_render = (\<lambda>profile _ _ _. Inr (profile @ ''!'')), le_validate = (\<lambda>_ _ _. None), le_explain = (\<lambda>_ _. Inr []), le_modeChange = (\<lambda>_ _. None),
     le_mixedPort = (\<lambda>_. Inr 7890), le_streamPort = (\<lambda>_. Inr 0), le_profileGroups = (\<lambda>_. []), le_opaqueID = (\<lambda>name. name),
     le_monitor = (\<lambda>_. None), le_unsupportedProxy = (\<lambda>_. False), le_deviceExists = False, le_ctxErr = None \<rparr>"

definition exPlanEnv :: plan_env where
  "exPlanEnv = \<lparr> pe_url_Parse = exLocal, pe_ext = exExt, pe_stage = exEnv, pe_stageID = replicate 32 (CHR ''1''),
     pe_commitID = replicate 32 (CHR ''2''), pe_transactionID = replicate 32 (CHR ''3'') \<rparr>"

definition exApplication :: "Runtime Service" where
  "exApplication = \<lparr> sv_store = exStore, sv_wake = False, sv_refreshes = [], sv_nextRefresh = 0, sv_cancelled = [], sv_onChange = True,
     sv_notified = 0, sv_runtime = exRuntime \<rparr>"

abbreviation exActivate :: "fault list \<Rightarrow> unit outcome \<times> fault list \<times> Runtime Service" where
  "exActivate faults \<equiv> Activate exSubSha (appCallbacks exPlanEnv exLife (\<lambda>_. None)) ''home'' faults exApplication"

lemma exPlan_ready: "activation_ok exPlanEnv exLife (exDoc (CHR ''b''))" "app_ready exPlanEnv exLife (exDoc (CHR ''b'')) (home_files exRuntime) exRuntime"
proof -
  have id32: "length (replicate 32 c) = 32" for c :: char by simp
  have hex: "hex_DecodeString_ok (replicate 32 (CHR ''2''))" "hex_DecodeString_ok (replicate 32 (CHR ''3''))" by code_simp+
  have "(replicate 32 (CHR ''b'') :: string) \<noteq> replicate 32 (CHR ''2'')" by simp
  then show "activation_ok exPlanEnv exLife (exDoc (CHR ''b''))"
    using exServed_ok(1) hex id32
    by (simp add: activation_ok_def plan_env_ok_def exPlanEnv_def exLife_def exDoc_def exFilters_def del: replicate.simps)
  have home: "rg_home exRuntime = exHome" "rg_active exRuntime = exDoc (CHR ''b'')" "rg_maxBytes exRuntime = 100"
    by (simp_all add: exRuntime_def plan_world_def exServed_def Planned.extend_def Registry.extend_def)
  with exServed_ok(2) have reg: "registry_ok exExt exRuntime" by (simp add: registry_ok_def exServed_def)
  have "wp (resolvePaths exPlanEnv exLife) (\<lambda>_ _. False) (\<lambda>_ _. True) (\<lambda>_. True) exRuntime"
    unfolding resolvePaths_def
    by (rule wp_PathsWithHome_missing [where resource = exResource])
      (use reg home in \<open>simp_all add: exPlanEnv_def exLife_def exFilters_def exResource_def exDoc_def\<close>)
  note no = wp_result [OF this]
  have "fst (resolvePaths exPlanEnv exLife fs exRuntime) \<noteq> Ret paths" for fs paths
    using no [of fs] by (cases "resolvePaths exPlanEnv exLife fs exRuntime") fastforce
  with reg home show "app_ready exPlanEnv exLife (exDoc (CHR ''b'')) (home_files exRuntime) exRuntime"
    by (simp add: app_ready_def exPlanEnv_def exServed_def)
qed

theorem activation_atomic_witness:
  "fst (exActivate []) = Ret ()
   \<and> durableCommit exExt (sv_runtime (snd (snd (exActivate [])))) = Some (replicate 32 (CHR ''2''))
   \<and> (\<exists>s. restart exSubSha exParse (replicate 32 (CHR ''2'')) [] (sv_store (snd (snd (exActivate [])))) = (Ret (), [], s)
        \<and> appliedIdentity s = (''home'', exSubSha ''old'', exSubSha ''old''))"
proof -
  have ret: "fst (exActivate []) = Ret ()" by code_simp
  then have run: "exActivate [] = (Ret (), fst (snd (exActivate [])), snd (snd (exActivate [])))" by (metis prod.collapse)
  have sv: "sv_store exApplication = exStore" "sv_runtime exApplication = exRuntime" by (simp_all add: exApplication_def)
  have st: "ss_pending exStore = Missing" "map_of (ss_records exStore) ''home'' = Some exRecord" by (simp_all add: exStore_def)
  have r: "pr_Hash exRecord = exSubSha ''old''" "pr_CandidateHash exRecord = exSubSha ''old''" by (simp_all add: exRecord_def)
  have pe: "pe_ext exPlanEnv = exExt" "pe_commitID exPlanEnv = replicate 32 (CHR ''2'')" by (simp_all add: exPlanEnv_def)
  note both = activation_atomic [where sv = exApplication and ident = "''home''" and sha = exSubSha and url_Parse = exParse and r = exRecord,
      OF exPlan_ready(1) _ _ _ _ run, unfolded sv st r pe, OF exPlan_ready(2) exStore_ok refl refl]
  have new: "durableCommit exExt (sv_runtime (snd (snd (exActivate [])))) = Some (replicate 32 (CHR ''2''))"
    using both by simp
  with both have "\<exists>s. restart exSubSha exParse (replicate 32 (CHR ''2'')) [] (sv_store (snd (snd (exActivate [])))) = (Ret (), [], s)
      \<and> appliedIdentity s = (''home'', exSubSha ''old'', exSubSha ''old'')"
    by (metis (no_types, lifting))
  with ret new show ?thesis by blast
qed

end
