(* ===== verification/Ipc_Protocol.thy ===== *)
theory Ipc_Protocol
  imports Core_Snapshot "HOL-Library.Word"
begin

text \<open>
  The messages between the application and its user interfaces (\<open>src/ipc/protocol.go\<close>): the commands with their
  validation, and the validation of a snapshot before it is published.

  A pointer field that may be absent is an option, a \<open>uint32\<close> a 32-bit word, a \<open>CommandKind\<close> the string it is in Go.
\<close>

section \<open>Commands\<close>

definition ProtocolVersion :: nat where "ProtocolVersion = 11"
definition MaxFrameSize :: nat where "MaxFrameSize = 2 ^ 20"

definition id_rune :: "char \<Rightarrow> bool" where
  "id_rune r \<longleftrightarrow> is_alnum r \<or> r \<in> set ''._-''"

definition requestIDPattern :: "string \<Rightarrow> bool" where
  "requestIDPattern s \<longleftrightarrow> 1 \<le> length s \<and> length s \<le> 64 \<and> list_all id_rune s"

definition stableIDPattern :: "string \<Rightarrow> bool" where
  "stableIDPattern s = (case s of [] \<Rightarrow> False | c # cs \<Rightarrow> is_alnum c \<and> length cs \<le> 63 \<and> list_all id_rune cs)"

record ConfigPatch =
  cp_SystemProxyEnabled :: "bool option"
  cp_DNSListen :: "string option"
  cp_MonitorEnabled :: "bool option"
  cp_MonitorTestURL :: "string option"
  cp_MonitorSwitchPolicy :: "string option"
  cp_MonitorStreamURL :: "string option"
  cp_MonitorStreamIntervalSeconds :: "32 word option"
  cp_MonitorIntervalSeconds :: "32 word option"
  cp_MonitorTimeoutMillis :: "32 word option"
  cp_MonitorConcurrency :: "32 word option"
  cp_MonitorThresholdMillis :: "32 word option"
  cp_AlertThresholdMillis :: "32 word option"
  cp_MonitorConsecutiveBadSamples :: "32 word option"
  cp_MonitorWindowSize :: "32 word option"
  cp_MonitorMinCandidateSamples :: "32 word option"
  cp_MonitorMaxFailures :: "32 word option"
  cp_MonitorMinImprovementMillis :: "32 word option"
  cp_MonitorCooldownSeconds :: "32 word option"
  cp_MonitorJitterMillis :: "32 word option"
  cp_Binary :: "string option"
  cp_URLTestIntervalSeconds :: "32 word option"
  cp_URLTestToleranceMillis :: "32 word option"
  cp_MixedPort :: "32 word option"
  cp_ProxyMode :: "string option"
  cp_TunEnabled :: "bool option"
  cp_TunStack :: "string option"
  cp_TunDNSMode :: "string option"

definition emptyPatch :: ConfigPatch where
  "emptyPatch = \<lparr> cp_SystemProxyEnabled = None, cp_DNSListen = None, cp_MonitorEnabled = None, cp_MonitorTestURL = None,
     cp_MonitorSwitchPolicy = None, cp_MonitorStreamURL = None, cp_MonitorStreamIntervalSeconds = None, cp_MonitorIntervalSeconds = None,
     cp_MonitorTimeoutMillis = None, cp_MonitorConcurrency = None, cp_MonitorThresholdMillis = None, cp_AlertThresholdMillis = None,
     cp_MonitorConsecutiveBadSamples = None, cp_MonitorWindowSize = None, cp_MonitorMinCandidateSamples = None, cp_MonitorMaxFailures = None,
     cp_MonitorMinImprovementMillis = None, cp_MonitorCooldownSeconds = None, cp_MonitorJitterMillis = None, cp_Binary = None,
     cp_URLTestIntervalSeconds = None, cp_URLTestToleranceMillis = None, cp_MixedPort = None, cp_ProxyMode = None, cp_TunEnabled = None,
     cp_TunStack = None, cp_TunDNSMode = None \<rparr>"

definition ConfigPatch_Empty :: "ConfigPatch \<Rightarrow> bool" where
  "ConfigPatch_Empty p \<longleftrightarrow> p = emptyPatch"

record SubscriptionEdit =
  se_Name :: "string option"
  se_URL :: "string option"
  se_UserAgent :: "string option"
  se_Enabled :: "bool option"
  se_RefreshIntervalSeconds :: "32 word option"
  se_TimeoutSeconds :: "32 word option"
  se_Route :: "string option"
  se_AllowHTTP :: "bool option"
  se_AllowInvalidTLS :: "bool option"

record ResourceEdit =
  ree_Kind :: "string option"
  ree_Format :: "string option"
  ree_RuleType :: "string option"
  ree_URL :: "string option"
  ree_Enabled :: "bool option"
  ree_IntervalSeconds :: "32 word option"
  ree_SHA256 :: "string option"

record FilterEdit =
  fe_ResourceID :: "string option"
  fe_Format :: "string option"
  fe_Target :: "string option"
  fe_Enabled :: "bool option"

record DNSResolverSet =
  drs_ID :: string
  drs_Endpoints :: "string list"
  drs_DNSCrypt :: bool

record ipc_DNSRoute =
  dr_Suffix :: string
  dr_GeoSite :: string
  dr_Resource :: string
  dr_ResolverSet :: string

record DNSRoutingEdit =
  de_ResolverSets :: "DNSResolverSet list"
  de_Routes :: "ipc_DNSRoute list"

record AutomationSetting =
  as_Enabled :: bool

record Command =
  cmd_Kind :: string
  cmd_GroupID :: string
  cmd_ChoiceID :: string
  cmd_SubscriptionID :: string
  cmd_ResourceID :: string
  cmd_FilterID :: string
  cmd_Config :: "ConfigPatch option"
  cmd_Automation :: "AutomationSetting option"
  cmd_Subscription :: "SubscriptionEdit option"
  cmd_Resource :: "ResourceEdit option"
  cmd_Filter :: "FilterEdit option"
  cmd_DNSRouting :: "DNSRoutingEdit option"
  cmd_JobID :: string

abbreviation CommandStart :: string where "CommandStart \<equiv> ''start''"
abbreviation CommandStop :: string where "CommandStop \<equiv> ''stop''"
abbreviation CommandRestart :: string where "CommandRestart \<equiv> ''restart''"
abbreviation CommandReloadConfiguration :: string where "CommandReloadConfiguration \<equiv> ''reload_configuration''"
abbreviation CommandUpdateConfiguration :: string where "CommandUpdateConfiguration \<equiv> ''update_configuration''"
abbreviation CommandManualProbe :: string where "CommandManualProbe \<equiv> ''manual_probe''"
abbreviation CommandSelectGroup :: string where "CommandSelectGroup \<equiv> ''select_group''"
abbreviation CommandSetAutomation :: string where "CommandSetAutomation \<equiv> ''set_automation''"
abbreviation CommandRefreshSubscription :: string where "CommandRefreshSubscription \<equiv> ''refresh_subscription''"
abbreviation CommandActivateSubscription :: string where "CommandActivateSubscription \<equiv> ''activate_subscription''"
abbreviation CommandDeleteSubscription :: string where "CommandDeleteSubscription \<equiv> ''delete_subscription''"
abbreviation CommandPutSubscription :: string where "CommandPutSubscription \<equiv> ''put_subscription''"
abbreviation CommandRefreshResource :: string where "CommandRefreshResource \<equiv> ''refresh_resource''"
abbreviation CommandRefreshFilter :: string where "CommandRefreshFilter \<equiv> ''refresh_filter''"
abbreviation CommandPutResource :: string where "CommandPutResource \<equiv> ''put_resource''"
abbreviation CommandPutFilter :: string where "CommandPutFilter \<equiv> ''put_filter''"
abbreviation CommandSetDNSRouting :: string where "CommandSetDNSRouting \<equiv> ''set_dns_routing''"
abbreviation CommandTestNotification :: string where "CommandTestNotification \<equiv> ''test_notification''"
abbreviation CommandAuthorizeTun :: string where "CommandAuthorizeTun \<equiv> ''authorize_tun''"
abbreviation CommandSetAutoFastest :: string where "CommandSetAutoFastest \<equiv> ''set_auto_fastest''"

text \<open>A check on a field that may be absent.\<close>

definition given :: "'a option \<Rightarrow> ('a \<Rightarrow> bool) \<Rightarrow> bool" where
  "given v p = (case v of None \<Rightarrow> False | Some x \<Rightarrow> p x)"

definition control_chars :: string where
  "control_chars = [CHR 0x00, CHR 0x0D, CHR 0x0A]"

definition validBinaryIntent :: "string \<Rightarrow> bool" where
  "validBinaryIntent v \<longleftrightarrow>
     (if v = ''system'' \<or> v = ''bundled'' then True
      else v \<noteq> '''' \<and> length v \<le> 4096 \<and> filepath_IsAbs v \<and> \<not> strings_ContainsAny v control_chars)"

definition validTunStack :: "string \<Rightarrow> bool" where "validTunStack v \<longleftrightarrow> v \<in> set TunStacks"
definition validTunDNSMode :: "string \<Rightarrow> bool" where "validTunDNSMode v \<longleftrightarrow> v \<in> set TunDNSModes"

text \<open>A text that is too long or holds a control character.\<close>

definition badText :: "nat \<Rightarrow> string \<Rightarrow> bool" where
  "badText limit v \<longleftrightarrow> length v > limit \<or> strings_ContainsAny v control_chars"

text \<open>A word out of a range.\<close>

definition outOfRange :: "int \<Rightarrow> int \<Rightarrow> 32 word \<Rightarrow> bool" where
  "outOfRange low high v \<longleftrightarrow> uint v < low \<or> uint v > high"

definition errors_New :: "string \<Rightarrow> go_error" where
  "errors_New text = Errorf text []"

definition validatePatch :: "url_parser \<Rightarrow> ConfigPatch \<Rightarrow> go_error option" where
  "validatePatch url_Parse p = first_error
     [fail_if (ConfigPatch_Empty p) (errors_New ''empty configuration patch''),
      fail_if (given (cp_MonitorTestURL p) (badText 2048)) (errors_New ''invalid monitor test URL''),
      fail_if (given (cp_MonitorSwitchPolicy p) (\<lambda>v. \<not> ValidPolicyName v)) (errors_New ''invalid monitor switch policy''),
      fail_if (given (cp_MonitorStreamURL p) (\<lambda>v. ValidStreamURL url_Parse v \<noteq> None)) (errors_New ''invalid monitor stream URL''),
      fail_if (given (cp_MonitorStreamIntervalSeconds p) (\<lambda>v. i64 (uint v * Second) < MinStreamInterval \<or> uint v > 86400))
        (errors_New ''monitor stream interval out of range''),
      fail_if (given (cp_TunStack p) (\<lambda>v. \<not> validTunStack v) \<or> given (cp_TunDNSMode p) (\<lambda>v. \<not> validTunDNSMode v))
        (errors_New ''invalid TUN mode setting''),
      fail_if (given (cp_ProxyMode p) (\<lambda>v. v \<notin> set ProxyModes)) (errors_New ''invalid proxy mode''),
      fail_if (given (cp_MixedPort p) (outOfRange MixedPortMin MixedPortMax)) (errors_New ''mixed port out of range''),
      fail_if (given (cp_DNSListen p) (badText 128)) (errors_New ''invalid DNS listener''),
      fail_if (given (cp_MonitorConcurrency p) (outOfRange 1 64) \<or> given (cp_MonitorConsecutiveBadSamples p) (outOfRange 1 MonitorWindowMax))
        (errors_New ''monitor worker or sample count out of range''),
      fail_if (given (cp_MonitorWindowSize p) (outOfRange MonitorWindowMin MonitorWindowMax)
          \<or> given (cp_MonitorMinCandidateSamples p) (outOfRange MonitorWindowMin MonitorWindowMax)
          \<or> given (cp_MonitorMaxFailures p) (outOfRange 1 MonitorWindowMax))
        (errors_New ''monitor stability window out of range''),
      fail_if (given (cp_MonitorTimeoutMillis p) (outOfRange 1 86400000) \<or> given (cp_MonitorThresholdMillis p) (\<lambda>v. v = 0)
          \<or> given (cp_MonitorMinImprovementMillis p) (\<lambda>v. v = 0))
        (errors_New ''monitor delay policy out of range''),
      fail_if (given (cp_MonitorIntervalSeconds p) (outOfRange 1 86400)) (errors_New ''monitor interval out of range''),
      fail_if (given (cp_AlertThresholdMillis p) (outOfRange 1 60000)) (errors_New ''alert threshold out of range''),
      fail_if (given (cp_Binary p) (\<lambda>v. \<not> validBinaryIntent v)) (errors_New ''invalid binary selection'')]"

definition validateSubscriptionEdit :: "SubscriptionEdit \<Rightarrow> go_error option" where
  "validateSubscriptionEdit p = first_error
     [fail_if (se_Name p = None \<and> se_URL p = None \<and> se_UserAgent p = None \<and> se_Enabled p = None \<and> se_RefreshIntervalSeconds p = None
          \<and> se_TimeoutSeconds p = None \<and> se_Route p = None \<and> se_AllowHTTP p = None \<and> se_AllowInvalidTLS p = None)
        (errors_New ''empty subscription edit''),
      fail_if (given (se_Name p) (badText 128) \<or> given (se_URL p) (badText 4096)) (errors_New ''invalid subscription edit field''),
      fail_if (given (se_UserAgent p) (\<lambda>v. length v > 256)) (errors_New ''invalid subscription user agent''),
      fail_if (given (se_UserAgent p) (list_ex (\<lambda>r. r < CHR 0x20 \<or> r > CHR 0x7E))) (errors_New ''invalid subscription user agent''),
      fail_if (given (se_RefreshIntervalSeconds p) (outOfRange 60 (86400 * 30)) \<or> given (se_TimeoutSeconds p) (outOfRange 1 300))
        (errors_New ''subscription schedule out of range''),
      fail_if (given (se_Route p) (\<lambda>v. \<not> ValidRoute v)) (errors_New ''invalid subscription route'')]"

definition validateResourceEdit :: "ResourceEdit \<Rightarrow> go_error option" where
  "validateResourceEdit p = first_error
     [fail_if (ree_Kind p = None \<and> ree_Format p = None \<and> ree_RuleType p = None \<and> ree_URL p = None \<and> ree_Enabled p = None
          \<and> ree_IntervalSeconds p = None \<and> ree_SHA256 p = None)
        (errors_New ''empty resource edit''),
      fail_if (given (ree_URL p) (badText 4096) \<or> given (ree_IntervalSeconds p) (outOfRange 60 (86400 * 30))) (errors_New ''invalid resource edit field'')]"

definition validateFilterEdit :: "FilterEdit \<Rightarrow> go_error option" where
  "validateFilterEdit p = first_error
     [fail_if (fe_ResourceID p = None \<and> fe_Format p = None \<and> fe_Target p = None \<and> fe_Enabled p = None) (errors_New ''empty filter edit''),
      fail_if (given (fe_ResourceID p) (\<lambda>v. \<not> stableIDPattern v) \<or> given (fe_Target p) (badText 128)) (errors_New ''invalid filter edit field'')]"

definition validateResolverSet :: "DNSResolverSet \<Rightarrow> go_error option" where
  "validateResolverSet item = first_error
     (fail_if (\<not> stableIDPattern (drs_ID item) \<or> drs_Endpoints item = [] \<or> length (drs_Endpoints item) > 16) (errors_New ''invalid DNS resolver set'')
      # map (\<lambda>endpoint. fail_if (endpoint = '''' \<or> badText 256 endpoint) (errors_New ''invalid DNS resolver endpoint'')) (drs_Endpoints item))"

definition validateDNSRouting :: "DNSRoutingEdit \<Rightarrow> go_error option" where
  "validateDNSRouting p = first_error
     (fail_if (length (de_ResolverSets p) > 256 \<or> length (de_Routes p) > 1024) (errors_New ''DNS routing exceeds limits'')
      # map validateResolverSet (de_ResolverSets p))"

definition hasOtherTarget :: "Command \<Rightarrow> string \<Rightarrow> bool" where
  "hasOtherTarget c want \<longleftrightarrow>
     want \<noteq> ''subscription'' \<and> cmd_SubscriptionID c \<noteq> '''' \<or> want \<noteq> ''resource'' \<and> cmd_ResourceID c \<noteq> '''' \<or> want \<noteq> ''filter'' \<and> cmd_FilterID c \<noteq> ''''"

text \<open>The fields of a command other than its edit and the identifier of its target.\<close>

definition hasOtherFields :: "Command \<Rightarrow> string \<Rightarrow> bool" where
  "hasOtherFields c want \<longleftrightarrow>
     cmd_GroupID c \<noteq> '''' \<or> cmd_ChoiceID c \<noteq> '''' \<or> cmd_Config c \<noteq> None \<or> cmd_Automation c \<noteq> None \<or> hasOtherTarget c want"

definition validateKind :: "url_parser \<Rightarrow> Command \<Rightarrow> go_error option" where
  "validateKind url_Parse c =
     (let kind = cmd_Kind c in
      if kind \<in> {CommandStart, CommandStop, CommandRestart, CommandReloadConfiguration, CommandTestNotification, CommandAuthorizeTun} then
        fail_if (hasOtherFields c '''') (errors_New ''unexpected command fields'')
      else if kind = CommandUpdateConfiguration then
        first_error
          [fail_if (cmd_GroupID c \<noteq> '''' \<or> cmd_ChoiceID c \<noteq> '''' \<or> cmd_Automation c \<noteq> None \<or> cmd_Config c = None \<or> hasOtherTarget c '''')
             (errors_New ''invalid configuration command''),
           Option.bind (cmd_Config c) (validatePatch url_Parse)]
      else if kind = CommandManualProbe then
        fail_if (\<not> stableIDPattern (cmd_GroupID c) \<or> cmd_ChoiceID c \<noteq> '''' \<or> cmd_Config c \<noteq> None \<or> cmd_Automation c \<noteq> None \<or> hasOtherTarget c '''')
          (errors_New ''invalid probe command'')
      else if kind = CommandSelectGroup then
        fail_if (\<not> stableIDPattern (cmd_GroupID c) \<or> \<not> stableIDPattern (cmd_ChoiceID c) \<or> cmd_Config c \<noteq> None \<or> cmd_Automation c \<noteq> None
            \<or> hasOtherTarget c '''') (errors_New ''invalid group selection command'')
      else if kind = CommandSetAutomation then
        fail_if (\<not> stableIDPattern (cmd_GroupID c) \<or> cmd_ChoiceID c \<noteq> '''' \<or> cmd_Config c \<noteq> None \<or> cmd_Automation c = None \<or> hasOtherTarget c '''')
          (errors_New ''invalid automation command'')
      else if kind = CommandSetAutoFastest then
        fail_if (cmd_GroupID c \<noteq> '''' \<or> cmd_ChoiceID c \<noteq> '''' \<or> cmd_Config c \<noteq> None \<or> cmd_Automation c = None \<or> hasOtherTarget c '''')
          (errors_New ''invalid auto fastest command'')
      else if kind = CommandPutSubscription then
        first_error
          [fail_if (\<not> stableIDPattern (cmd_SubscriptionID c) \<or> cmd_Subscription c = None \<or> hasOtherFields c ''subscription'')
             (errors_New ''invalid subscription edit command''),
           Option.bind (cmd_Subscription c) validateSubscriptionEdit]
      else if kind \<in> {CommandRefreshSubscription, CommandActivateSubscription, CommandDeleteSubscription} then
        fail_if (\<not> stableIDPattern (cmd_SubscriptionID c) \<or> hasOtherFields c ''subscription'') (errors_New ''invalid subscription command'')
      else if kind = CommandPutResource then
        first_error
          [fail_if (\<not> stableIDPattern (cmd_ResourceID c) \<or> cmd_Resource c = None \<or> hasOtherFields c ''resource'')
             (errors_New ''invalid resource edit command''),
           Option.bind (cmd_Resource c) validateResourceEdit]
      else if kind = CommandPutFilter then
        first_error
          [fail_if (\<not> stableIDPattern (cmd_FilterID c) \<or> cmd_Filter c = None \<or> hasOtherFields c ''filter'') (errors_New ''invalid filter edit command''),
           Option.bind (cmd_Filter c) validateFilterEdit]
      else if kind = CommandSetDNSRouting then
        first_error
          [fail_if (cmd_DNSRouting c = None \<or> hasOtherFields c '''') (errors_New ''invalid DNS routing command''),
           Option.bind (cmd_DNSRouting c) validateDNSRouting]
      else if kind = CommandRefreshResource then
        fail_if (\<not> stableIDPattern (cmd_ResourceID c) \<or> hasOtherFields c ''resource'') (errors_New ''invalid resource command'')
      else if kind = CommandRefreshFilter then
        fail_if (\<not> stableIDPattern (cmd_FilterID c) \<or> hasOtherFields c ''filter'') (errors_New ''invalid filter command'')
      else Some (errors_New ''unknown command kind''))"

definition Command_validate :: "url_parser \<Rightarrow> Command \<Rightarrow> go_error option" where
  "Command_validate url_Parse c = first_error
     [fail_if (cmd_Kind c \<noteq> CommandPutSubscription \<and> cmd_Subscription c \<noteq> None) (errors_New ''unexpected subscription edit fields''),
      fail_if (cmd_Kind c \<noteq> CommandPutResource \<and> cmd_Resource c \<noteq> None \<or> cmd_Kind c \<noteq> CommandPutFilter \<and> cmd_Filter c \<noteq> None)
        (errors_New ''unexpected resource or filter edit fields''),
      fail_if (cmd_Kind c \<noteq> CommandSetDNSRouting \<and> cmd_DNSRouting c \<noteq> None) (errors_New ''unexpected DNS routing fields''),
      validateKind url_Parse c]"

section \<open>Snapshots\<close>

definition ErrSnapshotTooLarge :: go_error where
  "ErrSnapshotTooLarge = errors_New ''ipc: snapshot exceeds protocol bounds''"

text \<open>The counters of items and of bytes of text that the validation keeps.\<close>

type_synonym budget = "nat \<times> nat"
type_synonym metered_check = "budget \<Rightarrow> go_error + budget"

definition itemLimit :: nat where "itemLimit = (MaxFrameSize - 1024) div 256"
definition textLimit :: nat where "textLimit = MaxFrameSize div 6"

definition addItems :: "nat \<Rightarrow> metered_check" where
  "addItems n b = (case b of (items, textBytes) \<Rightarrow>
     if n > itemLimit - items then Inl ErrSnapshotTooLarge else Inr (items + n, textBytes))"

fun addText :: "string list \<Rightarrow> metered_check" where
  "addText [] b = Inr b"
| "addText (v # vs) (items, textBytes) =
     (if length v > textLimit - textBytes then Inl ErrSnapshotTooLarge else addText vs (items, textBytes + length v))"

definition require :: "bool \<Rightarrow> go_error \<Rightarrow> metered_check" where
  "require ok err b = (if ok then Inr b else Inl err)"

fun run_checks :: "metered_check list \<Rightarrow> metered_check" where
  "run_checks [] b = Inr b"
| "run_checks (f # fs) b = (case f b of Inl err \<Rightarrow> Inl err | Inr b' \<Rightarrow> run_checks fs b')"

definition tunSnapshotOK :: "TunSnapshot \<Rightarrow> bool" where
  "tunSnapshotOK tun \<longleftrightarrow>
     (tuns_Privilege tun = '''' \<or> tuns_Privilege tun \<in> set TunPrivileges)
     \<and> \<not> (tuns_Stack tun \<noteq> '''' \<and> \<not> validTunStack (tuns_Stack tun) \<or> tuns_DNSMode tun \<noteq> '''' \<and> \<not> validTunDNSMode (tuns_DNSMode tun)
         \<or> tuns_PrivilegedPath tun \<noteq> '''' \<and> (badText 4096 (tuns_PrivilegedPath tun) \<or> \<not> filepath_IsAbs (tuns_PrivilegedPath tun))
         \<or> length (tuns_Device tun) > 15 \<or> strings_ContainsAny (tuns_Device tun) (control_chars @ ''/ '')
         \<or> badText 160 (tuns_LastFailure tun) \<or> strings_Contains (tuns_LastFailure tun) ''://'')"

definition validateTunSnapshot :: "TunSnapshot \<Rightarrow> go_error option" where
  "validateTunSnapshot tun = fail_if (\<not> tunSnapshotOK tun) (errors_New ''ipc: invalid TUN snapshot'')"

definition meterGroup :: "GroupSnapshot \<Rightarrow> metered_check" where
  "meterGroup grp = run_checks
     (addItems (length (grp_Proxies grp)) # addText [grp_ID grp, grp_Label grp, grp_Type grp, grp_Selected grp]
      # map (\<lambda>proxy. addText [proxy]) (grp_Proxies grp))"

definition stabilityOK :: "ProxySnapshot \<Rightarrow> bool" where
  "stabilityOK p \<longleftrightarrow> \<not> (prx_Failures p < 0 \<or> prx_Failures p > prx_Samples p \<or> prx_Samples p > MonitorWindowMax \<or> prx_MedianMillis p < 0
     \<or> prx_JitterMillis p < 0 \<or> prx_StreamCompleted p < 0 \<or> prx_StreamCompleted p > prx_StreamSamples p
     \<or> prx_StreamSamples p > MonitorWindowMax \<or> prx_StreamKBps p < 0)"

definition meterProxy :: "ProxySnapshot \<Rightarrow> metered_check" where
  "meterProxy p = run_checks
     [addText [prx_ID p, prx_Label p, prx_GroupID p, prx_Outcome p], require (stabilityOK p) (errors_New ''ipc: invalid proxy stability'')]"

definition meterSwitch :: "SwitchSnapshot \<Rightarrow> metered_check" where
  "meterSwitch item = run_checks
     (addItems (length (swi_StreamEvidence item)) # map (\<lambda>e. addText [strm_ProxyID e, strm_Outcome e]) (swi_StreamEvidence item))"

definition meterSubscription :: "SubscriptionSnapshot \<Rightarrow> metered_check" where
  "meterSubscription s = run_checks
     [addText [subs_ID s, subs_Name s, subs_SourceHost s, subs_HashPrefix s, subs_LastFailure s, subs_Route s],
      require (subs_Route s = '''' \<or> ValidRoute (subs_Route s)) (errors_New ''ipc: invalid subscription policy'')]"

definition meterResource :: "ResourceSnapshot \<Rightarrow> metered_check" where
  "meterResource r = addText [rsrc_ID r, rsrc_Kind r, rsrc_SourceHost r, rsrc_HashPrefix r, rsrc_Destination r, rsrc_LastResult r]"

definition meterFilter :: "FilterSnapshot \<Rightarrow> metered_check" where
  "meterFilter f = addText [flt_ID f, flt_ResourceID f, flt_Format f, flt_Target f]"

definition meterResolverSet :: "ResolverSetSnapshot \<Rightarrow> metered_check" where
  "meterResolverSet s = run_checks
     (addItems (length (rset_Endpoints s)) # addText [rset_ID s] # map (\<lambda>endpoint. addText [endpoint]) (rset_Endpoints s))"

definition meterRoute :: "DNSRouteSnapshot \<Rightarrow> metered_check" where
  "meterRoute r = addText [rte_Suffix r, rte_GeoSite r, rte_Resource r, rte_ResolverSet r]"

definition meterJob :: "JobSnapshot \<Rightarrow> metered_check" where
  "meterJob j = addText [job_ID j, job_Kind j, job_State j]"

definition meterError :: "ErrorSnapshot \<Rightarrow> metered_check" where
  "meterError e = addText [errs_File e, errs_Key e, errs_Kind e, errs_SourceID e, errs_Message e]"

definition diagnosticOK :: "DiagnosticSnapshot \<Rightarrow> bool" where
  "diagnosticOK d \<longleftrightarrow> \<not> (diag_At d < 0 \<or> (diag_Severity d \<noteq> ''error'' \<and> diag_Severity d \<noteq> ''info'') \<or> \<not> stableIDPattern (diag_Kind d)
     \<or> (diag_SourceID d \<noteq> '''' \<and> \<not> stableIDPattern (diag_SourceID d)) \<or> diag_Message d = '''' \<or> badText 160 (diag_Message d)
     \<or> strings_Contains (diag_Message d) ''://'')"

definition meterDiagnostic :: "DiagnosticSnapshot \<Rightarrow> metered_check" where
  "meterDiagnostic d = run_checks
     [require (diagnosticOK d) (errors_New ''ipc: invalid diagnostic snapshot''), addText [diag_Severity d, diag_Kind d, diag_SourceID d, diag_Message d]]"

text \<open>The numbers of elements of the lists that are counted at first, up to those that have a limit of their own.\<close>

definition listSizes :: "CoreSnapshot \<Rightarrow> nat list" where
  "listSizes s = [length (snap_Groups s), length (snap_Proxies s), length (snap_Subscriptions s), length (snap_Resources s), length (snap_Filters s),
     length (dnss_ResolverSets (snap_DNS s)), length (dnss_Routes (snap_DNS s)), length (bin_Capabilities (snap_Binary s)), length (snap_Jobs s),
     length (snap_Errors s)]"

definition snapshotChecks :: "CoreSnapshot \<Rightarrow> metered_check list" where
  "snapshotChecks s =
     [run_checks (map addItems (listSizes s)),
      require (length (snap_FinishedJobs s) \<le> MaxFinishedJobs) ErrSnapshotTooLarge, addItems (length (snap_FinishedJobs s)),
      require (length (snap_Diagnostics s) \<le> MaxDiagnostics) ErrSnapshotTooLarge, addItems (length (snap_Diagnostics s)),
      run_checks (map meterGroup (snap_Groups s)), run_checks (map meterProxy (snap_Proxies s)), run_checks (map meterSwitch (snap_Switches s)),
      run_checks (map meterSubscription (snap_Subscriptions s)), run_checks (map meterResource (snap_Resources s)),
      run_checks (map meterFilter (snap_Filters s)), run_checks (map meterResolverSet (dnss_ResolverSets (snap_DNS s))),
      run_checks (map meterRoute (dnss_Routes (snap_DNS s))),
      addText [bin_Desired (snap_Binary s), bin_ObservedVersion (snap_Binary s), bin_LastCompatibilityFailure (snap_Binary s),
        mon_TestURL (snap_Monitor s), dnss_Listen (snap_DNS s)],
      run_checks (map (\<lambda>capability. addText [capability]) (bin_Capabilities (snap_Binary s))), run_checks (map meterJob (snap_Jobs s)),
      run_checks (map meterJob (snap_FinishedJobs s)), run_checks (map meterError (snap_Errors s)), run_checks (map meterDiagnostic (snap_Diagnostics s))]"

record Acknowledgement =
  ack_Queued :: bool
  ack_JobID :: string

record protocolError =
  per_Code :: string
  per_Message :: string

record clientFrame =
  cf_Type :: string
  cf_Version :: nat
  cf_Subscribe :: bool
  cf_RequestID :: string
  cf_Operation :: string
  cf_Command :: "Command option"

record serverFrame =
  sf_Type :: string
  sf_Version :: nat
  sf_RequestID :: string
  sf_Acknowledgement :: "Acknowledgement option"
  sf_Snapshot :: "CoreSnapshot option"
  sf_Error :: "protocolError option"

definition snapshotResponse :: "string \<Rightarrow> CoreSnapshot \<Rightarrow> serverFrame" where
  "snapshotResponse ident snapshot = \<lparr> sf_Type = ''response'', sf_Version = 0, sf_RequestID = ident, sf_Acknowledgement = None,
     sf_Snapshot = Some snapshot, sf_Error = None \<rparr>"

text \<open>\<open>marshal\<close> stands for \<open>json.Marshal\<close>.\<close>

definition checkEncoded :: "(serverFrame \<Rightarrow> bytes option) \<Rightarrow> CoreSnapshot \<Rightarrow> go_error option" where
  "checkEncoded marshal snapshot =
     (case marshal (snapshotResponse (replicate 64 (CHR ''0'')) snapshot) of
        None \<Rightarrow> Some ErrSnapshotTooLarge
      | Some body \<Rightarrow> fail_if (length body > MaxFrameSize) ErrSnapshotTooLarge)"

definition validateOverrides :: "ConfigOverride list \<Rightarrow> go_error option" where
  "validateOverrides items = first_error
     (fail_if (length items > length ConfigOverrideKeys) (errors_New ''ipc: invalid config override report'')
      # map (\<lambda>item. fail_if (\<not> ConfigOverride_Valid item) (errors_New ''ipc: invalid config override report'')) items)"

definition ipc_validateSnapshot :: "(serverFrame \<Rightarrow> bytes option) \<Rightarrow> CoreSnapshot \<Rightarrow> go_error option" where
  "ipc_validateSnapshot marshal s =
     (case first_error
        [fail_if (snap_ActiveSource s \<notin> {'''', ''none'', ''local'', ''subscription''}) (errors_New ''ipc: invalid active source''),
         validateOverrides (snap_ConfigOverrides s), validateTunSnapshot (snap_Tun s)]
      of Some err \<Rightarrow> Some err
       | None \<Rightarrow>
           (case run_checks (snapshotChecks s) (0, 0) of
              Inl err \<Rightarrow> Some err
            | Inr (items, textBytes) \<Rightarrow>
                if textBytes > (MaxFrameSize - 1024 - items * 256) div 6 then Some ErrSnapshotTooLarge else checkEncoded marshal s))"

section \<open>Identifiers\<close>

text \<open>The protocol and the configuration have the same grammar of identifiers, each written in its own way.\<close>

lemma id_rune_inner: "id_rune = id_inner"
  by (auto simp: id_rune_def id_inner_def fun_eq_iff)

lemma stableIDPattern_iff: "stableIDPattern ident \<longleftrightarrow> ValidStableID ident"
proof (cases ident)
  case (Cons c cs)
  have "\<not> is_alnum (CHR ''.'')" by code_simp
  with Cons show ?thesis by (auto simp: stableIDPattern_def ValidStableID_def id_rune_inner)
qed (simp add: stableIDPattern_def ValidStableID_def)

lemma ValidStableID_nonempty: "\<not> ValidStableID ''''"
  by (simp add: ValidStableID_def)

section \<open>The shape of a command\<close>

datatype field = GroupField | ChoiceField | SubscriptionField | ResourceField | FilterField | ConfigField | AutomationField
  | SubscriptionEditField | ResourceEditField | FilterEditField | DNSRoutingField

text \<open>The fields that a command carries, and those that its kind calls for.\<close>

definition present :: "Command \<Rightarrow> field \<Rightarrow> bool" where
  "present c f = (case f of
     GroupField \<Rightarrow> cmd_GroupID c \<noteq> '''' | ChoiceField \<Rightarrow> cmd_ChoiceID c \<noteq> '''' | SubscriptionField \<Rightarrow> cmd_SubscriptionID c \<noteq> ''''
   | ResourceField \<Rightarrow> cmd_ResourceID c \<noteq> '''' | FilterField \<Rightarrow> cmd_FilterID c \<noteq> '''' | ConfigField \<Rightarrow> cmd_Config c \<noteq> None
   | AutomationField \<Rightarrow> cmd_Automation c \<noteq> None | SubscriptionEditField \<Rightarrow> cmd_Subscription c \<noteq> None
   | ResourceEditField \<Rightarrow> cmd_Resource c \<noteq> None | FilterEditField \<Rightarrow> cmd_Filter c \<noteq> None | DNSRoutingField \<Rightarrow> cmd_DNSRouting c \<noteq> None)"

definition command_fields :: "(string \<times> field list) list" where
  "command_fields =
     [(CommandStart, []), (CommandStop, []), (CommandRestart, []), (CommandReloadConfiguration, []), (CommandTestNotification, []),
      (CommandAuthorizeTun, []), (CommandUpdateConfiguration, [ConfigField]), (CommandManualProbe, [GroupField]),
      (CommandSelectGroup, [GroupField, ChoiceField]), (CommandSetAutomation, [GroupField, AutomationField]),
      (CommandSetAutoFastest, [AutomationField]), (CommandPutSubscription, [SubscriptionField, SubscriptionEditField]),
      (CommandRefreshSubscription, [SubscriptionField]), (CommandActivateSubscription, [SubscriptionField]),
      (CommandDeleteSubscription, [SubscriptionField]), (CommandPutResource, [ResourceField, ResourceEditField]),
      (CommandPutFilter, [FilterField, FilterEditField]), (CommandSetDNSRouting, [DNSRoutingField]),
      (CommandRefreshResource, [ResourceField]), (CommandRefreshFilter, [FilterField])]"

definition edits_ok :: "url_parser \<Rightarrow> Command \<Rightarrow> bool" where
  "edits_ok url_Parse c \<longleftrightarrow>
     Option.bind (cmd_Config c) (validatePatch url_Parse) = None \<and> Option.bind (cmd_Subscription c) validateSubscriptionEdit = None
     \<and> Option.bind (cmd_Resource c) validateResourceEdit = None \<and> Option.bind (cmd_Filter c) validateFilterEdit = None
     \<and> Option.bind (cmd_DNSRouting c) validateDNSRouting = None"

definition identifiers_ok :: "Command \<Rightarrow> bool" where
  "identifiers_ok c \<longleftrightarrow>
     list_all (\<lambda>ident. ident = '''' \<or> ValidStableID ident) [cmd_GroupID c, cmd_ChoiceID c, cmd_SubscriptionID c, cmd_ResourceID c, cmd_FilterID c]"

lemma present_shape: "(\<forall>f. present c f \<longleftrightarrow> f \<in> set fs) \<longleftrightarrow>
   (cmd_GroupID c \<noteq> '''' \<longleftrightarrow> GroupField \<in> set fs) \<and> (cmd_ChoiceID c \<noteq> '''' \<longleftrightarrow> ChoiceField \<in> set fs)
   \<and> (cmd_SubscriptionID c \<noteq> '''' \<longleftrightarrow> SubscriptionField \<in> set fs) \<and> (cmd_ResourceID c \<noteq> '''' \<longleftrightarrow> ResourceField \<in> set fs)
   \<and> (cmd_FilterID c \<noteq> '''' \<longleftrightarrow> FilterField \<in> set fs) \<and> (cmd_Config c \<noteq> None \<longleftrightarrow> ConfigField \<in> set fs)
   \<and> (cmd_Automation c \<noteq> None \<longleftrightarrow> AutomationField \<in> set fs) \<and> (cmd_Subscription c \<noteq> None \<longleftrightarrow> SubscriptionEditField \<in> set fs)
   \<and> (cmd_Resource c \<noteq> None \<longleftrightarrow> ResourceEditField \<in> set fs) \<and> (cmd_Filter c \<noteq> None \<longleftrightarrow> FilterEditField \<in> set fs)
   \<and> (cmd_DNSRouting c \<noteq> None \<longleftrightarrow> DNSRoutingField \<in> set fs)" (is "?l \<longleftrightarrow> ?r")
proof
  assume l: ?l
  show ?r
    using l [rule_format, of GroupField] l [rule_format, of ChoiceField] l [rule_format, of SubscriptionField] l [rule_format, of ResourceField]
      l [rule_format, of FilterField] l [rule_format, of ConfigField] l [rule_format, of AutomationField] l [rule_format, of SubscriptionEditField]
      l [rule_format, of ResourceEditField] l [rule_format, of FilterEditField] l [rule_format, of DNSRoutingField]
    by (simp add: present_def)
next
  assume ?r
  then show ?l by (intro allI, case_tac f) (simp_all add: present_def)
qed

lemma Command_validate_kind:
  "Command_validate url_Parse c = None \<longleftrightarrow>
     (cmd_Kind c = CommandPutSubscription \<or> cmd_Subscription c = None) \<and> (cmd_Kind c = CommandPutResource \<or> cmd_Resource c = None)
     \<and> (cmd_Kind c = CommandPutFilter \<or> cmd_Filter c = None) \<and> (cmd_Kind c = CommandSetDNSRouting \<or> cmd_DNSRouting c = None)
     \<and> validateKind url_Parse c = None"
  by (auto simp: Command_validate_def fail_if_def)

text \<open>
  C38. A command is accepted exactly if its kind is known, it carries the fields of that kind and no others, its
  identifiers follow the grammar of the configuration, and its edit passes the checks of its type.
\<close>

theorem command_shape:
  "Command_validate url_Parse c = None \<longleftrightarrow>
     (\<exists>fs. map_of command_fields (cmd_Kind c) = Some fs \<and> (\<forall>f. present c f = (f \<in> set fs))) \<and> identifiers_ok c \<and> edits_ok url_Parse c"
proof (cases "cmd_Kind c \<in> fst ` set command_fields")
  case True
  then show ?thesis
    unfolding present_shape Command_validate_kind validateKind_def Let_def
    by (simp add: command_fields_def, elim disjE)
      (simp_all add: hasOtherFields_def hasOtherTarget_def identifiers_ok_def edits_ok_def stableIDPattern_iff del: not_None_eq cong: conj_cong,
        (safe; simp add: ValidStableID_nonempty)+)
next
  case False
  then have "map_of command_fields (cmd_Kind c) = None" by (simp add: map_of_eq_None_iff)
  moreover from False have "validateKind url_Parse c \<noteq> None"
    by (simp add: validateKind_def Let_def command_fields_def)
  ultimately show ?thesis by (simp add: Command_validate_kind)
qed

section \<open>The size of a snapshot\<close>

text \<open>\<open>metered f i t P\<close>: the check adds \<open>i\<close> items and \<open>t\<close> bytes of text, and passes exactly if \<open>P\<close> holds and both stay within their
  limits.\<close>

definition metered :: "metered_check \<Rightarrow> nat \<Rightarrow> nat \<Rightarrow> bool \<Rightarrow> bool" where
  "metered f i t P \<longleftrightarrow>
     (\<forall>a c. a \<le> itemLimit \<longrightarrow> c \<le> textLimit \<longrightarrow>
        (if P \<and> a + i \<le> itemLimit \<and> c + t \<le> textLimit then f (a, c) = Inr (a + i, c + t) else \<exists>err. f (a, c) = Inl err))"

lemma metered_fails:
  "metered f i t P \<Longrightarrow> a \<le> itemLimit \<Longrightarrow> c \<le> textLimit \<Longrightarrow> \<not> (P \<and> a + i \<le> itemLimit \<and> c + t \<le> textLimit) \<Longrightarrow> \<exists>err. f (a, c) = Inl err"
  by (simp add: metered_def)

named_theorems meters \<open>meters of the checks of a snapshot\<close>

lemma metered_addItems: "metered (addItems n) n 0 True"
  by (auto simp: metered_def addItems_def)

lemma metered_require: "metered (require P err) 0 0 P"
  by (auto simp: metered_def require_def)

lemma metered_addText: "metered (addText vs) 0 (sum_list (map length vs)) True"
proof (induction vs)
  case (Cons v vs)
  show ?case
    unfolding metered_def
  proof (intro allI impI)
    fix a c assume ac: "a \<le> itemLimit" "c \<le> textLimit"
    show "if True \<and> a + 0 \<le> itemLimit \<and> c + sum_list (map length (v # vs)) \<le> textLimit
      then addText (v # vs) (a, c) = Inr (a + 0, c + sum_list (map length (v # vs))) else \<exists>err. addText (v # vs) (a, c) = Inl err"
    proof (cases "length v > textLimit - c")
      case False
      then have "c + length v \<le> textLimit" using ac by linarith
      with Cons ac have "if c + length v + sum_list (map length vs) \<le> textLimit
          then addText vs (a, c + length v) = Inr (a, c + length v + sum_list (map length vs)) else \<exists>err. addText vs (a, c + length v) = Inl err"
        by (force simp: metered_def)
      then show ?thesis using ac False by (simp add: add.assoc)
    qed (use ac in auto)
  qed
qed (simp add: metered_def)

lemma metered_Nil: "metered (run_checks []) 0 0 True"
  by (simp add: metered_def)

lemma metered_Cons:
  assumes "metered f i t P" and "metered (run_checks fs) i' t' P'"
  shows "metered (run_checks (f # fs)) (i + i') (t + t') (P \<and> P')"
  unfolding metered_def
proof (intro allI impI)
  fix a c assume ac: "a \<le> itemLimit" "c \<le> textLimit"
  show "if (P \<and> P') \<and> a + (i + i') \<le> itemLimit \<and> c + (t + t') \<le> textLimit
    then run_checks (f # fs) (a, c) = Inr (a + (i + i'), c + (t + t')) else \<exists>err. run_checks (f # fs) (a, c) = Inl err"
  proof (cases "P \<and> a + i \<le> itemLimit \<and> c + t \<le> textLimit")
    case True
    with assms(1) ac have "f (a, c) = Inr (a + i, c + t)" by (auto simp: metered_def)
    moreover from assms(2) True have "if P' \<and> a + i + i' \<le> itemLimit \<and> c + t + t' \<le> textLimit
        then run_checks fs (a + i, c + t) = Inr (a + i + i', c + t + t') else \<exists>err. run_checks fs (a + i, c + t) = Inl err"
      by (simp add: metered_def)
    ultimately show ?thesis using True by (simp add: add.assoc)
  next
    case False
    with metered_fails [OF assms(1) ac] obtain err where "f (a, c) = Inl err" by blast
    with False show ?thesis by auto
  qed
qed

lemma metered_map:
  assumes "\<And>x. metered (f x) (i x) (t x) (P x)"
  shows "metered (run_checks (map f xs)) (sum_list (map i xs)) (sum_list (map t xs)) (list_all P xs)"
proof (induction xs)
  case (Cons x xs)
  from metered_Cons [OF assms [of x] Cons] show ?case by (simp del: run_checks.simps)
qed (simp add: metered_Nil del: run_checks.simps)

lemma metered_cong: "metered f i t P \<Longrightarrow> i = i' \<Longrightarrow> t = t' \<Longrightarrow> P = P' \<Longrightarrow> metered f i' t' P'"
  by simp

abbreviation text_of :: "string list \<Rightarrow> nat" where
  "text_of vs \<equiv> sum_list (map length vs)"

lemma text_concat: "text_of (concat (map f xs)) = sum_list (map (\<lambda>x. text_of (f x)) xs)"
  by (induction xs) simp_all

text \<open>The meter of a list of checks is found by the rules above.\<close>

lemmas meter_rules = metered_addItems metered_addText metered_require metered_Nil metered_Cons metered_map

lemma metered_meterGroup [meters]:
  "metered (meterGroup g) (length (grp_Proxies g)) (text_of ([grp_ID g, grp_Label g, grp_Type g, grp_Selected g] @ grp_Proxies g)) True"
  unfolding meterGroup_def by (rule metered_cong, (rule meter_rules)+) (simp_all add: list_all_iff)

lemma metered_meterProxy [meters]:
  "metered (meterProxy p) 0 (text_of [prx_ID p, prx_Label p, prx_GroupID p, prx_Outcome p]) (stabilityOK p)"
  unfolding meterProxy_def by (rule metered_cong, (rule meter_rules)+) simp_all

lemma metered_meterSwitch [meters]:
  "metered (meterSwitch s) (length (swi_StreamEvidence s)) (text_of (concat (map (\<lambda>e. [strm_ProxyID e, strm_Outcome e]) (swi_StreamEvidence s)))) True"
  unfolding meterSwitch_def by (rule metered_cong, (rule meter_rules)+) (simp_all add: list_all_iff text_concat)

lemma metered_meterSubscription [meters]:
  "metered (meterSubscription s) 0 (text_of [subs_ID s, subs_Name s, subs_SourceHost s, subs_HashPrefix s, subs_LastFailure s, subs_Route s])
     (subs_Route s = '''' \<or> ValidRoute (subs_Route s))"
  unfolding meterSubscription_def by (rule metered_cong, (rule meter_rules)+) simp_all

lemma metered_meterResolverSet [meters]:
  "metered (meterResolverSet s) (length (rset_Endpoints s)) (text_of (rset_ID s # rset_Endpoints s)) True"
  unfolding meterResolverSet_def by (rule metered_cong, (rule meter_rules)+) (simp_all add: list_all_iff)

lemma metered_meterDiagnostic [meters]:
  "metered (meterDiagnostic d) 0 (text_of [diag_Severity d, diag_Kind d, diag_SourceID d, diag_Message d]) (diagnosticOK d)"
  unfolding meterDiagnostic_def by (rule metered_cong, (rule meter_rules)+) simp_all


text \<open>What a snapshot holds, counted without limits.\<close>

definition snapshot_items :: "CoreSnapshot \<Rightarrow> nat" where
  "snapshot_items s = sum_list (listSizes s) + length (snap_FinishedJobs s) + length (snap_Diagnostics s)
     + sum_list (map (\<lambda>g. length (grp_Proxies g)) (snap_Groups s)) + sum_list (map (\<lambda>i. length (swi_StreamEvidence i)) (snap_Switches s))
     + sum_list (map (\<lambda>r. length (rset_Endpoints r)) (dnss_ResolverSets (snap_DNS s)))"

definition snapshot_texts :: "CoreSnapshot \<Rightarrow> string list" where
  "snapshot_texts s =
     concat (map (\<lambda>g. [grp_ID g, grp_Label g, grp_Type g, grp_Selected g] @ grp_Proxies g) (snap_Groups s))
     @ concat (map (\<lambda>p. [prx_ID p, prx_Label p, prx_GroupID p, prx_Outcome p]) (snap_Proxies s))
     @ concat (map (\<lambda>i. concat (map (\<lambda>e. [strm_ProxyID e, strm_Outcome e]) (swi_StreamEvidence i))) (snap_Switches s))
     @ concat (map (\<lambda>u. [subs_ID u, subs_Name u, subs_SourceHost u, subs_HashPrefix u, subs_LastFailure u, subs_Route u]) (snap_Subscriptions s))
     @ concat (map (\<lambda>r. [rsrc_ID r, rsrc_Kind r, rsrc_SourceHost r, rsrc_HashPrefix r, rsrc_Destination r, rsrc_LastResult r]) (snap_Resources s))
     @ concat (map (\<lambda>f. [flt_ID f, flt_ResourceID f, flt_Format f, flt_Target f]) (snap_Filters s))
     @ concat (map (\<lambda>r. rset_ID r # rset_Endpoints r) (dnss_ResolverSets (snap_DNS s)))
     @ concat (map (\<lambda>r. [rte_Suffix r, rte_GeoSite r, rte_Resource r, rte_ResolverSet r]) (dnss_Routes (snap_DNS s)))
     @ [bin_Desired (snap_Binary s), bin_ObservedVersion (snap_Binary s), bin_LastCompatibilityFailure (snap_Binary s),
        mon_TestURL (snap_Monitor s), dnss_Listen (snap_DNS s)]
     @ bin_Capabilities (snap_Binary s)
     @ concat (map (\<lambda>j. [job_ID j, job_Kind j, job_State j]) (snap_Jobs s @ snap_FinishedJobs s))
     @ concat (map (\<lambda>e. [errs_File e, errs_Key e, errs_Kind e, errs_SourceID e, errs_Message e]) (snap_Errors s))
     @ concat (map (\<lambda>d. [diag_Severity d, diag_Kind d, diag_SourceID d, diag_Message d]) (snap_Diagnostics s))"

definition entries_ok :: "CoreSnapshot \<Rightarrow> bool" where
  "entries_ok s \<longleftrightarrow>
     length (snap_FinishedJobs s) \<le> MaxFinishedJobs \<and> length (snap_Diagnostics s) \<le> MaxDiagnostics \<and> list_all stabilityOK (snap_Proxies s)
     \<and> list_all (\<lambda>u. subs_Route u = '''' \<or> ValidRoute (subs_Route u)) (snap_Subscriptions s) \<and> list_all diagnosticOK (snap_Diagnostics s)"

definition header_ok :: "CoreSnapshot \<Rightarrow> bool" where
  "header_ok s \<longleftrightarrow>
     snap_ActiveSource s \<in> {'''', ''none'', ''local'', ''subscription''} \<and> length (snap_ConfigOverrides s) \<le> length ConfigOverrideKeys
     \<and> list_all ConfigOverride_Valid (snap_ConfigOverrides s) \<and> tunSnapshotOK (snap_Tun s)"

lemma metered_entries [meters]:
  "metered (meterResource r) 0 (text_of [rsrc_ID r, rsrc_Kind r, rsrc_SourceHost r, rsrc_HashPrefix r, rsrc_Destination r, rsrc_LastResult r]) True"
  "metered (meterFilter f) 0 (text_of [flt_ID f, flt_ResourceID f, flt_Format f, flt_Target f]) True"
  "metered (meterRoute rt) 0 (text_of [rte_Suffix rt, rte_GeoSite rt, rte_Resource rt, rte_ResolverSet rt]) True"
  "metered (meterJob j) 0 (text_of [job_ID j, job_Kind j, job_State j]) True"
  "metered (meterError e) 0 (text_of [errs_File e, errs_Key e, errs_Kind e, errs_SourceID e, errs_Message e]) True"
  unfolding meterResource_def meterFilter_def meterRoute_def meterJob_def meterError_def by (rule metered_addText)+

lemma metered_snapshot: "metered (run_checks (snapshotChecks s)) (snapshot_items s) (text_of (snapshot_texts s)) (entries_ok s)"
  unfolding snapshotChecks_def
  by (rule metered_cong, (rule meter_rules meters)+) (simp_all add: snapshot_items_def snapshot_texts_def entries_ok_def text_concat list_all_iff)

lemma ipc_validateSnapshot_iff:
  "ipc_validateSnapshot marshal s = None \<longleftrightarrow>
     header_ok s \<and> entries_ok s \<and> 1024 + 256 * snapshot_items s + 6 * text_of (snapshot_texts s) \<le> MaxFrameSize
     \<and> (\<exists>body. marshal (snapshotResponse (replicate 64 (CHR ''0'')) s) = Some body \<and> length body \<le> MaxFrameSize)"
proof -
  let ?i = "snapshot_items s" and ?t = "text_of (snapshot_texts s)"
  have head: "first_error
        [fail_if (snap_ActiveSource s \<notin> {'''', ''none'', ''local'', ''subscription''}) (errors_New ''ipc: invalid active source''),
         validateOverrides (snap_ConfigOverrides s), validateTunSnapshot (snap_Tun s)] = None \<longleftrightarrow> header_ok s"
    by (auto simp: header_ok_def validateOverrides_def validateTunSnapshot_def list_all_iff)
  have enc: "checkEncoded marshal s = None \<longleftrightarrow>
      (\<exists>body. marshal (snapshotResponse (replicate 64 (CHR ''0'')) s) = Some body \<and> length body \<le> MaxFrameSize)"
    by (auto simp: checkEncoded_def split: option.split)
  have size: "1024 + 256 * ?i + 6 * ?t \<le> MaxFrameSize \<longleftrightarrow> ?i \<le> itemLimit \<and> ?t \<le> textLimit \<and> ?t \<le> (MaxFrameSize - 1024 - ?i * 256) div 6"
    by (auto simp: itemLimit_def textLimit_def MaxFrameSize_def)
  from metered_snapshot [of s] have run: "if entries_ok s \<and> ?i \<le> itemLimit \<and> ?t \<le> textLimit then run_checks (snapshotChecks s) (0, 0) = Inr (?i, ?t)
      else \<exists>err. run_checks (snapshotChecks s) (0, 0) = Inl err"
    unfolding metered_def by (metis add_0 zero_le)
  show ?thesis
  proof (cases "entries_ok s \<and> ?i \<le> itemLimit \<and> ?t \<le> textLimit")
    case True
    with run have "run_checks (snapshotChecks s) (0, 0) = Inr (?i, ?t)" by simp
    with True enc head size show ?thesis
      unfolding ipc_validateSnapshot_def by (auto simp del: first_error.simps first_error_None split: option.split)
  next
    case False
    with run obtain err where "run_checks (snapshotChecks s) (0, 0) = Inl err" by auto
    with False size show ?thesis unfolding ipc_validateSnapshot_def by (auto split: option.split)
  qed
qed

text \<open>
  C39. The validation of a snapshot with its running counters and early returns accepts exactly the snapshots whose
  entries are well formed, whose size, at 256 bytes for an item and six for a byte of text beside 1024 for the frame,
  fits the largest frame, and whose encoding in a response does.
\<close>

theorem snapshot_budget:
  "ipc_validateSnapshot marshal s = None \<longleftrightarrow>
     header_ok s \<and> entries_ok s \<and> 1024 + 256 * snapshot_items s + 6 * text_of (snapshot_texts s) \<le> MaxFrameSize
     \<and> (\<exists>body. marshal (snapshotResponse (replicate 64 (CHR ''0'')) s) = Some body \<and> length body \<le> MaxFrameSize)"
  by (rule ipc_validateSnapshot_iff)

end
