(* ===== verification/Ipc_Frame.thy ===== *)
theory Ipc_Frame
  imports Ipc_Protocol
begin

text \<open>
  Frames on a connection (\<open>src/ipc/frame.go\<close>): a length of four bytes and a JSON document.

  What arrives on a connection is a list of pieces, one for each read that has something to return; after the last one
  a read fails, because the peer has closed or the time is up. A writer accepts a number of bytes of each
  write, given by a list, and everything after its end. \<open>marshal\<close> and \<open>decode\<close> stand for \<open>encoding/json\<close>.
\<close>

section \<open>Reading\<close>

definition EOF_error :: go_error where "EOF_error = errors_New ''EOF''"
definition ErrUnexpectedEOF :: go_error where "ErrUnexpectedEOF = errors_New ''unexpected EOF''"
definition ErrNoProgress :: go_error where "ErrNoProgress = errors_New ''multiple Read calls return no data or error''"
definition ErrShortWrite :: go_error where "ErrShortWrite = errors_New ''short write''"
definition errFrameTooLarge :: go_error where "errFrameTooLarge = errors_New ''ipc: frame exceeds size limit''"

type_synonym pieces = "bytes list"

text \<open>One read of at most \<open>n\<close> bytes.\<close>

fun conn_Read :: "nat \<Rightarrow> pieces \<Rightarrow> (go_error + bytes) \<times> pieces" where
  "conn_Read n [] = (Inl EOF_error, [])"
| "conn_Read n (p # ps) = (Inr (take n p), if length p \<le> n then ps else drop n p # ps)"

text \<open>\<open>io.ReadFull\<close>, with the bytes read so far.\<close>

fun io_ReadFull :: "bytes \<Rightarrow> nat \<Rightarrow> pieces \<Rightarrow> (go_error + bytes) \<times> pieces" where
  "io_ReadFull got n [] = (if n = 0 then (Inr got, []) else (Inl (if got = '''' then EOF_error else ErrUnexpectedEOF), []))"
| "io_ReadFull got n (p # ps) =
     (if n = 0 then (Inr got, p # ps)
      else if length p \<le> n then io_ReadFull (got @ p) (n - length p) ps
      else (Inr (got @ take n p), drop n p # ps))"

definition BigEndian_Uint32 :: "bytes \<Rightarrow> nat" where
  "BigEndian_Uint32 header = fold (\<lambda>c n. n * 256 + of_char c) (take 4 header) 0"

definition BigEndian_PutUint32 :: "nat \<Rightarrow> bytes" where
  "BigEndian_PutUint32 n = map (\<lambda>k. char_of (n div 256 ^ k)) [3, 2, 1, 0]"

text \<open>What a decoder finds after the value it returned.\<close>

datatype tail = Tail_EOF | Tail_Value | Tail_Error go_error

definition decodeBody :: "(bytes \<Rightarrow> go_error + 'a \<times> tail) \<Rightarrow> bytes \<Rightarrow> go_error + 'a" where
  "decodeBody decode body =
     (case decode body of
        Inl err \<Rightarrow> Inl err
      | Inr (v, Tail_EOF) \<Rightarrow> Inr v
      | Inr (v, Tail_Value) \<Rightarrow> Inl (errors_New ''ipc: multiple JSON values in frame'')
      | Inr (v, Tail_Error err) \<Rightarrow> Inl err)"

definition readFrameBody :: "(bytes \<Rightarrow> go_error + 'a \<times> tail) \<Rightarrow> bytes \<Rightarrow> pieces \<Rightarrow> (go_error + 'a) \<times> pieces" where
  "readFrameBody decode header ps =
     (let n = BigEndian_Uint32 header in
      if n = 0 \<or> n > MaxFrameSize then (Inl errFrameTooLarge, ps)
      else case io_ReadFull '''' n ps of
             (Inl err, ps') \<Rightarrow> (Inl err, ps')
           | (Inr body, ps') \<Rightarrow> (decodeBody decode body, ps'))"

definition readFrame :: "(bytes \<Rightarrow> go_error + 'a \<times> tail) \<Rightarrow> pieces \<Rightarrow> (go_error + 'a) \<times> pieces" where
  "readFrame decode ps =
     (case io_ReadFull '''' 4 ps of
        (Inl err, ps') \<Rightarrow> (Inl err, ps')
      | (Inr header, ps') \<Rightarrow> readFrameBody decode header ps')"

definition readConnFrame :: "(bytes \<Rightarrow> go_error + 'a \<times> tail) \<Rightarrow> pieces \<Rightarrow> (go_error + 'a) \<times> pieces" where
  "readConnFrame decode ps =
     (case conn_Read 4 ps of
        (Inl err, ps') \<Rightarrow> (Inl err, ps')
      | (Inr first, ps') \<Rightarrow>
          if first = '''' then (Inl ErrNoProgress, ps')
          else if length first < 4 then
            (case io_ReadFull '''' (4 - length first) ps' of
               (Inl err, ps'') \<Rightarrow> (Inl err, ps'')
             | (Inr rest, ps'') \<Rightarrow> readFrameBody decode (first @ rest) ps'')
          else readFrameBody decode first ps')"

section \<open>Writing\<close>

text \<open>The bytes sent, the error and what is left of the list of the writer.\<close>

fun writeFull :: "(nat \<times> go_error option) list \<Rightarrow> bytes \<Rightarrow> bytes \<times> go_error option \<times> (nat \<times> go_error option) list" where
  "writeFull [] body = (body, None, [])"
| "writeFull ((n, err) # ws) body =
     (if body = '''' then ('''', None, (n, err) # ws)
      else if err \<noteq> None then (take n body, err, ws)
      else if n = 0 then ('''', Some ErrShortWrite, ws)
      else case writeFull ws (drop n body) of (sent, res, ws') \<Rightarrow> (take n body @ sent, res, ws'))"

definition writeFrame :: "('a \<Rightarrow> bytes option) \<Rightarrow> (nat \<times> go_error option) list \<Rightarrow> 'a \<Rightarrow> bytes \<times> go_error option \<times> (nat \<times> go_error option) list" where
  "writeFrame marshal ws v =
     (case marshal v of
        None \<Rightarrow> ('''', Some (errors_New ''json: unsupported value''), ws)
      | Some body \<Rightarrow>
          if body = '''' \<or> length body > MaxFrameSize then ('''', Some errFrameTooLarge, ws)
          else case writeFull ws (BigEndian_PutUint32 (length body)) of
                 (sent, Some err, ws') \<Rightarrow> (sent, Some err, ws')
               | (sent, None, ws') \<Rightarrow> (case writeFull ws' body of (sent', res, ws'') \<Rightarrow> (sent @ sent', res, ws'')))"

text \<open>Frames written one after the other, until one fails, and frames read one after the other.\<close>

fun writeFrames :: "('a \<Rightarrow> bytes option) \<Rightarrow> (nat \<times> go_error option) list \<Rightarrow> 'a list \<Rightarrow> bytes \<times> go_error option" where
  "writeFrames marshal ws [] = ('''', None)"
| "writeFrames marshal ws (v # vs) =
     (case writeFrame marshal ws v of
        (sent, Some err, ws') \<Rightarrow> (sent, Some err)
      | (sent, None, ws') \<Rightarrow> (case writeFrames marshal ws' vs of (sent', res) \<Rightarrow> (sent @ sent', res)))"

fun readFrames :: "(bytes \<Rightarrow> go_error + 'a \<times> tail) \<Rightarrow> nat \<Rightarrow> pieces \<Rightarrow> (go_error + 'a list) \<times> pieces" where
  "readFrames decode 0 ps = (Inr [], ps)"
| "readFrames decode (Suc n) ps =
     (case readConnFrame decode ps of
        (Inl err, ps') \<Rightarrow> (Inl err, ps')
      | (Inr v, ps') \<Rightarrow>
          (case readFrames decode n ps' of
             (Inl err, ps'') \<Rightarrow> (Inl err, ps'')
           | (Inr vs, ps'') \<Rightarrow> (Inr (v # vs), ps'')))"

section \<open>What was written is read\<close>

lemma Uint32_PutUint32:
  assumes "n < 256 ^ 4"
  shows "BigEndian_Uint32 (BigEndian_PutUint32 n) = n" and "length (BigEndian_PutUint32 n) = 4"
proof -
  define a b c where "a = n div 256" and "b = a div 256" and "c = b div 256"
  have n: "n div 256 ^ 1 = a" "n div 256 ^ 2 = b" "n div 256 ^ 3 = c" by (simp_all add: a_def b_def c_def div_mult2_eq [symmetric])
  have "c < 256" using assms by (simp add: a_def b_def c_def div_mult2_eq [symmetric] less_mult_imp_div_less)
  moreover have "n = a * 256 + n mod 256" "a = b * 256 + a mod 256" "b = c * 256 + b mod 256" by (simp_all add: a_def b_def c_def)
  ultimately show "BigEndian_Uint32 (BigEndian_PutUint32 n) = n"
    using n by (simp add: BigEndian_Uint32_def BigEndian_PutUint32_def)
  show "length (BigEndian_PutUint32 n) = 4" by (simp add: BigEndian_PutUint32_def)
qed

lemma io_ReadFull_bytes:
  assumes "n \<le> length (concat ps)" and "'''' \<notin> set ps"
  shows "\<exists>ps'. io_ReadFull got n ps = (Inr (got @ take n (concat ps)), ps') \<and> concat ps' = drop n (concat ps) \<and> '''' \<notin> set ps'"
  using assms
proof (induction got n ps rule: io_ReadFull.induct)
  case (2 got n p ps)
  then show ?case by (cases "length p \<le> n") auto
qed simp

lemma readFrameBody_frame:
  assumes "concat ps = body @ rest" and "'''' \<notin> set ps" and "body \<noteq> ''''" and "length body \<le> MaxFrameSize" and "decode body = Inr (v, Tail_EOF)"
    and "BigEndian_Uint32 header = length body"
  shows "\<exists>ps'. readFrameBody decode header ps = (Inr v, ps') \<and> concat ps' = rest \<and> '''' \<notin> set ps'"
proof -
  from io_ReadFull_bytes [of "length body" ps "''''"] assms(1,2) obtain ps' where
    "io_ReadFull '''' (length body) ps = (Inr body, ps')" "concat ps' = rest" "'''' \<notin> set ps'" by auto
  with assms(3-6) show ?thesis by (simp add: readFrameBody_def decodeBody_def)
qed

definition frameBytes :: "bytes \<Rightarrow> bytes" where
  "frameBytes body = BigEndian_PutUint32 (length body) @ body"

lemma readConnFrame_frame:
  assumes bytes: "concat ps = frameBytes body @ rest" and ps: "'''' \<notin> set ps" and body: "body \<noteq> ''''" "length body \<le> MaxFrameSize"
    and decode: "decode body = Inr (v, Tail_EOF)"
  shows "\<exists>ps'. readConnFrame decode ps = (Inr v, ps') \<and> concat ps' = rest \<and> '''' \<notin> set ps'"
proof -
  let ?h = "BigEndian_PutUint32 (length body)"
  have "length body < 256 ^ 4" using body(2) by (simp add: MaxFrameSize_def)
  note h = Uint32_PutUint32 [OF this]
  have all: "concat ps = ?h @ body @ rest" using bytes by (simp add: frameBytes_def)
  then obtain p qs where p: "ps = p # qs" "p \<noteq> ''''" using ps h(2) by (cases ps) auto
  show ?thesis
  proof (cases "length p < 4")
    case True
    have "p = take (length p) ?h" and qs: "concat qs = drop (length p) ?h @ body @ rest"
      using all p(1) True h(2) by (auto simp: append_eq_append_conv_if)
    then have head: "p @ drop (length p) ?h = ?h" by (metis append_take_drop_id)
    have "4 - length p \<le> length (concat qs)" using qs h(2) by simp
    from io_ReadFull_bytes [OF this, of "''''"] ps p(1) qs h(2) obtain qs' where
      q: "io_ReadFull '''' (4 - length p) qs = (Inr (drop (length p) ?h), qs')" "concat qs' = body @ rest" "'''' \<notin> set qs'" by auto
    from readFrameBody_frame [OF q(2,3) body, where decode = decode, OF decode h(1)] q(1) head p True show ?thesis
      by (simp add: readConnFrame_def)
  next
    case False
    let ?ps = "if length p \<le> 4 then qs else drop 4 p # qs"
    have "take 4 (concat ps) = ?h" "drop 4 (concat ps) = body @ rest" using all h(2) by auto
    then have take: "take 4 p = ?h" and rest: "concat ?ps = body @ rest" using p(1) False by auto
    have ne: "'''' \<notin> set ?ps" using ps p(1) by auto
    have hn: "?h \<noteq> ''''" using h(2) by auto
    from readFrameBody_frame [OF rest ne body, where decode = decode, OF decode h(1)] take p(1) hn False h(2) show ?thesis
      by (simp add: readConnFrame_def)
  qed
qed

lemma writeFull_sends:
  assumes "writeFull ws body = (sent, None, ws')"
  shows "sent = body"
  using assms by (induction ws body arbitrary: sent ws' rule: writeFull.induct) (auto split: if_splits prod.splits)

lemma writeFrame_sends:
  assumes "writeFrame marshal ws v = (sent, None, ws')"
  shows "\<exists>body. marshal v = Some body \<and> body \<noteq> '''' \<and> length body \<le> MaxFrameSize \<and> sent = frameBytes body"
  using assms by (auto simp: writeFrame_def frameBytes_def dest: writeFull_sends split: option.splits if_splits prod.splits)

text \<open>The first of several frames is read, and the rest stays.\<close>

lemma writeFrames_read:
  assumes "writeFrames marshal ws (v # vs) = (sent, None)" and "concat ps = sent @ rest" and "'''' \<notin> set ps"
    and "\<forall>v\<in>set (v # vs). \<forall>body. marshal v = Some body \<longrightarrow> decode body = Inr (v, Tail_EOF)"
  shows "\<exists>ws' sent' ps'. writeFrames marshal ws' vs = (sent', None) \<and> readConnFrame decode ps = (Inr v, ps') \<and> concat ps' = sent' @ rest \<and> '''' \<notin> set ps'"
proof -
  from assms(1) obtain s ws' s' where s: "writeFrame marshal ws v = (s, None, ws')" "writeFrames marshal ws' vs = (s', None)" "sent = s @ s'"
    by (auto split: prod.splits option.splits)
  from writeFrame_sends [OF s(1)] obtain body where body: "marshal v = Some body" "body \<noteq> ''''" "length body \<le> MaxFrameSize" "s = frameBytes body"
    by blast
  have "concat ps = frameBytes body @ s' @ rest" using assms(2) s(3) body(4) by simp
  from readConnFrame_frame [OF this assms(3) body(2,3), of decode v] assms(4) body(1) s(2) show ?thesis by auto
qed

text \<open>
  C40. The frames that were written without an error are read as they were written, however the bytes were
  divided between the writes and between the reads, provided the decoder gives back what was encoded.
\<close>

theorem frames_roundtrip:
  assumes "writeFrames marshal ws vs = (sent, None)" and "concat ps = sent @ rest" and "'''' \<notin> set ps"
    and "\<forall>v\<in>set vs. \<forall>body. marshal v = Some body \<longrightarrow> decode body = Inr (v, Tail_EOF)"
  shows "\<exists>ps'. readFrames decode (length vs) ps = (Inr vs, ps') \<and> concat ps' = rest \<and> '''' \<notin> set ps'"
  using assms
proof (induction vs arbitrary: ws sent ps)
  case (Cons v vs)
  from writeFrames_read [OF Cons.prems] obtain ws' sent' ps' where
    "writeFrames marshal ws' vs = (sent', None)" "readConnFrame decode ps = (Inr v, ps')" "concat ps' = sent' @ rest" "'''' \<notin> set ps'" by blast
  with Cons.IH [of ws' sent' ps'] Cons.prems(4) show ?case by auto
qed simp

theorem frames_roundtrip_witness:
  "\<exists>ps'. readFrames (\<lambda>body. Inr (body, Tail_EOF)) 2 [[CHR 0x00], [CHR 0x00, CHR 0x00], CHR 0x02 # ''{'', ''}'' @ [CHR 0x00, CHR 0x00, CHR 0x00, CHR 0x01], ''7x'']
       = (Inr [''{}'', ''7''], ps') \<and> concat ps' = ''x'' \<and> '''' \<notin> set ps'"
proof -
  have w: "writeFrames Some [(3, None), (1, None), (1, None)] [''{}'', ''7'']
      = (frameBytes ''{}'' @ frameBytes ''7'', None)"
    by (simp add: writeFrame_def frameBytes_def BigEndian_PutUint32_def MaxFrameSize_def)
  have "concat [[CHR 0x00], [CHR 0x00, CHR 0x00], CHR 0x02 # ''{'', ''}'' @ [CHR 0x00, CHR 0x00, CHR 0x00, CHR 0x01], ''7x'']
      = (frameBytes ''{}'' @ frameBytes ''7'') @ ''x''"
    by (simp add: frameBytes_def BigEndian_PutUint32_def char_of_def bit_iff_odd)
  from frames_roundtrip [OF w this, of "\<lambda>body. Inr (body, Tail_EOF)"] show ?thesis by (simp add: eval_nat_numeral del: readFrames.simps)
qed

end
