(* ===== verification/Ipc_Server.thy ===== *)
theory Ipc_Server
  imports Ipc_Frame
begin

text \<open>
  The server of the inter-process protocol (\<open>src/ipc/server.go\<close>) and what its client makes of the answers
  (\<open>src/ipc/client.go\<close>).

  The state of the server is a record with its connections by number; \<open>srv_app\<close> is the state behind the handler. An
  operation that holds the mutex is one function. A connection is served by a loop over the frames that arrive on
  it; a list of booleans tells which of its writes succeed, and those after its end do. Sockets, deadlines and the check of
  the peer are not modelled, nor is \<open>normalizeEndpoint\<close>.
\<close>

section \<open>Server\<close>

text \<open>A connected client: \<open>scl_events\<close> is the channel of capacity one.\<close>

record serverClient =
  scl_subscribed :: bool
  scl_events :: "CoreSnapshot option"
  scl_done :: bool

record 'w Server =
  srv_snapshot :: CoreSnapshot
  srv_clients :: "(nat \<times> serverClient) list"
  srv_closed :: bool
  srv_jobs :: nat
  srv_app :: 'w

type_synonym 'w handler = "Command \<Rightarrow> 'w \<Rightarrow> go_error option \<times> 'w"

definition NewServer :: "(serverFrame \<Rightarrow> bytes option) \<Rightarrow> CoreSnapshot \<Rightarrow> 'w \<Rightarrow> go_error + 'w Server" where
  "NewServer marshal initial app =
     (case ipc_validateSnapshot marshal initial of
        Some err \<Rightarrow> Inl err
      | None \<Rightarrow> Inr \<lparr> srv_snapshot = initial, srv_clients = [], srv_closed = False, srv_jobs = 0, srv_app = app \<rparr>)"

definition newServerClient :: "bool \<Rightarrow> serverClient" where
  "newServerClient subscribed = \<lparr> scl_subscribed = subscribed, scl_events = None, scl_done = False \<rparr>"

definition offer :: "CoreSnapshot \<Rightarrow> serverClient \<Rightarrow> serverClient" where
  "offer snapshot c =
     (if \<not> scl_subscribed c then c
      else if scl_done c then c
      else c\<lparr> scl_events := Some snapshot \<rparr>)"

definition shutdown :: "serverClient \<Rightarrow> serverClient" where
  "shutdown c = c\<lparr> scl_done := True \<rparr>"

definition Publish :: "(serverFrame \<Rightarrow> bytes option) \<Rightarrow> CoreSnapshot \<Rightarrow> 'w Server \<Rightarrow> go_error option \<times> 'w Server" where
  "Publish marshal snapshot s =
     (case ipc_validateSnapshot marshal snapshot of
        Some err \<Rightarrow> (Some err, s)
      | None \<Rightarrow> (None, s\<lparr> srv_snapshot := snapshot, srv_clients := map (\<lambda>(k, c). (k, offer snapshot c)) (srv_clients s) \<rparr>))"

definition addClient :: "nat \<Rightarrow> serverClient \<Rightarrow> bool \<Rightarrow> 'w Server \<Rightarrow> bool \<times> 'w Server" where
  "addClient k client subscribe s =
     (if srv_closed s then (False, s)
      else (True, s\<lparr> srv_clients := AList.update k (if subscribe then offer (srv_snapshot s) client else client) (srv_clients s) \<rparr>))"

definition removeClient :: "nat \<Rightarrow> 'w Server \<Rightarrow> 'w Server" where
  "removeClient k s = s\<lparr> srv_clients := AList.delete k (srv_clients s) \<rparr>"

definition Server_Close :: "'w Server \<Rightarrow> 'w Server" where
  "Server_Close s = s\<lparr> srv_closed := True, srv_clients := map (\<lambda>(k, c). (k, shutdown c)) (srv_clients s) \<rparr>"

section \<open>Answers\<close>

definition baseResponse :: "string \<Rightarrow> serverFrame" where
  "baseResponse ident = \<lparr> sf_Type = ''response'', sf_Version = 0, sf_RequestID = ident, sf_Acknowledgement = None, sf_Snapshot = None, sf_Error = None \<rparr>"

definition errorResponse :: "string \<Rightarrow> string \<Rightarrow> string \<Rightarrow> serverFrame" where
  "errorResponse ident code message = (baseResponse ident)\<lparr> sf_Error := Some \<lparr> per_Code = code, per_Message = message \<rparr> \<rparr>"

definition invalidRequestResponse :: "string \<Rightarrow> serverFrame" where
  "invalidRequestResponse ident = errorResponse ident ''invalid_request'' ''invalid request''"

definition safeRequestID :: "string \<Rightarrow> string" where
  "safeRequestID ident = (if requestIDPattern ident then ident else '''')"

definition eventFrame :: "CoreSnapshot \<Rightarrow> serverFrame" where
  "eventFrame snapshot = \<lparr> sf_Type = ''event'', sf_Version = 0, sf_RequestID = '''', sf_Acknowledgement = None, sf_Snapshot = Some snapshot, sf_Error = None \<rparr>"

definition jobID :: "nat \<Rightarrow> string" where
  "jobID n = ''ipc-'' @ strconv_Itoa (int n)"

text \<open>The handshake: the answer to the first frame, and whether the connection goes on.\<close>

definition handshake :: "clientFrame \<Rightarrow> bool \<times> serverFrame" where
  "handshake hello =
     (if cf_Type hello \<noteq> ''hello'' \<or> cf_RequestID hello \<noteq> '''' \<or> cf_Operation hello \<noteq> '''' \<or> cf_Command hello \<noteq> None then
        (False, (baseResponse '''')\<lparr> sf_Type := ''error'', sf_Error := Some \<lparr> per_Code = ''invalid_hello'', per_Message = ''invalid protocol handshake'' \<rparr> \<rparr>)
      else if cf_Version hello \<noteq> ProtocolVersion then
        (False, (baseResponse '''')\<lparr> sf_Type := ''error'', sf_Version := ProtocolVersion,
           sf_Error := Some \<lparr> per_Code = ''incompatible_version'',
             per_Message = ''incompatible protocol version: client '' @ strconv_Itoa (int (cf_Version hello)) @ '', server '' @ strconv_Itoa (int ProtocolVersion) \<rparr> \<rparr>)
      else (True, (baseResponse '''')\<lparr> sf_Type := ''ready'', sf_Version := ProtocolVersion \<rparr>))"

definition runCommand :: "'w handler \<Rightarrow> string \<Rightarrow> Command \<Rightarrow> 'w Server \<Rightarrow> serverFrame \<times> 'w Server" where
  "runCommand handler ident c s =
     (let job = jobID (srv_jobs s + 1) in
      case handler (c\<lparr> cmd_JobID := job \<rparr>) (srv_app s) of (err, app) \<Rightarrow>
        (if err \<noteq> None then errorResponse ident ''command_rejected'' ''command was not queued''
         else (baseResponse ident)\<lparr> sf_Acknowledgement := Some \<lparr> ack_Queued = True, ack_JobID = job \<rparr> \<rparr>,
         s\<lparr> srv_jobs := srv_jobs s + 1, srv_app := app \<rparr>))"

definition serveRequest :: "url_parser \<Rightarrow> 'w handler \<Rightarrow> clientFrame \<Rightarrow> 'w Server \<Rightarrow> serverFrame \<times> 'w Server" where
  "serveRequest url_Parse handler request s =
     (let ident = cf_RequestID request in
      if cf_Type request \<noteq> ''request'' \<or> \<not> requestIDPattern ident \<or> cf_Version request \<noteq> 0 \<or> cf_Subscribe request then
        (invalidRequestResponse (safeRequestID ident), s)
      else if cf_Operation request = ''snapshot'' then
        (if cf_Command request \<noteq> None then invalidRequestResponse ident else snapshotResponse ident (srv_snapshot s), s)
      else if cf_Operation request = ''command'' then
        (case cf_Command request of
           None \<Rightarrow> (errorResponse ident ''invalid_command'' ''invalid command'', s)
         | Some c \<Rightarrow>
             if Command_validate url_Parse c \<noteq> None then (errorResponse ident ''invalid_command'' ''invalid command'', s)
             else runCommand handler ident c s)
      else (invalidRequestResponse ident, s))"

lemma io_ReadFull_shrinks: "io_ReadFull got n ps = (r, ps') \<Longrightarrow> length (concat ps') \<le> length (concat ps)"
  by (induction got n ps rule: io_ReadFull.induct) (auto split: if_splits)

lemma readConnFrame_shrinks:
  assumes "readConnFrame decode ps = (Inr v, ps')"
  shows "length (concat ps') < length (concat ps)"
proof -
  from assms obtain p qs where ps: "ps = p # qs" and p: "p \<noteq> ''''" by (cases ps) (auto simp: readConnFrame_def split: if_splits)
  let ?ps = "if length p \<le> 4 then qs else drop 4 p # qs"
  have "length (concat ?ps) < length (concat ps)" using ps p by auto
  moreover from assms ps p have "length (concat ps') \<le> length (concat ?ps)"
    by (auto simp: readConnFrame_def readFrameBody_def Let_def dest!: io_ReadFull_shrinks split: if_splits prod.splits sum.splits)
  ultimately show ?thesis by simp
qed

text \<open>The loop of \<open>serveConnection\<close>: the frames written and the server after it.\<close>

function serveLoop :: "url_parser \<Rightarrow> (bytes \<Rightarrow> go_error + clientFrame \<times> tail) \<Rightarrow> 'w handler \<Rightarrow> bool list \<Rightarrow> pieces \<Rightarrow> 'w Server
  \<Rightarrow> serverFrame list \<times> 'w Server" where
  "serveLoop url_Parse decode handler writes ps s =
     (case readConnFrame decode ps of
        (Inl _, _) \<Rightarrow> ([], s)
      | (Inr request, ps') \<Rightarrow>
          (case serveRequest url_Parse handler request s of (frame, s') \<Rightarrow>
             if writes \<noteq> [] \<and> \<not> hd writes then ([], s')
             else case serveLoop url_Parse decode handler (tl writes) ps' s' of (frames, s'') \<Rightarrow> (frame # frames, s'')))"
  by pat_completeness auto
termination
  by (relation "measure (\<lambda>(_, _, _, _, ps, _). length (concat ps))") (auto intro: readConnFrame_shrinks [OF sym])

declare serveLoop.simps [simp del]

definition serveConnection ::
  "url_parser \<Rightarrow> (bytes \<Rightarrow> go_error + clientFrame \<times> tail) \<Rightarrow> 'w handler \<Rightarrow> nat \<Rightarrow> bool list \<Rightarrow> pieces \<Rightarrow> 'w Server \<Rightarrow> serverFrame list \<times> 'w Server" where
  "serveConnection url_Parse decode handler k writes ps s =
     (case readFrame decode ps of
        (Inl _, _) \<Rightarrow> ([], s)
      | (Inr hello, ps') \<Rightarrow>
          (case handshake hello of (ok, frame) \<Rightarrow>
             let written = (if writes \<noteq> [] \<and> \<not> hd writes then [] else [frame]) in
             if \<not> ok then (written, s)
             else case addClient k (newServerClient (cf_Subscribe hello)) (cf_Subscribe hello) s of (added, s') \<Rightarrow>
               if \<not> added then ([], s')
               else if written = [] then ([], removeClient k s')
               else case serveLoop url_Parse decode handler (tl writes) ps' s' of (frames, s'') \<Rightarrow> (frame # frames, removeClient k s'')))"

section \<open>Client\<close>

definition errorFromProtocol :: "protocolError option \<Rightarrow> nat \<Rightarrow> go_error" where
  "errorFromProtocol remote serverVersion =
     (case remote of
        None \<Rightarrow> errors_New ''ipc: invalid protocol error response''
      | Some e \<Rightarrow>
          if per_Code e = ''incompatible_version'' then
            Wrapf ''%w: client supports %d, server supports %d'' [strconv_Itoa (int ProtocolVersion), strconv_Itoa (int serverVersion)]
              (errors_New ''ipc: incompatible protocol version'')
          else if per_Code e = ''invalid_hello'' \<or> per_Code e = ''invalid_request'' then errors_New ''ipc: invalid protocol request''
          else if per_Code e = ''invalid_command'' then errors_New ''ipc: invalid command''
          else if per_Code e = ''command_rejected'' then errors_New ''ipc: command was not queued''
          else errors_New ''ipc: protocol error'')"

text \<open>The first frame of a client and its judgement of the answer.\<close>

definition helloFrame :: clientFrame where
  "helloFrame = \<lparr> cf_Type = ''hello'', cf_Version = ProtocolVersion, cf_Subscribe = True, cf_RequestID = '''', cf_Operation = '''', cf_Command = None \<rparr>"

definition acceptReady :: "serverFrame \<Rightarrow> go_error option" where
  "acceptReady ready =
     (if sf_Type ready = ''error'' then Some (errorFromProtocol (sf_Error ready) (sf_Version ready))
      else if sf_Type ready \<noteq> ''ready'' \<or> sf_Version ready \<noteq> ProtocolVersion then
        Some (Wrapf ''%w: client supports %d, server supports %d'' [strconv_Itoa (int ProtocolVersion), strconv_Itoa (int (sf_Version ready))]
          (errors_New ''ipc: incompatible protocol version''))
      else None)"

text \<open>The state of a client: the requests that wait for an answer, the answers delivered to them, the pending event and the
  error that ended the connection.\<close>

record Client =
  cl_nextID :: nat
  cl_pending :: "string list"
  cl_delivered :: "(string \<times> serverFrame) list"
  cl_events :: "CoreSnapshot option"
  cl_terminal :: "go_error option"

definition requestFrame :: "nat \<Rightarrow> string \<Rightarrow> Command option \<Rightarrow> clientFrame" where
  "requestFrame n operation c = \<lparr> cf_Type = ''request'', cf_Version = 0, cf_Subscribe = False, cf_RequestID = strconv_Itoa (int n),
     cf_Operation = operation, cf_Command = c \<rparr>"

definition Client_request :: "string \<Rightarrow> Command option \<Rightarrow> Client \<Rightarrow> (go_error + clientFrame) \<times> Client" where
  "Client_request operation c cl =
     (case cl_terminal cl of
        Some err \<Rightarrow> (Inl err, cl)
      | None \<Rightarrow>
          let frame = requestFrame (cl_nextID cl + 1) operation c in
          (Inr frame, cl\<lparr> cl_nextID := cl_nextID cl + 1, cl_pending := cf_RequestID frame # cl_pending cl \<rparr>))"

definition removePending :: "string \<Rightarrow> Client \<Rightarrow> Client" where
  "removePending ident cl = cl\<lparr> cl_pending := filter (\<lambda>k. k \<noteq> ident) (cl_pending cl) \<rparr>"

definition Client_finish :: "go_error \<Rightarrow> Client \<Rightarrow> Client" where
  "Client_finish err cl = (if cl_terminal cl \<noteq> None then cl else cl\<lparr> cl_terminal := Some err, cl_pending := [] \<rparr>)"

definition offerEvent :: "CoreSnapshot \<Rightarrow> Client \<Rightarrow> Client" where
  "offerEvent snapshot cl = (if cl_terminal cl \<noteq> None then cl else cl\<lparr> cl_events := Some snapshot \<rparr>)"

text \<open>One frame in the loop that reads.\<close>

definition receiveFrame :: "(serverFrame \<Rightarrow> bytes option) \<Rightarrow> serverFrame \<Rightarrow> Client \<Rightarrow> Client" where
  "receiveFrame marshal frame cl =
     (if sf_Type frame = ''response'' then
        (let ident = sf_RequestID frame in
         if \<not> requestIDPattern ident then Client_finish (errors_New ''ipc: invalid server response'') cl
         else if ident \<in> set (cl_pending cl) then
           (removePending ident cl)\<lparr> cl_delivered := (ident, frame) # cl_delivered cl \<rparr>
         else cl)
      else if sf_Type frame = ''event'' then
        (case sf_Snapshot frame of
           None \<Rightarrow> Client_finish (errors_New ''ipc: invalid snapshot event'') cl
         | Some snapshot \<Rightarrow>
             if ipc_validateSnapshot marshal snapshot \<noteq> None \<or> sf_Acknowledgement frame \<noteq> None \<or> sf_Error frame \<noteq> None
             then Client_finish (errors_New ''ipc: invalid snapshot event'') cl
             else offerEvent snapshot cl)
      else Client_finish (errors_New ''ipc: invalid server message'') cl)"

text \<open>What \<open>Send\<close> and \<open>Snapshot\<close> return for the frame delivered to their request.\<close>

definition sendResult :: "serverFrame \<Rightarrow> go_error + Acknowledgement" where
  "sendResult frame =
     (if sf_Error frame \<noteq> None then Inl (errorFromProtocol (sf_Error frame) (sf_Version frame))
      else case sf_Acknowledgement frame of
             None \<Rightarrow> Inl (errors_New ''ipc: invalid command acknowledgement'')
           | Some ack \<Rightarrow>
               if \<not> ack_Queued ack \<or> sf_Snapshot frame \<noteq> None then Inl (errors_New ''ipc: invalid command acknowledgement'') else Inr ack)"

definition snapshotResult :: "(serverFrame \<Rightarrow> bytes option) \<Rightarrow> serverFrame \<Rightarrow> go_error + CoreSnapshot" where
  "snapshotResult marshal frame =
     (if sf_Error frame \<noteq> None then Inl (errorFromProtocol (sf_Error frame) (sf_Version frame))
      else case sf_Snapshot frame of
             None \<Rightarrow> Inl (errors_New ''ipc: invalid snapshot response'')
           | Some snapshot \<Rightarrow>
               if sf_Acknowledgement frame \<noteq> None \<or> ipc_validateSnapshot marshal snapshot \<noteq> None
               then Inl (errors_New ''ipc: invalid snapshot response'') else Inr snapshot)"

section \<open>Requests and answers\<close>

lemma itoa_length: "n < 10 ^ k \<Longrightarrow> 0 < k \<Longrightarrow> 0 \<le> n \<Longrightarrow> length (itoa_nonneg n) \<le> k"
proof (induction n arbitrary: k rule: itoa_nonneg.induct)
  case (1 n)
  show ?case
  proof (cases "n < 10")
    case False
    with 1(2) have "k \<noteq> 1" by auto
    with 1(3) obtain j where k: "k = Suc j" "0 < j" by (cases k) auto
    have "n div 10 < 10 ^ j" using 1(2,4) k(1) by (simp add: less_mult_imp_div_less)
    with 1(1) [of j] False 1(4) k show ?thesis by (simp add: itoa_nonneg.simps [of n])
  qed (use 1 in \<open>simp add: itoa_nonneg.simps [of n]\<close>)
qed

lemma requestID_Itoa: "n < 2 ^ 64 \<Longrightarrow> requestIDPattern (strconv_Itoa (int n))"
proof -
  assume "n < 2 ^ 64"
  then have "int n < 10 ^ 20" by simp
  then have "length (itoa_nonneg (int n)) \<le> 20" by (rule itoa_length) simp_all
  moreover have "itoa_nonneg (int n) \<noteq> []" "list_all is_digit (itoa_nonneg (int n))" using itoa_nonneg_digits [of "int n"] by simp_all
  ultimately show ?thesis
    by (auto simp: requestIDPattern_def strconv_Itoa_def id_rune_def is_alnum_def list_all_iff Suc_le_eq)
qed

text \<open>What a loop without failed writes does with a list of requests.\<close>

fun serveAll :: "url_parser \<Rightarrow> 'w handler \<Rightarrow> clientFrame list \<Rightarrow> 'w Server \<Rightarrow> serverFrame list \<times> 'w Server" where
  "serveAll url_Parse handler [] s = ([], s)"
| "serveAll url_Parse handler (r # rs) s =
     (case serveRequest url_Parse handler r s of (frame, s') \<Rightarrow>
        case serveAll url_Parse handler rs s' of (frames, s'') \<Rightarrow> (frame # frames, s''))"

lemma serveLoop_requests:
  assumes "writeFrames enc ws rs = (sent, None)" and "concat ps = sent" and "'''' \<notin> set ps"
    and "\<forall>r\<in>set rs. \<forall>body. enc r = Some body \<longrightarrow> dec body = Inr (r, Tail_EOF)"
  shows "serveLoop url_Parse dec handler [] ps s = serveAll url_Parse handler rs s"
  using assms
proof (induction rs arbitrary: ws sent ps s)
  case Nil
  then have "ps = []" by (cases ps) auto
  then show ?case by (simp add: serveLoop.simps [of _ _ _ _ "[]"] readConnFrame_def)
next
  case (Cons r rs)
  from writeFrames_read [OF Cons.prems(1) _ Cons.prems(3,4), of "''''"] Cons.prems(2) obtain ws' sent' ps' where
    w: "writeFrames enc ws' rs = (sent', None)" and p: "readConnFrame dec ps = (Inr r, ps')" "concat ps' = sent'" "'''' \<notin> set ps'" by auto
  from Cons.IH [OF w p(2,3)] Cons.prems(4) p(1) show ?case
    by (subst serveLoop.simps) (simp split: prod.split)
qed

lemma serveRequest_id: "sf_RequestID (fst (serveRequest url_Parse handler r s)) = safeRequestID (cf_RequestID r)"
  by (auto simp: serveRequest_def runCommand_def invalidRequestResponse_def errorResponse_def baseResponse_def snapshotResponse_def safeRequestID_def
      Let_def split: prod.split option.split)

text \<open>A request that reaches the handler.\<close>

definition runnable :: "url_parser \<Rightarrow> clientFrame \<Rightarrow> bool" where
  "runnable url_Parse r \<longleftrightarrow>
     cf_Type r = ''request'' \<and> requestIDPattern (cf_RequestID r) \<and> cf_Version r = 0 \<and> \<not> cf_Subscribe r \<and> cf_Operation r = ''command''
     \<and> (\<exists>c. cf_Command r = Some c \<and> Command_validate url_Parse c = None)"

lemma serveRequest_jobs: "srv_jobs (snd (serveRequest url_Parse handler r s)) = srv_jobs s + (if runnable url_Parse r then 1 else 0)"
  by (auto simp: serveRequest_def runCommand_def runnable_def Let_def split: prod.split option.split)


text \<open>
  C26. A command that the client sends reaches the handler of the application as it was sent, with the next job
  number, and \<open>Send\<close> returns that number exactly if the handler took the command.
\<close>

theorem command_exchange:
  assumes req: "Client_request ''command'' (Some c) cl = (Inr request, cl')" and ids: "cl_nextID cl + 1 < 2 ^ 64"
    and valid: "Command_validate url_Parse c = None"
    and run: "handler (c\<lparr> cmd_JobID := jobID (srv_jobs s + 1) \<rparr>) (srv_app s) = (err, app)"
    and written: "writeFrames enc ws [request] = (sent, None)" and ps: "concat ps = sent" "'''' \<notin> set ps"
    and dec: "\<forall>body. enc request = Some body \<longrightarrow> dec body = Inr (request, Tail_EOF)"
  shows "\<exists>frame s'. serveLoop url_Parse dec handler [] ps s = ([frame], s') \<and> srv_app s' = app
    \<and> map_of (cl_delivered (receiveFrame marshal frame cl')) (cf_RequestID request) = Some frame
    \<and> sendResult frame = (if err = None then Inr \<lparr> ack_Queued = True, ack_JobID = jobID (srv_jobs s + 1) \<rparr> else Inl (errors_New ''ipc: command was not queued''))"
proof -
  let ?id = "strconv_Itoa (int (cl_nextID cl + 1))"
  from req have r: "request = requestFrame (cl_nextID cl + 1) ''command'' (Some c)" and cl': "?id \<in> set (cl_pending cl')"
    by (auto simp: Client_request_def Let_def requestFrame_def split: option.splits)
  have id: "requestIDPattern ?id" using requestID_Itoa [OF ids] .
  obtain frame s' where fs: "serveRequest url_Parse handler request s = (frame, s')" by (rule prod.exhaust)
  then have frame: "frame = (if err \<noteq> None then errorResponse ?id ''command_rejected'' ''command was not queued''
        else (baseResponse ?id)\<lparr> sf_Acknowledgement := Some \<lparr> ack_Queued = True, ack_JobID = jobID (srv_jobs s + 1) \<rparr> \<rparr>)"
    and app: "srv_app s' = app"
    using id valid run by (auto simp: r serveRequest_def runCommand_def requestFrame_def Let_def)
  have "serveLoop url_Parse dec handler [] ps s = ([frame], s')"
    using serveLoop_requests [OF written ps, of dec url_Parse handler s] dec fs by simp
  moreover have "map_of (cl_delivered (receiveFrame marshal frame cl')) (cf_RequestID request) = Some frame"
    using id cl' by (simp add: r requestFrame_def frame receiveFrame_def errorResponse_def baseResponse_def Let_def)
  moreover have "sendResult frame = (if err = None then Inr \<lparr> ack_Queued = True, ack_JobID = jobID (srv_jobs s + 1) \<rparr>
      else Inl (errors_New ''ipc: command was not queued''))"
    by (simp add: frame sendResult_def errorResponse_def baseResponse_def errorFromProtocol_def)
  ultimately show ?thesis using app by blast
qed

section \<open>Published snapshots reach the clients\<close>

datatype server_event = Published CoreSnapshot | Connected nat | Answered serverFrame | Sent nat serverFrame | Disconnected nat | Closed

text \<open>Producers, connections and the goroutines that write events, in any order.\<close>

inductive server_step :: "(serverFrame \<Rightarrow> bytes option) \<Rightarrow> url_parser \<Rightarrow> 'w handler \<Rightarrow> 'w Server \<Rightarrow> server_event \<Rightarrow> 'w Server \<Rightarrow> bool"
  for marshal :: "serverFrame \<Rightarrow> bytes option" and url_Parse :: url_parser and handler :: "'w handler" where
  publish: "Publish marshal snapshot s = (err, t) \<Longrightarrow> server_step marshal url_Parse handler s (Published snapshot) t"
| connect: "addClient k (newServerClient subscribe) subscribe s = (added, t) \<Longrightarrow> server_step marshal url_Parse handler s (Connected k) t"
| answer: "serveRequest url_Parse handler request s = (frame, t) \<Longrightarrow> server_step marshal url_Parse handler s (Answered frame) t"
| writeSnapshots: "map_of (srv_clients s) k = Some c \<Longrightarrow> scl_events c = Some snapshot \<Longrightarrow>
    server_step marshal url_Parse handler s (Sent k (eventFrame snapshot)) (s\<lparr> srv_clients := AList.update k (c\<lparr> scl_events := None \<rparr>) (srv_clients s) \<rparr>)"
| disconnect: "server_step marshal url_Parse handler s (Disconnected k) (removeClient k s)"
| close: "server_step marshal url_Parse handler s Closed (Server_Close s)"

inductive_simps answered_iff: "server_step marshal url_Parse handler s (Answered frame) t"
inductive_simps sent_iff: "server_step marshal url_Parse handler s (Sent k frame) t"

definition server_init :: "(serverFrame \<Rightarrow> bytes option) \<Rightarrow> 'w Server \<Rightarrow> bool" where
  "server_init marshal s \<longleftrightarrow> (\<exists>initial app. NewServer marshal initial app = Inr s)"

text \<open>A pending event is a valid snapshot, and the current one unless the connection is already closed. Clients that did
  not subscribe have none.\<close>

definition client_ok :: "(serverFrame \<Rightarrow> bytes option) \<Rightarrow> CoreSnapshot \<Rightarrow> serverClient \<Rightarrow> bool" where
  "client_ok marshal current c \<longleftrightarrow>
     (case scl_events c of
        None \<Rightarrow> True
      | Some snapshot \<Rightarrow> ipc_validateSnapshot marshal snapshot = None \<and> (scl_done c \<or> snapshot = current) \<and> scl_subscribed c)"

definition server_ok :: "(serverFrame \<Rightarrow> bytes option) \<Rightarrow> 'w Server \<Rightarrow> bool" where
  "server_ok marshal s \<longleftrightarrow>
     ipc_validateSnapshot marshal (srv_snapshot s) = None \<and> (\<forall>(k, c)\<in>set (srv_clients s). client_ok marshal (srv_snapshot s) c)"

lemma client_ok_offer: "client_ok marshal old c \<Longrightarrow> ipc_validateSnapshot marshal snapshot = None \<Longrightarrow> client_ok marshal snapshot (offer snapshot c)"
  by (auto simp: client_ok_def offer_def split: option.splits)

lemma client_ok_simps [simp]: "client_ok marshal current (newServerClient subscribe)" "client_ok marshal current (c\<lparr> scl_events := None \<rparr>)"
  "client_ok marshal current c \<Longrightarrow> client_ok marshal current (shutdown c)"
  by (auto simp: client_ok_def newServerClient_def shutdown_def split: option.splits)

lemma clients_update:
  assumes "\<forall>(k, c)\<in>set clients. client_ok marshal current c" and "client_ok marshal current c"
  shows "\<forall>(k, c)\<in>set (AList.update k c clients). client_ok marshal current c"
  using assms set_AList_update [of k c clients] by fast

lemma serveRequest_server: "srv_snapshot (snd (serveRequest url_Parse handler r s)) = srv_snapshot s"
  "srv_clients (snd (serveRequest url_Parse handler r s)) = srv_clients s"
  by (auto simp: serveRequest_def runCommand_def Let_def split: prod.split option.split)

lemma set_AList_delete: "set (AList.delete k xs) \<subseteq> set xs"
  by (auto simp: AList.delete_eq)

interpretation ipc: inductive_invariant "server_init marshal" "server_step marshal url_Parse handler" "server_ok marshal" for marshal url_Parse handler
proof unfold_locales
  fix s :: "'a Server" assume "server_init marshal s"
  then show "server_ok marshal s" by (auto simp: server_init_def NewServer_def server_ok_def split: option.splits)
next
  fix s t :: "'a Server" and e assume ok: "server_ok marshal s" and step: "server_step marshal url_Parse handler s e t"
  from step show "server_ok marshal t"
  proof (cases rule: server_step.cases)
    case (publish snapshot err)
    with ok show ?thesis
      by (cases "ipc_validateSnapshot marshal snapshot") (auto simp: Publish_def server_ok_def intro!: client_ok_offer [where old = "srv_snapshot s"])
  next
    case (connect k subscribe added)
    let ?c = "if subscribe then offer (srv_snapshot s) (newServerClient subscribe) else newServerClient subscribe"
    have "client_ok marshal (srv_snapshot s) ?c" using ok by (auto simp: server_ok_def intro: client_ok_offer)
    from clients_update [OF _ this, of "srv_clients s" k] connect ok show ?thesis
      by (auto simp: addClient_def server_ok_def split: if_splits)
  next
    case (answer request frame)
    with ok serveRequest_server [of url_Parse handler request s] show ?thesis by (simp add: server_ok_def)
  next
    case (writeSnapshots k c snapshot)
    with ok clients_update [of "srv_clients s" marshal "srv_snapshot s" "c\<lparr> scl_events := None \<rparr>" k] show ?thesis
      by (simp add: server_ok_def)
  next
    case (disconnect k)
    with ok set_AList_delete [of k "srv_clients s"] show ?thesis by (auto simp: server_ok_def removeClient_def)
  next
    case close
    with ok show ?thesis by (auto simp: server_ok_def Server_Close_def)
  qed
qed

text \<open>Encoding as JSON: with a well-formed identifier in place of one of 64 digits, or as an event without identifier, the
  frame of a snapshot is not longer. Such identifiers consist of characters that are not escaped.\<close>

definition frame_sizes :: "(serverFrame \<Rightarrow> bytes option) \<Rightarrow> CoreSnapshot \<Rightarrow> string \<Rightarrow> bool" where
  "frame_sizes marshal snapshot ident \<longleftrightarrow>
     (case marshal (snapshotResponse (replicate 64 (CHR ''0'')) snapshot) of
        None \<Rightarrow> True
      | Some largest \<Rightarrow>
          list_all (\<lambda>frame. case marshal frame of None \<Rightarrow> False | Some body \<Rightarrow> body \<noteq> '''' \<and> length body \<le> length largest)
            [snapshotResponse ident snapshot, eventFrame snapshot])"

text \<open>A frame fits on the connection.\<close>

definition sendable :: "(serverFrame \<Rightarrow> bytes option) \<Rightarrow> serverFrame \<Rightarrow> bool" where
  "sendable marshal frame \<longleftrightarrow> (\<exists>body. marshal frame = Some body \<and> writeFrame marshal [] frame = (frameBytes body, None, []))"

lemma sendable_snapshot:
  assumes "ipc_validateSnapshot marshal snapshot = None" and "frame_sizes marshal snapshot ident"
  shows "sendable marshal (snapshotResponse ident snapshot)" and "sendable marshal (eventFrame snapshot)"
proof -
  from assms(1) obtain largest where "marshal (snapshotResponse (replicate 64 (CHR ''0'')) snapshot) = Some largest" "length largest \<le> MaxFrameSize"
    by (auto simp: ipc_validateSnapshot_def checkEncoded_def split: option.splits sum.splits prod.splits if_splits)
  with assms(2) show "sendable marshal (snapshotResponse ident snapshot)" and "sendable marshal (eventFrame snapshot)"
    by (auto simp: frame_sizes_def sendable_def writeFrame_def frameBytes_def split: option.splits)
qed


section \<open>An example\<close>

text \<open>An empty snapshot, a codec for the frames at hand, and a handler that counts the commands.\<close>

definition exSnapshot :: CoreSnapshot where
  "exSnapshot = \<lparr> snap_Revision = 1, snap_ActiveSource = ''none'', snap_ServiceRunning = False, snap_ConfigOverrides = [], snap_Groups = [], snap_Proxies = [],
     snap_Subscriptions = [], snap_Resources = [], snap_Filters = [],
     snap_Binary = \<lparr> bin_Desired = ''system'', bin_ObservedVersion = '''', bin_LastCompatibilityFailure = '''', bin_Capabilities = [] \<rparr>,
     snap_Monitor = \<lparr> mon_Enabled = False, mon_TestURL = '''', mon_SwitchPolicy = '''', mon_StreamURLConfigured = False, mon_StreamIntervalSeconds = 0,
       mon_URLTestIntervalSeconds = 0, mon_URLTestToleranceMillis = 0, mon_IntervalSeconds = 0, mon_TimeoutMillis = 0, mon_Concurrency = 0,
       mon_ThresholdMillis = 0, mon_AlertThresholdMillis = 0, mon_ConsecutiveBadSamples = 0, mon_WindowSize = 0, mon_MinCandidateSamples = 0,
       mon_MaxFailures = 0, mon_MinImprovementMillis = 0, mon_CooldownSeconds = 0, mon_JitterMillis = 0, mon_AutoFastest = False \<rparr>,
     snap_DNS = \<lparr> dnss_Listen = '''', dnss_ResolverSets = [], dnss_Routes = [] \<rparr>, snap_SystemProxy = \<lparr> spx_Enabled = False, spx_Active = False \<rparr>,
     snap_MixedPort = 7899, snap_ProxyMode = ''rule'',
     snap_Tun = \<lparr> tuns_Enabled = False, tuns_Active = False, tuns_Stack = '''', tuns_DNSMode = '''', tuns_Privilege = '''', tuns_PrivilegedPath = '''',
       tuns_Device = '''', tuns_LastFailure = '''', tuns_Leftover = False \<rparr>,
     snap_Jobs = [], snap_FinishedJobs = [], snap_Switches = [], snap_Errors = [], snap_Diagnostics = [] \<rparr>"

definition exMarshal :: "serverFrame \<Rightarrow> bytes option" where "exMarshal frame = Some ''{}''"

definition exServer :: "nat Server" where
  "exServer = \<lparr> srv_snapshot = exSnapshot, srv_clients = [], srv_closed = False, srv_jobs = 0, srv_app = 0 \<rparr>"

definition exHandler :: "nat handler" where "exHandler c n = (None, n + 1)"

definition exCommand :: Command where
  "exCommand = \<lparr> cmd_Kind = CommandStart, cmd_GroupID = '''', cmd_ChoiceID = '''', cmd_SubscriptionID = '''', cmd_ResourceID = '''', cmd_FilterID = '''',
     cmd_Config = None, cmd_Automation = None, cmd_Subscription = None, cmd_Resource = None, cmd_Filter = None, cmd_DNSRouting = None, cmd_JobID = '''' \<rparr>"

definition exClient :: Client where
  "exClient = \<lparr> cl_nextID = 0, cl_pending = [], cl_delivered = [], cl_events = None, cl_terminal = None \<rparr>"

lemma exServer_init: "server_init exMarshal exServer"
proof -
  have "ipc_validateSnapshot exMarshal exSnapshot = None"
    unfolding ipc_validateSnapshot_iff
    by (simp add: exSnapshot_def exMarshal_def header_ok_def entries_ok_def tunSnapshotOK_def badText_def strings_ContainsAny_def strings_Contains.simps
        snapshot_items_def snapshot_texts_def listSizes_def MaxFrameSize_def)
  then show ?thesis unfolding server_init_def NewServer_def exServer_def by (intro exI [of _ exSnapshot] exI [of _ 0]) simp
qed

lemma exItoa: "strconv_Itoa 1 = ''1''"
  by code_simp

lemma exCommand_valid: "Command_validate url_Parse exCommand = None"
  by (simp add: Command_validate_def validateKind_def hasOtherFields_def hasOtherTarget_def exCommand_def)

lemma exWritten: "writeFrames (\<lambda>_. Some ''{}'') [] [r] = (frameBytes ''{}'', None)" "concat [frameBytes ''{}''] = frameBytes ''{}''"
  by (simp_all add: writeFrame_def frameBytes_def MaxFrameSize_def)

lemma exPieces: "'''' \<notin> set [frameBytes ''{}'']"
  by (simp add: frameBytes_def)

abbreviation exRequest :: clientFrame where "exRequest \<equiv> requestFrame 1 ''command'' (Some exCommand)"


theorem command_exchange_witness:
  "\<exists>frame s'. serveLoop (\<lambda>_. None) (\<lambda>_. Inr (exRequest, Tail_EOF)) exHandler [] [frameBytes ''{}''] exServer = ([frame], s') \<and> srv_app s' = 1
     \<and> sendResult frame = Inr \<lparr> ack_Queued = True, ack_JobID = ''ipc-1'' \<rparr>"
proof -
  have req: "Client_request ''command'' (Some exCommand) exClient = (Inr exRequest, exClient\<lparr> cl_nextID := 1, cl_pending := [cf_RequestID exRequest] \<rparr>)"
    by (simp add: Client_request_def exClient_def Let_def)
  have jobs: "srv_jobs exServer = 0" "srv_app exServer = 0" "jobID (0 + 1) = ''ipc-1''" by (simp_all add: exServer_def jobID_def exItoa)
  have run: "exHandler (exCommand\<lparr> cmd_JobID := jobID (srv_jobs exServer + 1) \<rparr>) (srv_app exServer) = (None, 1)" by (simp add: exHandler_def jobs)
  have ids: "cl_nextID exClient + 1 < 2 ^ 64" by (simp add: exClient_def)
  from command_exchange [where handler = exHandler and s = exServer and dec = "\<lambda>_. Inr (exRequest, Tail_EOF)" and url_Parse = "\<lambda>_. None" and marshal = exMarshal,
      OF req ids exCommand_valid run exWritten(1) exWritten(2) exPieces]
  show ?thesis unfolding jobs by auto
qed


end
