(* ===== verification/Spec2Isabelle.thy ===== *)
theory Spec2Isabelle
  imports Monitor_Run_Examples Config_Store Dns_Policy Recovery_Gaps App_Activation Ipc_Server
begin

text \<open>
  A verification library for ClashPulse, a desktop client for the Mihomo proxy written in Go. The theories model the
  parts of the program that decide, store and recover, definition by definition from the Go sources under \<open>src/\<close>, and
  prove what those parts promise.

  \<^bold>\<open>The program.\<close> A configuration snapshot (\<open>src/config\<close>) is loaded, completed with defaults, validated and kept in a
  store that tells its subscribers what changed. From it the program derives filter rules (\<open>src/filters\<close>) and DNS routes
  (\<open>src/dns\<close>). Managed resource files (\<open>src/resources\<close>) are downloaded (\<open>src/download\<close>) or read, validated, staged as a plan,
  and promoted over the files in use by a transaction with a journal. Subscriptions (\<open>src/subscriptions\<close>) are
  downloaded profiles with generations on disk; activating one commits resources and the active marker together, with
  a pending marker that ties the two stores across a crash. The monitor (\<open>src/monitor\<close>) probes the proxies of each group
  and decides when to switch and when to warn. The application (\<open>src/app\<close>) ties these together: it applies a rendered
  configuration to the Mihomo process, together with a plan of resources where one is needed, and takes both back when a
  step fails. What it shows is a snapshot without secrets (\<open>src/core\<close>), which the user interfaces get, as they send their
  commands, over a local connection (\<open>src/ipc\<close>).

  \<^bold>\<open>Theories and sources.\<close>

  \<^item> \<open>Go_Base\<close>, \<open>Go_Net\<close>, \<open>Go_IO\<close>: the fragment of Go and its library that the packages use. Strings and byte slices are
    HOL strings; machine integers are \<open>int\<close> with wrap-around written out where it can occur; errors are values of
    \<open>go_error\<close>; \<open>sort.Slice\<close> is a locale with the insertion sort of short slices as its interpretation. \<open>Go_IO\<close> gives programs on a
    state and a list of faults, one for each operation of the operating system: it works, fails before or after
    taking effect, or the process dies before or after it. \<open>wp\<close> speaks about all faults, \<open>runs\<close> about the absence of them.
  \<^item> \<open>Monitor_Types\<close>, \<open>Monitor_Policy\<close>, \<open>Monitor_Steady\<close>, \<open>Monitor_Scheduler\<close>, \<open>Monitor_Run\<close>, \<open>Monitor_Run_Examples\<close>: \<open>model.go\<close>,
    \<open>policy.go\<close>, \<open>steady.go\<close> and \<open>scheduler.go\<close> of \<open>src/monitor\<close>. The run loop, its workers and the callers are an
    interleaving step relation.
  \<^item> \<open>Config_Types\<close>, \<open>Config_Load\<close>, \<open>Config_Store\<close>: \<open>types.go\<close>, \<open>load.go\<close> and \<open>store.go\<close> of \<open>src/config\<close>.
  \<^item> \<open>Filters_Registry\<close>, \<open>Dns_Policy\<close>: \<open>src/filters/registry.go\<close> and \<open>src/dns/policy.go\<close>.
  \<^item> \<open>Download_Client\<close>, \<open>Core_Activation\<close>: \<open>src/download/client.go\<close> and \<open>src/core/activation.go\<close>.
  \<^item> \<open>Resources_Validate\<close>, \<open>Resources_Manifest\<close>, \<open>Resources_Transaction\<close>, \<open>Resources_Registry\<close>, \<open>Resources_Plan\<close>: the files of
    \<open>src/resources\<close>. \<open>Resources_Recovery\<close>, \<open>Resources_Staging\<close> and \<open>Resources_Commit\<close> hold the proofs about them.
  \<^item> \<open>Subscriptions_Store\<close>, \<open>Subscriptions_Service\<close>: \<open>store.go\<close>, \<open>model.go\<close>, \<open>fetch.go\<close> and \<open>usage.go\<close> of \<open>src/subscriptions\<close>.
    \<open>Subscriptions_Integrity\<close>, \<open>Subscriptions_Operations\<close> and \<open>Subscriptions_Safety\<close> hold the invariant and its preservation.
    \<open>Subscriptions_Activation\<close> states what an activation needs of the application as the locale \<open>resource_commit\<close>.
  \<^item> \<open>App_Lifecycle\<close>, \<open>App_Activation\<close>: \<open>src/app/lifecycle.go\<close> with the callbacks of \<open>src/app/service.go\<close>; the second theory
    interprets \<open>resource_commit\<close> on them.
  \<^item> \<open>Core_Snapshot\<close>, \<open>Ipc_Protocol\<close>, \<open>Ipc_Frame\<close>, \<open>Ipc_Server\<close>: \<open>src/core/snapshot.go\<close>, and \<open>protocol.go\<close>, \<open>frame.go\<close>, \<open>server.go\<close>
    and \<open>client.go\<close> of \<open>src/ipc\<close>. The server with its connections and producers is a step relation.
  \<^item> \<open>Recovery_Gaps\<close>: concrete runs that end in a state the next start refuses.

  \<^bold>\<open>What is shown.\<close>

  \<^item> Resources: a promotion that fails or dies anywhere is undone at the next start; acceptance is atomic; a plan that was
    staged, validated and committed serves exactly the enabled resources of its configuration, and everything before is
    undone otherwise. The journal protocol is an instance of the locale \<open>recoverable_update\<close>.
  \<^item> Subscriptions: no operation of the service, whatever fails in it, makes the store unopenable or loses the active
    generation.
  \<^item> Activation: the resources and the active subscription change together. Wherever the application fails or dies on the
    way from staging to acceptance, the commit of the resources that the next start recovers decides which subscription
    it opens.
  \<^item> Protocol: which commands and snapshots are accepted; frames are read as they were written; every request gets its
    answer; a published snapshot fits into a frame and is accepted by the clients, and events
    on an open connection are current.
  \<^item> Monitor: a switch goes to a better candidate with enough evidence and outside the cooldown, failover needs
    failures, decisions do not depend on the order of samples, alerts follow their state machine; the scheduler
    accounts for every probe, loses no wake-up, keeps histories bounded, completes its batches and delivers only
    decisions that are current. The invariant of the step relation is one interpretation of \<open>inductive_invariant\<close>.
  \<^item> Configuration: what validation accepts, rule by rule; defaults are stable and valid; subscribers are called exactly
    for the sections that changed. Filters and DNS: what validation accepts can be built, parsers agree, rule lines have the
    fields they should.
  \<^item> Downloads: contacted addresses, headers sent to other origins, and sizes are bounded.

  \<^bold>\<open>Parameters.\<close> SHA-256, the YAML parser, regular expressions, \<open>url.Parse\<close>, the JSON codec of frames, the HTTP transport, the
  clock, random identifiers, and the rendering and inspection of Mihomo configurations are arguments. Theorems that need it
  assume that digests are 64 hexadecimal digits (\<open>sha_ok\<close>, \<open>ext_ok\<close>), and those about the protocol that a frame is decoded as it
  was encoded and does not grow with a shorter identifier (\<open>frame_sizes\<close>). JSON files hold documents or are unreadable; an atomic write replaces the whole document or
  fails without effect, except where the code reports an error after the rename took effect.

  \<^bold>\<open>Bounds.\<close> Every loop of the modelled code is structural recursion over a list or has a measure, so no fuel is used; the
  redirect loop of a download ends by its own counter. File names of a
  transaction carry an index of eight hexadecimal digits; theorems about promotions therefore assume at most \<open>16 ^ 8\<close> files.

  \<^bold>\<open>Not modelled.\<close> Mutexes and goroutines outside the monitor and the server: an operation that holds a lock is one
  program. The encoding of JSON, TOML and YAML, and so the rendering in \<open>src/mihomo\<close>. The service loop and the commands of
  \<open>src/app\<close>, what it publishes, and Mihomo itself, of which the model knows what runs and which groups it has. Sockets and
  deadlines (\<open>src/ipc\<close>), the system proxy and the tunnel device (\<open>src/sysproxy\<close>, \<open>src/tun\<close>): these call the operating
  system. The timer that refreshes subscriptions (\<open>src/subscriptions/scheduler.go\<close>). Writing and watching configuration files.
  The user interfaces and their texts (\<open>src/ui\<close>, \<open>src/tui\<close>, \<open>src/localize\<close>, \<open>src/cmd\<close>).
\<close>

end
